(* ===== verification/Go_Base.thy ===== *)
theory Go_Base
  imports Main "HOL-Library.AList" "HOL-Library.Multiset" "HOL-Library.List_Lexorder"
    "HOL-Library.Char_ord" "HOL-Library.Sublist" "HOL-Library.Monad_Syntax"
begin

text \<open>
  The part of the Go language and of its standard library that every component uses, and the
  generic lemmas the component proofs share: maps, slices and sorting. Strings are in
  \<^verbatim>\<open>Go_Strings\<close>, floating-point numbers in \<^verbatim>\<open>Go_Float\<close>, error values in \<^verbatim>\<open>Go_Errors\<close>.

  \<^item> A Go map is an association list with distinct keys (\<open>wf_map\<close>). The order in which Go
    iterates over a map is not specified, and it is the order of the list here: a statement for
    every association list is a statement for every iteration order. A map that is only looked up
    is a partial function.
  \<^item> \<open>sort_slice\<close> is the insertion sort that \<^verbatim>\<open>sort.Slice\<close> runs on short slices, which is
    stable, so it also models \<^verbatim>\<open>sort.SliceStable\<close>. On longer slices \<^verbatim>\<open>sort.Slice\<close> may order
    elements that compare equal differently; the lemmas used downstream are about the multiset of
    the elements and about the order of elements that compare different.
  \<^item> Times are instants in nanoseconds, durations are nanoseconds; both are integers.
\<close>

named_theorems go_simps \<open>equations of the language model that component proofs rewrite with\<close>
named_theorems go_defs \<open>definitions of constants (label keys, durations) a proof unfolds\<close>

type_synonym ('k, 'v) gomap = "('k \<times> 'v) list"
type_synonym labels = "(string, string) gomap"
type_synonym instant = int
type_synonym duration = int

subsection \<open>Maps\<close>

definition wf_map :: "('k, 'v) gomap \<Rightarrow> bool" where
  "wf_map m \<longleftrightarrow> distinct (map fst m)"

definition map_get :: "('k, 'v) gomap \<Rightarrow> 'k \<Rightarrow> 'v option" where
  "map_get m k = map_of m k"

definition map_has :: "('k, 'v) gomap \<Rightarrow> 'k \<Rightarrow> bool" where
  "map_has m k \<longleftrightarrow> map_of m k \<noteq> None"

definition map_set :: "'k \<Rightarrow> 'v \<Rightarrow> ('k, 'v) gomap \<Rightarrow> ('k, 'v) gomap" where
  "map_set k v m = AList.update k v m"

definition map_del :: "'k \<Rightarrow> ('k, 'v) gomap \<Rightarrow> ('k, 'v) gomap" where
  "map_del k m = AList.delete k m"

text \<open>Reading a map of strings at a missing key gives the empty string, Go's zero value.\<close>

definition map_str :: "('k, string) gomap \<Rightarrow> 'k \<Rightarrow> string" where
  "map_str m k = (case map_of m k of None \<Rightarrow> [] | Some v \<Rightarrow> v)"

text \<open>\<^verbatim>\<open>maps.Copy(dst, src)\<close>: every entry of the source is stored in the destination.\<close>

fun map_copy :: "('k, 'v) gomap \<Rightarrow> ('k, 'v) gomap \<Rightarrow> ('k, 'v) gomap" where
  "map_copy dst [] = dst"
| "map_copy dst ((k, v) # src) = map_copy (map_set k v dst) src"

text \<open>A map literal: later entries win, as assignments in order would.\<close>

definition map_lit :: "('k \<times> 'v) list \<Rightarrow> ('k, 'v) gomap" where
  "map_lit kvs = map_copy [] kvs"

subsection \<open>Slices\<close>

text \<open>\<^verbatim>\<open>lo.Uniq\<close>: the first occurrence of every element, in order.\<close>

fun uniq_acc :: "'a list \<Rightarrow> 'a list \<Rightarrow> 'a list" where
  "uniq_acc seen [] = []"
| "uniq_acc seen (x # xs) = (if x \<in> set seen then uniq_acc seen xs else x # uniq_acc (x # seen) xs)"

definition uniq :: "'a list \<Rightarrow> 'a list" where
  "uniq xs = uniq_acc [] xs"

text \<open>\<^verbatim>\<open>lo.MinBy\<close>: the first of the least elements.\<close>

fun min_by_acc :: "('a \<Rightarrow> 'a \<Rightarrow> bool) \<Rightarrow> 'a \<Rightarrow> 'a list \<Rightarrow> 'a" where
  "min_by_acc lt m [] = m"
| "min_by_acc lt m (x # xs) = min_by_acc lt (if lt x m then x else m) xs"

fun min_by :: "('a \<Rightarrow> 'a \<Rightarrow> bool) \<Rightarrow> 'a list \<Rightarrow> 'a option" where
  "min_by lt [] = None"
| "min_by lt (x # xs) = Some (min_by_acc lt x xs)"

text \<open>
  Insertion sort as \<^verbatim>\<open>sort.Slice\<close> runs it: each element moves left past the elements it is less
  than. The sorted prefix is kept reversed, so that its last element is at hand.
\<close>

fun sift :: "('a \<Rightarrow> 'a \<Rightarrow> bool) \<Rightarrow> 'a \<Rightarrow> 'a list \<Rightarrow> 'a list" where
  "sift lt x [] = [x]"
| "sift lt x (y # ys) = (if lt x y then y # sift lt x ys else x # y # ys)"

fun sift_all :: "('a \<Rightarrow> 'a \<Rightarrow> bool) \<Rightarrow> 'a list \<Rightarrow> 'a list \<Rightarrow> 'a list" where
  "sift_all lt acc [] = acc"
| "sift_all lt acc (x # xs) = sift_all lt (sift lt x acc) xs"

definition sort_slice :: "('a \<Rightarrow> 'a \<Rightarrow> bool) \<Rightarrow> 'a list \<Rightarrow> 'a list" where
  "sort_slice lt xs = rev (sift_all lt [] xs)"

text \<open>\<^verbatim>\<open>sort.Strings\<close>: Go compares strings byte by byte, which is the lexicographic order of
  \<open>string\<close> over the order of characters by code.\<close>

definition sort_strings :: "string list \<Rightarrow> string list" where
  "sort_strings xs = sort_slice (<) xs"

subsection \<open>Lemmas on maps\<close>

lemma set_map_set_sub: "set (map_set k v m) \<subseteq> insert (k, v) (set m)"
  by (induction m) (auto simp: map_set_def)

lemma map_of_map_set [simp, go_simps]: "map_of (map_set k v m) = (map_of m)(k \<mapsto> v)"
  by (simp add: map_set_def update_conv')

lemma map_of_map_del [simp, go_simps]: "map_of (map_del k m) = (map_of m)(k := None)"
  by (simp add: map_del_def delete_conv')

lemma map_get_eq [simp]: "map_get m k = map_of m k"
  by (simp add: map_get_def)

lemma map_str_map_set [simp]: "map_str (map_set k v m) k' = (if k = k' then v else map_str m k')"
  by (simp add: map_str_def)

lemma wf_map_Nil [simp, intro]: "wf_map []"
  by (simp add: wf_map_def)

lemma wf_map_set [simp, intro]: "wf_map m \<Longrightarrow> wf_map (map_set k v m)"
  by (simp add: wf_map_def map_set_def distinct_update)

lemma wf_map_del [simp, intro]: "wf_map m \<Longrightarrow> wf_map (map_del k m)"
  by (simp add: wf_map_def map_del_def distinct_delete)

lemma wf_map_copy [simp, intro]: "wf_map dst \<Longrightarrow> wf_map (map_copy dst src)"
  by (induction dst src rule: map_copy.induct) auto

lemma wf_map_lit [simp, intro]: "wf_map (map_lit kvs)"
  by (simp add: map_lit_def)

lemma map_of_map_copy: "wf_map src \<Longrightarrow> map_of (map_copy dst src) = map_of dst ++ map_of src"
proof (induction dst src rule: map_copy.induct)
  case (1 dst)
  then show ?case by simp
next
  case (2 dst k v src)
  from "2.prems" have k: "k \<notin> dom (map_of src)" and wf: "wf_map src"
    by (auto simp: wf_map_def dom_map_of_conv_image_fst)
  have "map_of (map_copy dst ((k, v) # src)) = map_of (map_set k v dst) ++ map_of src"
    by (simp only: map_copy.simps "2.IH" [OF wf])
  also have "\<dots> = (map_of dst ++ map_of src)(k \<mapsto> v)"
    unfolding map_of_map_set using k by (rule map_add_upd_left)
  finally show ?case
    by (simp only: map_of.simps(2) fst_conv snd_conv map_add_upd)
qed

lemma map_of_map_copy_get:
  "wf_map src \<Longrightarrow> map_of (map_copy dst src) k = (case map_of src k of Some v \<Rightarrow> Some v | None \<Rightarrow> map_of dst k)"
  by (simp add: map_of_map_copy map_add_def)

lemma map_of_map_copy_other: "k \<notin> fst ` set src \<Longrightarrow> map_of (map_copy dst src) k = map_of dst k"
  by (induction dst src rule: map_copy.induct) auto

lemma wf_map_map_of_iff: "wf_map m \<Longrightarrow> map_of m k = Some v \<longleftrightarrow> (k, v) \<in> set m"
  by (simp add: wf_map_def)

subsection \<open>Lemmas on slices\<close>

lemma set_uniq_acc: "set (uniq_acc seen xs) = set xs - set seen"
  by (induction seen xs rule: uniq_acc.induct) auto

lemma set_uniq [simp]: "set (uniq xs) = set xs"
  by (simp add: uniq_def set_uniq_acc)

lemma distinct_uniq_acc: "distinct (uniq_acc seen xs)"
  by (induction seen xs rule: uniq_acc.induct) (auto simp: set_uniq_acc)

lemma distinct_uniq [simp]: "distinct (uniq xs)"
  by (simp add: uniq_def distinct_uniq_acc)

lemma uniq_acc_distinct: "distinct xs \<Longrightarrow> set xs \<inter> set seen = {} \<Longrightarrow> uniq_acc seen xs = xs"
  by (induction seen xs rule: uniq_acc.induct) auto

lemma uniq_distinct [simp]: "distinct xs \<Longrightarrow> uniq xs = xs"
  by (simp add: uniq_def uniq_acc_distinct)

lemma uniq_Nil [simp]: "uniq [] = []"
  by (simp add: uniq_def)

lemma hd_uniq [simp]: "hd (uniq (x # xs)) = x"
  by (simp add: uniq_def)

lemma min_by_acc_mem: "min_by_acc lt m xs \<in> insert m (set xs)"
  by (induction lt m xs rule: min_by_acc.induct) auto

lemma min_by_mem: "min_by lt xs = Some x \<Longrightarrow> x \<in> set xs"
  using min_by_acc_mem by (cases xs) fastforce+

lemma min_by_Some [simp]: "(min_by lt xs = None) \<longleftrightarrow> xs = []"
  by (cases xs) auto

lemma mset_sift [simp]: "mset (sift lt x ys) = add_mset x (mset ys)"
  by (induction lt x ys rule: sift.induct) auto

lemma mset_sift_all: "mset (sift_all lt acc xs) = mset acc + mset xs"
  by (induction lt acc xs rule: sift_all.induct) auto

lemma mset_sort_slice [simp]: "mset (sort_slice lt xs) = mset xs"
  by (simp add: sort_slice_def mset_sift_all)

lemma set_sort_slice [simp]: "set (sort_slice lt xs) = set xs"
  by (metis mset_sort_slice set_mset_mset)

lemma length_sort_slice [simp]: "length (sort_slice lt xs) = length xs"
  by (metis mset_sort_slice size_mset)

lemma distinct_sort_slice [simp]: "distinct (sort_slice lt xs) \<longleftrightarrow> distinct xs"
  by (metis mset_sort_slice mset_eq_imp_distinct_iff)

lemma sort_slice_Nil [simp]: "sort_slice lt [] = []"
  by (simp add: sort_slice_def)

text \<open>The order the slice has after sorting, for a strict weak order.\<close>

definition weak_order :: "('a \<Rightarrow> 'a \<Rightarrow> bool) \<Rightarrow> bool" where
  "weak_order lt \<longleftrightarrow> (\<forall>x y. lt x y \<longrightarrow> \<not> lt y x) \<and> (\<forall>x y z. \<not> lt x y \<longrightarrow> \<not> lt y z \<longrightarrow> \<not> lt x z)"

lemma weak_orderD:
  assumes "weak_order lt"
  shows "lt x y \<Longrightarrow> \<not> lt y x" and "\<not> lt x y \<Longrightarrow> \<not> lt y z \<Longrightarrow> \<not> lt x z"
  using assms unfolding weak_order_def by blast+

lemma weak_order_irrefl: "weak_order lt \<Longrightarrow> \<not> lt x x"
  using weak_orderD(1) by metis

lemma sorted_sift:
  assumes "weak_order lt" "sorted_wrt (\<lambda>x y. \<not> lt x y) ys"
  shows "sorted_wrt (\<lambda>x y. \<not> lt x y) (sift lt x ys)"
  using assms(2)
proof (induction ys)
  case (Cons y ys)
  have set_sift: "set (sift lt x ys) = insert x (set ys)" for ys
    by (metis mset_sift set_mset_add_mset_insert set_mset_mset)
  note wo = weak_orderD [OF assms(1)]
  show ?case
  proof (cases "lt x y")
    case True
    with Cons wo(1) [OF True] show ?thesis by (simp add: set_sift)
  next
    case False
    then have "\<not> lt x z" if "z \<in> set ys" for z
      using Cons.prems that wo(2) [of x y z] by simp
    with Cons.prems False show ?thesis by simp
  qed
qed simp

lemma sorted_sift_all:
  assumes "weak_order lt" "sorted_wrt (\<lambda>x y. \<not> lt x y) acc"
  shows "sorted_wrt (\<lambda>x y. \<not> lt x y) (sift_all lt acc xs)"
  using assms(2) by (induction xs arbitrary: acc) (auto intro: sorted_sift [OF assms(1)])

lemma sorted_sort_slice:
  "weak_order lt \<Longrightarrow> sorted_wrt (\<lambda>x y. \<not> lt y x) (sort_slice lt xs)"
  unfolding sort_slice_def sorted_wrt_rev by (rule sorted_sift_all) simp_all

lemma weak_order_less [simp]: "weak_order ((<) :: 'a::linorder \<Rightarrow> 'a \<Rightarrow> bool)"
  by (auto simp: weak_order_def)

lemma weak_order_key [simp]: "weak_order (\<lambda>x y. (f x :: 'b::linorder) < f y)"
  by (auto simp: weak_order_def)

lemma sorted_sort_strings [simp]: "sorted (sort_strings xs)"
  using sorted_sort_slice [of "(<)" xs] by (simp add: sort_strings_def not_less)

lemma set_sort_strings [simp]: "set (sort_strings xs) = set xs"
  by (simp add: sort_strings_def)

lemma min_by_acc_least:
  "weak_order lt \<Longrightarrow> y \<in> insert m (set xs) \<Longrightarrow> \<not> lt y (min_by_acc lt m xs)"
proof (induction xs arbitrary: m y)
  case (Cons x xs)
  note wo = weak_orderD [OF Cons.prems(1)]
  let ?m = "if lt x m then x else m"
  have IH: "\<not> lt z (min_by_acc lt ?m xs)" if "z \<in> insert ?m (set xs)" for z
    using Cons.IH [OF Cons.prems(1) that] .
  have "\<not> lt x ?m" "\<not> lt m ?m"
    using wo(1) by auto
  then have "\<not> lt x (min_by_acc lt ?m xs)" "\<not> lt m (min_by_acc lt ?m xs)"
    using wo(2) IH by blast+
  with Cons.prems(2) IH show ?case by auto
qed (simp add: weak_order_irrefl)

lemma min_by_least: "weak_order lt \<Longrightarrow> min_by lt xs = Some x \<Longrightarrow> y \<in> set xs \<Longrightarrow> \<not> lt y x"
  by (cases xs) (auto simp: min_by_acc_least)

end
