(* ===== verification/Go_Strings.thy ===== *)
theory Go_Strings
  imports Go_Base
begin

text \<open>
  Go strings are byte strings, and HOL's \<^typ>\<open>string\<close> is a list of 8-bit characters. This theory has
  the functions of the packages \<^verbatim>\<open>strings\<close> and \<^verbatim>\<open>strconv\<close> that the provider calls, for separators
  of one byte where the provider only uses those, and their round trips: joining what was split,
  reading back a printed number, cutting at a separator. White space and letter case are the ASCII
  ones: the resource names, labels and flags of the provider are ASCII.
\<close>

named_theorems str_simps \<open>rewrites on prefixes, cuts, splits and joins\<close>

subsection \<open>Prefixes, suffixes, cuts\<close>

definition has_prefix :: "string \<Rightarrow> string \<Rightarrow> bool" where
  "has_prefix s p \<longleftrightarrow> take (length p) s = p"

definition has_suffix :: "string \<Rightarrow> string \<Rightarrow> bool" where
  "has_suffix s p \<longleftrightarrow> has_prefix (rev s) (rev p)"

definition trim_prefix :: "string \<Rightarrow> string \<Rightarrow> string" where
  "trim_prefix s p = (if has_prefix s p then drop (length p) s else s)"

definition trim_suffix :: "string \<Rightarrow> string \<Rightarrow> string" where
  "trim_suffix s p = (if has_suffix s p then take (length s - length p) s else s)"

fun contains_str :: "string \<Rightarrow> string \<Rightarrow> bool" where
  "contains_str [] p = (p = [])"
| "contains_str (c # s) p = (has_prefix (c # s) p \<or> contains_str s p)"

text \<open>\<^verbatim>\<open>strings.Cut\<close> at a one-byte separator: the text before the first occurrence and, if there is
  one, the text after it.\<close>

fun cut :: "char \<Rightarrow> string \<Rightarrow> string \<times> string option" where
  "cut c [] = ([], None)"
| "cut c (x # s) = (if x = c then ([], Some s) else (case cut c s of (a, b) \<Rightarrow> (x # a, b)))"

text \<open>\<^verbatim>\<open>strings.Index\<close> of a longer separator, as the text before and after its first occurrence.\<close>

fun cut_str :: "string \<Rightarrow> string \<Rightarrow> (string \<times> string) option" where
  "cut_str p [] = (if p = [] then Some ([], []) else None)"
| "cut_str p (x # s) = (if has_prefix (x # s) p then Some ([], drop (length p) (x # s))
     else (case cut_str p s of None \<Rightarrow> None | Some (a, b) \<Rightarrow> Some (x # a, b)))"

text \<open>\<^verbatim>\<open>strings.Split\<close> and \<^verbatim>\<open>strings.Join\<close>.\<close>

fun split_on :: "char \<Rightarrow> string \<Rightarrow> string list" where
  "split_on c [] = [[]]"
| "split_on c (x # s) = (if x = c then [] # split_on c s
     else (case split_on c s of w # ws \<Rightarrow> (x # w) # ws | [] \<Rightarrow> [[x]]))"

fun join :: "string \<Rightarrow> string list \<Rightarrow> string" where
  "join sep [] = []"
| "join sep [w] = w"
| "join sep (w # v # ws) = w @ sep @ join sep (v # ws)"

text \<open>The part of a path after its last separator (\<^verbatim>\<open>path.Base\<close> of a resource URL without a
  trailing slash, or the slice after \<^verbatim>\<open>strings.LastIndex\<close>).\<close>

definition last_segment :: "char \<Rightarrow> string \<Rightarrow> string" where
  "last_segment c s = last (split_on c s)"

text \<open>\<^verbatim>\<open>strings.ReplaceAll\<close> of one byte by a string.\<close>

definition replace_char :: "char \<Rightarrow> string \<Rightarrow> string \<Rightarrow> string" where
  "replace_char c r s = concat (map (\<lambda>x. if x = c then r else [x]) s)"

text \<open>A printed operand of \<^verbatim>\<open>%q\<close> whose characters need no escape.\<close>

definition in_quotes :: "string \<Rightarrow> string" where "in_quotes v = [CHR 0x22] @ v @ [CHR 0x22]"

subsection \<open>White space and letter case\<close>

definition is_space :: "char \<Rightarrow> bool" where
  "is_space c \<longleftrightarrow> c \<in> {CHR '' '', CHR 0x09, CHR 0x0A, CHR 0x0B, CHR 0x0C, CHR 0x0D}"

definition trim_left :: "string \<Rightarrow> string" where
  "trim_left s = dropWhile is_space s"

definition trim_space :: "string \<Rightarrow> string" where
  "trim_space s = rev (dropWhile is_space (rev (dropWhile is_space s)))"

fun str_fields_acc :: "string \<Rightarrow> string \<Rightarrow> string list" where
  "str_fields_acc w [] = (if w = [] then [] else [rev w])"
| "str_fields_acc w (c # s) = (if is_space c then (if w = [] then str_fields_acc [] s else rev w # str_fields_acc [] s)
     else str_fields_acc (c # w) s)"

definition str_fields :: "string \<Rightarrow> string list" where
  "str_fields s = str_fields_acc [] s"

definition char_code :: "char \<Rightarrow> nat" where
  "char_code c = of_char c"

definition is_digit :: "char \<Rightarrow> bool" where
  "is_digit c \<longleftrightarrow> 48 \<le> char_code c \<and> char_code c \<le> 57"

definition is_upper :: "char \<Rightarrow> bool" where
  "is_upper c \<longleftrightarrow> 65 \<le> char_code c \<and> char_code c \<le> 90"

definition is_lower :: "char \<Rightarrow> bool" where
  "is_lower c \<longleftrightarrow> 97 \<le> char_code c \<and> char_code c \<le> 122"

definition to_lower_char :: "char \<Rightarrow> char" where
  "to_lower_char c = (if is_upper c then char_of (char_code c + 32) else c)"

definition to_lower :: "string \<Rightarrow> string" where
  "to_lower s = map to_lower_char s"

definition equal_fold :: "string \<Rightarrow> string \<Rightarrow> bool" where
  "equal_fold s t \<longleftrightarrow> to_lower s = to_lower t"

subsection \<open>Numbers\<close>

definition digit_char :: "nat \<Rightarrow> char" where
  "digit_char d = char_of (48 + d)"

fun utoa :: "nat \<Rightarrow> string" where
  "utoa n = (if n < 10 then [digit_char n] else utoa (n div 10) @ [digit_char (n mod 10)])"

definition itoa :: "int \<Rightarrow> string" where
  "itoa i = (if i < 0 then CHR ''-'' # utoa (nat (- i)) else utoa (nat i))"

definition digit_val :: "char \<Rightarrow> nat" where
  "digit_val c = char_code c - 48"

definition digits_val :: "string \<Rightarrow> nat" where
  "digits_val s = foldl (\<lambda>n c. 10 * n + digit_val c) 0 s"

definition is_digits :: "string \<Rightarrow> bool" where
  "is_digits s \<longleftrightarrow> s \<noteq> [] \<and> list_all is_digit s"

text \<open>\<^verbatim>\<open>strconv.Atoi\<close>/\<^verbatim>\<open>ParseInt(s, 10, w)\<close>: an optional sign and digits, an error outside the signed
  \<open>w\<close>-bit range.\<close>

definition parse_int :: "nat \<Rightarrow> string \<Rightarrow> int option" where
  "parse_int w s = (let
      neg = has_prefix s ''-'';
      ds = (if neg \<or> has_prefix s ''+'' then drop 1 s else s);
      v = (if neg then - int (digits_val ds) else int (digits_val ds))
    in if is_digits ds \<and> - (2 ^ (w - 1)) \<le> v \<and> v < 2 ^ (w - 1) then Some v else None)"

definition atoi :: "string \<Rightarrow> int option" where
  "atoi s = parse_int 64 s"

subsection \<open>Lemmas on prefixes and cuts\<close>

lemma has_prefix_append [simp, str_simps]: "has_prefix (p @ s) p"
  by (simp add: has_prefix_def)

lemma has_prefix_Nil [simp]: "has_prefix s []"
  by (simp add: has_prefix_def)

lemma has_prefix_code [simp, code]:
  "has_prefix s [] = True"
  "has_prefix [] (c # p) = False"
  "has_prefix (d # s) (c # p) = (d = c \<and> has_prefix s p)"
  by (auto simp: has_prefix_def)

lemma has_prefix_iff: "has_prefix s p \<longleftrightarrow> (\<exists>t. s = p @ t)"
  unfolding has_prefix_def by (metis append_eq_conv_conj)

lemma has_suffix_iff: "has_suffix s p \<longleftrightarrow> (\<exists>t. s = t @ p)"
  unfolding has_suffix_def has_prefix_iff by (metis rev_append rev_rev_ident)

lemma has_suffix_append [simp, str_simps]: "has_suffix (s @ p) p"
  by (auto simp: has_suffix_iff)

lemma trim_prefix_append [simp, str_simps]: "trim_prefix (p @ s) p = s"
  by (simp add: trim_prefix_def)

lemma trim_prefix_none: "\<not> has_prefix s p \<Longrightarrow> trim_prefix s p = s"
  by (simp add: trim_prefix_def)

lemma trim_suffix_append [simp, str_simps]: "trim_suffix (s @ p) p = s"
  by (simp add: trim_suffix_def)

lemma contains_str_iff: "contains_str s p \<longleftrightarrow> (\<exists>a b. s = a @ p @ b)"
proof (induction s)
  case (Cons c s)
  have "(\<exists>a b. c # s = a @ p @ b) \<longleftrightarrow> (\<exists>b. c # s = p @ b) \<or> (\<exists>a b. s = a @ p @ b)"
    by (metis append_Cons append_Nil neq_Nil_conv list.inject)
  with Cons show ?case by (simp add: has_prefix_iff)
qed simp

lemma cut_append [simp, str_simps]: "c \<notin> set a \<Longrightarrow> cut c (a @ c # b) = (a, Some b)"
  by (induction a) auto

lemma cut_none [simp, str_simps]: "c \<notin> set a \<Longrightarrow> cut c a = (a, None)"
  by (induction a) auto

lemma cut_Some: "cut c s = (a, Some b) \<Longrightarrow> s = a @ c # b \<and> c \<notin> set a"
  by (induction s arbitrary: a) (auto split: prod.splits if_splits)

lemma cut_None: "cut c s = (a, None) \<Longrightarrow> s = a \<and> c \<notin> set a"
  by (induction s arbitrary: a) (auto split: prod.splits if_splits)

lemma cut_str_Some: "cut_str p s = Some (a, b) \<Longrightarrow> s = a @ p @ b"
  by (induction s arbitrary: a) (auto split: prod.splits if_splits option.splits simp: has_prefix_iff)

subsection \<open>Lemmas on split and join\<close>

lemma split_on_not_Nil [simp]: "split_on c s \<noteq> []"
  by (induction s) (auto split: list.splits)

lemma split_on_none [simp, str_simps]: "c \<notin> set s \<Longrightarrow> split_on c s = [s]"
  by (induction s) auto

lemma split_on_append [simp, str_simps]: "c \<notin> set a \<Longrightarrow> split_on c (a @ c # b) = a # split_on c b"
  by (induction a) auto

lemma split_on_prefix:
  "c \<notin> set a \<Longrightarrow> split_on c (a @ s) = (a @ hd (split_on c s)) # tl (split_on c s)"
proof (induction a)
  case Nil
  show ?case by (simp add: split_on_not_Nil)
next
  case (Cons x a)
  then show ?case by (cases "split_on c s") auto
qed

lemma set_split_on: "w \<in> set (split_on c s) \<Longrightarrow> c \<notin> set w"
  by (induction s arbitrary: w) (auto split: list.splits if_splits)

lemma join_Cons: "ws \<noteq> [] \<Longrightarrow> join sep (w # ws) = w @ sep @ join sep ws"
  by (cases ws) auto

lemma split_on_join:
  "ws \<noteq> [] \<Longrightarrow> \<forall>w \<in> set ws. c \<notin> set w \<Longrightarrow> split_on c (join [c] ws) = ws"
proof (induction ws)
  case (Cons w ws)
  then show ?case by (cases "ws = []") (auto simp: join_Cons)
qed simp

lemma join_split_on: "join [c] (split_on c s) = s"
proof (induction s)
  case (Cons x s)
  obtain w ws where "split_on c s = w # ws" by (meson neq_Nil_conv split_on_not_Nil)
  with Cons show ?case by (cases ws) auto
qed simp

lemma last_segment_append [simp, str_simps]: "c \<notin> set b \<Longrightarrow> last_segment c (a @ c # b) = b"
proof (induction a)
  case (Cons x a)
  obtain w ws where "split_on c (a @ c # b) = w # ws" by (meson neq_Nil_conv split_on_not_Nil)
  moreover have "ws \<noteq> []" if "x \<noteq> c"
    using join_split_on [of c "a @ c # b"] set_split_on [of w c "a @ c # b"] calculation by auto
  ultimately show ?case using Cons by (auto simp: last_segment_def)
qed (simp add: last_segment_def)

lemma last_segment_none [simp, str_simps]: "c \<notin> set b \<Longrightarrow> last_segment c b = b"
  by (simp add: last_segment_def)

subsection \<open>Lemmas on numbers\<close>

lemma char_code_digit [simp]: "d < 10 \<Longrightarrow> char_code (digit_char d) = 48 + d"
  by (simp add: char_code_def digit_char_def)

lemma is_digit_digit_char [simp]: "d < 10 \<Longrightarrow> is_digit (digit_char d)"
  by (simp add: is_digit_def)

lemma digit_val_digit_char [simp]: "d < 10 \<Longrightarrow> digit_val (digit_char d) = d"
  by (simp add: digit_val_def)

declare utoa.simps [simp del]

lemma utoa_not_Nil [simp]: "utoa n \<noteq> []"
  by (subst utoa.simps) simp

lemma utoa_digits: "list_all is_digit (utoa n)"
proof (induction n rule: utoa.induct)
  case (1 n)
  then show ?case by (subst utoa.simps) simp
qed

lemma is_digits_utoa [simp]: "is_digits (utoa n)"
  by (simp add: is_digits_def utoa_digits)

lemma digits_val_snoc [simp]: "digits_val (s @ [c]) = 10 * digits_val s + digit_val c"
  by (simp add: digits_val_def)

lemma digits_val_single [simp]: "digits_val [c] = digit_val c"
  by (simp add: digits_val_def)

lemma digits_val_utoa [simp]: "digits_val (utoa n) = n"
proof (induction n rule: utoa.induct)
  case (1 n)
  then show ?case by (subst utoa.simps) simp
qed

lemma utoa_inj: "utoa m = utoa n \<Longrightarrow> m = n"
  by (metis digits_val_utoa)

lemma utoa_char: "c \<in> set (utoa n) \<Longrightarrow> is_digit c"
  using utoa_digits by (simp add: list_all_iff)

lemma not_digit_sign [simp]: "\<not> is_digit CHR ''-''" "\<not> is_digit CHR ''+''"
  by (simp_all add: is_digit_def char_code_def)

lemma utoa_hd: "utoa n = c # s \<Longrightarrow> is_digit c"
  using utoa_char [of c n] by simp

lemma utoa_not_prefix: "\<not> is_digit c \<Longrightarrow> \<not> has_prefix (utoa n) [c]"
proof
  assume "\<not> is_digit c" "has_prefix (utoa n) [c]"
  then obtain t where "utoa n = c # t" by (auto simp: has_prefix_iff)
  with utoa_hd \<open>\<not> is_digit c\<close> show False by blast
qed

lemmas utoa_not_sign [simp] =
  utoa_not_prefix [OF not_digit_sign(1)] utoa_not_prefix [OF not_digit_sign(2)]

lemma parse_int_itoa:
  "- (2 ^ (w - 1)) \<le> i \<Longrightarrow> i < 2 ^ (w - 1) \<Longrightarrow> parse_int w (itoa i) = Some i"
  by (simp add: parse_int_def itoa_def)

lemma atoi_itoa [simp]: "- (2 ^ 63) \<le> i \<Longrightarrow> i < 2 ^ 63 \<Longrightarrow> atoi (itoa i) = Some i"
  by (simp add: atoi_def parse_int_itoa)

lemma itoa_inj [simp]: "itoa i = itoa j \<longleftrightarrow> i = j"
proof
  assume eq: "itoa i = itoa j"
  define w where "w = nat (\<bar>i\<bar> + \<bar>j\<bar>) + 2"
  have small: "\<bar>i\<bar> < 2 ^ (w - 1)" "\<bar>j\<bar> < 2 ^ (w - 1)"
  proof -
    have "int (w - 1) < 2 ^ (w - 1)"
      using less_exp [of "w - 1"] by (metis of_nat_less_iff of_nat_numeral of_nat_power)
    then show "\<bar>i\<bar> < 2 ^ (w - 1)" "\<bar>j\<bar> < 2 ^ (w - 1)" by (auto simp: w_def)
  qed
  have "parse_int w (itoa i) = Some i"
    by (rule parse_int_itoa) (use small(1) in linarith)+
  moreover have "parse_int w (itoa j) = Some j"
    by (rule parse_int_itoa) (use small(2) in linarith)+
  ultimately show "i = j" unfolding eq by (metis option.inject)
qed simp

lemma dropWhile_start: "t \<noteq> [] \<Longrightarrow> \<not> P (hd t) \<Longrightarrow> dropWhile P t = t"
  by (cases t) auto

lemma trim_space_same: "s \<noteq> [] \<Longrightarrow> \<not> is_space (hd s) \<Longrightarrow> \<not> is_space (last s) \<Longrightarrow> trim_space s = s"
  by (simp add: trim_space_def dropWhile_start hd_rev)

end
