(* ===== verification/Go_Errors.thy ===== *)
theory Go_Errors
  imports Go_Strings
begin

text \<open>
  Go error values. An error is a tree: \<^verbatim>\<open>fmt.Errorf\<close> with \<^verbatim>\<open>%w\<close>, \<^verbatim>\<open>errors.Join\<close> and the wrapper types
  of karpenter core hold other errors, and \<^verbatim>\<open>errors.As\<close>/\<^verbatim>\<open>errors.Is\<close> search the tree in pre-order
  through \<^verbatim>\<open>Unwrap\<close>. The provider's own \<^verbatim>\<open>retryableError\<close> has no \<^verbatim>\<open>Unwrap\<close> method, so a search stops
  there. An \<^verbatim>\<open>error\<close> result is \<^typ>\<open>'e option\<close>-shaped in the model (\<open>None\<close> is \<^verbatim>\<open>nil\<close>), or the left
  side of a sum when a value comes with it.
\<close>

text \<open>\<^verbatim>\<open>googleapi.ErrorItem\<close> (fields the provider reads).\<close>

record error_item =
  ei_reason :: string
  ei_message :: string

text \<open>\<^verbatim>\<open>insufficientCapacityDetails\<close> of \<^verbatim>\<open>instance.go\<close>.\<close>

record insufficientCapacityDetails =
  icd_code :: string
  icd_structuredReason :: string
  icd_message :: string
  icd_operation :: string

datatype go_error =
    Errorf string "string list" "go_error list" \<comment> \<open>\<^verbatim>\<open>fmt.Errorf\<close>: format, printed operands, operands of \<^verbatim>\<open>%w\<close>\<close>
  | JoinError "go_error list" \<comment> \<open>\<^verbatim>\<open>errors.Join\<close>\<close>
  | GoogleApiError int string "error_item list" \<comment> \<open>\<^verbatim>\<open>*googleapi.Error\<close>: Code, Message, Errors\<close>
  | ContextError string \<comment> \<open>\<^verbatim>\<open>ctx.Err()\<close>\<close>
  | StatusError string \<comment> \<open>an \<^verbatim>\<open>apierrors\<close> status with its reason\<close>
  | SentinelError string \<comment> \<open>a package-level \<^verbatim>\<open>errors.New\<close> value\<close>
  | InsufficientCapacity insufficientCapacityDetails \<comment> \<open>\<^verbatim>\<open>*insufficientCapacityError\<close> of \<^verbatim>\<open>instance.go\<close>\<close>
  | RetryableError go_error \<comment> \<open>\<^verbatim>\<open>*retryableError\<close> of \<^verbatim>\<open>instance.go\<close>\<close>
  | ImageResolutionError string
  | ImageUnavailableError string
  | InsufficientCapacityError go_error \<comment> \<open>the four wrappers of karpenter core\<close>
  | NodeClaimNotFoundError go_error
  | NodeClassNotReadyError go_error
  | CreateError go_error string string

text \<open>The errors a value unwraps to, in order.\<close>

fun unwrap :: "go_error \<Rightarrow> go_error list" where
  "unwrap (Errorf _ _ es) = es"
| "unwrap (JoinError es) = es"
| "unwrap (InsufficientCapacityError e) = [e]"
| "unwrap (NodeClaimNotFoundError e) = [e]"
| "unwrap (NodeClassNotReadyError e) = [e]"
| "unwrap (CreateError e _ _) = [e]"
| "unwrap _ = []"

text \<open>\<^verbatim>\<open>errors.As\<close>: the first value in pre-order that the target accepts.\<close>

function errors_as :: "(go_error \<Rightarrow> 'a option) \<Rightarrow> go_error \<Rightarrow> 'a option"
  and errors_as_list :: "(go_error \<Rightarrow> 'a option) \<Rightarrow> go_error list \<Rightarrow> 'a option" where
  "errors_as p e = (case p e of Some x \<Rightarrow> Some x | None \<Rightarrow> errors_as_list p (unwrap e))"
| "errors_as_list p [] = None"
| "errors_as_list p (e # es) = (case errors_as p e of Some x \<Rightarrow> Some x | None \<Rightarrow> errors_as_list p es)"
  by pat_completeness auto

lemma unwrap_size_list: "size_list size (unwrap e) \<le> size e"
  by (cases e) auto

termination errors_as
  by (relation "measure (\<lambda>x. case x of Inl (p, e) \<Rightarrow> 2 * size e + 1 | Inr (p, es) \<Rightarrow> 2 * size_list size es)")
    (auto simp: unwrap_size_list less_Suc_eq_le)

declare errors_as.simps(1) [simp del]

text \<open>The searches the code makes.\<close>

fun as_googleapi :: "go_error \<Rightarrow> (int \<times> string \<times> error_item list) option" where
  "as_googleapi (GoogleApiError c m items) = Some (c, m, items)"
| "as_googleapi _ = None"

fun as_insufficient :: "go_error \<Rightarrow> insufficientCapacityDetails option" where
  "as_insufficient (InsufficientCapacity d) = Some d"
| "as_insufficient _ = None"

fun as_retryable :: "go_error \<Rightarrow> go_error option" where
  "as_retryable (RetryableError e) = Some e"
| "as_retryable _ = None"

fun as_status :: "go_error \<Rightarrow> string option" where
  "as_status (StatusError r) = Some r"
| "as_status _ = None"

fun as_core_ice :: "go_error \<Rightarrow> go_error option" where
  "as_core_ice (InsufficientCapacityError e) = Some e"
| "as_core_ice _ = None"

fun as_node_claim_not_found :: "go_error \<Rightarrow> go_error option" where
  "as_node_claim_not_found (NodeClaimNotFoundError e) = Some e"
| "as_node_claim_not_found _ = None"

fun as_image_resolution :: "go_error \<Rightarrow> string option" where
  "as_image_resolution (ImageResolutionError m) = Some m"
| "as_image_resolution _ = None"

fun as_image_unavailable :: "go_error \<Rightarrow> string option" where
  "as_image_unavailable (ImageUnavailableError m) = Some m"
| "as_image_unavailable _ = None"

definition is_sentinel :: "string \<Rightarrow> go_error \<Rightarrow> bool" where
  "is_sentinel n e \<longleftrightarrow> errors_as (\<lambda>x. if x = SentinelError n then Some () else None) e \<noteq> None"

text \<open>\<^verbatim>\<open>cloudprovider.IsInsufficientCapacityError\<close> and its siblings of karpenter core, and
  \<^verbatim>\<open>apierrors.IsNotFound\<close>/\<^verbatim>\<open>IsConflict\<close>.\<close>

definition IsInsufficientCapacityError :: "go_error \<Rightarrow> bool" where
  "IsInsufficientCapacityError e \<longleftrightarrow> errors_as as_core_ice e \<noteq> None"

definition IsNodeClaimNotFoundError :: "go_error \<Rightarrow> bool" where
  "IsNodeClaimNotFoundError e \<longleftrightarrow> errors_as as_node_claim_not_found e \<noteq> None"

definition IgnoreNodeClaimNotFoundError :: "go_error option \<Rightarrow> go_error option" where
  "IgnoreNodeClaimNotFoundError e = (case e of None \<Rightarrow> None
     | Some x \<Rightarrow> if IsNodeClaimNotFoundError x then None else Some x)"

definition status_is :: "string \<Rightarrow> go_error \<Rightarrow> bool" where
  "status_is r e \<longleftrightarrow> errors_as as_status e = Some r"

text \<open>The errors a tree holds, as a relation.\<close>

inductive within :: "go_error \<Rightarrow> go_error \<Rightarrow> bool" where
  within_refl: "within e e"
| within_step: "x \<in> set (unwrap e) \<Longrightarrow> within y x \<Longrightarrow> within y e"

inductive_cases within_cases: "within y e"

lemma errors_as_within:
  "errors_as p e = Some x \<Longrightarrow> \<exists>y. within y e \<and> p y = Some x"
  "errors_as_list p es = Some x \<Longrightarrow> \<exists>e\<in>set es. \<exists>y. within y e \<and> p y = Some x"
proof (induction p e and p es rule: errors_as_errors_as_list.induct)
  case (1 p e)
  show ?case
  proof (cases "p e")
    case None
    with "1.prems" have "errors_as_list p (unwrap e) = Some x" by (simp add: errors_as.simps(1))
    with "1.IH" [OF None] show ?thesis by (blast intro: within_step)
  qed (use "1.prems" in \<open>auto simp: errors_as.simps(1) intro: within_refl\<close>)
next
  case (3 p e es)
  then show ?case by (auto split: option.splits)
qed auto

lemma errors_as_list_None: "errors_as_list p es = None \<longleftrightarrow> (\<forall>e\<in>set es. errors_as p e = None)"
  by (induction es) (auto split: option.splits)

lemma within_errors_as: "within y e \<Longrightarrow> p y = Some x \<Longrightarrow> errors_as p e \<noteq> None"
proof (induction rule: within.induct)
  case (within_refl e)
  then show ?case by (simp add: errors_as.simps(1))
next
  case (within_step x' e y)
  then have "errors_as_list p (unwrap e) \<noteq> None"
    by (auto simp: errors_as_list_None)
  then show ?case by (subst errors_as.simps(1)) (simp split: option.splits)
qed

lemma errors_as_iff: "errors_as p e \<noteq> None \<longleftrightarrow> (\<exists>y. within y e \<and> p y \<noteq> None)"
  using errors_as_within(1) [of p e] within_errors_as [of _ e p] by (metis not_None_eq)

text \<open>How a search goes through the constructors; \<open>errors_as_simps\<close> evaluates it on an error that
  the code has just built.\<close>

lemma errors_as_step: "errors_as p e = (case p e of Some x \<Rightarrow> Some x | None \<Rightarrow> errors_as_list p (unwrap e))"
  by (rule errors_as.simps(1))

lemma errors_as_list_single [simp]: "errors_as_list p [e] = errors_as p e"
  by (simp split: option.splits)

lemma errors_as_retryable [simp]: "p (RetryableError e) = None \<Longrightarrow> errors_as p (RetryableError e) = None"
  by (simp add: errors_as_step)

lemma errors_as_wrapf: "p (Errorf f as [e]) = None \<Longrightarrow> errors_as p (Errorf f as [e]) = errors_as p e"
  by (subst errors_as_step) (simp split: option.splits)

lemma IsInsufficientCapacityError_wrap [simp]: "IsInsufficientCapacityError (InsufficientCapacityError e)"
  by (simp add: IsInsufficientCapacityError_def errors_as_step)

lemma IsInsufficientCapacityError_Errorf [simp]:
  "IsInsufficientCapacityError (Errorf f as es) \<longleftrightarrow> (\<exists>e\<in>set es. IsInsufficientCapacityError e)"
  by (auto simp: IsInsufficientCapacityError_def errors_as_step [of _ "Errorf f as es"] errors_as_list_None)

lemma IsInsufficientCapacityError_Join [simp]:
  "IsInsufficientCapacityError (JoinError es) \<longleftrightarrow> (\<exists>e\<in>set es. IsInsufficientCapacityError e)"
  by (auto simp: IsInsufficientCapacityError_def errors_as_step [of _ "JoinError es"] errors_as_list_None)

lemma IsNodeClaimNotFoundError_wrap [simp]: "IsNodeClaimNotFoundError (NodeClaimNotFoundError e)"
  by (simp add: IsNodeClaimNotFoundError_def errors_as_step)

lemma IsNodeClaimNotFoundError_Errorf [simp]:
  "IsNodeClaimNotFoundError (Errorf f as es) \<longleftrightarrow> (\<exists>e\<in>set es. IsNodeClaimNotFoundError e)"
  by (auto simp: IsNodeClaimNotFoundError_def errors_as_step [of _ "Errorf f as es"] errors_as_list_None)

end
