(* ===== verification/Requirements.thy ===== *)
theory Requirements
  imports Go_Errors Complex_Main
begin

text \<open>
  Scheduling requirements: the package \<^verbatim>\<open>scheduling\<close> and the offering lists of \<^verbatim>\<open>cloudprovider/types.go\<close>
  of karpenter core, which the provider calls on every launch decision. A requirement is a set of label
  values, given by its elements or by those it excludes, with optional integer bounds. \<open>req_has\<close> is
  that set, and the lemmas say that \<open>req_intersection\<close> is intersection and \<open>req_has_intersection\<close>
  overlap. The set of values is a list without duplicates in an arbitrary order, because
  \<^verbatim>\<open>UnsortedList\<close> has no order; \<^verbatim>\<open>Any\<close> on an open requirement draws a random number, which is the
  argument \<open>rnd\<close>. Prices are rationals here: the code only compares them.
\<close>

subsection \<open>Requirements\<close>

datatype operator = OpIn | OpNotIn | OpExists | OpDoesNotExist | OpGt | OpLt | OpGte | OpLte

record requirement =
  req_key :: string
  req_complement :: bool
  req_values :: "string list"
  req_gte :: "int option"
  req_lte :: "int option"
  req_minValues :: "int option"

type_synonym requirements = "(string, requirement) gomap"

text \<open>A \<^verbatim>\<open>NodeSelectorRequirementWithMinValues\<close> of a NodeClaim spec.\<close>

record selector_requirement =
  sr_key :: string
  sr_operator :: operator
  sr_values :: "string list"
  sr_minValues :: "int option"

definition MaxInt :: int where "MaxInt = 2 ^ 63 - 1"
definition MinInt :: int where "MinInt = - (2 ^ 63)"

text \<open>Labels that are rewritten before use: \<^verbatim>\<open>NormalizedLabels\<close> of karpenter core with the entry that
  \<^verbatim>\<open>operator.go\<close> adds. \<^verbatim>\<open>NormalizedLabelValues\<close> is empty.\<close>

definition normalized_labels :: labels where
  "normalized_labels =
    [(''failure-domain.beta.kubernetes.io/zone'', ''topology.kubernetes.io/zone''),
     (''beta.kubernetes.io/arch'', ''kubernetes.io/arch''),
     (''beta.kubernetes.io/os'', ''kubernetes.io/os''),
     (''beta.kubernetes.io/instance-type'', ''node.kubernetes.io/instance-type''),
     (''failure-domain.beta.kubernetes.io/region'', ''topology.kubernetes.io/region''),
     (''topology.gke.io/zone'', ''topology.kubernetes.io/zone'')]"

definition normalize_key :: "string \<Rightarrow> string" where
  "normalize_key k = (case map_get normalized_labels k of Some n \<Rightarrow> n | None \<Rightarrow> k)"

text \<open>\<^verbatim>\<open>value, _ := strconv.Atoi(values[0])\<close>: 0 on a syntax error, the nearest bound out of range.\<close>

definition atoi_or :: "string \<Rightarrow> int" where
  "atoi_or s = (case atoi s of Some i \<Rightarrow> i
     | None \<Rightarrow> let ds = (if has_prefix s ''-'' \<or> has_prefix s ''+'' then drop 1 s else s) in
         if \<not> is_digits ds then 0 else if has_prefix s ''-'' then MinInt else MaxInt)"

definition req_plain :: "string \<Rightarrow> bool \<Rightarrow> string list \<Rightarrow> int option \<Rightarrow> requirement" where
  "req_plain k c vs mv = \<lparr>req_key = k, req_complement = c, req_values = vs, req_gte = None,
     req_lte = None, req_minValues = mv\<rparr>"

fun NewRequirementWithFlexibility :: "string \<Rightarrow> operator \<Rightarrow> int option \<Rightarrow> string list \<Rightarrow> requirement" where
  "NewRequirementWithFlexibility key OpIn mv vs = req_plain (normalize_key key) False (uniq vs) mv"
| "NewRequirementWithFlexibility key OpNotIn mv vs = req_plain (normalize_key key) True (uniq vs) mv"
| "NewRequirementWithFlexibility key OpExists mv vs = req_plain (normalize_key key) True [] mv"
| "NewRequirementWithFlexibility key OpDoesNotExist mv vs = req_plain (normalize_key key) False [] mv"
| "NewRequirementWithFlexibility key OpGt mv vs = (let v = atoi_or (hd vs) in
     if v = MaxInt then req_plain (normalize_key (normalize_key key)) False [] None
     else (req_plain (normalize_key key) True [] mv)\<lparr>req_gte := Some (v + 1)\<rparr>)"
| "NewRequirementWithFlexibility key OpLt mv vs = (let v = atoi_or (hd vs) in
     (req_plain (normalize_key key) True [] mv)\<lparr>req_lte := Some (if v = MinInt then MaxInt else v - 1)\<rparr>)"
| "NewRequirementWithFlexibility key OpGte mv vs =
     (req_plain (normalize_key key) True [] mv)\<lparr>req_gte := Some (atoi_or (hd vs))\<rparr>"
| "NewRequirementWithFlexibility key OpLte mv vs =
     (req_plain (normalize_key key) True [] mv)\<lparr>req_lte := Some (atoi_or (hd vs))\<rparr>"

definition NewRequirement :: "string \<Rightarrow> operator \<Rightarrow> string list \<Rightarrow> requirement" where
  "NewRequirement key opr vs = NewRequirementWithFlexibility key opr None vs"

fun within_bounds :: "string \<Rightarrow> int option \<Rightarrow> int option \<Rightarrow> bool" where
  "within_bounds v None None = True"
| "within_bounds v g l = (case atoi v of None \<Rightarrow> False
     | Some i \<Rightarrow> (case g of None \<Rightarrow> True | Some x \<Rightarrow> x \<le> i) \<and> (case l of None \<Rightarrow> True | Some x \<Rightarrow> i \<le> x))"

fun max_opt :: "int option \<Rightarrow> int option \<Rightarrow> int option" where
  "max_opt None b = b"
| "max_opt a None = a"
| "max_opt (Some a) (Some b) = Some (max a b)"

fun min_opt :: "int option \<Rightarrow> int option \<Rightarrow> int option" where
  "min_opt None b = b"
| "min_opt a None = a"
| "min_opt (Some a) (Some b) = Some (min a b)"

definition crossed :: "int option \<Rightarrow> int option \<Rightarrow> bool" where
  "crossed g l = (case (g, l) of (Some a, Some b) \<Rightarrow> a > b | _ \<Rightarrow> False)"

definition req_has :: "requirement \<Rightarrow> string \<Rightarrow> bool" where
  "req_has r v = ((if req_complement r then v \<notin> set (req_values r) else v \<in> set (req_values r))
     \<and> within_bounds v (req_gte r) (req_lte r))"

definition req_len :: "requirement \<Rightarrow> int" where
  "req_len r = (if req_complement r then MaxInt - int (length (req_values r)) else int (length (req_values r)))"

definition req_operator :: "requirement \<Rightarrow> operator" where
  "req_operator r = (if req_complement r then (if req_len r < MaxInt then OpNotIn else OpExists)
     else if req_len r > 0 then OpIn else OpDoesNotExist)"

definition req_any :: "(int \<Rightarrow> int) \<Rightarrow> requirement \<Rightarrow> string" where
  "req_any rnd r = (case req_operator r of
      OpIn \<Rightarrow> hd (req_values r)
    | OpNotIn \<Rightarrow> (let lo = (case req_gte r of None \<Rightarrow> 0 | Some g \<Rightarrow> g);
                     hi = (case req_lte r of None \<Rightarrow> MaxInt | Some l \<Rightarrow> l + 1) in itoa (rnd (hi - lo) + lo))
    | OpExists \<Rightarrow> (let lo = (case req_gte r of None \<Rightarrow> 0 | Some g \<Rightarrow> g);
                     hi = (case req_lte r of None \<Rightarrow> MaxInt | Some l \<Rightarrow> l + 1) in itoa (rnd (hi - lo) + lo))
    | _ \<Rightarrow> [])"

definition req_intersection :: "requirement \<Rightarrow> requirement \<Rightarrow> requirement" where
  "req_intersection r q = (let
      c = (req_complement r \<and> req_complement q);
      g = max_opt (req_gte r) (req_gte q);
      l = min_opt (req_lte r) (req_lte q);
      mv = max_opt (req_minValues r) (req_minValues q);
      vs = (if req_complement r \<and> req_complement q then uniq (req_values r @ req_values q)
        else if req_complement r then filter (\<lambda>v. v \<notin> set (req_values r)) (req_values q)
        else if req_complement q then filter (\<lambda>v. v \<notin> set (req_values q)) (req_values r)
        else filter (\<lambda>v. v \<in> set (req_values q)) (req_values r));
      vs' = filter (\<lambda>v. within_bounds v g l) vs
    in if crossed g l then req_plain (normalize_key (req_key r)) False [] mv
       else \<lparr>req_key = req_key r, req_complement = c, req_values = vs',
         req_gte = (if c then g else None), req_lte = (if c then l else None), req_minValues = mv\<rparr>)"

definition req_has_intersection :: "requirement \<Rightarrow> requirement \<Rightarrow> bool" where
  "req_has_intersection r q = (let
      g = max_opt (req_gte r) (req_gte q);
      l = min_opt (req_lte r) (req_lte q)
    in if crossed g l then False
       else if req_complement r \<and> req_complement q then True
       else if req_complement r then list_ex (\<lambda>v. v \<notin> set (req_values r) \<and> within_bounds v g l) (req_values q)
       else if req_complement q then list_ex (\<lambda>v. v \<notin> set (req_values q) \<and> within_bounds v g l) (req_values r)
       else list_ex (\<lambda>v. v \<in> set (req_values q) \<and> within_bounds v g l) (req_values r))"

subsection \<open>Maps of requirements\<close>

definition reqs_add :: "requirements \<Rightarrow> requirement \<Rightarrow> requirements" where
  "reqs_add rs q = (let q' = (case map_get rs (req_key q) of Some old \<Rightarrow> req_intersection q old | None \<Rightarrow> q)
     in map_set (req_key q') q' rs)"

definition NewRequirements :: "requirement list \<Rightarrow> requirements" where
  "NewRequirements qs = foldl reqs_add [] qs"

definition NewNodeSelectorRequirementsWithMinValues :: "selector_requirement list \<Rightarrow> requirements" where
  "NewNodeSelectorRequirementsWithMinValues srs = NewRequirements
     (map (\<lambda>s. NewRequirementWithFlexibility (sr_key s) (sr_operator s) (sr_minValues s) (sr_values s)) srs)"

definition reqs_get :: "requirements \<Rightarrow> string \<Rightarrow> requirement" where
  "reqs_get rs k = (case map_get rs k of Some r \<Rightarrow> r | None \<Rightarrow> NewRequirement k OpExists [])"

definition negative_op :: "requirement \<Rightarrow> bool" where
  "negative_op r \<longleftrightarrow> req_operator r \<in> {OpNotIn, OpDoesNotExist}"

definition reqs_intersects :: "requirements \<Rightarrow> requirements \<Rightarrow> bool" where
  "reqs_intersects rs qs = list_all (\<lambda>(k, q). case map_get rs k of None \<Rightarrow> True
     | Some r \<Rightarrow> req_has_intersection r q \<or> (negative_op q \<and> negative_op r)) qs"

text \<open>\<^verbatim>\<open>Compatible\<close> with the labels that may be undefined; true when the code returns no error.\<close>

definition reqs_compatible :: "(string \<Rightarrow> bool) \<Rightarrow> requirements \<Rightarrow> requirements \<Rightarrow> bool" where
  "reqs_compatible allow rs qs = (list_all (\<lambda>(k, q). allow k \<or> map_has rs k \<or> negative_op q) qs
     \<and> reqs_intersects rs qs)"

subsection \<open>Offerings and instance types\<close>

record offering =
  of_requirements :: requirements
  of_price :: rat
  of_available :: bool

text \<open>\<^verbatim>\<open>cloudprovider.InstanceType\<close>; the resource lists map a resource name to a quantity in the unit of
  the resource (milli-CPU, bytes, a count).\<close>

type_synonym resources = "(string, int) gomap"

record instance_type =
  it_name :: string
  it_requirements :: requirements
  it_offerings :: "offering list"
  it_capacity :: resources
  it_kubeReserved :: resources
  it_systemReserved :: resources
  it_evictionThreshold :: resources

definition offerings_available :: "offering list \<Rightarrow> offering list" where
  "offerings_available os = filter of_available os"

definition offerings_compatible :: "(string \<Rightarrow> bool) \<Rightarrow> offering list \<Rightarrow> requirements \<Rightarrow> offering list" where
  "offerings_compatible wk os rs = filter (\<lambda>f. reqs_compatible wk rs (of_requirements f)) os"

definition offerings_cheapest :: "offering list \<Rightarrow> offering option" where
  "offerings_cheapest os = min_by (\<lambda>a b. of_price a < of_price b) os"

subsection \<open>Requirements as sets of values\<close>

lemma within_bounds_max_min:
  "within_bounds v (max_opt g g') (min_opt l l') \<longleftrightarrow> within_bounds v g l \<and> within_bounds v g' l'"
  by (cases g; cases g'; cases l; cases l') (auto split: option.splits)

lemma crossed_empty: "crossed g l \<Longrightarrow> \<not> within_bounds v g l"
  by (cases g; cases l) (auto simp: crossed_def split: option.splits)

lemma within_bounds_None [simp]: "within_bounds v None None"
  by simp

lemma set_req_intersection_values:
  "\<not> crossed (max_opt (req_gte r) (req_gte q)) (min_opt (req_lte r) (req_lte q)) \<Longrightarrow>
   v \<in> set (req_values (req_intersection r q)) \<longleftrightarrow>
     within_bounds v (max_opt (req_gte r) (req_gte q)) (min_opt (req_lte r) (req_lte q)) \<and>
     (if req_complement r \<and> req_complement q then v \<in> set (req_values r) \<or> v \<in> set (req_values q)
      else (v \<in> set (req_values r) \<longleftrightarrow> \<not> req_complement r) \<and> (v \<in> set (req_values q) \<longleftrightarrow> \<not> req_complement q))"
  by (auto simp: req_intersection_def Let_def)

lemma req_has_plain [simp]: "req_has (req_plain k c vs mv) v \<longleftrightarrow> (v \<in> set vs \<longleftrightarrow> \<not> c)"
  by (simp add: req_has_def req_plain_def)

lemma req_has_intersection_sem:
  "req_has (req_intersection r q) v \<longleftrightarrow> req_has r v \<and> req_has q v"
proof (cases "crossed (max_opt (req_gte r) (req_gte q)) (min_opt (req_lte r) (req_lte q))")
  case True
  then have "\<not> within_bounds v (req_gte r) (req_lte r) \<or> \<not> within_bounds v (req_gte q) (req_lte q)"
    using crossed_empty within_bounds_max_min by blast
  with True show ?thesis
    by (auto simp: req_intersection_def req_has_def req_plain_def Let_def)
next
  case False
  have c: "req_complement (req_intersection r q) = (req_complement r \<and> req_complement q)"
    and g: "req_gte (req_intersection r q) = (if req_complement r \<and> req_complement q
      then max_opt (req_gte r) (req_gte q) else None)"
    and l: "req_lte (req_intersection r q) = (if req_complement r \<and> req_complement q
      then min_opt (req_lte r) (req_lte q) else None)"
    using False by (simp_all add: req_intersection_def Let_def)
  show ?thesis
    unfolding req_has_def [of "req_intersection r q"] c g l set_req_intersection_values [OF False]
    by (auto simp: req_has_def within_bounds_max_min)
qed

lemma req_has_intersection_iff:
  "\<not> (req_complement r \<and> req_complement q) \<Longrightarrow>
   req_has_intersection r q \<longleftrightarrow> (\<exists>v. req_has r v \<and> req_has q v)"
  using crossed_empty [of "max_opt (req_gte r) (req_gte q)" "min_opt (req_lte r) (req_lte q)"]
  unfolding req_has_intersection_def Let_def within_bounds_max_min
  by (auto simp: list_ex_iff req_has_def)

lemma req_operator_In: "req_operator r = OpIn \<longleftrightarrow> \<not> req_complement r \<and> req_values r \<noteq> []"
  by (auto simp: req_operator_def req_len_def)

lemma req_any_In [simp]: "req_operator r = OpIn \<Longrightarrow> req_any rnd r = hd (req_values r)"
  by (simp add: req_any_def)

lemma req_operator_NotIn: "req_operator r = OpNotIn \<longleftrightarrow> req_complement r \<and> req_values r \<noteq> []"
  by (auto simp: req_operator_def req_len_def)

lemma NewRequirement_In [simp]:
  "NewRequirement k OpIn vs = req_plain (normalize_key k) False (uniq vs) None"
  by (simp add: NewRequirement_def)

lemma req_plain_sel [simp]:
  "req_key (req_plain k c vs mv) = k" "req_complement (req_plain k c vs mv) = c"
  "req_values (req_plain k c vs mv) = vs" "req_gte (req_plain k c vs mv) = None"
  "req_lte (req_plain k c vs mv) = None" "req_minValues (req_plain k c vs mv) = mv"
  by (simp_all add: req_plain_def)

lemma offerings_cheapest_mem: "offerings_cheapest os = Some f \<Longrightarrow> f \<in> set os"
  unfolding offerings_cheapest_def by (rule min_by_mem)

lemma offerings_cheapest_least:
  "offerings_cheapest os = Some f \<Longrightarrow> h \<in> set os \<Longrightarrow> of_price f \<le> of_price h"
  unfolding offerings_cheapest_def
  using min_by_least [of "\<lambda>a b. of_price a < of_price b" os f h] by (simp add: not_less)

end
