(* ===== verification/Disk_Type.thy ===== *)
theory Disk_Type
  imports Go_Strings
begin

text \<open>
  Disk types per machine family, \<^verbatim>\<open>pkg/providers/disktype/compatibility.go\<close>. The table comes from an
  embedded YAML file whose JSON entry is decoded at start-up: the decoded table \<open>raw\<close> (family to
  disk type to supported) is an argument of \<open>mustLoadCompatibility\<close>, and everything after decoding is modelled.
\<close>

definition labelPrefix :: string where [go_defs]: "labelPrefix = ''disk-type.gke.io/''"

type_synonym raw_compatibility = "(string, (string, bool) gomap) gomap"
type_synonym compatibility = "(string, string list) gomap"

definition z4d_default :: "(string, bool) gomap" where
  "z4d_default =
    [(''hyperdisk-balanced'', True), (''hyperdisk-balanced-high-availability'', True),
     (''hyperdisk-extreme'', True), (''hyperdisk-throughput'', True), (''hyperdisk-ml'', True)]"

definition family_disk_labels :: "(string, bool) gomap \<Rightarrow> string list" where
  "family_disk_labels diskTypes =
     sort_strings (map (\<lambda>(d, s). labelPrefix @ d) (filter (\<lambda>(d, supported). supported) diskTypes))"

definition mustLoadCompatibility :: "raw_compatibility \<Rightarrow> compatibility" where
  "mustLoadCompatibility raw = (let raw' = (if map_has raw ''z4d'' then raw else map_set ''z4d'' z4d_default raw)
     in map (\<lambda>(family, diskTypes). (family, family_disk_labels diskTypes)) raw')"

definition AllLabels :: "compatibility \<Rightarrow> string list" where
  "AllLabels cpt = sort_strings (uniq (concat (map snd cpt)))"

definition Family :: "string \<Rightarrow> string" where
  "Family instanceType = fst (cut CHR ''-'' instanceType)"

definition LabelsForFamily :: "compatibility \<Rightarrow> string \<Rightarrow> labels option" where
  "LabelsForFamily cpt family = (case map_get cpt family of None \<Rightarrow> None
     | Some ls \<Rightarrow> Some (map_lit (map (\<lambda>l. (l, ''true'')) ls)))"

definition LabelsForInstanceType :: "compatibility \<Rightarrow> string \<Rightarrow> labels option" where
  "LabelsForInstanceType cpt instanceType = LabelsForFamily cpt (Family instanceType)"

lemma map_copy_const:
  "map_of (map_copy d (map (\<lambda>l. (l, v)) ls)) k = (if k \<in> set ls then Some v else map_of d k)"
  by (induction ls arbitrary: d) auto

lemma map_of_map_lit_const: "map_of (map_lit (map (\<lambda>l. (l, v)) ls)) k = (if k \<in> set ls then Some v else None)"
  by (simp add: map_lit_def map_copy_const)

lemma set_family_disk_labels:
  "wf_map ds \<Longrightarrow> labelPrefix @ d \<in> set (family_disk_labels ds) \<longleftrightarrow> map_of ds d = Some True"
  by (auto simp: family_disk_labels_def wf_map_map_of_iff)

lemma map_of_mustLoadCompatibility:
  "map_of (mustLoadCompatibility raw) f = (case map_of raw f of Some ds \<Rightarrow> Some (family_disk_labels ds)
     | None \<Rightarrow> if f = ''z4d'' then Some (family_disk_labels z4d_default) else None)"
  by (auto simp: mustLoadCompatibility_def map_of_map map_has_def Let_def split: option.splits)

text \<open>A machine type carries the label \<^verbatim>\<open>disk-type.gke.io/<d>\<close> with value \<^verbatim>\<open>true\<close> exactly when the
  embedded table marks the disk type as supported for its family (with the built-in entry for
  \<^verbatim>\<open>z4d\<close> used only when the table has none); families that are in no table get no labels; and every
  label given to some machine type is among \<open>AllLabels\<close>, the ones registered as well known.\<close>

theorem LabelsForInstanceType_sound:
  assumes "LabelsForInstanceType (mustLoadCompatibility raw) m = Some ls" "\<forall>ds \<in> snd ` set raw. wf_map ds"
  shows "(map_of ls (labelPrefix @ d) = Some ''true'' \<longleftrightarrow>
      (case map_of raw (Family m) of Some ds \<Rightarrow> map_of ds d = Some True
         | None \<Rightarrow> Family m = ''z4d'' \<and> map_of z4d_default d = Some True))
    \<and> (map_of ls k \<noteq> None \<longrightarrow> k \<in> set (AllLabels (mustLoadCompatibility raw)))"
proof -
  obtain dls where dls: "map_of (mustLoadCompatibility raw) (Family m) = Some dls"
    and ls: "ls = map_lit (map (\<lambda>l. (l, ''true'')) dls)"
    using assms(1) by (auto simp: LabelsForInstanceType_def LabelsForFamily_def split: option.splits)
  have wf: "wf_map ds" if "map_of raw f = Some ds" for f ds
    using assms(2) map_of_SomeD [OF that] by force
  have wf4: "wf_map z4d_default" by (simp add: wf_map_def z4d_default_def)
  have "labelPrefix @ d \<in> set dls \<longleftrightarrow> (case map_of raw (Family m) of Some ds \<Rightarrow> map_of ds d = Some True
         | None \<Rightarrow> Family m = ''z4d'' \<and> map_of z4d_default d = Some True)"
    using dls by (auto simp: map_of_mustLoadCompatibility set_family_disk_labels wf wf4
        simp del: map_of.simps split: option.splits if_splits)
  moreover have "k \<in> set (AllLabels (mustLoadCompatibility raw))" if "k \<in> set dls"
    using that map_of_SomeD [OF dls] by (force simp: AllLabels_def)
  ultimately show ?thesis by (simp add: ls map_of_map_lit_const)
qed

theorem LabelsForInstanceType_sound_witness:
  "map_of (map_lit [(''disk-type.gke.io/pd-ssd'', ''true'')]) (labelPrefix @ ''pd-ssd'') = Some ''true'' \<and>
   LabelsForInstanceType (mustLoadCompatibility [(''n2'', [(''pd-ssd'', True), (''pd-extreme'', False)])]) ''n2-standard-4''
     = Some (map_lit [(''disk-type.gke.io/pd-ssd'', ''true'')])"
proof -
  let ?raw = "[(''n2'', [(''pd-ssd'', True), (''pd-extreme'', False)])]"
  have ls: "LabelsForInstanceType (mustLoadCompatibility ?raw) ''n2-standard-4'' =
      Some (map_lit [(''disk-type.gke.io/pd-ssd'', ''true'')])" by code_simp
  have "Family ''n2-standard-4'' = ''n2''" by code_simp
  with LabelsForInstanceType_sound [OF ls, of "''pd-ssd''"] ls show ?thesis
    by (simp add: wf_map_def)
qed

end
