(* ===== verification/Api_Types.thy ===== *)
theory Api_Types
  imports Requirements Disk_Type
begin

text \<open>
  The API objects of \<^verbatim>\<open>pkg/apis/v1alpha1\<close>: the GCENodeClass with its spec and status, the
  GCECustomMachineType, the label keys, and what the provider reads of the NodeClaim and NodePool of
  karpenter core. A Go pointer to a scalar is an \<^typ>\<open>'a option\<close>, an \<^verbatim>\<open>int32\<close> or \<^verbatim>\<open>int64\<close> field is an
  \<^typ>\<open>int\<close>, named string types are \<^typ>\<open>string\<close>, and a nil slice or map is the empty list. \<^verbatim>\<open>log.Fatalf\<close>, which ends the process, is \<open>None\<close>.
\<close>

subsection \<open>Labels\<close>

definition Group :: string where [go_defs]: "Group = ''karpenter.k8s.gcp''"
definition LabelTopologyZone :: string where [go_defs]: "LabelTopologyZone = ''topology.kubernetes.io/zone''"
definition LabelTopologyRegion :: string where [go_defs]: "LabelTopologyRegion = ''topology.kubernetes.io/region''"
definition LabelInstanceTypeStable :: string where [go_defs]: "LabelInstanceTypeStable = ''node.kubernetes.io/instance-type''"
definition LabelArchStable :: string where [go_defs]: "LabelArchStable = ''kubernetes.io/arch''"
definition LabelOSStable :: string where [go_defs]: "LabelOSStable = ''kubernetes.io/os''"
definition LabelWindowsBuild :: string where [go_defs]: "LabelWindowsBuild = ''node.kubernetes.io/windows-build''"
definition NodePoolLabelKey :: string where [go_defs]: "NodePoolLabelKey = ''karpenter.sh/nodepool''"
definition CapacityTypeLabelKey :: string where [go_defs]: "CapacityTypeLabelKey = ''karpenter.sh/capacity-type''"
definition CapacityTypeSpot :: string where [go_defs]: "CapacityTypeSpot = ''spot''"
definition CapacityTypeOnDemand :: string where [go_defs]: "CapacityTypeOnDemand = ''on-demand''"
definition LabelNodeClass :: string where [go_defs]: "LabelNodeClass = ''karpenter.k8s.gcp/gcenodeclass''"
definition LabelTopologyZoneID :: string where [go_defs]: "LabelTopologyZoneID = ''topology.k8s.gcp/zone-id''"
definition LabelInstanceFamily :: string where [go_defs]: "LabelInstanceFamily = ''karpenter.k8s.gcp/instance-family''"
definition LabelInstanceShape :: string where [go_defs]: "LabelInstanceShape = ''karpenter.k8s.gcp/instance-shape''"
definition LabelInstanceGeneration :: string where [go_defs]: "LabelInstanceGeneration = ''karpenter.k8s.gcp/instance-generation''"
definition LabelInstanceSize :: string where [go_defs]: "LabelInstanceSize = ''karpenter.k8s.gcp/instance-size''"
definition LabelInstanceCPU :: string where [go_defs]: "LabelInstanceCPU = ''karpenter.k8s.gcp/instance-cpu''"
definition LabelInstanceMemory :: string where [go_defs]: "LabelInstanceMemory = ''karpenter.k8s.gcp/instance-memory''"
definition LabelInstanceBareMetal :: string where [go_defs]: "LabelInstanceBareMetal = ''karpenter.k8s.gcp/instance-bare-metal''"
definition LabelInstanceGPUName :: string where [go_defs]: "LabelInstanceGPUName = ''karpenter.k8s.gcp/instance-gpu-name''"
definition LabelInstanceGPUManufacturer :: string where [go_defs]: "LabelInstanceGPUManufacturer = ''karpenter.k8s.gcp/instance-gpu-manufacturer''"
definition LabelInstanceGPUCount :: string where [go_defs]: "LabelInstanceGPUCount = ''karpenter.k8s.gcp/instance-gpu-count''"
definition LabelInstanceGPUMemory :: string where [go_defs]: "LabelInstanceGPUMemory = ''karpenter.k8s.gcp/instance-gpu-memory''"
definition LabelInstanceLocalSsdCount :: string where [go_defs]: "LabelInstanceLocalSsdCount = ''karpenter.k8s.gcp/instance-local-ssd-count''"
definition AnnotationGCENodeClassHash :: string where [go_defs]: "AnnotationGCENodeClassHash = ''karpenter.k8s.gcp/gcenodeclass-hash''"
definition AnnotationGCENodeClassHashVersion :: string where [go_defs]: "AnnotationGCENodeClassHashVersion = ''karpenter.k8s.gcp/gcenodeclass-hash-version''"
definition TerminationFinalizer :: string where [go_defs]: "TerminationFinalizer = ''karpenter.k8s.gcp/termination''"
definition GCEClusterIDTagKey :: string where [go_defs]: "GCEClusterIDTagKey = ''gce:gce-cluster-id''"
definition LabelGKEAccelerator :: string where [go_defs]: "LabelGKEAccelerator = ''cloud.google.com/gke-accelerator''"
definition LabelGKEGPUDriverVersion :: string where [go_defs]: "LabelGKEGPUDriverVersion = ''cloud.google.com/gke-gpu-driver-version''"
definition LabelGKECPUScalingLevel :: string where [go_defs]: "LabelGKECPUScalingLevel = ''cloud.google.com/gke-cpu-scaling-level''"
definition LabelGKEGPUSharingStrategy :: string where [go_defs]: "LabelGKEGPUSharingStrategy = ''cloud.google.com/gke-gpu-sharing-strategy''"
definition LabelGKEMaxSharedClientsPerGPU :: string where [go_defs]: "LabelGKEMaxSharedClientsPerGPU = ''cloud.google.com/gke-max-shared-clients-per-gpu''"

definition GKEReadinessLabelKeys :: "string list" where
  [go_defs]: "GKEReadinessLabelKeys =
    [''projectcalico.org/ds-ready'', ''node.kubernetes.io/kube-proxy-ds-ready'',
     ''iam.gke.io/gke-metadata-server-enabled'', ''node.kubernetes.io/masq-agent-ds-ready'',
     ''cloud.google.com/gke-netd-ready'', ''addon.gke.io/node-local-dns-ds-ready'']"

definition ImageFamilyUbuntu :: string where [go_defs]: "ImageFamilyUbuntu = ''Ubuntu''"
definition ImageFamilyUbuntu2404 :: string where [go_defs]: "ImageFamilyUbuntu2404 = ''Ubuntu2404''"
definition ImageFamilyUbuntu2204 :: string where [go_defs]: "ImageFamilyUbuntu2204 = ''Ubuntu2204''"
definition ImageFamilyContainerOptimizedOS :: string where [go_defs]: "ImageFamilyContainerOptimizedOS = ''ContainerOptimizedOS''"
definition ImageFamilyCustom :: string where [go_defs]: "ImageFamilyCustom = ''Custom''"

text \<open>The well-known labels after the \<^verbatim>\<open>init\<close> of \<^verbatim>\<open>labels.go\<close>: those of karpenter core, the provider's
  own and one per disk type. All but kube-proxy's readiness label are registered.\<close>

definition WellKnownLabels :: "compatibility \<Rightarrow> string \<Rightarrow> bool" where
  "WellKnownLabels cpt k \<longleftrightarrow> k \<in> set
    [NodePoolLabelKey, LabelTopologyZone, LabelTopologyRegion, LabelInstanceTypeStable, LabelArchStable,
     LabelOSStable, CapacityTypeLabelKey, LabelWindowsBuild,
     LabelInstanceFamily, LabelInstanceShape, LabelInstanceGeneration, LabelInstanceSize, LabelInstanceCPU,
     LabelInstanceMemory, LabelInstanceBareMetal, LabelInstanceGPUName, LabelInstanceGPUManufacturer,
     LabelInstanceGPUCount, LabelInstanceGPUMemory, LabelInstanceLocalSsdCount, LabelTopologyZoneID,
     LabelGKEAccelerator, LabelGKECPUScalingLevel, LabelGKEGPUSharingStrategy, LabelGKEMaxSharedClientsPerGPU]
    \<or> (k \<in> set GKEReadinessLabelKeys \<and> k \<noteq> ''node.kubernetes.io/kube-proxy-ds-ready'')
    \<or> k \<in> set (AllLabels cpt)"

subsection \<open>GCENodeClass\<close>

record GPUSharingConfig =
  gs_Strategy :: string
  gs_MaxSharedClientsPerGPU :: int

record AdditionalNetworkInterface =
  ani_Network :: string
  ani_Subnetwork :: string

record NetworkConfig =
  nc_EnablePrivateNodes :: "bool option"
  nc_Subnetwork :: string
  nc_AdditionalNetworkInterfaces :: "AdditionalNetworkInterface list"

record ImageSelectorTerm =
  ist_Alias :: string
  ist_ID :: string
  ist_Family :: string
  ist_Channel :: string
  ist_Version :: string

record KubeletConfiguration =
  kc_ClusterDNS :: "string list"
  kc_MaxPods :: "int option"
  kc_PodsPerCore :: "int option"
  kc_SystemReserved :: labels
  kc_KubeReserved :: labels
  kc_EvictionHard :: labels
  kc_EvictionSoft :: labels
  kc_EvictionSoftGracePeriod :: "(string, duration) gomap"
  kc_EvictionMaxPodGracePeriod :: "int option"
  kc_ImageGCHighThresholdPercent :: "int option"
  kc_ImageGCLowThresholdPercent :: "int option"
  kc_CPUCFSQuota :: "bool option"
  kc_SerializeImagePulls :: "bool option"
  kc_MaxParallelImagePulls :: "int option"
  kc_FailSwapOn :: "bool option"
  kc_MemorySwap :: "string option" \<comment> \<open>the swap behaviour of \<^verbatim>\<open>MemorySwapConfiguration\<close>\<close>

record Disk =
  d_SizeGiB :: int
  d_Category :: string
  d_Boot :: bool
  d_SecondaryBootImage :: string
  d_SecondaryBootMode :: string
  d_KMSKeyName :: string
  d_KMSKeyServiceAccount :: string
  d_ProvisionedIOPS :: "int option"
  d_ProvisionedThroughput :: "int option"

record ShieldedInstanceConfig =
  sic_EnableSecureBoot :: "bool option"
  sic_EnableVtpm :: "bool option"
  sic_EnableIntegrityMonitoring :: "bool option"

record HugepagesConfig =
  hp_HugepageSize2m :: "int option"
  hp_HugepageSize1g :: "int option"

record AdvancedMachineFeatures =
  amf_EnableNestedVirtualization :: "bool option"
  amf_ThreadsPerCore :: "int option"

record GCENodeClassSpec =
  ServiceAccount :: string
  Disks :: "Disk list"
  ImageSelectorTerms :: "ImageSelectorTerm list"
  Spec_ImageFamily :: "string option"
  SubnetRangeName :: "string option"
  SubnetRangeNames :: "string list"
  KubeletConfig :: "KubeletConfiguration option"
  LinuxNodeConfig :: "HugepagesConfig option option" \<comment> \<open>\<^verbatim>\<open>LinuxNodeConfig\<close> and its \<^verbatim>\<open>Hugepages\<close>\<close>
  Labels :: labels
  Spec_Metadata :: labels
  NetworkTags :: "string list"
  ResourceManagerTags :: labels
  ShieldedInstance :: "ShieldedInstanceConfig option"
  MinCpuPlatform :: string
  GVNIC :: "bool option" \<comment> \<open>\<^verbatim>\<open>VirtualNIC.Enabled\<close>\<close>
  AdvancedFeatures :: "AdvancedMachineFeatures option"
  ConfidentialInstanceType :: "string option"
  NetworkCfg :: "NetworkConfig option"
  AutoGPUTaint :: bool
  GPUDriverVersion :: string
  GPUSharing :: "GPUSharingConfig option"
  LocalSsdMode :: string
  PreemptionNoticeDuration :: "duration option"

record Image =
  im_SourceImage :: string
  im_Requirements :: "selector_requirement list"

record SubnetRangeStatus =
  srs_Name :: string
  srs_TotalFreeIP :: "int option"

datatype condition_status = CondTrue | CondFalse | CondUnknown

record Condition =
  cond_Type :: string
  cond_Status :: condition_status
  cond_Reason :: string
  cond_Message :: string

record GCENodeClassStatus =
  st_Images :: "Image list"
  st_SubnetRanges :: "SubnetRangeStatus list"
  st_Conditions :: "Condition list"

record ObjectMeta =
  om_Name :: string
  om_UID :: string
  om_Labels :: labels
  om_Annotations :: labels
  om_Finalizers :: "string list"
  om_CreationTimestamp :: instant
  om_DeletionTimestamp :: "instant option"

record GCENodeClass =
  ncl_Meta :: ObjectMeta
  ncl_Spec :: GCENodeClassSpec
  ncl_Status :: GCENodeClassStatus

definition LocalSSDModeRawBlock :: string where [go_defs]: "LocalSSDModeRawBlock = ''RawBlock''"
definition LocalSSDModeEphemeral :: string where [go_defs]: "LocalSSDModeEphemeral = ''Ephemeral''"
definition GPUSharingStrategyTimeSharing :: string where [go_defs]: "GPUSharingStrategyTimeSharing = ''TimeSharing''"
definition KubeletMaxPods :: int where [go_defs]: "KubeletMaxPods = 110"
definition GCENodeClassHashVersion :: string where [go_defs]: "GCENodeClassHashVersion = ''v5''"

subsection \<open>Methods of the node class\<close>

definition imageFamilyFromAlias :: "string \<Rightarrow> string option" where
  "imageFamilyFromAlias alias = (case split_on CHR ''@'' alias of
     [f, _] \<Rightarrow> List.find (\<lambda>g. g = f) [ImageFamilyUbuntu, ImageFamilyContainerOptimizedOS]
   | _ \<Rightarrow> None)"

definition imageVersionFromAlias :: "string \<Rightarrow> string option" where
  "imageVersionFromAlias alias = (case split_on CHR ''@'' alias of [_, v] \<Rightarrow> Some v | _ \<Rightarrow> None)"

text \<open>\<^verbatim>\<open>Alias()\<close>: \<open>None\<close> if the process ends, \<open>Some None\<close> for the nil pointer.\<close>

definition Alias :: "GCENodeClass \<Rightarrow> (string \<times> string) option option" where
  "Alias nc = (case List.find (\<lambda>t. ist_Alias t \<noteq> []) (ImageSelectorTerms (ncl_Spec nc)) of
      None \<Rightarrow> Some None
    | Some t \<Rightarrow> (case (imageFamilyFromAlias (ist_Alias t), imageVersionFromAlias (ist_Alias t)) of
        (Some f, Some v) \<Rightarrow> Some (Some (f, v)) | _ \<Rightarrow> None))"

fun family_of_terms :: "ImageSelectorTerm list \<Rightarrow> string" where
  "family_of_terms [] = ImageFamilyCustom"
| "family_of_terms (t # ts) = (if ist_Family t = ImageFamilyContainerOptimizedOS then ImageFamilyContainerOptimizedOS
     else if ist_Family t = ImageFamilyUbuntu2404 \<or> ist_Family t = ImageFamilyUbuntu2204 then ImageFamilyUbuntu
     else family_of_terms ts)"

definition ImageFamily :: "GCENodeClass \<Rightarrow> string option" where
  "ImageFamily nc = (case Spec_ImageFamily (ncl_Spec nc) of Some f \<Rightarrow> Some f
    | None \<Rightarrow> (case Alias nc of None \<Rightarrow> None
        | Some (Some (f, v)) \<Rightarrow> Some f
        | Some None \<Rightarrow> Some (family_of_terms (ImageSelectorTerms (ncl_Spec nc)))))"

definition GetMaxPods :: "GCENodeClass \<Rightarrow> int" where
  "GetMaxPods nc = (case KubeletConfig (ncl_Spec nc) of None \<Rightarrow> KubeletMaxPods
     | Some kc \<Rightarrow> (case kc_MaxPods kc of None \<Rightarrow> KubeletMaxPods | Some n \<Rightarrow> n))"

definition GKEValue :: "string \<Rightarrow> string" where
  "GKEValue s = (if s = GPUSharingStrategyTimeSharing then ''time-sharing'' else [])"

definition PodSubnetRangeNames :: "GCENodeClass \<Rightarrow> string list" where
  "PodSubnetRangeNames nc = (if SubnetRangeNames (ncl_Spec nc) \<noteq> [] then SubnetRangeNames (ncl_Spec nc)
     else case SubnetRangeName (ncl_Spec nc) of None \<Rightarrow> [] | Some n \<Rightarrow> if n \<noteq> [] then [n] else [])"

text \<open>\<^verbatim>\<open>Hash()\<close>: the hash function is \<^verbatim>\<open>hashstructure.Hash\<close>, an argument; it sees the spec without the image
  selector terms (which are marked \<^verbatim>\<open>hash:"ignore"\<close>) and the image family.\<close>

definition Hash :: "(GCENodeClassSpec \<times> string \<Rightarrow> nat) \<Rightarrow> GCENodeClass \<Rightarrow> string option" where
  "Hash hashstructure nc = (case ImageFamily nc of None \<Rightarrow> None
     | Some f \<Rightarrow> Some (utoa (hashstructure ((ncl_Spec nc)\<lparr>ImageSelectorTerms := []\<rparr>, f))))"

subsection \<open>GCECustomMachineType\<close>

record GCECustomMachineType =
  cmt_Meta :: ObjectMeta
  cmt_MachineType :: string
  cmt_OnDemand :: string
  cmt_Spot :: string
  cmt_GuestCpus :: int
  cmt_MemoryMb :: int
  cmt_Zones :: "string list"
  cmt_Conditions :: "Condition list"

subsection \<open>NodeClaim and NodePool of karpenter core\<close>

record Taint =
  t_Key :: string
  t_Value :: string
  t_Effect :: string

definition Taint_ToString :: "Taint \<Rightarrow> string" where
  "Taint_ToString t = (if t_Effect t = [] then (if t_Value t = [] then t_Key t else t_Key t @ ''='' @ t_Value t @ '':'')
     else if t_Value t = [] then t_Key t @ '':'' @ t_Effect t
     else t_Key t @ ''='' @ t_Value t @ '':'' @ t_Effect t)"

record NodeClassRef =
  ref_Group :: string
  ref_Kind :: string
  ref_Name :: string

record NodeClaim =
  ncm_Meta :: ObjectMeta
  ncm_Requirements :: "selector_requirement list"
  ncm_Requests :: resources
  ncm_NodeClassRef :: "NodeClassRef option"
  ncm_Taints :: "Taint list"
  ncm_StartupTaints :: "Taint list"
  ncm_ProviderID :: string
  ncm_NodeName :: string
  ncm_ImageID :: string
  ncm_Capacity :: resources
  ncm_Allocatable :: resources
  ncm_Conditions :: "Condition list"

record NodePool =
  npl_Meta :: ObjectMeta
  npl_TemplateLabels :: labels
  npl_TemplateRequirements :: "selector_requirement list"
  npl_NodeClassRef :: "NodeClassRef option"

abbreviation ncm_Name :: "NodeClaim \<Rightarrow> string" where "ncm_Name c \<equiv> om_Name (ncm_Meta c)"
abbreviation ncm_Labels :: "NodeClaim \<Rightarrow> labels" where "ncm_Labels c \<equiv> om_Labels (ncm_Meta c)"
abbreviation ncl_Name :: "GCENodeClass \<Rightarrow> string" where "ncl_Name c \<equiv> om_Name (ncl_Meta c)"

text \<open>Zero values, the starting point of examples and of objects the code fills field by field.\<close>

definition zero_meta :: ObjectMeta where
  "zero_meta = \<lparr>om_Name = [], om_UID = [], om_Labels = [], om_Annotations = [], om_Finalizers = [],
     om_CreationTimestamp = 0, om_DeletionTimestamp = None\<rparr>"

definition zero_spec :: GCENodeClassSpec where
  "zero_spec = \<lparr>ServiceAccount = [], Disks = [], ImageSelectorTerms = [], Spec_ImageFamily = None,
     SubnetRangeName = None, SubnetRangeNames = [], KubeletConfig = None, LinuxNodeConfig = None, Labels = [],
     Spec_Metadata = [], NetworkTags = [], ResourceManagerTags = [], ShieldedInstance = None, MinCpuPlatform = [],
     GVNIC = None, AdvancedFeatures = None, ConfidentialInstanceType = None, NetworkCfg = None, AutoGPUTaint = False,
     GPUDriverVersion = [], GPUSharing = None, LocalSsdMode = [], PreemptionNoticeDuration = None\<rparr>"

definition zero_nodeClass :: GCENodeClass where
  "zero_nodeClass = \<lparr>ncl_Meta = zero_meta, ncl_Spec = zero_spec,
     ncl_Status = \<lparr>st_Images = [], st_SubnetRanges = [], st_Conditions = []\<rparr>\<rparr>"

definition zero_nodeClaim :: NodeClaim where
  "zero_nodeClaim = \<lparr>ncm_Meta = zero_meta, ncm_Requirements = [], ncm_Requests = [], ncm_NodeClassRef = None,
     ncm_Taints = [], ncm_StartupTaints = [], ncm_ProviderID = [], ncm_NodeName = [], ncm_ImageID = [],
     ncm_Capacity = [], ncm_Allocatable = [], ncm_Conditions = []\<rparr>"

end
