(* ===== verification/Instance_Metadata.thy ===== *)
theory Instance_Metadata
  imports Api_Types
begin

text \<open>
  The typed model of a node's Compute Engine metadata, \<^verbatim>\<open>pkg/metadata\<close>: what is kept of the source
  template, the \<^verbatim>\<open>kube-env\<close> item with its embedded \<^verbatim>\<open>KUBELET_ARGS\<close>, labels, taints and the kubelet
  configuration, and how all of it is rendered. A Go map that may be nil is an association list, nil being
  empty; a nil receiver, for which every setter does nothing, does not occur. YAML is an argument:
  \<open>yaml_unmarshal\<close> and \<open>yaml_marshal\<close> stand for \<^verbatim>\<open>sigs.k8s.io/yaml\<close>.
\<close>

subsection \<open>The model\<close>

text \<open>The fields of the upstream kubelet configuration that the provider writes; \<open>kcfg_rest\<close> is
  whatever else the source template's YAML carries.\<close>

record kubelet_config =
  kcfg_ClusterDNS :: "string list"
  kcfg_MaxPods :: int
  kcfg_PodsPerCore :: int
  kcfg_SystemReserved :: labels
  kcfg_KubeReserved :: labels
  kcfg_EvictionHard :: labels
  kcfg_EvictionSoft :: labels
  kcfg_EvictionSoftGracePeriod :: labels
  kcfg_EvictionMaxPodGracePeriod :: int
  kcfg_ImageGCHighThresholdPercent :: "int option"
  kcfg_ImageGCLowThresholdPercent :: "int option"
  kcfg_CPUCFSQuota :: "bool option"
  kcfg_SerializeImagePulls :: "bool option"
  kcfg_MaxParallelImagePulls :: "int option"
  kcfg_FailSwapOn :: "bool option"
  kcfg_SwapBehavior :: string
  kcfg_FeatureGates :: "(string, bool) gomap"
  kcfg_ShutdownGracePeriod :: duration
  kcfg_ShutdownGracePeriodCriticalPods :: duration
  kcfg_rest :: string

definition zero_kubelet_config :: kubelet_config where
  "zero_kubelet_config = \<lparr>kcfg_ClusterDNS = [], kcfg_MaxPods = 0, kcfg_PodsPerCore = 0, kcfg_SystemReserved = [],
     kcfg_KubeReserved = [], kcfg_EvictionHard = [], kcfg_EvictionSoft = [], kcfg_EvictionSoftGracePeriod = [],
     kcfg_EvictionMaxPodGracePeriod = 0, kcfg_ImageGCHighThresholdPercent = None,
     kcfg_ImageGCLowThresholdPercent = None, kcfg_CPUCFSQuota = None, kcfg_SerializeImagePulls = None,
     kcfg_MaxParallelImagePulls = None, kcfg_FailSwapOn = None, kcfg_SwapBehavior = [], kcfg_FeatureGates = [],
     kcfg_ShutdownGracePeriod = 0, kcfg_ShutdownGracePeriodCriticalPods = 0, kcfg_rest = []\<rparr>"

record KubeletArgs =
  ka_nodeLabels :: labels
  ka_nodeTaints :: "Taint list"
  ka_maxPods :: "int option"
  ka_other :: "string list"

record KubeEnv =
  ke_entries :: labels
  ke_kubeletArgs :: KubeletArgs

record InstanceMetadata =
  md_source :: labels
  md_kubeEnv :: KubeEnv
  md_kubeLabels :: labels
  md_kubeletConfig :: kubelet_config
  md_custom :: labels
  md_instanceLabels :: labels

text \<open>\<^verbatim>\<open>compute.Metadata\<close>: items with a key and an optional value, any of them nil.\<close>

type_synonym compute_metadata = "(string \<times> string option) option list"

definition KubeEnvKey :: string where [go_defs]: "KubeEnvKey = ''kube-env''"
definition KubeLabelsKey :: string where [go_defs]: "KubeLabelsKey = ''kube-labels''"
definition KubeletConfigKey :: string where [go_defs]: "KubeletConfigKey = ''kubelet-config''"
definition kubeletMaxPodsFlagName :: string where [go_defs]: "kubeletMaxPodsFlagName = ''--max-pods''"

definition zero_args :: KubeletArgs where
  "zero_args = \<lparr>ka_nodeLabels = [], ka_nodeTaints = [], ka_maxPods = None, ka_other = []\<rparr>"

definition retainedSourceMetadataKeys :: "string list" where
  "retainedSourceMetadataKeys =
    [''cluster-location'', ''cluster-name'', ''cluster-uid'', ''common-psm1'', ''configure-sh'',
     ''containerd-configure-sh'', ''disable-address-manager'', ''disable-legacy-endpoints'', ''enable-os-login'',
     ''gci-ensure-gke-docker'', ''gci-metrics-enabled'', ''gci-update-strategy'', ''google-compute-enable-pcid'',
     ''install-ssh-psm1'', ''instance-template'', ''k8s-node-setup-psm1'', ''kubeconfig'',
     ''serial-port-logging-enable'', ''startup-script'', ''user-data'', ''user-profile-psm1'',
     ''windows-startup-script-ps1'']"

subsection \<open>Rendering\<close>

text \<open>\<^verbatim>\<open>k8slabels.Set.String\<close>.\<close>

definition labels_String :: "labels \<Rightarrow> string" where
  "labels_String ls = join '','' (sort_strings (map (\<lambda>(k, v). k @ ''='' @ v) ls))"

definition Taints_String :: "Taint list \<Rightarrow> string" where
  "Taints_String ts = join '','' (map Taint_ToString ts)"

definition KubeletArgs_parts :: "KubeletArgs \<Rightarrow> string list" where
  "KubeletArgs_parts a = ka_other a
     @ (case ka_maxPods a of None \<Rightarrow> [] | Some n \<Rightarrow> [kubeletMaxPodsFlagName @ ''='' @ itoa n])
     @ (let l = labels_String (ka_nodeLabels a) in if l \<noteq> [] then [''--node-labels='' @ l] else [])
     @ (let t = Taints_String (ka_nodeTaints a) in if t \<noteq> [] then [''--register-with-taints='' @ t] else [])"

definition KubeletArgs_String :: "KubeletArgs \<Rightarrow> string" where
  "KubeletArgs_String a = join '' '' (KubeletArgs_parts a)"

definition KubeEnv_String :: "KubeEnv \<Rightarrow> string" where
  "KubeEnv_String e = (let
      ls = map (\<lambda>k. k @ '': '' @ map_str (ke_entries e) k) (sort_strings (map fst (ke_entries e)));
      args = KubeletArgs_String (ke_kubeletArgs e)
    in join [CHR 0x0A] (ls @ (if args \<noteq> [] then [''KUBELET_ARGS: '' @ args] else [])))"

subsection \<open>Parsing\<close>

definition owned_flag :: "string \<Rightarrow> bool" where
  "owned_flag f \<longleftrightarrow> has_prefix f (kubeletMaxPodsFlagName @ ''='') \<or> has_prefix f ''--node-labels=''
     \<or> has_prefix f ''--register-with-taints=''"

definition ParseSourceKubeletArgs :: "string \<Rightarrow> KubeletArgs" where
  "ParseSourceKubeletArgs raw = zero_args\<lparr>ka_other := filter (\<lambda>f. \<not> owned_flag f) (str_fields raw)\<rparr>"

definition splitKubeEnvEntry :: "string \<Rightarrow> (string \<times> string) option" where
  "splitKubeEnvEntry line = (if has_prefix line '' '' \<or> has_prefix line [CHR 0x09] then None
     else (case cut_str '': '' line of None \<Rightarrow> None
       | Some (key, v) \<Rightarrow> if key = [] then None else Some (key, v)))"

fun parse_env_lines :: "string \<Rightarrow> labels \<Rightarrow> string list \<Rightarrow> labels" where
  "parse_env_lines cur entries [] = entries"
| "parse_env_lines cur entries (line # ls) = (case splitKubeEnvEntry line of
     Some (key, v) \<Rightarrow> parse_env_lines key (map_set key v entries) ls
   | None \<Rightarrow> if cur \<noteq> [] then parse_env_lines cur (map_set cur (map_str entries cur @ [CHR 0x0A] @ line) entries) ls
             else parse_env_lines cur entries ls)"

definition parseKubeEnv :: "string \<Rightarrow> KubeEnv" where
  "parseKubeEnv raw = (let entries = parse_env_lines [] [] (split_on CHR 0x0A raw);
      rawArgs = map_str entries ''KUBELET_ARGS''
    in if rawArgs \<noteq> [] then \<lparr>ke_entries = map_del ''KUBELET_ARGS'' entries, ke_kubeletArgs = ParseSourceKubeletArgs rawArgs\<rparr>
       else \<lparr>ke_entries = entries, ke_kubeletArgs = zero_args\<rparr>)"

definition metadataValuesFromCompute :: "compute_metadata option \<Rightarrow> labels" where
  "metadataValuesFromCompute api = (case api of None \<Rightarrow> []
     | Some items \<Rightarrow> map_lit (concat (map (\<lambda>it. case it of None \<Rightarrow> []
         | Some (k, v) \<Rightarrow> if k = [] then [] else [(k, case v of None \<Rightarrow> [] | Some x \<Rightarrow> x)]) items)))"

definition toComputeMetadata :: "labels \<Rightarrow> compute_metadata" where
  "toComputeMetadata values = map (\<lambda>k. Some (k, Some (map_str values k))) (sort_strings (map fst values))"

definition NewInstanceMetadata :: InstanceMetadata where
  "NewInstanceMetadata = \<lparr>md_source = [], md_kubeEnv = \<lparr>ke_entries = [], ke_kubeletArgs = zero_args\<rparr>,
     md_kubeLabels = [], md_kubeletConfig = zero_kubelet_config, md_custom = [], md_instanceLabels = []\<rparr>"

definition FromSourceTemplate ::
  "(string \<Rightarrow> go_error + kubelet_config) \<Rightarrow> compute_metadata option \<Rightarrow> go_error + InstanceMetadata" where
  "FromSourceTemplate yaml_unmarshal source = (let
      values = metadataValuesFromCompute source;
      retained = map_lit (concat (map (\<lambda>k. case map_get values k of Some v \<Rightarrow> [(k, v)] | None \<Rightarrow> [])
        retainedSourceMetadataKeys));
      m = NewInstanceMetadata\<lparr>md_source := retained, md_kubeEnv := parseKubeEnv (map_str values KubeEnvKey)\<rparr>;
      raw = map_str values KubeletConfigKey
    in if raw \<noteq> [] then (case yaml_unmarshal raw of Inl e \<Rightarrow> Inl e | Inr c \<Rightarrow> Inr (m\<lparr>md_kubeletConfig := c\<rparr>))
       else Inr m)"

definition ToComputeMetadata ::
  "(kubelet_config \<Rightarrow> go_error + string) \<Rightarrow> InstanceMetadata \<Rightarrow> go_error + compute_metadata" where
  "ToComputeMetadata yaml_marshal m = (let
      values = map_copy (map_copy [] (md_source m)) (md_custom m);
      values = map_set KubeEnvKey (KubeEnv_String (md_kubeEnv m)) values;
      values = map_set KubeLabelsKey (labels_String (md_kubeLabels m)) values
    in case yaml_marshal (md_kubeletConfig m) of Inl e \<Rightarrow> Inl e
       | Inr raw \<Rightarrow> Inr (toComputeMetadata
           (if raw \<noteq> ''{}'' @ [CHR 0x0A] then map_set KubeletConfigKey raw values else values)))"

definition ToComputeInstanceLabels :: "InstanceMetadata \<Rightarrow> labels" where
  "ToComputeInstanceLabels m = map_copy [] (md_instanceLabels m)"

subsection \<open>Setters\<close>

definition SetKubeLabels :: "labels \<Rightarrow> InstanceMetadata \<Rightarrow> InstanceMetadata" where
  "SetKubeLabels ls m = m\<lparr>md_kubeLabels := ls\<rparr>"

definition SetKubeLabel :: "string \<Rightarrow> string \<Rightarrow> InstanceMetadata \<Rightarrow> InstanceMetadata" where
  "SetKubeLabel k v m = (if k = [] then m else m\<lparr>md_kubeLabels := map_set k v (md_kubeLabels m)\<rparr>)"

definition SetInstanceLabels :: "labels \<Rightarrow> InstanceMetadata \<Rightarrow> InstanceMetadata" where
  "SetInstanceLabels ls m = m\<lparr>md_instanceLabels := ls\<rparr>"

definition GetKubeEnvEntry :: "string \<Rightarrow> InstanceMetadata \<Rightarrow> string option" where
  "GetKubeEnvEntry k m = (if k = [] then None else map_get (ke_entries (md_kubeEnv m)) k)"

definition SetKubeEnvEntry :: "string \<Rightarrow> string \<Rightarrow> InstanceMetadata \<Rightarrow> InstanceMetadata" where
  "SetKubeEnvEntry k v m = (if k = [] then m
     else m\<lparr>md_kubeEnv := (md_kubeEnv m)\<lparr>ke_entries := map_set k v (ke_entries (md_kubeEnv m))\<rparr>\<rparr>)"

definition UnsetKubeEnvEntry :: "string \<Rightarrow> InstanceMetadata \<Rightarrow> InstanceMetadata" where
  "UnsetKubeEnvEntry k m = (if k = [] then m
     else m\<lparr>md_kubeEnv := (md_kubeEnv m)\<lparr>ke_entries := map_del k (ke_entries (md_kubeEnv m))\<rparr>\<rparr>)"

definition UpdateKubeletConfig :: "(kubelet_config \<Rightarrow> kubelet_config) \<Rightarrow> InstanceMetadata \<Rightarrow> InstanceMetadata" where
  "UpdateKubeletConfig f m = m\<lparr>md_kubeletConfig := f (md_kubeletConfig m)\<rparr>"

definition SetCustomMetadata :: "labels \<Rightarrow> InstanceMetadata \<Rightarrow> InstanceMetadata" where
  "SetCustomMetadata values m = m\<lparr>md_custom := map_copy [] (filter (\<lambda>(k, v). k \<noteq> []) values)\<rparr>"

abbreviation update_args :: "(KubeletArgs \<Rightarrow> KubeletArgs) \<Rightarrow> InstanceMetadata \<Rightarrow> InstanceMetadata" where
  "update_args f m \<equiv> m\<lparr>md_kubeEnv := (md_kubeEnv m)\<lparr>ke_kubeletArgs := f (ke_kubeletArgs (md_kubeEnv m))\<rparr>\<rparr>"

definition SetRegistrationNodeLabels :: "labels \<Rightarrow> InstanceMetadata \<Rightarrow> InstanceMetadata" where
  "SetRegistrationNodeLabels ls m = update_args (\<lambda>a. a\<lparr>ka_nodeLabels := ls\<rparr>) m"

definition SetRegistrationNodeLabel :: "string \<Rightarrow> string \<Rightarrow> InstanceMetadata \<Rightarrow> InstanceMetadata" where
  "SetRegistrationNodeLabel k v m = (if k = [] then m
     else update_args (\<lambda>a. a\<lparr>ka_nodeLabels := map_set k v (ka_nodeLabels a)\<rparr>) m)"

definition SetKubeletMaxPods :: "int \<Rightarrow> InstanceMetadata \<Rightarrow> InstanceMetadata" where
  "SetKubeletMaxPods n m = update_args (\<lambda>a. a\<lparr>ka_maxPods := Some n\<rparr>) m"

definition SetNodeTaints :: "Taint list \<Rightarrow> InstanceMetadata \<Rightarrow> InstanceMetadata" where
  "SetNodeTaints ts m = update_args (\<lambda>a. a\<lparr>ka_nodeTaints := ts\<rparr>) m"

definition AppendNodeTaint :: "Taint \<Rightarrow> InstanceMetadata \<Rightarrow> InstanceMetadata" where
  "AppendNodeTaint t m = update_args (\<lambda>a. a\<lparr>ka_nodeTaints := ka_nodeTaints a @ [t]\<rparr>) m"

end
