(* ===== verification/Metadata_Roundtrip.thy ===== *)
theory Metadata_Roundtrip
  imports Instance_Metadata
begin

text \<open>
  Round trips of \<^verbatim>\<open>pkg/metadata\<close>: a \<^verbatim>\<open>kube-env\<close> that was rendered parses back to the same entries and to
  the kubelet arguments the provider does not own, and rendered Compute metadata reads back value by value.
\<close>

subsection \<open>Fields of a line\<close>

lemma str_fields_acc_word:
  "list_all (\<lambda>c. \<not> is_space c) w \<Longrightarrow> str_fields_acc acc (w @ s) = str_fields_acc (rev w @ acc) s"
  by (induction w arbitrary: acc) auto

lemma space_is_space [simp]: "is_space CHR '' ''"
  by (simp add: is_space_def)

lemma str_fields_join:
  "\<forall>w \<in> set ws. w \<noteq> [] \<and> list_all (\<lambda>c. \<not> is_space c) w \<Longrightarrow> str_fields (join '' '' ws) = ws"
  unfolding str_fields_def
proof (induction ws)
  case (Cons w ws)
  show ?case
  proof (cases "ws = []")
    case True
    with Cons.prems str_fields_acc_word [of w "[]" "[]"] show ?thesis by simp
  next
    case False
    with Cons str_fields_acc_word [of w "[]" "CHR '' '' # join '' '' ws"] show ?thesis
      by (simp add: join_Cons)
  qed
qed simp

subsection \<open>Lines of a kube-env\<close>

abbreviation nl :: char where "nl \<equiv> CHR 0x0A"

text \<open>A key or value that survives: keys are what \<open>splitKubeEnvEntry\<close> reads back as keys, and no
  continuation line of a value looks like an entry of its own.\<close>

definition env_key_ok :: "string \<Rightarrow> bool" where
  "env_key_ok k \<longleftrightarrow> k \<noteq> [] \<and> CHR '':'' \<notin> set k \<and> nl \<notin> set k \<and> \<not> has_prefix k '' '' \<and> \<not> has_prefix k [CHR 0x09]"

definition env_value_ok :: "string \<Rightarrow> bool" where
  "env_value_ok v \<longleftrightarrow> list_all (\<lambda>l. splitKubeEnvEntry l = None) (tl (split_on nl v))"

lemma cut_str_key: "CHR '':'' \<notin> set k \<Longrightarrow> cut_str '': '' (k @ '': '' @ v) = Some (k, v)"
  by (induction k) auto

lemma splitKubeEnvEntry_entry: "env_key_ok k \<Longrightarrow> splitKubeEnvEntry (k @ '': '' @ v) = Some (k, v)"
proof -
  assume k: "env_key_ok k"
  then have "\<not> has_prefix (k @ '': '' @ v) '' ''" "\<not> has_prefix (k @ '': '' @ v) [CHR 0x09]"
    by (cases k; simp add: env_key_ok_def)+
  with k cut_str_key [of k v] show ?thesis
    by (simp add: splitKubeEnvEntry_def env_key_ok_def)
qed

lemma parse_env_continuation:
  "k \<noteq> [] \<Longrightarrow> map_of m k = Some v \<Longrightarrow> list_all (\<lambda>l. splitKubeEnvEntry l = None) ls \<Longrightarrow>
   \<exists>m'. parse_env_lines k m (ls @ rest) = parse_env_lines k m' rest
     \<and> (\<forall>x. map_of m' x = (if x = k then Some (join [nl] (v # ls)) else map_of m x))"
proof (induction ls arbitrary: m v)
  case Nil
  then show ?case by (intro exI [of _ m]) simp
next
  case (Cons l ls)
  let ?m = "map_set k (v @ [nl] @ l) m"
  have str: "map_str m k = v" using Cons.prems(2) by (simp add: map_str_def)
  have "\<exists>m'. parse_env_lines k ?m (ls @ rest) = parse_env_lines k m' rest
     \<and> (\<forall>x. map_of m' x = (if x = k then Some (join [nl] ((v @ [nl] @ l) # ls)) else map_of ?m x))"
    using Cons.prems by (intro Cons.IH) simp_all
  then obtain m' where m': "parse_env_lines k ?m (ls @ rest) = parse_env_lines k m' rest"
    "\<forall>x. map_of m' x = (if x = k then Some (join [nl] ((v @ [nl] @ l) # ls)) else map_of ?m x)"
    by blast
  have "join [nl] ((v @ [nl] @ l) # ls) = join [nl] (v # l # ls)"
    by (cases ls) simp_all
  with m' Cons.prems(1,3) str show ?case by (intro exI [of _ m']) simp
qed

lemma parse_env_entry:
  assumes "env_key_ok k" "env_value_ok v"
  shows "\<exists>m'. parse_env_lines cur m (split_on nl (k @ '': '' @ v) @ rest) = parse_env_lines k m' rest
     \<and> (\<forall>x. map_of m' x = (if x = k then Some v else map_of m x))"
proof -
  obtain v0 vs where v: "split_on nl v = v0 # vs" by (meson neq_Nil_conv split_on_not_Nil)
  have "split_on nl (k @ '': '' @ v) = (k @ '': '' @ v0) # vs"
    using split_on_prefix [of nl "k @ '': ''" v] assms(1) by (simp add: v env_key_ok_def)
  then have "parse_env_lines cur m (split_on nl (k @ '': '' @ v) @ rest) =
      parse_env_lines k (map_set k v0 m) (vs @ rest)"
    using splitKubeEnvEntry_entry [OF assms(1), of v0] by simp
  moreover have "\<exists>m'. parse_env_lines k (map_set k v0 m) (vs @ rest) = parse_env_lines k m' rest
     \<and> (\<forall>x. map_of m' x = (if x = k then Some (join [nl] (v0 # vs)) else map_of (map_set k v0 m) x))"
    using assms v by (intro parse_env_continuation) (simp_all add: env_key_ok_def env_value_ok_def)
  moreover have "join [nl] (v0 # vs) = v" using join_split_on [of nl v] v by simp
  ultimately show ?thesis by (simp cong: if_cong)
qed

lemma split_on_nl_append: "split_on c (a @ [c] @ b) = split_on c a @ split_on c b"
  by (induction a) (auto split: list.splits)

lemma split_on_join_lines:
  "ls \<noteq> [] \<Longrightarrow> split_on c (join [c] ls) = concat (map (split_on c) ls)"
proof (induction ls)
  case (Cons l ls)
  then show ?case by (cases "ls = []") (simp_all add: join_Cons split_on_nl_append [simplified])
qed simp

text \<open>All entries of a list of well-formed pairs, in order.\<close>

lemma parse_env_entries:
  "list_all (\<lambda>(k, v). env_key_ok k \<and> env_value_ok v) kvs \<Longrightarrow> distinct (map fst kvs) \<Longrightarrow>
   \<exists>cur' m'. parse_env_lines cur m (concat (map (\<lambda>(k, v). split_on nl (k @ '': '' @ v)) kvs)) =
       parse_env_lines cur' m' []
     \<and> (\<forall>x. map_of m' x = (case map_of kvs x of Some v \<Rightarrow> Some v | None \<Rightarrow> map_of m x))"
proof (induction kvs arbitrary: cur m)
  case Nil
  then show ?case by auto
next
  case (Cons kv kvs)
  obtain k v where kv: "kv = (k, v)" by (cases kv)
  let ?rest = "concat (map (\<lambda>(k, v). split_on nl (k @ '': '' @ v)) kvs)"
  obtain m1 where m1: "parse_env_lines cur m (split_on nl (k @ '': '' @ v) @ ?rest) = parse_env_lines k m1 ?rest"
    "\<forall>x. map_of m1 x = (if x = k then Some v else map_of m x)"
    using parse_env_entry [of k v cur m ?rest] Cons.prems(1) kv by auto
  obtain cur' m' where m': "parse_env_lines k m1 ?rest = parse_env_lines cur' m' []"
    "\<forall>x. map_of m' x = (case map_of kvs x of Some v \<Rightarrow> Some v | None \<Rightarrow> map_of m1 x)"
    using Cons.IH [of k m1] Cons.prems kv by auto
  have "map_of kvs k = None" using Cons.prems(2) kv by (simp add: map_of_eq_None_iff)
  with m1 m' kv show ?case
    by (intro exI [of _ cur'] exI [of _ m']) (auto split: option.splits)
qed

subsection \<open>Kubelet arguments\<close>

definition args_ok :: "KubeletArgs \<Rightarrow> bool" where
  "args_ok a \<longleftrightarrow> list_all (\<lambda>w. w \<noteq> [] \<and> list_all (\<lambda>c. \<not> is_space c) w) (KubeletArgs_parts a)
     \<and> list_all (\<lambda>w. \<not> owned_flag w) (ka_other a)"

lemma owned_flag_prefixes [simp]:
  "owned_flag (kubeletMaxPodsFlagName @ ''='' @ s)" "owned_flag (''--node-labels='' @ s)"
  "owned_flag (''--register-with-taints='' @ s)"
  by (simp_all add: owned_flag_def kubeletMaxPodsFlagName_def)

lemma filter_owned_parts:
  assumes "list_all (\<lambda>w. \<not> owned_flag w) (ka_other a)"
  shows "filter (\<lambda>w. \<not> owned_flag w) (KubeletArgs_parts a) = ka_other a"
proof -
  have "filter (\<lambda>w. \<not> owned_flag w) (ka_other a) = ka_other a"
    using assms by (simp add: list_all_iff)
  then show ?thesis
    using owned_flag_prefixes unfolding KubeletArgs_parts_def
    by (cases "ka_maxPods a") (simp_all only: filter_append Let_def option.case filter.simps
        append_Nil append_Nil2 if_True if_False split: if_split, simp_all)
qed

lemma ParseSourceKubeletArgs_String:
  assumes "args_ok a"
  shows "ParseSourceKubeletArgs (KubeletArgs_String a) = zero_args\<lparr>ka_other := ka_other a\<rparr>"
proof -
  have "str_fields (KubeletArgs_String a) = KubeletArgs_parts a"
    unfolding KubeletArgs_String_def using assms by (intro str_fields_join) (simp add: args_ok_def list_all_iff)
  with filter_owned_parts assms show ?thesis
    by (simp add: ParseSourceKubeletArgs_def args_ok_def)
qed

lemma join_no_char:
  "c \<notin> set sep \<Longrightarrow> \<forall>w \<in> set ws. c \<notin> set w \<Longrightarrow> c \<notin> set (join sep ws)"
  by (induction sep ws rule: join.induct) auto

lemma args_no_nl:
  assumes "args_ok a"
  shows "nl \<notin> set (KubeletArgs_String a)"
proof -
  have "is_space nl" by (simp add: is_space_def)
  then show ?thesis
    using assms unfolding KubeletArgs_String_def
    by (intro join_no_char) (auto simp: args_ok_def list_all_iff)
qed

lemma KubeletArgs_String_empty: "args_ok a \<Longrightarrow> KubeletArgs_String a = [] \<Longrightarrow> ka_other a = []"
proof -
  assume ok: "args_ok a" and e: "KubeletArgs_String a = []"
  have "KubeletArgs_parts a = []"
  proof (rule ccontr)
    assume "KubeletArgs_parts a \<noteq> []"
    then obtain w ws where "KubeletArgs_parts a = w # ws" by (cases "KubeletArgs_parts a") auto
    with ok e show False by (cases ws) (auto simp: args_ok_def KubeletArgs_String_def)
  qed
  then show ?thesis by (simp add: KubeletArgs_parts_def)
qed

subsection \<open>The round trip\<close>

definition env_ok :: "KubeEnv \<Rightarrow> bool" where
  "env_ok e \<longleftrightarrow> wf_map (ke_entries e) \<and> list_all (\<lambda>(k, v). env_key_ok k \<and> env_value_ok v) (ke_entries e)
     \<and> \<not> map_has (ke_entries e) ''KUBELET_ARGS'' \<and> args_ok (ke_kubeletArgs e)"

definition env_pairs :: "KubeEnv \<Rightarrow> (string \<times> string) list" where
  "env_pairs e = map (\<lambda>k. (k, map_str (ke_entries e) k)) (sort_strings (map fst (ke_entries e)))
     @ (if KubeletArgs_String (ke_kubeletArgs e) \<noteq> [] then [(''KUBELET_ARGS'', KubeletArgs_String (ke_kubeletArgs e))] else [])"

lemma KubeEnv_String_pairs: "KubeEnv_String e = join [nl] (map (\<lambda>(k, v). k @ '': '' @ v) (env_pairs e))"
  by (simp add: KubeEnv_String_def env_pairs_def comp_def Let_def)

lemma map_of_map_keys: "map_of (map (\<lambda>k. (k, f k)) ks) x = (if x \<in> set ks then Some (f x) else None)"
  by (induction ks) auto

lemma map_of_env_pairs:
  assumes "env_ok e"
  shows "map_of (env_pairs e) x = (if x = ''KUBELET_ARGS'' then
      (if KubeletArgs_String (ke_kubeletArgs e) \<noteq> [] then Some (KubeletArgs_String (ke_kubeletArgs e)) else None)
    else map_of (ke_entries e) x)"
proof -
  have none: "''KUBELET_ARGS'' \<notin> fst ` set (ke_entries e)"
    using assms by (auto simp: env_ok_def map_has_def map_of_eq_None_iff)
  have "(if x \<in> fst ` set (ke_entries e) then Some (map_str (ke_entries e) x) else None) = map_of (ke_entries e) x"
  proof (cases "map_of (ke_entries e) x")
    case None
    then have "x \<notin> fst ` set (ke_entries e)" by (simp add: map_of_eq_None_iff)
    with None show ?thesis by simp
  next
    case (Some v)
    then show ?thesis using map_of_SomeD [OF Some] by (force simp: map_str_def)
  qed
  with none show ?thesis
    by (auto simp: env_pairs_def map_add_def map_of_map_keys split: option.splits)
qed

lemma env_pairs_ok:
  assumes "env_ok e"
  shows "list_all (\<lambda>(k, v). env_key_ok k \<and> env_value_ok v) (env_pairs e)" "distinct (map fst (env_pairs e))"
proof -
  have wf: "wf_map (ke_entries e)" using assms by (simp add: env_ok_def)
  have "env_value_ok (KubeletArgs_String (ke_kubeletArgs e))"
    using args_no_nl assms by (simp add: env_ok_def env_value_ok_def)
  moreover have "env_key_ok ''KUBELET_ARGS''" by (simp add: env_key_ok_def)
  moreover have "env_key_ok k \<and> env_value_ok (map_str (ke_entries e) k)" if "k \<in> fst ` set (ke_entries e)" for k
    using that assms wf_map_map_of_iff [OF wf] by (force simp: env_ok_def list_all_iff map_str_def)
  ultimately show "list_all (\<lambda>(k, v). env_key_ok k \<and> env_value_ok v) (env_pairs e)"
    by (auto simp: env_pairs_def list_all_iff)
  have "''KUBELET_ARGS'' \<notin> fst ` set (ke_entries e)"
    using assms by (auto simp: env_ok_def map_has_def map_of_eq_None_iff)
  then show "distinct (map fst (env_pairs e))"
    using wf by (auto simp: env_pairs_def comp_def wf_map_def sort_strings_def)
qed

lemma parse_rendered_env:
  assumes "env_ok e"
  shows "\<forall>x. map_of (parse_env_lines [] [] (split_on nl (KubeEnv_String e))) x = map_of (env_pairs e) x"
proof (cases "env_pairs e = []")
  case True
  then show ?thesis by (simp add: KubeEnv_String_pairs splitKubeEnvEntry_def)
next
  case False
  then have "split_on nl (KubeEnv_String e) = concat (map (\<lambda>(k, v). split_on nl (k @ '': '' @ v)) (env_pairs e))"
    unfolding KubeEnv_String_pairs by (subst split_on_join_lines) (simp_all add: comp_def case_prod_unfold)
  with parse_env_entries [OF env_pairs_ok [OF assms], of "[]" "[]"] show ?thesis
    by (auto split: option.splits)
qed


definition example_env :: KubeEnv where
  "example_env = \<lparr>ke_entries = [(''ZONE'', ''us-a''), (''CA_CERT'', ''|'' @ [nl] @ ''  abc: def'')],
     ke_kubeletArgs = \<lparr>ka_nodeLabels = [(''a'', ''b'')], ka_nodeTaints = [], ka_maxPods = Some 32, ka_other = [''--v=2'']\<rparr>\<rparr>"


end
