(* ===== verification/Compute_Types.thy ===== *)
theory Compute_Types
  imports Instance_Metadata
begin

text \<open>
  The Compute Engine and GKE API objects the provider builds or reads (packages \<^verbatim>\<open>compute/v1\<close> and
  \<^verbatim>\<open>container/v1\<close>), with the fields it uses: operations, instances and their parts, machine types, the
  cluster, and the provider's own view of an instance, \<^verbatim>\<open>pkg/providers/instance/types.go\<close>.
\<close>

subsection \<open>Operations\<close>

record error_detail =
  ed_ErrorInfoReason :: "string option" \<comment> \<open>\<^verbatim>\<open>ErrorInfo.Reason\<close>, \<open>None\<close> for a nil \<^verbatim>\<open>ErrorInfo\<close>\<close>
  ed_LocalizedMessage :: "string option"

record operation_error =
  oe_Code :: string
  oe_Message :: string
  oe_ErrorDetails :: "error_detail option list"

record operation =
  op_Name :: string
  op_Status :: string
  op_Error :: "operation_error list option"

subsection \<open>Instances\<close>

record disk_params =
  dp_DiskSizeGb :: int
  dp_Labels :: labels
  dp_DiskType :: string
  dp_ProvisionedIops :: int
  dp_ProvisionedThroughput :: int
  dp_Architecture :: string
  dp_SourceImage :: string

record attached_disk =
  ad_Type :: string
  ad_AutoDelete :: bool
  ad_Boot :: bool
  ad_Interface :: string
  ad_DeviceName :: string
  ad_InitializeParams :: "disk_params option"
  ad_EncryptionKey :: "(string \<times> string) option" \<comment> \<open>key name and service account\<close>

record access_config =
  ac_Type :: string
  ac_Name :: string
  ac_NetworkTier :: string

record alias_range =
  ar_IpCidrRange :: string
  ar_SubnetworkRangeName :: string

record network_interface =
  ni_Network :: string
  ni_Subnetwork :: string
  ni_NicType :: string
  ni_AliasIpRanges :: "alias_range list"
  ni_AccessConfigs :: "access_config list"
  ni_ForceSendFields :: "string list"
  ni_Ipv6AccessConfigs :: "access_config list"
  ni_StackType :: string

record scheduling =
  sc_ProvisioningModel :: string
  sc_Preemptible :: bool
  sc_AutomaticRestart :: "bool option"
  sc_InstanceTerminationAction :: string
  sc_OnHostMaintenance :: string
  sc_PreemptionNoticeSeconds :: "int option"

record service_account =
  sa_Email :: string
  sa_Scopes :: "string list"

record shielded_config =
  sh_EnableSecureBoot :: bool
  sh_EnableVtpm :: bool
  sh_EnableIntegrityMonitoring :: bool
  sh_ForceSendFields :: "string list"

record machine_features =
  mf_EnableNestedVirtualization :: bool
  mf_ThreadsPerCore :: int
  mf_ForceSendFields :: "string list"

record compute_instance =
  ci_Name :: string
  ci_MachineType :: string
  ci_Zone :: string
  ci_Status :: string
  ci_CreationTimestamp :: string
  ci_Disks :: "attached_disk list"
  ci_NetworkInterfaces :: "network_interface list"
  ci_MinCpuPlatform :: string
  ci_ServiceAccounts :: "service_account list"
  ci_Metadata :: compute_metadata
  ci_Labels :: labels
  ci_LabelFingerprint :: string
  ci_Scheduling :: "scheduling option"
  ci_Tags :: "string list"
  ci_ResourceManagerTags :: "labels option"
  ci_ShieldedInstanceConfig :: "shielded_config option"
  ci_ConfidentialInstanceType :: "string option" \<comment> \<open>\<^verbatim>\<open>ConfidentialInstanceConfig\<close> with compute enabled\<close>
  ci_AdvancedMachineFeatures :: "machine_features option"

definition zero_scheduling :: scheduling where
  "zero_scheduling = \<lparr>sc_ProvisioningModel = [], sc_Preemptible = False, sc_AutomaticRestart = None,
     sc_InstanceTerminationAction = [], sc_OnHostMaintenance = [], sc_PreemptionNoticeSeconds = None\<rparr>"

definition zero_instance :: compute_instance where
  "zero_instance = \<lparr>ci_Name = [], ci_MachineType = [], ci_Zone = [], ci_Status = [], ci_CreationTimestamp = [],
     ci_Disks = [], ci_NetworkInterfaces = [], ci_MinCpuPlatform = [], ci_ServiceAccounts = [], ci_Metadata = [],
     ci_Labels = [], ci_LabelFingerprint = [], ci_Scheduling = None, ci_Tags = [], ci_ResourceManagerTags = None,
     ci_ShieldedInstanceConfig = None, ci_ConfidentialInstanceType = None, ci_AdvancedMachineFeatures = None\<rparr>"

subsection \<open>Machine types\<close>

record accelerator =
  acc_Type :: string
  acc_Count :: int

record machine_type =
  mt_Name :: string
  mt_GuestCpus :: int
  mt_MemoryMb :: int
  mt_Architecture :: "string option"
  mt_Accelerators :: "accelerator list"
  mt_PartitionCount :: int \<comment> \<open>\<^verbatim>\<open>BundledLocalSsds.PartitionCount\<close>, 0 when absent\<close>

subsection \<open>The cluster\<close>

record additional_pod_ranges =
  apr_PodRangeNames :: "string list"
  apr_PodRangeInfo :: "string option list" \<comment> \<open>range name of each entry, \<open>None\<close> for a nil entry\<close>

record ip_allocation_policy =
  ip_ClusterSecondaryRangeName :: string
  ip_StackType :: string
  ip_AdditionalPodRangesConfig :: "additional_pod_ranges option"

record cluster_network =
  cn_Network :: string
  cn_Subnetwork :: string
  cn_EnableMultiNetworking :: bool

record cluster =
  cl_Id :: string
  cl_Locations :: "string list"
  cl_NetworkConfig :: "cluster_network option"
  cl_IpAllocationPolicy :: "ip_allocation_policy option"
  cl_PrivateNodes :: "bool option" \<comment> \<open>\<^verbatim>\<open>PrivateClusterConfig.EnablePrivateNodes\<close>\<close>
  cl_ReleaseChannel :: "string option" \<comment> \<open>\<^verbatim>\<open>ReleaseChannel.Channel\<close>\<close>

subsection \<open>The provider's view of an instance\<close>

definition InstanceStatusProvisioning :: string where [go_defs]: "InstanceStatusProvisioning = ''PROVISIONING''"
definition InstanceStatusRunning :: string where [go_defs]: "InstanceStatusRunning = ''RUNNING''"
definition InstanceStatusStopping :: string where [go_defs]: "InstanceStatusStopping = ''STOPPING''"
definition InstanceStatusStopped :: string where [go_defs]: "InstanceStatusStopped = ''STOPPED''"
definition InstanceStatusTerminated :: string where [go_defs]: "InstanceStatusTerminated = ''TERMINATED''"

record Instance =
  in_CapacityType :: string
  in_CreationTime :: instant
  in_ImageID :: string
  in_InstanceID :: string
  in_Labels :: labels
  in_Location :: string
  in_Name :: string
  in_ProjectID :: string
  in_Status :: string
  in_Tags :: labels
  in_Type :: string

end
