(* ===== verification/Provider_Utils.thy ===== *)
theory Provider_Utils
  imports Api_Types
begin

text \<open>
  Helpers of \<^verbatim>\<open>pkg/utils/utils.go\<close> on names and labels, and image selection for an instance type,
  \<^verbatim>\<open>pkg/providers/imagefamily/compatibility.go\<close>.
\<close>

definition LabelClusterNameKey :: string where [go_defs]: "LabelClusterNameKey = ''goog-k8s-cluster-name''"
definition LabelClusterLocationKey :: string where [go_defs]: "LabelClusterLocationKey = ''goog-k8s-cluster-location''"
definition LabelNodePoolKey :: string where [go_defs]: "LabelNodePoolKey = ''karpenter.sh/nodepool''"
definition LabelGCENodeClassKey :: string where [go_defs]: "LabelGCENodeClassKey = ''karpenter.k8s.gcp/gcenodeclass''"

definition IsBareMetalInstanceType :: "string \<Rightarrow> bool" where
  "IsBareMetalInstanceType name \<longleftrightarrow> has_suffix name ''-metal''"

definition is_alnum :: "char \<Rightarrow> bool" where
  "is_alnum c \<longleftrightarrow> is_digit c \<or> is_upper c \<or> is_lower c"

text \<open>Every run of other characters becomes one dash; \<open>run\<close> says whether a run is going on.\<close>

fun dash_runs :: "bool \<Rightarrow> string \<Rightarrow> string" where
  "dash_runs run [] = []"
| "dash_runs run (c # s) = (if is_alnum c then c # dash_runs False s
     else if run then dash_runs True s else CHR ''-'' # dash_runs True s)"

definition trim_char :: "char \<Rightarrow> string \<Rightarrow> string" where
  "trim_char c s = rev (dropWhile (\<lambda>x. x = c) (rev (dropWhile (\<lambda>x. x = c) s)))"

definition SanitizeGCELabelValue :: "string \<Rightarrow> string" where
  "SanitizeGCELabelValue s = to_lower (trim_char CHR ''-'' (dash_runs False s))"

definition GetAllSingleValuedRequirementLabels :: "instance_type option \<Rightarrow> labels" where
  "GetAllSingleValuedRequirementLabels it = (case it of None \<Rightarrow> []
     | Some t \<Rightarrow> map_lit (map (\<lambda>(k, r). (k, hd (req_values r))) (filter (\<lambda>(k, r). req_len r = 1) (it_requirements t))))"

subsection \<open>Image selection\<close>

definition OSArchitectureX86 :: string where [go_defs]: "OSArchitectureX86 = ''X86_64''"
definition OSArchitectureARM :: string where [go_defs]: "OSArchitectureARM = ''ARM64''"
definition OSArchAMD64Requirement :: string where [go_defs]: "OSArchAMD64Requirement = ''amd64''"
definition OSArchARM64Requirement :: string where [go_defs]: "OSArchARM64Requirement = ''arm64''"

definition image_reqs :: "Image \<Rightarrow> requirements" where
  "image_reqs im = NewNodeSelectorRequirementsWithMinValues (im_Requirements im)"

definition FindImage :: "(string \<Rightarrow> bool) \<Rightarrow> Image list \<Rightarrow> requirements \<Rightarrow> Image option" where
  "FindImage wk images reqs = List.find (\<lambda>im. reqs_compatible wk (image_reqs im) reqs) images"

definition ConditionTypeImagesReady :: string where [go_defs]: "ConditionTypeImagesReady = ''ImagesReady''"

definition condition_is_true :: "string \<Rightarrow> Condition list \<Rightarrow> bool" where
  "condition_is_true t cs \<longleftrightarrow> (case List.find (\<lambda>c. cond_Type c = t) cs of Some c \<Rightarrow> cond_Status c = CondTrue | None \<Rightarrow> False)"

definition FilterInstanceTypes :: "(string \<Rightarrow> bool) \<Rightarrow> GCENodeClass \<Rightarrow> instance_type list \<Rightarrow> instance_type list" where
  "FilterInstanceTypes wk nc its = (if \<not> condition_is_true ConditionTypeImagesReady (st_Conditions (ncl_Status nc))
       \<or> st_Images (ncl_Status nc) = [] then []
     else filter (\<lambda>it. FindImage wk (st_Images (ncl_Status nc)) (it_requirements it) \<noteq> None) its)"

lemma FilterInstanceTypes_sub: "set (FilterInstanceTypes wk nc its) \<subseteq> set its"
  by (auto simp: FilterInstanceTypes_def)

lemma FilterInstanceTypes_image:
  "it \<in> set (FilterInstanceTypes wk nc its) \<Longrightarrow> FindImage wk (st_Images (ncl_Status nc)) (it_requirements it) \<noteq> None"
  by (auto simp: FilterInstanceTypes_def split: if_splits)

subsection \<open>Label values\<close>

lemma dash_runs_chars: "c \<in> set (dash_runs run s) \<Longrightarrow> is_alnum c \<or> c = CHR ''-''"
  by (induction run s rule: dash_runs.induct) (auto split: if_splits)

lemma set_trim_char: "set (trim_char c s) \<subseteq> set s"
  unfolding trim_char_def by (auto dest!: set_dropWhileD)

lemma to_lower_char_alnum:
  assumes "is_alnum c \<or> c = CHR ''-''"
  shows "is_digit (to_lower_char c) \<or> is_lower (to_lower_char c) \<or> to_lower_char c = CHR ''-''"
proof (cases "is_upper c")
  case True
  then have "char_code (char_of (char_code c + 32)) = char_code c + 32"
    by (simp add: char_code_def is_upper_def)
  with True show ?thesis by (simp add: to_lower_char_def is_lower_def is_upper_def)
qed (use assms in \<open>auto simp: to_lower_char_def is_alnum_def\<close>)

lemma hd_trim_char: "trim_char c s \<noteq> [] \<Longrightarrow> hd (trim_char c s) \<noteq> c"
proof -
  assume ne: "trim_char c s \<noteq> []"
  let ?d = "dropWhile (\<lambda>x. x = c) s"
  have d: "?d \<noteq> []" using ne unfolding trim_char_def by force
  then have hd: "hd ?d \<noteq> c" using hd_dropWhile [of "\<lambda>x. x = c" s] by blast
  obtain t where t: "?d = trim_char c s @ t"
    unfolding trim_char_def by (metis rev_rev_ident rev_append takeWhile_dropWhile_id)
  with ne hd show ?thesis by simp
qed

lemma last_trim_char: "trim_char c s \<noteq> [] \<Longrightarrow> last (trim_char c s) \<noteq> c"
  unfolding trim_char_def last_rev using hd_dropWhile [of "\<lambda>x. x = c"] by (metis rev.simps(1))

text \<open>A sanitized label value is acceptable to Compute Engine: it has only lower-case letters, digits and
  dashes, and neither begins nor ends with a dash.\<close>

theorem SanitizeGCELabelValue_valid:
  "(\<forall>c \<in> set (SanitizeGCELabelValue s). is_digit c \<or> is_lower c \<or> c = CHR ''-'')
   \<and> (SanitizeGCELabelValue s \<noteq> [] \<longrightarrow> hd (SanitizeGCELabelValue s) \<noteq> CHR ''-'' \<and> last (SanitizeGCELabelValue s) \<noteq> CHR ''-'')"
proof -
  let ?t = "trim_char CHR ''-'' (dash_runs False s)"
  have chars: "is_alnum c \<or> c = CHR ''-''" if "c \<in> set ?t" for c
    using that set_trim_char dash_runs_chars by blast
  have dash: "to_lower_char c \<noteq> CHR ''-''" if "c \<noteq> CHR ''-''" "is_alnum c \<or> c = CHR ''-''" for c
  proof (cases "is_upper c")
    case True
    then have "char_code (to_lower_char c) = char_code c + 32" "char_code c \<ge> 65"
      by (simp_all add: to_lower_char_def char_code_def is_upper_def)
    then show ?thesis by (auto simp: char_code_def)
  qed (use that in \<open>simp add: to_lower_char_def\<close>)
  have "is_digit c \<or> is_lower c \<or> c = CHR ''-''" if "c \<in> set (SanitizeGCELabelValue s)" for c
    using that chars to_lower_char_alnum by (auto simp: SanitizeGCELabelValue_def to_lower_def)
  moreover have "hd (SanitizeGCELabelValue s) \<noteq> CHR ''-'' \<and> last (SanitizeGCELabelValue s) \<noteq> CHR ''-''"
    if "SanitizeGCELabelValue s \<noteq> []"
  proof -
    from that have ne: "?t \<noteq> []" by (simp add: SanitizeGCELabelValue_def to_lower_def)
    have "to_lower_char (hd ?t) \<noteq> CHR ''-''" 
      by (rule dash) (use hd_trim_char [OF ne] chars [of "hd ?t"] ne in simp_all)
    moreover have "to_lower_char (last ?t) \<noteq> CHR ''-''" 
      by (rule dash) (use last_trim_char [OF ne] chars [of "last ?t"] ne in simp_all)
    ultimately show ?thesis using ne by (simp add: SanitizeGCELabelValue_def to_lower_def hd_map last_map)
  qed
  ultimately show ?thesis by blast
qed

theorem SanitizeGCELabelValue_valid_witness:
  "SanitizeGCELabelValue ''karpenter.sh/NodePool_'' = ''karpenter-sh-nodepool'' \<and>
   hd ''karpenter-sh-nodepool'' \<noteq> CHR ''-''"
proof -
  have v: "SanitizeGCELabelValue ''karpenter.sh/NodePool_'' = ''karpenter-sh-nodepool''" by code_simp
  with SanitizeGCELabelValue_valid [of "''karpenter.sh/NodePool_''"] show ?thesis by simp
qed

end
