(* ===== verification/Node_Bootstrap.thy ===== *)
theory Node_Bootstrap
  imports Compute_Types Provider_Utils
begin

text \<open>
  The bootstrap metadata of a new node: \<^verbatim>\<open>metadata_bootstrap.go\<close>, \<^verbatim>\<open>metadata_server_binary.go\<close>,
  \<^verbatim>\<open>secondary_disks.go\<close> and the metadata part of \<^verbatim>\<open>instance.go\<close> (\<^verbatim>\<open>setupInstanceMetadata\<close> to
  \<^verbatim>\<open>gpuInstanceMetadata\<close>) of \<^verbatim>\<open>pkg/providers/instance\<close>. \<open>build_env\<close> holds the provider's configuration and the
  library functions whose text form only is used (durations, quantities, YAML). The version provider and
  the HTTP client are \<open>boot_api\<close>, functions of an abstract state. A node class whose image alias is
  malformed ends the process in \<^verbatim>\<open>ImageFamily\<close> before any of this; for such a class the model goes on as
  for a custom family.
\<close>

record build_env =
  be_clusterName :: string
  be_clusterLocation :: string
  be_region :: string
  be_projectID :: string
  be_defaultServiceAccount :: string
  be_computeDefaultSA :: string
  be_compat :: compatibility
  be_wellKnown :: "string \<Rightarrow> bool"
  be_rnd :: "int \<Rightarrow> int"
  be_showQuantity :: "int \<Rightarrow> string"
  be_showDuration :: "duration \<Rightarrow> string"
  be_yamlUnmarshal :: "string \<Rightarrow> go_error + kubelet_config"
  be_yamlMarshal :: "kubelet_config \<Rightarrow> go_error + string"

record 's boot_api =
  ba_version :: "'s \<Rightarrow> (go_error + string) \<times> 's"
  ba_http :: "string \<Rightarrow> 's \<Rightarrow> (go_error + int \<times> string) \<times> 's" \<comment> \<open>status and body of a GET\<close>

definition MaxPodsLabel :: string where [go_defs]: "MaxPodsLabel = ''max-pods''"
definition MaxPodsPerNodeLabel :: string where [go_defs]: "MaxPodsPerNodeLabel = ''max-pods-per-node''"
definition GKEProvisioningLabel :: string where [go_defs]: "GKEProvisioningLabel = ''gke-provisioning''"
definition GKESecondaryBootDiskLabelPrefix :: string where
  [go_defs]: "GKESecondaryBootDiskLabelPrefix = ''cloud.google.com.node-restriction.kubernetes.io/gke-secondary-boot-disk-''"

definition quoted :: "string \<Rightarrow> string" where "quoted s = [CHR 0x22] @ s @ [CHR 0x22]"

subsection \<open>Secondary boot disks\<close>

definition secondaryBootDiskImageName :: "string \<Rightarrow> string" where
  "secondaryBootDiskImageName img = last_segment CHR ''/'' img"

definition secondaryBootDiskImageDeviceName :: "string \<Rightarrow> string" where
  "secondaryBootDiskImageDeviceName img = ''gke-'' @ secondaryBootDiskImageName img @ ''-disk''"

definition secondaryBootDisks :: "GCENodeClass \<Rightarrow> Disk list" where
  "secondaryBootDisks nc = filter (\<lambda>d. \<not> (d_Boot d \<or> d_SecondaryBootImage d = [] \<or> d_SecondaryBootMode d = ''MODE_UNSPECIFIED''))
     (Disks (ncl_Spec nc))"

subsection \<open>kube-env\<close>

definition requiredSourceKubeEnvEntries :: "string list" where
  "requiredSourceKubeEnvEntries = [''CA_CERT'', ''KUBE_MANIFESTS_TAR_URL'', ''KUBERNETES_MASTER_NAME'',
     ''SERVER_BINARY_TAR_HASH'', ''SERVER_BINARY_TAR_URL'']"

definition kubeEnvValueEmpty :: "string \<Rightarrow> bool" where
  "kubeEnvValueEmpty v \<longleftrightarrow> (let t = trim_space v in t = [] \<or> t = [CHR 0x22, CHR 0x22] \<or> t = [CHR 0x27, CHR 0x27])"

definition validateSourceKubeEnv :: "InstanceMetadata \<Rightarrow> go_error option" where
  "validateSourceKubeEnv m = (let
      missing = filter (\<lambda>k. case GetKubeEnvEntry k m of None \<Rightarrow> True | Some v \<Rightarrow> kubeEnvValueEmpty v) requiredSourceKubeEnvEntries
    in if missing \<noteq> [] then Some (Errorf ''source instance template kube-env is missing required entries: %s'' [join '', '' missing] [])
       else None)"

definition patchKubeEnvOSDistribution :: "GCENodeClass \<Rightarrow> InstanceMetadata \<Rightarrow> InstanceMetadata" where
  "patchKubeEnvOSDistribution nc m = (if ImageFamily nc = Some ImageFamilyUbuntu
      then UnsetKubeEnvEntry ''NODE_BFQ_IO_SCHEDULER_IO_WEIGHT'' (UnsetKubeEnvEntry ''ENABLE_NODE_BFQ_IO_SCHEDULER'' m)
    else if ImageFamily nc = Some ImageFamilyContainerOptimizedOS
      then SetKubeEnvEntry ''NODE_BFQ_IO_SCHEDULER_IO_WEIGHT'' (quoted ''1200'')
        (SetKubeEnvEntry ''ENABLE_NODE_BFQ_IO_SCHEDULER'' (quoted ''true'') m)
    else m)"

definition patchSecondaryBootDisksKubeEnv :: "GCENodeClass \<Rightarrow> InstanceMetadata \<Rightarrow> InstanceMetadata" where
  "patchSecondaryBootDisksKubeEnv nc m = (let
      paths = map (\<lambda>d. ''/mnt/disks/gke-secondary-disks/'' @ secondaryBootDiskImageDeviceName (d_SecondaryBootImage d))
        (secondaryBootDisks nc)
    in if paths \<noteq> [] then SetKubeEnvEntry ''SECONDARY_BOOT_DISKS'' (join '','' paths) m
       else UnsetKubeEnvEntry ''SECONDARY_BOOT_DISKS'' m)"

definition patch_pages :: "string \<Rightarrow> int option \<Rightarrow> InstanceMetadata \<Rightarrow> InstanceMetadata" where
  "patch_pages k pages m = (case pages of Some n \<Rightarrow> SetKubeEnvEntry k (quoted (itoa n)) m | None \<Rightarrow> UnsetKubeEnvEntry k m)"

definition patchHugepagesKubeEnv :: "GCENodeClass \<Rightarrow> InstanceMetadata \<Rightarrow> InstanceMetadata" where
  "patchHugepagesKubeEnv nc m = (let
      hp = (case LinuxNodeConfig (ncl_Spec nc) of Some (Some h) \<Rightarrow> h
        | _ \<Rightarrow> \<lparr>hp_HugepageSize2m = None, hp_HugepageSize1g = None\<rparr>);
      m = patch_pages ''HUGEPAGE_1G'' (hp_HugepageSize1g hp) (patch_pages ''HUGEPAGE_2M'' (hp_HugepageSize2m hp) m)
    in if hp_HugepageSize2m hp \<noteq> None \<or> hp_HugepageSize1g hp \<noteq> None
       then SetKubeEnvEntry ''ENABLE_CONTAINERD_HUGETLB_CONTROLLER'' (quoted ''true'') m else m)"

definition gpuSharingKubeEnvEntries :: "string list" where
  "gpuSharingKubeEnvEntries = [''GPU_SHARING_STRATEGY'', ''MAX_SHARED_CLIENTS_PER_GPU'', ''MAX_TIME_SHARED_CLIENTS_PER_GPU'']"

definition patchGPUSharingKubeEnv :: "GCENodeClass \<Rightarrow> bool \<Rightarrow> InstanceMetadata \<Rightarrow> InstanceMetadata" where
  "patchGPUSharingKubeEnv nc isGPU m = (case GPUSharing (ncl_Spec nc) of
      Some sharing \<Rightarrow> if isGPU then (let clients = quoted (itoa (gs_MaxSharedClientsPerGPU sharing)) in
          SetKubeEnvEntry ''MAX_TIME_SHARED_CLIENTS_PER_GPU'' clients
           (SetKubeEnvEntry ''MAX_SHARED_CLIENTS_PER_GPU'' clients
             (SetKubeEnvEntry ''GPU_SHARING_STRATEGY'' (GKEValue (gs_Strategy sharing)) m)))
        else foldl (\<lambda>m k. UnsetKubeEnvEntry k m) m gpuSharingKubeEnvEntries
    | None \<Rightarrow> foldl (\<lambda>m k. UnsetKubeEnvEntry k m) m gpuSharingKubeEnvEntries)"

subsection \<open>Kubelet configuration\<close>

definition resource_of :: "resources \<Rightarrow> string \<Rightarrow> int" where
  "resource_of rs k = (case map_get rs k of Some v \<Rightarrow> v | None \<Rightarrow> 0)"

definition applyInstanceTypeKubeReserved :: "build_env \<Rightarrow> instance_type \<Rightarrow> kubelet_config \<Rightarrow> kubelet_config" where
  "applyInstanceTypeKubeReserved e it c = c\<lparr>kcfg_KubeReserved := map_copy (kcfg_KubeReserved c)
     [(''cpu'', itoa (resource_of (it_kubeReserved it) ''cpu'') @ ''m''),
      (''memory'', itoa (resource_of (it_kubeReserved it) ''memory'' div (1024 * 1024)) @ ''Mi''),
      (''ephemeral-storage'', be_showQuantity e (resource_of (it_kubeReserved it) ''ephemeral-storage''))]\<rparr>"

definition applySpotShutdownKubeletConfig :: "string \<Rightarrow> kubelet_config \<Rightarrow> kubelet_config" where
  "applySpotShutdownKubeletConfig provisioningModel c = (if provisioningModel \<noteq> CapacityTypeSpot then c
     else c\<lparr>kcfg_FeatureGates := map_set ''GracefulNodeShutdown'' True (kcfg_FeatureGates c),
            kcfg_ShutdownGracePeriod := 30 * 1000000000, kcfg_ShutdownGracePeriodCriticalPods := 15 * 1000000000\<rparr>)"

definition or_else :: "'a option \<Rightarrow> 'a option \<Rightarrow> 'a option" where
  "or_else a b = (case a of Some x \<Rightarrow> Some x | None \<Rightarrow> b)"

definition get_or :: "'a \<Rightarrow> 'a option \<Rightarrow> 'a" where
  "get_or d a = (case a of Some x \<Rightarrow> x | None \<Rightarrow> d)"

definition applyNodeClassRuntimeKubeletConfig :: "KubeletConfiguration \<Rightarrow> kubelet_config \<Rightarrow> kubelet_config" where
  "applyNodeClassRuntimeKubeletConfig overlay c = c\<lparr>
     kcfg_ImageGCHighThresholdPercent := or_else (kc_ImageGCHighThresholdPercent overlay) (kcfg_ImageGCHighThresholdPercent c),
     kcfg_ImageGCLowThresholdPercent := or_else (kc_ImageGCLowThresholdPercent overlay) (kcfg_ImageGCLowThresholdPercent c),
     kcfg_CPUCFSQuota := or_else (kc_CPUCFSQuota overlay) (kcfg_CPUCFSQuota c),
     kcfg_SerializeImagePulls := or_else (kc_SerializeImagePulls overlay) (kcfg_SerializeImagePulls c),
     kcfg_MaxParallelImagePulls := or_else (kc_MaxParallelImagePulls overlay) (kcfg_MaxParallelImagePulls c),
     kcfg_FailSwapOn := or_else (kc_FailSwapOn overlay) (kcfg_FailSwapOn c),
     kcfg_SwapBehavior := (case kc_MemorySwap overlay of Some b \<Rightarrow> if b \<noteq> [] then b else kcfg_SwapBehavior c
       | None \<Rightarrow> kcfg_SwapBehavior c)\<rparr>"

definition applyNodeClassKubeletConfig :: "build_env \<Rightarrow> KubeletConfiguration option \<Rightarrow> kubelet_config \<Rightarrow> kubelet_config" where
  "applyNodeClassKubeletConfig e overlay c = (case overlay of None \<Rightarrow> c
     | Some ov \<Rightarrow> applyNodeClassRuntimeKubeletConfig ov (c\<lparr>
         kcfg_ClusterDNS := (if kc_ClusterDNS ov \<noteq> [] then kc_ClusterDNS ov else kcfg_ClusterDNS c),
         kcfg_MaxPods := get_or (kcfg_MaxPods c) (kc_MaxPods ov),
         kcfg_PodsPerCore := get_or (kcfg_PodsPerCore c) (kc_PodsPerCore ov),
         kcfg_SystemReserved := map_copy (kcfg_SystemReserved c) (kc_SystemReserved ov),
         kcfg_KubeReserved := map_copy (kcfg_KubeReserved c) (kc_KubeReserved ov),
         kcfg_EvictionHard := map_copy (kcfg_EvictionHard c) (kc_EvictionHard ov),
         kcfg_EvictionSoft := map_copy (kcfg_EvictionSoft c) (kc_EvictionSoft ov),
         kcfg_EvictionSoftGracePeriod := map_copy (kcfg_EvictionSoftGracePeriod c)
           (map (\<lambda>(k, d). (k, be_showDuration e d)) (kc_EvictionSoftGracePeriod ov)),
         kcfg_EvictionMaxPodGracePeriod := get_or (kcfg_EvictionMaxPodGracePeriod c) (kc_EvictionMaxPodGracePeriod ov)\<rparr>))"

subsection \<open>Server binaries for another architecture\<close>

text \<open>\<^verbatim>\<open>serverBinaryArchRegex\<close>: the architecture of the leftmost match.\<close>

fun match_server_arch :: "string \<Rightarrow> string option" where
  "match_server_arch [] = None"
| "match_server_arch (c # s) = (if has_prefix (c # s) ''kubernetes-server-linux-amd64.tar.gz'' then Some ''amd64''
     else if has_prefix (c # s) ''kubernetes-server-linux-arm64.tar.gz'' then Some ''arm64''
     else match_server_arch s)"

text \<open>\<^verbatim>\<open>gkeReleaseVersionRegex\<close>: \<^verbatim>\<open>/release/(v[^/]+)/\<close>.\<close>

fun match_release :: "string \<Rightarrow> string option" where
  "match_release [] = None"
| "match_release (c # s) = (if has_prefix (c # s) ''/release/v'' then
      (case cut CHR ''/'' (drop 10 (c # s)) of
         (v, Some _) \<Rightarrow> if v \<noteq> [] then Some (CHR ''v'' # v) else match_release s
       | (v, None) \<Rightarrow> match_release s)
     else match_release s)"

text \<open>\<^verbatim>\<open>strings.ReplaceAll\<close> for a non-empty pattern.\<close>

function replace_all :: "string \<Rightarrow> string \<Rightarrow> string \<Rightarrow> string" where
  "replace_all p r s = (if p = [] then s else case s of [] \<Rightarrow> []
     | c # t \<Rightarrow> if has_prefix s p then r @ replace_all p r (drop (length p) s) else c # replace_all p r t)"
  by pat_completeness auto
termination replace_all
  by (relation "measure (\<lambda>(p, r, s). length s)") auto

declare replace_all.simps [simp del]

definition getServerBinaryHash ::
  "'s boot_api \<Rightarrow> string \<Rightarrow> string \<Rightarrow> labels \<Rightarrow> 's \<Rightarrow> (go_error + string) \<times> labels \<times> 's" where
  "getServerBinaryHash api version arch hashes s = (let cacheKey = arch @ '':'' @ version in
     case map_get hashes cacheKey of Some h \<Rightarrow> (Inr h, hashes, s)
     | None \<Rightarrow> (case ba_http api (''https://storage.googleapis.com/gke-release/kubernetes/release/'' @ version
           @ ''/kubernetes-server-linux-'' @ arch @ ''.tar.gz.sha512'') s of
         (Inl err, s) \<Rightarrow> (Inl err, hashes, s)
       | (Inr (status, body), s) \<Rightarrow> if status \<noteq> 200 then (Inl (Errorf ''unexpected status %d'' [itoa status] []), hashes, s)
           else (case str_fields body of [] \<Rightarrow> (Inl (Errorf ''empty hash response'' [] []), hashes, s)
             | h # _ \<Rightarrow> (Inr h, map_set cacheKey h hashes, s))))"

definition resolveGKEVersion :: "'s boot_api \<Rightarrow> 's \<Rightarrow> string \<times> 's" where
  "resolveGKEVersion api s = (case ba_version api s of (Inl err, s) \<Rightarrow> ([], s) | (Inr v, s) \<Rightarrow> (v, s))"

definition patchKubeEnvServerBinaryForArch ::
  "build_env \<Rightarrow> 's boot_api \<Rightarrow> instance_type \<Rightarrow> InstanceMetadata \<Rightarrow> labels \<Rightarrow> 's \<Rightarrow>
   (go_error + InstanceMetadata) \<times> labels \<times> 's" where
  "patchKubeEnvServerBinaryForArch e api it m hashes s = (let url = get_or [] (GetKubeEnvEntry ''SERVER_BINARY_TAR_URL'' m) in
     if url = [] then (Inl (Errorf ''source kube-env has no SERVER_BINARY_TAR_URL'' [] []), hashes, s)
     else (let
        any = req_any (be_rnd e) (reqs_get (it_requirements it) LabelArchStable);
        arch = (if any = [] then ''amd64'' else any)
      in case match_server_arch url of
         None \<Rightarrow> (Inl (Errorf ''source kube-env SERVER_BINARY_TAR_URL %q does not name a known kubernetes-server-linux architecture'' [url] []), hashes, s)
       | Some sourceArch \<Rightarrow> if sourceArch = arch then (Inr m, hashes, s)
         else (case resolveGKEVersion api s of (resolved, s) \<Rightarrow>
           (let version = get_or resolved (match_release url) in
            if match_release url = None \<and> resolved = [] then
              (Inl (Errorf ''could not extract GKE release version from SERVER_BINARY_TAR_URL'' [] []), hashes, s)
            else (case getServerBinaryHash api version arch hashes s of
                (Inl err, hashes, s) \<Rightarrow> (Inl (Errorf ''fetching %s binary hash for version %s: %w'' [arch, version] [err]), hashes, s)
              | (Inr hash, hashes, s) \<Rightarrow>
                  (Inr (SetKubeEnvEntry ''SERVER_BINARY_TAR_HASH'' hash (SetKubeEnvEntry ''SERVER_BINARY_TAR_URL''
                    (replace_all (''linux-'' @ sourceArch @ ''.tar.gz'') (''linux-'' @ arch @ ''.tar.gz'') url) m)), hashes, s))))))"

subsection \<open>Labels and taints\<close>

definition NodeRegisteredLabelKey :: string where [go_defs]: "NodeRegisteredLabelKey = ''karpenter.sh/registered''"

definition single_valued :: "instance_type \<Rightarrow> string \<Rightarrow> string option" where
  "single_valued it k = (case map_get (it_requirements it) k of None \<Rightarrow> None
     | Some r \<Rightarrow> if req_operator r = OpIn \<and> req_len r > 0 then Some (hd (req_values r)) else None)"

definition instanceTypeHasGPU :: "instance_type \<Rightarrow> bool" where
  "instanceTypeHasGPU it \<longleftrightarrow> (case map_get (it_requirements it) LabelInstanceGPUCount of None \<Rightarrow> False
     | Some r \<Rightarrow> req_operator r = OpIn \<and> req_len r > 0)"

definition instanceFamily :: "instance_type \<Rightarrow> string" where
  "instanceFamily it = get_or [] (single_valued it LabelInstanceFamily)"

definition gkeOSDistribution :: "GCENodeClass \<Rightarrow> string" where
  "gkeOSDistribution nc = (if ImageFamily nc = Some ImageFamilyUbuntu then ''ubuntu'' else ''cos'')"

definition filterReadinessLabels :: "labels \<Rightarrow> labels" where
  "filterReadinessLabels ls = map_lit (concat (map (\<lambda>k. case map_get ls k of Some v \<Rightarrow> [(k, v)] | None \<Rightarrow> [])
     GKEReadinessLabelKeys))"

fun mergeMissingLabels :: "labels \<Rightarrow> labels \<Rightarrow> labels" where
  "mergeMissingLabels target [] = target"
| "mergeMissingLabels target ((k, v) # source) =
     mergeMissingLabels (if map_has target k then target else map_set k v target) source"

definition parse_label_part :: "string \<Rightarrow> (string \<times> string) list" where
  "parse_label_part part = (case cut CHR ''='' (trim_space part) of
     (k, Some v) \<Rightarrow> if k = [] then [] else [(k, v)] | (k, None) \<Rightarrow> [])"

definition parseLabelString :: "string \<Rightarrow> labels" where
  "parseLabelString raw = map_lit (concat (map parse_label_part (split_on CHR '','' raw)))"

definition nodeLabelsFromKubeEnv :: "string \<Rightarrow> labels" where
  "nodeLabelsFromKubeEnv raw = (case List.find (\<lambda>f. has_prefix f ''--node-labels='') (str_fields raw) of
     Some f \<Rightarrow> parseLabelString (trim_prefix f ''--node-labels='') | None \<Rightarrow> [])"

definition inheritedReadinessLabels :: "compute_metadata option \<Rightarrow> labels \<times> labels" where
  "inheritedReadinessLabels source = (let values = metadataValuesFromCompute source in
     (filterReadinessLabels (parseLabelString (map_str values KubeLabelsKey)),
      filterReadinessLabels (nodeLabelsFromKubeEnv (map_str values KubeEnvKey))))"

definition bootstrapKubeEnvLabels :: "GCENodeClass \<Rightarrow> NodeClaim \<Rightarrow> labels" where
  "bootstrapKubeEnvLabels nc claim =
    [(MaxPodsPerNodeLabel, itoa (GetMaxPods nc)),
     (''cloud.google.com/gke-os-distribution'', gkeOSDistribution nc),
     (NodePoolLabelKey, map_str (ncm_Labels claim) NodePoolLabelKey),
     (LabelNodeClass, ncl_Name nc)]"

definition bootstrapKubeLabels :: "GCENodeClass \<Rightarrow> NodeClaim \<Rightarrow> labels" where
  "bootstrapKubeLabels nc claim = map_set NodeRegisteredLabelKey ''true'' (bootstrapKubeEnvLabels nc claim)"

text \<open>\<^verbatim>\<open>Quantity.Value\<close> of milli-CPU rounds up.\<close>

definition cpu_Value :: "int \<Rightarrow> int" where
  "cpu_Value m = - ((- m) div 1000)"

definition gpuInstanceMetadata :: "GCENodeClass \<Rightarrow> instance_type \<Rightarrow> bool \<Rightarrow> labels \<times> Taint list" where
  "gpuInstanceMetadata nc it isGPU = (if \<not> isGPU then ([], []) else (let
      spec = ncl_Spec nc;
      cpu = resource_of (it_capacity it) ''cpu'';
      ls = (case single_valued it LabelGKEAccelerator of Some v \<Rightarrow> [(LabelGKEAccelerator, v)] | None \<Rightarrow> []);
      ls = map_set LabelGKEGPUDriverVersion (if GPUDriverVersion spec = [] then ''default'' else GPUDriverVersion spec) ls;
      ls = (if cpu \<noteq> 0 then map_set LabelGKECPUScalingLevel (itoa (cpu_Value cpu)) ls else ls);
      ls = (case GPUSharing spec of None \<Rightarrow> ls
        | Some sh \<Rightarrow> map_set LabelGKEMaxSharedClientsPerGPU (itoa (gs_MaxSharedClientsPerGPU sh))
            (map_set LabelGKEGPUSharingStrategy (GKEValue (gs_Strategy sh)) ls))
    in (ls, if AutoGPUTaint spec then [\<lparr>t_Key = ''nvidia.com/gpu'', t_Value = ''present'', t_Effect = ''NoSchedule''\<rparr>] else [])))"

definition set_both_label :: "InstanceMetadata \<Rightarrow> string \<times> string \<Rightarrow> InstanceMetadata" where
  "set_both_label m kv = SetRegistrationNodeLabel (fst kv) (snd kv) (SetKubeLabel (fst kv) (snd kv) m)"

definition setProvisioningModelLabels :: "string \<Rightarrow> InstanceMetadata \<Rightarrow> InstanceMetadata" where
  "setProvisioningModelLabels model m = set_both_label m (GKEProvisioningLabel, model)"

definition initializeInstanceLabels :: "GCENodeClass \<Rightarrow> labels" where
  "initializeInstanceLabels nc = map_copy [] (Labels (ncl_Spec nc))"

definition buildTargetMetadata ::
  "build_env \<Rightarrow> compute_metadata option \<Rightarrow> GCENodeClass \<Rightarrow> instance_type \<Rightarrow> NodeClaim \<Rightarrow> string \<Rightarrow> bool \<Rightarrow>
   InstanceMetadata \<Rightarrow> InstanceMetadata" where
  "buildTargetMetadata e source nc it claim model isGPU m = (let
      (inheritedKube, inheritedReg) = inheritedReadinessLabels source;
      kube = mergeMissingLabels (bootstrapKubeLabels nc claim) inheritedKube;
      reg = mergeMissingLabels (bootstrapKubeEnvLabels nc claim) inheritedReg;
      m = SetRegistrationNodeLabels reg (SetKubeLabels kube (SetInstanceLabels (initializeInstanceLabels nc) m));
      maxPods = GetMaxPods nc;
      m = SetKubeletMaxPods maxPods (set_both_label m (MaxPodsLabel, itoa maxPods));
      m = setProvisioningModelLabels model m;
      m = (if instanceFamily it \<noteq> [] then set_both_label m (''cloud.google.com/machine-family'', instanceFamily it) else m);
      m = foldl (\<lambda>m d. SetKubeLabel (GKESecondaryBootDiskLabelPrefix @ secondaryBootDiskImageName (d_SecondaryBootImage d))
            (d_SecondaryBootMode d @ ''.'' @ be_projectID e) m) m (secondaryBootDisks nc);
      m = SetNodeTaints [\<lparr>t_Key = ''karpenter.sh/unregistered'', t_Value = ''true'', t_Effect = ''NoExecute''\<rparr>] m;
      (gpuLabels, gpuTaints) = gpuInstanceMetadata nc it isGPU;
      m = foldl set_both_label m gpuLabels;
      m = foldl (\<lambda>m t. AppendNodeTaint t m) m gpuTaints
    in foldl set_both_label m (get_or [] (LabelsForInstanceType (be_compat e) (it_name it))))"

definition patchLocalSSDMetadata :: "GCENodeClass \<Rightarrow> int \<Rightarrow> InstanceMetadata \<Rightarrow> InstanceMetadata" where
  "patchLocalSSDMetadata nc ssdCount m = (if ssdCount \<le> 0 then m else (let
      (envKey, envValue, envDrop, labelKey) = (if LocalSsdMode (ncl_Spec nc) = LocalSSDModeEphemeral
        then (''NODE_EPHEMERAL_STORAGE_LOCAL_SSD'', ''true'', ''NODE_LOCAL_NVME_SSD_BLOCK_EXT'',
              ''cloud.google.com/gke-ephemeral-storage-local-ssd'')
        else (''NODE_LOCAL_NVME_SSD_BLOCK_EXT'', itoa ssdCount @ '',nvme,block'', ''NODE_EPHEMERAL_STORAGE_LOCAL_SSD'',
              ''cloud.google.com/gke-local-nvme-ssd''))
    in set_both_label (SetKubeEnvEntry envKey envValue (UnsetKubeEnvEntry envDrop m)) (labelKey, ''true'')))"

definition setupInstanceMetadata ::
  "build_env \<Rightarrow> 's boot_api \<Rightarrow> compute_metadata option \<Rightarrow> GCENodeClass \<Rightarrow> instance_type \<Rightarrow> NodeClaim \<Rightarrow> string \<Rightarrow> string \<Rightarrow>
   bool \<Rightarrow> int \<Rightarrow> labels \<Rightarrow> 's \<Rightarrow> (go_error + InstanceMetadata) \<times> labels \<times> 's" where
  "setupInstanceMetadata e api source nc it claim zone capacityType isGPU ssdCount hashes s =
    (case FromSourceTemplate (be_yamlUnmarshal e) source of
       Inl err \<Rightarrow> (Inl err, hashes, s)
     | Inr m \<Rightarrow> (case validateSourceKubeEnv m of Some err \<Rightarrow> (Inl err, hashes, s)
       | None \<Rightarrow> (let
            m = SetCustomMetadata (Spec_Metadata (ncl_Spec nc)) m;
            model = (if capacityType = CapacityTypeSpot then capacityType else ''standard'');
            m = SetKubeEnvEntry ''ZONE'' zone m;
            m = patchGPUSharingKubeEnv nc isGPU (patchHugepagesKubeEnv nc (patchSecondaryBootDisksKubeEnv nc
              (patchKubeEnvOSDistribution nc m)));
            m = UpdateKubeletConfig (\<lambda>c. applySpotShutdownKubeletConfig model
              (applyNodeClassKubeletConfig e (KubeletConfig (ncl_Spec nc)) (applyInstanceTypeKubeReserved e it c))) m
          in case patchKubeEnvServerBinaryForArch e api it m hashes s of
               (Inl err, hashes, s) \<Rightarrow> (Inl err, hashes, s)
             | (Inr m, hashes, s) \<Rightarrow>
                 (Inr (patchLocalSSDMetadata nc ssdCount (buildTargetMetadata e source nc it claim model isGPU m)), hashes, s))))"

subsection \<open>Label surfaces\<close>

text \<open>A surface of the metadata that is written one entry at a time and read by key. Writing the empty key does
  nothing. Several of them live side by side in one \<^verbatim>\<open>InstanceMetadata\<close>.\<close>

locale label_surface =
  fixes get :: "'m \<Rightarrow> string \<Rightarrow> string option"
    and put :: "'m \<Rightarrow> string \<times> string \<Rightarrow> 'm"
  assumes get_put: "get (put m kv) x = (if fst kv \<noteq> [] \<and> x = fst kv then Some (snd kv) else get m x)"
begin

lemma get_put_all_other: "x \<notin> fst ` set kvs \<Longrightarrow> get (foldl put m kvs) x = get m x"
  by (induction kvs arbitrary: m) (auto simp: get_put)

lemma get_put_all: "x \<noteq> [] \<Longrightarrow> wf_map kvs \<Longrightarrow> get (foldl put m kvs) x = (case map_of kvs x of Some v \<Rightarrow> Some v | None \<Rightarrow> get m x)"
proof (induction kvs arbitrary: m)
  case (Cons kv kvs)
  obtain k v where kv: "kv = (k, v)" by (cases kv)
  have wf: "wf_map kvs" and k: "map_of kvs k = None"
    using Cons.prems(2) kv by (auto simp: wf_map_def map_of_eq_None_iff)
  from Cons.IH [OF Cons.prems(1) wf, of "put m kv"] kv k Cons.prems(1) show ?case
    by (cases "map_of kvs x") (auto simp: get_put)
qed simp

end

definition reg_label :: "InstanceMetadata \<Rightarrow> string \<Rightarrow> string option" where
  "reg_label m = map_of (ka_nodeLabels (ke_kubeletArgs (md_kubeEnv m)))"

definition kube_label :: "InstanceMetadata \<Rightarrow> string \<Rightarrow> string option" where
  "kube_label m = map_of (md_kubeLabels m)"

definition env_entry :: "InstanceMetadata \<Rightarrow> string \<Rightarrow> string option" where
  "env_entry m = map_of (ke_entries (md_kubeEnv m))"

lemmas surface_defs = reg_label_def kube_label_def env_entry_def set_both_label_def SetKubeLabel_def
  SetRegistrationNodeLabel_def SetKubeEnvEntry_def

interpretation regl: label_surface reg_label set_both_label
  by unfold_locales (auto simp: surface_defs)

interpretation kubel: label_surface kube_label set_both_label
  by unfold_locales (auto simp: surface_defs)

interpretation envl: label_surface env_entry "\<lambda>m kv. SetKubeEnvEntry (fst kv) (snd kv) m"
  by unfold_locales (auto simp: surface_defs)

abbreviation node_taints :: "InstanceMetadata \<Rightarrow> Taint list" where
  "node_taints m \<equiv> ka_nodeTaints (ke_kubeletArgs (md_kubeEnv m))"

lemma node_taints_label [simp]: "node_taints (set_both_label m kv) = node_taints m"
  by (simp add: surface_defs)

lemma node_taints_labels [simp]: "node_taints (foldl set_both_label m kvs) = node_taints m"
  by (induction kvs arbitrary: m) simp_all

lemma node_taints_append [simp]: "node_taints (foldl (\<lambda>m t. AppendNodeTaint t m) m ts) = node_taints m @ ts"
  by (induction ts arbitrary: m) (simp_all add: AppendNodeTaint_def)

lemma reg_label_append [simp]: "reg_label (foldl (\<lambda>m t. AppendNodeTaint t m) m ts) = reg_label m"
  by (induction ts arbitrary: m) (simp_all add: AppendNodeTaint_def reg_label_def)

lemma reg_label_SetNodeTaints [simp]: "reg_label (SetNodeTaints ts m) = reg_label m"
  by (simp add: SetNodeTaints_def reg_label_def)

lemma node_taints_SetNodeTaints [simp]: "node_taints (SetNodeTaints ts m) = ts"
  by (simp add: SetNodeTaints_def)

lemma reg_label_SetKubeLabel [simp]: "reg_label (SetKubeLabel k v m) = reg_label m"
  by (simp add: SetKubeLabel_def reg_label_def)

lemma reg_label_kube_labels [simp]: "reg_label (foldl (\<lambda>m d. SetKubeLabel (f d) (g d) m) m ds) = reg_label m"
  by (induction ds arbitrary: m) simp_all

lemma reg_label_SetKubeletMaxPods [simp]: "reg_label (SetKubeletMaxPods n m) = reg_label m"
  by (simp add: SetKubeletMaxPods_def reg_label_def)

lemma reg_label_SetRegistrationNodeLabels [simp]: "reg_label (SetRegistrationNodeLabels ls m) = map_of ls"
  by (simp add: SetRegistrationNodeLabels_def reg_label_def)

lemma merge_keeps: "map_of target k = Some v \<Longrightarrow> map_of (mergeMissingLabels target source) k = Some v"
proof (induction target source rule: mergeMissingLabels.induct)
  case (2 target k' v' source)
  then have "map_of (if map_has target k' then target else map_set k' v' target) k = Some v"
    by (auto simp: map_has_def)
  with "2.IH" show ?case by simp
qed simp

subsection \<open>What a node registers with\<close>

text \<open>Keys that the steps after the bootstrap labels write.\<close>

definition later_key :: "string \<Rightarrow> bool" where
  "later_key k \<longleftrightarrow> k \<in> {MaxPodsLabel, GKEProvisioningLabel, ''cloud.google.com/machine-family'', LabelGKEAccelerator,
     LabelGKEGPUDriverVersion, LabelGKECPUScalingLevel, LabelGKEMaxSharedClientsPerGPU, LabelGKEGPUSharingStrategy}
     \<or> has_prefix k labelPrefix"

lemma fst_set_map_set: "fst ` set (map_set k v m) = insert k (fst ` set m)"
  by (simp add: map_set_def dom_update)

lemma gpu_label_keys: "k \<in> fst ` set (fst (gpuInstanceMetadata nc it isGPU)) \<Longrightarrow> later_key k"
  by (auto simp: gpuInstanceMetadata_def later_key_def Let_def fst_set_map_set
      split: if_splits option.splits)

lemma map_lit_keys: "fst ` set (map_lit kvs) = fst ` set kvs"
proof -
  have "fst ` set (map_copy d kvs) = fst ` set d \<union> fst ` set kvs" for d
    by (induction d kvs rule: map_copy.induct) (auto simp: fst_set_map_set)
  then show ?thesis by (simp add: map_lit_def)
qed

lemma disk_label_keys:
  assumes "k \<in> fst ` set (get_or [] (LabelsForInstanceType (mustLoadCompatibility raw) name))"
  shows "later_key k"
proof -
  obtain f dls where f: "map_of (mustLoadCompatibility raw) f = Some dls" "k \<in> set dls"
    using assms by (auto simp: get_or_def LabelsForInstanceType_def LabelsForFamily_def map_lit_keys split: option.splits)
  then have "k \<in> set (family_disk_labels ds) \<Longrightarrow> has_prefix k labelPrefix" for ds
    by (auto simp: family_disk_labels_def)
  with f show ?thesis
    by (auto simp: map_of_mustLoadCompatibility later_key_def family_disk_labels_def split: option.splits if_splits)
qed

lemma buildTargetMetadata_reg_label:
  assumes "be_compat e = mustLoadCompatibility raw" "\<not> later_key k" "map_of (bootstrapKubeEnvLabels nc claim) k = Some v"
  shows "reg_label (buildTargetMetadata e source nc it claim model isGPU m) k = Some v"
proof -
  have ne: "k \<noteq> MaxPodsLabel" "k \<noteq> GKEProvisioningLabel" "k \<noteq> ''cloud.google.com/machine-family''"
    using assms(2) by (auto simp: later_key_def)
  have disk: "k \<notin> fst ` set (get_or [] (LabelsForInstanceType (be_compat e) (it_name it)))"
    using disk_label_keys assms(1,2) by metis
  have gpu: "k \<notin> fst ` set (fst (gpuInstanceMetadata nc it isGPU))"
    using gpu_label_keys assms(2) by blast
  obtain ik ir where i: "inheritedReadinessLabels source = (ik, ir)" by (cases "inheritedReadinessLabels source")
  obtain gl gt where g: "gpuInstanceMetadata nc it isGPU = (gl, gt)" by (cases "gpuInstanceMetadata nc it isGPU")
  show ?thesis
    unfolding buildTargetMetadata_def i g Let_def prod.case
    using disk gpu g ne merge_keeps [OF assms(3)]
    by (simp add: regl.get_put_all_other regl.get_put setProvisioningModelLabels_def)
qed

lemma buildTargetMetadata_taints:
  "node_taints (buildTargetMetadata e source nc it claim model isGPU m) =
    \<lparr>t_Key = ''karpenter.sh/unregistered'', t_Value = ''true'', t_Effect = ''NoExecute''\<rparr> # snd (gpuInstanceMetadata nc it isGPU)"
  by (simp add: buildTargetMetadata_def Let_def split: prod.splits)

lemma patchLocalSSD_reg:
  "\<not> has_prefix k ''cloud.google.com/'' \<Longrightarrow> reg_label (patchLocalSSDMetadata nc n m) k = reg_label m k"
  "node_taints (patchLocalSSDMetadata nc n m) = node_taints m"
  by (auto simp: patchLocalSSDMetadata_def regl.get_put UnsetKubeEnvEntry_def SetKubeEnvEntry_def reg_label_def
      set_both_label_def SetRegistrationNodeLabel_def SetKubeLabel_def Let_def)

text \<open>C19: Every node that the provider configures registers under its owner: the kubelet's labels name the
  NodePool of the claim and the node class, whatever the source template, the GPU or the disk labels
  bring; the node starts with the \<^verbatim>\<open>karpenter.sh/unregistered:NoExecute\<close> taint, followed only by
  the GPU taint when the node class asks for it; and metadata is produced only if the source
  template has every kube-env entry that bootstrap needs.\<close>

theorem node_registers_under_owner:
  assumes "be_compat e = mustLoadCompatibility raw"
    and "setupInstanceMetadata e api source nc it claim zone ct isGPU n hashes s = (Inr m, hashes', s')"
  shows "reg_label m NodePoolLabelKey = Some (map_str (ncm_Labels claim) NodePoolLabelKey)
    \<and> reg_label m LabelNodeClass = Some (ncl_Name nc)
    \<and> node_taints m = \<lparr>t_Key = ''karpenter.sh/unregistered'', t_Value = ''true'', t_Effect = ''NoExecute''\<rparr> #
        (if isGPU \<and> AutoGPUTaint (ncl_Spec nc) then [\<lparr>t_Key = ''nvidia.com/gpu'', t_Value = ''present'', t_Effect = ''NoSchedule''\<rparr>] else [])
    \<and> (\<exists>src. FromSourceTemplate (be_yamlUnmarshal e) source = Inr src \<and>
        (\<forall>k \<in> set requiredSourceKubeEnvEntries. \<exists>v. GetKubeEnvEntry k src = Some v \<and> \<not> kubeEnvValueEmpty v))"
proof -
  obtain src where src: "FromSourceTemplate (be_yamlUnmarshal e) source = Inr src" "validateSourceKubeEnv src = None"
    using assms(2) by (auto simp: setupInstanceMetadata_def split: sum.splits option.splits)
  obtain m0 model where m: "m = patchLocalSSDMetadata nc n (buildTargetMetadata e source nc it claim model isGPU m0)"
    using assms(2) src by (auto simp: setupInstanceMetadata_def Let_def split: sum.splits prod.splits)
  have keys: "\<not> later_key NodePoolLabelKey" "\<not> later_key LabelNodeClass"
    by (simp_all add: later_key_def go_defs)
  have vals: "map_of (bootstrapKubeEnvLabels nc claim) NodePoolLabelKey = Some (map_str (ncm_Labels claim) NodePoolLabelKey)"
    "map_of (bootstrapKubeEnvLabels nc claim) LabelNodeClass = Some (ncl_Name nc)"
    by (simp_all add: bootstrapKubeEnvLabels_def go_defs)
  have pre: "\<not> has_prefix NodePoolLabelKey ''cloud.google.com/''" "\<not> has_prefix LabelNodeClass ''cloud.google.com/''"
    by (simp_all add: go_defs)
  have labels: "reg_label m NodePoolLabelKey = Some (map_str (ncm_Labels claim) NodePoolLabelKey)"
    "reg_label m LabelNodeClass = Some (ncl_Name nc)"
    unfolding m patchLocalSSD_reg(1) [OF pre(1)] patchLocalSSD_reg(1) [OF pre(2)]
    using buildTargetMetadata_reg_label [OF assms(1)] keys vals by blast+
  have taints: "node_taints m = \<lparr>t_Key = ''karpenter.sh/unregistered'', t_Value = ''true'', t_Effect = ''NoExecute''\<rparr> #
      snd (gpuInstanceMetadata nc it isGPU)"
    unfolding m patchLocalSSD_reg(2) by (rule buildTargetMetadata_taints)
  have valid: "\<forall>k \<in> set requiredSourceKubeEnvEntries. \<exists>v. GetKubeEnvEntry k src = Some v \<and> \<not> kubeEnvValueEmpty v"
    using src(2) by (auto simp: validateSourceKubeEnv_def Let_def filter_empty_conv split: if_splits option.splits)
  show ?thesis
    using labels taints src(1) valid by (simp add: gpuInstanceMetadata_def Let_def)
qed

definition example_build_env :: build_env where
  "example_build_env = \<lparr>be_clusterName = ''c'', be_clusterLocation = ''us-central1'', be_region = ''us-central1'', be_projectID = ''p'',
     be_defaultServiceAccount = [], be_computeDefaultSA = ''sa@p'', be_compat = mustLoadCompatibility [], be_wellKnown = (\<lambda>_. True),
     be_rnd = (\<lambda>_. 0), be_showQuantity = itoa, be_showDuration = itoa, be_yamlUnmarshal = (\<lambda>_. Inr zero_kubelet_config),
     be_yamlMarshal = (\<lambda>_. Inr (''{}'' @ [CHR 0x0A]))\<rparr>"

definition example_source :: compute_metadata where
  "example_source = [Some (''kube-env'', Some (join [CHR 0x0A]
     [''CA_CERT: x'', ''KUBE_MANIFESTS_TAR_URL: x'', ''KUBERNETES_MASTER_NAME: x'', ''SERVER_BINARY_TAR_HASH: x'',
      ''SERVER_BINARY_TAR_URL: h/kubernetes-server-linux-amd64.tar.gz'']))]"

definition example_boot_type :: instance_type where
  "example_boot_type = \<lparr>it_name = ''n2-standard-4'', it_requirements = NewRequirements
     [NewRequirement LabelArchStable OpIn [''amd64'']], it_offerings = [], it_capacity = [], it_kubeReserved = [],
     it_systemReserved = [], it_evictionThreshold = []\<rparr>"

theorem node_registers_under_owner_witness:
  "\<exists>m. fst (setupInstanceMetadata example_build_env \<lparr>ba_version = (\<lambda>s. (Inr [], s)), ba_http = (\<lambda>u s. (Inr (200, ''h''), s))\<rparr>
      (Some example_source) zero_nodeClass example_boot_type zero_nodeClaim ''us-a'' ''spot'' False 0 [] ()) = Inr m
    \<and> reg_label m LabelNodeClass = Some []"
proof -
  let ?r = "setupInstanceMetadata example_build_env \<lparr>ba_version = (\<lambda>s. (Inr [], s)), ba_http = (\<lambda>u s. (Inr (200, ''h''), s))\<rparr>
      (Some example_source) zero_nodeClass example_boot_type zero_nodeClaim ''us-a'' ''spot'' False 0 [] ()"
  have "case fst ?r of Inl _ \<Rightarrow> False | Inr _ \<Rightarrow> True" by code_simp
  then obtain m h s where r: "?r = (Inr m, h, s)" by (cases ?r) (auto split: sum.splits)
  have c: "be_compat example_build_env = mustLoadCompatibility []" by (simp add: example_build_env_def)
  from node_registers_under_owner [OF c r] r show ?thesis by (simp add: zero_nodeClass_def zero_meta_def)
qed

end
