(* ===== verification/Local_SSD.thy ===== *)
theory Local_SSD
  imports Go_Strings
begin

text \<open>
  Local SSD sizing, \<^verbatim>\<open>pkg/utils/localssd/localssd.go\<close>: which machine families take an explicit number of
  local SSDs, which numbers, and how large a machine's local SSDs are. Counts are Go \<^verbatim>\<open>int\<close>, sizes
  \<^verbatim>\<open>int64\<close>; the vCPU count is an \<^verbatim>\<open>int32\<close>. \<open>TotalGiB\<close> multiplies two of them and the multiplication
  is written with its wrap-around.
\<close>

definition DefaultPartitionGiB :: int where "DefaultPartitionGiB = 375"

definition familyPrefix :: "string \<Rightarrow> string" where
  "familyPrefix machineName = (case cut CHR ''-'' machineName of
     (a, Some _) \<Rightarrow> if a \<noteq> [] then a else machineName | (a, None) \<Rightarrow> machineName)"

record vcpuBracket =
  minVCPUs :: int
  counts :: "int list"

record configurableFamily =
  fixed :: "int list option"
  brackets :: "vcpuBracket list"

definition bracketed :: "(int \<times> int list) list \<Rightarrow> configurableFamily" where
  "bracketed bs = \<lparr>fixed = None, brackets = map (\<lambda>(m, c). \<lparr>minVCPUs = m, counts = c\<rparr>) bs\<rparr>"

definition configurableLocalSSDFamilies :: "(string, configurableFamily) gomap" where
  "configurableLocalSSDFamilies =
    [(''n1'', \<lparr>fixed = Some [1, 2, 3, 4, 5, 6, 7, 8, 16, 24], brackets = []\<rparr>),
     (''n2'', bracketed [(82, [16, 24]), (42, [8, 16, 24]), (22, [4, 8, 16, 24]),
        (12, [2, 4, 8, 16, 24]), (2, [1, 2, 4, 8, 16, 24])]),
     (''n2d'', bracketed [(96, [8, 16, 24]), (64, [4, 8, 16, 24]), (32, [2, 4, 8, 16, 24]),
        (2, [1, 2, 4, 8, 16, 24])]),
     (''c2'', bracketed [(60, [8]), (30, [4, 8]), (16, [2, 4, 8]), (4, [1, 2, 4, 8])]),
     (''c2d'', bracketed [(112, [8]), (56, [4, 8]), (32, [2, 4, 8]), (2, [1, 2, 4, 8])])]"

definition FamilySupportsConfigurableLocalSSDs :: "string \<Rightarrow> bool" where
  "FamilySupportsConfigurableLocalSSDs machineName \<longleftrightarrow>
     map_has configurableLocalSSDFamilies (familyPrefix machineName)"

fun bracket_counts :: "vcpuBracket list \<Rightarrow> int \<Rightarrow> int list" where
  "bracket_counts [] v = []"
| "bracket_counts (b # bs) v = (if v \<ge> minVCPUs b then counts b else bracket_counts bs v)"

definition AllowedLocalSSDCounts :: "string \<Rightarrow> int \<Rightarrow> int list" where
  "AllowedLocalSSDCounts machineName vCPUs =
    (case map_get configurableLocalSSDFamilies (familyPrefix machineName) of
       None \<Rightarrow> []
     | Some family \<Rightarrow> (case fixed family of Some cs \<Rightarrow> cs | None \<Rightarrow> bracket_counts (brackets family) vCPUs))"

record ssd_entry =
  totalGiB :: int
  perPartGiB :: int

definition ssd_table :: "(string, ssd_entry) gomap" where
  "ssd_table =
    [(''z3'', \<lparr>totalGiB = 0, perPartGiB = 3000\<rparr>),
     (''z4d'', \<lparr>totalGiB = 0, perPartGiB = 3500\<rparr>),
     (''c4-highmem-288-lssd-metal'', \<lparr>totalGiB = 18000, perPartGiB = 0\<rparr>),
     (''c4-standard-288-lssd-metal'', \<lparr>totalGiB = 18000, perPartGiB = 0\<rparr>),
     (''z3-highmem-192-highlssd-metal'', \<lparr>totalGiB = 72000, perPartGiB = 0\<rparr>)]"

definition partitionSizeGiB :: "string \<Rightarrow> int" where
  "partitionSizeGiB machineName = (case map_get ssd_table (familyPrefix machineName) of
     Some e \<Rightarrow> if perPartGiB e > 0 then perPartGiB e else DefaultPartitionGiB
   | None \<Rightarrow> DefaultPartitionGiB)"

text \<open>Multiplication of \<^verbatim>\<open>int64\<close> values.\<close>

definition mul64 :: "int \<Rightarrow> int \<Rightarrow> int" where
  "mul64 a b = (a * b + 2 ^ 63) mod 2 ^ 64 - 2 ^ 63"

definition TotalGiB :: "string \<Rightarrow> int \<Rightarrow> int" where
  "TotalGiB machineName partitionCount =
    (case map_get ssd_table machineName of
       Some e \<Rightarrow> if totalGiB e > 0 then totalGiB e
                 else if partitionCount \<le> 0 then 0 else mul64 partitionCount (partitionSizeGiB machineName)
     | None \<Rightarrow> if partitionCount \<le> 0 then 0 else mul64 partitionCount (partitionSizeGiB machineName))"

subsection \<open>The table of counts\<close>

text \<open>What makes the table of a family right: the brackets go down in vCPUs, every bracket allows
  positive counts in increasing order, and a bracket for fewer vCPUs allows at least what the ones
  before it allow.\<close>

fun brackets_ok :: "vcpuBracket list \<Rightarrow> bool" where
  "brackets_ok [] = True"
| "brackets_ok (b # bs) = (list_all (\<lambda>c. 0 < c \<and> c \<le> 24) (counts b) \<and> sorted_wrt (<) (counts b) \<and> counts b \<noteq> []
     \<and> list_all (\<lambda>b'. minVCPUs b' < minVCPUs b \<and> set (counts b) \<subseteq> set (counts b')) bs \<and> brackets_ok bs)"

lemma mul64_id: "- (2 ^ 63) \<le> a * b \<Longrightarrow> a * b < 2 ^ 63 \<Longrightarrow> mul64 a b = a * b"
  by (simp add: mul64_def)

lemma bracket_counts_antimono:
  "brackets_ok bs \<Longrightarrow> v \<le> w \<Longrightarrow> bracket_counts bs v \<noteq> [] \<Longrightarrow> set (bracket_counts bs w) \<subseteq> set (bracket_counts bs v)"
proof (induction bs)
  case (Cons b bs)
  show ?case
  proof (cases "minVCPUs b \<le> v")
    case False
    have sub: "set (counts b) \<subseteq> set (bracket_counts bs v)" if "bracket_counts bs v \<noteq> []"
      using that Cons.prems(1) by (induction bs) (auto split: if_splits)
    from False Cons show ?thesis by (auto dest!: sub [THEN subsetD])
  qed (use Cons.prems in auto)
qed simp

lemma bracket_counts_ok:
  "brackets_ok bs \<Longrightarrow> list_all (\<lambda>c. 0 < c \<and> c \<le> 24) (bracket_counts bs v) \<and> sorted_wrt (<) (bracket_counts bs v)"
  by (induction bs) auto

lemma families_cases:
  assumes "map_get configurableLocalSSDFamilies f = Some fam"
  shows "(fam = \<lparr>fixed = Some [1, 2, 3, 4, 5, 6, 7, 8, 16, 24], brackets = []\<rparr>) \<or>
    (fixed fam = None \<and> brackets_ok (brackets fam))"
proof -
  from assms have "(f, fam) \<in> set configurableLocalSSDFamilies"
    by (simp add: map_of_SomeD)
  then show ?thesis
    by (auto simp: configurableLocalSSDFamilies_def bracketed_def)
qed

lemma familyPrefix_dash: "CHR ''-'' \<notin> set f \<Longrightarrow> f \<noteq> [] \<Longrightarrow> familyPrefix (f @ CHR ''-'' # rest) = f"
  by (simp add: familyPrefix_def)

lemma partitionSizeGiB_bounds: "375 \<le> partitionSizeGiB m \<and> partitionSizeGiB m \<le> 3500"
proof -
  have per: "perPartGiB e = 0 \<or> perPartGiB e = 3000 \<or> perPartGiB e = 3500"
    if "map_of ssd_table f = Some e" for f e
  proof -
    from that have "(f, e) \<in> set ssd_table" by (simp add: map_of_SomeD)
    then show ?thesis by (auto simp: ssd_table_def)
  qed
  show ?thesis
    by (auto simp: partitionSizeGiB_def DefaultPartitionGiB_def split: option.splits dest: per)
qed

subsection \<open>Properties\<close>

text \<open>The SSD counts offered for a machine are positive, at most 24 and strictly increasing; a machine
  has some only if its family is configurable; and a bigger machine of the same family is never
  offered a count that a smaller one, to which any count is offered, is refused.\<close>

theorem AllowedLocalSSDCounts_sound:
  assumes "v \<le> w" "AllowedLocalSSDCounts m v \<noteq> []"
  shows "(\<forall>c \<in> set (AllowedLocalSSDCounts m v). 0 < c \<and> c \<le> 24) \<and> sorted_wrt (<) (AllowedLocalSSDCounts m v)
    \<and> FamilySupportsConfigurableLocalSSDs m \<and> set (AllowedLocalSSDCounts m w) \<subseteq> set (AllowedLocalSSDCounts m v)"
proof -
  obtain fam where fam: "map_of configurableLocalSSDFamilies (familyPrefix m) = Some fam"
    using assms(2) by (auto simp: AllowedLocalSSDCounts_def split: option.splits)
  then have "FamilySupportsConfigurableLocalSSDs m"
    by (simp add: FamilySupportsConfigurableLocalSSDs_def map_has_def)
  moreover from families_cases [of "familyPrefix m" fam] fam
  consider "fam = \<lparr>fixed = Some [1, 2, 3, 4, 5, 6, 7, 8, 16, 24], brackets = []\<rparr>"
    | "fixed fam = None" "brackets_ok (brackets fam)" by auto
  then have "(\<forall>c \<in> set (AllowedLocalSSDCounts m v). 0 < c \<and> c \<le> 24) \<and> sorted_wrt (<) (AllowedLocalSSDCounts m v)
    \<and> set (AllowedLocalSSDCounts m w) \<subseteq> set (AllowedLocalSSDCounts m v)"
  proof cases
    case 2
    with fam assms bracket_counts_ok [of "brackets fam" v] bracket_counts_antimono [of "brackets fam" v w]
    show ?thesis by (auto simp: AllowedLocalSSDCounts_def list_all_iff)
  qed (simp add: AllowedLocalSSDCounts_def fam)
  ultimately show ?thesis by blast
qed

theorem AllowedLocalSSDCounts_sound_witness:
  "(22::int) \<le> 82 \<and> AllowedLocalSSDCounts ''n2-standard-32'' 22 = [4, 8, 16, 24] \<and>
   set (AllowedLocalSSDCounts ''n2-standard-32'' 82) \<subseteq> {4, 8, 16, 24}"
proof -
  have "AllowedLocalSSDCounts ''n2-standard-32'' 22 = [4, 8, 16, 24]" by code_simp
  with AllowedLocalSSDCounts_sound [of 22 82 "''n2-standard-32''"] show ?thesis by simp
qed

text \<open>For a partition count that a machine can have, \<open>TotalGiB\<close> does not wrap around: it is the size the
  table gives for a machine whose partitions the Compute API misreports, nothing without partitions,
  and otherwise the number of partitions times the size of one in the machine's family, which is
  between 375 and 3500 GiB.\<close>

theorem TotalGiB_value:
  assumes "n < 2 ^ 31"
  shows "TotalGiB m n = (if m \<in> {''c4-highmem-288-lssd-metal'', ''c4-standard-288-lssd-metal''} then 18000
      else if m = ''z3-highmem-192-highlssd-metal'' then 72000
      else if n \<le> 0 then 0 else n * partitionSizeGiB m)
    \<and> 375 \<le> partitionSizeGiB m \<and> partitionSizeGiB m \<le> 3500"
proof -
  have nowrap: "mul64 n (partitionSizeGiB m) = n * partitionSizeGiB m" if "n > 0"
  proof (rule mul64_id)
    have "n * partitionSizeGiB m \<le> 2 ^ 31 * 3500"
      using that assms partitionSizeGiB_bounds [of m] by (intro mult_mono) auto
    then show "n * partitionSizeGiB m < 2 ^ 63" by simp
    have "0 \<le> n * partitionSizeGiB m"
      using that partitionSizeGiB_bounds [of m] by simp
    then show "- (2 ^ 63) \<le> n * partitionSizeGiB m" by simp
  qed
  then have "TotalGiB m n = (if m \<in> {''c4-highmem-288-lssd-metal'', ''c4-standard-288-lssd-metal''} then 18000
      else if m = ''z3-highmem-192-highlssd-metal'' then 72000
      else if n \<le> 0 then 0 else n * partitionSizeGiB m)"
    by (auto simp: TotalGiB_def ssd_table_def)
  then show ?thesis using partitionSizeGiB_bounds by blast
qed

theorem TotalGiB_value_witness:
  "(3::int) < 2 ^ 31 \<and> TotalGiB ''z3-highmem-88'' 3 = 9000"
  using TotalGiB_value [of 3 "''z3-highmem-88''"]
  by (simp add: partitionSizeGiB_def familyPrefix_def ssd_table_def)

end
