(* ===== verification/Go_Cache.thy ===== *)
theory Go_Cache
  imports Go_Strings
begin

text \<open>
  The expiring cache of \<^verbatim>\<open>github.com/patrickmn/go-cache\<close> (vendored), which keeps the unavailable
  offerings, the instances, the images and the instance-type lists of the provider. The clock is an argument,
  in nanoseconds since 1970. A cache that expires is an interface of its own, the locale
  \<open>ttl_cache\<close>, so that the components that use one rest on its laws only.
\<close>

record 'v gocache =
  gc_items :: "(string, 'v \<times> int) gomap"
  gc_defaultExpiration :: duration

definition newCache :: "duration \<Rightarrow> 'v gocache" where
  "newCache de = \<lparr>gc_items = [], gc_defaultExpiration = (if de = 0 then -1 else de)\<rparr>"

definition cache_set :: "instant \<Rightarrow> string \<Rightarrow> 'v \<Rightarrow> duration \<Rightarrow> 'v gocache \<Rightarrow> 'v gocache" where
  "cache_set now k x d c = (let d' = (if d = 0 then gc_defaultExpiration c else d);
      e = (if d' > 0 then now + d' else 0)
    in c\<lparr>gc_items := map_set k (x, e) (gc_items c)\<rparr>)"

definition item_expired :: "instant \<Rightarrow> 'v \<times> int \<Rightarrow> bool" where
  "item_expired now it \<longleftrightarrow> snd it > 0 \<and> now > snd it"

definition cache_get :: "instant \<Rightarrow> string \<Rightarrow> 'v gocache \<Rightarrow> 'v option" where
  "cache_get now k c = (case map_get (gc_items c) k of None \<Rightarrow> None
     | Some it \<Rightarrow> if item_expired now it then None else Some (fst it))"

definition cache_delete :: "string \<Rightarrow> 'v gocache \<Rightarrow> 'v gocache" where
  "cache_delete k c = c\<lparr>gc_items := map_del k (gc_items c)\<rparr>"

definition cache_flush :: "'v gocache \<Rightarrow> 'v gocache" where
  "cache_flush c = c\<lparr>gc_items := []\<rparr>"

text \<open>The janitor's \<^verbatim>\<open>DeleteExpired\<close>: the cache without the expired items, and the keys handed to
  \<^verbatim>\<open>onEvicted\<close>.\<close>

definition cache_delete_expired :: "instant \<Rightarrow> 'v gocache \<Rightarrow> 'v gocache \<times> string list" where
  "cache_delete_expired now c =
    (c\<lparr>gc_items := filter (\<lambda>(k, it). \<not> item_expired now it) (gc_items c)\<rparr>,
     map fst (filter (\<lambda>(k, it). item_expired now it) (gc_items c)))"

definition cache_wf :: "'v gocache \<Rightarrow> bool" where
  "cache_wf c \<longleftrightarrow> wf_map (gc_items c)"

subsection \<open>The interface\<close>

locale ttl_cache =
  fixes ok :: "'c \<Rightarrow> bool"
    and put :: "instant \<Rightarrow> 'k \<Rightarrow> 'v \<Rightarrow> duration \<Rightarrow> 'c \<Rightarrow> 'c"
    and look :: "instant \<Rightarrow> 'k \<Rightarrow> 'c \<Rightarrow> 'v option"
    and sweep :: "instant \<Rightarrow> 'c \<Rightarrow> 'c"
    and wipe :: "'c \<Rightarrow> 'c"
  assumes look_put_same: "0 < now \<Longrightarrow> 0 < d \<Longrightarrow>
      look t k (put now k v d c) = (if t \<le> now + d then Some v else None)"
    and look_put_other: "k \<noteq> k' \<Longrightarrow> look t k' (put now k v d c) = look t k' c"
    and look_sweep: "ok c \<Longrightarrow> now \<le> t \<Longrightarrow> look t k (sweep now c) = look t k c"
    and look_wipe: "look t k (wipe c) = None"
    and ok_put: "ok c \<Longrightarrow> ok (put now k v d c)"
    and ok_sweep: "ok c \<Longrightarrow> ok (sweep now c)"
    and ok_wipe: "ok (wipe c)"
begin

text \<open>A run of writes and sweeps: what a lookup sees afterwards is the last write of its key.\<close>

definition put_all :: "instant \<Rightarrow> duration \<Rightarrow> ('k \<times> 'v) list \<Rightarrow> 'c \<Rightarrow> 'c" where
  "put_all now d kvs c = foldl (\<lambda>c (k, v). put now k v d c) c kvs"

lemma put_all_simps [simp]:
  "put_all now d [] c = c"
  "put_all now d ((k, v) # kvs) c = put_all now d kvs (put now k v d c)"
  by (simp_all add: put_all_def)

lemma ok_put_all: "ok c \<Longrightarrow> ok (put_all now d kvs c)"
  by (induction kvs arbitrary: c) (auto simp: ok_put)

lemma look_put_all_other: "k \<notin> fst ` set kvs \<Longrightarrow> look t k (put_all now d kvs c) = look t k c"
proof (induction kvs arbitrary: c)
  case (Cons kv kvs)
  obtain k' v' where "kv = (k', v')" by (cases kv)
  with Cons show ?case by (auto simp: look_put_other)
qed simp

lemma look_put_all:
  assumes "0 < now" "0 < d" "k \<in> fst ` set kvs"
  shows "t \<le> now + d \<Longrightarrow> look t k (put_all now d kvs c) \<noteq> None"
    and "now + d < t \<Longrightarrow> look t k (put_all now d kvs c) = None"
proof -
  have "(t \<le> now + d \<longrightarrow> look t k (put_all now d kvs c) \<noteq> None) \<and>
    (now + d < t \<longrightarrow> look t k (put_all now d kvs c) = None)"
    using assms(3)
  proof (induction kvs arbitrary: c)
    case (Cons kv kvs)
    obtain k' v' where kv: "kv = (k', v')" by (cases kv)
    show ?case
    proof (cases "k \<in> fst ` set kvs")
      case True
      with Cons kv show ?thesis by simp
    next
      case False
      with Cons.prems kv have "k = k'" by auto
      with False kv show ?thesis
        by (simp add: look_put_all_other look_put_same [OF assms(1,2)])
    qed
  qed simp
  then show "t \<le> now + d \<Longrightarrow> look t k (put_all now d kvs c) \<noteq> None"
    and "now + d < t \<Longrightarrow> look t k (put_all now d kvs c) = None" by auto
qed

end

subsection \<open>The cache of the library implements it\<close>

lemma cache_get_set_same:
  "0 < now \<Longrightarrow> 0 < d \<Longrightarrow> cache_get t k (cache_set now k v d c) = (if t \<le> now + d then Some v else None)"
  by (auto simp: cache_get_def cache_set_def item_expired_def Let_def)

lemma cache_get_set_other: "k \<noteq> k' \<Longrightarrow> cache_get t k' (cache_set now k v d c) = cache_get t k' c"
  by (simp add: cache_get_def cache_set_def Let_def)

lemma cache_get_flush [simp]: "cache_get t k (cache_flush c) = None"
  by (simp add: cache_get_def cache_flush_def)

lemma cache_get_delete [simp]: "cache_get t k' (cache_delete k c) = (if k = k' then None else cache_get t k' c)"
  by (simp add: cache_get_def cache_delete_def)

lemma cache_get_new [simp]: "cache_get t k (newCache de) = None"
  by (simp add: cache_get_def newCache_def)

lemma wf_map_filter [intro]: "wf_map m \<Longrightarrow> wf_map (filter P m)"
  by (induction m) (auto simp: wf_map_def)

lemma map_of_filter_wf:
  "wf_map m \<Longrightarrow> map_of (filter (\<lambda>(k, v). P k v) m) k =
     (case map_of m k of Some v \<Rightarrow> if P k v then Some v else None | None \<Rightarrow> None)"
proof (induction m)
  case (Cons kv m)
  obtain k' v' where kv: "kv = (k', v')" by (cases kv)
  from Cons.prems kv have "map_of m k' = None" "wf_map m"
    by (auto simp: wf_map_def map_of_eq_None_iff)
  with Cons.IH kv show ?case by (auto split: option.splits)
qed simp

lemma cache_get_delete_expired:
  "cache_wf c \<Longrightarrow> now \<le> t \<Longrightarrow> cache_get t k (fst (cache_delete_expired now c)) = cache_get t k c"
  by (auto simp: cache_get_def cache_delete_expired_def cache_wf_def map_of_filter_wf item_expired_def
      split: option.splits)

lemma cache_wf_ops [simp, intro]:
  "cache_wf (newCache de)" "cache_wf (cache_flush c)"
  "cache_wf c \<Longrightarrow> cache_wf (cache_set now k v d c)"
  "cache_wf c \<Longrightarrow> cache_wf (cache_delete k c)"
  "cache_wf c \<Longrightarrow> cache_wf (fst (cache_delete_expired now c))"
  by (auto simp: cache_wf_def newCache_def cache_flush_def cache_set_def cache_delete_def
      cache_delete_expired_def Let_def)

interpretation gc: ttl_cache cache_wf cache_set cache_get "\<lambda>now c. fst (cache_delete_expired now c)" cache_flush
  by unfold_locales (auto simp: cache_get_set_same cache_get_set_other cache_get_delete_expired)

end
