(* ===== verification/Gke.thy ===== *)
theory Gke
  imports Compute_Types Go_Cache "HOL-Library.Word"
begin

text \<open>
  The GKE provider, \<^verbatim>\<open>pkg/providers/gke\<close>: cluster zones and cluster configuration with their caches, and
  the pod range names of a cluster. The container and compute services are arguments that advance a world
  state. \<^verbatim>\<open>GetClusterConfig\<close> releases its lock while it fetches; its two critical sections are
  \<open>gcc_begin\<close> and \<open>gcc_commit\<close>, composed by \<open>GetClusterConfig\<close> when nothing interferes and interleaved
  with other callers by the step relation \<open>gke_step\<close>. The generation counter is a 64-bit word.
\<close>

definition zoneCacheExpiration :: duration where [go_defs]: "zoneCacheExpiration = 5 * 60 * 1000000000"
definition clusterCacheTTL :: duration where [go_defs]: "clusterCacheTTL = 30 * 60 * 1000000000"
definition zoneCacheKey :: string where [go_defs]: "zoneCacheKey = ''zone-cache''"
definition clusterCacheKey :: string where [go_defs]: "clusterCacheKey = ''cluster''"

record gke_state =
  gk_generation :: "64 word"
  gk_zoneCache :: "string list gocache"
  gk_clusterCache :: "cluster gocache"

definition NewGkeProvider :: gke_state where
  "NewGkeProvider = \<lparr>gk_generation = 0, gk_zoneCache = newCache zoneCacheExpiration,
     gk_clusterCache = newCache clusterCacheTTL\<rparr>"

definition IsMultiNetworkingEnabled :: "cluster option \<Rightarrow> bool" where
  "IsMultiNetworkingEnabled c = (case c of None \<Rightarrow> False
     | Some cl \<Rightarrow> (case cl_NetworkConfig cl of None \<Rightarrow> False | Some n \<Rightarrow> cn_EnableMultiNetworking n))"

subsection \<open>Cluster configuration\<close>

text \<open>The first critical section: a cached configuration, or the generation to fetch under.\<close>

definition gcc_begin :: "instant \<Rightarrow> gke_state \<Rightarrow> cluster + 64 word" where
  "gcc_begin now s = (case cache_get now clusterCacheKey (gk_clusterCache s) of
     Some c \<Rightarrow> Inl c | None \<Rightarrow> Inr (gk_generation s))"

text \<open>The second one: the fetched configuration is cached unless the generation moved on.\<close>

definition gcc_commit :: "instant \<Rightarrow> 64 word \<Rightarrow> cluster \<Rightarrow> gke_state \<Rightarrow> gke_state" where
  "gcc_commit now generation c s = (if generation = gk_generation s
     then s\<lparr>gk_clusterCache := cache_set now clusterCacheKey c 0 (gk_clusterCache s)\<rparr> else s)"

definition GetClusterConfig ::
  "('w \<Rightarrow> (go_error + cluster) \<times> 'w) \<Rightarrow> instant \<Rightarrow> gke_state \<Rightarrow> 'w \<Rightarrow> (go_error + cluster) \<times> gke_state \<times> 'w" where
  "GetClusterConfig clusters_get now s w = (case gcc_begin now s of
      Inl c \<Rightarrow> (Inr c, s, w)
    | Inr generation \<Rightarrow> (case clusters_get w of
        (Inl err, w) \<Rightarrow> (Inl (Errorf ''fetching cluster config: %w'' [] [err]), s, w)
      | (Inr c, w) \<Rightarrow> (Inr c, gcc_commit now generation c s, w)))"

definition InvalidateClusterConfig :: "gke_state \<Rightarrow> gke_state" where
  "InvalidateClusterConfig s = s\<lparr>gk_clusterCache := cache_delete clusterCacheKey (gk_clusterCache s),
     gk_generation := gk_generation s + 1\<rparr>"

subsection \<open>Zones\<close>

definition location_region :: "string \<Rightarrow> string" where
  "location_region loc = (if length (filter (\<lambda>c. c = CHR ''-'') loc) = 2
     then join ''-'' (take 2 (split_on CHR ''-'' loc)) else loc)"

definition ResolveClusterZones ::
  "('w \<Rightarrow> (go_error + cluster) \<times> 'w) \<Rightarrow> ('w \<Rightarrow> (go_error + string list) \<times> 'w) \<Rightarrow> string \<Rightarrow> instant \<Rightarrow>
   gke_state \<Rightarrow> 'w \<Rightarrow> (go_error + string list) \<times> gke_state \<times> 'w" where
  "ResolveClusterZones clusters_get zones_list clusterLocation now s w =
    (case cache_get now zoneCacheKey (gk_zoneCache s) of
       Some zones \<Rightarrow> (Inr zones, s, w)
     | None \<Rightarrow> (case GetClusterConfig clusters_get now s w of
         (Inl err, s, w) \<Rightarrow> (Inl err, s, w)
       | (Inr c, s, w) \<Rightarrow> if cl_Locations c \<noteq> [] then
           (let zones = sort_strings (cl_Locations c)
            in (Inr zones, s\<lparr>gk_zoneCache := cache_set now zoneCacheKey zones 0 (gk_zoneCache s)\<rparr>, w))
         else (case zones_list w of
             (Inl err, w) \<Rightarrow> (Inl err, s, w)
           | (Inr names, w) \<Rightarrow> (let region = location_region clusterLocation;
                zones = filter (\<lambda>z. has_prefix z (region @ ''-'')) names
              in if zones = [] then (Inl (Errorf ''no zones found for region: %s'' [region] []), s, w)
                 else (let zones = sort_strings zones
                   in (Inr zones, s\<lparr>gk_zoneCache := cache_set now zoneCacheKey zones 0 (gk_zoneCache s)\<rparr>, w))))))"

subsection \<open>Pod ranges\<close>

definition ClusterPodRangeNames :: "cluster option \<Rightarrow> string list" where
  "ClusterPodRangeNames c = (case c of None \<Rightarrow> []
    | Some cl \<Rightarrow> (case cl_IpAllocationPolicy cl of None \<Rightarrow> []
      | Some pol \<Rightarrow> uniq (filter (\<lambda>n. n \<noteq> [])
          (ip_ClusterSecondaryRangeName pol # (case ip_AdditionalPodRangesConfig pol of None \<Rightarrow> []
            | Some a \<Rightarrow> apr_PodRangeNames a @ concat (map (\<lambda>i. case i of None \<Rightarrow> [] | Some n \<Rightarrow> [n]) (apr_PodRangeInfo a)))))))"

lemma ClusterPodRangeNames_distinct: "distinct (ClusterPodRangeNames c)"
  by (simp add: ClusterPodRangeNames_def split: option.splits)

lemma ClusterPodRangeNames_nonempty_names: "[] \<notin> set (ClusterPodRangeNames c)"
  by (simp add: ClusterPodRangeNames_def split: option.splits)

subsection \<open>Concurrent callers\<close>

text \<open>A caller between its two critical sections: the generation it read, and the answer once it has
  arrived. \<open>sy_invalidations\<close> counts the invalidations, \<open>fl_started\<close> is that count when the caller
  began, and \<open>sy_since\<close> are the configurations the cluster has had since the last invalidation; the
  three are history variables, read by no step.\<close>

record flight =
  fl_generation :: "64 word"
  fl_started :: nat
  fl_answer :: "cluster option"

record gke_system =
  sy_provider :: gke_state
  sy_remote :: cluster
  sy_flights :: "flight list"
  sy_invalidations :: nat
  sy_since :: "cluster list"

inductive gke_step :: "gke_system \<Rightarrow> gke_system \<Rightarrow> bool" where
  step_begin: "gcc_begin now (sy_provider y) = Inr g \<Longrightarrow>
    gke_step y (y\<lparr>sy_flights := \<lparr>fl_generation = g, fl_started = sy_invalidations y, fl_answer = None\<rparr> # sy_flights y\<rparr>)"
| step_answer: "sy_flights y = fs @ f # fs' \<Longrightarrow> fl_answer f = None \<Longrightarrow>
    gke_step y (y\<lparr>sy_flights := fs @ f\<lparr>fl_answer := Some (sy_remote y)\<rparr> # fs'\<rparr>)"
| step_commit: "sy_flights y = fs @ f # fs' \<Longrightarrow> fl_answer f = Some c \<Longrightarrow>
    gke_step y (y\<lparr>sy_flights := fs @ fs', sy_provider := gcc_commit now (fl_generation f) c (sy_provider y)\<rparr>)"
| step_fail: "sy_flights y = fs @ f # fs' \<Longrightarrow> gke_step y (y\<lparr>sy_flights := fs @ fs'\<rparr>)"
| step_invalidate:
    "gke_step y (y\<lparr>sy_provider := InvalidateClusterConfig (sy_provider y),
       sy_invalidations := sy_invalidations y + 1, sy_since := [sy_remote y]\<rparr>)"
| step_remote: "gke_step y (y\<lparr>sy_remote := c, sy_since := c # sy_since y\<rparr>)"
| step_janitor:
    "gke_step y (y\<lparr>sy_provider := (sy_provider y)\<lparr>gk_clusterCache := fst (cache_delete_expired now (gk_clusterCache (sy_provider y)))\<rparr>\<rparr>)"

definition gke_init :: "cluster \<Rightarrow> gke_system" where
  "gke_init c = \<lparr>sy_provider = NewGkeProvider, sy_remote = c, sy_flights = [], sy_invalidations = 0, sy_since = [c]\<rparr>"

text \<open>The invariant: the counter is the number of invalidations, callers carry the counter of their start,
  and what a caller that started since the last invalidation was answered, and what is cached, are
  configurations of the cluster since then.\<close>

definition flight_ok :: "gke_system \<Rightarrow> flight \<Rightarrow> bool" where
  "flight_ok y f \<longleftrightarrow> fl_generation f = of_nat (fl_started f) \<and> fl_started f \<le> sy_invalidations y \<and>
     (fl_started f = sy_invalidations y \<longrightarrow> (\<forall>c. fl_answer f = Some c \<longrightarrow> c \<in> set (sy_since y)))"

definition gke_inv :: "gke_system \<Rightarrow> bool" where
  "gke_inv y \<longleftrightarrow> gk_generation (sy_provider y) = of_nat (sy_invalidations y) \<and> list_all (flight_ok y) (sy_flights y)
     \<and> sy_remote y \<in> set (sy_since y)
     \<and> (\<forall>c e. map_of (gc_items (gk_clusterCache (sy_provider y))) clusterCacheKey = Some (c, e) \<longrightarrow> c \<in> set (sy_since y))
     \<and> cache_wf (gk_clusterCache (sy_provider y))"

lemma gke_inv_init: "gke_inv (gke_init c)"
  by (simp add: gke_inv_def gke_init_def NewGkeProvider_def) (simp add: newCache_def)

lemma of_nat_word64_inj: "n < 2 ^ 64 \<Longrightarrow> m < 2 ^ 64 \<Longrightarrow> (of_nat n :: 64 word) = of_nat m \<longleftrightarrow> n = m"
  by (simp add: word_of_nat_eq_iff take_bit_nat_eq_self_iff take_bit_nat_eq_self)

lemma gcc_commit_sel [simp]: "gk_generation (gcc_commit now g c s) = gk_generation s"
  by (simp add: gcc_commit_def)

lemma gcc_commit_cached:
  "map_of (gc_items (gk_clusterCache (gcc_commit now g c s))) clusterCacheKey = Some (c', e) \<Longrightarrow>
   (g = gk_generation s \<and> c' = c) \<or> map_of (gc_items (gk_clusterCache s)) clusterCacheKey = Some (c', e)"
  by (auto simp: gcc_commit_def cache_set_def Let_def split: if_splits)

lemma gke_inv_step:
  assumes "gke_step y y'" "gke_inv y" "sy_invalidations y < 2 ^ 64"
  shows "gke_inv y'"
  using assms
proof (cases rule: gke_step.cases)
  case (step_commit fs f fs' c now)
  have f: "flight_ok y f" and rest: "list_all (flight_ok y) (fs @ fs')"
    using assms(2) step_commit(2) by (auto simp: gke_inv_def)
  have "c \<in> set (sy_since y)" if "fl_generation f = gk_generation (sy_provider y)"
  proof -
    have "(of_nat (fl_started f) :: 64 word) = of_nat (sy_invalidations y)" "fl_started f \<le> sy_invalidations y"
      using that f assms(2) by (auto simp: flight_ok_def gke_inv_def)
    then have "fl_started f = sy_invalidations y" using assms(3) by (simp add: of_nat_word64_inj)
    with f step_commit(3) show ?thesis by (simp add: flight_ok_def)
  qed
  moreover have "cache_wf (gk_clusterCache (gcc_commit now (fl_generation f) c (sy_provider y)))"
    using assms(2) by (auto simp: gcc_commit_def gke_inv_def)
  ultimately show ?thesis
    using assms(2) rest unfolding step_commit(1) gke_inv_def
    by (auto simp: list_all_iff flight_ok_def dest!: gcc_commit_cached)
qed (auto simp: gke_inv_def flight_ok_def InvalidateClusterConfig_def gcc_begin_def cache_delete_def list_all_iff
      cache_delete_expired_def map_of_filter_wf cache_wf_def wf_map_filter split: option.splits)

text \<open>Every state of a run with fewer than \<open>2 ^ 64\<close> invalidations satisfies it.\<close>

lemma sy_invalidations_mono: "gke_step\<^sup>*\<^sup>* y y' \<Longrightarrow> sy_invalidations y \<le> sy_invalidations y'"
  by (induction rule: rtranclp_induct) (auto elim!: gke_step.cases)

lemma gke_inv_reachable:
  assumes "gke_step\<^sup>*\<^sup>* (gke_init c) y" "sy_invalidations y < 2 ^ 64"
  shows "gke_inv y"
  using assms
proof (induction rule: rtranclp_induct)
  case (step y z)
  have "sy_invalidations y \<le> sy_invalidations z"
    using step(2) sy_invalidations_mono by blast
  with step gke_inv_step show ?case by auto
qed (rule gke_inv_init)

subsection \<open>Properties\<close>

text \<open>C17: A cached cluster configuration is never older than the last invalidation, however fetches,
  answers, invalidations, expiry and changes of the cluster interleave: what \<^verbatim>\<open>GetClusterConfig\<close> reads
  from the cache is a configuration that the cluster has had since the last \<^verbatim>\<open>InvalidateClusterConfig\<close>.
  A fetch that was in flight when the cache was invalidated does not put its answer back.\<close>

theorem cached_config_not_stale:
  assumes "gke_step\<^sup>*\<^sup>* (gke_init c0) y" "sy_invalidations y < 2 ^ 64"
    and "gcc_begin now (sy_provider y) = Inl c"
  shows "c \<in> set (sy_since y)"
  using gke_inv_reachable [OF assms(1,2)] assms(3)
  by (auto simp: gke_inv_def gcc_begin_def cache_get_def split: option.splits if_splits)

definition example_cluster :: "string \<Rightarrow> cluster" where
  "example_cluster i = \<lparr>cl_Id = i, cl_Locations = [''us-a'', ''us-b''], cl_NetworkConfig = None,
     cl_IpAllocationPolicy = None, cl_PrivateNodes = None, cl_ReleaseChannel = None\<rparr>"

text \<open>Witness: a fetch starts and is answered, the cluster changes, the cache is invalidated, the old answer
  is committed (and dropped), a new fetch is made and committed; the cache then holds the new one.\<close>

definition example_system :: gke_system where
  "example_system = (let
      p1 = InvalidateClusterConfig NewGkeProvider;
      p2 = gcc_commit 5 0 (example_cluster ''old'') p1
    in \<lparr>sy_provider = gcc_commit 9 1 (example_cluster ''new'') p2, sy_remote = example_cluster ''new'',
        sy_flights = [], sy_invalidations = 1, sy_since = [example_cluster ''new'']\<rparr>)"

lemma example_system_reachable: "gke_step\<^sup>*\<^sup>* (gke_init (example_cluster ''old'')) example_system"
proof -
  let ?old = "example_cluster ''old''" and ?new = "example_cluster ''new''"
  let ?f = "\<lambda>g n a. \<lparr>fl_generation = g, fl_started = n, fl_answer = a\<rparr> :: flight"
  let ?y1 = "(gke_init ?old)\<lparr>sy_flights := [?f 0 0 None]\<rparr>"
  let ?y2 = "?y1\<lparr>sy_flights := [?f 0 0 (Some ?old)]\<rparr>"
  let ?y3 = "?y2\<lparr>sy_remote := ?new, sy_since := ?new # sy_since ?y2\<rparr>"
  let ?y4 = "?y3\<lparr>sy_provider := InvalidateClusterConfig (sy_provider ?y3),
       sy_invalidations := sy_invalidations ?y3 + 1, sy_since := [sy_remote ?y3]\<rparr>"
  let ?y5 = "?y4\<lparr>sy_flights := [], sy_provider := gcc_commit 5 0 ?old (sy_provider ?y4)\<rparr>"
  let ?y6 = "?y5\<lparr>sy_flights := [?f 1 1 None]\<rparr>"
  let ?y7 = "?y6\<lparr>sy_flights := [?f 1 1 (Some ?new)]\<rparr>"
  let ?y8 = "?y7\<lparr>sy_flights := [], sy_provider := gcc_commit 9 1 ?new (sy_provider ?y7)\<rparr>"
  have b: "gcc_begin 1 NewGkeProvider = Inr 0" by (simp add: gcc_begin_def NewGkeProvider_def)
  have b': "gcc_begin 6 (sy_provider ?y5) = Inr 1"
    by (simp add: gke_init_def gcc_begin_def gcc_commit_def NewGkeProvider_def InvalidateClusterConfig_def)
  have s1: "gke_step (gke_init ?old) ?y1"
    using step_begin [of 1 "gke_init ?old" 0] b by (simp add: gke_init_def)
  have s2: "gke_step ?y1 ?y2"
    using step_answer [of ?y1 "[]" "?f 0 0 None" "[]"] by (simp add: gke_init_def)
  have s3: "gke_step ?y2 ?y3" by (rule step_remote)
  have s4: "gke_step ?y3 ?y4" by (rule step_invalidate)
  have s5: "gke_step ?y4 ?y5"
    using step_commit [of ?y4 "[]" "?f 0 0 (Some ?old)" "[]" ?old 5] by simp
  have s6: "gke_step ?y5 ?y6"
    using step_begin [OF b'] by (simp add: gke_init_def)
  have s7: "gke_step ?y6 ?y7"
    using step_answer [of ?y6 "[]" "?f 1 1 None" "[]"] by (simp add: gke_init_def)
  have s8: "gke_step ?y7 ?y8"
    using step_commit [of ?y7 "[]" "?f 1 1 (Some ?new)" "[]" ?new 9] by simp
  have "?y8 = example_system" by (simp add: gke_init_def example_system_def Let_def)
  then show ?thesis
    using s8 by (intro converse_rtranclp_into_rtranclp [where r = gke_step, OF s1] converse_rtranclp_into_rtranclp [where r = gke_step, OF s2]
      converse_rtranclp_into_rtranclp [where r = gke_step, OF s3] converse_rtranclp_into_rtranclp [where r = gke_step, OF s4]
      converse_rtranclp_into_rtranclp [where r = gke_step, OF s5] converse_rtranclp_into_rtranclp [where r = gke_step, OF s6]
      converse_rtranclp_into_rtranclp [where r = gke_step, OF s7] r_into_rtranclp) simp
qed

theorem cached_config_not_stale_witness:
  "gcc_begin 10 (sy_provider example_system) = Inl (example_cluster ''new'') \<and>
   example_cluster ''new'' \<in> set (sy_since example_system)"
proof -
  have hit: "gcc_begin 10 (sy_provider example_system) = Inl (example_cluster ''new'')"
    by (simp add: example_system_def gcc_begin_def gcc_commit_def InvalidateClusterConfig_def NewGkeProvider_def
        newCache_def cache_set_def cache_get_def item_expired_def clusterCacheTTL_def Let_def)
  moreover have "sy_invalidations example_system < 2 ^ 64" by (simp add: example_system_def Let_def)
  ultimately show ?thesis
    using cached_config_not_stale [OF example_system_reachable _ hit] by blast
qed

text \<open>The zones a launch may use are sorted, and come from the cluster's own locations when it lists any;
  otherwise they are zones of the cluster's region, and an empty answer is an error, never an empty
  list.\<close>

theorem ResolveClusterZones_fresh:
  assumes "cache_get now zoneCacheKey (gk_zoneCache s) = None"
    and "ResolveClusterZones clusters_get zones_list loc now s w = (Inr zones, s', w')"
  shows "sorted zones \<and> zones \<noteq> [] \<and> (\<exists>c. fst (GetClusterConfig clusters_get now s w) = Inr c \<and>
    (if cl_Locations c \<noteq> [] then set zones = set (cl_Locations c)
     else \<forall>z \<in> set zones. has_prefix z (location_region loc @ ''-'')))"
proof -
  have ne: "sort_strings xs \<noteq> []" if "xs \<noteq> []" for xs :: "string list"
    using that by (metis length_greater_0_conv length_sort_slice sort_strings_def)
  obtain r s1 w1 where g: "GetClusterConfig clusters_get now s w = (r, s1, w1)" by (metis prod_cases3)
  note res = assms(2) [unfolded ResolveClusterZones_def assms(1) option.case g prod.case]
  obtain c where r: "r = Inr c" using res by (cases r) auto
  show ?thesis
  proof (cases "cl_Locations c = []")
    case False
    with res r have "zones = sort_strings (cl_Locations c)" by (simp add: Let_def)
    with False g r ne show ?thesis by simp
  next
    case True
    obtain z w2 where z: "zones_list w1 = (z, w2)" by (cases "zones_list w1")
    let ?zs = "\<lambda>names. filter (\<lambda>z. has_prefix z (location_region loc @ ''-'')) names"
    obtain names where "z = Inr names" "?zs names \<noteq> []" "zones = sort_strings (?zs names)"
      using res r True z by (cases z) (auto simp: Let_def split: if_splits)
    with True g r ne [of "?zs names"] show ?thesis by (auto simp del: filter_empty_conv)
  qed
qed

theorem ResolveClusterZones_fresh_witness:
  "sorted [''us-a'', ''us-b''] \<and> fst (ResolveClusterZones (\<lambda>w. (Inr (example_cluster ''x''), w)) (\<lambda>w. (Inr [], w))
     ''us-central1'' 1 NewGkeProvider ()) = Inr [''us-a'', ''us-b'']"
proof -
  let ?r = "ResolveClusterZones (\<lambda>w. (Inr (example_cluster ''x''), w)) (\<lambda>w. (Inr [], w)) ''us-central1'' 1 NewGkeProvider ()"
  have miss: "cache_get 1 zoneCacheKey (gk_zoneCache NewGkeProvider) = None" by (simp add: NewGkeProvider_def)
  have zones: "fst ?r = Inr [''us-a'', ''us-b'']" by code_simp
  then obtain s' w' where "?r = (Inr [''us-a'', ''us-b''], s', w')" by (metis prod.collapse)
  from ResolveClusterZones_fresh [OF miss this] zones show ?thesis by blast
qed

end
