(* ===== verification/Go_Url.thy ===== *)
theory Go_Url
  imports Go_Strings
begin

text \<open>
  \<^verbatim>\<open>url.Parse\<close> of \<^verbatim>\<open>net/url\<close>, written out except for the validity of an authority (host, port, user), which is an argument because the code uses nothing of
  it. The lemmas give the parse of paths and of https URLs made of segments as Google Cloud allows them in the names of projects, locations and
  resources.
\<close>

definition is_letter :: "char \<Rightarrow> bool" where "is_letter c \<longleftrightarrow> is_lower c \<or> is_upper c"

text \<open>\<^verbatim>\<open>getScheme\<close> of \<^verbatim>\<open>net/url\<close>: scheme and rest; \<open>None\<close> for a leading colon. \<open>seen\<close> is what was read so far, reversed.\<close>

fun url_scheme :: "string \<Rightarrow> string \<Rightarrow> (string \<times> string) option" where
  "url_scheme seen [] = Some ([], rev seen)"
| "url_scheme seen (c # s) = (if is_letter c then url_scheme (c # seen) s
     else if is_digit c \<or> c \<in> set ''+-.'' then (if seen = [] then Some ([], c # s) else url_scheme (c # seen) s)
     else if c = CHR '':'' then (if seen = [] then None else Some (to_lower (rev seen), s))
     else Some ([], rev seen @ c # s))"

definition hex_val :: "char \<Rightarrow> nat option" where
  "hex_val c = (if is_digit c then Some (char_code c - 48)
     else if 97 \<le> char_code c \<and> char_code c \<le> 102 then Some (char_code c - 87)
     else if 65 \<le> char_code c \<and> char_code c \<le> 70 then Some (char_code c - 55) else None)"

text \<open>\<^verbatim>\<open>unescape\<close> of a path.\<close>

fun url_unescape :: "string \<Rightarrow> string option" where
  "url_unescape [] = Some []"
| "url_unescape (c # s) = (if c \<noteq> CHR ''%'' then map_option ((#) c) (url_unescape s)
     else (case s of a # b # t \<Rightarrow> (case (hex_val a, hex_val b) of
         (Some x, Some y) \<Rightarrow> map_option ((#) (char_of (16 * x + y))) (url_unescape t) | _ \<Rightarrow> None)
       | _ \<Rightarrow> None))"

record url =
  url_Scheme :: string
  url_Path :: string
  url_RawQuery :: string

text \<open>\<^verbatim>\<open>Parse\<close> on the part before the fragment.\<close>

definition url_parse :: "(string \<Rightarrow> bool) \<Rightarrow> string \<Rightarrow> url option" where
  "url_parse authority_ok raw = (if list_ex (\<lambda>c. char_code c < 32 \<or> char_code c = 127) raw then None
     else if raw = ''*'' then Some \<lparr>url_Scheme = [], url_Path = ''*'', url_RawQuery = []\<rparr>
     else (case url_scheme [] raw of None \<Rightarrow> None
       | Some (scheme, rest) \<Rightarrow> (let
             (rest, query) = (case cut CHR ''?'' rest of (r, None) \<Rightarrow> (r, []) | (r, Some q) \<Rightarrow> (r, q))
           in if \<not> has_prefix rest ''/'' \<and> scheme \<noteq> [] then Some \<lparr>url_Scheme = scheme, url_Path = [], url_RawQuery = query\<rparr>
              else if \<not> has_prefix rest ''/'' \<and> CHR '':'' \<in> set (fst (cut CHR ''/'' rest)) then None
              else (let
                  auth = ((scheme \<noteq> [] \<or> \<not> has_prefix rest ''///'') \<and> has_prefix rest ''//'');
                  (authority, path) = (if auth then (takeWhile (\<lambda>c. c \<noteq> CHR ''/'') (drop 2 rest), dropWhile (\<lambda>c. c \<noteq> CHR ''/'') (drop 2 rest)) else ([], rest))
                in if auth \<and> \<not> authority_ok authority then None
                   else map_option (\<lambda>p. \<lparr>url_Scheme = scheme, url_Path = p, url_RawQuery = query\<rparr>) (url_unescape path)))))"

definition trim_slashes :: "string \<Rightarrow> string" where
  "trim_slashes s = rev (dropWhile (\<lambda>c. c = CHR ''/'') (rev (dropWhile (\<lambda>c. c = CHR ''/'') s)))"

definition url_Parse :: "(string \<Rightarrow> bool) \<Rightarrow> string \<Rightarrow> url option" where
  "url_Parse authority_ok raw = (case cut CHR ''#'' raw of
      (u, None) \<Rightarrow> url_parse authority_ok u
    | (u, Some frag) \<Rightarrow> (case url_parse authority_ok u of None \<Rightarrow> None
        | Some p \<Rightarrow> if url_unescape frag = None then None else Some p))"

text \<open>Segments as Google Cloud allows them in the names of projects, regions, networks and subnetworks.\<close>

definition plain_char :: "char \<Rightarrow> bool" where
  "plain_char c \<longleftrightarrow> is_letter c \<or> is_digit c \<or> c = CHR ''-''"

definition plain_segment :: "string \<Rightarrow> bool" where
  "plain_segment s \<longleftrightarrow> s \<noteq> [] \<and> list_all plain_char s"

lemma plain_segment_chars:
  "plain_segment s \<Longrightarrow> c \<in> set s \<Longrightarrow> 32 \<le> char_code c \<and> char_code c \<noteq> 127 \<and> c \<notin> {CHR ''/'', CHR '':'', CHR ''?'', CHR ''%'', CHR ''#'', CHR ''*''}"
  by (auto simp: plain_segment_def plain_char_def is_letter_def is_upper_def list_all_iff is_lower_def is_digit_def char_code_def)

lemma url_scheme_none: "CHR '':'' \<notin> set s \<Longrightarrow> url_scheme seen s = Some ([], rev seen @ s)"
  by (induction seen s rule: url_scheme.induct) auto

lemma url_unescape_plain: "CHR ''%'' \<notin> set s \<Longrightarrow> url_unescape s = Some s"
  by (induction s rule: url_unescape.induct) auto

lemma set_join: "set (join sep ws) \<subseteq> set sep \<union> \<Union>(set (map set ws))"
  by (induction sep ws rule: join.induct) auto

lemma join_plain:
  assumes "ws \<noteq> []" "\<And>w. w \<in> set ws \<Longrightarrow> plain_segment w"
  shows "join ''/'' ws \<noteq> [] \<and> hd (join ''/'' ws) = hd (hd ws) \<and> last (join ''/'' ws) = last (last ws)"
  using assms
proof (induction ws)
  case (Cons w ws)
  have w: "w \<noteq> []" using Cons.prems(2) [of w] by (simp add: plain_segment_def)
  show ?case
  proof (cases "ws = []")
    case False
    with Cons have "join ''/'' ws \<noteq> []" "last (join ''/'' ws) = last (last ws)" by auto
    with w False show ?thesis by (simp add: join_Cons)
  qed (use w in simp)
qed simp

lemma trim_slashes_join:
  assumes "ws \<noteq> []" "\<And>w. w \<in> set ws \<Longrightarrow> plain_segment w"
  shows "trim_slashes (join ''/'' ws) = join ''/'' ws"
proof -
  have h: "hd (hd ws) \<noteq> CHR ''/''" "last (last ws) \<noteq> CHR ''/''"
    using assms plain_segment_chars [of "hd ws" "hd (hd ws)"] plain_segment_chars [of "last ws" "last (last ws)"]
    by (auto simp: plain_segment_def)
  with join_plain [OF assms] show ?thesis
    unfolding trim_slashes_def by (simp add: dropWhile_start hd_rev)
qed

lemma join_chars:
  assumes "\<And>w. w \<in> set ws \<Longrightarrow> plain_segment w" "c \<in> set (join ''/'' ws)"
  shows "c = CHR ''/'' \<or> (32 \<le> char_code c \<and> char_code c \<noteq> 127 \<and> c \<notin> {CHR ''/'', CHR '':'', CHR ''?'', CHR ''%'', CHR ''#'', CHR ''*''})"
  using set_join [of "''/''" ws] assms plain_segment_chars by fastforce

lemma split_join_plain: "ws \<noteq> [] \<Longrightarrow> (\<And>w. w \<in> set ws \<Longrightarrow> plain_segment w) \<Longrightarrow> split_on CHR ''/'' (join ''/'' ws) = ws"
  by (rule split_on_join) (auto dest: plain_segment_chars)

lemma set_cut_fst: "set (fst (cut c s)) \<subseteq> set s"
  by (induction c s rule: cut.induct) (auto split: prod.splits)

lemma url_parse_join:
  assumes "ws \<noteq> []" "\<And>w. w \<in> set ws \<Longrightarrow> plain_segment w"
  shows "url_parse ok (join ''/'' ws) = Some \<lparr>url_Scheme = [], url_Path = join ''/'' ws, url_RawQuery = []\<rparr> \<and> CHR ''#'' \<notin> set (join ''/'' ws)"
proof -
  let ?s = "join ''/'' ws"
  have ch: "c = CHR ''/'' \<or> (32 \<le> char_code c \<and> char_code c \<noteq> 127 \<and> c \<notin> {CHR ''/'', CHR '':'', CHR ''?'', CHR ''%'', CHR ''#'', CHR ''*''})"
    if "c \<in> set ?s" for c using join_chars [of ws c] assms(2) that by blast
  have nin: "CHR '':'' \<notin> set ?s" "CHR ''?'' \<notin> set ?s" "CHR ''%'' \<notin> set ?s" "CHR ''#'' \<notin> set ?s" "CHR ''*'' \<notin> set ?s"
    using ch [of "CHR '':''"] ch [of "CHR ''?''"] ch [of "CHR ''%''"] ch [of "CHR ''#''"] ch [of "CHR ''*''"] by auto
  have "32 \<le> char_code c \<and> char_code c \<noteq> 127" if "c \<in> set ?s" for c
    using ch [OF that] by (auto simp: char_code_def)
  then have ctl: "\<not> list_ex (\<lambda>c. char_code c < 32 \<or> char_code c = 127) ?s" by (fastforce simp: list_ex_iff)
  have noslash: "\<not> has_prefix ?s ''/''"
    using join_plain [OF assms] plain_segment_chars [of "hd ws" "hd (hd ws)"] assms by (cases ?s) (auto simp: plain_segment_def)
  then have "\<not> has_prefix ?s ''//''" by (cases ?s) auto
  then show ?thesis
    using nin ctl noslash url_scheme_none [of ?s "[]"] url_unescape_plain [of ?s] set_cut_fst [of "CHR ''/''" ?s]
    by (auto simp: url_parse_def)
qed

lemma url_parse_absolute:
  assumes "ok host" "list_all (\<lambda>c. plain_char c \<or> c = CHR ''.'') host" and ws: "\<And>w. w \<in> set ws \<Longrightarrow> plain_segment w"
  shows "url_parse ok (''https://'' @ host @ ''/'' @ join ''/'' ws) = Some \<lparr>url_Scheme = ''https'', url_Path = ''/'' @ join ''/'' ws, url_RawQuery = []\<rparr>
    \<and> CHR ''#'' \<notin> set (''https://'' @ host @ ''/'' @ join ''/'' ws)"
proof -
  define s where "s = join ''/'' ws"
  define u where "u = ''https://'' @ host @ ''/'' @ s"
  have safe: "32 \<le> char_code c \<and> char_code c \<noteq> 127 \<and> c \<notin> {CHR ''?'', CHR ''%'', CHR ''#''}" if "c \<in> set u" for c
  proof -
    from that consider "c \<in> set ''https://''" | "c \<in> set host" | "c \<in> set s" by (auto simp: u_def)
    then show ?thesis
    proof cases
      case 2
      then have "plain_char c \<or> c = CHR ''.''" using assms(2) by (auto simp: list_all_iff)
      then show ?thesis by (auto simp: plain_char_def is_letter_def is_upper_def is_lower_def is_digit_def char_code_def)
    next
      case 3
      then show ?thesis using join_chars [of ws c] ws unfolding s_def by (auto simp: char_code_def)
    qed (auto simp: char_code_def)
  qed
  have host: "CHR ''/'' \<notin> set host" using assms(2) by (auto simp: list_all_iff plain_char_def is_letter_def is_upper_def is_lower_def is_digit_def char_code_def)
  have nin: "CHR ''?'' \<notin> set u" "CHR ''%'' \<notin> set u" "CHR ''#'' \<notin> set u" using safe by auto
  have ctl: "\<not> list_ex (\<lambda>c. char_code c < 32 \<or> char_code c = 127) u" using safe by (fastforce simp: list_ex_iff)
  have sch: "url_scheme [] u = Some (''https'', ''//'' @ host @ ''/'' @ s)"
    by (simp add: u_def is_letter_def is_lower_def is_digit_def is_upper_def to_lower_def to_lower_char_def char_code_def)
  have q: "cut CHR ''?'' (''//'' @ host @ ''/'' @ s) = (''//'' @ host @ ''/'' @ s, None)"
    using nin(1) by (intro cut_none) (auto simp: u_def)
  have tw: "takeWhile (\<lambda>c. c \<noteq> CHR ''/'') (host @ CHR ''/'' # s) = host" "dropWhile (\<lambda>c. c \<noteq> CHR ''/'') (host @ CHR ''/'' # s) = CHR ''/'' # s"
    using host by (simp_all add: takeWhile_eq_all_conv takeWhile_append2 dropWhile_append2 takeWhile_append dropWhile_append)
  have un: "url_unescape (CHR ''/'' # s) = Some (CHR ''/'' # s)" using nin(2) by (intro url_unescape_plain) (auto simp: u_def)
  have "url_parse ok u = Some \<lparr>url_Scheme = ''https'', url_Path = CHR ''/'' # s, url_RawQuery = []\<rparr>"
    using ctl sch q tw un assms(1) by (simp add: url_parse_def Let_def u_def)
  with nin(3) show ?thesis by (simp add: u_def s_def)
qed

lemma trim_slashes_Cons [simp]: "trim_slashes (CHR ''/'' # s) = trim_slashes s"
  by (simp add: trim_slashes_def)

lemma url_Parse_absolute:
  assumes "ok host" "list_all (\<lambda>c. plain_char c \<or> c = CHR ''.'') host" "\<And>w. w \<in> set ws \<Longrightarrow> plain_segment w"
  shows "url_Parse ok (''https://'' @ host @ ''/'' @ join ''/'' ws) = Some \<lparr>url_Scheme = ''https'', url_Path = ''/'' @ join ''/'' ws, url_RawQuery = []\<rparr>"
  using url_parse_absolute [of ok host ws, OF assms] by (simp add: url_Parse_def)

end
