(* ===== verification/Subnet.thy ===== *)
theory Subnet
  imports Api_Types Compute_Types Go_Errors Go_Url
begin

text \<open>
  Subnetworks, \<^verbatim>\<open>pkg/providers/subnet\<close>: the primary network of an instance, references to subnetworks, and the cache of their configuration and of
  the free addresses of their ranges. The clock, the caller's context and the Compute call are the record \<open>subnet_deps\<close> over an outside
  state; the mutex makes each operation one step.
\<close>

definition PrimaryNetwork :: "GCENodeClass option \<Rightarrow> cluster option \<Rightarrow> string \<times> string" where
  "PrimaryNetwork nc cl = (let
      (network, subnetwork) = (case cl of Some c \<Rightarrow> (case cl_NetworkConfig c of Some n \<Rightarrow> (cn_Network n, cn_Subnetwork n) | None \<Rightarrow> ([], []))
        | None \<Rightarrow> ([], []));
      override = (case nc of Some k \<Rightarrow> (case NetworkCfg (ncl_Spec k) of Some n \<Rightarrow> nc_Subnetwork n | None \<Rightarrow> []) | None \<Rightarrow> [])
    in (network, if override \<noteq> [] then override else subnetwork))"

subsection \<open>References\<close>

definition resourceParts :: "(string \<Rightarrow> bool) \<Rightarrow> string \<Rightarrow> go_error + string list" where
  "resourceParts authority_ok raw = (case cut CHR ''#'' raw of (u, frag) \<Rightarrow>
     (case url_parse authority_ok u of None \<Rightarrow> Inl (Errorf ''invalid resource reference %q'' [raw] [])
      | Some parsed \<Rightarrow> if url_RawQuery parsed \<noteq> [] \<or> (frag \<noteq> None \<and> frag \<noteq> Some []) then Inl (Errorf ''invalid resource reference %q'' [raw] [])
          else (let parts = split_on CHR ''/'' (trim_slashes (url_Path parsed)) in
            if [] \<in> set parts then Inl (Errorf ''invalid resource reference %q'' [raw] [])
            else if url_Scheme parsed \<noteq> [] then
              (if ''projects'' \<notin> set parts then Inl (Errorf ''resource reference %q has no project'' [raw] [])
               else Inr (dropWhile (\<lambda>p. p \<noteq> ''projects'') parts))
            else Inr parts)))"

record subnetworkRef =
  snr_project :: string
  snr_region :: string
  snr_name :: string

definition subnetworkRef_String :: "subnetworkRef \<Rightarrow> string" where
  "subnetworkRef_String r = ''projects/'' @ snr_project r @ ''/regions/'' @ snr_region r @ ''/subnetworks/'' @ snr_name r"

definition networkProject :: "(string \<Rightarrow> bool) \<Rightarrow> string \<Rightarrow> go_error + string" where
  "networkProject authority_ok network = (case resourceParts authority_ok network of Inl err \<Rightarrow> Inl err
     | Inr parts \<Rightarrow> if length parts \<noteq> 5 \<or> parts ! 0 \<noteq> ''projects'' \<or> parts ! 2 \<noteq> ''global'' \<or> parts ! 3 \<noteq> ''networks''
         then Inl (Errorf ''network %q is not fully qualified'' [network] []) else Inr (parts ! 1))"

definition resolveTarget :: "(string \<Rightarrow> bool) \<Rightarrow> string \<Rightarrow> string \<Rightarrow> string \<Rightarrow> go_error + subnetworkRef" where
  "resolveTarget authority_ok network subnetwork region = (case resourceParts authority_ok subnetwork of Inl err \<Rightarrow> Inl err
     | Inr parts \<Rightarrow> if length parts = 6 \<and> parts ! 0 = ''projects'' \<and> parts ! 2 = ''regions'' \<and> parts ! 4 = ''subnetworks''
         then Inr \<lparr>snr_project = parts ! 1, snr_region = parts ! 3, snr_name = parts ! 5\<rparr>
         else (case networkProject authority_ok network of
             Inl err \<Rightarrow> Inl (Errorf ''resolving subnetwork %q: %w'' [subnetwork] [err])
           | Inr project \<Rightarrow> if length parts = 1 then Inr \<lparr>snr_project = project, snr_region = region, snr_name = parts ! 0\<rparr>
               else if length parts = 4 \<and> parts ! 0 = ''regions'' \<and> parts ! 2 = ''subnetworks''
                 then Inr \<lparr>snr_project = project, snr_region = parts ! 1, snr_name = parts ! 3\<rparr>
               else Inl (Errorf ''invalid subnetwork reference %q'' [subnetwork] [])))"

subsection \<open>The cache\<close>

definition cacheTTL :: duration where [go_defs]: "cacheTTL = 60 * 10 ^ 9"
definition failureTTL :: duration where [go_defs]: "failureTTL = 10 * 10 ^ 9"

record subnet_NetworkConfig =
  snc_StackType :: string
  snc_IPv6AccessType :: string

record snapshot =
  sn_counts :: "(string, int) gomap"
  sn_networkConfig :: subnet_NetworkConfig
  sn_err :: "go_error option"
  sn_expiresAt :: instant

definition no_snapshot :: snapshot where
  "no_snapshot = \<lparr>sn_counts = [], sn_networkConfig = \<lparr>snc_StackType = [], snc_IPv6AccessType = []\<rparr>, sn_err = None, sn_expiresAt = 0\<rparr>"

text \<open>The answer of the Compute call: the address ranges with their free addresses, if known, and the stack.\<close>

record subnet_response =
  sr_Utilizations :: "(string \<times> int option) list"
  sr_StackType :: string
  sr_Ipv6AccessType :: string

record 's subnet_deps =
  sd_ctxErr :: "'s \<Rightarrow> go_error option"
  sd_now :: "'s \<Rightarrow> instant"
  sd_get :: "subnetworkRef \<Rightarrow> 's \<Rightarrow> (go_error + subnet_response) \<times> 's"
  sd_authority_ok :: "string \<Rightarrow> bool"

type_synonym subnet_cache = "(subnetworkRef, snapshot) gomap"

fun range_counts :: "(string \<times> int option) list \<Rightarrow> (string, int) gomap \<Rightarrow> (string, int) gomap" where
  "range_counts [] counts = counts"
| "range_counts ((name, free) # es) counts = range_counts es (case free of
     Some n \<Rightarrow> if name \<noteq> [] then map_set name n counts else counts | None \<Rightarrow> counts)"

definition snapshot_of :: "subnet_response \<Rightarrow> instant \<Rightarrow> snapshot" where
  "snapshot_of resp t = \<lparr>sn_counts = range_counts (sr_Utilizations resp) [],
     sn_networkConfig = \<lparr>snc_StackType = sr_StackType resp, snc_IPv6AccessType = sr_Ipv6AccessType resp\<rparr>, sn_err = None, sn_expiresAt = t + cacheTTL\<rparr>"

text \<open>The part of \<^verbatim>\<open>getSnapshot\<close> after the cache has missed.\<close>

definition fetch_snapshot :: "'s subnet_deps \<Rightarrow> subnetworkRef \<Rightarrow> subnet_cache \<Rightarrow> 's \<Rightarrow> (snapshot \<times> go_error option) \<times> subnet_cache \<times> 's" where
  "fetch_snapshot d target c s = (case sd_get d target s of
      (Inl e, s) \<Rightarrow> (let err = Errorf ''getting subnetwork %s: %w'' [subnetworkRef_String target] [e] in
        ((no_snapshot, Some err), (if sd_ctxErr d s = None
           then map_set target (no_snapshot\<lparr>sn_err := Some err, sn_expiresAt := sd_now d s + failureTTL\<rparr>) (map_del target c) else map_del target c), s))
    | (Inr resp, s) \<Rightarrow> (let cached = snapshot_of resp (sd_now d s) in ((cached, None), map_set target cached (map_del target c), s)))"

definition getSnapshot :: "'s subnet_deps \<Rightarrow> string \<Rightarrow> string \<Rightarrow> string \<Rightarrow> subnet_cache \<Rightarrow> 's \<Rightarrow> (snapshot \<times> go_error option) \<times> subnet_cache \<times> 's" where
  "getSnapshot d region network subnetwork c s = (case sd_ctxErr d s of Some err \<Rightarrow> ((no_snapshot, Some err), c, s)
     | None \<Rightarrow> (case resolveTarget (sd_authority_ok d) network subnetwork region of
         Inl err \<Rightarrow> ((no_snapshot, Some err), c, s)
       | Inr target \<Rightarrow> (case map_get c target of
           Some cached \<Rightarrow> if sd_now d s < sn_expiresAt cached then ((cached, sn_err cached), c, s) else fetch_snapshot d target c s
         | None \<Rightarrow> fetch_snapshot d target c s)))"

definition GetFreeIPCounts :: "'s subnet_deps \<Rightarrow> string \<Rightarrow> string \<Rightarrow> string \<Rightarrow> subnet_cache \<Rightarrow> 's
    \<Rightarrow> ((string, int) gomap \<times> go_error option) \<times> subnet_cache \<times> 's" where
  "GetFreeIPCounts d region network subnetwork c s = (case getSnapshot d region network subnetwork c s of
     ((sn, err), c, s) \<Rightarrow> ((sn_counts sn, err), c, s))"

definition GetNetworkConfig :: "'s subnet_deps \<Rightarrow> string \<Rightarrow> string \<Rightarrow> string \<Rightarrow> subnet_cache \<Rightarrow> 's
    \<Rightarrow> (subnet_NetworkConfig \<times> go_error option) \<times> subnet_cache \<times> 's" where
  "GetNetworkConfig d region network subnetwork c s = (case getSnapshot d region network subnetwork c s of
     ((sn, err), c, s) \<Rightarrow> ((sn_networkConfig sn, err), c, s))"

definition subnet_Invalidate :: "(string \<Rightarrow> bool) \<Rightarrow> string \<Rightarrow> string \<Rightarrow> string \<Rightarrow> subnet_cache \<Rightarrow> subnet_cache" where
  "subnet_Invalidate authority_ok region network subnetwork c = (case resolveTarget authority_ok network subnetwork region of
     Inl _ \<Rightarrow> c | Inr target \<Rightarrow> map_del target c)"

subsection \<open>Parsing of references\<close>

lemma resourceParts_join:
  assumes "ws \<noteq> []" "\<And>w. w \<in> set ws \<Longrightarrow> plain_segment w"
  shows "resourceParts ok (join ''/'' ws) = Inr ws"
proof -
  have "[] \<notin> set ws" using assms(2) by (auto simp: plain_segment_def)
  then show ?thesis using url_parse_join [of ws ok, OF assms] trim_slashes_join [OF assms] split_join_plain [OF assms]
    by (simp add: resourceParts_def Let_def)
qed

lemma resourceParts_absolute:
  assumes "ok host" "list_all (\<lambda>c. plain_char c \<or> c = CHR ''.'') host"
    and all: "list_all plain_segment (pre @ ''projects'' # ws)" and pre: "''projects'' \<notin> set pre"
  shows "resourceParts ok (''https://'' @ host @ ''/'' @ join ''/'' (pre @ ''projects'' # ws)) = Inr (''projects'' # ws)"
proof -
  let ?ws = "pre @ ''projects'' # ws"
  define u where "u = ''https://'' @ host @ ''/'' @ join ''/'' ?ws"
  have ws: "?ws \<noteq> []" "\<And>w. w \<in> set ?ws \<Longrightarrow> plain_segment w" using all by (auto simp: list_all_iff)
  have "[] \<notin> set ?ws" using ws(2) by (force simp: plain_segment_def)
  moreover have "dropWhile (\<lambda>p. p \<noteq> ''projects'') ?ws = ''projects'' # ws" using pre by (subst dropWhile_append2) auto
  moreover have "url_parse ok u = Some \<lparr>url_Scheme = ''https'', url_Path = ''/'' @ join ''/'' ?ws, url_RawQuery = []\<rparr>" "cut CHR ''#'' u = (u, None)"
    using url_parse_absolute [of ok host ?ws, OF assms(1,2) ws(2)] cut_none unfolding u_def by blast+
  ultimately show ?thesis using trim_slashes_join [OF ws] split_join_plain [OF ws]
    unfolding u_def [symmetric] by (simp add: resourceParts_def Let_def)
qed

text \<open>A subnetwork has one target however it is named: by its full path, by a URL, by its region and name, or by its name alone
  in the provider's region; the project of the last two is that of the network.\<close>

theorem resolveTarget_forms:
  assumes "plain_segment p" "plain_segment r" "plain_segment n" "plain_segment net" "authority_ok ''www.googleapis.com''"
    and "ref \<in> set [subnetworkRef_String t, ''https://www.googleapis.com/compute/v1/'' @ subnetworkRef_String t,
      ''regions/'' @ r @ ''/subnetworks/'' @ n, n]"
    and "t = \<lparr>snr_project = p, snr_region = r, snr_name = n\<rparr>"
  shows "resolveTarget authority_ok (''projects/'' @ p @ ''/global/networks/'' @ net) ref r = Inr t"
proof -
  have lits: "plain_segment ''projects''" "plain_segment ''regions''" "plain_segment ''subnetworks''" "plain_segment ''global''"
    "plain_segment ''networks''" "plain_segment ''compute''" "plain_segment ''v1''" by code_simp+
  have full: "subnetworkRef_String t = join ''/'' [''projects'', p, ''regions'', r, ''subnetworks'', n]"
    by (simp add: assms(7) subnetworkRef_String_def)
  have rp: "resourceParts authority_ok (join ''/'' ws) = Inr ws" if "ws \<noteq> []" "list_all plain_segment ws" for ws
    using resourceParts_join [of ws] that by (simp add: list_all_iff)
  have net: "networkProject authority_ok (''projects/'' @ p @ ''/global/networks/'' @ net) = Inr p"
    using rp [of "[''projects'', p, ''global'', ''networks'', net]"] assms lits by (simp add: networkProject_def)
  have abs: "resourceParts authority_ok (''https://www.googleapis.com/compute/v1/'' @ subnetworkRef_String t) = Inr [''projects'', p, ''regions'', r, ''subnetworks'', n]"
    using resourceParts_absolute [of authority_ok "''www.googleapis.com''" "[''compute'', ''v1'']" "[p, ''regions'', r, ''subnetworks'', n]"] assms(1-5) lits
    by (simp add: full plain_char_def is_letter_def is_upper_def is_lower_def char_code_def)
  from assms(6) consider "ref = subnetworkRef_String t" | "ref = ''https://www.googleapis.com/compute/v1/'' @ subnetworkRef_String t"
    | "ref = join ''/'' [''regions'', r, ''subnetworks'', n]" | "ref = join ''/'' [n]" by auto
  then show ?thesis
  proof cases
    case 1
    with full have "resourceParts authority_ok ref = Inr [''projects'', p, ''regions'', r, ''subnetworks'', n]"
      using rp [of "[''projects'', p, ''regions'', r, ''subnetworks'', n]"] assms(1-5) lits by (simp del: join.simps)
    then show ?thesis by (simp add: resolveTarget_def assms(7))
  next
    case 2
    then show ?thesis using abs assms(7) by (simp add: resolveTarget_def)
  next
    case 3
    then show ?thesis using rp [of "[''regions'', r, ''subnetworks'', n]"] assms(1-5) lits net
      by (simp add: resolveTarget_def assms(7) del: join.simps)
  next
    case 4
    then show ?thesis using rp [of "[n]"] assms(1-5) lits net by (simp add: resolveTarget_def assms(7) del: join.simps)
  qed
qed

theorem resolveTarget_forms_witness:
  "resolveTarget (\<lambda>_. True) ''projects/proj/global/networks/default'' ''regions/us-east1/subnetworks/nodes'' ''us-east1''
     = Inr \<lparr>snr_project = ''proj'', snr_region = ''us-east1'', snr_name = ''nodes''\<rparr>"
proof -
  have "plain_segment ''proj''" "plain_segment ''us-east1''" "plain_segment ''nodes''" "plain_segment ''default''" by code_simp+
  from resolveTarget_forms [OF this, of "\<lambda>_. True" "''regions/us-east1/subnetworks/nodes''"] show ?thesis by simp
qed

subsection \<open>What the cache serves\<close>

text \<open>The history of the cache: answers and failures of the Compute call with their times, and entries that were dropped.\<close>

datatype subnet_event = Fetched instant subnetworkRef subnet_response | Failed instant subnetworkRef go_error | Dropped subnetworkRef

fun event_target :: "subnet_event \<Rightarrow> subnetworkRef" where
  "event_target (Fetched _ t _) = t" | "event_target (Failed _ t _) = t" | "event_target (Dropped t) = t"

fun event_entry :: "subnet_event \<Rightarrow> snapshot option" where
  "event_entry (Fetched now t resp) = Some (snapshot_of resp now)"
| "event_entry (Failed now t err) = Some (no_snapshot\<lparr>sn_err := Some err, sn_expiresAt := now + failureTTL\<rparr>)"
| "event_entry (Dropped t) = None"

definition last_event :: "subnet_event list \<Rightarrow> subnetworkRef \<Rightarrow> subnet_event option" where
  "last_event hist t = List.find (\<lambda>e. event_target e = t) (rev hist)"

lemma last_event_snoc: "last_event (hist @ [e]) t = (if event_target e = t then Some e else last_event hist t)"
  by (simp add: last_event_def)

definition fetch_event :: "'s subnet_deps \<Rightarrow> subnetworkRef \<Rightarrow> 's \<Rightarrow> subnet_event" where
  "fetch_event d target s = (case sd_get d target s of
      (Inl e, s) \<Rightarrow> if sd_ctxErr d s = None then Failed (sd_now d s) target (Errorf ''getting subnetwork %s: %w'' [subnetworkRef_String target] [e]) else Dropped target
    | (Inr resp, s) \<Rightarrow> Fetched (sd_now d s) target resp)"

text \<open>Runs of the provider: lookups that miss, which is when something happens, and invalidations.\<close>

inductive subnet_run :: "'s subnet_deps \<Rightarrow> subnet_event list \<Rightarrow> subnet_cache \<Rightarrow> bool" for d where
  start: "subnet_run d [] []"
| miss: "subnet_run d hist c \<Longrightarrow> fetch_snapshot d target c s = (r, c', s') \<Longrightarrow> subnet_run d (hist @ [fetch_event d target s]) c'"
| invalidate: "subnet_run d hist c \<Longrightarrow> resolveTarget (sd_authority_ok d) network subnetwork region = Inr target \<Longrightarrow>
    subnet_run d (hist @ [Dropped target]) (subnet_Invalidate (sd_authority_ok d) region network subnetwork c)"

lemma fetch_snapshot_entry:
  "fetch_snapshot d target c s = (r, c', s') \<Longrightarrow>
   map_of c' t = (if t = target then event_entry (fetch_event d target s) else map_of c t)"
  by (cases "sd_get d target s"; cases "fst (sd_get d target s)") (auto simp: fetch_snapshot_def fetch_event_def Let_def split: if_splits)

lemma event_target_fetch [simp]: "event_target (fetch_event d target s) = target"
  by (simp add: fetch_event_def split: sum.splits prod.splits)

lemma subnet_run_entry: "subnet_run d hist c \<Longrightarrow> map_of c t = Option.bind (last_event hist t) event_entry"
proof (induction rule: subnet_run.induct)
  case start
  then show ?case by (simp add: last_event_def)
next
  case (miss hist c target s r c' s')
  then show ?case using fetch_snapshot_entry [OF miss.hyps(2), of t] by (simp add: last_event_snoc)
next
  case (invalidate hist c network subnetwork region target)
  then show ?case by (simp add: last_event_snoc subnet_Invalidate_def)
qed

text \<open>C33: Free-address counts that the provider serves without an error are those of the last answer of the Compute service for that subnetwork:
  the answer to this very call, or one that is less than a minute old and that nothing has invalidated or replaced since.\<close>

theorem free_counts_recent:
  assumes "subnet_run d hist c" "GetFreeIPCounts d region network subnetwork c s = ((counts, None), c', s')"
  shows "\<exists>target t resp. resolveTarget (sd_authority_ok d) network subnetwork region = Inr target
    \<and> counts = range_counts (sr_Utilizations resp) []
    \<and> (fetch_event d target s = Fetched t target resp
       \<or> (last_event hist target = Some (Fetched t target resp) \<and> sd_now d s < t + 60 * 10 ^ 9 \<and> c' = c \<and> s' = s))"
proof -
  obtain target where tg: "resolveTarget (sd_authority_ok d) network subnetwork region = Inr target" and ctx: "sd_ctxErr d s = None"
    using assms(2) by (auto simp: GetFreeIPCounts_def getSnapshot_def split: option.splits sum.splits)
  show ?thesis
  proof (cases "\<exists>cached. map_of c target = Some cached \<and> sd_now d s < sn_expiresAt cached")
    case True
    then obtain cached where hit: "map_of c target = Some cached" "sd_now d s < sn_expiresAt cached" by blast
    with assms(2) tg ctx have r: "counts = sn_counts cached" "sn_err cached = None" "c' = c" "s' = s"
      by (auto simp: GetFreeIPCounts_def getSnapshot_def)
    have "Option.bind (last_event hist target) event_entry = Some cached" using subnet_run_entry [OF assms(1), of target] hit(1) by simp
    then obtain e where e: "last_event hist target = Some e" "event_entry e = Some cached" by (auto simp: bind_eq_Some_conv)
    then have "event_target e = target" by (auto simp: last_event_def find_Some_iff)
    moreover have "\<exists>t tg resp. e = Fetched t tg resp" using e(2) r(2) by (cases e) auto
    then obtain t tg' resp where "e = Fetched t tg' resp" by blast
    ultimately have "e = Fetched t target resp" "cached = snapshot_of resp t" using e(2) by auto
    with e(1) r hit(2) tg show ?thesis
      by (intro exI [of _ target] exI [of _ t] exI [of _ resp]) (simp add: snapshot_of_def cacheTTL_def)
  next
    case False
    with assms(2) tg ctx obtain sn where f: "fetch_snapshot d target c s = ((sn, None), c', s')" "counts = sn_counts sn"
      by (auto simp: GetFreeIPCounts_def getSnapshot_def split: option.splits prod.splits if_splits)
    then obtain resp where g: "sd_get d target s = (Inr resp, s')" by (auto simp: fetch_snapshot_def Let_def split: sum.splits prod.splits)
    with f have "sn = snapshot_of resp (sd_now d s')" by (simp add: fetch_snapshot_def Let_def)
    with f(2) g tg show ?thesis
      by (intro exI [of _ target] exI [of _ "sd_now d s'"] exI [of _ resp]) (simp add: fetch_event_def snapshot_of_def)
  qed
qed

definition example_subnet_deps :: "int subnet_deps" where
  "example_subnet_deps = \<lparr>sd_ctxErr = (\<lambda>_. None), sd_now = (\<lambda>s. s),
     sd_get = (\<lambda>_ s. (Inr \<lparr>sr_Utilizations = [(''pods'', Some 250), ([], Some 3), (''svc'', None)], sr_StackType = [], sr_Ipv6AccessType = []\<rparr>, s)),
     sd_authority_ok = (\<lambda>_. True)\<rparr>"

theorem free_counts_recent_witness:
  "\<exists>target t resp. resolveTarget (\<lambda>_. True) ''projects/p/global/networks/n'' ''sub'' ''r'' = Inr target
     \<and> [(''pods'', 250)] = range_counts (sr_Utilizations resp) [] \<and> fetch_event example_subnet_deps target 5 = Fetched t target resp"
proof -
  have "GetFreeIPCounts example_subnet_deps ''r'' ''projects/p/global/networks/n'' ''sub'' [] 5
    = (([(''pods'', 250)], None), snd (GetFreeIPCounts example_subnet_deps ''r'' ''projects/p/global/networks/n'' ''sub'' [] 5))" by code_simp
  then obtain c' s' where "GetFreeIPCounts example_subnet_deps ''r'' ''projects/p/global/networks/n'' ''sub'' [] 5 = (([(''pods'', 250)], None), c', s')"
    by (metis prod.exhaust)
  from free_counts_recent [OF subnet_run.start this] show ?thesis by (auto simp: last_event_def example_subnet_deps_def)
qed

end
