(* ===== verification/Instance_Build.thy ===== *)
theory Instance_Build
  imports Node_Bootstrap Local_SSD Gke Subnet
begin

text \<open>
  Assembling the Compute Engine instance of a NodeClaim: \<^verbatim>\<open>buildInstance\<close> of
  \<^verbatim>\<open>pkg/providers/instance/instance.go\<close> with its disks, network interfaces (also \<^verbatim>\<open>podrange.go\<close> and
  \<^verbatim>\<open>pkg/providers/subnet/network.go\<close>), service account, scheduling and labels. Functions that fill in fields of the
  instance are functions from instance to instance. The subnet provider is an argument,
  \<open>getNetworkConfig\<close>. \<^verbatim>\<open>renderDiskProperties\<close> sorts the node class's disk list in place, and the steps after it
  see the sorted list; with at most one boot disk sorting again changes nothing.
\<close>

subsection \<open>Disks\<close>

definition karpenterGCEIdentityLabels :: "build_env \<Rightarrow> NodeClaim \<Rightarrow> GCENodeClass \<Rightarrow> labels" where
  "karpenterGCEIdentityLabels e claim nc =
    [(SanitizeGCELabelValue LabelNodePoolKey, map_str (ncm_Labels claim) NodePoolLabelKey),
     (SanitizeGCELabelValue LabelGCENodeClassKey, ncl_Name nc),
     (LabelClusterNameKey, be_clusterName e),
     (LabelClusterLocationKey, be_clusterLocation e)]"

definition disk_type_url :: "build_env \<Rightarrow> string \<Rightarrow> string \<Rightarrow> string" where
  "disk_type_url e zone category = ''projects/'' @ be_projectID e @ ''/zones/'' @ zone @ ''/diskTypes/'' @ category"

definition scratchDisk :: "build_env \<Rightarrow> string \<Rightarrow> attached_disk" where
  "scratchDisk e zone = \<lparr>ad_Type = ''SCRATCH'', ad_AutoDelete = True, ad_Boot = False, ad_Interface = ''NVME'',
     ad_DeviceName = [], ad_InitializeParams = Some \<lparr>dp_DiskSizeGb = 0, dp_Labels = [], dp_DiskType = disk_type_url e zone ''local-ssd'',
       dp_ProvisionedIops = 0, dp_ProvisionedThroughput = 0, dp_Architecture = [], dp_SourceImage = []\<rparr>,
     ad_EncryptionKey = None\<rparr>"

definition localSSDDisks :: "build_env \<Rightarrow> string \<Rightarrow> string \<Rightarrow> int \<Rightarrow> attached_disk list" where
  "localSSDDisks e instanceType zone cnt = (if \<not> FamilySupportsConfigurableLocalSSDs instanceType then []
     else replicate (nat cnt) (scratchDisk e zone))"

text \<open>One disk of the node class; the result is an error for a boot disk without an image.\<close>

definition render_disk ::
  "build_env \<Rightarrow> instance_type \<Rightarrow> NodeClaim \<Rightarrow> GCENodeClass \<Rightarrow> string \<Rightarrow> Disk \<Rightarrow> go_error + attached_disk" where
  "render_disk e it claim nc zone d = (let
      ls = map_copy (Labels (ncl_Spec nc)) (karpenterGCEIdentityLabels e claim nc);
      arch = (if req_has (reqs_get (it_requirements it) LabelArchStable) OSArchARM64Requirement then OSArchitectureARM else []);
      params = \<lparr>dp_DiskSizeGb = d_SizeGiB d, dp_Labels = ls,
        dp_DiskType = (if d_Category d \<noteq> [] then disk_type_url e zone (d_Category d) else []),
        dp_ProvisionedIops = get_or 0 (d_ProvisionedIOPS d), dp_ProvisionedThroughput = get_or 0 (d_ProvisionedThroughput d),
        dp_Architecture = arch, dp_SourceImage = d_SecondaryBootImage d\<rparr>;
      ad = \<lparr>ad_Type = [], ad_AutoDelete = True, ad_Boot = d_Boot d, ad_Interface = [],
        ad_DeviceName = (if d_Boot d then [] else secondaryBootDiskImageDeviceName (d_SecondaryBootImage d)),
        ad_InitializeParams = Some params,
        ad_EncryptionKey = (if d_KMSKeyName d \<noteq> [] then Some (d_KMSKeyName d, d_KMSKeyServiceAccount d) else None)\<rparr>
    in if d_Boot d then (case FindImage (be_wellKnown e) (st_Images (ncl_Status nc)) (it_requirements it) of
           None \<Rightarrow> Inl (Errorf ''no target image found for node class %s'' [ncl_Name nc] [])
         | Some im \<Rightarrow> Inr (ad\<lparr>ad_InitializeParams := Some (params\<lparr>dp_SourceImage := im_SourceImage im\<rparr>)\<rparr>))
       else Inr ad)"

fun sum_list_result :: "(go_error + 'a) list \<Rightarrow> go_error + 'a list" where
  "sum_list_result [] = Inr []"
| "sum_list_result (r # rs) = (case r of Inl err \<Rightarrow> Inl err
     | Inr x \<Rightarrow> (case sum_list_result rs of Inl err \<Rightarrow> Inl err | Inr xs \<Rightarrow> Inr (x # xs)))"

definition sort_disks :: "Disk list \<Rightarrow> Disk list" where
  "sort_disks ds = sort_slice (\<lambda>a b. d_Boot a) ds"

definition renderDiskProperties ::
  "build_env \<Rightarrow> instance_type \<Rightarrow> NodeClaim \<Rightarrow> GCENodeClass \<Rightarrow> string \<Rightarrow> int \<Rightarrow> go_error + attached_disk list" where
  "renderDiskProperties e it claim nc zone ssdCount =
    (case sum_list_result (map (render_disk e it claim nc zone)
        (filter (\<lambda>d. d_Category d \<noteq> ''local-ssd'') (sort_disks (Disks (ncl_Spec nc))))) of
       Inl err \<Rightarrow> Inl err
     | Inr ds \<Rightarrow> Inr (ds @ localSSDDisks e (it_name it) zone ssdCount))"

subsection \<open>Network\<close>

definition resolvedPodRangeNames :: "GCENodeClass \<Rightarrow> cluster \<Rightarrow> string list" where
  "resolvedPodRangeNames nc cl = (if PodSubnetRangeNames nc \<noteq> [] then PodSubnetRangeNames nc
     else if ClusterPodRangeNames (Some cl) \<noteq> [] then ClusterPodRangeNames (Some cl) else [[]])"

definition podCIDRRange :: "int \<Rightarrow> int" where
  "podCIDRRange maxPods = (if maxPods \<le> 8 then 28 else if maxPods \<le> 16 then 27 else if maxPods \<le> 32 then 26
     else if maxPods \<le> 64 then 25 else if maxPods \<le> 128 then 24 else 23)"

definition applyAccessConfig :: "bool \<Rightarrow> network_interface \<Rightarrow> network_interface" where
  "applyAccessConfig disableExternal i = (if \<not> disableExternal
     then i\<lparr>ni_AccessConfigs := [\<lparr>ac_Type = ''ONE_TO_ONE_NAT'', ac_Name = ''External NAT'', ac_NetworkTier = []\<rparr>]\<rparr>
     else i\<lparr>ni_ForceSendFields := [''AccessConfigs'']\<rparr>)"

definition plain_interface :: "string \<Rightarrow> string \<Rightarrow> string \<Rightarrow> alias_range list \<Rightarrow> network_interface" where
  "plain_interface network subnetwork nic aliases = \<lparr>ni_Network = network, ni_Subnetwork = subnetwork, ni_NicType = nic,
     ni_AliasIpRanges = aliases, ni_AccessConfigs = [], ni_ForceSendFields = [], ni_Ipv6AccessConfigs = [], ni_StackType = []\<rparr>"

definition buildAdditionalInterfaces ::
  "string \<Rightarrow> AdditionalNetworkInterface list \<Rightarrow> bool \<Rightarrow> string \<Rightarrow> network_interface list" where
  "buildAdditionalInterfaces clusterNetwork overrides disableExternal nic = map (\<lambda>o'. applyAccessConfig disableExternal
     (plain_interface (if ani_Network o' \<noteq> [] then ani_Network o' else clusterNetwork) (ani_Subnetwork o') nic [])) overrides"

definition external_disabled :: "cluster \<Rightarrow> GCENodeClass \<Rightarrow> bool" where
  "external_disabled cl nc = (let clusterPrivate = (cl_PrivateNodes cl = Some True) in
     case NetworkCfg (ncl_Spec nc) of None \<Rightarrow> clusterPrivate
     | Some cfg \<Rightarrow> get_or clusterPrivate (nc_EnablePrivateNodes cfg))"

definition setupNetworkInterfaces :: "cluster \<Rightarrow> GCENodeClass \<Rightarrow> network_interface list" where
  "setupNetworkInterfaces cl nc = (case cl_NetworkConfig cl of None \<Rightarrow> []
    | Some net \<Rightarrow> (let
        targetRange = podCIDRRange (GetMaxPods nc);
        rangeName = (case resolvedPodRangeNames nc cl of n # _ \<Rightarrow> n | [] \<Rightarrow> []);
        (network, subnetwork) = PrimaryNetwork (Some nc) (Some cl);
        disableExternal = external_disabled cl nc;
        nic = (case GVNIC (ncl_Spec nc) of None \<Rightarrow> [] | Some enabled \<Rightarrow> if enabled then ''GVNIC'' else ''VIRTIO_NET'');
        primary = applyAccessConfig disableExternal (plain_interface network subnetwork nic
          [\<lparr>ar_IpCidrRange = CHR ''/'' # itoa targetRange, ar_SubnetworkRangeName = rangeName\<rparr>])
      in primary # (case NetworkCfg (ncl_Spec nc) of None \<Rightarrow> []
          | Some cfg \<Rightarrow> buildAdditionalInterfaces (cn_Network net) (nc_AdditionalNetworkInterfaces cfg) disableExternal nic)))"

definition set_alias_range :: "string \<Rightarrow> network_interface \<Rightarrow> network_interface" where
  "set_alias_range r i = (case ni_AliasIpRanges i of [] \<Rightarrow> i
     | a # as \<Rightarrow> i\<lparr>ni_AliasIpRanges := a\<lparr>ar_SubnetworkRangeName := r\<rparr> # as\<rparr>)"

text \<open>The result is the interfaces and the metadata with the pod network labels. The labels are written in the
  map's iteration order, which does not matter because the keys differ.\<close>

definition setupPodNetwork ::
  "cluster \<Rightarrow> GCENodeClass \<Rightarrow> string \<Rightarrow> InstanceMetadata \<Rightarrow> go_error + network_interface list \<times> InstanceMetadata" where
  "setupPodNetwork cl nc podRange m = (case setupNetworkInterfaces cl nc of [] \<Rightarrow> Inr ([], m)
    | primary # rest \<Rightarrow> (let
        primary = set_alias_range podRange primary;
        subnetName = last_segment CHR ''/'' (ni_Subnetwork primary)
      in if \<not> IsMultiNetworkingEnabled (Some cl) then Inr (primary # rest, m)
         else if subnetName = [] \<or> podRange = [] then
           Inl (Errorf ''multi-networking requires a resolved primary subnet and pod secondary range'' [] [])
         else Inr (primary # rest, foldl set_both_label m
           [(''cloud.google.com/gke-np-default-subnet'', subnetName), (''cloud.google.com/gke-np-default-pod-range'', podRange)])))"

definition networkStackTypeDualStack :: string where [go_defs]: "networkStackTypeDualStack = ''IPV4_IPV6''"

definition configureDualStackNetwork ::
  "(string \<Rightarrow> string \<Rightarrow> 's \<Rightarrow> (go_error + string \<times> string) \<times> 's) \<Rightarrow> cluster \<Rightarrow> network_interface list \<Rightarrow> 's \<Rightarrow>
   (go_error + network_interface list) \<times> 's" where
  "configureDualStackNetwork getNetworkConfig cl ifaces s =
    (if (case cl_IpAllocationPolicy cl of None \<Rightarrow> True | Some p \<Rightarrow> ip_StackType p \<noteq> networkStackTypeDualStack) then (Inr ifaces, s)
     else (case ifaces of [] \<Rightarrow> (Inl (Errorf ''dual-stack cluster requires a primary network interface'' [] []), s)
       | primary # rest \<Rightarrow> (case getNetworkConfig (ni_Network primary) (ni_Subnetwork primary) s of
           (Inl err, s) \<Rightarrow> (Inl err, s)
         | (Inr (stackType, ipv6AccessType), s) \<Rightarrow>
             if stackType \<noteq> networkStackTypeDualStack then
               (Inl (Errorf ''subnetwork %q has stack type %q, dual-stack cluster requires %s''
                 [ni_Subnetwork primary, stackType, networkStackTypeDualStack] []), s)
             else if ipv6AccessType = ''EXTERNAL'' then
               (Inr (primary\<lparr>ni_Ipv6AccessConfigs := [\<lparr>ac_Type = ''DIRECT_IPV6'', ac_Name = ''external-ipv6'', ac_NetworkTier = ''PREMIUM''\<rparr>],
                  ni_StackType := networkStackTypeDualStack\<rparr> # rest), s)
             else if ipv6AccessType = ''INTERNAL'' then (Inr (primary\<lparr>ni_StackType := networkStackTypeDualStack\<rparr> # rest), s)
             else (Inl (Errorf ''subnetwork %q has unsupported IPv6 access type %q'' [ni_Subnetwork primary, ipv6AccessType] []), s))))"

subsection \<open>Service account and scheduling\<close>

definition resolveServiceAccount :: "build_env \<Rightarrow> GCENodeClass \<Rightarrow> string" where
  "resolveServiceAccount e nc = (if ServiceAccount (ncl_Spec nc) \<noteq> [] then ServiceAccount (ncl_Spec nc)
     else if be_defaultServiceAccount e \<noteq> [] then be_defaultServiceAccount e else be_computeDefaultSA e)"

definition setupServiceAccounts :: "build_env \<Rightarrow> GCENodeClass \<Rightarrow> go_error + service_account list" where
  "setupServiceAccounts e nc = (let sa = resolveServiceAccount e nc in
     if sa = [] then Inl (Errorf ''no service account available: spec.serviceAccount and DEFAULT_NODEPOOL_SERVICE_ACCOUNT are unset, and the Compute Engine default SA is unavailable for this project'' [] [])
     else Inr [\<lparr>sa_Email = sa, sa_Scopes = [''https://www.googleapis.com/auth/cloud-platform'']\<rparr>])"

text \<open>\<^verbatim>\<open>int64(notice.Seconds())\<close> truncates; the duration is positive here.\<close>

definition setupScheduling :: "string \<Rightarrow> GCENodeClass \<Rightarrow> scheduling" where
  "setupScheduling capacityType nc = (if capacityType = CapacityTypeSpot then zero_scheduling\<lparr>
       sc_InstanceTerminationAction := ''DELETE'',
       sc_PreemptionNoticeSeconds := (case PreemptionNoticeDuration (ncl_Spec nc) of
         Some d \<Rightarrow> if d > 0 then Some (d div 1000000000) else None | None \<Rightarrow> None)\<rparr>
     else zero_scheduling)"

definition configureInstanceCapacityProvision :: "string \<Rightarrow> compute_instance \<Rightarrow> compute_instance" where
  "configureInstanceCapacityProvision capacityType i = (let
      sched = get_or zero_scheduling (ci_Scheduling i)
    in if capacityType = CapacityTypeSpot
       then i\<lparr>ci_Labels := map_set ''goog-gke-node-pool-provisioning-model'' ''spot'' (ci_Labels i),
              ci_Scheduling := Some (sched\<lparr>sc_ProvisioningModel := ''SPOT'', sc_Preemptible := True, sc_AutomaticRestart := Some False\<rparr>)\<rparr>
       else i\<lparr>ci_Labels := map_set ''goog-gke-node-pool-provisioning-model'' ''on-demand'' (ci_Labels i), ci_Scheduling := Some sched\<rparr>)"

definition z3HighSsdGiBThreshold :: int where [go_defs]: "z3HighSsdGiBThreshold = 18 * 1024"
definition z4dHighSsdGiBThreshold :: int where [go_defs]: "z4dHighSsdGiBThreshold = 42000"

definition partition_count :: "machine_type option \<Rightarrow> int" where
  "partition_count mt = (case mt of None \<Rightarrow> 0 | Some t \<Rightarrow> mt_PartitionCount t)"

definition onHostMaintenancePolicy :: "instance_type \<Rightarrow> string \<Rightarrow> machine_type option \<Rightarrow> string" where
  "onHostMaintenancePolicy it capacityType mt = (if capacityType = CapacityTypeSpot then ''TERMINATE''
     else if req_len (reqs_get (it_requirements it) LabelInstanceGPUCount) > 0 then ''TERMINATE''
     else if IsBareMetalInstanceType (it_name it) then ''TERMINATE''
     else if has_prefix (it_name it) ''h4d-'' then ''TERMINATE''
     else if has_prefix (it_name it) ''z3-'' then
       (if TotalGiB (it_name it) (partition_count mt) > z3HighSsdGiBThreshold then ''TERMINATE'' else ''MIGRATE'')
     else if has_prefix (it_name it) ''z4d-'' then
       (if TotalGiB (it_name it) (partition_count mt) > z4dHighSsdGiBThreshold then ''TERMINATE'' else ''MIGRATE'')
     else [])"

definition on_maintenance :: "string \<Rightarrow> compute_instance \<Rightarrow> compute_instance" where
  "on_maintenance p i = i\<lparr>ci_Scheduling := Some ((get_or zero_scheduling (ci_Scheduling i))\<lparr>sc_OnHostMaintenance := p\<rparr>)\<rparr>"

definition configureConfidentialInstance :: "GCENodeClass \<Rightarrow> compute_instance \<Rightarrow> compute_instance" where
  "configureConfidentialInstance nc i = (case ConfidentialInstanceType (ncl_Spec nc) of None \<Rightarrow> i
     | Some cit \<Rightarrow> on_maintenance ''TERMINATE'' (i\<lparr>ci_ConfidentialInstanceType := Some cit\<rparr>))"

definition configureAdvancedMachineFeatures :: "GCENodeClass \<Rightarrow> compute_instance \<Rightarrow> compute_instance" where
  "configureAdvancedMachineFeatures nc i = (case AdvancedFeatures (ncl_Spec nc) of None \<Rightarrow> i
     | Some amf \<Rightarrow> if amf_EnableNestedVirtualization amf = None \<and> amf_ThreadsPerCore amf = None then i
         else i\<lparr>ci_AdvancedMachineFeatures := Some \<lparr>
           mf_EnableNestedVirtualization = get_or False (amf_EnableNestedVirtualization amf),
           mf_ThreadsPerCore = get_or 0 (amf_ThreadsPerCore amf),
           mf_ForceSendFields = (if amf_EnableNestedVirtualization amf \<noteq> None then [''EnableNestedVirtualization''] else [])\<rparr>\<rparr>)"

definition shielded_of :: "ShieldedInstanceConfig \<Rightarrow> shielded_config" where
  "shielded_of sic = \<lparr>sh_EnableSecureBoot = get_or False (sic_EnableSecureBoot sic),
     sh_EnableVtpm = get_or False (sic_EnableVtpm sic),
     sh_EnableIntegrityMonitoring = get_or False (sic_EnableIntegrityMonitoring sic),
     sh_ForceSendFields = (if sic_EnableSecureBoot sic \<noteq> None then [''EnableSecureBoot''] else [])
       @ (if sic_EnableVtpm sic \<noteq> None then [''EnableVtpm''] else [])
       @ (if sic_EnableIntegrityMonitoring sic \<noteq> None then [''EnableIntegrityMonitoring''] else [])\<rparr>"

subsection \<open>Labels and tags\<close>

text \<open>\<^verbatim>\<open>hex.DecodeString\<close> and base 32 without padding, in lower case.\<close>

definition hex_digit :: "char \<Rightarrow> nat option" where
  "hex_digit c = (if is_digit c then Some (char_code c - 48)
     else if 97 \<le> char_code c \<and> char_code c \<le> 102 then Some (char_code c - 87)
     else if 65 \<le> char_code c \<and> char_code c \<le> 70 then Some (char_code c - 55) else None)"

fun hex_decode :: "string \<Rightarrow> nat list option" where
  "hex_decode [] = Some []"
| "hex_decode [c] = None"
| "hex_decode (a # b # s) = (case (hex_digit a, hex_digit b, hex_decode s) of
     (Some x, Some y, Some bs) \<Rightarrow> Some ((16 * x + y) # bs) | _ \<Rightarrow> None)"

definition byte_bits :: "nat \<Rightarrow> bool list" where
  "byte_bits n = map (\<lambda>i. n div 2 ^ (7 - i) mod 2 = 1) [0..<8]"

definition base32_char :: "nat \<Rightarrow> char" where
  "base32_char v = (if v < 26 then char_of (97 + v) else char_of (50 + (v - 26)))"

definition bits_value :: "bool list \<Rightarrow> nat" where
  "bits_value bs = foldl (\<lambda>n b. 2 * n + (if b then 1 else 0)) 0 bs"

function base32_bits :: "bool list \<Rightarrow> string" where
  "base32_bits bs = (if bs = [] then [] else
     base32_char (bits_value (take 5 (bs @ replicate 4 False))) # base32_bits (drop 5 bs))"
  by pat_completeness auto
termination base32_bits
  by (relation "measure length") auto

declare base32_bits.simps [simp del]

definition clusterIDBase32 :: "string \<Rightarrow> string option" where
  "clusterIDBase32 clusterID = (case hex_decode clusterID of None \<Rightarrow> None
     | Some bs \<Rightarrow> if bs = [] then None else Some (base32_bits (concat (map byte_bits bs))))"

definition setupInstanceLabels ::
  "build_env \<Rightarrow> NodeClaim \<Rightarrow> GCENodeClass \<Rightarrow> string \<Rightarrow> int \<Rightarrow> compute_instance \<Rightarrow> compute_instance" where
  "setupInstanceLabels e claim nc clusterID ssdCount i = (let
      ls = map_copy (ci_Labels i) (karpenterGCEIdentityLabels e claim nc);
      ls = (case clusterIDBase32 clusterID of Some b \<Rightarrow> map_set ''goog-gke-cluster-id-base32'' b ls | None \<Rightarrow> ls);
      ls = map_set ''goog-gke-node'' [] (map_set ''goog-gke-cost-management'' [] ls)
    in i\<lparr>ci_Labels := map_set (SanitizeGCELabelValue LabelInstanceLocalSsdCount) (itoa ssdCount) ls\<rparr>)"

definition buildInstanceTags :: "string \<Rightarrow> string \<Rightarrow> string list \<Rightarrow> string list" where
  "buildInstanceTags clusterName clusterID networkTags = uniq ([''gke-'' @ clusterName @ ''-node'']
     @ (if length clusterID \<ge> 8 then [''gke-'' @ clusterName @ ''-'' @ take 8 clusterID @ ''-node''] else [])
     @ networkTags)"

subsection \<open>The instance\<close>

text \<open>The struct literal of \<^verbatim>\<open>buildInstance\<close>, and the configuration steps after it.\<close>

definition instance_literal ::
  "build_env \<Rightarrow> GCENodeClass \<Rightarrow> instance_type \<Rightarrow> cluster \<Rightarrow> string \<Rightarrow> string \<Rightarrow> string \<Rightarrow> attached_disk list \<Rightarrow>
   network_interface list \<Rightarrow> service_account list \<Rightarrow> compute_metadata \<Rightarrow> labels \<Rightarrow> compute_instance" where
  "instance_literal e nc it cl zone instanceName capacityType disks ifaces sas cm ls = (let spec = ncl_Spec nc in
     zero_instance\<lparr>ci_Name := instanceName,
       ci_MachineType := ''zones/'' @ zone @ ''/machineTypes/'' @ it_name it,
       ci_Disks := disks, ci_NetworkInterfaces := ifaces, ci_MinCpuPlatform := MinCpuPlatform spec,
       ci_ServiceAccounts := sas, ci_Metadata := cm, ci_Labels := ls,
       ci_Scheduling := Some (setupScheduling capacityType nc),
       ci_Tags := buildInstanceTags (be_clusterName e) (cl_Id cl) (NetworkTags spec),
       ci_ResourceManagerTags := (if ResourceManagerTags spec \<noteq> [] then Some (ResourceManagerTags spec) else None),
       ci_ShieldedInstanceConfig := map_option shielded_of (ShieldedInstance spec)\<rparr>)"

definition finish_instance ::
  "build_env \<Rightarrow> NodeClaim \<Rightarrow> GCENodeClass \<Rightarrow> instance_type \<Rightarrow> string \<Rightarrow> string \<Rightarrow> machine_type option \<Rightarrow> int \<Rightarrow>
   compute_instance \<Rightarrow> compute_instance" where
  "finish_instance e claim nc it clusterID capacityType mt ssdCount i =
     setupInstanceLabels e claim nc clusterID ssdCount (configureAdvancedMachineFeatures nc (configureConfidentialInstance nc
       (on_maintenance (onHostMaintenancePolicy it capacityType mt) (configureInstanceCapacityProvision capacityType i))))"

definition buildInstance ::
  "build_env \<Rightarrow> 's boot_api \<Rightarrow> (string \<Rightarrow> string \<Rightarrow> 's \<Rightarrow> (go_error + string \<times> string) \<times> 's) \<Rightarrow>
   NodeClaim \<Rightarrow> GCENodeClass \<Rightarrow> instance_type \<Rightarrow> compute_metadata option \<Rightarrow> cluster \<Rightarrow> string \<Rightarrow> string \<Rightarrow> string \<Rightarrow>
   machine_type option \<Rightarrow> int \<Rightarrow> string \<Rightarrow> labels \<Rightarrow> 's \<Rightarrow> (go_error + compute_instance) \<times> labels \<times> 's" where
  "buildInstance e api getNetworkConfig claim nc0 it source cl zone instanceName capacityType mt ssdCount podRange hashes s =
    (case renderDiskProperties e it claim nc0 zone ssdCount of
       Inl err \<Rightarrow> (Inl (Errorf ''rendering disk properties: %w'' [] [err]), hashes, s)
     | Inr disks \<Rightarrow> (let
          nc = nc0\<lparr>ncl_Spec := (ncl_Spec nc0)\<lparr>Disks := sort_disks (Disks (ncl_Spec nc0))\<rparr>\<rparr>
        in case setupInstanceMetadata e api source nc it claim zone capacityType (instanceTypeHasGPU it) ssdCount hashes s of
             (Inl err, hashes, s) \<Rightarrow> (Inl (Errorf ''setting up instance metadata: %w'' [] [err]), hashes, s)
           | (Inr m, hashes, s) \<Rightarrow> (case setupPodNetwork cl nc podRange m of
               Inl err \<Rightarrow> (Inl err, hashes, s)
             | Inr (ifaces, m) \<Rightarrow> (case configureDualStackNetwork getNetworkConfig cl ifaces s of
                 (Inl err, s) \<Rightarrow> (Inl (Errorf ''configuring dual-stack networking: %w'' [] [err]), hashes, s)
               | (Inr ifaces, s) \<Rightarrow> (case ToComputeMetadata (be_yamlMarshal e) m of
                   Inl err \<Rightarrow> (Inl (Errorf ''rendering instance metadata: %w'' [] [err]), hashes, s)
                 | Inr cm \<Rightarrow> (case setupServiceAccounts e nc of
                     Inl err \<Rightarrow> (Inl (Errorf ''setting up service accounts: %w'' [] [err]), hashes, s)
                   | Inr sas \<Rightarrow> (Inr (finish_instance e claim nc it (cl_Id cl) capacityType mt ssdCount
                       (instance_literal e nc it cl zone instanceName capacityType disks ifaces sas cm (ToComputeInstanceLabels m))),
                       hashes, s)))))))"

subsection \<open>What a built instance looks like\<close>

definition sorted_class :: "GCENodeClass \<Rightarrow> GCENodeClass" where
  "sorted_class nc = nc\<lparr>ncl_Spec := (ncl_Spec nc)\<lparr>Disks := sort_disks (Disks (ncl_Spec nc))\<rparr>\<rparr>"

lemma sorted_class_sel [simp]:
  "ncl_Meta (sorted_class nc) = ncl_Meta nc" "ncl_Status (sorted_class nc) = ncl_Status nc"
  "ConfidentialInstanceType (ncl_Spec (sorted_class nc)) = ConfidentialInstanceType (ncl_Spec nc)"
  "PreemptionNoticeDuration (ncl_Spec (sorted_class nc)) = PreemptionNoticeDuration (ncl_Spec nc)"
  by (simp_all add: sorted_class_def)

lemma buildInstance_cases:
  assumes "buildInstance e api gnc claim nc it source cl zone name ct mt n podRange hashes s = (Inr i, hashes', s')"
  obtains disks i0 where "renderDiskProperties e it claim nc zone n = Inr disks"
    "ci_Name i0 = name" "ci_MachineType i0 = ''zones/'' @ zone @ ''/machineTypes/'' @ it_name it" "ci_Disks i0 = disks"
    "ci_Scheduling i0 = Some (setupScheduling ct nc)"
    "i = finish_instance e claim (sorted_class nc) it (cl_Id cl) ct mt n i0"
proof -
  obtain disks where d: "renderDiskProperties e it claim nc zone n = Inr disks"
    using assms by (auto simp: buildInstance_def split: sum.splits)
  have "\<exists>ifaces sas cm ls. i = finish_instance e claim (sorted_class nc) it (cl_Id cl) ct mt n
      (instance_literal e (sorted_class nc) it cl zone name ct disks ifaces sas cm ls)"
    using assms unfolding buildInstance_def d sum.case Let_def sorted_class_def [symmetric]
    by (auto split: sum.splits prod.splits)
  then obtain ifaces sas cm ls where i: "i = finish_instance e claim (sorted_class nc) it (cl_Id cl) ct mt n
      (instance_literal e (sorted_class nc) it cl zone name ct disks ifaces sas cm ls)" by blast
  show thesis
    by (rule that [OF d _ _ _ _ i]) (simp_all add: instance_literal_def setupScheduling_def Let_def)
qed

lemma identity_keys:
  "SanitizeGCELabelValue LabelNodePoolKey = ''karpenter-sh-nodepool''"
  "SanitizeGCELabelValue LabelGCENodeClassKey = ''karpenter-k8s-gcp-gcenodeclass''"
  "SanitizeGCELabelValue LabelInstanceLocalSsdCount = ''karpenter-k8s-gcp-instance-local-ssd-count''"
  by code_simp+

lemma step_scheduling [simp]:
  "ci_Scheduling (setupInstanceLabels e claim nc cid n i) = ci_Scheduling i"
  "ci_Scheduling (configureAdvancedMachineFeatures nc i) = ci_Scheduling i"
  "ci_Scheduling (on_maintenance p i) = Some ((get_or zero_scheduling (ci_Scheduling i))\<lparr>sc_OnHostMaintenance := p\<rparr>)"
  by (simp_all add: setupInstanceLabels_def configureAdvancedMachineFeatures_def on_maintenance_def Let_def split: option.splits)

lemma step_labels [simp]:
  "ci_Labels (configureAdvancedMachineFeatures nc i) = ci_Labels i"
  "ci_Labels (configureConfidentialInstance nc i) = ci_Labels i"
  "ci_Labels (on_maintenance p i) = ci_Labels i"
  by (simp_all add: configureConfidentialInstance_def configureAdvancedMachineFeatures_def on_maintenance_def split: option.splits)

lemma finish_labels:
  "map_of (ci_Labels (finish_instance e claim nc it cid ct mt n i)) ''karpenter-sh-nodepool''
     = Some (map_str (ncm_Labels claim) NodePoolLabelKey)"
  "map_of (ci_Labels (finish_instance e claim nc it cid ct mt n i)) ''karpenter-k8s-gcp-gcenodeclass'' = Some (ncl_Name nc)"
  "map_of (ci_Labels (finish_instance e claim nc it cid ct mt n i)) ''goog-k8s-cluster-name'' = Some (be_clusterName e)"
  "map_of (ci_Labels (finish_instance e claim nc it cid ct mt n i)) ''goog-k8s-cluster-location'' = Some (be_clusterLocation e)"
  "map_of (ci_Labels (finish_instance e claim nc it cid ct mt n i)) ''karpenter-k8s-gcp-instance-local-ssd-count'' = Some (itoa n)"
  unfolding finish_instance_def setupInstanceLabels_def karpenterGCEIdentityLabels_def identity_keys
    LabelClusterNameKey_def LabelClusterLocationKey_def Let_def
  by (cases "clusterIDBase32 cid"; simp)+

lemma finish_scheduling:
  assumes "ci_Scheduling i = Some sc0"
  shows "ci_Scheduling (finish_instance e claim nc it cid ct mt n i) =
    Some ((if ct = CapacityTypeSpot then sc0\<lparr>sc_ProvisioningModel := ''SPOT'', sc_Preemptible := True, sc_AutomaticRestart := Some False\<rparr> else sc0)
      \<lparr>sc_OnHostMaintenance := (if ConfidentialInstanceType (ncl_Spec nc) \<noteq> None then ''TERMINATE'' else onHostMaintenancePolicy it ct mt)\<rparr>)"
  using assms
  by (cases "ConfidentialInstanceType (ncl_Spec nc)")
    (simp_all add: finish_instance_def configureConfidentialInstance_def configureInstanceCapacityProvision_def get_or_def Let_def)

lemma finish_basic [simp]:
  "ci_Name (finish_instance e claim nc it cid ct mt n i) = ci_Name i"
  "ci_MachineType (finish_instance e claim nc it cid ct mt n i) = ci_MachineType i"
  "ci_Disks (finish_instance e claim nc it cid ct mt n i) = ci_Disks i"
  by (simp_all add: finish_instance_def setupInstanceLabels_def configureAdvancedMachineFeatures_def
      configureConfidentialInstance_def on_maintenance_def configureInstanceCapacityProvision_def Let_def split: option.splits)

lemma sum_list_result_Inr: "sum_list_result rs = Inr xs \<Longrightarrow> rs = map Inr xs"
  by (induction rs arbitrary: xs) (auto split: sum.splits)

lemma render_disk_boot: "render_disk e it claim nc zone d = Inr ad \<Longrightarrow> ad_Boot ad = d_Boot d"
  by (auto simp: render_disk_def Let_def split: if_splits option.splits)

lemma render_disk_params:
  "render_disk e it claim nc zone d = Inr ad \<Longrightarrow> \<exists>p. ad_InitializeParams ad = Some p \<and>
     map_of (dp_Labels p) ''goog-k8s-cluster-name'' = Some (be_clusterName e) \<and>
     (d_Boot d \<longrightarrow> (\<exists>im. FindImage (be_wellKnown e) (st_Images (ncl_Status nc)) (it_requirements it) = Some im \<and>
        dp_SourceImage p = im_SourceImage im))"
  by (auto simp: render_disk_def karpenterGCEIdentityLabels_def identity_keys go_defs Let_def split: if_splits option.splits)

subsection \<open>Properties\<close>

text \<open>C40: The alias range of a node holds at least twice as many addresses as the node may run pods, as GKE
  requires, for every maximum up to 256 pods, and no smaller range that GKE offers would do.\<close>

theorem podCIDRRange_tight:
  assumes "maxPods \<le> 256"
  shows "23 \<le> podCIDRRange maxPods \<and> podCIDRRange maxPods \<le> 28 \<and>
    2 * maxPods \<le> 2 ^ nat (32 - podCIDRRange maxPods) \<and>
    (podCIDRRange maxPods < 28 \<longrightarrow> 2 ^ nat (32 - (podCIDRRange maxPods + 1)) < 2 * maxPods)"
  using assms by (auto simp: podCIDRRange_def)

theorem podCIDRRange_tight_witness: "(110::int) \<le> 256 \<and> podCIDRRange 110 = 24 \<and> 2 * 110 \<le> (2::int) ^ 8"
  using podCIDRRange_tight [of 110] by (simp add: podCIDRRange_def)

definition example_disk :: "bool \<Rightarrow> string \<Rightarrow> Disk" where
  "example_disk boot img = \<lparr>d_SizeGiB = 100, d_Category = ''pd-balanced'', d_Boot = boot, d_SecondaryBootImage = img,
     d_SecondaryBootMode = [], d_KMSKeyName = [], d_KMSKeyServiceAccount = [], d_ProvisionedIOPS = None, d_ProvisionedThroughput = None\<rparr>"

definition example_class :: GCENodeClass where
  "example_class = zero_nodeClass\<lparr>ncl_Meta := zero_meta\<lparr>om_Name := ''default''\<rparr>,
     ncl_Spec := zero_spec\<lparr>Disks := [example_disk False ''img'', example_disk True []], Labels := [(''goog-k8s-cluster-name'', ''other'')]\<rparr>,
     ncl_Status := \<lparr>st_Images = [\<lparr>im_SourceImage = ''cos'', im_Requirements = [\<lparr>sr_key = LabelArchStable, sr_operator = OpIn,
       sr_values = [''amd64''], sr_minValues = None\<rparr>]\<rparr>], st_SubnetRanges = [],
       st_Conditions = [\<lparr>cond_Type = ''ImagesReady'', cond_Status = CondTrue, cond_Reason = [], cond_Message = []\<rparr>]\<rparr>\<rparr>"

text \<open>C20: An instance that the provider builds carries the name it was asked for, the machine type and zone it
  was chosen for, and the ownership labels that the provider later lists and garbage-collects by,
  whatever labels the user's node class sets; a spot instance is a preemptible SPOT instance that is
  deleted on preemption and terminated on maintenance, an on-demand one is neither; and a
  confidential instance is never asked to live-migrate.\<close>

theorem buildInstance_owned:
  assumes "buildInstance e api gnc claim nc it source cl zone name ct mt n podRange hashes s = (Inr i, hashes', s')"
  shows "ci_Name i = name \<and> ci_MachineType i = ''zones/'' @ zone @ ''/machineTypes/'' @ it_name it
    \<and> map_of (ci_Labels i) ''karpenter-sh-nodepool'' = Some (map_str (ncm_Labels claim) NodePoolLabelKey)
    \<and> map_of (ci_Labels i) ''karpenter-k8s-gcp-gcenodeclass'' = Some (ncl_Name nc)
    \<and> map_of (ci_Labels i) ''goog-k8s-cluster-name'' = Some (be_clusterName e)
    \<and> map_of (ci_Labels i) ''goog-k8s-cluster-location'' = Some (be_clusterLocation e)
    \<and> (\<exists>sc. ci_Scheduling i = Some sc \<and>
        (if ct = CapacityTypeSpot then sc_ProvisioningModel sc = ''SPOT'' \<and> sc_Preemptible sc
           \<and> sc_InstanceTerminationAction sc = ''DELETE'' \<and> sc_OnHostMaintenance sc = ''TERMINATE''
         else sc_ProvisioningModel sc = [] \<and> \<not> sc_Preemptible sc)
        \<and> (ConfidentialInstanceType (ncl_Spec nc) \<noteq> None \<longrightarrow> sc_OnHostMaintenance sc = ''TERMINATE''))"
proof -
  from assms obtain disks i0 where i0: "ci_Name i0 = name"
    "ci_MachineType i0 = ''zones/'' @ zone @ ''/machineTypes/'' @ it_name it"
    "ci_Scheduling i0 = Some (setupScheduling ct nc)"
    and i: "i = finish_instance e claim (sorted_class nc) it (cl_Id cl) ct mt n i0"
    by (rule buildInstance_cases)
  have "ci_Scheduling i = Some ((if ct = CapacityTypeSpot then (setupScheduling ct nc)\<lparr>sc_ProvisioningModel := ''SPOT'',
        sc_Preemptible := True, sc_AutomaticRestart := Some False\<rparr> else setupScheduling ct nc)
      \<lparr>sc_OnHostMaintenance := (if ConfidentialInstanceType (ncl_Spec nc) \<noteq> None then ''TERMINATE'' else onHostMaintenancePolicy it ct mt)\<rparr>)"
    unfolding i using finish_scheduling [OF i0(3), of e claim "sorted_class nc"] by simp
  then have "\<exists>sc. ci_Scheduling i = Some sc \<and>
        (if ct = CapacityTypeSpot then sc_ProvisioningModel sc = ''SPOT'' \<and> sc_Preemptible sc
           \<and> sc_InstanceTerminationAction sc = ''DELETE'' \<and> sc_OnHostMaintenance sc = ''TERMINATE''
         else sc_ProvisioningModel sc = [] \<and> \<not> sc_Preemptible sc)
        \<and> (ConfidentialInstanceType (ncl_Spec nc) \<noteq> None \<longrightarrow> sc_OnHostMaintenance sc = ''TERMINATE'')"
    by (simp add: setupScheduling_def zero_scheduling_def onHostMaintenancePolicy_def)
  then show ?thesis unfolding i by (simp add: finish_labels i0)
qed

definition example_boot_api :: "unit boot_api" where
  "example_boot_api = \<lparr>ba_version = (\<lambda>s. (Inr [], s)), ba_http = (\<lambda>u s. (Inr (200, ''h''), s))\<rparr>"

theorem buildInstance_owned_witness:
  "\<exists>i. fst (buildInstance example_build_env example_boot_api (\<lambda>_ _ s. (Inr ([], []), s)) zero_nodeClaim example_class example_boot_type
      (Some example_source) (example_cluster ''00ff'') ''us-a'' ''karpenter-x'' ''spot'' None 0 [] [] ()) = Inr i
    \<and> map_of (ci_Labels i) ''goog-k8s-cluster-name'' = Some ''c''"
proof -
  let ?r = "buildInstance example_build_env example_boot_api (\<lambda>_ _ s. (Inr ([], []), s)) zero_nodeClaim example_class example_boot_type
      (Some example_source) (example_cluster ''00ff'') ''us-a'' ''karpenter-x'' ''spot'' None 0 [] [] ()"
  have "case fst ?r of Inl _ \<Rightarrow> False | Inr _ \<Rightarrow> True" by code_simp
  then obtain i h s where r: "?r = (Inr i, h, s)" by (cases ?r) (auto split: sum.splits)
  from buildInstance_owned [OF r] r show ?thesis by (simp add: example_build_env_def)
qed

lemma sort_disks_boot_first:
  "length (filter d_Boot xs) = 1 \<Longrightarrow>
   \<exists>b r. sort_disks xs = b # r \<and> d_Boot b \<and> b \<in> set xs \<and> (\<forall>d \<in> set r. \<not> d_Boot d)"
  unfolding sort_disks_def
proof (induction xs rule: rev_induct)
  case (snoc x xs)
  have step: "sort_slice (\<lambda>a b. d_Boot a) (xs @ [x]) = rev (sift (\<lambda>a b. d_Boot a) x (rev (sort_slice (\<lambda>a b. d_Boot a) xs)))"
  proof -
    have "sift_all lt acc (xs @ [x]) = sift lt x (sift_all lt acc xs)" for lt :: "Disk \<Rightarrow> Disk \<Rightarrow> bool" and acc
      by (induction xs arbitrary: acc) simp_all
    then show ?thesis by (simp add: sort_slice_def)
  qed
  show ?case
  proof (cases "d_Boot x")
    case True
    then have sft: "sift (\<lambda>a b. d_Boot a) x ys = ys @ [x]" for ys by (induction ys) simp_all
    have "\<forall>d \<in> set xs. \<not> d_Boot d" using snoc.prems True by (auto simp: filter_empty_conv)
    then have "\<forall>d \<in> set (sort_slice (\<lambda>a b. d_Boot a) xs). \<not> d_Boot d" by simp
    with True show ?thesis unfolding step sft by simp
  next
    case False
    then have sft: "sift (\<lambda>a b. d_Boot a) x ys = x # ys" for ys by (cases ys) simp_all
    from snoc False obtain b r where "sort_slice (\<lambda>a b. d_Boot a) xs = b # r" "d_Boot b" "b \<in> set xs" "\<forall>d \<in> set r. \<not> d_Boot d"
      by auto
    with False show ?thesis unfolding step sft by simp
  qed
qed simp



end
