(* ===== verification/Unavailable_Offerings.thy ===== *)
theory Unavailable_Offerings
  imports Go_Cache "HOL-Library.Word"
begin

text \<open>
  The unavailable-offerings cache, \<^verbatim>\<open>pkg/providers/offerings/unavailableofferings/cache.go\<close>: the
  offerings that failed for lack of capacity, each for its own time, and a revision counter.
  \<open>uo_state\<close> is the struct; \<open>uo_event\<close> are the calls and the janitor's runs in the order they
  happen, and \<open>uo_run\<close> plays them. The abstract contract is \<open>last_mark\<close>: an offering is unavailable
  exactly as long as the last mark since the last flush says, whatever else was marked, flushed or
  evicted meanwhile.
\<close>

definition DefaultTTL :: duration where "DefaultTTL = 30 * 60 * 1000000000"
definition CleanupInterval :: duration where "CleanupInterval = 60 * 1000000000"

record uo_state =
  uo_cache :: "unit gocache"
  uo_seqNum :: "64 word"

definition NewUnavailableOfferings :: uo_state where
  "NewUnavailableOfferings = \<lparr>uo_cache = newCache DefaultTTL, uo_seqNum = 0\<rparr>"

definition uo_key :: "string \<Rightarrow> string \<Rightarrow> string \<Rightarrow> string" where
  "uo_key instanceType zone capacityType = capacityType @ '':'' @ instanceType @ '':'' @ zone"

definition SeqNum :: "uo_state \<Rightarrow> 64 word" where
  "SeqNum u = uo_seqNum u"

definition IsUnavailable :: "instant \<Rightarrow> string \<Rightarrow> string \<Rightarrow> string \<Rightarrow> uo_state \<Rightarrow> bool" where
  "IsUnavailable now instanceType zone capacityType u \<longleftrightarrow>
     cache_get now (uo_key instanceType zone capacityType) (uo_cache u) \<noteq> None"

definition MarkUnavailableWithTTL :: "instant \<Rightarrow> string \<Rightarrow> string \<Rightarrow> string \<Rightarrow> duration \<Rightarrow> uo_state \<Rightarrow> uo_state" where
  "MarkUnavailableWithTTL now instanceType zone capacityType ttl u =
     u\<lparr>uo_cache := cache_set now (uo_key instanceType zone capacityType) () ttl (uo_cache u),
       uo_seqNum := uo_seqNum u + 1\<rparr>"

definition MarkUnavailable :: "instant \<Rightarrow> string \<Rightarrow> string \<Rightarrow> string \<Rightarrow> uo_state \<Rightarrow> uo_state" where
  "MarkUnavailable now instanceType zone capacityType u =
     MarkUnavailableWithTTL now instanceType zone capacityType DefaultTTL u"

definition UO_Flush :: "uo_state \<Rightarrow> uo_state" where
  "UO_Flush u = u\<lparr>uo_cache := cache_flush (uo_cache u), uo_seqNum := uo_seqNum u + 1\<rparr>"

text \<open>The janitor's run, with the eviction callback that \<^verbatim>\<open>NewUnavailableOfferingsWithCache\<close> registers.\<close>

definition uo_evict :: "instant \<Rightarrow> uo_state \<Rightarrow> uo_state" where
  "uo_evict now u = (let (c, evicted) = cache_delete_expired now (uo_cache u) in
     u\<lparr>uo_cache := c, uo_seqNum := uo_seqNum u + of_nat (length evicted)\<rparr>)"

subsection \<open>Runs and the abstract contract\<close>

datatype uo_event =
    EvMark instant string string string duration
  | EvFlush
  | EvEvict instant

fun uo_step :: "uo_state \<Rightarrow> uo_event \<Rightarrow> uo_state" where
  "uo_step u (EvMark now it z ct ttl) = MarkUnavailableWithTTL now it z ct ttl u"
| "uo_step u EvFlush = UO_Flush u"
| "uo_step u (EvEvict now) = uo_evict now u"

definition uo_run :: "uo_event list \<Rightarrow> uo_state" where
  "uo_run evs = foldl uo_step NewUnavailableOfferings evs"

text \<open>The end of the last mark of a key since the last flush; the list is newest first.\<close>

fun last_mark :: "string \<Rightarrow> uo_event list \<Rightarrow> instant option" where
  "last_mark k [] = None"
| "last_mark k (EvMark now it z ct ttl # evs) = (if uo_key it z ct = k then Some (now + ttl) else last_mark k evs)"
| "last_mark k (EvFlush # evs) = None"
| "last_mark k (EvEvict now # evs) = last_mark k evs"

text \<open>Marks are made at a positive time with a positive duration, janitor runs do not come after the
  time of the question.\<close>

fun event_before :: "instant \<Rightarrow> uo_event \<Rightarrow> bool" where
  "event_before t (EvMark now it z ct ttl) \<longleftrightarrow> 0 < now \<and> 0 < ttl"
| "event_before t EvFlush \<longleftrightarrow> True"
| "event_before t (EvEvict now) \<longleftrightarrow> now \<le> t"

definition uo_wf :: "uo_state \<Rightarrow> bool" where
  "uo_wf u \<longleftrightarrow> cache_wf (uo_cache u)"

lemma uo_cache_evict: "uo_cache (uo_evict now u) = fst (cache_delete_expired now (uo_cache u))"
  by (simp add: uo_evict_def split: prod.splits)

lemma uo_wf_step [simp, intro]: "uo_wf u \<Longrightarrow> uo_wf (uo_step u ev)"
  by (cases ev) (simp_all add: uo_wf_def MarkUnavailableWithTTL_def UO_Flush_def uo_cache_evict)

lemma uo_wf_run: "uo_wf (uo_run evs)"
  unfolding uo_run_def
  by (induction evs rule: rev_induct) (simp_all add: uo_wf_def NewUnavailableOfferings_def uo_wf_step [unfolded uo_wf_def])

lemma uo_run_snoc: "uo_run (evs @ [ev]) = uo_step (uo_run evs) ev"
  by (simp add: uo_run_def)

lemma look_run:
  assumes "list_all (event_before t) evs"
  shows "cache_get t k (uo_cache (uo_run (rev evs))) \<noteq> None \<longleftrightarrow>
    (case last_mark k evs of None \<Rightarrow> False | Some e \<Rightarrow> t \<le> e)"
  using assms
proof (induction evs)
  case Nil
  then show ?case by (simp add: uo_run_def NewUnavailableOfferings_def)
next
  case (Cons ev evs)
  have wf: "cache_wf (uo_cache (uo_run (rev evs)))"
    using uo_wf_run by (simp add: uo_wf_def)
  have run: "uo_run (rev (ev # evs)) = uo_step (uo_run (rev evs)) ev"
    by (simp add: uo_run_snoc)
  show ?case
  proof (cases ev)
    case (EvMark now it z ct ttl)
    with Cons.prems have "0 < now" "0 < ttl" by simp_all
    note same = cache_get_set_same [OF this]
    show ?thesis
    proof (cases "uo_key it z ct = k")
      case True
      then show ?thesis
        unfolding run using same [of t k "()"] by (simp add: EvMark MarkUnavailableWithTTL_def)
    next
      case False
      then show ?thesis
        unfolding run using Cons by (simp add: EvMark MarkUnavailableWithTTL_def cache_get_set_other)
    qed
  next
    case EvFlush
    then show ?thesis unfolding run by (simp add: UO_Flush_def)
  next
    case (EvEvict now)
    with Cons wf show ?thesis unfolding run
      by (simp add: uo_cache_evict cache_get_delete_expired)
  qed
qed

subsection \<open>Keys and the counter\<close>

lemma uo_key_inj:
  assumes "CHR '':'' \<notin> set ct" "CHR '':'' \<notin> set ct'" "CHR '':'' \<notin> set it" "CHR '':'' \<notin> set it'"
  shows "uo_key it z ct = uo_key it' z' ct' \<longleftrightarrow> it = it' \<and> z = z' \<and> ct = ct'"
proof
  assume eq: "uo_key it z ct = uo_key it' z' ct'"
  have cut_eq: "a = a' \<and> b = b'"
    if "a @ CHR '':'' # b = a' @ CHR '':'' # b'" "CHR '':'' \<notin> set a" "CHR '':'' \<notin> set a'" for a a' b b'
  proof -
    have "cut CHR '':'' (a @ CHR '':'' # b) = (a, Some b)" using that(2) by simp
    moreover have "cut CHR '':'' (a @ CHR '':'' # b) = (a', Some b')" unfolding that(1) using that(3) by simp
    ultimately show ?thesis by simp
  qed
  from eq have "ct @ CHR '':'' # it @ CHR '':'' # z = ct' @ CHR '':'' # it' @ CHR '':'' # z'"
    by (simp add: uo_key_def)
  with assms show "it = it' \<and> z = z' \<and> ct = ct'" using cut_eq by blast
qed simp

lemma IsUnavailable_mark_same:
  "0 < now \<Longrightarrow> 0 < ttl \<Longrightarrow>
   IsUnavailable t it z ct (MarkUnavailableWithTTL now it z ct ttl u) \<longleftrightarrow> t \<le> now + ttl"
  by (simp add: IsUnavailable_def MarkUnavailableWithTTL_def cache_get_set_same)

lemma IsUnavailable_mark_other:
  "uo_key it z ct \<noteq> uo_key it' z' ct' \<Longrightarrow>
   IsUnavailable t it' z' ct' (MarkUnavailableWithTTL now it z ct ttl u) \<longleftrightarrow> IsUnavailable t it' z' ct' u"
  by (simp add: IsUnavailable_def MarkUnavailableWithTTL_def cache_get_set_other)

lemma uo_seqNum_mark [simp]: "uo_seqNum (MarkUnavailableWithTTL now it z ct ttl u) = uo_seqNum u + 1"
  by (simp add: MarkUnavailableWithTTL_def)

subsection \<open>Properties\<close>

text \<open>C8: Whatever marks, flushes and janitor runs came before, an offering is unavailable at time \<open>t\<close> exactly
  when it was marked since the last flush and the time to live of its \<^emph>\<open>last\<close> mark has not passed: a
  later mark extends or shortens the earlier one, other offerings' marks and evictions change nothing.\<close>

theorem IsUnavailable_iff_last_mark:
  assumes "list_all (event_before t) evs"
  shows "IsUnavailable t it z ct (uo_run (rev evs)) \<longleftrightarrow>
    (case last_mark (uo_key it z ct) evs of None \<Rightarrow> False | Some e \<Rightarrow> t \<le> e)"
  unfolding IsUnavailable_def using assms by (rule look_run)

theorem IsUnavailable_iff_last_mark_witness:
  "\<not> IsUnavailable 140 ''n2-standard-4'' ''us-a'' ''spot''
     (uo_run [EvMark 10 ''n2-standard-4'' ''us-a'' ''spot'' 1000, EvMark 50 ''n2-standard-4'' ''us-b'' ''spot'' 300,
        EvMark 60 ''n2-standard-4'' ''us-a'' ''spot'' 70, EvEvict 135])"
  using IsUnavailable_iff_last_mark [of 140 "[EvEvict 135, EvMark 60 ''n2-standard-4'' ''us-a'' ''spot'' 70,
      EvMark 50 ''n2-standard-4'' ''us-b'' ''spot'' 300, EvMark 10 ''n2-standard-4'' ''us-a'' ''spot'' 1000]"
      "''n2-standard-4''" "''us-a''" "''spot''"]
  by (simp add: uo_key_def)

text \<open>Cache keys do not collide: when neither the capacity types nor the machine type names contain a colon,
  marking one offering for a positive time makes exactly that offering unavailable until the end of
  that time, leaves every other offering as it was, and advances the revision counter by one
  (modulo \<open>2 ^ 64\<close>).\<close>

theorem MarkUnavailableWithTTL_frame:
  assumes "0 < now" "0 < ttl"
    and "CHR '':'' \<notin> set ct" "CHR '':'' \<notin> set ct'" "CHR '':'' \<notin> set it" "CHR '':'' \<notin> set it'"
  shows "(IsUnavailable t it' z' ct' (MarkUnavailableWithTTL now it z ct ttl u) \<longleftrightarrow>
      (if (it', z', ct') = (it, z, ct) then t \<le> now + ttl else IsUnavailable t it' z' ct' u))
    \<and> SeqNum (MarkUnavailableWithTTL now it z ct ttl u) = SeqNum u + 1"
proof
  show "IsUnavailable t it' z' ct' (MarkUnavailableWithTTL now it z ct ttl u) \<longleftrightarrow>
      (if (it', z', ct') = (it, z, ct) then t \<le> now + ttl else IsUnavailable t it' z' ct' u)"
  proof (cases "(it', z', ct') = (it, z, ct)")
    case True
    with IsUnavailable_mark_same [OF assms(1,2)] show ?thesis by simp
  next
    case False
    then have "uo_key it z ct \<noteq> uo_key it' z' ct'"
      using uo_key_inj [OF assms(3-6), of z z'] by auto
    with False IsUnavailable_mark_other [OF this] show ?thesis by (simp only: if_False)
  qed
qed (simp add: SeqNum_def)

theorem MarkUnavailableWithTTL_frame_witness:
  "IsUnavailable 20 ''n2-standard-4'' ''us-a'' ''spot''
     (MarkUnavailableWithTTL 10 ''n2-standard-4'' ''us-a'' ''spot'' 15 NewUnavailableOfferings) \<and>
   \<not> IsUnavailable 20 ''n2-standard-4'' ''us-b'' ''spot''
     (MarkUnavailableWithTTL 10 ''n2-standard-4'' ''us-a'' ''spot'' 15 NewUnavailableOfferings)"
  using MarkUnavailableWithTTL_frame [of 10 15 "''spot''" "''spot''" "''n2-standard-4''" "''n2-standard-4''"
      20 "''us-a''" "''us-a''" NewUnavailableOfferings]
    MarkUnavailableWithTTL_frame [of 10 15 "''spot''" "''spot''" "''n2-standard-4''" "''n2-standard-4''"
      20 "''us-b''" "''us-a''" NewUnavailableOfferings]
  by (simp add: IsUnavailable_def NewUnavailableOfferings_def)

end
