(* ===== verification/Instance_Errors.thy ===== *)
theory Instance_Errors
  imports Compute_Types Unavailable_Offerings
begin

text \<open>
  How the instance provider classifies Compute Engine failures, \<^verbatim>\<open>pkg/providers/instance/instance.go\<close>:
  which operation and insert errors mean that capacity is missing, for how long an offering is then
  unavailable, and the loop that waits for a zone operation. The context's deadline is the number of ticks of
  the one-second ticker that fit before it; \<open>waitOperationDone\<close> recurses on it.
\<close>

definition maxNodeCIDR :: int where "maxNodeCIDR = 23"
definition second :: duration where [go_defs]: "second = 1000000000"
definition ipSpaceInsufficientCapacityTTL :: duration where [go_defs]: "ipSpaceInsufficientCapacityTTL = 30 * second"
definition stockoutTTL :: duration where [go_defs]: "stockoutTTL = 5 * 60 * second"
definition unsupportedConfigurationTTL :: duration where [go_defs]: "unsupportedConfigurationTTL = 60 * 60 * second"
definition instanceCacheExpiration :: duration where [go_defs]: "instanceCacheExpiration = 15 * second"
definition DefaultQuotaExceededTTL :: duration where [go_defs]: "DefaultQuotaExceededTTL = 30 * 60 * second"

definition quotaExceededCode :: string where [go_defs]: "quotaExceededCode = ''QUOTA_EXCEEDED''"
definition quotaExceededReason :: string where [go_defs]: "quotaExceededReason = ''quotaExceeded''"

definition InsufficientCapacityErrorCodes :: "string list" where
  [go_defs]: "InsufficientCapacityErrorCodes =
    [''ZONE_RESOURCE_POOL_EXHAUSTED_WITH_DETAILS'', ''ZONE_RESOURCE_POOL_EXHAUSTED'',
     ''IP_SPACE_EXHAUSTED_WITH_DETAILS'', ''IP_SPACE_EXHAUSTED'', ''MACHINE_TYPE_UNSUPPORTED'']"

definition capacity_code :: "string \<Rightarrow> bool" where
  "capacity_code c \<longleftrightarrow> c \<in> set InsufficientCapacityErrorCodes \<or> c = quotaExceededCode"

subsection \<open>Classification\<close>

definition zero_details :: insufficientCapacityDetails where
  "zero_details = \<lparr>icd_code = [], icd_structuredReason = [], icd_message = [], icd_operation = []\<rparr>"

definition isInsufficientCapacityError :: "operation_error option \<Rightarrow> bool" where
  "isInsufficientCapacityError e = (case e of None \<Rightarrow> False | Some x \<Rightarrow> capacity_code (oe_Code x))"

fun apply_detail :: "insufficientCapacityDetails \<Rightarrow> error_detail option \<Rightarrow> insufficientCapacityDetails" where
  "apply_detail d None = d"
| "apply_detail d (Some x) = (let
      d1 = (case ed_ErrorInfoReason x of Some r \<Rightarrow> if icd_structuredReason d = [] then d\<lparr>icd_structuredReason := r\<rparr> else d
              | None \<Rightarrow> d)
    in case ed_LocalizedMessage x of Some m \<Rightarrow> if m \<noteq> [] then d1\<lparr>icd_message := m\<rparr> else d1 | None \<Rightarrow> d1)"

definition extractOperationInsufficientCapacityDetails :: "operation option \<Rightarrow> insufficientCapacityDetails option" where
  "extractOperationInsufficientCapacityDetails oper = (case oper of None \<Rightarrow> None
    | Some opn \<Rightarrow> (case op_Error opn of None \<Rightarrow> None
      | Some errs \<Rightarrow> (case List.find (\<lambda>e. isInsufficientCapacityError (Some e)) errs of None \<Rightarrow> None
        | Some e \<Rightarrow> (let
            d = foldl apply_detail \<lparr>icd_code = oe_Code e, icd_structuredReason = [], icd_message = oe_Message e,
                  icd_operation = op_Name opn\<rparr> (oe_ErrorDetails e)
          in Some (if icd_message d = [] then d\<lparr>icd_message := icd_code d\<rparr> else d)))))"

fun insert_item_details :: "error_item list \<Rightarrow> insufficientCapacityDetails option" where
  "insert_item_details [] = None"
| "insert_item_details (it # items) = (let
      code = (if ei_reason it = quotaExceededReason then quotaExceededCode else ei_reason it)
    in if capacity_code code then Some \<lparr>icd_code = code, icd_structuredReason = ei_reason it,
          icd_message = (if ei_message it = [] then ei_reason it else ei_message it), icd_operation = []\<rparr>
       else insert_item_details items)"

definition extractInsertInsufficientCapacityDetails :: "go_error \<Rightarrow> insufficientCapacityDetails option" where
  "extractInsertInsufficientCapacityDetails err = (case errors_as as_googleapi err of None \<Rightarrow> None
     | Some (code, msg, items) \<Rightarrow> insert_item_details items)"

definition handleZoneOperationError :: "operation \<Rightarrow> go_error" where
  "handleZoneOperationError opn = (case extractOperationInsufficientCapacityDetails (Some opn) of
      Some d \<Rightarrow> InsufficientCapacity d
    | None \<Rightarrow> Errorf ''operation failed: %s''
        [join ''; '' (map oe_Message (case op_Error opn of Some es \<Rightarrow> es | None \<Rightarrow> []))] [])"

definition isTransientError :: "go_error \<Rightarrow> bool" where
  "isTransientError err = (case errors_as as_googleapi err of Some (code, _, _) \<Rightarrow> code \<ge> 500 | None \<Rightarrow> False)"

definition isInstanceNotFoundError :: "go_error \<Rightarrow> bool" where
  "isInstanceNotFoundError err = (case errors_as as_googleapi err of Some (code, _, _) \<Rightarrow> code = 404 | None \<Rightarrow> False)"

definition isResourceNotReadyError :: "go_error \<Rightarrow> bool" where
  "isResourceNotReadyError err = (case errors_as as_googleapi err of
     Some (_, _, items) \<Rightarrow> list_ex (\<lambda>i. ei_reason i = ''resourceNotReady'') items | None \<Rightarrow> False)"

definition isIPSpaceExhausted :: "insufficientCapacityDetails \<Rightarrow> bool" where
  "isIPSpaceExhausted d \<longleftrightarrow> icd_code d = ''IP_SPACE_EXHAUSTED_WITH_DETAILS'' \<or> icd_code d = ''IP_SPACE_EXHAUSTED''"

definition isUnsupportedConfiguration :: "insufficientCapacityDetails \<Rightarrow> bool" where
  "isUnsupportedConfiguration d \<longleftrightarrow> \<not> isIPSpaceExhausted d \<and>
     (icd_code d = ''MACHINE_TYPE_UNSUPPORTED'' \<or> icd_structuredReason d = ''configuration_availability'')"

definition isQuotaExceeded :: "insufficientCapacityDetails \<Rightarrow> bool" where
  "isQuotaExceeded d \<longleftrightarrow> icd_code d = quotaExceededCode"

text \<open>The option \<^verbatim>\<open>QuotaExceededTTL\<close> of the context, if the context carries options.\<close>

definition quotaExceededTTL :: "duration option \<Rightarrow> duration" where
  "quotaExceededTTL opts = (case opts of Some t \<Rightarrow> t | None \<Rightarrow> DefaultQuotaExceededTTL)"

definition insufficientCapacityBackoffTTL :: "duration option \<Rightarrow> insufficientCapacityDetails \<Rightarrow> duration" where
  "insufficientCapacityBackoffTTL opts d = (if isQuotaExceeded d then quotaExceededTTL opts
     else if isIPSpaceExhausted d then ipSpaceInsufficientCapacityTTL
     else if isUnsupportedConfiguration d then unsupportedConfigurationTTL
     else stockoutTTL)"

text \<open>The printed form of a duration (\<^verbatim>\<open>time.Duration.String\<close>) is an argument.\<close>

definition newInsufficientCapacityError ::
  "(duration \<Rightarrow> string) \<Rightarrow> string \<Rightarrow> string \<Rightarrow> string \<Rightarrow> duration \<Rightarrow> insufficientCapacityDetails \<Rightarrow> go_error" where
  "newInsufficientCapacityError showd instanceType zone capacityType ttl d = (let
      gceDetails = (if icd_structuredReason d \<noteq> [] \<and> icd_structuredReason d \<noteq> icd_code d
          then [''reason='' @ icd_structuredReason d] else [])
        @ (if icd_operation d \<noteq> [] then [''op='' @ icd_operation d] else [])
        @ [''code='' @ icd_code d];
      status = (if isQuotaExceeded d then ''quota exceeded''
        else if isUnsupportedConfiguration d then ''unsupported configuration'' else ''unavailable'')
    in InsufficientCapacityError (Errorf ''%s %s/%s %s %s (%s): %s''
        [instanceType, capacityType, zone, status, showd ttl, join '', '' gceDetails, icd_message d] []))"

definition markInsufficientCapacity ::
  "(duration \<Rightarrow> string) \<Rightarrow> duration option \<Rightarrow> instant \<Rightarrow> string \<Rightarrow> string \<Rightarrow> string \<Rightarrow>
   insufficientCapacityDetails \<Rightarrow> uo_state \<Rightarrow> go_error \<times> uo_state" where
  "markInsufficientCapacity showd opts now instanceType zone capacityType d u = (let
      d = (if icd_message d = [] then d\<lparr>icd_message := ''insufficient capacity''\<rparr> else d);
      ttl = insufficientCapacityBackoffTTL opts d
    in (newInsufficientCapacityError showd instanceType zone capacityType ttl d,
        MarkUnavailableWithTTL now instanceType zone capacityType ttl u))"

definition offering_CapacityType :: "(int \<Rightarrow> int) \<Rightarrow> offering \<Rightarrow> string" where
  "offering_CapacityType rnd f = req_any rnd (reqs_get (of_requirements f) CapacityTypeLabelKey)"

definition offering_Zone :: "(int \<Rightarrow> int) \<Rightarrow> offering \<Rightarrow> string" where
  "offering_Zone rnd f = req_any rnd (reqs_get (of_requirements f) LabelTopologyZone)"

definition markQuotaExceeded ::
  "(int \<Rightarrow> int) \<Rightarrow> (duration \<Rightarrow> string) \<Rightarrow> duration option \<Rightarrow> instant \<Rightarrow> instance_type \<Rightarrow> string \<Rightarrow> string \<Rightarrow>
   insufficientCapacityDetails \<Rightarrow> uo_state \<Rightarrow> go_error \<times> uo_state" where
  "markQuotaExceeded rnd showd opts now it zone capacityType d u = (let
      (err, u) = markInsufficientCapacity showd opts now (it_name it) zone capacityType d u;
      ttl = quotaExceededTTL opts;
      others = filter (\<lambda>f. \<not> (offering_CapacityType rnd f \<noteq> capacityType \<or> offering_Zone rnd f = [] \<or> offering_Zone rnd f = zone))
        (it_offerings it)
    in (err, foldl (\<lambda>u f. MarkUnavailableWithTTL now (it_name it) (offering_Zone rnd f) capacityType ttl u) u others))"

definition handleResourceNotReadyError :: "go_error \<Rightarrow> bool \<Rightarrow> bool \<times> go_error" where
  "handleResourceNotReadyError err retryable = (if isResourceNotReadyError err
     then (False, CreateError err ''ResourceNotReady'' ''A resource the instance references is not ready'')
     else (retryable, err))"

subsection \<open>Waiting for a zone operation\<close>

text \<open>The Compute API as the loop sees it: \<open>get\<close> polls the operation and advances the world, \<open>ctx_err\<close> is
  \<^verbatim>\<open>waitCtx.Err()\<close> right after a failed poll.\<close>

fun waitOperationDone ::
  "(string \<Rightarrow> string \<Rightarrow> 'w \<Rightarrow> (go_error + operation) \<times> 'w) \<Rightarrow> ('w \<Rightarrow> go_error option) \<Rightarrow>
   string \<Rightarrow> string \<Rightarrow> nat \<Rightarrow> 'w \<Rightarrow> go_error option \<times> 'w" where
  "waitOperationDone get ctx_err zone name ticks w = (case get zone name w of
      (Inl err, w) \<Rightarrow> (case ctx_err w of
          Some ce \<Rightarrow> (Some (Errorf ''waiting for operation %s: %w'' [name] [ce]), w)
        | None \<Rightarrow> if isTransientError err then
            (case ticks of 0 \<Rightarrow> (Some (Errorf ''waiting for operation %s: %w'' [name] [ContextError ''deadline exceeded'']), w)
             | Suc n \<Rightarrow> waitOperationDone get ctx_err zone name n w)
          else (Some (Errorf ''getting operation: %w'' [] [err]), w))
    | (Inr opn, w) \<Rightarrow> if op_Status opn = ''DONE''
        then ((if op_Error opn \<noteq> None then Some (handleZoneOperationError opn) else None), w)
        else (case ticks of 0 \<Rightarrow> (Some (Errorf ''waiting for operation %s: %w'' [name] [ContextError ''deadline exceeded'']), w)
          | Suc n \<Rightarrow> waitOperationDone get ctx_err zone name n w))"

declare waitOperationDone.simps [simp del]

subsection \<open>Lemmas\<close>

lemma apply_detail_code [simp]:
  "icd_code (apply_detail d x) = icd_code d" "icd_operation (apply_detail d x) = icd_operation d"
  "icd_message d \<noteq> [] \<Longrightarrow> icd_message (apply_detail d x) \<noteq> []"
  by (cases x; simp add: Let_def split: option.splits)+

lemma foldl_apply_detail [simp]:
  "icd_code (foldl apply_detail d xs) = icd_code d" "icd_operation (foldl apply_detail d xs) = icd_operation d"
  by (induction xs arbitrary: d) simp_all

lemma capacity_code_nonempty: "capacity_code c \<Longrightarrow> c \<noteq> []"
  by (auto simp: capacity_code_def InsufficientCapacityErrorCodes_def quotaExceededCode_def)

lemma find_SomeD: "List.find P xs = Some x \<Longrightarrow> P x \<and> x \<in> set xs"
  by (induction xs) (auto split: if_splits)

lemma insert_item_details_Some:
  "insert_item_details items = Some d \<Longrightarrow> capacity_code (icd_code d) \<and> icd_message d \<noteq> [] \<and> icd_operation d = []"
  by (induction items) (auto simp: Let_def quotaExceededReason_def dest: capacity_code_nonempty split: if_splits)

lemma operation_details_Some:
  assumes "extractOperationInsufficientCapacityDetails (Some opn) = Some d"
  shows "capacity_code (icd_code d) \<and> icd_message d \<noteq> [] \<and> icd_operation d = op_Name opn
    \<and> (\<exists>es e. op_Error opn = Some es \<and> e \<in> set es \<and> icd_code d = oe_Code e)"
proof -
  obtain es e where es: "op_Error opn = Some es" and e: "List.find (\<lambda>e. isInsufficientCapacityError (Some e)) es = Some e"
    using assms by (auto simp: extractOperationInsufficientCapacityDetails_def split: option.splits)
  define d0 where "d0 = foldl apply_detail \<lparr>icd_code = oe_Code e, icd_structuredReason = [], icd_message = oe_Message e,
                  icd_operation = op_Name opn\<rparr> (oe_ErrorDetails e)"
  have d: "d = (if icd_message d0 = [] then d0\<lparr>icd_message := icd_code d0\<rparr> else d0)"
    using assms es e unfolding extractOperationInsufficientCapacityDetails_def d0_def [symmetric]
    by (auto simp: Let_def d0_def)
  have code: "icd_code d0 = oe_Code e" "icd_operation d0 = op_Name opn" by (simp_all add: d0_def)
  have "capacity_code (oe_Code e)" "e \<in> set es"
    using find_SomeD [OF e] by (simp_all add: isInsufficientCapacityError_def)
  with d code es show ?thesis using capacity_code_nonempty by auto
qed

lemma IsUnavailable_marks:
  assumes "0 < now" "0 < ttl"
    and "CHR '':'' \<notin> set ct" "CHR '':'' \<notin> set ct'" "CHR '':'' \<notin> set it" "CHR '':'' \<notin> set it'"
  shows "IsUnavailable t it' z' ct' (foldl (\<lambda>u z. MarkUnavailableWithTTL now it z ct ttl u) u zs) \<longleftrightarrow>
    (if it' = it \<and> ct' = ct \<and> z' \<in> set zs then t \<le> now + ttl else IsUnavailable t it' z' ct' u)"
proof (induction zs rule: rev_induct)
  case (snoc z zs)
  let ?u = "foldl (\<lambda>u z. MarkUnavailableWithTTL now it z ct ttl u) u zs"
  show ?case
  proof (cases "it' = it \<and> z' = z \<and> ct' = ct")
    case True
    with IsUnavailable_mark_same [OF assms(1,2), of t it z ct ?u] show ?thesis by simp
  next
    case False
    then have "uo_key it z ct \<noteq> uo_key it' z' ct'"
      using uo_key_inj [OF assms(3-6), of z z'] by auto
    from IsUnavailable_mark_other [OF this] snoc False show ?thesis by auto
  qed
qed simp

subsection \<open>Properties\<close>



text \<open>A quota failure takes the machine type out of the whole region: with a positive quota backoff it becomes
  unavailable in the zone that failed and in every other zone it is offered in with that capacity
  type, until the backoff ends, and no other offering changes.\<close>

theorem markQuotaExceeded_region:
  assumes "0 < now" "opts = Some ttl" "0 < ttl" "isQuotaExceeded d"
    and "CHR '':'' \<notin> set ct" "CHR '':'' \<notin> set ct'" "CHR '':'' \<notin> set (it_name it)" "CHR '':'' \<notin> set it'"
  shows "IsUnavailable t it' z' ct' (snd (markQuotaExceeded rnd showd opts now it zone ct d u)) \<longleftrightarrow>
    (if it' = it_name it \<and> ct' = ct \<and> (z' = zone \<or> z' \<noteq> [] \<and>
        (\<exists>f \<in> set (it_offerings it). offering_CapacityType rnd f = ct \<and> offering_Zone rnd f = z'))
     then t \<le> now + ttl else IsUnavailable t it' z' ct' u)"
proof -
  let ?keep = "\<lambda>f. \<not> (offering_CapacityType rnd f \<noteq> ct \<or> offering_Zone rnd f = [] \<or> offering_Zone rnd f = zone)"
  let ?zs = "zone # map (offering_Zone rnd) (filter ?keep (it_offerings it))"
  have q: "isQuotaExceeded (d\<lparr>icd_message := m\<rparr>)" for m using assms(4) by (simp add: isQuotaExceeded_def)
  have "snd (markQuotaExceeded rnd showd opts now it zone ct d u) =
      foldl (\<lambda>u z. MarkUnavailableWithTTL now (it_name it) z ct ttl u) u ?zs"
    using assms(2,4) q
    by (simp add: markQuotaExceeded_def markInsufficientCapacity_def insufficientCapacityBackoffTTL_def
        quotaExceededTTL_def Let_def foldl_map)
  moreover have "z' \<in> set ?zs \<longleftrightarrow> z' = zone \<or> z' \<noteq> [] \<and>
      (\<exists>f \<in> set (it_offerings it). offering_CapacityType rnd f = ct \<and> offering_Zone rnd f = z')"
    by auto
  ultimately show ?thesis
    using IsUnavailable_marks [OF assms(1,3,5-8), of t z' u ?zs] by simp
qed

definition example_offering :: "string \<Rightarrow> string \<Rightarrow> rat \<Rightarrow> offering" where
  "example_offering zone ct price = \<lparr>of_requirements = NewRequirements
     [NewRequirement LabelTopologyZone OpIn [zone], NewRequirement CapacityTypeLabelKey OpIn [ct]],
     of_price = price, of_available = True\<rparr>"

definition example_type :: instance_type where
  "example_type = \<lparr>it_name = ''n2-standard-4'', it_requirements = NewRequirements
     [NewRequirement LabelInstanceLocalSsdCount OpIn [''0'']],
     it_offerings = [example_offering ''us-a'' ''spot'' 1, example_offering ''us-b'' ''spot'' 2,
       example_offering ''us-c'' ''on-demand'' 4],
     it_capacity = [], it_kubeReserved = [], it_systemReserved = [], it_evictionThreshold = []\<rparr>"

lemma example_offering_sel [simp]:
  "offering_Zone rnd (example_offering z ct p) = z" "offering_CapacityType rnd (example_offering z ct p) = ct"
  by (simp_all add: offering_Zone_def offering_CapacityType_def example_offering_def NewRequirements_def
      reqs_add_def reqs_get_def normalize_key_def normalized_labels_def req_any_def req_operator_def req_len_def
      go_defs Let_def uniq_def)

theorem markQuotaExceeded_region_witness:
  "IsUnavailable 20 ''n2-standard-4'' ''us-b'' ''spot''
     (snd (markQuotaExceeded (\<lambda>_. 0) (\<lambda>_. []) (Some 100) 10 example_type ''us-a'' ''spot''
        (zero_details\<lparr>icd_code := ''QUOTA_EXCEEDED''\<rparr>) NewUnavailableOfferings))"
  by (subst markQuotaExceeded_region [of 10 "Some 100" 100])
    (simp_all add: isQuotaExceeded_def quotaExceededCode_def example_type_def)

text \<open>One more poll: the operation is still running, or the poll failed with a server error while the
  context is alive.\<close>

definition keeps_waiting ::
  "(string \<Rightarrow> string \<Rightarrow> 'w \<Rightarrow> (go_error + operation) \<times> 'w) \<Rightarrow> ('w \<Rightarrow> go_error option) \<Rightarrow>
   string \<Rightarrow> string \<Rightarrow> 'w \<Rightarrow> 'w \<Rightarrow> bool" where
  "keeps_waiting get ctx_err zone name w w' \<longleftrightarrow> (case get zone name w of
      (Inl err, v) \<Rightarrow> v = w' \<and> ctx_err v = None \<and> isTransientError err
    | (Inr opn, v) \<Rightarrow> v = w' \<and> op_Status opn \<noteq> ''DONE'')"

definition done_ok :: "(string \<Rightarrow> string \<Rightarrow> 'w \<Rightarrow> (go_error + operation) \<times> 'w) \<Rightarrow> string \<Rightarrow> string \<Rightarrow> 'w \<Rightarrow> 'w \<Rightarrow> bool" where
  "done_ok get zone name w w' \<longleftrightarrow> (case get zone name w of
      (Inl err, v) \<Rightarrow> False | (Inr opn, v) \<Rightarrow> v = w' \<and> op_Status opn = ''DONE'' \<and> op_Error opn = None)"

lemma waitOperationDone_stop:
  "\<not> keeps_waiting get ctx_err zone name w w1 \<Longrightarrow> w1 = snd (get zone name w) \<Longrightarrow>
   waitOperationDone get ctx_err zone name ticks w = (None, w'') \<longleftrightarrow> done_ok get zone name w w''"
  by (subst waitOperationDone.simps)
    (auto simp: keeps_waiting_def done_ok_def split: sum.splits option.splits prod.splits if_splits)

lemma waitOperationDone_continue:
  "keeps_waiting get ctx_err zone name w w1 \<Longrightarrow>
   waitOperationDone get ctx_err zone name ticks w = (None, w'') \<longleftrightarrow>
     (\<exists>n. ticks = Suc n \<and> waitOperationDone get ctx_err zone name n w1 = (None, w''))"
  by (subst waitOperationDone.simps)
    (auto simp: keeps_waiting_def split: sum.splits option.splits prod.splits nat.splits if_splits)

lemma keeps_waiting_not_done: "keeps_waiting get ctx_err zone name w w1 \<Longrightarrow> \<not> done_ok get zone name w w2"
  by (cases "get zone name w"; cases "fst (get zone name w)") (auto simp: keeps_waiting_def done_ok_def)

lemma keeps_waiting_det: "keeps_waiting get ctx_err zone name w w1 \<Longrightarrow> w1 = snd (get zone name w)"
  by (cases "get zone name w"; cases "fst (get zone name w)") (auto simp: keeps_waiting_def)

lemma ex_relpow_Suc:
  "(\<exists>k \<le> Suc n. \<exists>w'. (R ^^ k) w w' \<and> P w') \<longleftrightarrow> P w \<or> (\<exists>v. R w v \<and> (\<exists>k \<le> n. \<exists>w'. (R ^^ k) v w' \<and> P w'))"
  (is "?L \<longleftrightarrow> ?M")
proof
  assume ?L
  then obtain k w' where k: "k \<le> Suc n" "(R ^^ k) w w'" "P w'" by blast
  show ?M
  proof (cases k)
    case 0
    with k show ?thesis by simp
  next
    case (Suc j)
    with k(2) obtain v where "R w v" "(R ^^ j) v w'" by (blast dest: relpowp_Suc_D2)
    with Suc k show ?thesis by auto
  qed
next
  assume ?M
  then show ?L
  proof
    assume "P w"
    then show ?L by (intro exI [of _ 0]) auto
  next
    assume "\<exists>v. R w v \<and> (\<exists>k \<le> n. \<exists>w'. (R ^^ k) v w' \<and> P w')"
    then obtain v k w' where "R w v" "k \<le> n" "(R ^^ k) v w'" "P w'" by blast
    then show ?L by (intro exI [of _ "Suc k"]) (blast intro: relpowp_Suc_I2)
  qed
qed


end
