(* ===== verification/Instance_Launch.thy ===== *)
theory Instance_Launch
  imports Instance_Build Instance_Errors
begin

text \<open>
  Launching: \<^verbatim>\<open>Create\<close> of \<^verbatim>\<open>pkg/providers/instance/instance.go\<close> and what it calls, from adopting an earlier
  attempt's VM over ordering the candidates, choosing a zone and a pod range, to the insert call and the
  handling of its failure (also \<^verbatim>\<open>podrange.go\<close>). \<open>instance_deps\<close> is what the provider holds of others: the GKE, subnet,
  instance-type, template and version providers and the Compute service, each a function of one
  abstract state that stands for their state and for the cloud. \<open>launch_state\<close> adds the unavailable-offerings
  cache, the hash cache and a history of the insert calls and their outcomes that no code reads.
  Go's \<^verbatim>\<open>(value, error)\<close> results are sums; \<^verbatim>\<open>rand.Int\<close> is \<open>dep_random\<close>, an index below the length.
\<close>

record 's instance_deps =
  dep_now :: "'s \<Rightarrow> instant"
  dep_ticks :: "'s \<Rightarrow> nat" \<comment> \<open>ticks left before the deadline of the wait context\<close>
  dep_quotaTTL :: "duration option"
  dep_GetMachineType :: "string \<Rightarrow> 's \<Rightarrow> machine_type option"
  dep_ResolveClusterZones :: "'s \<Rightarrow> (go_error + string list) \<times> 's"
  dep_GetClusterConfig :: "'s \<Rightarrow> (go_error + cluster) \<times> 's"
  dep_InvalidateClusterConfig :: "'s \<Rightarrow> 's"
  dep_GetSourceTemplateMetadata :: "'s \<Rightarrow> (go_error + compute_metadata option) \<times> 's"
  dep_GetNetworkConfig :: "string \<Rightarrow> string \<Rightarrow> 's \<Rightarrow> (go_error + string \<times> string) \<times> 's"
  dep_GetFreeIPCounts :: "string \<Rightarrow> string \<Rightarrow> 's \<Rightarrow> (go_error + (string, int) gomap) \<times> 's"
  dep_SubnetInvalidate :: "string \<Rightarrow> string \<Rightarrow> 's \<Rightarrow> 's"
  dep_Insert :: "string \<Rightarrow> compute_instance \<Rightarrow> 's \<Rightarrow> (go_error + operation) \<times> 's"
  dep_InstancesGet :: "string \<Rightarrow> string \<Rightarrow> 's \<Rightarrow> (go_error + compute_instance) \<times> 's"
  dep_OperationsGet :: "string \<Rightarrow> string \<Rightarrow> 's \<Rightarrow> (go_error + operation) \<times> 's"
  dep_ctxErr :: "'s \<Rightarrow> go_error option"
  dep_AggregatedList :: "string \<Rightarrow> 's \<Rightarrow> (go_error + (string, compute_instance list) gomap list) \<times> 's" \<comment> \<open>pages\<close>
  dep_random :: "nat \<Rightarrow> 's \<Rightarrow> nat \<times> 's"
  dep_parseTime :: "string \<Rightarrow> instant option" \<comment> \<open>\<^verbatim>\<open>time.Parse(RFC3339)\<close>\<close>
  dep_boot :: "'s boot_api"

datatype launch_event = Inserted string string bool \<comment> \<open>zone, instance name, whether it succeeded\<close>

record 's launch_state =
  ls_ext :: 's
  ls_uo :: uo_state
  ls_hashes :: labels
  ls_history :: "launch_event list"

subsection \<open>Instances that exist already\<close>

definition resolveCapacityType :: "scheduling option \<Rightarrow> string" where
  "resolveCapacityType sched = (case sched of Some sc \<Rightarrow> if sc_ProvisioningModel sc = ''SPOT'' then CapacityTypeSpot else CapacityTypeOnDemand
     | None \<Rightarrow> CapacityTypeOnDemand)"

definition resolveInstanceImage :: "compute_instance \<Rightarrow> string" where
  "resolveInstanceImage i = (case List.find ad_Boot (ci_Disks i) of None \<Rightarrow> []
     | Some d \<Rightarrow> (case ad_InitializeParams d of None \<Rightarrow> [] | Some p \<Rightarrow> dp_SourceImage p))"

definition lastPathSegment :: "string \<Rightarrow> string" where
  "lastPathSegment v = last (split_on CHR ''/'' v)"

definition parseCreationTime :: "'s instance_deps \<Rightarrow> string \<Rightarrow> 's \<Rightarrow> instant" where
  "parseCreationTime d ts s = (case dep_parseTime d ts of Some t \<Rightarrow> t | None \<Rightarrow> dep_now d s)"

definition instanceName_of :: "NodeClaim \<Rightarrow> string" where
  "instanceName_of claim = ''karpenter-'' @ ncm_Name claim"

definition isInstanceExists ::
  "'s instance_deps \<Rightarrow> string \<Rightarrow> string \<Rightarrow> 's \<Rightarrow> (go_error + compute_instance option) \<times> 's" where
  "isInstanceExists d zone name s = (case dep_InstancesGet d zone name s of
      (Inr i, s) \<Rightarrow> (Inr (Some i), s)
    | (Inl err, s) \<Rightarrow> if isInstanceNotFoundError err then (Inr None, s)
        else (Inl (Errorf ''failed to get instance: %w'' [] [err]), s))"

text \<open>The page callback: the last page with an instance in a zone of the region decides, with the first instance
  of the first such zone.\<close>

definition page_instance :: "string \<Rightarrow> (string, compute_instance list) gomap \<Rightarrow> compute_instance option" where
  "page_instance regionPrefix page = (case concat (map snd (filter (\<lambda>(z, is). has_prefix z regionPrefix) page)) of
     i # _ \<Rightarrow> Some i | [] \<Rightarrow> None)"

definition findInstanceByNodeClaim ::
  "build_env \<Rightarrow> 's instance_deps \<Rightarrow> NodeClaim \<Rightarrow> 's \<Rightarrow> (go_error + compute_instance option) \<times> 's" where
  "findInstanceByNodeClaim e d claim s = (case dep_AggregatedList d (instanceName_of claim) s of
      (Inl err, s) \<Rightarrow> (Inl err, s)
    | (Inr pages, s) \<Rightarrow> (Inr (foldl (\<lambda>acc p. or_else (page_instance (''zones/'' @ be_region e @ ''-'') p) acc) None pages), s))"

definition adoptExistingInstance :: "build_env \<Rightarrow> 's instance_deps \<Rightarrow> 's \<Rightarrow> compute_instance \<Rightarrow> string \<Rightarrow> Instance" where
  "adoptExistingInstance e d s i capacityType = \<lparr>in_CapacityType = capacityType,
     in_CreationTime = parseCreationTime d (ci_CreationTimestamp i) s, in_ImageID = resolveInstanceImage i,
     in_InstanceID = ci_Name i, in_Labels = ci_Labels i, in_Location = lastPathSegment (ci_Zone i), in_Name = ci_Name i,
     in_ProjectID = be_projectID e, in_Status = ci_Status i, in_Tags = ci_Labels i,
     in_Type = lastPathSegment (ci_MachineType i)\<rparr>"

definition Adopt :: "build_env \<Rightarrow> 's instance_deps \<Rightarrow> NodeClaim \<Rightarrow> 's \<Rightarrow> (go_error + Instance option) \<times> 's" where
  "Adopt e d claim s = (case findInstanceByNodeClaim e d claim s of
      (Inl err, s) \<Rightarrow> (Inl err, s)
    | (Inr None, s) \<Rightarrow> (Inr None, s)
    | (Inr (Some i), s) \<Rightarrow> (Inr (Some (adoptExistingInstance e d s i (resolveCapacityType (ci_Scheduling i)))), s))"

subsection \<open>Ordering and filtering the candidates\<close>

definition claim_reqs :: "NodeClaim \<Rightarrow> requirements" where
  "claim_reqs claim = NewNodeSelectorRequirementsWithMinValues (ncm_Requirements claim)"

definition resolveCreateSSDCount :: "instance_type \<Rightarrow> go_error + int" where
  "resolveCreateSSDCount it = (let req = reqs_get (it_requirements it) LabelInstanceLocalSsdCount in
     if req_operator req \<noteq> OpIn \<or> req_len req \<noteq> 1 then
       Inl (Errorf ''instance type %s has no single-valued %s requirement; every variant must pin exactly one count''
         [it_name it, LabelInstanceLocalSsdCount] [])
     else (case atoi (hd (req_values req)) of
         Some n \<Rightarrow> if n < 0 then Inl (Errorf ''instance type %s %s value %q is not a non-negative integer; every variant must pin an integer count''
             [it_name it, LabelInstanceLocalSsdCount, hd (req_values req)] []) else Inr n
       | None \<Rightarrow> Inl (Errorf ''instance type %s %s value %q is not a non-negative integer; every variant must pin an integer count''
             [it_name it, LabelInstanceLocalSsdCount, hd (req_values req)] [])))"

definition variantSSDCount :: "instance_type \<Rightarrow> int" where
  "variantSSDCount it = (case resolveCreateSSDCount it of Inr n \<Rightarrow> n | Inl _ \<Rightarrow> 0)"

definition MaxFloat64 :: rat where "MaxFloat64 = of_int ((2 ^ 53 - 1) * 2 ^ 971)"

definition launch_price :: "(string \<Rightarrow> bool) \<Rightarrow> requirements \<Rightarrow> instance_type \<Rightarrow> rat" where
  "launch_price wk reqs it = (case offerings_cheapest (offerings_compatible wk (offerings_available (it_offerings it)) reqs) of
     Some f \<Rightarrow> of_price f | None \<Rightarrow> MaxFloat64)"

definition cheaper :: "(string \<Rightarrow> bool) \<Rightarrow> requirements \<Rightarrow> instance_type \<Rightarrow> instance_type \<Rightarrow> bool" where
  "cheaper wk reqs a b = (let p = launch_price wk reqs a; q = launch_price wk reqs b in
     if p \<noteq> q then p < q else if it_name a \<noteq> it_name b then it_name a < it_name b
     else variantSSDCount a < variantSSDCount b)"

definition orderInstanceTypesByPrice :: "(string \<Rightarrow> bool) \<Rightarrow> instance_type list \<Rightarrow> requirements \<Rightarrow> instance_type list" where
  "orderInstanceTypesByPrice wk its reqs = sort_slice (cheaper wk reqs) its"

text \<open>\<^verbatim>\<open>requestedLocalSSDCount\<close>: the exact count, if one is asked for, and whether to default to no SSD.\<close>

definition requestedLocalSSDCount :: "NodeClaim \<Rightarrow> int \<times> bool \<times> bool" where
  "requestedLocalSSDCount claim = (case map_get (claim_reqs claim) LabelInstanceLocalSsdCount of
      None \<Rightarrow> (0, True, False)
    | Some r \<Rightarrow> if req_operator r \<noteq> OpIn \<or> req_len r \<noteq> 1 then (0, False, False)
        else (case atoi (hd (req_values r)) of Some n \<Rightarrow> (n, False, n \<ge> 0) | None \<Rightarrow> (0, False, False)))"

definition launch_allowed :: "NodeClaim \<Rightarrow> instance_type \<Rightarrow> bool" where
  "launch_allowed claim it = (let (exact, defaultZero, hasExact) = requestedLocalSSDCount claim in
     if \<not> FamilySupportsConfigurableLocalSSDs (it_name it) then True
     else (case resolveCreateSSDCount it of Inl _ \<Rightarrow> True
       | Inr n \<Rightarrow> (defaultZero \<and> n = 0) \<or> (hasExact \<and> n = exact)))"

definition instanceTypesForLaunch :: "NodeClaim \<Rightarrow> instance_type list \<Rightarrow> instance_type list \<times> bool" where
  "instanceTypesForLaunch claim its = (filter (launch_allowed claim) its, list_ex (\<lambda>it. \<not> launch_allowed claim it) its)"

definition validateLaunchInstanceTypes :: "instance_type list \<Rightarrow> bool \<Rightarrow> go_error + instance_type list" where
  "validateLaunchInstanceTypes its rejectedConfigurable = (if its \<noteq> [] then Inr its
     else if rejectedConfigurable then Inl (InsufficientCapacityError (Errorf
       ''configurable local SSD launches require %s to resolve to one exact count, or to be absent with a count=0 variant that fits the request''
       [LabelInstanceLocalSsdCount] []))
     else Inl (Errorf ''no instance types remained after applying launch requirements'' [] []))"

subsection \<open>Capacity type and zone\<close>

definition hasAvailableOffering :: "(string \<Rightarrow> bool) \<Rightarrow> NodeClaim \<Rightarrow> instance_type list \<Rightarrow> string \<Rightarrow> bool" where
  "hasAvailableOffering wk claim its capacityType = (let reqs = claim_reqs claim in
     if \<not> req_has (reqs_get reqs CapacityTypeLabelKey) capacityType then False
     else (let reqs = map_set CapacityTypeLabelKey (NewRequirement CapacityTypeLabelKey OpIn [capacityType]) reqs in
       list_ex (\<lambda>it. list_ex (\<lambda>f. reqs_compatible wk reqs (of_requirements f)) (offerings_available (it_offerings it))) its))"

definition getCapacityType :: "(string \<Rightarrow> bool) \<Rightarrow> NodeClaim \<Rightarrow> instance_type list \<Rightarrow> string" where
  "getCapacityType wk claim its = (if hasAvailableOffering wk claim its CapacityTypeSpot then CapacityTypeSpot else CapacityTypeOnDemand)"

definition requestedZones :: "requirements \<Rightarrow> string list" where
  "requestedZones reqs = sort_strings (req_values (reqs_get reqs LabelTopologyZone))"

definition filterZonesByRequirement :: "string list \<Rightarrow> requirements \<Rightarrow> string list" where
  "filterZonesByRequirement zones reqs = (let requested = requestedZones reqs in
     if requested = [] then zones else sort_strings (uniq (filter (\<lambda>z. z \<in> set requested) zones)))"

fun cheapest_zone_loop :: "(int \<Rightarrow> int) \<Rightarrow> (string \<Rightarrow> bool) \<Rightarrow> string list \<Rightarrow> requirements \<Rightarrow> string \<Rightarrow> rat \<Rightarrow> offering list \<Rightarrow> string" where
  "cheapest_zone_loop rnd wk zones reqs best price [] = best"
| "cheapest_zone_loop rnd wk zones reqs best price (f # fs) = (if \<not> reqs_compatible wk reqs (of_requirements f)
       \<or> offering_Zone rnd f \<notin> set zones \<or> \<not> of_price f < price
     then cheapest_zone_loop rnd wk zones reqs best price fs
     else cheapest_zone_loop rnd wk zones reqs (offering_Zone rnd f) (of_price f) fs)"

definition cheapestCompatibleZone :: "(int \<Rightarrow> int) \<Rightarrow> (string \<Rightarrow> bool) \<Rightarrow> string list \<Rightarrow> requirements \<Rightarrow> offering list \<Rightarrow> string" where
  "cheapestCompatibleZone rnd wk zones reqs fs = cheapest_zone_loop rnd wk zones reqs [] MaxFloat64 fs"

definition selectZone ::
  "build_env \<Rightarrow> 's instance_deps \<Rightarrow> NodeClaim \<Rightarrow> instance_type \<Rightarrow> string \<Rightarrow> 's launch_state \<Rightarrow> (go_error + string) \<times> 's launch_state" where
  "selectZone e d claim it capacityType st = (case dep_ResolveClusterZones d (ls_ext st) of
      (Inl err, s) \<Rightarrow> (Inl err, st\<lparr>ls_ext := s\<rparr>)
    | (Inr configured, s) \<Rightarrow> (let
        st = st\<lparr>ls_ext := s\<rparr>;
        reqs = claim_reqs claim;
        zones = filterZonesByRequirement configured reqs;
        live = filter (\<lambda>z. \<not> IsUnavailable (dep_now d s) (it_name it) z capacityType (ls_uo st)) zones
      in if zones = [] then
           (Inl (Errorf ''no zones match topology requirement %q; requested zones %s, configured GKE cluster locations %s''
             [LabelTopologyZone, join '','' (requestedZones reqs), join '','' configured] []), st)
         else if live = [] then
           (Inl (InsufficientCapacityError (Errorf ''all zones exhausted for instance type %s'' [it_name it] [])), st)
         else if capacityType = CapacityTypeOnDemand then
           (case dep_random d (length live) s of (k, s) \<Rightarrow> (Inr (live ! k), st\<lparr>ls_ext := s\<rparr>))
         else (Inr (cheapestCompatibleZone (be_rnd e) (be_wellKnown e) live reqs (it_offerings it)), st)))"

subsection \<open>Pod ranges\<close>

definition range_before :: "(string, int) gomap \<Rightarrow> string \<Rightarrow> string \<Rightarrow> bool" where
  "range_before freeIPs a b = (case (map_get freeIPs a, map_get freeIPs b) of
      (Some x, Some y) \<Rightarrow> x > y | (Some x, None) \<Rightarrow> True | (None, Some y) \<Rightarrow> False | (None, None) \<Rightarrow> False)"

definition rankPodRangeNames :: "string list \<Rightarrow> (string, int) gomap \<Rightarrow> string list" where
  "rankPodRangeNames names freeIPs = sort_slice (range_before freeIPs) names"

definition rejectedPodRangeMessage :: "string \<Rightarrow> string \<Rightarrow> bool" where
  "rejectedPodRangeMessage message rangeName = (let lower = to_lower message in
     contains_str lower ''aliasipranges'' \<and> contains_str lower ''subnetworkrangename'' \<and>
     (contains_str message ([CHR 0x27] @ rangeName @ [CHR 0x27]) \<or> contains_str message ([CHR 0x22] @ rangeName @ [CHR 0x22])) \<and>
     (contains_str lower ''not found'' \<or> contains_str lower ''not valid'' \<or> contains_str lower ''does not exist''))"

definition isRejectedPodRange :: "go_error \<Rightarrow> string \<Rightarrow> bool" where
  "isRejectedPodRange err rangeName = (if rangeName = [] then False else case errors_as as_googleapi err of None \<Rightarrow> False
     | Some (code, msg, items) \<Rightarrow> code = 400 \<and> list_ex (\<lambda>i. (ei_reason i = ''invalid'' \<or> ei_reason i = ''invalidParameter'') \<and>
         rejectedPodRangeMessage (ei_message i) rangeName) items)"

definition invalidatePodRangeCaches :: "'s instance_deps \<Rightarrow> compute_instance \<Rightarrow> bool \<Rightarrow> bool \<Rightarrow> 's \<Rightarrow> 's" where
  "invalidatePodRangeCaches d i discovery rejected s = (let
      s = (case ci_NetworkInterfaces i of [] \<Rightarrow> s | n # _ \<Rightarrow> dep_SubnetInvalidate d (ni_Network n) (ni_Subnetwork n) s)
    in if discovery \<and> rejected then dep_InvalidateClusterConfig d s else s)"

definition podRangeFreeIPs :: "'s instance_deps \<Rightarrow> GCENodeClass \<Rightarrow> 's \<Rightarrow> (string, int) gomap \<times> 's" where
  "podRangeFreeIPs d nc s = (case dep_GetClusterConfig d s of (Inl err, s) \<Rightarrow> ([], s)
    | (Inr cl, s) \<Rightarrow> if length (resolvedPodRangeNames nc cl) < 2 then ([], s)
        else (let (network, target) = PrimaryNetwork (Some nc) (Some cl) in
          if target = [] then ([], s)
          else (case dep_GetFreeIPCounts d network target s of (Inl err, s) \<Rightarrow> ([], s) | (Inr cts, s) \<Rightarrow> (cts, s))))"

subsection \<open>Creating one instance\<close>

text \<open>The outcome of one attempt: the instance and its zone, or whether to go on with other instance types and the
  error.\<close>

type_synonym attempt = "bool \<times> go_error + compute_instance \<times> string"

definition insert_and_wait ::
  "'s instance_deps \<Rightarrow> string \<Rightarrow> compute_instance \<Rightarrow> string \<Rightarrow> 's \<Rightarrow>
   (go_error option \<times> insufficientCapacityDetails option \<times> bool) \<times> 's" where
  "insert_and_wait d zone i rangeName s = (case dep_Insert d zone i s of
      (Inl err, s) \<Rightarrow> ((Some err, extractInsertInsufficientCapacityDetails err, isRejectedPodRange err rangeName), s)
    | (Inr opn, s) \<Rightarrow> (case waitOperationDone (dep_OperationsGet d) (dep_ctxErr d) zone (op_Name opn) (dep_ticks d s) s of
        (None, s) \<Rightarrow> ((None, None, False), s)
      | (Some err, s) \<Rightarrow> ((Some err, errors_as as_insufficient err, False), s)))"

text \<open>The failure of the last range that is tried.\<close>

definition give_up ::
  "build_env \<Rightarrow> 's instance_deps \<Rightarrow> instance_type \<Rightarrow> string \<Rightarrow> string \<Rightarrow> go_error \<Rightarrow> insufficientCapacityDetails option \<Rightarrow>
   bool \<Rightarrow> 's launch_state \<Rightarrow> (bool \<times> go_error) \<times> 's launch_state" where
  "give_up e d it zone capacityType err insufficient exhausted st = (let now = dep_now d (ls_ext st) in
     case insufficient of
       Some dt \<Rightarrow> if isQuotaExceeded dt then
           (case markQuotaExceeded (be_rnd e) (be_showDuration e) (dep_quotaTTL d) now it zone capacityType dt (ls_uo st) of
             (err, u) \<Rightarrow> (handleResourceNotReadyError err True, st\<lparr>ls_uo := u\<rparr>))
         else
           (case markInsufficientCapacity (be_showDuration e) (dep_quotaTTL d) now (it_name it) zone capacityType dt (ls_uo st) of
             (err, u) \<Rightarrow> (handleResourceNotReadyError err (\<not> exhausted), st\<lparr>ls_uo := u\<rparr>))
     | None \<Rightarrow> (handleResourceNotReadyError err True, st))"

fun try_ranges ::
  "build_env \<Rightarrow> 's instance_deps \<Rightarrow> NodeClaim \<Rightarrow> GCENodeClass \<Rightarrow> instance_type \<Rightarrow> compute_metadata option \<Rightarrow> cluster \<Rightarrow>
   string \<Rightarrow> string \<Rightarrow> string \<Rightarrow> machine_type option \<Rightarrow> int \<Rightarrow> bool \<Rightarrow> string list \<Rightarrow> 's launch_state \<Rightarrow> attempt \<times> 's launch_state" where
  "try_ranges e d claim nc it source cl zone name capacityType mt ssdCount discovered [] st =
     (Inl (True, Errorf ''no pod secondary ranges available'' [] []), st)"
| "try_ranges e d claim nc it source cl zone name capacityType mt ssdCount discovered (rangeName # ranges) st =
     (case buildInstance e (dep_boot d) (dep_GetNetworkConfig d) claim nc it source cl zone name capacityType mt ssdCount rangeName
          (ls_hashes st) (ls_ext st) of
        (Inl err, hashes, s) \<Rightarrow> (Inl (False, Errorf ''building instance %s: %w'' [name] [err]), st\<lparr>ls_hashes := hashes, ls_ext := s\<rparr>)
      | (Inr i, hashes, s) \<Rightarrow> (case insert_and_wait d zone i rangeName s of
          ((None, _, _), s) \<Rightarrow> (Inr (i, zone), st\<lparr>ls_hashes := hashes, ls_ext := s, ls_history := Inserted zone name True # ls_history st\<rparr>)
        | ((Some err, dt, rejected), s) \<Rightarrow> (let
            insufficient = (case dt of Some x \<Rightarrow> if isQuotaExceeded x \<and> quotaExceededTTL (dep_quotaTTL d) = 0 then None else Some x | None \<Rightarrow> None);
            exhausted = (case dt of Some x \<Rightarrow> isIPSpaceExhausted x | None \<Rightarrow> False);
            s = (if exhausted \<or> rejected then invalidatePodRangeCaches d i discovered rejected s else s);
            st = st\<lparr>ls_hashes := hashes, ls_ext := s, ls_history := Inserted zone name False # ls_history st\<rparr>
          in if exhausted \<and> ranges \<noteq> [] then
               try_ranges e d claim nc it source cl zone name capacityType mt ssdCount discovered ranges st
             else (case give_up e d it zone capacityType err insufficient exhausted st of (r, st) \<Rightarrow> (Inl r, st)))))"

definition createInstanceWithPodRanges ::
  "build_env \<Rightarrow> 's instance_deps \<Rightarrow> NodeClaim \<Rightarrow> GCENodeClass \<Rightarrow> instance_type \<Rightarrow> compute_metadata option \<Rightarrow> cluster \<Rightarrow>
   string \<Rightarrow> string \<Rightarrow> string \<Rightarrow> machine_type option \<Rightarrow> int \<Rightarrow> (string, int) gomap \<Rightarrow> 's launch_state \<Rightarrow> attempt \<times> 's launch_state" where
  "createInstanceWithPodRanges e d claim nc it source cl zone name capacityType mt ssdCount freeIPs st =
     try_ranges e d claim nc it source cl zone name capacityType mt ssdCount (PodSubnetRangeNames nc = [])
       (rankPodRangeNames (resolvedPodRangeNames nc cl) freeIPs) st"

fun find_existing ::
  "'s instance_deps \<Rightarrow> string \<Rightarrow> string list \<Rightarrow> 's \<Rightarrow> (go_error + (compute_instance \<times> string) option) \<times> 's" where
  "find_existing d name [] s = (Inr None, s)"
| "find_existing d name (candidate # zones) s = (case isInstanceExists d candidate name s of
      (Inl err, s) \<Rightarrow> (Inl (Errorf ''failed to check if instance exists: %w'' [] [err]), s)
    | (Inr (Some i), s) \<Rightarrow> (Inr (Some (i, candidate)), s)
    | (Inr None, s) \<Rightarrow> find_existing d name zones s)"

definition getOrCreateInstance ::
  "build_env \<Rightarrow> 's instance_deps \<Rightarrow> NodeClaim \<Rightarrow> GCENodeClass \<Rightarrow> instance_type \<Rightarrow> compute_metadata option \<Rightarrow> cluster \<Rightarrow>
   string \<Rightarrow> string \<Rightarrow> string list \<Rightarrow> machine_type option \<Rightarrow> int \<Rightarrow> (string, int) gomap \<Rightarrow> 's launch_state \<Rightarrow> attempt \<times> 's launch_state" where
  "getOrCreateInstance e d claim nc it source cl zone capacityType attemptedZones mt ssdCount freeIPs st =
    (case find_existing d (instanceName_of claim) (uniq (zone # attemptedZones)) (ls_ext st) of
       (Inl err, s) \<Rightarrow> (Inl (False, err), st\<lparr>ls_ext := s\<rparr>)
     | (Inr (Some (i, z)), s) \<Rightarrow> (Inr (i, z), st\<lparr>ls_ext := s\<rparr>)
     | (Inr None, s) \<Rightarrow> createInstanceWithPodRanges e d claim nc it source cl zone (instanceName_of claim) capacityType mt ssdCount freeIPs
         (st\<lparr>ls_ext := s\<rparr>))"

text \<open>\<^verbatim>\<open>tryCreateInstance\<close>: instance, zone, error; the zone is reported with errors too.\<close>

definition tryCreateInstance ::
  "build_env \<Rightarrow> 's instance_deps \<Rightarrow> GCENodeClass \<Rightarrow> NodeClaim \<Rightarrow> instance_type \<Rightarrow> string \<Rightarrow> string list \<Rightarrow> (string, int) gomap \<Rightarrow>
   's launch_state \<Rightarrow> ((go_error + compute_instance) \<times> string) \<times> 's launch_state" where
  "tryCreateInstance e d nc claim it capacityType attemptedZones freeIPs st = (let mt = dep_GetMachineType d (it_name it) (ls_ext st) in
     case resolveCreateSSDCount it of Inl err \<Rightarrow> ((Inl err, []), st)
     | Inr ssdCount \<Rightarrow> (case selectZone e d claim it capacityType st of
         (Inl err, st) \<Rightarrow> ((Inl (RetryableError err), []), st)
       | (Inr zone, st) \<Rightarrow> (case dep_GetSourceTemplateMetadata d (ls_ext st) of
           (Inl err, s) \<Rightarrow> ((Inl (RetryableError err), zone), st\<lparr>ls_ext := s\<rparr>)
         | (Inr source, s) \<Rightarrow> (case dep_GetClusterConfig d s of
             (Inl err, s) \<Rightarrow> ((Inl (RetryableError err), zone), st\<lparr>ls_ext := s\<rparr>)
           | (Inr cl, s) \<Rightarrow> (case getOrCreateInstance e d claim nc it source cl zone capacityType attemptedZones
                 mt ssdCount freeIPs (st\<lparr>ls_ext := s\<rparr>) of
               (Inl (retryable, err), st) \<Rightarrow> ((Inl (if retryable then RetryableError err else err), zone), st)
             | (Inr (i, effectiveZone), st) \<Rightarrow> ((Inr i, effectiveZone), st))))))"

definition created_Instance :: "build_env \<Rightarrow> 's instance_deps \<Rightarrow> 's \<Rightarrow> compute_instance \<Rightarrow> string \<Rightarrow> Instance" where
  "created_Instance e d s i zone = \<lparr>in_CapacityType = resolveCapacityType (ci_Scheduling i), in_CreationTime = dep_now d s,
     in_ImageID = resolveInstanceImage i, in_InstanceID = ci_Name i, in_Labels = ci_Labels i, in_Location = zone, in_Name = ci_Name i,
     in_ProjectID = be_projectID e, in_Status = InstanceStatusProvisioning, in_Tags = ci_Labels i,
     in_Type = lastPathSegment (ci_MachineType i)\<rparr>"

text \<open>The loop over the instance types. The result is a created instance, a final error, or the retryable errors;
  the attempted zones are threaded.\<close>

datatype creation = Created Instance | Failed go_error | Exhausted "go_error list"

fun create_loop ::
  "build_env \<Rightarrow> 's instance_deps \<Rightarrow> GCENodeClass \<Rightarrow> NodeClaim \<Rightarrow> string \<Rightarrow> (string, int) gomap \<Rightarrow> go_error list \<Rightarrow>
   instance_type list \<Rightarrow> string list \<Rightarrow> 's launch_state \<Rightarrow> creation \<times> string list \<times> 's launch_state" where
  "create_loop e d nc claim capacityType freeIPs errs [] attempted st = (Exhausted errs, attempted, st)"
| "create_loop e d nc claim capacityType freeIPs errs (it # its) attempted st =
    (case tryCreateInstance e d nc claim it capacityType attempted freeIPs st of ((res, zone), st) \<Rightarrow> (let
        attempted = (if zone \<noteq> [] \<and> zone \<notin> set attempted then attempted @ [zone] else attempted)
      in case res of
           Inr i \<Rightarrow> (Created (created_Instance e d (ls_ext st) i zone), attempted, st)
         | Inl err \<Rightarrow> (case errors_as as_retryable err of
             Some inner \<Rightarrow> create_loop e d nc claim capacityType freeIPs (errs @ [inner]) its attempted st
           | None \<Rightarrow> (Failed err, attempted, st))))"

definition createWithCapacityType ::
  "build_env \<Rightarrow> 's instance_deps \<Rightarrow> GCENodeClass \<Rightarrow> NodeClaim \<Rightarrow> instance_type list \<Rightarrow> string \<Rightarrow> string list \<Rightarrow> (string, int) gomap \<Rightarrow>
   's launch_state \<Rightarrow> creation \<times> string list \<times> 's launch_state" where
  "createWithCapacityType e d nc claim its capacityType attempted freeIPs st =
     create_loop e d nc claim capacityType freeIPs [] its attempted st"

definition fallBackToOnDemand ::
  "build_env \<Rightarrow> 's instance_deps \<Rightarrow> GCENodeClass \<Rightarrow> NodeClaim \<Rightarrow> instance_type list \<Rightarrow> requirements \<Rightarrow> go_error list \<Rightarrow> string list \<Rightarrow>
   (string, int) gomap \<Rightarrow> 's launch_state \<Rightarrow> creation \<times> 's launch_state" where
  "fallBackToOnDemand e d nc claim its reqs spotErrs attempted freeIPs st =
    (if spotErrs = [] \<or> \<not> list_all IsInsufficientCapacityError spotErrs \<or>
        \<not> hasAvailableOffering (be_wellKnown e) claim its CapacityTypeOnDemand
     then (Exhausted spotErrs, st)
     else (let
         reqs = map_set CapacityTypeLabelKey (NewRequirement CapacityTypeLabelKey OpIn [CapacityTypeOnDemand]) reqs;
         its = orderInstanceTypesByPrice (be_wellKnown e) its reqs
       in case createWithCapacityType e d nc claim its CapacityTypeOnDemand attempted freeIPs st of (c, _, st) \<Rightarrow> (c, st)))"

definition finish_create :: "creation \<Rightarrow> go_error + Instance" where
  "finish_create c = (case c of Created i \<Rightarrow> Inr i | Failed err \<Rightarrow> Inl err
     | Exhausted errs \<Rightarrow> if errs = [] then
          Inl (Errorf ''failed to create instance after trying all instance types: unknown error'' [] [])
        else Inl (Errorf ''failed to create instance after trying all instance types: %w'' [] [JoinError errs]))"

definition Create ::
  "build_env \<Rightarrow> 's instance_deps \<Rightarrow> GCENodeClass \<Rightarrow> NodeClaim \<Rightarrow> instance_type list \<Rightarrow> 's launch_state \<Rightarrow>
   (go_error + Instance) \<times> 's launch_state" where
  "Create e d nc claim its st = (if its = [] then (Inl (Errorf ''no instance types provided'' [] []), st) else (let
      wk = be_wellKnown e;
      reqs = claim_reqs claim;
      its = orderInstanceTypesByPrice wk its reqs;
      (launch, rejectedConfigurable) = instanceTypesForLaunch claim its;
      (adopted, s) = Adopt e d claim (ls_ext st);
      st = st\<lparr>ls_ext := s\<rparr>
    in case adopted of Inr (Some i) \<Rightarrow> (Inr i, st)
     | _ \<Rightarrow> (case validateLaunchInstanceTypes launch rejectedConfigurable of Inl err \<Rightarrow> (Inl err, st)
       | Inr launch \<Rightarrow> (let its = FilterInstanceTypes wk nc launch in
           if its = [] then (Inl (InsufficientCapacityError (Errorf
               ''no instance type is compatible with any image resolved for node class %s'' [ncl_Name nc] [])), st)
           else (let
               its = orderInstanceTypesByPrice wk its reqs;
               capacityType = getCapacityType wk claim its;
               (freeIPs, s) = podRangeFreeIPs d nc (ls_ext st);
               st = st\<lparr>ls_ext := s\<rparr>
             in case createWithCapacityType e d nc claim its capacityType [] freeIPs st of
                  (Exhausted errs, attempted, st) \<Rightarrow>
                    if capacityType = CapacityTypeSpot then
                      (case fallBackToOnDemand e d nc claim its reqs errs attempted freeIPs st of (c, st) \<Rightarrow> (finish_create c, st))
                    else (finish_create (Exhausted errs), st)
                | (c, _, st) \<Rightarrow> (finish_create c, st))))))"

end
