(* ===== verification/Launch_Choice.thy ===== *)
theory Launch_Choice
  imports Instance_Launch
begin

text \<open>
  What \<^verbatim>\<open>Create\<close> tries and in which order: the candidates by price, the zones that a request allows and that are not
  known to be exhausted, the cheapest zone for spot, the pod ranges by free addresses, and the
  local-SSD variant that a claim asks for.
\<close>

subsection \<open>Candidates by price\<close>

lemma weak_order_cheaper: "weak_order (cheaper wk reqs)"
  by (auto simp: weak_order_def cheaper_def Let_def split: if_splits)

text \<open>The candidates are tried in the order of the price of their cheapest available offering that the claim
  allows, those without one last; ties are broken by name and then by the number of local SSDs.
  Ordering neither loses nor duplicates a candidate.\<close>

theorem orderInstanceTypesByPrice_sorted:
  "mset (orderInstanceTypesByPrice wk its reqs) = mset its
   \<and> sorted_wrt (\<lambda>a b. launch_price wk reqs a < launch_price wk reqs b
        \<or> launch_price wk reqs a = launch_price wk reqs b
          \<and> (it_name a < it_name b \<or> it_name a = it_name b \<and> variantSSDCount a \<le> variantSSDCount b))
      (orderInstanceTypesByPrice wk its reqs)"
proof -
  have "sorted_wrt (\<lambda>a b. \<not> cheaper wk reqs b a) (orderInstanceTypesByPrice wk its reqs)"
    unfolding orderInstanceTypesByPrice_def by (rule sorted_sort_slice [OF weak_order_cheaper])
  then have "sorted_wrt (\<lambda>a b. launch_price wk reqs a < launch_price wk reqs b
        \<or> launch_price wk reqs a = launch_price wk reqs b
          \<and> (it_name a < it_name b \<or> it_name a = it_name b \<and> variantSSDCount a \<le> variantSSDCount b))
      (orderInstanceTypesByPrice wk its reqs)"
    by (rule sorted_wrt_mono_rel [rotated]) (auto simp: cheaper_def Let_def split: if_splits)
  then show ?thesis by (simp add: orderInstanceTypesByPrice_def)
qed

subsection \<open>Zones\<close>

lemma set_requestedZones [simp]: "set (requestedZones reqs) = set (req_values (reqs_get reqs LabelTopologyZone))"
  by (simp add: requestedZones_def)

lemma requestedZones_empty: "requestedZones reqs = [] \<longleftrightarrow> req_values (reqs_get reqs LabelTopologyZone) = []"
  by (metis set_empty set_requestedZones)

lemma set_filterZones: "set (filterZonesByRequirement zones reqs) =
   {z \<in> set zones. requestedZones reqs = [] \<or> z \<in> set (req_values (reqs_get reqs LabelTopologyZone))}"
  by (auto simp: filterZonesByRequirement_def Let_def)

definition live_zones :: "'s instance_deps \<Rightarrow> 's \<Rightarrow> uo_state \<Rightarrow> instance_type \<Rightarrow> string \<Rightarrow> string list \<Rightarrow> string list" where
  "live_zones d s u it ct zones = filter (\<lambda>z. \<not> IsUnavailable (dep_now d s) (it_name it) z ct u) zones"

lemma selectZone_resolved:
  assumes "dep_ResolveClusterZones d (ls_ext st) = (Inr configured, s)"
  shows "selectZone e d claim it ct st = (let
      zones = filterZonesByRequirement configured (claim_reqs claim);
      live = live_zones d s (ls_uo st) it ct zones;
      st = st\<lparr>ls_ext := s\<rparr>
    in if zones = [] then
         (Inl (Errorf ''no zones match topology requirement %q; requested zones %s, configured GKE cluster locations %s''
             [LabelTopologyZone, join '','' (requestedZones (claim_reqs claim)), join '','' configured] []), st)
       else if live = [] then (Inl (InsufficientCapacityError (Errorf ''all zones exhausted for instance type %s'' [it_name it] [])), st)
       else if ct = CapacityTypeOnDemand then
         (case dep_random d (length live) s of (k, s) \<Rightarrow> (Inr (live ! k), st\<lparr>ls_ext := s\<rparr>))
       else (Inr (cheapestCompatibleZone (be_rnd e) (be_wellKnown e) live (claim_reqs claim) (it_offerings it)), st))"
  using assms by (simp add: selectZone_def live_zones_def Let_def)

definition zone_candidate :: "(int \<Rightarrow> int) \<Rightarrow> (string \<Rightarrow> bool) \<Rightarrow> string list \<Rightarrow> requirements \<Rightarrow> offering \<Rightarrow> bool" where
  "zone_candidate rnd wk zones reqs f \<longleftrightarrow> reqs_compatible wk reqs (of_requirements f) \<and> offering_Zone rnd f \<in> set zones"

lemma cheapest_zone_loop_cases:
  "(\<exists>f \<in> set fs. zone_candidate rnd wk zones reqs f \<and> cheapest_zone_loop rnd wk zones reqs best price fs = offering_Zone rnd f
      \<and> of_price f < price \<and> (\<forall>h \<in> set fs. zone_candidate rnd wk zones reqs h \<longrightarrow> of_price f \<le> of_price h))
   \<or> (cheapest_zone_loop rnd wk zones reqs best price fs = best
      \<and> (\<forall>h \<in> set fs. zone_candidate rnd wk zones reqs h \<longrightarrow> price \<le> of_price h))"
proof (induction fs arbitrary: best price)
  case (Cons f fs)
  show ?case
  proof (cases "zone_candidate rnd wk zones reqs f \<and> of_price f < price")
    case False
    then have "cheapest_zone_loop rnd wk zones reqs best price (f # fs) = cheapest_zone_loop rnd wk zones reqs best price fs"
      "zone_candidate rnd wk zones reqs f \<longrightarrow> price \<le> of_price f" by (auto simp: zone_candidate_def)
    with Cons.IH [of best price] show ?thesis by fastforce
  next
    case True
    then have "cheapest_zone_loop rnd wk zones reqs best price (f # fs) = cheapest_zone_loop rnd wk zones reqs (offering_Zone rnd f) (of_price f) fs"
      by (auto simp: zone_candidate_def)
    with True Cons.IH [of "offering_Zone rnd f" "of_price f"] show ?thesis by fastforce
  qed
qed simp

text \<open>For spot the zone is that of a cheapest offering among those the claim allows in the given zones; no
  zone is returned exactly if there is no such offering (of a finite price).\<close>

theorem cheapestCompatibleZone_cheapest:
  assumes "[] \<notin> set zones"
  shows "if \<exists>f \<in> set fs. zone_candidate rnd wk zones reqs f \<and> of_price f < MaxFloat64
    then \<exists>f \<in> set fs. zone_candidate rnd wk zones reqs f \<and> cheapestCompatibleZone rnd wk zones reqs fs = offering_Zone rnd f
        \<and> (\<forall>h \<in> set fs. zone_candidate rnd wk zones reqs h \<longrightarrow> of_price f \<le> of_price h)
    else cheapestCompatibleZone rnd wk zones reqs fs = []"
proof -
  have "(\<exists>f \<in> set fs. zone_candidate rnd wk zones reqs f \<and> cheapestCompatibleZone rnd wk zones reqs fs = offering_Zone rnd f
      \<and> of_price f < MaxFloat64 \<and> (\<forall>h \<in> set fs. zone_candidate rnd wk zones reqs h \<longrightarrow> of_price f \<le> of_price h))
   \<or> (cheapestCompatibleZone rnd wk zones reqs fs = []
      \<and> (\<forall>h \<in> set fs. zone_candidate rnd wk zones reqs h \<longrightarrow> MaxFloat64 \<le> of_price h))"
    unfolding cheapestCompatibleZone_def by (rule cheapest_zone_loop_cases)
  then show ?thesis by fastforce
qed

lemma cheapestCompatibleZone_mem: "cheapestCompatibleZone rnd wk zones reqs fs \<in> insert [] (set zones)"
  using cheapest_zone_loop_cases [where best = "[]" and price = MaxFloat64 and fs = fs and zones = zones and rnd = rnd and wk = wk and reqs = reqs]
  unfolding cheapestCompatibleZone_def zone_candidate_def by auto

text \<open>A selected zone is one of those that are left after the filters.\<close>

lemma selectZone_live:
  assumes "dep_ResolveClusterZones d (ls_ext st) = (Inr configured, s)"
    and "\<And>n s. 0 < n \<Longrightarrow> fst (dep_random d n s) < n"
    and "fst (selectZone e d claim it ct st) = Inr z" "z \<noteq> []"
  shows "z \<in> set (live_zones d s (ls_uo st) it ct (filterZonesByRequirement configured (claim_reqs claim)))"
proof -
  let ?live = "live_zones d s (ls_uo st) it ct (filterZonesByRequirement configured (claim_reqs claim))"
  note sel = assms(3) [unfolded selectZone_resolved [OF assms(1)]]
  have "?live \<noteq> []" using sel by (auto simp: Let_def split: if_splits)
  with assms(2) [of "length ?live" s] show ?thesis
    using sel assms(4) cheapestCompatibleZone_mem [of "be_rnd e" "be_wellKnown e" ?live "claim_reqs claim" "it_offerings it"]
    by (auto simp: Let_def split: if_splits prod.splits)
qed


subsection \<open>A small cloud to evaluate the launch in\<close>

text \<open>Its state is the list of existing virtual machines, as zone and name.\<close>

type_synonym vm_list = "(string \<times> string) list"

definition example_deps :: "string list \<Rightarrow> vm_list instance_deps" where
  "example_deps zones = \<lparr>dep_now = (\<lambda>_. 10), dep_ticks = (\<lambda>_. 3), dep_quotaTTL = None, dep_GetMachineType = (\<lambda>_ _. None),
     dep_ResolveClusterZones = (\<lambda>s. (Inr zones, s)), dep_GetClusterConfig = (\<lambda>s. (Inr (example_cluster ''00ff''), s)),
     dep_InvalidateClusterConfig = (\<lambda>s. s), dep_GetSourceTemplateMetadata = (\<lambda>s. (Inr (Some example_source), s)),
     dep_GetNetworkConfig = (\<lambda>_ _ s. (Inr ([], []), s)), dep_GetFreeIPCounts = (\<lambda>_ _ s. (Inr [], s)),
     dep_SubnetInvalidate = (\<lambda>_ _ s. s),
     dep_Insert = (\<lambda>z i s. if z = [] then (Inl (GoogleApiError 400 [] []), s)
       else (Inr \<lparr>op_Name = ''op'', op_Status = ''RUNNING'', op_Error = None\<rparr>, (z, ci_Name i) # s)),
     dep_InstancesGet = (\<lambda>z n s. (if (z, n) \<in> set s then Inr (zero_instance\<lparr>ci_Name := n\<rparr>) else Inl (GoogleApiError 404 [] []), s)),
     dep_OperationsGet = (\<lambda>z n s. (Inr \<lparr>op_Name = n, op_Status = ''DONE'', op_Error = None\<rparr>, s)),
     dep_ctxErr = (\<lambda>_. None), dep_AggregatedList = (\<lambda>_ s. (Inr [], s)), dep_random = (\<lambda>_ s. (0, s)), dep_parseTime = (\<lambda>_. None),
     dep_boot = \<lparr>ba_version = (\<lambda>s. (Inr [], s)), ba_http = (\<lambda>u s. (Inr (200, ''h''), s))\<rparr>\<rparr>"

definition example_launch_state :: "vm_list launch_state" where
  "example_launch_state = \<lparr>ls_ext = [], ls_uo = NewUnavailableOfferings, ls_hashes = [], ls_history = []\<rparr>"

theorem cheapestCompatibleZone_cheapest_witness:
  "\<exists>f \<in> set [example_offering ''us-a'' ''spot'' 3, example_offering ''us-b'' ''spot'' 2].
     cheapestCompatibleZone (\<lambda>_. 0) (\<lambda>_. True) [''us-a'', ''us-b''] []
       [example_offering ''us-a'' ''spot'' 3, example_offering ''us-b'' ''spot'' 2] = offering_Zone (\<lambda>_. 0) f"
proof -
  let ?fs = "[example_offering ''us-a'' ''spot'' 3, example_offering ''us-b'' ''spot'' 2]"
  have ex: "list_ex (\<lambda>f. reqs_compatible (\<lambda>_. True) [] (of_requirements f) \<and> offering_Zone (\<lambda>_. 0) f \<in> set [''us-a'', ''us-b'']
      \<and> of_price f < MaxFloat64) ?fs" by code_simp
  have "\<exists>f \<in> set ?fs. zone_candidate (\<lambda>_. 0) (\<lambda>_. True) [''us-a'', ''us-b''] [] f \<and> of_price f < MaxFloat64"
    using ex unfolding list_ex_iff zone_candidate_def by blast
  with cheapestCompatibleZone_cheapest [of "[''us-a'', ''us-b'']" ?fs "\<lambda>_. 0" "\<lambda>_. True" "[]"] show ?thesis by auto
qed


subsection \<open>A zone requirement that excludes zones\<close>

text \<open>The zone filter reads only the values of the claim's zone requirement and not its operator. If a claim
  excludes zones (\<^verbatim>\<open>NotIn\<close>), the zone that is selected for an on-demand instance is one of the excluded ones.\<close>

theorem selectZone_ignores_operator:
  assumes "dep_ResolveClusterZones d (ls_ext st) = (Inr configured, s)"
    and "\<And>n s. 0 < n \<Longrightarrow> fst (dep_random d n s) < n"
    and "req_operator (reqs_get (claim_reqs claim) LabelTopologyZone) = OpNotIn"
    and "fst (selectZone e d claim it CapacityTypeOnDemand st) = Inr z"
  shows "z \<in> set (req_values (reqs_get (claim_reqs claim) LabelTopologyZone))
    \<and> \<not> req_has (reqs_get (claim_reqs claim) LabelTopologyZone) z"
proof -
  let ?r = "reqs_get (claim_reqs claim) LabelTopologyZone"
  let ?live = "live_zones d s (ls_uo st) it CapacityTypeOnDemand (filterZonesByRequirement configured (claim_reqs claim))"
  have r: "req_complement ?r" "req_values ?r \<noteq> []" using assms(3) by (auto simp: req_operator_NotIn)
  have ne: "?live \<noteq> []" using assms(4) by (auto simp: selectZone_resolved [OF assms(1)] Let_def split: if_splits)
  have "z \<in> set ?live"
    using assms(4) ne assms(2) [of "length ?live" s]
    by (auto simp: selectZone_resolved [OF assms(1)] Let_def split: if_splits prod.splits)
  then have "z \<in> set (req_values ?r)" using r by (auto simp: live_zones_def set_filterZones requestedZones_empty)
  with r show ?thesis by (simp add: req_has_def)
qed

definition excluding_claim :: NodeClaim where
  "excluding_claim = zero_nodeClaim\<lparr>ncm_Requirements :=
     [\<lparr>sr_key = LabelTopologyZone, sr_operator = OpNotIn, sr_values = [''us-b''], sr_minValues = None\<rparr>]\<rparr>"

theorem selectZone_ignores_operator_witness:
  "fst (selectZone example_build_env (example_deps [''us-a'', ''us-b'']) excluding_claim example_boot_type CapacityTypeOnDemand example_launch_state)
     = Inr ''us-b'' \<and> \<not> req_has (reqs_get (claim_reqs excluding_claim) LabelTopologyZone) ''us-b''"
proof -
  let ?d = "example_deps [''us-a'', ''us-b'']"
  have r: "fst (selectZone example_build_env ?d excluding_claim example_boot_type CapacityTypeOnDemand example_launch_state) = Inr ''us-b''"
    by code_simp
  have z: "dep_ResolveClusterZones ?d (ls_ext example_launch_state) = (Inr [''us-a'', ''us-b''], ls_ext example_launch_state)"
    by (simp add: example_deps_def)
  have o: "req_operator (reqs_get (claim_reqs excluding_claim) LabelTopologyZone) = OpNotIn" by code_simp
  from selectZone_ignores_operator [OF z _ o r] r show ?thesis by (simp add: example_deps_def)
qed

subsection \<open>Pod ranges and local SSD variants\<close>

lemma weak_order_range_before: "weak_order (range_before freeIPs)"
  by (auto simp: weak_order_def range_before_def split: option.splits)

text \<open>The pod ranges of a class are tried by descending number of free addresses, those of unknown size last, each of
  them once.\<close>

theorem rankPodRangeNames_sorted:
  "mset (rankPodRangeNames names freeIPs) = mset names
   \<and> sorted_wrt (\<lambda>a b. case (map_of freeIPs a, map_of freeIPs b) of
        (Some x, Some y) \<Rightarrow> y \<le> x | (None, Some y) \<Rightarrow> False | _ \<Rightarrow> True) (rankPodRangeNames names freeIPs)"
proof -
  have "sorted_wrt (\<lambda>a b. \<not> range_before freeIPs b a) (rankPodRangeNames names freeIPs)"
    unfolding rankPodRangeNames_def by (rule sorted_sort_slice [OF weak_order_range_before])
  then have "sorted_wrt (\<lambda>a b. case (map_of freeIPs a, map_of freeIPs b) of
        (Some x, Some y) \<Rightarrow> y \<le> x | (None, Some y) \<Rightarrow> False | _ \<Rightarrow> True) (rankPodRangeNames names freeIPs)"
    by (rule sorted_wrt_mono_rel [rotated]) (auto simp: range_before_def split: option.splits)
  then show ?thesis by (simp add: rankPodRangeNames_def)
qed

text \<open>Of the variants of a machine type with configurable local SSDs a launch considers only the one with the number of
  SSDs the claim asks for, and the one without SSDs if the claim does not mention them; if it
  mentions them without fixing the number, it considers none.\<close>

theorem launch_variant_exact:
  assumes "it \<in> set (fst (instanceTypesForLaunch claim its))"
    and "FamilySupportsConfigurableLocalSSDs (it_name it)" "resolveCreateSSDCount it = Inr n"
  shows "it \<in> set its \<and> (case map_of (claim_reqs claim) LabelInstanceLocalSsdCount of
       None \<Rightarrow> n = 0
     | Some r \<Rightarrow> req_operator r = OpIn \<and> (\<exists>v. req_values r = [v] \<and> atoi v = Some n))"
proof -
  have *: "launch_allowed claim it" "it \<in> set its" using assms(1) by (auto simp: instanceTypesForLaunch_def)
  show ?thesis
  proof (cases "map_of (claim_reqs claim) LabelInstanceLocalSsdCount")
    case None
    with * assms(2,3) show ?thesis by (simp add: launch_allowed_def requestedLocalSSDCount_def)
  next
    case (Some r)
    with *(1) assms(2,3) have "req_operator r = OpIn" "req_len r = 1" "atoi (hd (req_values r)) = Some n"
      by (auto simp: launch_allowed_def requestedLocalSSDCount_def split: if_splits option.splits)
    moreover from this(1,2) have "\<exists>v. req_values r = [v]"
      by (cases "req_values r") (auto simp: req_len_def req_operator_In)
    ultimately show ?thesis using Some *(2) by auto
  qed
qed

theorem launch_variant_exact_witness:
  "example_type \<in> set (fst (instanceTypesForLaunch zero_nodeClaim [example_type])) \<and> resolveCreateSSDCount example_type = Inr (0::int)"
proof -
  have mem: "example_type \<in> set (fst (instanceTypesForLaunch zero_nodeClaim [example_type]))"
  proof -
    have "launch_allowed zero_nodeClaim example_type" by code_simp
    then show ?thesis by (simp add: instanceTypesForLaunch_def)
  qed
  have fam: "FamilySupportsConfigurableLocalSSDs (it_name example_type)" by code_simp
  have r: "resolveCreateSSDCount example_type = Inr 0" by code_simp
  have "map_of (claim_reqs zero_nodeClaim) LabelInstanceLocalSsdCount = None" by code_simp
  with launch_variant_exact [OF mem fam r] mem r show ?thesis by simp
qed

text \<open>A launch that the local-SSD rule leaves without candidates fails for lack of capacity.\<close>

lemma validateLaunchInstanceTypes_capacity:
  "(\<exists>err. validateLaunchInstanceTypes (fst (instanceTypesForLaunch claim its)) (snd (instanceTypesForLaunch claim its)) = Inl err
      \<and> IsInsufficientCapacityError err) \<longleftrightarrow> its \<noteq> [] \<and> fst (instanceTypesForLaunch claim its) = []"
  by (cases its) (auto simp: validateLaunchInstanceTypes_def instanceTypesForLaunch_def filter_empty_conv)

end
