(* ===== verification/Launch_Safety.thy ===== *)
theory Launch_Safety
  imports Launch_Choice
begin

text \<open>
  What a whole \<^verbatim>\<open>Create\<close> does to the cloud: how many instances it starts, what it returns after a successful insert, and that
  it never leaves two virtual machines with the claim's name behind. The first part follows the history of
  inserts through the loops over pod ranges, instance types and capacity types; the second
  follows the set of virtual machines through the same loops.
\<close>

subsection \<open>The history of inserts\<close>

definition failed_only :: "string \<Rightarrow> launch_event list \<Rightarrow> bool" where
  "failed_only name evs \<longleftrightarrow> (\<forall>ev \<in> set evs. \<exists>z. ev = Inserted z name False)"

lemma failed_only_simps [simp]:
  "failed_only name []" "failed_only name (Inserted z n ok # evs) \<longleftrightarrow> n = name \<and> \<not> ok \<and> failed_only name evs"
  "failed_only name (evs @ evs') \<longleftrightarrow> failed_only name evs \<and> failed_only name evs'"
  by (auto simp: failed_only_def)

lemma give_up_history [simp]: "ls_history (snd (give_up e d it zone ct err dt ex st)) = ls_history st"
  by (auto simp: give_up_def Let_def split: option.splits prod.splits)

lemma give_up_ext [simp]: "ls_ext (snd (give_up e d it zone ct err dt ex st)) = ls_ext st"
  by (auto simp: give_up_def Let_def split: option.splits prod.splits)

lemma selectZone_history [simp]: "ls_history (snd (selectZone e d claim it ct st)) = ls_history st"
  by (auto simp: selectZone_def Let_def split: sum.splits prod.splits)

definition built_for :: "string \<Rightarrow> string \<Rightarrow> compute_instance \<Rightarrow> bool" where
  "built_for name ct i \<longleftrightarrow> ci_Name i = name
     \<and> resolveCapacityType (ci_Scheduling i) = (if ct = CapacityTypeSpot then CapacityTypeSpot else CapacityTypeOnDemand)"

lemma buildInstance_built_for:
  assumes "buildInstance e api gnc claim nc it source cl zone name ct mt n podRange hashes s = (Inr i, hashes', s')"
  shows "built_for name ct i"
proof -
  from buildInstance_cases [OF assms] obtain i0 where i0: "ci_Name i0 = name" "ci_Scheduling i0 = Some (setupScheduling ct nc)"
    and i: "i = finish_instance e claim (sorted_class nc) it (cl_Id cl) ct mt n i0" by metis
  from finish_scheduling [OF i0(2)] i0(1) show ?thesis
    unfolding i built_for_def by (simp add: resolveCapacityType_def setupScheduling_def zero_scheduling_def)
qed

text \<open>One instance type: either nothing succeeded, or the instance that is returned was inserted last.\<close>

definition attempt_history :: "string \<Rightarrow> string \<Rightarrow> string \<Rightarrow> attempt \<Rightarrow> launch_event list \<Rightarrow> bool" where
  "attempt_history zone name ct r evs \<longleftrightarrow> (case r of Inl _ \<Rightarrow> failed_only name evs
     | Inr (i, z) \<Rightarrow> z = zone \<and> built_for name ct i \<and> (\<exists>evs'. evs = Inserted zone name True # evs' \<and> failed_only name evs'))"

text \<open>The step of the loop after a failed insert.\<close>

definition still_insufficient :: "'s instance_deps \<Rightarrow> insufficientCapacityDetails option \<Rightarrow> insufficientCapacityDetails option" where
  "still_insufficient d dt = (case dt of Some x \<Rightarrow> if isQuotaExceeded x \<and> quotaExceededTTL (dep_quotaTTL d) = 0 then None else Some x | None \<Rightarrow> None)"

definition ip_exhausted :: "insufficientCapacityDetails option \<Rightarrow> bool" where
  "ip_exhausted dt = (case dt of Some x \<Rightarrow> isIPSpaceExhausted x | None \<Rightarrow> False)"

definition after_failure :: "'s instance_deps \<Rightarrow> string \<Rightarrow> string \<Rightarrow> compute_instance \<Rightarrow> bool \<Rightarrow> insufficientCapacityDetails option \<Rightarrow> bool \<Rightarrow>
    labels \<Rightarrow> 's \<Rightarrow> 's launch_state \<Rightarrow> 's launch_state" where
  "after_failure d zone name i disc dt rej hashes s st = st\<lparr>ls_hashes := hashes,
     ls_ext := (if ip_exhausted dt \<or> rej then invalidatePodRangeCaches d i disc rej s else s),
     ls_history := Inserted zone name False # ls_history st\<rparr>"

lemma after_failure_sel [simp]:
  "ls_history (after_failure d zone name i disc dt rej hashes s st) = Inserted zone name False # ls_history st"
  "ls_ext (after_failure d zone name i disc dt rej hashes s st) = (if ip_exhausted dt \<or> rej then invalidatePodRangeCaches d i disc rej s else s)"
  by (simp_all add: after_failure_def)

lemma try_ranges_step:
  obtains (unbuilt) err hashes s where
      "buildInstance e (dep_boot d) (dep_GetNetworkConfig d) claim nc it source cl zone name ct mt n rangeName (ls_hashes st) (ls_ext st) = (Inl err, hashes, s)"
      "try_ranges e d claim nc it source cl zone name ct mt n disc (rangeName # ranges) st =
        (Inl (False, Errorf ''building instance %s: %w'' [name] [err]), st\<lparr>ls_hashes := hashes, ls_ext := s\<rparr>)"
  | (inserted) i hashes s dt rej s' where
      "buildInstance e (dep_boot d) (dep_GetNetworkConfig d) claim nc it source cl zone name ct mt n rangeName (ls_hashes st) (ls_ext st) = (Inr i, hashes, s)"
      "insert_and_wait d zone i rangeName s = ((None, dt, rej), s')"
      "try_ranges e d claim nc it source cl zone name ct mt n disc (rangeName # ranges) st =
        (Inr (i, zone), st\<lparr>ls_hashes := hashes, ls_ext := s', ls_history := Inserted zone name True # ls_history st\<rparr>)"
  | (failed) i hashes s err dt rej s' where
      "buildInstance e (dep_boot d) (dep_GetNetworkConfig d) claim nc it source cl zone name ct mt n rangeName (ls_hashes st) (ls_ext st) = (Inr i, hashes, s)"
      "insert_and_wait d zone i rangeName s = ((Some err, dt, rej), s')"
      "try_ranges e d claim nc it source cl zone name ct mt n disc (rangeName # ranges) st = (let
          st = after_failure d zone name i disc dt rej hashes s' st
        in if ip_exhausted dt \<and> ranges \<noteq> [] then try_ranges e d claim nc it source cl zone name ct mt n disc ranges st
           else (case give_up e d it zone ct err (still_insufficient d dt) (ip_exhausted dt) st of (r, st) \<Rightarrow> (Inl r, st)))"
proof -
  obtain res hashes s where b: "buildInstance e (dep_boot d) (dep_GetNetworkConfig d) claim nc it source cl zone name ct mt n rangeName
      (ls_hashes st) (ls_ext st) = (res, hashes, s)" by (metis prod_cases3)
  show thesis
  proof (cases res)
    case (Inl err)
    with b show thesis by (intro unbuilt) simp_all
  next
    case (Inr i)
    obtain o1 dt rej s1 where w: "insert_and_wait d zone i rangeName s = ((o1, dt, rej), s1)" by (metis prod.exhaust)
    show thesis
    proof (cases o1)
      case None
      with b w Inr show thesis by (intro inserted) simp_all
    next
      case (Some err)
      show thesis
        by (rule failed [OF b [unfolded Inr] w [unfolded Some]])
          (simp only: try_ranges.simps b w Inr Some prod.case sum.case option.case Let_def
            after_failure_def ip_exhausted_def still_insufficient_def)
    qed
  qed
qed

lemma try_ranges_history:
  "\<exists>evs. ls_history (snd (try_ranges e d claim nc it source cl zone name ct mt n disc ranges st)) = evs @ ls_history st
     \<and> attempt_history zone name ct (fst (try_ranges e d claim nc it source cl zone name ct mt n disc ranges st)) evs
     \<and> length evs \<le> length ranges"
proof (induction ranges arbitrary: st)
  case (Cons rangeName ranges)
  show ?case
  proof (rule try_ranges_step [of e d claim nc it source cl zone name ct mt n rangeName st disc ranges], goal_cases)
    case (1 err hashes s)
    then show ?case by (simp only:) (simp add: attempt_history_def)
  next
    case (2 i hashes s dt rej s')
    with buildInstance_built_for [OF 2(1)] show ?case by (simp only:) (simp add: attempt_history_def)
  next
    case (3 i hashes s err dt rej s')
    let ?st = "after_failure d zone name i disc dt rej hashes s' st"
    show ?case
    proof (cases "ip_exhausted dt \<and> ranges \<noteq> []")
      case True
      obtain evs where "ls_history (snd (try_ranges e d claim nc it source cl zone name ct mt n disc ranges ?st)) = evs @ ls_history ?st"
        "attempt_history zone name ct (fst (try_ranges e d claim nc it source cl zone name ct mt n disc ranges ?st)) evs"
        "length evs \<le> length ranges" using Cons.IH [of ?st] by blast
      with True show ?thesis unfolding 3(3) Let_def
        by (intro exI [of _ "evs @ [Inserted zone name False]"]) (auto simp: attempt_history_def split: sum.splits)
    next
      case False
      obtain r st' where g: "give_up e d it zone ct err (still_insufficient d dt) (ip_exhausted dt) ?st = (r, st')" by (metis prod.exhaust)
      with give_up_history [of e d it zone ct err "still_insufficient d dt" "ip_exhausted dt" ?st]
      have "ls_history st' = Inserted zone name False # ls_history st" by simp
      then show ?thesis unfolding 3(3) Let_def if_not_P [OF False] g by (simp add: attempt_history_def)
    qed
  qed
qed (simp add: attempt_history_def)

text \<open>A claim: the inserts of all instance types and of both capacity types.\<close>

definition single_success :: "string \<Rightarrow> creation \<Rightarrow> launch_event list \<Rightarrow> bool" where
  "single_success name c evs \<longleftrightarrow> failed_only name evs \<or> (\<exists>i evs'. c = Created i \<and> in_Name i = name
     \<and> evs = Inserted (in_Location i) name True # evs' \<and> failed_only name evs')"

lemma tryCreateInstance_history:
  assumes "tryCreateInstance e d nc claim it ct attempted freeIPs st = ((res, zone), st')"
  shows "\<exists>evs. ls_history st' = evs @ ls_history st \<and> (failed_only (instanceName_of claim) evs
    \<or> (\<exists>i evs'. res = Inr i \<and> built_for (instanceName_of claim) ct i
        \<and> evs = Inserted zone (instanceName_of claim) True # evs' \<and> failed_only (instanceName_of claim) evs'))"
proof (cases "resolveCreateSSDCount it")
  case (Inr n)
  obtain zr st1 where z: "selectZone e d claim it ct st = (zr, st1)" by (metis prod.exhaust)
  then have h1: "ls_history st1 = ls_history st" using selectZone_history [of e d claim it ct st] by simp
  show ?thesis
  proof (cases zr)
    case (Inl err)
    with assms Inr z h1 show ?thesis by (auto simp: tryCreateInstance_def)
  next
    case zone: (Inr z1)
    obtain sr s2 where s: "dep_GetSourceTemplateMetadata d (ls_ext st1) = (sr, s2)" by (metis prod.exhaust)
    obtain cr s3 where c: "dep_GetClusterConfig d s2 = (cr, s3)" by (metis prod.exhaust)
    show ?thesis
    proof (cases "\<exists>source cl. sr = Inr source \<and> cr = Inr cl")
      case False
      with assms Inr z zone s c h1 show ?thesis
        by (cases sr; cases cr) (auto simp: tryCreateInstance_def Let_def)
    next
      case True
      then obtain source cl where sc: "sr = Inr source" "cr = Inr cl" by blast
      obtain fr s4 where f: "find_existing d (instanceName_of claim) (uniq (z1 # attempted)) s3 = (fr, s4)" by (metis prod.exhaust)
      obtain g st5 where g: "getOrCreateInstance e d claim nc it source cl z1 ct attempted (dep_GetMachineType d (it_name it) (ls_ext st)) n
          freeIPs (st1\<lparr>ls_ext := s3\<rparr>) = (g, st5)" by (metis prod.exhaust)
      have res: "res = (case g of Inl (retryable, err) \<Rightarrow> Inl (if retryable then RetryableError err else err) | Inr (i, _) \<Rightarrow> Inr i)"
        "zone = (case g of Inl _ \<Rightarrow> z1 | Inr (_, z) \<Rightarrow> z)" "st' = st5"
        using assms Inr z zone s c sc g by (auto simp: tryCreateInstance_def Let_def split: sum.splits)
      show ?thesis
      proof (cases fr)
        case (Inr o1)
        show ?thesis
        proof (cases o1)
          case None
          let ?run = "try_ranges e d claim nc it source cl z1 (instanceName_of claim) ct (dep_GetMachineType d (it_name it) (ls_ext st)) n
             (PodSubnetRangeNames nc = []) (rankPodRangeNames (resolvedPodRangeNames nc cl) freeIPs) (st1\<lparr>ls_ext := s4\<rparr>)"
          have "?run = (g, st5)" using None Inr f g by (simp add: getOrCreateInstance_def createInstanceWithPodRanges_def)
          with h1 res try_ranges_history [of e d claim nc it source cl z1 "instanceName_of claim" ct "dep_GetMachineType d (it_name it) (ls_ext st)"
              n "PodSubnetRangeNames nc = []" "rankPodRangeNames (resolvedPodRangeNames nc cl) freeIPs" "st1\<lparr>ls_ext := s4\<rparr>"]
          obtain evs where "ls_history st' = evs @ ls_history st" "attempt_history z1 (instanceName_of claim) ct g evs" by auto
          then show ?thesis using res by (auto simp: attempt_history_def split: sum.splits)
        next
          case (Some iz)
          with Inr f g res h1 show ?thesis by (cases iz) (auto simp: getOrCreateInstance_def)
        qed
      qed (use f g res h1 in \<open>auto simp: getOrCreateInstance_def\<close>)
    qed
  qed
qed (use assms in \<open>simp add: tryCreateInstance_def\<close>)

lemma create_loop_history:
  "\<exists>evs. ls_history (snd (snd (create_loop e d nc claim ct freeIPs errs its attempted st))) = evs @ ls_history st
     \<and> single_success (instanceName_of claim) (fst (create_loop e d nc claim ct freeIPs errs its attempted st)) evs"
proof (induction its arbitrary: errs attempted st)
  case (Cons it its)
  obtain res zone st1 where t: "tryCreateInstance e d nc claim it ct attempted freeIPs st = ((res, zone), st1)" by (metis prod.exhaust)
  from tryCreateInstance_history [OF t] obtain evs where h: "ls_history st1 = evs @ ls_history st"
    and o: "failed_only (instanceName_of claim) evs \<or> (\<exists>i evs'. res = Inr i \<and> built_for (instanceName_of claim) ct i
        \<and> evs = Inserted zone (instanceName_of claim) True # evs' \<and> failed_only (instanceName_of claim) evs')" by blast
  show ?case
  proof (cases res)
    case (Inr i)
    with t h o show ?thesis
      by (auto simp: single_success_def created_Instance_def built_for_def Let_def)
  next
    case (Inl err)
    then have f: "failed_only (instanceName_of claim) evs" using o by auto
    show ?thesis
    proof (cases "errors_as as_retryable err")
      case None
      with Inl t h f show ?thesis by (auto simp: single_success_def Let_def)
    next
      case (Some inner)
      let ?att = "if zone \<noteq> [] \<and> zone \<notin> set attempted then attempted @ [zone] else attempted"
      have step: "create_loop e d nc claim ct freeIPs errs (it # its) attempted st =
          create_loop e d nc claim ct freeIPs (errs @ [inner]) its ?att st1"
        using Inl Some t by (simp add: Let_def)
      from Cons.IH [of "errs @ [inner]" ?att st1] obtain evs2 where
        "ls_history (snd (snd (create_loop e d nc claim ct freeIPs (errs @ [inner]) its ?att st1))) = evs2 @ ls_history st1"
        "single_success (instanceName_of claim) (fst (create_loop e d nc claim ct freeIPs (errs @ [inner]) its ?att st1)) evs2" by blast
      then show ?thesis unfolding step using h f
        by (intro exI [of _ "evs2 @ evs"]) (auto simp: single_success_def)
    qed
  qed
qed (simp add: single_success_def)

lemma fallBackToOnDemand_history:
  "\<exists>evs. ls_history (snd (fallBackToOnDemand e d nc claim its reqs errs attempted freeIPs st)) = evs @ ls_history st
     \<and> single_success (instanceName_of claim) (fst (fallBackToOnDemand e d nc claim its reqs errs attempted freeIPs st)) evs"
proof (cases "errs = [] \<or> \<not> list_all IsInsufficientCapacityError errs \<or> \<not> hasAvailableOffering (be_wellKnown e) claim its CapacityTypeOnDemand")
  case True
  then have "fallBackToOnDemand e d nc claim its reqs errs attempted freeIPs st = (Exhausted errs, st)"
    unfolding fallBackToOnDemand_def by (rule if_P)
  then show ?thesis by (simp add: single_success_def)
next
  case False
  let ?its = "orderInstanceTypesByPrice (be_wellKnown e) its
    (map_set CapacityTypeLabelKey (NewRequirement CapacityTypeLabelKey OpIn [CapacityTypeOnDemand]) reqs)"
  obtain c a st' where l: "create_loop e d nc claim CapacityTypeOnDemand freeIPs [] ?its attempted st = (c, a, st')" by (metis prod_cases3)
  have "fallBackToOnDemand e d nc claim its reqs errs attempted freeIPs st = (c, st')"
    unfolding fallBackToOnDemand_def if_not_P [OF False] Let_def createWithCapacityType_def l by simp
  with create_loop_history [of e d nc claim CapacityTypeOnDemand freeIPs "[]" ?its attempted st] l show ?thesis by simp
qed

text \<open>The calls of one \<^verbatim>\<open>Create\<close> that reach the loops: with the first capacity type, and then possibly with on-demand.\<close>

lemma Create_cases:
  obtains (early) "ls_history (snd (Create e d nc claim its st)) = ls_history st"
      "ls_ext (snd (Create e d nc claim its st)) \<in> {ls_ext st, snd (Adopt e d claim (ls_ext st))}"
      "(\<exists>i. fst (Adopt e d claim (ls_ext st)) = Inr (Some i)) \<or> (\<exists>err. fst (Create e d nc claim its st) = Inl err)"
  | (loop) ct its' st1 c attempted st2 where
      "st1 = st\<lparr>ls_ext := snd (podRangeFreeIPs d nc (snd (Adopt e d claim (ls_ext st))))\<rparr>"
      "\<nexists>i. fst (Adopt e d claim (ls_ext st)) = Inr (Some i)"
      "create_loop e d nc claim ct (fst (podRangeFreeIPs d nc (snd (Adopt e d claim (ls_ext st))))) [] its' [] st1 = (c, attempted, st2)"
      "Create e d nc claim its st = (finish_create c, st2)"
  | (fallback) its' st1 errs attempted st2 c st3 where
      "st1 = st\<lparr>ls_ext := snd (podRangeFreeIPs d nc (snd (Adopt e d claim (ls_ext st))))\<rparr>"
      "\<nexists>i. fst (Adopt e d claim (ls_ext st)) = Inr (Some i)"
      "create_loop e d nc claim CapacityTypeSpot (fst (podRangeFreeIPs d nc (snd (Adopt e d claim (ls_ext st))))) [] its' [] st1 = (Exhausted errs, attempted, st2)"
      "fallBackToOnDemand e d nc claim its' (claim_reqs claim) errs attempted
        (fst (podRangeFreeIPs d nc (snd (Adopt e d claim (ls_ext st))))) st2 = (c, st3)"
      "Create e d nc claim its st = (finish_create c, st3)"
proof -
  let ?wk = "be_wellKnown e" let ?reqs = "claim_reqs claim"
  obtain launch rej where l: "instanceTypesForLaunch claim (orderInstanceTypesByPrice ?wk its ?reqs) = (launch, rej)" by (metis prod.exhaust)
  obtain ad s1 where a: "Adopt e d claim (ls_ext st) = (ad, s1)" by (metis prod.exhaust)
  obtain free s2 where f: "podRangeFreeIPs d nc s1 = (free, s2)" by (metis prod.exhaust)
  show thesis
  proof (cases "its = [] \<or> (\<exists>i. ad = Inr (Some i)) \<or> (\<exists>err. validateLaunchInstanceTypes launch rej = Inl err)
      \<or> (\<exists>l. validateLaunchInstanceTypes launch rej = Inr l \<and> FilterInstanceTypes ?wk nc l = [])")
    case True
    then show thesis
      using l a by (intro early) (auto simp: Create_def Let_def split: sum.splits option.splits)
  next
    case False
    then obtain l' where v: "validateLaunchInstanceTypes launch rej = Inr l'" "FilterInstanceTypes ?wk nc l' \<noteq> []" "its \<noteq> []"
      by (cases "validateLaunchInstanceTypes launch rej") auto
    have na: "\<nexists>i. ad = Inr (Some i)" using False by blast
    let ?its = "orderInstanceTypesByPrice ?wk (FilterInstanceTypes ?wk nc l') ?reqs"
    let ?ct = "getCapacityType ?wk claim ?its"
    let ?st = "st\<lparr>ls_ext := s2\<rparr>"
    obtain c att st2 where cl: "create_loop e d nc claim ?ct free [] ?its [] ?st = (c, att, st2)" by (metis prod_cases3)
    have C: "Create e d nc claim its st = (case (c, att, st2) of
          (Exhausted errs, attempted, st) \<Rightarrow> if ?ct = CapacityTypeSpot then
              (case fallBackToOnDemand e d nc claim ?its ?reqs errs attempted free st of (c, st) \<Rightarrow> (finish_create c, st))
            else (finish_create (Exhausted errs), st)
        | (c, _, st) \<Rightarrow> (finish_create c, st))"
    proof -
      have "Create e d nc claim its st = (case createWithCapacityType e d nc claim ?its ?ct [] free ?st of
          (Exhausted errs, attempted, st) \<Rightarrow> if ?ct = CapacityTypeSpot then
              (case fallBackToOnDemand e d nc claim ?its ?reqs errs attempted free st of (c, st) \<Rightarrow> (finish_create c, st))
            else (finish_create (Exhausted errs), st)
        | (c, _, st) \<Rightarrow> (finish_create c, st))"
        using v l a f na by (cases ad) (simp_all add: Create_def Let_def split: option.splits)
      then show ?thesis unfolding createWithCapacityType_def cl .
    qed
    show thesis
    proof (cases "\<exists>errs. c = Exhausted errs \<and> ?ct = CapacityTypeSpot")
      case True
      then obtain errs where "c = Exhausted errs" "?ct = CapacityTypeSpot" by blast
      moreover obtain c' st3 where "fallBackToOnDemand e d nc claim ?its ?reqs errs att free st2 = (c', st3)" by (metis prod.exhaust)
      ultimately show thesis using cl C a f na by (intro fallback) simp_all
    next
      case False
      then show thesis using cl C a f na by (intro loop) (auto split: creation.splits)
    qed
  qed
qed

lemma single_success_finish:
  assumes "single_success name c evs"
  shows "failed_only name evs \<or> (\<exists>i evs'. finish_create c = Inr i \<and> in_Name i = name
      \<and> evs = Inserted (in_Location i) name True # evs' \<and> failed_only name evs')"
  using assms by (auto simp: single_success_def finish_create_def)

text \<open>C2: One call of \<^verbatim>\<open>Create\<close> completes at most one insert, and it is the last: once an insert has completed,
  the instance it made is returned under the claim's name and with the zone of that insert. If
  the call fails, no insert of it completed. Every insert is for the claim's own name.\<close>

theorem Create_single_insert:
  "\<exists>evs. ls_history (snd (Create e d nc claim its st)) = evs @ ls_history st
     \<and> (failed_only (instanceName_of claim) evs
        \<or> (\<exists>i evs'. fst (Create e d nc claim its st) = Inr i \<and> in_Name i = instanceName_of claim
             \<and> evs = Inserted (in_Location i) (instanceName_of claim) True # evs' \<and> failed_only (instanceName_of claim) evs'))"
proof (rule Create_cases [of e d nc claim its st], goal_cases)
  case 1
  then show ?case by (intro exI [of _ "[]"]) simp
next
  case (2 ct its' st1 c attempted st2)
  from create_loop_history [of e d nc claim ct "fst (podRangeFreeIPs d nc (snd (Adopt e d claim (ls_ext st))))" "[]" its' "[]" st1]
  obtain evs where "ls_history st2 = evs @ ls_history st" "single_success (instanceName_of claim) c evs" using 2 by auto
  with single_success_finish [OF this(2)] 2(4) show ?case by auto
next
  case (3 its' st1 errs attempted st2 c st3)
  let ?free = "fst (podRangeFreeIPs d nc (snd (Adopt e d claim (ls_ext st))))"
  from create_loop_history [of e d nc claim CapacityTypeSpot ?free "[]" its' "[]" st1] obtain evs where
    "ls_history st2 = evs @ ls_history st" "failed_only (instanceName_of claim) evs" using 3 by (auto simp: single_success_def)
  moreover from fallBackToOnDemand_history [of e d nc claim its' "claim_reqs claim" errs attempted ?free st2] obtain evs2 where
    "ls_history st3 = evs2 @ ls_history st2" "single_success (instanceName_of claim) c evs2" using 3 by auto
  ultimately show ?case
    using single_success_finish [of "instanceName_of claim" c evs2] 3(5) by (intro exI [of _ "evs2 @ evs"]) auto
qed

subsection \<open>The virtual machines of the project\<close>

text \<open>\<open>vms s\<close> is the set of virtual machines, as zone and name, in the outside state. \<open>vm_faithful\<close> is what the launch relies on of
  the Compute service and of the other providers: only an insert makes a machine, the one it names in the zone
  it names, and none without a zone; a lookup that answers ``not found'' is right. Machines may
  disappear at any time, and an insert that reports a failure may still have made its machine.\<close>

definition quiet :: "('s \<Rightarrow> 'v set) \<Rightarrow> ('s \<Rightarrow> 'a \<times> 's) \<Rightarrow> bool" where
  "quiet vms f \<longleftrightarrow> (\<forall>s. vms (snd (f s)) \<subseteq> vms s)"

definition vm_faithful :: "('s \<Rightarrow> (string \<times> string) set) \<Rightarrow> 's instance_deps \<Rightarrow> bool" where
  "vm_faithful vms d \<longleftrightarrow>
     quiet vms (dep_ResolveClusterZones d) \<and> quiet vms (dep_GetClusterConfig d) \<and> quiet vms (dep_GetSourceTemplateMetadata d)
   \<and> (\<forall>n sub. quiet vms (dep_GetNetworkConfig d n sub) \<and> quiet vms (dep_GetFreeIPCounts d n sub))
   \<and> (\<forall>s. vms (dep_InvalidateClusterConfig d s) \<subseteq> vms s) \<and> (\<forall>n sub s. vms (dep_SubnetInvalidate d n sub s) \<subseteq> vms s)
   \<and> (\<forall>z n. quiet vms (dep_InstancesGet d z n) \<and> quiet vms (dep_OperationsGet d z n))
   \<and> (\<forall>n. quiet vms (dep_AggregatedList d n)) \<and> (\<forall>n. quiet vms (dep_random d n))
   \<and> quiet vms (ba_version (dep_boot d)) \<and> (\<forall>u. quiet vms (ba_http (dep_boot d) u))
   \<and> (\<forall>z i s. vms (snd (dep_Insert d z i s)) \<subseteq> (if z = [] then {} else {(z, ci_Name i)}) \<union> vms s)
   \<and> (\<forall>z n s err s'. dep_InstancesGet d z n s = (Inl err, s') \<and> isInstanceNotFoundError err \<longrightarrow> (z, n) \<notin> vms s')"

lemma quietD: "quiet vms f \<Longrightarrow> f s = (r, s') \<Longrightarrow> vms s' \<subseteq> vms s"
  unfolding quiet_def by (metis snd_conv)

lemma quiet_patch:
  assumes "quiet vms (ba_version api)" "\<And>u. quiet vms (ba_http api u)"
    and "patchKubeEnvServerBinaryForArch e api it m hashes s = (r, hashes', s')"
  shows "vms s' \<subseteq> vms s"
proof -
  have 1: "vms s' \<subseteq> vms s" if "resolveGKEVersion api s = (v, s')" for s v s'
    using that quietD [OF assms(1)] by (auto simp: resolveGKEVersion_def split: prod.splits sum.splits)
  have 2: "vms s' \<subseteq> vms s" if "getServerBinaryHash api v arch hashes s = (r, h', s')" for v arch hashes s r h' s'
    using that quietD [OF assms(2)]
    by (auto simp: getServerBinaryHash_def Let_def split: prod.splits sum.splits option.splits if_splits list.splits)
  from assms(3) show ?thesis
    unfolding patchKubeEnvServerBinaryForArch_def Let_def
    by (auto split: if_splits option.splits prod.splits sum.splits dest!: 1 2)
qed

lemma quiet_buildInstance:
  assumes "vm_faithful vms d"
    and "buildInstance e (dep_boot d) (dep_GetNetworkConfig d) claim nc it source cl zone name ct mt n rg hashes s = (r, hashes', s')"
  shows "vms s' \<subseteq> vms s"
proof -
  have api: "quiet vms (ba_version (dep_boot d))" "\<And>u. quiet vms (ba_http (dep_boot d) u)"
    and net: "\<And>n sub. quiet vms (dep_GetNetworkConfig d n sub)"
    using assms(1) by (simp_all add: vm_faithful_def)
  have 1: "vms s' \<subseteq> vms s" if "setupInstanceMetadata e (dep_boot d) source nc it claim zone ct gpu n hashes s = (r, h', s')"
    for nc gpu hashes s r h' s'
    using that unfolding setupInstanceMetadata_def Let_def
    by (auto split: sum.splits option.splits prod.splits dest!: quiet_patch [OF api])
  have 2: "vms s' \<subseteq> vms s" if "configureDualStackNetwork (dep_GetNetworkConfig d) cl ifaces s = (r, s')" for ifaces s r s'
    using that unfolding configureDualStackNetwork_def
    by (auto split: if_splits list.splits prod.splits sum.splits dest!: quietD [OF net])
  from assms(2) show ?thesis unfolding buildInstance_def Let_def
    by (auto split: sum.splits prod.splits dest!: 1 2)
qed

lemma quiet_wait:
  assumes "vm_faithful vms d"
  shows "waitOperationDone (dep_OperationsGet d) ce zone name ticks s = (r, s') \<Longrightarrow> vms s' \<subseteq> vms s"
proof (induction ticks arbitrary: s)
  case 0
  have "quiet vms (dep_OperationsGet d zone name)" using assms by (simp add: vm_faithful_def)
  from 0 quietD [OF this] show ?case
    by (subst (asm) waitOperationDone.simps) (auto split: prod.splits sum.splits option.splits if_splits)
next
  case (Suc ticks)
  have q: "quiet vms (dep_OperationsGet d zone name)" using assms by (simp add: vm_faithful_def)
  obtain g s1 where g: "dep_OperationsGet d zone name s = (g, s1)" by (metis prod.exhaust)
  from Suc.prems [unfolded waitOperationDone.simps [of _ _ _ _ "Suc ticks"] g] have "vms s' \<subseteq> vms s1"
    by (auto split: sum.splits option.splits if_splits dest: Suc.IH)
  with quietD [OF q g] show ?case by blast
qed

definition made :: "string \<Rightarrow> string \<Rightarrow> (string \<times> string) set" where
  "made zone name = (if zone = [] then {} else {(zone, name)})"

lemma insert_and_wait_vms:
  assumes "vm_faithful vms d" "insert_and_wait d zone i rg s = (r, s')"
  shows "vms s' \<subseteq> made zone (ci_Name i) \<union> vms s"
proof -
  obtain o1 s1 where o: "dep_Insert d zone i s = (o1, s1)" by (metis prod.exhaust)
  have i: "vms s1 \<subseteq> made zone (ci_Name i) \<union> vms s" using assms(1) o unfolding vm_faithful_def made_def by (metis snd_conv)
  have "vms s' \<subseteq> vms s1"
    using assms(2) o by (auto simp: insert_and_wait_def split: sum.splits prod.splits option.splits dest: quiet_wait [OF assms(1)])
  with i show ?thesis by blast
qed

lemma invalidate_vms:
  assumes "vm_faithful vms d"
  shows "vms (invalidatePodRangeCaches d i disc rej s) \<subseteq> vms s"
proof -
  have 1: "vms (dep_InvalidateClusterConfig d s) \<subseteq> vms s" and 2: "vms (dep_SubnetInvalidate d n sub s) \<subseteq> vms s" for n sub s
    using assms by (simp_all add: vm_faithful_def)
  show ?thesis unfolding invalidatePodRangeCaches_def Let_def
    using 1 2 by (auto split: list.splits dest!: subsetD [OF 1] subsetD [OF 2])
qed

lemma try_ranges_vms:
  assumes "vm_faithful vms d"
  shows "vms (ls_ext (snd (try_ranges e d claim nc it source cl zone name ct mt n disc ranges st))) \<subseteq> made zone name \<union> vms (ls_ext st)"
proof (induction ranges arbitrary: st)
  case (Cons rangeName ranges)
  show ?case
  proof (rule try_ranges_step [of e d claim nc it source cl zone name ct mt n rangeName st disc ranges], goal_cases)
    case (1 err hashes s)
    from quiet_buildInstance [OF assms 1(1)] show ?case unfolding 1(2) by auto
  next
    case (2 i hashes s dt rej s')
    have "ci_Name i = name" using buildInstance_built_for [OF 2(1)] by (simp add: built_for_def)
    with quiet_buildInstance [OF assms 2(1)] insert_and_wait_vms [OF assms 2(2)] show ?case unfolding 2(3) by auto
  next
    case (3 i hashes s err dt rej s')
    let ?st = "after_failure d zone name i disc dt rej hashes s' st"
    have "ci_Name i = name" using buildInstance_built_for [OF 3(1)] by (simp add: built_for_def)
    then have "vms s' \<subseteq> made zone name \<union> vms (ls_ext st)"
      using quiet_buildInstance [OF assms 3(1)] insert_and_wait_vms [OF assms 3(2)] by blast
    then have st: "vms (ls_ext ?st) \<subseteq> made zone name \<union> vms (ls_ext st)"
      using invalidate_vms [OF assms, of i disc rej s'] by auto
    show ?case
    proof (cases "ip_exhausted dt \<and> ranges \<noteq> []")
      case True
      with Cons.IH [of ?st] st show ?thesis unfolding 3(3) Let_def by auto
    next
      case False
      obtain r st' where g: "give_up e d it zone ct err (still_insufficient d dt) (ip_exhausted dt) ?st = (r, st')" by (metis prod.exhaust)
      with give_up_ext [of e d it zone ct err "still_insufficient d dt" "ip_exhausted dt" ?st]
      have "ls_ext st' = ls_ext ?st" by simp
      with st show ?thesis unfolding 3(3) Let_def if_not_P [OF False] g by simp
    qed
  qed
qed simp

lemma find_existing_vms:
  assumes "vm_faithful vms d"
  shows "find_existing d name zones s = (r, s') \<Longrightarrow>
    vms s' \<subseteq> vms s \<and> (r = Inr None \<longrightarrow> (\<forall>z \<in> set zones. (z, name) \<notin> vms s'))"
proof (induction zones arbitrary: s)
  case (Cons z zones)
  have q: "quiet vms (dep_InstancesGet d z name)" using assms by (simp add: vm_faithful_def)
  obtain g s1 where g: "dep_InstancesGet d z name s = (g, s1)" by (metis prod.exhaust)
  have s1: "vms s1 \<subseteq> vms s" by (rule quietD [OF q g])
  show ?case
  proof (cases "\<exists>err. g = Inl err \<and> isInstanceNotFoundError err")
    case True
    then obtain err where e: "g = Inl err" "isInstanceNotFoundError err" by blast
    have "(z, name) \<notin> vms s1" using assms g e unfolding vm_faithful_def by blast
    moreover have "find_existing d name zones s1 = (r, s')" using Cons.prems g e by (simp add: isInstanceExists_def)
    ultimately show ?thesis using Cons.IH s1 by (auto dest: subsetD)
  next
    case False
    with Cons.prems g s1 show ?thesis by (auto simp: isInstanceExists_def split: sum.splits if_splits)
  qed
qed simp

lemma selectZone_vms:
  assumes "vm_faithful vms d" "selectZone e d claim it ct st = (r, st')"
  shows "vms (ls_ext st') \<subseteq> vms (ls_ext st)"
proof -
  have q: "quiet vms (dep_ResolveClusterZones d)" and r: "\<And>n. quiet vms (dep_random d n)"
    using assms(1) by (simp_all add: vm_faithful_def)
  obtain z s1 where z: "dep_ResolveClusterZones d (ls_ext st) = (z, s1)" by (metis prod.exhaust)
  have "vms (ls_ext st') \<subseteq> vms s1"
    using assms(2) z by (auto simp: selectZone_def Let_def split: sum.splits if_splits prod.splits dest!: quietD [OF r])
  with quietD [OF q z] show ?thesis by blast
qed

text \<open>At most one machine of a name, and only in zones that were tried.\<close>

definition zones_named :: "('s \<Rightarrow> (string \<times> string) set) \<Rightarrow> string \<Rightarrow> 's \<Rightarrow> string set" where
  "zones_named vms name s = {z. (z, name) \<in> vms s}"

definition at_most_one :: "'a set \<Rightarrow> bool" where "at_most_one A \<longleftrightarrow> (\<forall>x \<in> A. \<forall>y \<in> A. x = y)"

lemma at_most_one_subset: "at_most_one A \<Longrightarrow> B \<subseteq> A \<Longrightarrow> at_most_one B"
  by (auto simp: at_most_one_def)

lemma zones_named_mono: "vms s' \<subseteq> vms s \<Longrightarrow> zones_named vms name s' \<subseteq> zones_named vms name s"
  by (auto simp: zones_named_def)

lemma tryCreateInstance_vms:
  assumes vf: "vm_faithful vms d" and t: "tryCreateInstance e d nc claim it ct attempted freeIPs st = ((res, zone), st')"
    and old: "zones_named vms (instanceName_of claim) (ls_ext st) \<subseteq> set attempted"
  shows "zones_named vms (instanceName_of claim) (ls_ext st') \<subseteq> zones_named vms (instanceName_of claim) (ls_ext st)
    \<or> zone \<noteq> [] \<and> zones_named vms (instanceName_of claim) (ls_ext st') \<subseteq> {zone}"
proof (cases "resolveCreateSSDCount it")
  case (Inr n)
  let ?N = "zones_named vms (instanceName_of claim)"
  have qs: "quiet vms (dep_GetSourceTemplateMetadata d)" and qc: "quiet vms (dep_GetClusterConfig d)"
    using vf by (simp_all add: vm_faithful_def)
  obtain zr st1 where z: "selectZone e d claim it ct st = (zr, st1)" by (metis prod.exhaust)
  obtain sr s2 where s: "dep_GetSourceTemplateMetadata d (ls_ext st1) = (sr, s2)" by (metis prod.exhaust)
  obtain cr s3 where c: "dep_GetClusterConfig d s2 = (cr, s3)" by (metis prod.exhaust)
  have v: "vms (ls_ext st1) \<subseteq> vms (ls_ext st)" "vms s2 \<subseteq> vms (ls_ext st1)" "vms s3 \<subseteq> vms s2"
    using selectZone_vms [OF vf z] quietD [OF qs s] quietD [OF qc c] by simp_all
  show ?thesis
  proof (cases "\<exists>z1 source cl. zr = Inr z1 \<and> sr = Inr source \<and> cr = Inr cl")
    case False
    then have "ls_ext st' \<in> {ls_ext st1, s2, s3}"
      using t Inr z s c by (cases zr; cases sr; cases cr) (auto simp: tryCreateInstance_def Let_def)
    then have "vms (ls_ext st') \<subseteq> vms (ls_ext st)" using v by auto
    then have "?N (ls_ext st') \<subseteq> ?N (ls_ext st)" by (rule zones_named_mono)
    then show ?thesis ..
  next
    case True
    then obtain z1 source cl where sc: "zr = Inr z1" "sr = Inr source" "cr = Inr cl" by blast
    obtain fr s4 where f: "find_existing d (instanceName_of claim) (uniq (z1 # attempted)) s3 = (fr, s4)" by (metis prod.exhaust)
    have v4: "vms s4 \<subseteq> vms (ls_ext st)" using find_existing_vms [OF vf f] v by blast
    obtain g st5 where g: "getOrCreateInstance e d claim nc it source cl z1 ct attempted (dep_GetMachineType d (it_name it) (ls_ext st)) n
        freeIPs (st1\<lparr>ls_ext := s3\<rparr>) = (g, st5)" by (metis prod.exhaust)
    have st': "st' = st5" "\<And>z. g = Inr z \<Longrightarrow> zone = snd z" "\<And>z. g = Inl z \<Longrightarrow> zone = z1"
      using t Inr z s c sc g by (auto simp: tryCreateInstance_def Let_def split: sum.splits)
    show ?thesis
    proof (cases "fr = Inr None")
      case False
      then have "ls_ext st' = s4" using f g st' by (auto simp: getOrCreateInstance_def split: sum.splits option.splits)
      with v4 zones_named_mono [of vms s4 "ls_ext st" "instanceName_of claim"] show ?thesis by blast
    next
      case True
      let ?run = "try_ranges e d claim nc it source cl z1 (instanceName_of claim) ct (dep_GetMachineType d (it_name it) (ls_ext st)) n
         (PodSubnetRangeNames nc = []) (rankPodRangeNames (resolvedPodRangeNames nc cl) freeIPs) (st1\<lparr>ls_ext := s4\<rparr>)"
      have tr: "?run = (g, st5)" using True f g by (simp add: getOrCreateInstance_def createInstanceWithPodRanges_def)
      have "zone = z1"
      proof (cases g)
        case (Inr r)
        with tr st' try_ranges_history [of e d claim nc it source cl z1 "instanceName_of claim" ct "dep_GetMachineType d (it_name it) (ls_ext st)"
            n "PodSubnetRangeNames nc = []" "rankPodRangeNames (resolvedPodRangeNames nc cl) freeIPs" "st1\<lparr>ls_ext := s4\<rparr>"]
        show ?thesis by (cases r) (auto simp: attempt_history_def)
      qed (use st' in simp)
      moreover have "?N s4 \<subseteq> set attempted" using old zones_named_mono [of vms s4 "ls_ext st"] v4 by blast
      then have "?N s4 = {}" using find_existing_vms [OF vf f] True by (auto simp: zones_named_def)
      moreover have "vms (ls_ext st') \<subseteq> made z1 (instanceName_of claim) \<union> vms s4"
        using try_ranges_vms [OF vf, of e claim nc it source cl z1 "instanceName_of claim" ct "dep_GetMachineType d (it_name it) (ls_ext st)"
          n "PodSubnetRangeNames nc = []" "rankPodRangeNames (resolvedPodRangeNames nc cl) freeIPs" "st1\<lparr>ls_ext := s4\<rparr>"] tr st' by simp
      then have "?N (ls_ext st') \<subseteq> ?N s4 \<union> (if z1 = [] then {} else {z1})" by (auto simp: zones_named_def made_def split: if_splits)
      ultimately show ?thesis by (auto split: if_splits)
    qed
  qed
qed (use t in \<open>simp add: tryCreateInstance_def\<close>)

lemma create_loop_vms:
  assumes vf: "vm_faithful vms d"
  shows "zones_named vms (instanceName_of claim) (ls_ext st) \<subseteq> set attempted \<Longrightarrow>
    at_most_one (zones_named vms (instanceName_of claim) (ls_ext st)) \<Longrightarrow>
    create_loop e d nc claim ct freeIPs errs its attempted st = (c, attempted', st') \<Longrightarrow>
    zones_named vms (instanceName_of claim) (ls_ext st') \<subseteq> set attempted' \<and> at_most_one (zones_named vms (instanceName_of claim) (ls_ext st'))
    \<or> (\<exists>i. c = Created i) \<and> at_most_one (zones_named vms (instanceName_of claim) (ls_ext st'))"
proof (induction its arbitrary: errs attempted st)
  case (Cons it its)
  let ?N = "zones_named vms (instanceName_of claim)"
  obtain res zone st1 where t: "tryCreateInstance e d nc claim it ct attempted freeIPs st = ((res, zone), st1)" by (metis prod.exhaust)
  let ?att = "if zone \<noteq> [] \<and> zone \<notin> set attempted then attempted @ [zone] else attempted"
  from tryCreateInstance_vms [OF vf t Cons.prems(1)] Cons.prems(1)
  have sub: "?N (ls_ext st1) \<subseteq> set ?att" by auto
  from tryCreateInstance_vms [OF vf t Cons.prems(1)] Cons.prems(2) have one: "at_most_one (?N (ls_ext st1))"
    unfolding at_most_one_def by blast
  show ?case
  proof (cases res)
    case (Inr i)
    with Cons.prems(3) t one show ?thesis by (auto simp: Let_def)
  next
    case (Inl err)
    show ?thesis
    proof (cases "errors_as as_retryable err")
      case None
      with Inl t sub one Cons.prems(3) show ?thesis by (auto simp: Let_def)
    next
      case (Some inner)
      have "create_loop e d nc claim ct freeIPs (errs @ [inner]) its ?att st1 = (c, attempted', st')"
        using Inl Some t Cons.prems(3) by (simp add: Let_def)
      from Cons.IH [OF sub one this] show ?thesis .
    qed
  qed
qed auto

lemma fallBackToOnDemand_vms:
  assumes vf: "vm_faithful vms d" and "zones_named vms (instanceName_of claim) (ls_ext st) \<subseteq> set attempted"
    and "at_most_one (zones_named vms (instanceName_of claim) (ls_ext st))"
    and "fallBackToOnDemand e d nc claim its reqs errs attempted freeIPs st = (c, st')"
  shows "at_most_one (zones_named vms (instanceName_of claim) (ls_ext st'))"
  using assms(4,3)
  unfolding fallBackToOnDemand_def createWithCapacityType_def Let_def
  by (auto split: if_splits prod.splits dest!: create_loop_vms [OF vf assms(2,3)])

lemma podRangeFreeIPs_vms:
  assumes "vm_faithful vms d"
  shows "vms (snd (podRangeFreeIPs d nc s)) \<subseteq> vms s"
proof -
  have 1: "quiet vms (dep_GetClusterConfig d)" and 2: "\<And>n sub. quiet vms (dep_GetFreeIPCounts d n sub)"
    using assms by (simp_all add: vm_faithful_def)
  obtain c s1 where c: "dep_GetClusterConfig d s = (c, s1)" by (metis prod.exhaust)
  have "vms (snd (podRangeFreeIPs d nc s)) \<subseteq> vms s1"
    using c by (auto simp: podRangeFreeIPs_def Let_def split: sum.splits if_splits prod.splits dest!: quietD [OF 2])
  with quietD [OF 1 c] show ?thesis by blast
qed

lemma Adopt_vms:
  assumes "vm_faithful vms d"
  shows "vms (snd (Adopt e d claim s)) \<subseteq> vms s"
proof -
  have 1: "\<And>n. quiet vms (dep_AggregatedList d n)" using assms by (simp add: vm_faithful_def)
  show ?thesis
    by (auto simp: Adopt_def findInstanceByNodeClaim_def split: sum.splits option.splits prod.splits dest!: quietD [OF 1])
qed

text \<open>C1: \<^verbatim>\<open>Create\<close> never leaves two virtual machines with the claim's name behind, in whatever zones and however its
  inserts and lookups fail, even when an insert that reports a failure did make its machine:
  before every insert it looks in all zones where an earlier one may have succeeded. This holds
  when there was no such machine before, or one that the regional lookup finds.\<close>

theorem Create_no_duplicate:
  assumes vf: "vm_faithful vms d"
    and before: "(\<forall>z. (z, instanceName_of claim) \<notin> vms (ls_ext st)) \<or> at_most_one {z. (z, instanceName_of claim) \<in> vms (ls_ext st)}
      \<and> (\<exists>i. fst (Adopt e d claim (ls_ext st)) = Inr (Some i))"
  shows "at_most_one {z. (z, instanceName_of claim) \<in> vms (ls_ext (snd (Create e d nc claim its st)))}"
proof -
  let ?N = "zones_named vms (instanceName_of claim)"
  have one: "at_most_one (?N (ls_ext st))" using before by (auto simp: zones_named_def at_most_one_def)
  let ?s1 = "snd (podRangeFreeIPs d nc (snd (Adopt e d claim (ls_ext st))))"
  have a: "vms (snd (Adopt e d claim (ls_ext st))) \<subseteq> vms (ls_ext st)" by (rule Adopt_vms [OF vf])
  then have s1: "vms ?s1 \<subseteq> vms (ls_ext st)" using podRangeFreeIPs_vms [OF vf] by blast
  have empty: "?N ?s1 \<subseteq> set []" "at_most_one (?N ?s1)" if "\<nexists>i. fst (Adopt e d claim (ls_ext st)) = Inr (Some i)"
  proof -
    show "?N ?s1 \<subseteq> set []" using before that s1 by (auto simp: zones_named_def)
    then show "at_most_one (?N ?s1)" by (simp add: at_most_one_def)
  qed
  have "at_most_one (?N (ls_ext (snd (Create e d nc claim its st))))"
  proof (rule Create_cases [of e d nc claim its st], goal_cases)
    case 1
    then have "vms (ls_ext (snd (Create e d nc claim its st))) \<subseteq> vms (ls_ext st)" using a by auto
    then show ?case by (rule at_most_one_subset [OF one zones_named_mono])
  next
    case (2 ct its' st1 c attempted st2)
    have "ls_ext st1 = ?s1" using 2(1) by simp
    with create_loop_vms [OF vf, of claim st1 "[]", OF _ _ 2(3)] empty [OF 2(2)] 2(4) show ?case by auto
  next
    case (3 its' st1 errs attempted st2 c st3)
    have "ls_ext st1 = ?s1" using 3(1) by simp
    with create_loop_vms [OF vf, of claim st1 "[]", OF _ _ 3(3)] empty [OF 3(2)]
    have "?N (ls_ext st2) \<subseteq> set attempted" "at_most_one (?N (ls_ext st2))" by auto
    from fallBackToOnDemand_vms [OF vf this 3(4)] 3(5) show ?case by simp
  qed
  then show ?thesis by (simp add: zones_named_def)
qed

definition launch_type :: "string \<Rightarrow> rat \<Rightarrow> instance_type" where
  "launch_type ct price = \<lparr>it_name = ''n2-standard-4'', it_requirements = NewRequirements
     [NewRequirement LabelArchStable OpIn [''amd64''], NewRequirement LabelInstanceLocalSsdCount OpIn [''0'']],
     it_offerings = [example_offering ''us-b'' ct price], it_capacity = [], it_kubeReserved = [],
     it_systemReserved = [], it_evictionThreshold = []\<rparr>"

lemma example_deps_faithful: "vm_faithful set (example_deps zones)"
  by (auto simp: vm_faithful_def quiet_def example_deps_def isInstanceNotFoundError_def errors_as_step)

theorem Create_no_duplicate_witness:
  "at_most_one {z. (z, ''karpenter-'') \<in> set (ls_ext (snd (Create example_build_env (example_deps [''us-a'', ''us-b'']) example_class
      zero_nodeClaim [launch_type ''spot'' 2] example_launch_state)))}"
proof -
  have n: "instanceName_of zero_nodeClaim = ''karpenter-''" by code_simp
  show ?thesis
    using Create_no_duplicate [OF example_deps_faithful, of zero_nodeClaim example_launch_state] n
    by (simp add: example_launch_state_def)
qed

end
