(* ===== verification/Instance_Lifecycle.thy ===== *)
theory Instance_Lifecycle
  imports Launch_Safety
begin

text \<open>
  The life of an instance after its launch: \<^verbatim>\<open>Get\<close>, \<^verbatim>\<open>List\<close>, \<^verbatim>\<open>Delete\<close>, \<^verbatim>\<open>CreateTags\<close> and \<^verbatim>\<open>syncInstances\<close> of
  \<^verbatim>\<open>pkg/providers/instance/instance.go\<close>. \<open>lifecycle_api\<close> is what they call of the Compute service, over an abstract outside
  state; \<open>instance_store\<close> is the provider's own state, the instance cache, next to it. Pages of a listing are
  a list of lists; a listing that fails contributes nothing, as in the code, which returns.
\<close>

record 's lifecycle_api =
  la_now :: "'s \<Rightarrow> instant"
  la_parseTime :: "string \<Rightarrow> instant option"
  la_RegionsGet :: "string \<Rightarrow> string \<Rightarrow> 's \<Rightarrow> (go_error + string list) \<times> 's" \<comment> \<open>the zone URLs\<close>
  la_InstancesList :: "string \<Rightarrow> string \<Rightarrow> string \<Rightarrow> 's \<Rightarrow> (go_error + compute_instance list list) \<times> 's"
  la_InstancesGet :: "string \<Rightarrow> string \<Rightarrow> string \<Rightarrow> 's \<Rightarrow> (go_error + compute_instance) \<times> 's"
  la_InstancesDelete :: "string \<Rightarrow> string \<Rightarrow> string \<Rightarrow> 's \<Rightarrow> (go_error + operation) \<times> 's"
  la_SetLabels :: "string \<Rightarrow> string \<Rightarrow> string \<Rightarrow> labels \<Rightarrow> string \<Rightarrow> 's \<Rightarrow> (go_error + operation) \<times> 's"

record 's instance_store =
  is_ext :: 's
  is_cache :: "Instance gocache"

definition NewInstanceCache :: "Instance gocache" where "NewInstanceCache = newCache instanceCacheExpiration"

definition parseGCEProviderID :: "string \<Rightarrow> go_error + string \<times> string \<times> string" where
  "parseGCEProviderID providerID = (if \<not> has_prefix providerID ''gce://'' then
       Inl (Errorf ''unexpected providerID format: %s'' [providerID] [])
     else case split_on CHR ''/'' (trim_prefix providerID ''gce://'') of
         [project, zone, name] \<Rightarrow> Inr (project, zone, name)
       | _ \<Rightarrow> Inl (Errorf ''invalid GCE providerID, expected format gce://project/zone/instance'' [] []))"

definition belongsToCluster :: "build_env \<Rightarrow> Instance \<Rightarrow> bool" where
  "belongsToCluster e inst = (case map_get (in_Labels inst) (SanitizeGCELabelValue LabelClusterLocationKey) of
     None \<Rightarrow> True | Some loc \<Rightarrow> loc = be_clusterLocation e)"

definition getBootImageID :: "compute_instance \<Rightarrow> string" where
  "getBootImageID i = (case ci_Disks i of [] \<Rightarrow> []
     | disk # _ \<Rightarrow> (case ad_InitializeParams disk of None \<Rightarrow> [] | Some p \<Rightarrow> dp_SourceImage p))"

definition getZonesInRegion :: "build_env \<Rightarrow> 's lifecycle_api \<Rightarrow> 's \<Rightarrow> (go_error + string list) \<times> 's" where
  "getZonesInRegion e a s = (case la_RegionsGet a (be_projectID e) (be_region e) s of
      (Inl err, s) \<Rightarrow> (Inl err, s)
    | (Inr urls, s) \<Rightarrow> (Inr (map (\<lambda>u. last (split_on CHR ''/'' u)) urls), s))"

definition sync_filter :: "build_env \<Rightarrow> string" where
  "sync_filter e = ''(labels.'' @ SanitizeGCELabelValue LabelNodePoolKey @ '':* AND labels.'' @ SanitizeGCELabelValue LabelGCENodeClassKey
     @ '':* AND labels.'' @ SanitizeGCELabelValue LabelClusterNameKey @ '':'' @ be_clusterName e @ '')''"

definition synced_Instance :: "build_env \<Rightarrow> 's lifecycle_api \<Rightarrow> 's \<Rightarrow> string \<Rightarrow> compute_instance \<Rightarrow> Instance" where
  "synced_Instance e a s zone i = \<lparr>in_CapacityType = resolveCapacityType (ci_Scheduling i),
     in_CreationTime = (case la_parseTime a (ci_CreationTimestamp i) of Some t \<Rightarrow> t | None \<Rightarrow> la_now a s),
     in_ImageID = getBootImageID i, in_InstanceID = ci_Name i, in_Labels = ci_Labels i, in_Location = zone, in_Name = ci_Name i,
     in_ProjectID = be_projectID e, in_Status = ci_Status i, in_Tags = ci_Labels i,
     in_Type = last_segment CHR ''/'' (ci_MachineType i)\<rparr>"

fun list_zones :: "build_env \<Rightarrow> 's lifecycle_api \<Rightarrow> string list \<Rightarrow> 's \<Rightarrow> (go_error + Instance list) \<times> 's" where
  "list_zones e a [] s = (Inr [], s)"
| "list_zones e a (zone # zones) s = (case la_InstancesList a (be_projectID e) zone (sync_filter e) s of
      (Inl err, s) \<Rightarrow> (Inl (Errorf ''listing instances in zone %s: %w'' [zone] [err]), s)
    | (Inr pages, s) \<Rightarrow> (case list_zones e a zones s of
        (Inl err, s') \<Rightarrow> (Inl err, s')
      | (Inr rest, s') \<Rightarrow> (Inr (map (synced_Instance e a s zone) (concat pages) @ rest), s')))"

definition syncInstances :: "build_env \<Rightarrow> 's lifecycle_api \<Rightarrow> 's instance_store \<Rightarrow> go_error option \<times> 's instance_store" where
  "syncInstances e a st = (case getZonesInRegion e a (is_ext st) of
      (Inl err, s) \<Rightarrow> (Some (Errorf ''listing zones, %w'' [] [err]), st\<lparr>is_ext := s\<rparr>)
    | (Inr zones, s) \<Rightarrow> (case list_zones e a zones s of
        (Inl err, s) \<Rightarrow> (Some err, st\<lparr>is_ext := s\<rparr>)
      | (Inr insts, s) \<Rightarrow> (None, \<lparr>is_ext = s, is_cache =
          foldl (\<lambda>c inst. cache_set (la_now a s) (in_InstanceID inst) inst 0 c) (is_cache st) (filter (belongsToCluster e) insts)\<rparr>)))"

definition InstanceGet :: "build_env \<Rightarrow> 's lifecycle_api \<Rightarrow> string \<Rightarrow> 's instance_store \<Rightarrow> (go_error + Instance) \<times> 's instance_store" where
  "InstanceGet e a providerID st = (case parseGCEProviderID providerID of
      Inl err \<Rightarrow> (Inl (Errorf ''parsing provider ID: %w'' [] [err]), st)
    | Inr (_, _, name) \<Rightarrow> (case cache_get (la_now a (is_ext st)) name (is_cache st) of
        Some inst \<Rightarrow> (Inr inst, st)
      | None \<Rightarrow> (case syncInstances e a st of
          (Some err, st) \<Rightarrow> (Inl err, st)
        | (None, st) \<Rightarrow> (case cache_get (la_now a (is_ext st)) name (is_cache st) of
            Some inst \<Rightarrow> (Inr inst, st)
          | None \<Rightarrow> (Inl (NodeClaimNotFoundError (Errorf ''instance(%s) not found '' [providerID] [])), st)))))"

definition cache_items :: "instant \<Rightarrow> 'v gocache \<Rightarrow> (string \<times> 'v) list" where
  "cache_items now c = map (\<lambda>(k, it). (k, fst it)) (filter (\<lambda>(k, it). \<not> item_expired now it) (gc_items c))"

definition InstanceList :: "build_env \<Rightarrow> 's lifecycle_api \<Rightarrow> 's instance_store \<Rightarrow> (go_error + Instance list) \<times> 's instance_store" where
  "InstanceList e a st = (case syncInstances e a st of
      (Some err, st) \<Rightarrow> (Inl err, st)
    | (None, st) \<Rightarrow> (Inr (map snd (cache_items (la_now a (is_ext st)) (is_cache st))), st))"

definition InstanceDelete :: "'s lifecycle_api \<Rightarrow> string \<Rightarrow> 's \<Rightarrow> go_error option \<times> 's" where
  "InstanceDelete a providerID s = (case parseGCEProviderID providerID of
      Inl err \<Rightarrow> (Some (Errorf ''parsing provider ID: %w'' [] [err]), s)
    | Inr (project, zone, name) \<Rightarrow> (case la_InstancesGet a project zone name s of
        (Inl err, s) \<Rightarrow> if isInstanceNotFoundError err
          then (Some (NodeClaimNotFoundError (Errorf ''instance not found: %w'' [] [err])), s)
          else (Some (Errorf ''getting instance state before delete: %w'' [] [err]), s)
      | (Inr i, s) \<Rightarrow> if ci_Status i = InstanceStatusTerminated
          then (Some (NodeClaimNotFoundError (Errorf ''instance %s is already %s'' [name, ci_Status i] [])), s)
          else if ci_Status i = InstanceStatusStopping then (None, s)
          else (case la_InstancesDelete a project zone name s of
            (Inl err, s) \<Rightarrow> if isInstanceNotFoundError err
              then (Some (NodeClaimNotFoundError (Errorf ''instance not found: %w'' [] [err])), s)
              else (Some (Errorf ''deleting instance: %w'' [] [err]), s)
          | (Inr _, s) \<Rightarrow> (None, s))))"

definition CreateTags :: "build_env \<Rightarrow> 's lifecycle_api \<Rightarrow> string \<Rightarrow> labels \<Rightarrow> 's instance_store \<Rightarrow> go_error option \<times> 's instance_store" where
  "CreateTags e a providerID tags st = (case parseGCEProviderID providerID of
      Inl err \<Rightarrow> (Some (Errorf ''failed to parse provider ID: %w'' [] [err]), st)
    | Inr (project, zone, name) \<Rightarrow> (case la_InstancesGet a project zone name (is_ext st) of
        (Inl err, s) \<Rightarrow> ((if isInstanceNotFoundError err
            then Some (NodeClaimNotFoundError (Errorf ''instance not found: %w'' [] [err]))
            else Some (Errorf ''getting instance: %w'' [] [err])), st\<lparr>is_ext := s\<rparr>)
      | (Inr i, s) \<Rightarrow> (case la_SetLabels a project zone name (map_copy (ci_Labels i) tags) (ci_LabelFingerprint i) s of
          (Inl err, s) \<Rightarrow> (Some (Errorf ''setting labels: %w'' [] [err]), st\<lparr>is_ext := s\<rparr>)
        | (Inr _, s) \<Rightarrow> (case InstanceList e a (st\<lparr>is_ext := s\<rparr>) of (Inl err, st) \<Rightarrow> (Some err, st) | (Inr _, st) \<Rightarrow> (None, st)))))"

subsection \<open>Provider identifiers\<close>

lemma parseGCEProviderID_split:
  assumes "CHR ''/'' \<notin> set project" "CHR ''/'' \<notin> set zone" "CHR ''/'' \<notin> set name"
  shows "parseGCEProviderID providerID = Inr (project, zone, name) \<longleftrightarrow>
    providerID = ''gce://'' @ project @ ''/'' @ zone @ ''/'' @ name"
proof
  assume r: "parseGCEProviderID providerID = Inr (project, zone, name)"
  then obtain rest where rest: "providerID = ''gce://'' @ rest"
    by (auto simp: parseGCEProviderID_def has_prefix_iff simp del: has_prefix_code split: if_splits)
  with r have "split_on CHR ''/'' rest = [project, zone, name]"
    by (auto simp: parseGCEProviderID_def trim_prefix_append [of "''gce://''", simplified] split: list.splits if_splits)
  with join_split_on [of "CHR ''/''" rest] rest show "providerID = ''gce://'' @ project @ ''/'' @ zone @ ''/'' @ name" by simp
next
  assume p: "providerID = ''gce://'' @ project @ ''/'' @ zone @ ''/'' @ name"
  then have "trim_prefix providerID ''gce://'' = project @ ''/'' @ zone @ ''/'' @ name" "has_prefix providerID ''gce://''"
    using trim_prefix_append [of "''gce://''"] has_prefix_append [of "''gce://''"] by auto
  with assms show "parseGCEProviderID providerID = Inr (project, zone, name)"
    by (simp add: parseGCEProviderID_def)
qed

text \<open>The identifier \<^verbatim>\<open>gce://project/zone/name\<close> that the cloud provider gives a node claim is parsed back into its
  three parts, and an identifier that is parsed is the one made of its parts.\<close>

theorem parseGCEProviderID_roundtrip:
  assumes "CHR ''/'' \<notin> set project" "CHR ''/'' \<notin> set zone" "CHR ''/'' \<notin> set name"
  shows "parseGCEProviderID providerID = Inr (project, zone, name) \<longleftrightarrow>
    providerID = ''gce://'' @ project @ ''/'' @ zone @ ''/'' @ name"
  using assms by (rule parseGCEProviderID_split)

theorem parseGCEProviderID_roundtrip_witness:
  "parseGCEProviderID ''gce://p/us-a/karpenter-x'' = Inr (''p'', ''us-a'', ''karpenter-x'')"
  using parseGCEProviderID_roundtrip [of "''p''" "''us-a''" "''karpenter-x''" "''gce://p/us-a/karpenter-x''"] by simp

subsection \<open>The instance cache\<close>

text \<open>The invariant of the provider's own state: instances of this cluster only, under their own names.\<close>

definition store_ok :: "build_env \<Rightarrow> 's instance_store \<Rightarrow> bool" where
  "store_ok e st \<longleftrightarrow> cache_wf (is_cache st) \<and> gc_defaultExpiration (is_cache st) = instanceCacheExpiration
     \<and> (\<forall>(k, inst, x) \<in> set (gc_items (is_cache st)). belongsToCluster e inst \<and> k = in_InstanceID inst)"

lemma store_ok_new: "is_cache st = NewInstanceCache \<Longrightarrow> store_ok e st"
  by (simp add: store_ok_def NewInstanceCache_def instanceCacheExpiration_def second_def newCache_def cache_wf_def)

lemma set_map_set: "set (map_set k v m) \<subseteq> insert (k, v) (set m)"
  unfolding map_set_def by (induction m) auto

abbreviation refresh :: "instant \<Rightarrow> Instance list \<Rightarrow> Instance gocache \<Rightarrow> Instance gocache" where
  "refresh now insts c \<equiv> foldl (\<lambda>c inst. cache_set now (in_InstanceID inst) inst 0 c) c insts"

lemma cache_set_default [simp]: "gc_defaultExpiration (cache_set now k v d c) = gc_defaultExpiration c"
  by (simp add: cache_set_def Let_def)

lemma refresh_put_all:
  "gc_defaultExpiration c = instanceCacheExpiration \<Longrightarrow>
   refresh now insts c = gc.put_all now instanceCacheExpiration (map (\<lambda>i. (in_InstanceID i, i)) insts) c"
proof (induction insts arbitrary: c)
  case (Cons i insts)
  then have "cache_set now (in_InstanceID i) i 0 c = cache_set now (in_InstanceID i) i instanceCacheExpiration c"
    by (simp add: cache_set_def instanceCacheExpiration_def second_def)
  with Cons show ?case by simp
qed simp

lemma refresh_default [simp]: "gc_defaultExpiration (refresh now insts c) = gc_defaultExpiration c"
  by (induction insts arbitrary: c) simp_all

lemma cache_wf_refresh: "cache_wf c \<Longrightarrow> cache_wf (refresh now insts c)"
  by (induction insts arbitrary: c) simp_all

lemma refresh_items:
  "(k, v, x) \<in> set (gc_items (refresh now insts c)) \<Longrightarrow> (k, v, x) \<in> set (gc_items c) \<or> v \<in> set insts \<and> k = in_InstanceID v"
proof (induction insts arbitrary: c)
  case (Cons i insts)
  then have "(k, v, x) \<in> set (gc_items (cache_set now (in_InstanceID i) i 0 c)) \<or> v \<in> set insts \<and> k = in_InstanceID v" by simp
  then show ?case
    using set_map_set [of "in_InstanceID i" _ "gc_items c"] by (fastforce simp: cache_set_def Let_def)
qed simp

lemma syncInstances_cases:
  assumes "syncInstances e a st = (r, st')"
  obtains (failed) err where "r = Some err" "is_cache st' = is_cache st"
  | (synced) zones s insts where "r = None" "getZonesInRegion e a (is_ext st) = (Inr zones, s)"
      "list_zones e a zones s = (Inr insts, is_ext st')"
      "is_cache st' = refresh (la_now a (is_ext st')) (filter (belongsToCluster e) insts) (is_cache st)"
proof -
  obtain z s where z: "getZonesInRegion e a (is_ext st) = (z, s)" by (metis prod.exhaust)
  show thesis
  proof (cases z)
    case (Inl err)
    with z assms show thesis by (intro failed) (auto simp: syncInstances_def)
  next
    case (Inr zones)
    obtain l s2 where l: "list_zones e a zones s = (l, s2)" by (metis prod.exhaust)
    show thesis
    proof (cases l)
      case (Inl err)
      with z l Inr assms show thesis by (intro failed) (auto simp: syncInstances_def)
    next
      case insts: (Inr insts)
      have "r = None" "st' = \<lparr>is_ext = s2, is_cache = refresh (la_now a s2) (filter (belongsToCluster e) insts) (is_cache st)\<rparr>"
        using assms z l Inr insts by (simp_all add: syncInstances_def)
      with z l Inr insts show thesis by (intro synced) simp_all
    qed
  qed
qed

lemma syncInstances_ok: "store_ok e st \<Longrightarrow> syncInstances e a st = (r, st') \<Longrightarrow> store_ok e st'"
  by (erule syncInstances_cases) (fastforce simp: store_ok_def cache_wf_refresh dest: refresh_items)+

inductive store_step :: "build_env \<Rightarrow> 's lifecycle_api \<Rightarrow> 's instance_store \<Rightarrow> 's instance_store \<Rightarrow> bool"
  for e :: build_env and a :: "'s lifecycle_api" where
  step_get: "store_step e a st (snd (InstanceGet e a providerID st))"
| step_list: "store_step e a st (snd (InstanceList e a st))"
| step_tags: "store_step e a st (snd (CreateTags e a providerID tags st))"
| step_delete: "store_step e a st (st\<lparr>is_ext := snd (InstanceDelete a providerID (is_ext st))\<rparr>)"
| step_world: "store_step e a st (st\<lparr>is_ext := s\<rparr>)"
| step_janitor: "store_step e a st (st\<lparr>is_cache := fst (cache_delete_expired now (is_cache st))\<rparr>)"

lemma store_ok_ext [simp]: "store_ok e (st\<lparr>is_ext := s\<rparr>) \<longleftrightarrow> store_ok e st"
  by (simp add: store_ok_def)

lemma InstanceList_ok: "store_ok e st \<Longrightarrow> store_ok e (snd (InstanceList e a st))"
  using syncInstances_ok [of e st a] by (auto simp: InstanceList_def split: prod.splits option.splits)

lemma InstanceGet_ok: "store_ok e st \<Longrightarrow> store_ok e (snd (InstanceGet e a providerID st))"
  using syncInstances_ok [of e st a] by (auto simp: InstanceGet_def split: sum.splits prod.splits option.splits)

lemma CreateTags_ok:
  assumes "store_ok e st"
  shows "store_ok e (snd (CreateTags e a providerID tags st))"
proof -
  have "store_ok e (snd (InstanceList e a (st\<lparr>is_ext := s\<rparr>)))" for s by (rule InstanceList_ok) (simp add: assms)
  then have "store_ok e st'" if "InstanceList e a (st\<lparr>is_ext := s\<rparr>) = (r, st')" for s r st' using that by (metis snd_conv)
  then show ?thesis
    using assms by (auto simp: CreateTags_def split: sum.splits prod.splits)
qed

lemma store_step_ok: "store_step e a st st' \<Longrightarrow> store_ok e st \<Longrightarrow> store_ok e st'"
proof (induction rule: store_step.induct)
  case (step_janitor st now)
  then show ?case by (auto simp: store_ok_def cache_delete_expired_def cache_wf_def)
qed (simp_all add: InstanceGet_ok InstanceList_ok CreateTags_ok)

lemma cache_get_items: "cache_get t k c = Some v \<Longrightarrow> \<exists>x. (k, v, x) \<in> set (gc_items c)"
  by (fastforce simp: cache_get_def split: option.splits if_splits dest: map_of_SomeD)

lemma store_ok_get:
  "store_ok e st \<Longrightarrow> cache_get t k (is_cache st) = Some v \<Longrightarrow> belongsToCluster e v \<and> in_InstanceID v = k"
  by (auto simp: store_ok_def dest!: cache_get_items)

text \<open>C22: The provider only ever hands out instances of its own cluster. Starting from an empty cache, whatever
  sequence of \<^verbatim>\<open>Get\<close>, \<^verbatim>\<open>List\<close> and \<^verbatim>\<open>CreateTags\<close> calls is made and whatever the Compute service answers, every cached
  instance is in the cluster's location or carries no location, and so are the results of \<^verbatim>\<open>Get\<close>, under
  the name that was asked for, and of \<^verbatim>\<open>List\<close>.\<close>

theorem instances_owned:
  assumes "(store_step e a)\<^sup>*\<^sup>* st0 st" "is_cache st0 = NewInstanceCache"
  shows "(\<forall>inst st'. InstanceGet e a providerID st = (Inr inst, st') \<longrightarrow>
      belongsToCluster e inst \<and> (\<exists>p z. parseGCEProviderID providerID = Inr (p, z, in_InstanceID inst)))
    \<and> (\<forall>insts st'. InstanceList e a st = (Inr insts, st') \<longrightarrow> (\<forall>inst \<in> set insts. belongsToCluster e inst))"
proof -
  have ok: "store_ok e st"
    using assms(1) by (induction rule: rtranclp_induct) (auto simp: store_ok_new [OF assms(2)] intro: store_step_ok)
  have get: "belongsToCluster e inst \<and> (\<exists>p z. parseGCEProviderID providerID = Inr (p, z, in_InstanceID inst))"
    if g: "InstanceGet e a providerID st = (Inr inst, st')" for inst st'
  proof -
    obtain p z n where p: "parseGCEProviderID providerID = Inr (p, z, n)"
      using g by (cases "parseGCEProviderID providerID") (simp add: InstanceGet_def, metis prod_cases3)
    have "belongsToCluster e inst \<and> in_InstanceID inst = n"
    proof (cases "cache_get (la_now a (is_ext st)) n (is_cache st)")
      case None
      obtain r st1 where s: "syncInstances e a st = (r, st1)" by (metis prod.exhaust)
      with g p None have "cache_get (la_now a (is_ext st1)) n (is_cache st1) = Some inst"
        by (auto simp: InstanceGet_def split: option.splits)
      then show ?thesis by (rule store_ok_get [OF syncInstances_ok [OF ok s]])
    qed (use g p store_ok_get [OF ok] in \<open>auto simp: InstanceGet_def\<close>)
    with p show ?thesis by blast
  qed
  have list: "\<forall>inst \<in> set insts. belongsToCluster e inst" if l: "InstanceList e a st = (Inr insts, st')" for insts st'
  proof -
    have "store_ok e st'" using InstanceList_ok [OF ok, of a] l by simp
    moreover have "insts = map snd (cache_items (la_now a (is_ext st')) (is_cache st'))"
      using l by (auto simp: InstanceList_def split: prod.splits option.splits)
    ultimately show ?thesis by (fastforce simp: store_ok_def cache_items_def)
  qed
  show ?thesis using get list by blast
qed

text \<open>A successful synchronisation makes every instance of the cluster that the Compute service lists available by its
  name, for the fifteen seconds of the cache and no longer, and leaves all other names alone.\<close>

theorem syncInstances_refreshes:
  assumes "syncInstances e a st = (None, st')" "store_ok e st" "0 < la_now a (is_ext st')"
    and "getZonesInRegion e a (is_ext st) = (Inr zones, s)" "list_zones e a zones s = (Inr insts, s')"
  shows "if name \<in> in_InstanceID ` {i \<in> set insts. belongsToCluster e i}
    then (cache_get t name (is_cache st') \<noteq> None \<longleftrightarrow> t \<le> la_now a (is_ext st') + 15 * 10 ^ 9)
    else cache_get t name (is_cache st') = cache_get t name (is_cache st)"
proof -
  let ?kvs = "map (\<lambda>i. (in_InstanceID i, i)) (filter (belongsToCluster e) insts)"
  let ?now = "la_now a (is_ext st')"
  from assms(1) have c: "is_cache st' = gc.put_all ?now instanceCacheExpiration ?kvs (is_cache st)"
  proof (cases rule: syncInstances_cases)
    case (synced zones' s1 insts')
    with assms(4,5) have "insts' = insts" by simp
    with synced(4) assms(2) show ?thesis by (simp add: store_ok_def refresh_put_all)
  qed simp
  have k: "fst ` set ?kvs = in_InstanceID ` {i \<in> set insts. belongsToCluster e i}" by force
  show ?thesis
  proof (cases "name \<in> fst ` set ?kvs")
    case True
    have e: "0 < instanceCacheExpiration" by (simp add: instanceCacheExpiration_def second_def)
    note look = gc.look_put_all [OF assms(3) e True, of t "is_cache st"]
    have "cache_get t name (is_cache st') \<noteq> None \<longleftrightarrow> t \<le> ?now + instanceCacheExpiration"
      unfolding c using look by (cases "t \<le> ?now + instanceCacheExpiration") auto
    with True show ?thesis unfolding k by (simp add: instanceCacheExpiration_def second_def)
  next
    case False
    with gc.look_put_all_other [OF False] show ?thesis unfolding k c by simp
  qed
qed

subsection \<open>A small Compute service\<close>

definition example_vm :: "string \<Rightarrow> string \<Rightarrow> compute_instance" where
  "example_vm name loc = zero_instance\<lparr>ci_Name := name, ci_MachineType := ''zones/us-a/machineTypes/e2-medium'', ci_Status := ''RUNNING'',
     ci_Labels := [(''karpenter-sh-nodepool'', ''pool''), (''goog-k8s-cluster-location'', loc)]\<rparr>"

definition example_lifecycle :: "unit lifecycle_api" where
  "example_lifecycle = \<lparr>la_now = (\<lambda>_. 10), la_parseTime = (\<lambda>_. None), la_RegionsGet = (\<lambda>_ _ s. (Inr [''regions/zones/us-a''], s)),
     la_InstancesList = (\<lambda>_ _ _ s. (Inr [[example_vm ''n1'' ''us-central1''], [example_vm ''n2'' ''elsewhere'']], s)),
     la_InstancesGet = (\<lambda>_ _ n s. (Inr (example_vm n ''us-central1''), s)),
     la_InstancesDelete = (\<lambda>_ _ _ s. (Inr \<lparr>op_Name = [], op_Status = [], op_Error = None\<rparr>, s)),
     la_SetLabels = (\<lambda>_ _ _ _ _ s. (Inr \<lparr>op_Name = [], op_Status = [], op_Error = None\<rparr>, s))\<rparr>"

definition example_store :: "unit instance_store" where
  "example_store = \<lparr>is_ext = (), is_cache = NewInstanceCache\<rparr>"

theorem instances_owned_witness:
  "map in_Name (case fst (InstanceList example_build_env example_lifecycle example_store) of Inr is \<Rightarrow> is | Inl _ \<Rightarrow> []) = [''n1'']
   \<and> (\<exists>inst. fst (InstanceGet example_build_env example_lifecycle ''gce://p/us-a/n1'' example_store) = Inr inst
        \<and> belongsToCluster example_build_env inst)"
proof -
  let ?get = "InstanceGet example_build_env example_lifecycle ''gce://p/us-a/n1'' example_store"
  have c: "is_cache example_store = NewInstanceCache" by (simp add: example_store_def)
  have l: "map in_Name (case fst (InstanceList example_build_env example_lifecycle example_store) of Inr is \<Rightarrow> is | Inl _ \<Rightarrow> []) = [''n1'']"
    by code_simp
  have "case fst ?get of Inl _ \<Rightarrow> False | Inr _ \<Rightarrow> True" by code_simp
  then obtain inst st' where g: "?get = (Inr inst, st')" by (cases ?get) (auto split: sum.splits)
  from instances_owned [OF rtranclp.rtrancl_refl c, of example_build_env example_lifecycle "''gce://p/us-a/n1''"] g
  have "belongsToCluster example_build_env inst" by blast
  with l g show ?thesis by simp
qed

theorem syncInstances_refreshes_witness:
  "\<exists>st'. syncInstances example_build_env example_lifecycle example_store = (None, st') \<and> cache_get 20 ''n1'' (is_cache st') \<noteq> None"
proof -
  let ?a = example_lifecycle
  let ?insts = "map (synced_Instance example_build_env ?a () ''us-a'') [example_vm ''n1'' ''us-central1'', example_vm ''n2'' ''elsewhere'']"
  have z: "getZonesInRegion example_build_env ?a (is_ext example_store) = (Inr [''us-a''], ())"
    by (simp add: getZonesInRegion_def example_lifecycle_def)
  have l: "list_zones example_build_env ?a [''us-a''] () = (Inr ?insts, ())" by (simp add: example_lifecycle_def synced_Instance_def)
  have r: "fst (syncInstances example_build_env ?a example_store) = None" using z l by (simp add: syncInstances_def)
  then obtain st' where s: "syncInstances example_build_env ?a example_store = (None, st')" by (metis prod.collapse)
  have ok: "store_ok example_build_env example_store" by (rule store_ok_new) (simp add: example_store_def)
  have now: "0 < la_now ?a (is_ext st')" "20 \<le> la_now ?a (is_ext st') + 15 * 10 ^ 9" by (simp_all add: example_lifecycle_def)
  have b: "belongsToCluster example_build_env (hd ?insts)" by code_simp
  have "''n1'' \<in> in_InstanceID ` {i \<in> set ?insts. belongsToCluster example_build_env i}"
    by (rule image_eqI [of _ _ "hd ?insts"]) (use b in \<open>auto simp: synced_Instance_def example_vm_def\<close>)
  with syncInstances_refreshes [OF s ok now(1) z l, of "''n1''" 20] now(2) s show ?thesis by auto
qed

subsection \<open>The interface for those who list instances\<close>

text \<open>A lister of instances with an ownership test: as long as its state is well-formed, everything it lists is
  owned. The cloud provider and the garbage collector rest on this and not on the cache.\<close>

locale owned_lister =
  fixes ok :: "'st \<Rightarrow> bool" and owned :: "Instance \<Rightarrow> bool"
    and list_instances :: "'st \<Rightarrow> (go_error + Instance list) \<times> 'st"
  assumes list_keeps: "ok st \<Longrightarrow> ok (snd (list_instances st))"
    and list_owned: "ok st \<Longrightarrow> list_instances st = (Inr insts, st') \<Longrightarrow> inst \<in> set insts \<Longrightarrow> owned inst"

lemma InstanceList_owned:
  assumes "store_ok e st" "InstanceList e a st = (Inr insts, st')" "inst \<in> set insts"
  shows "belongsToCluster e inst"
proof -
  have "store_ok e st'" using InstanceList_ok [OF assms(1), of a] assms(2) by simp
  moreover have "insts = map snd (cache_items (la_now a (is_ext st')) (is_cache st'))"
    using assms(2) by (auto simp: InstanceList_def split: prod.splits option.splits)
  ultimately show ?thesis using assms(3) by (fastforce simp: store_ok_def cache_items_def)
qed

interpretation il: owned_lister "store_ok e" "belongsToCluster e" "InstanceList e a" for e a
  by unfold_locales (rule InstanceList_ok, assumption, rule InstanceList_owned)

end
