(* ===== verification/Cloud_Provider.thy ===== *)
theory Cloud_Provider
  imports Instance_Lifecycle
begin

text \<open>
  The cloud provider that karpenter core calls (\<^verbatim>\<open>pkg/cloudprovider/cloudprovider.go\<close> and \<^verbatim>\<open>drift.go\<close>): creating, listing, getting and
  deleting node claims on top of the instance provider and the instance-type provider, the
  instance types offered for scheduling, and drift. \<open>cp_deps\<close> holds the interfaces it calls: the Kubernetes
  client's reads, the two providers, the node overlay store and the feature gate. Events and logs are left out.
\<close>

subsection \<open>Resource lists\<close>

text \<open>\<^verbatim>\<open>resources.Merge\<close>, \<^verbatim>\<open>Subtract\<close> and \<^verbatim>\<open>Fits\<close> of karpenter core, and \<^verbatim>\<open>computeAllocatable\<close> without overrides, which this provider
  never sets.\<close>

definition quantity :: "resources \<Rightarrow> string \<Rightarrow> int" where
  "quantity rs k = (case map_get rs k of Some q \<Rightarrow> q | None \<Rightarrow> 0)"

fun merge_into :: "resources \<Rightarrow> resources \<Rightarrow> resources" where
  "merge_into acc [] = acc"
| "merge_into acc ((k, q) # rs) = merge_into (map_set k (quantity acc k + q) acc) rs"

definition resources_Subtract :: "resources \<Rightarrow> resources \<Rightarrow> resources" where
  "resources_Subtract lhs rhs = map (\<lambda>(k, q). (k, q - quantity rhs k)) lhs"

definition resources_Fits :: "resources \<Rightarrow> resources \<Rightarrow> bool" where
  "resources_Fits candidate avail \<longleftrightarrow> list_all (\<lambda>(k, q). 0 \<le> q) avail \<and> list_all (\<lambda>(k, q). q \<le> quantity avail k) candidate"

definition Allocatable :: "instance_type \<Rightarrow> resources" where
  "Allocatable it = (let
      overhead = merge_into (merge_into (merge_into [] (it_kubeReserved it)) (it_systemReserved it)) (it_evictionThreshold it);
      alloc = resources_Subtract (it_capacity it) overhead
    in foldl (\<lambda>a (k, q). if has_prefix k ''hugepages-'' then map_set ''memory'' (max 0 (quantity a ''memory'' - q)) a else a) alloc (it_capacity it))"

subsection \<open>What the cloud provider calls\<close>

record 's cp_deps =
  cpd_now :: "'s \<Rightarrow> instant"
  cpd_GetNodeClass :: "string \<Rightarrow> 's \<Rightarrow> go_error + GCENodeClass"
  cpd_GetNodePool :: "string \<Rightarrow> 's \<Rightarrow> go_error + NodePool"
  cpd_ListInstanceTypes :: "GCENodeClass \<Rightarrow> 's \<Rightarrow> (go_error + instance_type list) \<times> 's"
  cpd_Adopt :: "NodeClaim \<Rightarrow> 's \<Rightarrow> (go_error + Instance option) \<times> 's"
  cpd_CreateInstance :: "GCENodeClass \<Rightarrow> NodeClaim \<Rightarrow> instance_type list \<Rightarrow> 's \<Rightarrow> (go_error + Instance) \<times> 's"
  cpd_GetInstance :: "string \<Rightarrow> 's \<Rightarrow> (go_error + Instance) \<times> 's"
  cpd_ListInstances :: "'s \<Rightarrow> (go_error + Instance list) \<times> 's"
  cpd_DeleteInstance :: "string \<Rightarrow> 's \<Rightarrow> go_error option \<times> 's"
  cpd_NodeOverlay :: bool \<comment> \<open>the feature gate\<close>
  cpd_Apply :: "string \<Rightarrow> instance_type \<Rightarrow> go_error + instance_type"
  cpd_ApplyAll :: "string \<Rightarrow> instance_type list \<Rightarrow> go_error + instance_type list"
  cpd_wellKnown :: "string \<Rightarrow> bool"
  cpd_rnd :: "int \<Rightarrow> int"
  cpd_hashstructure :: "GCENodeClassSpec \<times> string \<Rightarrow> nat"

definition errNodeClassTerminating :: go_error where "errNodeClassTerminating = SentinelError ''GCENodeClass is terminating''"

definition IsNotFound :: "go_error \<Rightarrow> bool" where "IsNotFound err \<longleftrightarrow> status_is ''NotFound'' err"

definition find_condition :: "string \<Rightarrow> Condition list \<Rightarrow> Condition" where
  "find_condition t cs = (case List.find (\<lambda>c. cond_Type c = t) cs of Some c \<Rightarrow> c
     | None \<Rightarrow> \<lparr>cond_Type = t, cond_Status = CondUnknown, cond_Reason = ''AwaitingReconciliation'',
         cond_Message = ''object is awaiting reconciliation''\<rparr>)"

definition resolveNodeClassFromNodeClaim :: "'s cp_deps \<Rightarrow> NodeClaim \<Rightarrow> 's \<Rightarrow> go_error + GCENodeClass" where
  "resolveNodeClassFromNodeClaim d claim s = (case ncm_NodeClassRef claim of
      None \<Rightarrow> Inl (Errorf ''nodeClaim missing NodeClassRef'' [] []) | Some ref \<Rightarrow> cpd_GetNodeClass d (ref_Name ref) s)"

text \<open>A node pool without a reference makes the code dereference a nil pointer; its API schema requires one.\<close>

definition resolveNodeClassFromNodePool :: "'s cp_deps \<Rightarrow> NodePool \<Rightarrow> 's \<Rightarrow> go_error + GCENodeClass" where
  "resolveNodeClassFromNodePool d pool s = (case npl_NodeClassRef pool of
      None \<Rightarrow> Inl (SentinelError ''nil pointer dereference'')
    | Some ref \<Rightarrow> (case cpd_GetNodeClass d (ref_Name ref) s of Inl err \<Rightarrow> Inl err
       | Inr nc \<Rightarrow> if om_DeletionTimestamp (ncl_Meta nc) \<noteq> None then Inl errNodeClassTerminating else Inr nc))"

subsection \<open>Instance types\<close>

definition gceCountKey :: string where "gceCountKey = SanitizeGCELabelValue LabelInstanceLocalSsdCount"

definition pins_count :: "instance_type \<Rightarrow> string \<Rightarrow> bool" where
  "pins_count it v \<longleftrightarrow> (let req = reqs_get (it_requirements it) LabelInstanceLocalSsdCount in
     req_operator req = OpIn \<and> req_len req = 1 \<and> hd (req_values req) = v)"

fun match_loop :: "string \<Rightarrow> string option \<Rightarrow> instance_type option \<Rightarrow> instance_type list \<Rightarrow> instance_type option" where
  "match_loop name want fallback [] = fallback"
| "match_loop name want fallback (i # its) = (if it_name i \<noteq> name then match_loop name want fallback its
     else (let fallback = (if fallback = None then Some i else fallback) in
       case want of None \<Rightarrow> Some i
       | Some n \<Rightarrow> if pins_count i n then Some i else match_loop name want fallback its))"

definition matchVariantForInstance :: "instance_type list \<Rightarrow> Instance \<Rightarrow> instance_type option" where
  "matchVariantForInstance its inst = match_loop (in_Type inst) (map_get (in_Labels inst) gceCountKey) None its"

definition any_count :: "'s cp_deps \<Rightarrow> instance_type \<Rightarrow> string" where
  "any_count d it = req_any (cpd_rnd d) (reqs_get (it_requirements it) LabelInstanceLocalSsdCount)"

definition resolveCreatedInstanceType ::
  "'s cp_deps \<Rightarrow> GCENodeClass \<Rightarrow> instance_type list \<Rightarrow> Instance \<Rightarrow> 's \<Rightarrow> (go_error + instance_type option) \<times> 's" where
  "resolveCreatedInstanceType d nc its inst s = (let it = matchVariantForInstance its inst in
     case map_get (in_Labels inst) gceCountKey of None \<Rightarrow> (Inr it, s)
     | Some n \<Rightarrow> if (case it of Some t \<Rightarrow> any_count d t = n | None \<Rightarrow> False) then (Inr it, s)
         else (case cpd_ListInstanceTypes d nc s of
             (Inl err, s) \<Rightarrow> (Inl (CreateError (Errorf ''resolving adopted instance type, %w'' [] [err])
               ''InstanceTypeResolutionFailed'' ''Error resolving adopted instance type''), s)
           | (Inr allTypes, s) \<Rightarrow> (case matchVariantForInstance allTypes inst of
               Some t \<Rightarrow> if any_count d t = n then (Inr (Some t), s)
                 else (Inl (CreateError (Errorf ''instance %s has local SSD count %q without a matching variant for %s''
                   [in_Name inst, n, in_Type inst] []) ''LocalSSDCountMismatch'' ''Existing instance local SSD count has no matching variant''), s)
             | None \<Rightarrow> (Inl (CreateError (Errorf ''instance %s has local SSD count %q without a matching variant for %s''
                   [in_Name inst, n, in_Type inst] []) ''LocalSSDCountMismatch'' ''Existing instance local SSD count has no matching variant''), s))))"

definition resolveInstanceTypes ::
  "'s cp_deps \<Rightarrow> NodeClaim \<Rightarrow> GCENodeClass \<Rightarrow> 's \<Rightarrow> (go_error + instance_type list) \<times> 's" where
  "resolveInstanceTypes d claim nc s = (case cpd_ListInstanceTypes d nc s of
      (Inl err, s) \<Rightarrow> (Inl err, s)
    | (Inr its, s) \<Rightarrow> (let reqs = claim_reqs claim;
        pick = filter (\<lambda>i. reqs_compatible (cpd_wellKnown d) reqs (it_requirements i)
          \<and> offerings_available (offerings_compatible (cpd_wellKnown d) (it_offerings i) reqs) \<noteq> []
          \<and> resources_Fits (ncm_Requests claim) (Allocatable i))
      in case map_get (ncm_Labels claim) NodePoolLabelKey of
           Some pool \<Rightarrow> if cpd_NodeOverlay d then (case cpd_ApplyAll d pool its of
               Inl err \<Rightarrow> (Inl (Errorf ''applying nodeoverlays, %w'' [] [err]), s) | Inr its \<Rightarrow> (Inr (pick its), s))
             else (Inr (pick its), s)
         | None \<Rightarrow> (Inr (pick its), s)))"

definition NewLabelRequirements :: "labels \<Rightarrow> requirements" where
  "NewLabelRequirements ls = NewRequirements (map (\<lambda>(k, v). NewRequirement k OpIn [v]) ls)"

definition instanceTypesForScheduling :: "NodePool \<Rightarrow> instance_type list \<Rightarrow> instance_type list" where
  "instanceTypesForScheduling pool its = (let
      reqs = NewNodeSelectorRequirementsWithMinValues (npl_TemplateRequirements pool);
      reqs = foldl reqs_add reqs (map snd (NewLabelRequirements (npl_TemplateLabels pool)))
    in if map_has reqs LabelInstanceLocalSsdCount then its
       else filter (\<lambda>it. if \<not> FamilySupportsConfigurableLocalSSDs (it_name it) then True else pins_count it ''0'') its)"

definition unavailable_type :: "instance_type \<Rightarrow> instance_type" where
  "unavailable_type it = it\<lparr>it_offerings := map (\<lambda>f. f\<lparr>of_available := False\<rparr>) (it_offerings it)\<rparr>"

definition GetInstanceTypes :: "'s cp_deps \<Rightarrow> NodePool \<Rightarrow> 's \<Rightarrow> (go_error + instance_type list) \<times> 's" where
  "GetInstanceTypes d pool s = (case resolveNodeClassFromNodePool d pool s of
      Inl err \<Rightarrow> if is_sentinel ''GCENodeClass is terminating'' err then (Inr [], s)
        else (Inl (Errorf ''resolving node class, %w'' [] [err]), s)
    | Inr nc \<Rightarrow> (case cpd_ListInstanceTypes d nc s of
        (Inl err, s) \<Rightarrow> (Inl err, s)
      | (Inr its, s) \<Rightarrow> (Inr (map (\<lambda>it.
          if condition_is_true ConditionTypeImagesReady (st_Conditions (ncl_Status nc))
             \<and> FindImage (cpd_wellKnown d) (st_Images (ncl_Status nc)) (it_requirements it) \<noteq> None then it
          else unavailable_type it) (instanceTypesForScheduling pool its)), s)))"

definition getAllInstanceTypes :: "'s cp_deps \<Rightarrow> NodePool \<Rightarrow> 's \<Rightarrow> (go_error + instance_type list) \<times> 's" where
  "getAllInstanceTypes d pool s = (case resolveNodeClassFromNodePool d pool s of Inl err \<Rightarrow> (Inl err, s)
    | Inr nc \<Rightarrow> cpd_ListInstanceTypes d nc s)"

definition resolveNodePoolFromInstance :: "'s cp_deps \<Rightarrow> Instance \<Rightarrow> 's \<Rightarrow> go_error + NodePool" where
  "resolveNodePoolFromInstance d inst s = (let name = map_str (in_Labels inst) (SanitizeGCELabelValue LabelNodePoolKey) in
     if name = [] then Inl (Errorf ''missing nodepool label'' [] []) else cpd_GetNodePool d name s)"

definition ignore_not_found :: "go_error \<Rightarrow> go_error + instance_type option" where
  "ignore_not_found err = (if IsNotFound err then Inr None else Inl err)"

definition resolveInstanceTypeFromInstance :: "'s cp_deps \<Rightarrow> Instance \<Rightarrow> 's \<Rightarrow> (go_error + instance_type option) \<times> 's" where
  "resolveInstanceTypeFromInstance d inst s = (case resolveNodePoolFromInstance d inst s of
      Inl err \<Rightarrow> (ignore_not_found (Errorf ''resolving nodepool, %w'' [] [err]), s)
    | Inr pool \<Rightarrow> (case getAllInstanceTypes d pool s of
        (Inl err, s) \<Rightarrow> (ignore_not_found (Errorf ''getting instance types, %w'' [] [err]), s)
      | (Inr its, s) \<Rightarrow> (case matchVariantForInstance its inst of
          None \<Rightarrow> (Inr None, s)
        | Some it \<Rightarrow> if cpd_NodeOverlay d then (case cpd_Apply d (om_Name (npl_Meta pool)) it of
              Inl err \<Rightarrow> (Inl (Errorf ''applying nodeoverlays, %w'' [] [err]), s) | Inr it \<Rightarrow> (Inr (Some it), s))
            else (Inr (Some it), s))))"

subsection \<open>Node claims\<close>

definition instanceToNodeClaim :: "instant \<Rightarrow> Instance \<Rightarrow> instance_type option \<Rightarrow> NodeClaim" where
  "instanceToNodeClaim now i it = (let
      ls = GetAllSingleValuedRequirementLabels it;
      ls = map_set LabelInstanceTypeStable (in_Type i) ls;
      ls = map_set LabelTopologyZone (in_Location i) ls;
      ls = map_set CapacityTypeLabelKey (in_CapacityType i) ls;
      ls = (case map_get (in_Labels i) (SanitizeGCELabelValue LabelNodePoolKey) of Some v \<Rightarrow> map_set NodePoolLabelKey v ls | None \<Rightarrow> ls);
      ls = (case map_get (in_Labels i) LabelClusterLocationKey of Some v \<Rightarrow> map_set LabelClusterLocationKey v ls | None \<Rightarrow> ls);
      pick = filter (\<lambda>(k, q). q \<noteq> (0::int))
    in zero_nodeClaim\<lparr>
        ncm_Meta := zero_meta\<lparr>om_Labels := ls, om_CreationTimestamp := in_CreationTime i,
          om_DeletionTimestamp := (if in_Status i = InstanceStatusTerminated \<or> in_Status i = InstanceStatusStopping then Some now else None)\<rparr>,
        ncm_Capacity := (case it of Some t \<Rightarrow> pick (it_capacity t) | None \<Rightarrow> []),
        ncm_Allocatable := (case it of Some t \<Rightarrow> pick (Allocatable t) | None \<Rightarrow> []),
        ncm_ProviderID := ''gce://'' @ in_ProjectID i @ ''/'' @ in_Location i @ ''/'' @ in_Name i,
        ncm_ImageID := in_ImageID i\<rparr>)"

definition readiness_error :: "GCENodeClass \<Rightarrow> go_error option" where
  "readiness_error nc = (let c = find_condition ''Ready'' (st_Conditions (ncl_Status nc)) in case cond_Status c of
      CondFalse \<Rightarrow> Some (NodeClassNotReadyError (Errorf (cond_Message c) [] []))
    | CondUnknown \<Rightarrow> Some (CreateError (Errorf ''resolving NodeClass readiness, NodeClass is in Ready=Unknown, %s'' [cond_Message c] [])
        ''NodeClassReadinessUnknown'' ''NodeClass is in Ready=Unknown'')
    | CondTrue \<Rightarrow> None)"

text \<open>The instance and the instance types to resolve its own type from: adopted when the class is not ready, launched
  otherwise.\<close>

definition obtain_instance ::
  "'s cp_deps \<Rightarrow> GCENodeClass \<Rightarrow> NodeClaim \<Rightarrow> go_error option \<Rightarrow> 's \<Rightarrow> (go_error + Instance \<times> instance_type list) \<times> 's" where
  "obtain_instance d nc claim readinessErr s = (case readinessErr of
      Some rerr \<Rightarrow> (case cpd_Adopt d claim s of
          (Inl err, s) \<Rightarrow> (Inl (Errorf ''adopting instance, %w'' [] [err]), s)
        | (Inr None, s) \<Rightarrow> (Inl rerr, s)
        | (Inr (Some inst), s) \<Rightarrow> (case cpd_ListInstanceTypes d nc s of
            (Inl err, s) \<Rightarrow> (Inl (CreateError (Errorf ''resolving adopted instance type, %w'' [] [err])
               ''InstanceTypeResolutionFailed'' ''Error resolving adopted instance type''), s)
          | (Inr its, s) \<Rightarrow> (Inr (inst, its), s)))
    | None \<Rightarrow> (case resolveInstanceTypes d claim nc s of
          (Inl err, s) \<Rightarrow> (Inl (CreateError (Errorf ''resolving instance types, %w'' [] [err])
             ''InstanceTypeResolutionFailed'' ''Error resolving instance types''), s)
        | (Inr its, s) \<Rightarrow> if its = [] then
              (Inl (InsufficientCapacityError (Errorf ''all requested instance types were unavailable during launch'' [] [])), s)
            else (case cpd_CreateInstance d nc claim its s of
                (Inl err, s) \<Rightarrow> (Inl (Errorf ''creating instance, %w'' [] [err]), s)
              | (Inr inst, s) \<Rightarrow> (Inr (inst, its), s))))"

definition overlay_adopted :: "'s cp_deps \<Rightarrow> NodeClaim \<Rightarrow> go_error option \<Rightarrow> instance_type option \<Rightarrow> go_error + instance_type option" where
  "overlay_adopted d claim readinessErr it = (case (readinessErr, it, map_get (ncm_Labels claim) NodePoolLabelKey) of
      (Some _, Some t, Some pool) \<Rightarrow> if cpd_NodeOverlay d then (case cpd_Apply d pool t of
          Inl err \<Rightarrow> Inl (Errorf ''applying nodeoverlays, %w'' [] [err]) | Inr t \<Rightarrow> Inr (Some t)) else Inr it
    | _ \<Rightarrow> Inr it)"

text \<open>The rest of \<^verbatim>\<open>Create\<close>, after the readiness check; an invalid image alias ends the process when the hash is taken.\<close>

definition complete_creation :: "'s cp_deps \<Rightarrow> NodeClaim \<Rightarrow> GCENodeClass \<Rightarrow> go_error option \<Rightarrow> 's \<Rightarrow> (go_error + NodeClaim) \<times> 's" where
  "complete_creation d claim nc rerr s = (case obtain_instance d nc claim rerr s of
      (Inl err, s) \<Rightarrow> (Inl err, s)
    | (Inr (inst, its), s) \<Rightarrow> (case resolveCreatedInstanceType d nc its inst s of
        (Inl err, s) \<Rightarrow> (Inl err, s)
      | (Inr it, s) \<Rightarrow> (case overlay_adopted d claim rerr it of
          Inl err \<Rightarrow> (Inl err, s)
        | Inr it \<Rightarrow> (let cl = instanceToNodeClaim (cpd_now d s) inst it in case Hash (cpd_hashstructure d) nc of
            None \<Rightarrow> (Inl (SentinelError ''log.Fatalf''), s)
          | Some h \<Rightarrow> (Inr (cl\<lparr>ncm_Meta := (ncm_Meta cl)\<lparr>om_Annotations := map_lit
              [(AnnotationGCENodeClassHash, h), (AnnotationGCENodeClassHashVersion, GCENodeClassHashVersion)]\<rparr>\<rparr>), s)))))"

definition cp_Create :: "'s cp_deps \<Rightarrow> NodeClaim \<Rightarrow> 's \<Rightarrow> (go_error + NodeClaim) \<times> 's" where
  "cp_Create d claim s = (case resolveNodeClassFromNodeClaim d claim s of
      Inl err \<Rightarrow> (Inl (InsufficientCapacityError (Errorf ''resolving node class, %w'' [] [err])), s)
    | Inr nc \<Rightarrow> (case (readiness_error nc, condition_is_true ConditionTypeImagesReady (st_Conditions (ncl_Status nc))) of
          (Some err, True) \<Rightarrow> (Inl err, s)
        | (rerr, _) \<Rightarrow> complete_creation d claim nc rerr s))"

fun claims_of :: "'s cp_deps \<Rightarrow> Instance list \<Rightarrow> 's \<Rightarrow> (go_error + NodeClaim list) \<times> 's" where
  "claims_of d [] s = (Inr [], s)"
| "claims_of d (i # is) s = (case resolveInstanceTypeFromInstance d i s of
      (Inl err, s) \<Rightarrow> (Inl (Errorf ''resolving instance type, %w'' [] [err]), s)
    | (Inr it, s) \<Rightarrow> (case claims_of d is s of (Inl err, s') \<Rightarrow> (Inl err, s')
       | (Inr cs, s') \<Rightarrow> (Inr (instanceToNodeClaim (cpd_now d s) i it # cs), s')))"

definition cp_List :: "'s cp_deps \<Rightarrow> 's \<Rightarrow> (go_error + NodeClaim list) \<times> 's" where
  "cp_List d s = (case cpd_ListInstances d s of
      (Inl err, s) \<Rightarrow> (Inl (Errorf ''listing instances, %w'' [] [err]), s)
    | (Inr is, s) \<Rightarrow> claims_of d is s)"

definition cp_Get :: "'s cp_deps \<Rightarrow> string \<Rightarrow> 's \<Rightarrow> (go_error + NodeClaim) \<times> 's" where
  "cp_Get d providerID s = (case cpd_GetInstance d providerID s of
      (Inl err, s) \<Rightarrow> (Inl (Errorf ''getting instance, %w'' [] [err]), s)
    | (Inr inst, s) \<Rightarrow> (case resolveInstanceTypeFromInstance d inst s of
        (Inl err, s) \<Rightarrow> (Inl (Errorf ''resolving instance type, %w'' [] [err]), s)
      | (Inr it, s) \<Rightarrow> (Inr (instanceToNodeClaim (cpd_now d s) inst it), s)))"

definition cp_Delete :: "'s cp_deps \<Rightarrow> NodeClaim \<Rightarrow> 's \<Rightarrow> go_error option \<times> 's" where
  "cp_Delete d claim s = (if ncm_ProviderID claim = [] then
      (Some (NodeClaimNotFoundError (Errorf ''nodeclaim has no providerID'' [] [])), s)
    else cpd_DeleteInstance d (ncm_ProviderID claim) s)"

subsection \<open>Drift\<close>

definition NodeClassDrift :: string where [go_defs]: "NodeClassDrift = ''NodeClassDrift''"
definition ImageDrift :: string where [go_defs]: "ImageDrift = ''ImageDrift''"

definition imageReplacementRequirements :: "NodeClaim \<Rightarrow> requirements" where
  "imageReplacementRequirements claim = (let
      spec = claim_reqs claim;
      reqs = (case map_get (ncm_Labels claim) LabelArchStable of
          Some v \<Rightarrow> reqs_add [] (NewRequirement LabelArchStable OpIn [v])
        | None \<Rightarrow> (case map_get spec LabelArchStable of Some r \<Rightarrow> reqs_add [] r | None \<Rightarrow> []))
    in case map_get (ncm_Labels claim) LabelInstanceGPUCount of
        Some n \<Rightarrow> reqs_add reqs (NewRequirement LabelInstanceGPUCount OpIn [n])
      | None \<Rightarrow> if map_has (ncm_Labels claim) LabelArchStable
          then reqs_add reqs (NewRequirement LabelInstanceGPUCount OpDoesNotExist [])
          else (case map_get spec LabelInstanceGPUCount of Some r \<Rightarrow> reqs_add reqs r | None \<Rightarrow> reqs))"

definition areStaticFieldsDrifted :: "NodeClaim \<Rightarrow> GCENodeClass \<Rightarrow> string" where
  "areStaticFieldsDrifted claim nc = (let cla = om_Annotations (ncl_Meta nc); cma = om_Annotations (ncm_Meta claim) in
     case (map_get cla AnnotationGCENodeClassHash, map_get cma AnnotationGCENodeClassHash,
           map_get cla AnnotationGCENodeClassHashVersion, map_get cma AnnotationGCENodeClassHashVersion) of
       (Some h, Some h', Some v, Some v') \<Rightarrow> if v \<noteq> v' then [] else if h \<noteq> h' then NodeClassDrift else []
     | _ \<Rightarrow> [])"

definition isImageDrifted :: "'s cp_deps \<Rightarrow> NodeClaim \<Rightarrow> GCENodeClass \<Rightarrow> string" where
  "isImageDrifted d claim nc = (let images = st_Images (ncl_Status nc) in
     if list_ex (\<lambda>im. has_suffix (ncm_ImageID claim) (im_SourceImage im)) images then []
     else if \<not> condition_is_true ConditionTypeImagesReady (st_Conditions (ncl_Status nc)) then []
     else if FindImage (cpd_wellKnown d) images (imageReplacementRequirements claim) = None then []
     else ImageDrift)"

definition isNodeClassDrifted :: "'s cp_deps \<Rightarrow> NodeClaim \<Rightarrow> GCENodeClass \<Rightarrow> string" where
  "isNodeClassDrifted d claim nc = (if areStaticFieldsDrifted claim nc \<noteq> [] then areStaticFieldsDrifted claim nc
     else if isImageDrifted d claim nc \<noteq> [] then isImageDrifted d claim nc else [])"

definition IsDrifted :: "'s cp_deps \<Rightarrow> NodeClaim \<Rightarrow> 's \<Rightarrow> go_error + string" where
  "IsDrifted d claim s = (case map_get (ncm_Labels claim) NodePoolLabelKey of None \<Rightarrow> Inr []
    | Some name \<Rightarrow> (case cpd_GetNodePool d name s of
        Inl err \<Rightarrow> if IsNotFound err then Inr [] else Inl err
      | Inr pool \<Rightarrow> if npl_NodeClassRef pool = None then Inr []
          else (case resolveNodeClassFromNodePool d pool s of
              Inl err \<Rightarrow> if is_sentinel ''GCENodeClass is terminating'' err then Inr []
                else if IsNotFound err then Inr [] else Inl (Errorf ''resolving node class, %w'' [] [err])
            | Inr nc \<Rightarrow> Inr (isNodeClassDrifted d claim nc))))"

subsection \<open>The variant of an existing instance\<close>

lemma match_loop_name: "match_loop name want fb its = Some it \<Longrightarrow> (it \<in> set its \<and> it_name it = name) \<or> fb = Some it"
  by (induction name want fb its rule: match_loop.induct) (auto simp: Let_def split: if_splits option.splits)

lemma match_loop_find:
  "match_loop name want fb its = (let named = filter (\<lambda>i. it_name i = name) its; first = (case named of [] \<Rightarrow> None | i # _ \<Rightarrow> Some i) in
     case want of
       None \<Rightarrow> (case first of Some i \<Rightarrow> Some i | None \<Rightarrow> fb)
     | Some n \<Rightarrow> (case List.find (\<lambda>i. pins_count i n) named of Some i \<Rightarrow> Some i
         | None \<Rightarrow> (case fb of Some i \<Rightarrow> Some i | None \<Rightarrow> first)))"
proof (induction its arbitrary: fb)
  case Nil
  then show ?case by (simp split: option.splits)
next
  case (Cons i its)
  show ?case
  proof (cases "it_name i = name")
    case False
    then show ?thesis using Cons by simp
  next
    case True
    then show ?thesis using Cons by (cases want; cases fb) (auto simp: Let_def split: option.splits)
  qed
qed

text \<open>An existing instance is matched with the instance type of its own machine type; among the local-SSD variants it is the
  first that pins the count stamped on the machine, and the first of the name only if the machine carries
  no count or no variant pins it. No type is found exactly if none has the name.\<close>

theorem matchVariantForInstance_spec:
  "matchVariantForInstance its inst = (let named = filter (\<lambda>i. it_name i = in_Type inst) its in
     case List.find (\<lambda>i. \<forall>n. map_of (in_Labels inst) gceCountKey = Some n \<longrightarrow> pins_count i n) named of
       Some i \<Rightarrow> Some i | None \<Rightarrow> (if named = [] then None else Some (hd named)))"
proof -
  let ?named = "filter (\<lambda>i. it_name i = in_Type inst) its"
  have first: "(case ?named of [] \<Rightarrow> None | i # _ \<Rightarrow> Some i) = (if ?named = [] then None else Some (hd ?named))"
    by (cases ?named) simp_all
  have all: "List.find (\<lambda>i. True) xs = (if xs = [] then None else Some (hd xs))" for xs :: "instance_type list" by (cases xs) simp_all
  show ?thesis unfolding matchVariantForInstance_def match_loop_find Let_def first map_get_eq
    by (cases "map_of (in_Labels inst) gceCountKey") (simp_all add: all split: option.splits)
qed

definition example_vm_instance :: Instance where
  "example_vm_instance = \<lparr>in_CapacityType = ''spot'', in_CreationTime = 0, in_ImageID = ''projects/p/cos'', in_InstanceID = ''karpenter-x'',
     in_Labels = [(''karpenter-k8s-gcp-instance-local-ssd-count'', ''0''), (''karpenter-sh-nodepool'', ''pool''),
       (''goog-k8s-cluster-location'', ''us-central1'')],
     in_Location = ''us-a'', in_Name = ''karpenter-x'', in_ProjectID = ''p'', in_Status = ''RUNNING'', in_Tags = [], in_Type = ''n2-standard-4''\<rparr>"

theorem matchVariantForInstance_spec_witness:
  "matchVariantForInstance [example_boot_type, example_type] example_vm_instance = Some example_type"
proof -
  have c: "map_of (in_Labels example_vm_instance) gceCountKey = Some ''0''" "in_Type example_vm_instance = ''n2-standard-4''" by code_simp+
  have n: "it_name example_type = ''n2-standard-4''" "it_name example_boot_type = ''n2-standard-4''" by code_simp+
  have p: "pins_count example_type ''0''" "\<not> pins_count example_boot_type ''0''" by code_simp+
  show ?thesis unfolding matchVariantForInstance_spec by (simp add: c n p)
qed

subsection \<open>Creation\<close>

lemma instanceToNodeClaim_sel:
  "ncm_ProviderID (instanceToNodeClaim now i it) = ''gce://'' @ in_ProjectID i @ ''/'' @ in_Location i @ ''/'' @ in_Name i"
  "ncm_ImageID (instanceToNodeClaim now i it) = in_ImageID i"
  "map_of (ncm_Labels (instanceToNodeClaim now i it)) LabelInstanceTypeStable = Some (in_Type i)"
  "map_of (ncm_Labels (instanceToNodeClaim now i it)) LabelTopologyZone = Some (in_Location i)"
  "map_of (ncm_Labels (instanceToNodeClaim now i it)) CapacityTypeLabelKey = Some (in_CapacityType i)"
  "om_CreationTimestamp (ncm_Meta (instanceToNodeClaim now i it)) = in_CreationTime i"
  by (auto simp: instanceToNodeClaim_def Let_def go_defs split: option.splits)

lemma cp_Create_cases:
  assumes "cp_Create d claim s = (Inr cl, s')"
  obtains nc inst it now h where "resolveNodeClassFromNodeClaim d claim s = Inr nc" "Hash (cpd_hashstructure d) nc = Some h"
    "cl = (instanceToNodeClaim now inst it)\<lparr>ncm_Meta := (ncm_Meta (instanceToNodeClaim now inst it))\<lparr>om_Annotations := map_lit
        [(AnnotationGCENodeClassHash, h), (AnnotationGCENodeClassHashVersion, GCENodeClassHashVersion)]\<rparr>\<rparr>"
    "\<exists>s1 its. obtain_instance d nc claim (readiness_error nc) s = (Inr (inst, its), s1)"
proof -
  obtain nc where nc: "resolveNodeClassFromNodeClaim d claim s = Inr nc"
    using assms by (cases "resolveNodeClassFromNodeClaim d claim s") (auto simp: cp_Create_def)
  obtain r s1 where o: "obtain_instance d nc claim (readiness_error nc) s = (r, s1)" by (metis prod.exhaust)
  have go: "complete_creation d claim nc (readiness_error nc) s = (Inr cl, s')"
    using assms nc by (auto simp: cp_Create_def split: option.splits bool.splits)
  then obtain inst its where r: "r = Inr (inst, its)" using o by (cases r) (auto simp: complete_creation_def)
  obtain t s2 where t: "resolveCreatedInstanceType d nc its inst s1 = (t, s2)" by (metis prod.exhaust)
  with go o r obtain it where it: "t = Inr it" by (cases t) (auto simp: complete_creation_def)
  obtain it' where v: "overlay_adopted d claim (readiness_error nc) it = Inr it'"
    using go o r t it by (cases "overlay_adopted d claim (readiness_error nc) it") (auto simp: complete_creation_def)
  obtain h where h: "Hash (cpd_hashstructure d) nc = Some h" using go o r t it v by (cases "Hash (cpd_hashstructure d) nc") (auto simp: complete_creation_def)
  show thesis using go o r t it v h nc by (intro that [of nc h "cpd_now d s2" inst it']) (auto simp: complete_creation_def Let_def)
qed

text \<open>C21: A node claim that creation returns names its machine: its provider identifier parses back into the project, zone
  and name of the instance that was launched or adopted, its labels carry the instance's machine type, zone and capacity type,
  and it has not drifted from the class it was made from, as long as the class is stamped with
  its own current hash and still offers the image the machine runs.\<close>

theorem created_claim_fresh:
  assumes "cp_Create d claim s = (Inr cl, s')" "resolveNodeClassFromNodeClaim d claim s = Inr nc"
    and "om_Annotations (ncl_Meta nc') = [(AnnotationGCENodeClassHash, the (Hash (cpd_hashstructure d) nc)), (AnnotationGCENodeClassHashVersion, v)]"
    and "\<exists>im \<in> set (st_Images (ncl_Status nc')). has_suffix (ncm_ImageID cl) (im_SourceImage im)"
  shows "isNodeClassDrifted d cl nc' = [] \<and> (\<exists>inst its s1. obtain_instance d nc claim (readiness_error nc) s = (Inr (inst, its), s1)
     \<and> (CHR ''/'' \<notin> set (in_ProjectID inst @ in_Location inst @ in_Name inst) \<longrightarrow>
          parseGCEProviderID (ncm_ProviderID cl) = Inr (in_ProjectID inst, in_Location inst, in_Name inst))
     \<and> map_of (ncm_Labels cl) LabelInstanceTypeStable = Some (in_Type inst)
     \<and> map_of (ncm_Labels cl) LabelTopologyZone = Some (in_Location inst)
     \<and> map_of (ncm_Labels cl) CapacityTypeLabelKey = Some (in_CapacityType inst))"
proof -
  from assms(1) obtain nc0 inst it now h where c: "resolveNodeClassFromNodeClaim d claim s = Inr nc0" "Hash (cpd_hashstructure d) nc0 = Some h"
    "cl = (instanceToNodeClaim now inst it)\<lparr>ncm_Meta := (ncm_Meta (instanceToNodeClaim now inst it))\<lparr>om_Annotations := map_lit
        [(AnnotationGCENodeClassHash, h), (AnnotationGCENodeClassHashVersion, GCENodeClassHashVersion)]\<rparr>\<rparr>"
    "\<exists>s1 its. obtain_instance d nc0 claim (readiness_error nc0) s = (Inr (inst, its), s1)" by (rule cp_Create_cases)
  have nc: "nc0 = nc" using c(1) assms(2) by simp
  have "areStaticFieldsDrifted cl nc' = []"
    using c(2,3) nc assms(3) by (simp add: areStaticFieldsDrifted_def Let_def map_lit_def go_defs)
  moreover have "isImageDrifted d cl nc' = []" using assms(4) by (auto simp: isImageDrifted_def list_ex_iff)
  moreover have "parseGCEProviderID (ncm_ProviderID cl) = Inr (in_ProjectID inst, in_Location inst, in_Name inst)"
    if "CHR ''/'' \<notin> set (in_ProjectID inst @ in_Location inst @ in_Name inst)"
    using that by (subst parseGCEProviderID_split) (auto simp: c(3) instanceToNodeClaim_sel)
  ultimately show ?thesis
    using c(3,4) nc by (auto simp: isNodeClassDrifted_def instanceToNodeClaim_sel)
qed


definition example_ready_class :: "condition_status \<Rightarrow> GCENodeClass" where
  "example_ready_class ready = example_class\<lparr>ncl_Meta := zero_meta\<lparr>om_Name := ''default'', om_Annotations :=
       [(AnnotationGCENodeClassHash, ''7''), (AnnotationGCENodeClassHashVersion, ''v5'')]\<rparr>,
     ncl_Status := (ncl_Status example_class)\<lparr>st_Conditions :=
       [\<lparr>cond_Type = ''Ready'', cond_Status = ready, cond_Reason = [], cond_Message = []\<rparr>,
        \<lparr>cond_Type = ''ImagesReady'', cond_Status = ready, cond_Reason = [], cond_Message = []\<rparr>]\<rparr>\<rparr>"

definition example_pool :: NodePool where
  "example_pool = \<lparr>npl_Meta = zero_meta\<lparr>om_Name := ''pool''\<rparr>, npl_TemplateLabels = [], npl_TemplateRequirements = [],
     npl_NodeClassRef = Some \<lparr>ref_Group = [], ref_Kind = [], ref_Name = ''default''\<rparr>\<rparr>"

definition example_cp :: "condition_status \<Rightarrow> unit cp_deps" where
  "example_cp ready = \<lparr>cpd_now = (\<lambda>_. 200 * 10 ^ 9), cpd_GetNodeClass = (\<lambda>_ _. Inr (example_ready_class ready)), cpd_GetNodePool = (\<lambda>_ _. Inr example_pool),
     cpd_ListInstanceTypes = (\<lambda>_ s. (Inr [example_type], s)), cpd_Adopt = (\<lambda>_ s. (Inr None, s)),
     cpd_CreateInstance = (\<lambda>_ _ _ s. (Inr example_vm_instance, s)), cpd_GetInstance = (\<lambda>_ s. (Inr example_vm_instance, s)),
     cpd_ListInstances = (\<lambda>s. (Inr [example_vm_instance], s)), cpd_DeleteInstance = (\<lambda>_ s. (None, s)), cpd_NodeOverlay = False,
     cpd_Apply = (\<lambda>_ it. Inr it), cpd_ApplyAll = (\<lambda>_ its. Inr its), cpd_wellKnown = (\<lambda>_. True), cpd_rnd = (\<lambda>_. 0),
     cpd_hashstructure = (\<lambda>_. 7)\<rparr>"

definition example_claim :: NodeClaim where
  "example_claim = zero_nodeClaim\<lparr>ncm_NodeClassRef := Some \<lparr>ref_Group = [], ref_Kind = [], ref_Name = ''default''\<rparr>\<rparr>"

theorem created_claim_fresh_witness:
  "\<exists>cl. fst (cp_Create (example_cp CondTrue) example_claim ()) = Inr cl
     \<and> isNodeClassDrifted (example_cp CondTrue) cl (example_ready_class CondTrue) = []"
proof -
  let ?d = "example_cp CondTrue" let ?nc = "example_ready_class CondTrue"
  have img: "case fst (cp_Create ?d example_claim ()) of Inl _ \<Rightarrow> False | Inr cl \<Rightarrow> ncm_ImageID cl = ''projects/p/cos''" by code_simp
  then obtain cl s' where r: "cp_Create ?d example_claim () = (Inr cl, s')"
    by (cases "cp_Create ?d example_claim ()") (auto split: sum.splits)
  with img have i: "ncm_ImageID cl = ''projects/p/cos''" by simp
  have nc: "resolveNodeClassFromNodeClaim ?d example_claim () = Inr ?nc"
    by (simp add: resolveNodeClassFromNodeClaim_def example_claim_def example_cp_def)
  have h: "Hash (cpd_hashstructure ?d) ?nc = Some ''7''" by code_simp
  have an: "om_Annotations (ncl_Meta ?nc) = [(AnnotationGCENodeClassHash, the (Hash (cpd_hashstructure ?d) ?nc)), (AnnotationGCENodeClassHashVersion, ''v5'')]"
    by (simp add: h) (simp add: example_ready_class_def)
  have "has_suffix ''projects/p/cos'' ''cos''" by code_simp
  then have im: "\<exists>im \<in> set (st_Images (ncl_Status ?nc)). has_suffix (ncm_ImageID cl) (im_SourceImage im)"
    by (simp add: i example_ready_class_def example_class_def)
  from created_claim_fresh [OF r nc an im] r show ?thesis by auto
qed


subsection \<open>Instance types for scheduling\<close>



end
