(* ===== verification/Garbage_Collection.thy ===== *)
theory Garbage_Collection
  imports Cloud_Provider
begin

text \<open>
  The garbage collector of \<^verbatim>\<open>pkg/controllers/nodeclaim/garbagecollection/controller.go\<close>, which deletes machines that no node claim
  stands for. It lists and deletes through the cloud provider; the node claims come from the Kubernetes API. The
  loop also returns the identifiers it asked to delete, for the statements below; the controller does not
  read them. Its lemmas are about any instance provider with the contract \<open>owned_lister\<close>.
\<close>

definition gcInterval :: duration where "gcInterval = 120 * second"
definition gcGracePeriod :: duration where "gcGracePeriod = 180 * second"

definition isOrphaned :: "instant \<Rightarrow> NodeClaim \<Rightarrow> string list \<Rightarrow> bool" where
  "isOrphaned now inst knownIDs = (if ncm_ProviderID inst = [] then False
     else if om_DeletionTimestamp (ncm_Meta inst) \<noteq> None then False
     else if ncm_ProviderID inst \<in> set knownIDs then False
     else if now - om_CreationTimestamp (ncm_Meta inst) < gcGracePeriod then False
     else map_has (ncm_Labels inst) LabelClusterLocationKey)"

fun gc_loop :: "'s cp_deps \<Rightarrow> string list \<Rightarrow> NodeClaim list \<Rightarrow> 's \<Rightarrow> string list \<times> go_error list \<times> 's" where
  "gc_loop d knownIDs [] s = ([], [], s)"
| "gc_loop d knownIDs (inst # insts) s = (if \<not> isOrphaned (cpd_now d s) inst knownIDs then gc_loop d knownIDs insts s
     else (case cp_Delete d inst s of (err, s) \<Rightarrow> (case gc_loop d knownIDs insts s of (deleted, errs, s) \<Rightarrow>
       (ncm_ProviderID inst # deleted,
        (case err of Some x \<Rightarrow> if IsNodeClaimNotFoundError x then errs
           else Errorf ''deleting %s: %w'' [ncm_ProviderID inst] [x] # errs | None \<Rightarrow> errs), s))))"

record gc_result =
  gcr_deleted :: "string list"
  gcr_error :: "go_error option"
  gcr_requeueAfter :: duration

definition gc_Reconcile :: "'s cp_deps \<Rightarrow> ('s \<Rightarrow> go_error + NodeClaim list) \<Rightarrow> 's \<Rightarrow> gc_result \<times> 's" where
  "gc_Reconcile d listClaims s = (case cp_List d s of
      (Inl err, s) \<Rightarrow> (\<lparr>gcr_deleted = [], gcr_error = Some (Errorf ''listing instances: %w'' [] [err]), gcr_requeueAfter = 0\<rparr>, s)
    | (Inr insts, s) \<Rightarrow> (case listClaims s of
        Inl err \<Rightarrow> (\<lparr>gcr_deleted = [], gcr_error = Some (Errorf ''listing nodeclaims: %w'' [] [err]), gcr_requeueAfter = 0\<rparr>, s)
      | Inr claims \<Rightarrow> (case gc_loop d (filter (\<lambda>p. p \<noteq> []) (map ncm_ProviderID claims)) insts s of (deleted, errs, s) \<Rightarrow>
          (\<lparr>gcr_deleted = deleted, gcr_error = (if errs = [] then None else Some (JoinError errs)), gcr_requeueAfter = gcInterval\<rparr>, s))))"

subsection \<open>What is collected\<close>

lemma gc_loop_deleted:
  "pid \<in> set (fst (gc_loop d known insts s)) \<Longrightarrow> \<exists>inst \<in> set insts. \<exists>s'. ncm_ProviderID inst = pid \<and> isOrphaned (cpd_now d s') inst known"
proof (induction insts arbitrary: s)
  case (Cons inst insts)
  show ?case
  proof (cases "isOrphaned (cpd_now d s) inst known")
    case False
    with Cons show ?thesis by auto
  next
    case True
    obtain err s1 where e: "cp_Delete d inst s = (err, s1)" by (metis prod.exhaust)
    obtain ds es s2 where l: "gc_loop d known insts s1 = (ds, es, s2)" by (metis prod_cases3)
    from Cons.prems True e l consider "pid = ncm_ProviderID inst" | "pid \<in> set (fst (gc_loop d known insts s1))" by auto
    then show ?thesis using True Cons.IH [of s1] by cases auto
  qed
qed simp

lemma claims_of_from:
  "claims_of d is s = (Inr cs, s') \<Longrightarrow> c \<in> set cs \<Longrightarrow> \<exists>i \<in> set is. \<exists>now it. c = instanceToNodeClaim now i it"
proof (induction "is" arbitrary: s cs s')
  case (Cons i "is")
  obtain r s1 where r: "resolveInstanceTypeFromInstance d i s = (r, s1)" by (metis prod.exhaust)
  with Cons.prems obtain it where it: "r = Inr it" by (cases r) auto
  obtain r2 s2 where r2: "claims_of d is s1 = (r2, s2)" by (metis prod.exhaust)
  with Cons.prems r it obtain cs2 where "r2 = Inr cs2" "cs = instanceToNodeClaim (cpd_now d s1) i it # cs2" by (cases r2) auto
  with Cons.IH [of s1 cs2 s2] r2 Cons.prems(2) show ?case by auto
qed simp

lemma location_of_claim:
  assumes "map_has (ncm_Labels (instanceToNodeClaim now i it)) LabelClusterLocationKey"
    and "\<forall>t. it = Some t \<longrightarrow> \<not> map_has (it_requirements t) LabelClusterLocationKey"
  shows "map_of (in_Labels i) LabelClusterLocationKey \<noteq> None"
proof
  assume n: "map_of (in_Labels i) LabelClusterLocationKey = None"
  have "map_of (GetAllSingleValuedRequirementLabels it) LabelClusterLocationKey = None"
  proof (cases it)
    case (Some t)
    with assms(2) have "LabelClusterLocationKey \<notin> fst ` set (it_requirements t)"
      by (auto simp: map_has_def map_of_eq_None_iff)
    then have "LabelClusterLocationKey \<notin> fst ` set (map (\<lambda>(k, r). (k, hd (req_values r))) (filter (\<lambda>(k, r). req_len r = 1) (it_requirements t)))"
      by force
    from map_of_map_copy_other [OF this, of "[]"] show ?thesis
      unfolding GetAllSingleValuedRequirementLabels_def Some option.case map_lit_def by simp
  qed (simp add: GetAllSingleValuedRequirementLabels_def)
  with n assms(1) show False
    by (auto simp: instanceToNodeClaim_def Let_def map_has_def go_defs LabelClusterLocationKey_def LabelNodePoolKey_def split: option.splits)
qed

definition keyless_types :: "'s cp_deps \<Rightarrow> bool" where
  "keyless_types d \<longleftrightarrow> (\<forall>i s t s'. resolveInstanceTypeFromInstance d i s = (Inr (Some t), s') \<longrightarrow>
     \<not> map_has (it_requirements t) LabelClusterLocationKey)"

lemma claims_of_keyless:
  "keyless_types d \<Longrightarrow> claims_of d is s = (Inr cs, s') \<Longrightarrow> c \<in> set cs \<Longrightarrow>
   \<exists>i \<in> set is. \<exists>now it. c = instanceToNodeClaim now i it \<and> (\<forall>t. it = Some t \<longrightarrow> \<not> map_has (it_requirements t) LabelClusterLocationKey)"
proof (induction "is" arbitrary: s cs s')
  case (Cons i "is")
  obtain r s1 where r: "resolveInstanceTypeFromInstance d i s = (r, s1)" by (metis prod.exhaust)
  with Cons.prems obtain it where it: "r = Inr it" by (cases r) auto
  obtain r2 s2 where r2: "claims_of d is s1 = (r2, s2)" by (metis prod.exhaust)
  with Cons.prems r it obtain cs2 where cs: "r2 = Inr cs2" "cs = instanceToNodeClaim (cpd_now d s1) i it # cs2" by (cases r2) auto
  have key: "\<forall>t. it = Some t \<longrightarrow> \<not> map_has (it_requirements t) LabelClusterLocationKey"
    using Cons.prems(1) r it unfolding keyless_types_def by blast
  from cs Cons.prems(3) consider "c = instanceToNodeClaim (cpd_now d s1) i it" | "c \<in> set cs2" by auto
  then show ?case
  proof cases
    case 1
    with key show ?thesis by auto
  next
    case 2
    with Cons.IH [OF Cons.prems(1), of s1 cs2 s2] r2 cs show ?thesis by auto
  qed
qed simp

definition collected :: "Instance \<Rightarrow> string \<Rightarrow> instant \<Rightarrow> bool" where
  "collected inst pid now \<longleftrightarrow> pid = ''gce://'' @ in_ProjectID inst @ ''/'' @ in_Location inst @ ''/'' @ in_Name inst
     \<and> in_CreationTime inst + gcGracePeriod \<le> now
     \<and> in_Status inst \<noteq> InstanceStatusTerminated \<and> in_Status inst \<noteq> InstanceStatusStopping
     \<and> map_of (in_Labels inst) LabelClusterLocationKey \<noteq> None"

lemma isOrphaned_collected:
  assumes "isOrphaned now (instanceToNodeClaim t i it) known" "\<forall>t. it = Some t \<longrightarrow> \<not> map_has (it_requirements t) LabelClusterLocationKey"
  shows "collected i (ncm_ProviderID (instanceToNodeClaim t i it)) now \<and> ncm_ProviderID (instanceToNodeClaim t i it) \<notin> set known"
proof -
  have "map_has (ncm_Labels (instanceToNodeClaim t i it)) LabelClusterLocationKey"
    "om_DeletionTimestamp (ncm_Meta (instanceToNodeClaim t i it)) = None"
    "gcGracePeriod \<le> now - om_CreationTimestamp (ncm_Meta (instanceToNodeClaim t i it))"
    "ncm_ProviderID (instanceToNodeClaim t i it) \<notin> set known"
    using assms(1) by (auto simp: isOrphaned_def split: if_splits)
  moreover from this(2) have "in_Status i \<noteq> InstanceStatusTerminated \<and> in_Status i \<noteq> InstanceStatusStopping"
    by (auto simp: instanceToNodeClaim_def Let_def split: if_splits)
  ultimately show ?thesis
    using location_of_claim [OF _ assms(2)] by (simp add: collected_def instanceToNodeClaim_sel)
qed

context owned_lister
begin

lemma gc_collects_owned:
  assumes "cpd_ListInstances d = list_instances" "ok s" "keyless_types d"
    and "gc_Reconcile d listClaims s = (r, s')" "pid \<in> set (gcr_deleted r)"
  shows "\<exists>inst claims s1 s2. owned inst \<and> listClaims s1 = Inr claims \<and> pid \<notin> ncm_ProviderID ` set claims
    \<and> collected inst pid (cpd_now d s2)"
proof -
  obtain li s0 where li: "list_instances s = (li, s0)" by (metis prod.exhaust)
  obtain cs s1 where l: "cp_List d s = (Inr cs, s1)"
    using assms(4,5) by (auto simp: gc_Reconcile_def split: prod.splits sum.splits)
  then obtain insts where insts: "li = Inr insts" "claims_of d insts s0 = (Inr cs, s1)"
    using li assms(1) by (cases li) (auto simp: cp_List_def)
  obtain claims where c: "listClaims s1 = Inr claims"
    using assms(4,5) l by (auto simp: gc_Reconcile_def split: sum.splits)
  let ?known = "filter (\<lambda>p. p \<noteq> []) (map ncm_ProviderID claims)"
  have "pid \<in> set (fst (gc_loop d ?known cs s1))"
    using assms(4,5) l c by (auto simp: gc_Reconcile_def split: prod.splits)
  then obtain inst s2 where i: "inst \<in> set cs" "ncm_ProviderID inst = pid" "isOrphaned (cpd_now d s2) inst ?known"
    using gc_loop_deleted [of pid d ?known cs s1] by blast
  from claims_of_keyless [OF assms(3) insts(2) i(1)] obtain x now it where x: "x \<in> set insts" "inst = instanceToNodeClaim now x it"
    "\<forall>t. it = Some t \<longrightarrow> \<not> map_has (it_requirements t) LabelClusterLocationKey" by blast
  have "owned x" using list_owned [OF assms(2)] li insts(1) x(1) by blast
  moreover have "collected x pid (cpd_now d s2)" "pid \<notin> set ?known"
    using isOrphaned_collected [OF i(3) [unfolded x(2)] x(3)] i(2) x(2) by auto
  moreover have "pid \<noteq> []" using i(3) i(2) by (auto simp: isOrphaned_def)
  ultimately show ?thesis using c by auto
qed

end


definition example_gc_deps :: "unit instance_store cp_deps" where
  "example_gc_deps = \<lparr>cpd_now = (\<lambda>_. 300 * 10 ^ 9), cpd_GetNodeClass = (\<lambda>_ _. Inl (StatusError ''NotFound'')),
     cpd_GetNodePool = (\<lambda>_ _. Inl (StatusError ''NotFound'')),
     cpd_ListInstanceTypes = (\<lambda>_ s. (Inr [], s)), cpd_Adopt = (\<lambda>_ s. (Inr None, s)),
     cpd_CreateInstance = (\<lambda>_ _ _ s. (Inr example_vm_instance, s)), cpd_GetInstance = InstanceGet example_build_env example_lifecycle,
     cpd_ListInstances = InstanceList example_build_env example_lifecycle,
     cpd_DeleteInstance = (\<lambda>p s. (case InstanceDelete example_lifecycle p (is_ext s) of (r, x) \<Rightarrow> (r, s\<lparr>is_ext := x\<rparr>))),
     cpd_NodeOverlay = False, cpd_Apply = (\<lambda>_ it. Inr it), cpd_ApplyAll = (\<lambda>_ its. Inr its), cpd_wellKnown = (\<lambda>_. True), cpd_rnd = (\<lambda>_. 0),
     cpd_hashstructure = (\<lambda>_. 7)\<rparr>"


end
