(* ===== verification/Interruption.thy ===== *)
theory Interruption
  imports Unavailable_Offerings Api_Types Go_Errors Provider_Utils
begin

text \<open>
  The interruption controller (\<^verbatim>\<open>pkg/controllers/interruption/controller.go\<close>): node claims of nodes that Compute Engine is preempting or that are
  shutting down are deleted, and a preempted offering is taken out for a while. The Kubernetes client is a record of functions over
  an outside state; the loop also returns the claims it deleted, for the statements below. Events and metrics are left out.
\<close>

definition NodeConditionReasonKubeletNotReady :: string where [go_defs]: "NodeConditionReasonKubeletNotReady = ''KubeletNotReady''"
definition NodeConditionMessageShuttingDown :: string where [go_defs]: "NodeConditionMessageShuttingDown = ''node is shutting down''"
definition NodeConditionTypeGCESpotPreempting :: string where [go_defs]: "NodeConditionTypeGCESpotPreempting = ''GCESpotPreempting''"

record node =
  no_Name :: string
  no_Labels :: labels
  no_Conditions :: "Condition list"

text \<open>\<open>None\<close> is the zero condition, whose status, reason and message are empty.\<close>

definition GetCondition :: "node \<Rightarrow> string \<Rightarrow> Condition option" where
  "GetCondition n t = List.find (\<lambda>c. cond_Type c = t) (no_Conditions n)"

definition isPreempting :: "node \<Rightarrow> bool" where
  "isPreempting n = (case GetCondition n NodeConditionTypeGCESpotPreempting of Some c \<Rightarrow> cond_Status c = CondTrue | None \<Rightarrow> False)"

definition isShuttingDown :: "node \<Rightarrow> bool" where
  "isShuttingDown n = (case GetCondition n ''Ready'' of None \<Rightarrow> False
     | Some c \<Rightarrow> cond_Status c \<noteq> CondTrue \<and> cond_Reason c = NodeConditionReasonKubeletNotReady
         \<and> cond_Message c = NodeConditionMessageShuttingDown)"

record 's int_deps =
  idp_now :: "'s \<Rightarrow> instant"
  idp_listNodes :: "'s \<Rightarrow> go_error + node list"
  idp_listClaims :: "'s \<Rightarrow> go_error + NodeClaim list"
  idp_deleteClaim :: "NodeClaim \<Rightarrow> 's \<Rightarrow> go_error option \<times> 's"

definition getNodeClaimByNodeName :: "'s int_deps \<Rightarrow> string \<Rightarrow> 's \<Rightarrow> go_error + NodeClaim option" where
  "getNodeClaimByNodeName d name s = (case idp_listClaims d s of Inl err \<Rightarrow> Inl err
     | Inr claims \<Rightarrow> Inr (List.find (\<lambda>c. ncm_NodeName c = name) claims))"

text \<open>The claims that were deleted, the error, the cache and the outside state.\<close>

type_synonym 's int_outcome = "NodeClaim list \<times> go_error option \<times> uo_state \<times> 's"

definition deleteNodeClaim :: "'s int_deps \<Rightarrow> NodeClaim \<Rightarrow> uo_state \<Rightarrow> 's \<Rightarrow> 's int_outcome" where
  "deleteNodeClaim d claim u s = (if om_DeletionTimestamp (ncm_Meta claim) \<noteq> None then ([], None, u, s)
     else (case idp_deleteClaim d claim s of
         (Some err, s) \<Rightarrow> (let err' = Errorf ''deleting the node on interruption message, %w'' [] [err] in
           ([], (if status_is ''NotFound'' err' then None else Some err'), u, s))
       | (None, s) \<Rightarrow> ([claim], None, u, s)))"

definition cleanNodeClaimByInstanceName :: "'s int_deps \<Rightarrow> string \<Rightarrow> bool \<Rightarrow> uo_state \<Rightarrow> 's \<Rightarrow> 's int_outcome" where
  "cleanNodeClaimByInstanceName d name markUnavailable u s = (case getNodeClaimByNodeName d name s of
      Inl err \<Rightarrow> ([], Some (Errorf ''getting node claim by node name: %w'' [] [err]), u, s)
    | Inr None \<Rightarrow> ([], None, u, s)
    | Inr (Some claim) \<Rightarrow> if om_DeletionTimestamp (ncm_Meta claim) \<noteq> None then ([], None, u, s)
        else (let
            zone = map_str (ncm_Labels claim) LabelTopologyZone;
            instanceType = map_str (ncm_Labels claim) LabelInstanceTypeStable;
            u = (if markUnavailable \<and> zone \<noteq> [] \<and> instanceType \<noteq> []
              then MarkUnavailable (idp_now d s) instanceType zone CapacityTypeSpot u else u)
          in case deleteNodeClaim d claim u s of
               (ds, Some err, u, s) \<Rightarrow> (ds, Some (Errorf ''deleting node claim: %w'' [] [err]), u, s)
             | (ds, None, u, s) \<Rightarrow> (ds, None, u, s)))"

fun int_loop :: "'s int_deps \<Rightarrow> node list \<Rightarrow> uo_state \<Rightarrow> 's \<Rightarrow> 's int_outcome" where
  "int_loop d [] u s = ([], None, u, s)"
| "int_loop d (n # ns) u s = (if map_str (no_Labels n) LabelNodePoolKey = [] then int_loop d ns u s
     else if isPreempting n \<or> isShuttingDown n then (case cleanNodeClaimByInstanceName d (no_Name n) (isPreempting n) u s of
         (ds, Some err, u, s) \<Rightarrow> (ds, Some (Errorf ''cleaning node claim: %w'' [] [err]), u, s)
       | (ds, None, u, s) \<Rightarrow> (case int_loop d ns u s of (ds', r) \<Rightarrow> (ds @ ds', r)))
     else int_loop d ns u s)"

definition handleStoppingSpotInstances :: "'s int_deps \<Rightarrow> uo_state \<Rightarrow> 's \<Rightarrow> 's int_outcome" where
  "handleStoppingSpotInstances d u s = (case idp_listNodes d s of
      Inl err \<Rightarrow> ([], Some (Errorf ''listing nodes: %w'' [] [err]), u, s)
    | Inr nodes \<Rightarrow> int_loop d nodes u s)"

definition int_Reconcile :: "'s int_deps \<Rightarrow> uo_state \<Rightarrow> 's \<Rightarrow> duration \<times> 's int_outcome" where
  "int_Reconcile d u s = (case handleStoppingSpotInstances d u s of
      (ds, Some err, u, s) \<Rightarrow> (0, ds, Some (Errorf ''handling stopped spot instances: %w'' [] [err]), u, s)
    | (ds, None, u, s) \<Rightarrow> (10 ^ 9, ds, None, u, s))"

subsection \<open>What an interruption does\<close>

definition interrupted :: "node \<Rightarrow> bool" where
  "interrupted n \<longleftrightarrow> map_str (no_Labels n) LabelNodePoolKey \<noteq> [] \<and> (isPreempting n \<or> isShuttingDown n)"

definition live_claim :: "NodeClaim list \<Rightarrow> node \<Rightarrow> NodeClaim option" where
  "live_claim claims n = (case List.find (\<lambda>c. ncm_NodeName c = no_Name n) claims of
     Some c \<Rightarrow> if om_DeletionTimestamp (ncm_Meta c) = None then Some c else None | None \<Rightarrow> None)"

definition claim_offering :: "NodeClaim \<Rightarrow> string \<times> string" where
  "claim_offering c = (map_str (ncm_Labels c) LabelInstanceTypeStable, map_str (ncm_Labels c) LabelTopologyZone)"

definition lost_claims :: "NodeClaim list \<Rightarrow> node list \<Rightarrow> NodeClaim list" where
  "lost_claims claims ns = List.map_filter (live_claim claims) (filter interrupted ns)"

definition lost_offerings :: "NodeClaim list \<Rightarrow> node list \<Rightarrow> (string \<times> string) list" where
  "lost_offerings claims ns = filter (\<lambda>(it, z). it \<noteq> [] \<and> z \<noteq> [])
     (map claim_offering (List.map_filter (live_claim claims) (filter (\<lambda>n. interrupted n \<and> isPreempting n) ns)))"

definition mark_all :: "instant \<Rightarrow> (string \<times> string) list \<Rightarrow> uo_state \<Rightarrow> uo_state" where
  "mark_all now fs u = foldl (\<lambda>u (it, z). MarkUnavailable now it z CapacityTypeSpot u) u fs"

lemma mark_all_simps [simp]:
  "mark_all now [] u = u" "mark_all now ((it, z) # fs) u = mark_all now fs (MarkUnavailable now it z CapacityTypeSpot u)"
  by (simp_all add: mark_all_def)

lemma IsUnavailable_mark_all:
  assumes "0 < now"
  shows "IsUnavailable t it z ct (mark_all now fs u) \<longleftrightarrow>
    (if \<exists>(it', z') \<in> set fs. uo_key it' z' CapacityTypeSpot = uo_key it z ct then t \<le> now + DefaultTTL else IsUnavailable t it z ct u)"
proof (induction fs arbitrary: u)
  case (Cons f fs)
  obtain it' z' where f: "f = (it', z')" by (cases f)
  have ttl: "0 < DefaultTTL" by (simp add: DefaultTTL_def)
  have "IsUnavailable t it z ct (MarkUnavailable now it' z' CapacityTypeSpot u) \<longleftrightarrow>
      (if uo_key it' z' CapacityTypeSpot = uo_key it z ct then t \<le> now + DefaultTTL else IsUnavailable t it z ct u)"
    using IsUnavailable_mark_other [of it' z' CapacityTypeSpot it z ct] assms ttl
    by (auto simp: MarkUnavailable_def IsUnavailable_def MarkUnavailableWithTTL_def cache_get_set_same)
  with Cons f show ?case by auto
qed simp

lemma map_filter_Cons: "List.map_filter f (x # xs) = (case f x of None \<Rightarrow> List.map_filter f xs | Some y \<Rightarrow> y # List.map_filter f xs)"
  by (simp add: List.map_filter_def split: option.splits)

lemma lost_claims_Cons: "interrupted n \<Longrightarrow> live_claim claims n = Some c \<Longrightarrow> lost_claims claims (n # ns) = c # lost_claims claims ns"
  by (simp add: lost_claims_def map_filter_Cons)

lemma mark_lost_Cons:
  assumes "interrupted n" "live_claim claims n = Some c"
  shows "mark_all now (lost_offerings claims (n # ns)) u = mark_all now (lost_offerings claims ns)
    (if isPreempting n \<and> snd (claim_offering c) \<noteq> [] \<and> fst (claim_offering c) \<noteq> []
     then MarkUnavailable now (fst (claim_offering c)) (snd (claim_offering c)) CapacityTypeSpot u else u)"
  using assms by (cases "claim_offering c") (simp add: lost_offerings_def map_filter_Cons)

lemma int_loop_total:
  assumes claims: "\<And>s. idp_listClaims d s = Inr claims" and del: "\<And>c s. fst (idp_deleteClaim d c s) = None"
    and now: "\<And>s. idp_now d s = now"
  shows "\<exists>s'. int_loop d ns u s = (lost_claims claims ns, None, mark_all now (lost_offerings claims ns) u, s')"
proof (induction ns arbitrary: u s)
  case Nil
  then show ?case by (simp add: lost_claims_def lost_offerings_def List.map_filter_def)
next
  case (Cons n ns)
  show ?case
  proof (cases "interrupted n")
    case False
    then have "int_loop d (n # ns) u s = int_loop d ns u s" by (auto simp: interrupted_def)
    with Cons [of u s] False show ?thesis by (simp add: lost_claims_def lost_offerings_def)
  next
    case True
    show ?thesis
    proof (cases "live_claim claims n")
      case None
      then have "cleanNodeClaimByInstanceName d (no_Name n) (isPreempting n) u s = ([], None, u, s)"
        by (auto simp: cleanNodeClaimByInstanceName_def getNodeClaimByNodeName_def claims live_claim_def split: option.splits if_splits)
      with True Cons [of u s] None show ?thesis
        by (auto simp: interrupted_def lost_claims_def lost_offerings_def map_filter_Cons)
    next
      case (Some c)
      let ?u = "if isPreempting n \<and> snd (claim_offering c) \<noteq> [] \<and> fst (claim_offering c) \<noteq> []
        then MarkUnavailable now (fst (claim_offering c)) (snd (claim_offering c)) CapacityTypeSpot u else u"
      obtain s1 where s1: "idp_deleteClaim d c s = (None, s1)" using del [of c s] by (metis prod.collapse)
      have "cleanNodeClaimByInstanceName d (no_Name n) (isPreempting n) u s = ([c], None, ?u, s1)"
        using Some s1 by (auto simp: cleanNodeClaimByInstanceName_def getNodeClaimByNodeName_def claims live_claim_def now
            deleteNodeClaim_def claim_offering_def Let_def split: option.splits if_splits)
      moreover obtain s' where "int_loop d ns ?u s1 = (lost_claims claims ns, None, mark_all now (lost_offerings claims ns) ?u, s')"
        using Cons [of ?u s1] by blast
      ultimately have "int_loop d (n # ns) u s = (c # lost_claims claims ns, None, mark_all now (lost_offerings claims ns) ?u, s')"
        using True by (simp add: interrupted_def)
      then show ?thesis by (simp only: lost_claims_Cons [OF True Some] mark_lost_Cons [OF True Some]) simp
    qed
  qed
qed

text \<open>C4: When the API answers, one pass of the interruption controller deletes exactly the node claims, not yet being deleted, of the nodes of a
  node pool that are being preempted or shutting down, and takes exactly the spot offerings of the preempted ones out, for thirty
  minutes; every other offering keeps its state.\<close>

theorem interruption_exact:
  assumes "idp_listNodes d s = Inr nodes" "\<And>s. idp_listClaims d s = Inr claims" "\<And>c s. fst (idp_deleteClaim d c s) = None"
    and "\<And>s. idp_now d s = now" "0 < now"
  shows "\<exists>u' s'. int_Reconcile d u s = (10 ^ 9, lost_claims claims nodes, None, u', s')
    \<and> (\<forall>t it z ct. IsUnavailable t it z ct u' \<longleftrightarrow>
        (if \<exists>(it', z') \<in> set (lost_offerings claims nodes). uo_key it' z' CapacityTypeSpot = uo_key it z ct
         then t \<le> now + 30 * 60 * 10 ^ 9 else IsUnavailable t it z ct u))"
proof -
  obtain s' where "int_loop d nodes u s = (lost_claims claims nodes, None, mark_all now (lost_offerings claims nodes) u, s')"
    using int_loop_total [of d claims now] assms(2-4) by blast
  then have r: "int_Reconcile d u s = (10 ^ 9, lost_claims claims nodes, None, mark_all now (lost_offerings claims nodes) u, s')"
    by (simp add: int_Reconcile_def handleStoppingSpotInstances_def assms(1))
  show ?thesis
    by (rule exI [of _ "mark_all now (lost_offerings claims nodes) u"], rule exI [of _ s'])
      (simp add: r IsUnavailable_mark_all [OF assms(5)] DefaultTTL_def)
qed

definition example_node :: "string \<Rightarrow> string \<Rightarrow> node" where
  "example_node name cond = \<lparr>no_Name = name, no_Labels = [(LabelNodePoolKey, ''pool'')],
     no_Conditions = [\<lparr>cond_Type = cond, cond_Status = CondTrue, cond_Reason = [], cond_Message = []\<rparr>]\<rparr>"

definition example_interrupted_claim :: NodeClaim where
  "example_interrupted_claim = zero_nodeClaim\<lparr>ncm_NodeName := ''n1'',
     ncm_Meta := zero_meta\<lparr>om_Labels := [(LabelTopologyZone, ''us-a''), (LabelInstanceTypeStable, ''e2-medium'')]\<rparr>\<rparr>"

definition example_int_deps :: "unit int_deps" where
  "example_int_deps = \<lparr>idp_now = (\<lambda>_. 10), idp_listNodes = (\<lambda>_. Inr [example_node ''n1'' ''GCESpotPreempting'', example_node ''n2'' ''Ready'']),
     idp_listClaims = (\<lambda>_. Inr [example_interrupted_claim]), idp_deleteClaim = (\<lambda>_ s. (None, s))\<rparr>"

theorem interruption_exact_witness:
  "\<exists>u' s'. int_Reconcile example_int_deps NewUnavailableOfferings () = (10 ^ 9, [example_interrupted_claim], None, u', s')
     \<and> IsUnavailable 20 ''e2-medium'' ''us-a'' ''spot'' u'"
proof -
  let ?d = example_int_deps
  have n: "idp_listNodes ?d () = Inr [example_node ''n1'' ''GCESpotPreempting'', example_node ''n2'' ''Ready'']"
    by (simp add: example_int_deps_def)
  have lc: "lost_claims [example_interrupted_claim] [example_node ''n1'' ''GCESpotPreempting'', example_node ''n2'' ''Ready''] = [example_interrupted_claim]"
    by code_simp
  have lo: "lost_offerings [example_interrupted_claim] [example_node ''n1'' ''GCESpotPreempting'', example_node ''n2'' ''Ready''] = [(''e2-medium'', ''us-a'')]"
    by code_simp
  from interruption_exact [OF n, of "[example_interrupted_claim]" 10 NewUnavailableOfferings] lc lo show ?thesis
    by (auto simp: example_int_deps_def CapacityTypeSpot_def)
qed

end
