(* ===== verification/Custom_Machine_Types.thy ===== *)
theory Custom_Machine_Types
  imports Instance_Errors
begin

text \<open>
  The controller of registered custom machine types (\<^verbatim>\<open>pkg/controllers/gcecustommachinetype/controller.go\<close>): which registration of a shape
  counts when there are several, in which zones the shape is confirmed, and what is written to the status. The Kubernetes reads
  and the status patch, the cluster zones and the Compute lookup are arguments over an outside state. A condition
  set without dependents is its \<^verbatim>\<open>Ready\<close> condition; transition times and generations are left out.
\<close>

definition resolveTTL :: duration where "resolveTTL = 3600 * second"

record reconcile_result =
  rr_requeueAfter :: duration
  rr_error :: "go_error option"

definition set_condition :: "Condition \<Rightarrow> Condition list \<Rightarrow> Condition list" where
  "set_condition c cs = filter (\<lambda>x. cond_Type x \<noteq> cond_Type c) cs @ [c]"

definition condition_status_of :: "string \<Rightarrow> Condition list \<Rightarrow> condition_status" where
  "condition_status_of t cs = (case List.find (\<lambda>c. cond_Type c = t) cs of Some c \<Rightarrow> cond_Status c | None \<Rightarrow> CondUnknown)"

definition set_ready :: "condition_status \<Rightarrow> string \<Rightarrow> string \<Rightarrow> GCECustomMachineType \<Rightarrow> GCECustomMachineType" where
  "set_ready v reason msg obj = obj\<lparr>cmt_Conditions := set_condition
     \<lparr>cond_Type = ''Ready'', cond_Status = v, cond_Reason = reason, cond_Message = msg\<rparr> (cmt_Conditions obj)\<rparr>"

definition cmt_ready :: "GCECustomMachineType \<Rightarrow> bool" where
  "cmt_ready obj \<longleftrightarrow> condition_status_of ''Ready'' (cmt_Conditions obj) = CondTrue"

abbreviation cmt_Name :: "GCECustomMachineType \<Rightarrow> string" where "cmt_Name c \<equiv> om_Name (cmt_Meta c)"

definition outranks :: "GCECustomMachineType \<Rightarrow> GCECustomMachineType \<Rightarrow> bool" where
  "outranks a b = (let ta = om_CreationTimestamp (cmt_Meta a); tb = om_CreationTimestamp (cmt_Meta b) in
     if ta \<noteq> tb then ta < tb else cmt_Name a < cmt_Name b)"

definition isSupersededDuplicate :: "GCECustomMachineType list \<Rightarrow> GCECustomMachineType \<Rightarrow> bool" where
  "isSupersededDuplicate items obj = list_ex (\<lambda>other. if cmt_Name other = cmt_Name obj \<or> cmt_MachineType other \<noteq> cmt_MachineType obj
     then False else outranks other obj) items"

definition isMachineTypeNotFoundError :: "go_error \<Rightarrow> bool" where
  "isMachineTypeNotFoundError err = (case errors_as as_googleapi err of Some (code, _, _) \<Rightarrow> code = 404 | None \<Rightarrow> False)"

record 's cmt_deps =
  cd_listRegistrations :: "'s \<Rightarrow> go_error + GCECustomMachineType list"
  cd_ResolveClusterZones :: "'s \<Rightarrow> (go_error + string list) \<times> 's"
  cd_getMachineType :: "string \<Rightarrow> string \<Rightarrow> 's \<Rightarrow> (go_error + (int \<times> int) option) \<times> 's" \<comment> \<open>zone, name; CPUs and MiB, if not nil\<close>
  cd_patchStatus :: "GCECustomMachineType \<Rightarrow> 's \<Rightarrow> go_error option \<times> 's"

text \<open>The loop of \<^verbatim>\<open>resolveZones\<close>: CPUs, memory, the confirmed zones and whether some zone is unknown.\<close>

fun resolve_loop :: "'s cmt_deps \<Rightarrow> GCECustomMachineType \<Rightarrow> bool \<Rightarrow> int \<times> int \<Rightarrow> string list \<Rightarrow> 's \<Rightarrow> (int \<times> int \<times> string list \<times> bool) \<times> 's" where
  "resolve_loop d obj wasReady (cpus, mem) [] s = ((cpus, mem, [], False), s)"
| "resolve_loop d obj wasReady (cpus, mem) (zone # zones) s = (case cd_getMachineType d zone (cmt_MachineType obj) s of
      (Inr (Some (c, m)), s) \<Rightarrow> (case resolve_loop d obj wasReady (c, m) zones s of ((c, m, zs, saw), s) \<Rightarrow> ((c, m, zone # zs, saw), s))
    | (r, s) \<Rightarrow> if (case r of Inl err \<Rightarrow> isMachineTypeNotFoundError err | Inr _ \<Rightarrow> False) then resolve_loop d obj wasReady (cpus, mem) zones s
        else (case resolve_loop d obj wasReady (cpus, mem) zones s of ((c, m, zs, saw), s) \<Rightarrow>
          ((c, m, (if wasReady \<and> zone \<in> set (cmt_Zones obj) then zone # zs else zs), True), s)))"

definition resolveZones :: "'s cmt_deps \<Rightarrow> GCECustomMachineType \<Rightarrow> string list \<Rightarrow> 's \<Rightarrow> (int \<times> int \<times> string list \<times> bool) \<times> 's" where
  "resolveZones d obj zones s = resolve_loop d obj (cmt_ready obj)
     (if cmt_ready obj then (cmt_GuestCpus obj, cmt_MemoryMb obj) else (0, 0)) zones s"

definition patchStatus :: "'s cmt_deps \<Rightarrow> GCECustomMachineType \<Rightarrow> GCECustomMachineType \<Rightarrow> 's \<Rightarrow> reconcile_result \<times> 's" where
  "patchStatus d stored obj s = (if stored = obj then (\<lparr>rr_requeueAfter = resolveTTL, rr_error = None\<rparr>, s)
     else (case cd_patchStatus d obj s of
         (None, s) \<Rightarrow> (\<lparr>rr_requeueAfter = resolveTTL, rr_error = None\<rparr>, s)
       | (Some err, s) \<Rightarrow> (\<lparr>rr_requeueAfter = 0, rr_error = (if status_is ''Conflict'' err then Some err
           else if status_is ''NotFound'' err then None else Some err)\<rparr>, s)))"

definition withdrawn :: "GCECustomMachineType \<Rightarrow> GCECustomMachineType" where
  "withdrawn obj = obj\<lparr>cmt_GuestCpus := 0, cmt_MemoryMb := 0, cmt_Zones := []\<rparr>"

definition cmt_Reconcile :: "'s cmt_deps \<Rightarrow> GCECustomMachineType \<Rightarrow> 's \<Rightarrow> (reconcile_result \<times> GCECustomMachineType) \<times> 's" where
  "cmt_Reconcile d obj s = (case cd_listRegistrations d s of
      Inl err \<Rightarrow> ((\<lparr>rr_requeueAfter = 0, rr_error = Some (Errorf ''checking for duplicate registrations: %w'' [] [err])\<rparr>, obj), s)
    | Inr items \<Rightarrow> if isSupersededDuplicate items obj then (let
          obj' = set_ready CondFalse ''MachineTypeAlreadyRegistered'' (''another GCECustomMachineType already registers '' @ in_quotes (cmt_MachineType obj)
            @ ''; delete the duplicate or rename this one'') (withdrawn obj)
        in case patchStatus d obj obj' s of (r, s) \<Rightarrow> ((r, obj'), s))
      else (case cd_ResolveClusterZones d s of
          (Inl err, s) \<Rightarrow> ((\<lparr>rr_requeueAfter = 0, rr_error = Some (Errorf ''resolving cluster zones: %w'' [] [err])\<rparr>, obj), s)
        | (Inr zones, s) \<Rightarrow> (case resolveZones d obj zones s of ((cpus, mem, zs, saw), s) \<Rightarrow>
            if zs = [] \<and> saw then
              (if cmt_Zones obj \<noteq> [] then (let
                  obj' = set_ready CondUnknown ''MachineTypeResolutionFailed'' ''no confirmed zones remain; retrying unresolved zones'' (obj\<lparr>cmt_Zones := []\<rparr>)
                in case patchStatus d obj obj' s of (r, s) \<Rightarrow>
                  ((if rr_error r \<noteq> None then r else \<lparr>rr_requeueAfter = 0, rr_error = Some (Errorf
                    ''could not resolve %q in any zone due to transient errors'' [cmt_MachineType obj] [])\<rparr>, obj'), s))
               else ((\<lparr>rr_requeueAfter = 0, rr_error = Some (Errorf
                    ''could not resolve %q in any zone due to transient errors'' [cmt_MachineType obj] [])\<rparr>, obj), s))
            else (let
                obj' = (if zs = [] then set_ready CondFalse ''MachineTypeNotFound'' (in_quotes (cmt_MachineType obj)
                    @ '' is not a valid or available custom machine type in any cluster zone'') (withdrawn obj)
                  else set_ready CondTrue ''Ready'' [] (obj\<lparr>cmt_GuestCpus := cpus, cmt_MemoryMb := mem, cmt_Zones := zs\<rparr>))
              in case patchStatus d obj obj' s of (r, s) \<Rightarrow>
                ((if saw \<and> rr_error r = None then \<lparr>rr_requeueAfter = 0, rr_error = Some (Errorf
                    ''could not resolve %q in every zone due to transient errors; retrying'' [cmt_MachineType obj] [])\<rparr> else r, obj'), s)))))"

definition enqueueSiblingsWithSameMachineType :: "GCECustomMachineType list \<Rightarrow> GCECustomMachineType \<Rightarrow> string list" where
  "enqueueSiblingsWithSameMachineType items cmt = map cmt_Name (filter (\<lambda>other. \<not> (cmt_Name other = cmt_Name cmt \<or>
     cmt_MachineType other \<noteq> cmt_MachineType cmt)) items)"

subsection \<open>Which registration counts\<close>

lemma outranks_irrefl: "\<not> outranks a a"
  by (simp add: outranks_def)

lemma outranks_trans: "outranks a b \<Longrightarrow> outranks b c \<Longrightarrow> outranks a c"
  by (auto simp: outranks_def Let_def split: if_splits)

lemma outranks_total: "cmt_Name a \<noteq> cmt_Name b \<Longrightarrow> outranks a b \<or> outranks b a"
  by (auto simp: outranks_def Let_def split: if_splits)

lemma not_superseded_iff:
  "\<not> isSupersededDuplicate items obj \<longleftrightarrow>
   (\<forall>q \<in> set items. cmt_Name q \<noteq> cmt_Name obj \<and> cmt_MachineType q = cmt_MachineType obj \<longrightarrow> \<not> outranks q obj)"
  by (auto simp: isSupersededDuplicate_def list_ex_iff)

lemma highest_exists:
  "xs \<noteq> [] \<Longrightarrow> \<exists>w \<in> set xs. \<forall>q \<in> set xs. \<not> outranks q w"
proof (induction xs)
  case (Cons x xs)
  show ?case
  proof (cases "xs = []")
    case True
    then show ?thesis by (simp add: outranks_irrefl)
  next
    case False
    with Cons.IH obtain w where w: "w \<in> set xs" "\<forall>q \<in> set xs. \<not> outranks q w" by blast
    show ?thesis
    proof (cases "outranks x w")
      case True
      have "\<not> outranks q x" if "q \<in> set xs" for q using outranks_trans [OF _ True] w(2) that by blast
      then show ?thesis using outranks_irrefl [of x] by auto
    next
      case False
      with w show ?thesis by auto
    qed
  qed
qed simp

text \<open>However many objects register the same custom machine type, exactly one of them counts; every other one is reported
  as a duplicate, whichever of them is reconciled first.\<close>

theorem one_registration_counts:
  assumes "distinct (map cmt_Name items)" "obj \<in> set items"
  shows "\<exists>!w. w \<in> set items \<and> cmt_MachineType w = cmt_MachineType obj \<and> \<not> isSupersededDuplicate items w"
proof -
  let ?same = "filter (\<lambda>q. cmt_MachineType q = cmt_MachineType obj) items"
  have "?same \<noteq> []" using assms(2) by (auto simp: filter_empty_conv)
  from highest_exists [OF this] obtain w where w: "w \<in> set ?same" "\<forall>q \<in> set ?same. \<not> outranks q w" by blast
  have inj: "a = b" if "a \<in> set items" "b \<in> set items" "cmt_Name a = cmt_Name b" for a b
    using assms(1) that by (auto simp: distinct_map inj_on_def)
  show ?thesis
  proof (rule ex1I)
    show "w \<in> set items \<and> cmt_MachineType w = cmt_MachineType obj \<and> \<not> isSupersededDuplicate items w"
      using w by (auto simp: not_superseded_iff)
  next
    fix v
    assume v: "v \<in> set items \<and> cmt_MachineType v = cmt_MachineType obj \<and> \<not> isSupersededDuplicate items v"
    show "v = w"
    proof (rule ccontr)
      assume "v \<noteq> w"
      then have n: "cmt_Name w \<noteq> cmt_Name v" using inj [of w v] v w(1) by auto
      then consider "outranks w v" | "outranks v w" using outranks_total by blast
      then show False
      proof cases
        case 1
        with v n w(1) show False by (auto simp: not_superseded_iff)
      next
        case 2
        with w(2) v show False by auto
      qed
    qed
  qed
qed

definition example_cmt :: "string \<Rightarrow> int \<Rightarrow> GCECustomMachineType" where
  "example_cmt name created = \<lparr>cmt_Meta = zero_meta\<lparr>om_Name := name, om_CreationTimestamp := created\<rparr>, cmt_MachineType = ''n2-custom-4-8192'',
     cmt_OnDemand = [], cmt_Spot = [], cmt_GuestCpus = 4, cmt_MemoryMb = 8192, cmt_Zones = [''us-a'', ''us-b''],
     cmt_Conditions = [\<lparr>cond_Type = ''Ready'', cond_Status = CondTrue, cond_Reason = [], cond_Message = []\<rparr>]\<rparr>"

theorem one_registration_counts_witness:
  "\<exists>!w. w \<in> set [example_cmt ''b'' 1, example_cmt ''a'' 1] \<and> cmt_MachineType w = ''n2-custom-4-8192''
     \<and> \<not> isSupersededDuplicate [example_cmt ''b'' 1, example_cmt ''a'' 1] w"
proof -
  have "distinct (map cmt_Name [example_cmt ''b'' 1, example_cmt ''a'' 1])" by (simp add: example_cmt_def)
  from one_registration_counts [OF this, of "example_cmt ''b'' 1"] show ?thesis by (simp add: example_cmt_def)
qed

subsection \<open>Zones\<close>

lemma resolve_loop_zones:
  assumes "\<And>z s. fst (cd_getMachineType d z (cmt_MachineType obj) s) = answer z"
  shows "fst (resolve_loop d obj ready cm zones s) = (c, m, zs, saw) \<Longrightarrow>
    zs = filter (\<lambda>z. case answer z of Inr (Some _) \<Rightarrow> True
        | Inl err \<Rightarrow> \<not> isMachineTypeNotFoundError err \<and> ready \<and> z \<in> set (cmt_Zones obj)
        | Inr None \<Rightarrow> ready \<and> z \<in> set (cmt_Zones obj)) zones
    \<and> (saw \<longleftrightarrow> (\<exists>z \<in> set zones. case answer z of Inr (Some _) \<Rightarrow> False | Inl err \<Rightarrow> \<not> isMachineTypeNotFoundError err | Inr None \<Rightarrow> True))"
proof (induction zones arbitrary: cm s c m zs saw)
  case Nil
  then show ?case by (cases cm) simp
next
  case (Cons z zones)
  obtain cpus mem where cm: "cm = (cpus, mem)" by (cases cm)
  obtain s1 where g: "cd_getMachineType d z (cmt_MachineType obj) s = (answer z, s1)" using assms [of z s] by (metis prod.collapse)
  show ?case
  proof (cases "answer z")
    case (Inl err)
    obtain c1 m1 zs1 saw1 s2 where l: "resolve_loop d obj ready (cpus, mem) zones s1 = ((c1, m1, zs1, saw1), s2)" by (metis prod.exhaust)
    with Cons.IH [of "(cpus, mem)" s1 c1 m1 zs1 saw1] Cons.prems cm g Inl show ?thesis
      by (cases "isMachineTypeNotFoundError err") auto
  next
    case (Inr o1)
    show ?thesis
    proof (cases o1)
      case None
      obtain c1 m1 zs1 saw1 s2 where l: "resolve_loop d obj ready (cpus, mem) zones s1 = ((c1, m1, zs1, saw1), s2)" by (metis prod.exhaust)
      with Cons.IH [of "(cpus, mem)" s1 c1 m1 zs1 saw1] Cons.prems cm g Inr None show ?thesis by auto
    next
      case (Some p)
      obtain c0 m0 where p: "p = (c0, m0)" by (cases p)
      obtain c1 m1 zs1 saw1 s2 where l: "resolve_loop d obj ready (c0, m0) zones s1 = ((c1, m1, zs1, saw1), s2)" by (metis prod.exhaust)
      with Cons.IH [of "(c0, m0)" s1 c1 m1 zs1 saw1] Cons.prems cm g Inr Some p show ?thesis by auto
    qed
  qed
qed

text \<open>A failure that is not a definite ``not found'' never withdraws a confirmed zone: while the registration is ready, every cluster
  zone it was confirmed in stays, unless the Compute service says that the shape does not exist there; a zone is added only
  when the service confirms the shape; and the reconcile is retried exactly if some zone is unknown.\<close>

theorem resolveZones_retains:
  assumes "\<And>z s. fst (cd_getMachineType d z (cmt_MachineType obj) s) = answer z"
    and "fst (resolveZones d obj zones s) = (c, m, zs, saw)"
  shows "(\<forall>z. z \<in> set zs \<longleftrightarrow> z \<in> set zones \<and> ((\<exists>p. answer z = Inr (Some p)) \<or> cmt_ready obj \<and> z \<in> set (cmt_Zones obj)
        \<and> \<not> (\<exists>err. answer z = Inl err \<and> isMachineTypeNotFoundError err)))
    \<and> (saw \<longleftrightarrow> (\<exists>z \<in> set zones. \<not> (\<exists>p. answer z = Inr (Some p)) \<and> \<not> (\<exists>err. answer z = Inl err \<and> isMachineTypeNotFoundError err)))"
proof -
  note * = resolve_loop_zones [OF assms(1), OF assms(2) [unfolded resolveZones_def]]
  show ?thesis unfolding conjunct1 [OF *] conjunct2 [OF *]
    by (auto split: sum.splits option.splits)
qed

definition example_cmt_deps :: "unit cmt_deps" where
  "example_cmt_deps = \<lparr>cd_listRegistrations = (\<lambda>_. Inr []), cd_ResolveClusterZones = (\<lambda>s. (Inr [''us-a'', ''us-b'', ''us-c''], s)),
     cd_getMachineType = (\<lambda>z n s. (if z = ''us-a'' then Inl (GoogleApiError 503 [] []) else if z = ''us-b'' then Inl (GoogleApiError 404 [] [])
       else Inr (Some (4, 8192)), s)), cd_patchStatus = (\<lambda>_ s. (None, s))\<rparr>"

theorem resolveZones_retains_witness:
  "fst (resolveZones example_cmt_deps (example_cmt ''x'' 1) [''us-a'', ''us-b'', ''us-c''] ()) = (4, 8192, [''us-a'', ''us-c''], True)
   \<and> ''us-a'' \<in> set [''us-a'', ''us-c'']"
proof -
  let ?d = example_cmt_deps let ?o = "example_cmt ''x'' 1"
  have r: "fst (resolveZones ?d ?o [''us-a'', ''us-b'', ''us-c''] ()) = (4, 8192, [''us-a'', ''us-c''], True)" by code_simp
  have a: "fst (cd_getMachineType ?d z (cmt_MachineType ?o) s) = fst (cd_getMachineType ?d z (cmt_MachineType ?o) ())" for z s
    by (simp add: example_cmt_deps_def)
  from resolveZones_retains [OF a r] r show ?thesis by simp
qed

end
