(* ===== verification/Status_Conditions.thy ===== *)
theory Status_Conditions
  imports Api_Types
begin

text \<open>
  Status conditions, \<^verbatim>\<open>github.com/awslabs/operatorpkg/status/condition_set.go\<close> (vendored), as the controllers use them: a root condition that follows
  its dependents. Transition times and observed generations are left out, and with them the order of the conditions other
  than that the root comes last: every condition of a set is written at the generation of the object.
\<close>

record condition_types =
  ct_root :: string
  ct_dependents :: "string list"

definition condition_Get :: "Condition list \<Rightarrow> string \<Rightarrow> Condition option" where
  "condition_Get cs t = List.find (\<lambda>c. cond_Type c = t) cs"

definition place_condition :: "condition_types \<Rightarrow> Condition \<Rightarrow> Condition list \<Rightarrow> Condition list" where
  "place_condition ct c cs = (let cs' = filter (\<lambda>x. cond_Type x \<noteq> cond_Type c) cs @ [c] in
     filter (\<lambda>x. cond_Type x \<noteq> ct_root ct) cs' @ filter (\<lambda>x. cond_Type x = ct_root ct) cs')"

fun status_text :: "condition_status \<Rightarrow> string" where
  "status_text CondTrue = ''True''" | "status_text CondFalse = ''False''" | "status_text CondUnknown = ''Unknown''"

definition findUnhealthyDependents :: "condition_types \<Rightarrow> Condition list \<Rightarrow> Condition list" where
  "findUnhealthyDependents ct cs = filter (\<lambda>c. cond_Type c \<in> set (ct_dependents ct) \<and> cond_Status c \<noteq> CondTrue) cs"

definition root_condition :: "condition_types \<Rightarrow> Condition list \<Rightarrow> Condition" where
  "root_condition ct cs = (let bad = findUnhealthyDependents ct cs in
     if bad = [] then \<lparr>cond_Type = ct_root ct, cond_Status = CondTrue, cond_Reason = ct_root ct, cond_Message = []\<rparr>
     else (let st = (if list_ex (\<lambda>c. cond_Status c = CondFalse) bad then CondFalse else CondUnknown) in
       \<lparr>cond_Type = ct_root ct, cond_Status = st,
        cond_Reason = (if st = CondUnknown then ''ReconcilingDependents'' else ''UnhealthyDependents''),
        cond_Message = join '', '' (map (\<lambda>c. cond_Type c @ ''='' @ status_text (cond_Status c)) bad)\<rparr>))"

definition set_plain :: "condition_types \<Rightarrow> Condition \<Rightarrow> Condition list \<Rightarrow> Condition list" where
  "set_plain ct c cs = (if condition_Get cs (cond_Type c) = Some c then cs else place_condition ct c cs)"

text \<open>\<^verbatim>\<open>Set\<close>, with \<^verbatim>\<open>recomputeRootCondition\<close>: nothing happens when the condition is there already.\<close>

definition condition_Set :: "condition_types \<Rightarrow> Condition \<Rightarrow> Condition list \<Rightarrow> Condition list" where
  "condition_Set ct c cs = (if condition_Get cs (cond_Type c) = Some c then cs
     else (let cs = place_condition ct c cs in
       if cond_Type c = ct_root ct then cs else set_plain ct (root_condition ct cs) cs))"

definition SetUnknown :: "condition_types \<Rightarrow> string \<Rightarrow> Condition list \<Rightarrow> Condition list" where
  "SetUnknown ct t cs = condition_Set ct \<lparr>cond_Type = t, cond_Status = CondUnknown, cond_Reason = ''AwaitingReconciliation'',
     cond_Message = ''object is awaiting reconciliation''\<rparr> cs"

definition SetTrue :: "condition_types \<Rightarrow> string \<Rightarrow> Condition list \<Rightarrow> Condition list" where
  "SetTrue ct t cs = condition_Set ct \<lparr>cond_Type = t, cond_Status = CondTrue, cond_Reason = t, cond_Message = []\<rparr> cs"

definition SetFalse :: "condition_types \<Rightarrow> string \<Rightarrow> string \<Rightarrow> string \<Rightarrow> Condition list \<Rightarrow> Condition list" where
  "SetFalse ct t reason message cs = condition_Set ct \<lparr>cond_Type = t, cond_Status = CondFalse, cond_Reason = reason, cond_Message = message\<rparr> cs"

text \<open>\<^verbatim>\<open>For\<close>: the root and the dependents that are missing become unknown.\<close>

definition conditions_For :: "condition_types \<Rightarrow> Condition list \<Rightarrow> Condition list" where
  "conditions_For ct cs = foldl (\<lambda>cs t. if condition_Get cs t = None then SetUnknown ct t cs else cs) cs (ct_root ct # ct_dependents ct)"

subsection \<open>The root follows its dependents\<close>

lemma condition_Get_filter: "condition_Get (filter (\<lambda>x. cond_Type x \<noteq> u) cs) t = (if t = u then None else condition_Get cs t)"
  by (induction cs) (auto simp: condition_Get_def)

lemma condition_Get_append: "condition_Get (xs @ ys) t = (case condition_Get xs t of Some c \<Rightarrow> Some c | None \<Rightarrow> condition_Get ys t)"
  by (induction xs) (auto simp: condition_Get_def)

lemma condition_Get_only: "condition_Get (filter (\<lambda>x. cond_Type x = u) cs) t = (if t = u then condition_Get cs t else None)"
  by (induction cs) (auto simp: condition_Get_def)

lemma Get_place_condition: "condition_Get (place_condition ct c cs) t = (if t = cond_Type c then Some c else condition_Get cs t)"
proof -
  let ?cs = "filter (\<lambda>x. cond_Type x \<noteq> cond_Type c) cs @ [c]"
  have "condition_Get (place_condition ct c cs) t = condition_Get ?cs t"
    unfolding place_condition_def Let_def condition_Get_append [of "filter _ _"] condition_Get_filter condition_Get_only
    by (cases "t = ct_root ct") (simp_all split: option.splits)
  also have "\<dots> = (if t = cond_Type c then Some c else condition_Get cs t)"
    by (simp add: condition_Get_append condition_Get_filter) (simp add: condition_Get_def split: option.splits)
  finally show ?thesis .
qed

definition condition_status_at :: "Condition list \<Rightarrow> string \<Rightarrow> condition_status" where
  "condition_status_at cs t = (case condition_Get cs t of Some c \<Rightarrow> cond_Status c | None \<Rightarrow> CondUnknown)"

lemma Get_condition_Set:
  "condition_Get (condition_Set ct c cs) t = (if t = cond_Type c then Some c
     else if t = ct_root ct \<and> cond_Type c \<noteq> ct_root ct \<and> condition_Get cs (cond_Type c) \<noteq> Some c then Some (root_condition ct (place_condition ct c cs))
     else condition_Get cs t)"
proof -
  have [simp]: "cond_Type (root_condition ct xs) = ct_root ct" for xs by (simp add: root_condition_def Let_def)
  show ?thesis by (auto simp: condition_Set_def set_plain_def Let_def Get_place_condition)
qed

definition root_agrees :: "condition_types \<Rightarrow> Condition list \<Rightarrow> bool" where
  "root_agrees ct cs \<longleftrightarrow> condition_status_at cs (ct_root ct) = cond_Status (root_condition ct cs)"

lemma cond_Type_root [simp]: "cond_Type (root_condition ct cs) = ct_root ct"
  by (simp add: root_condition_def Let_def)

lemma findUnhealthy_root:
  assumes "ct_root ct \<notin> set (ct_dependents ct)" "cond_Type c = ct_root ct"
  shows "findUnhealthyDependents ct (place_condition ct c cs) = findUnhealthyDependents ct cs"
proof -
  have "filter (\<lambda>x. cond_Type x \<in> set (ct_dependents ct) \<and> cond_Status x \<noteq> CondTrue) (filter (\<lambda>x. cond_Type x \<noteq> ct_root ct) cs)
    = filter (\<lambda>x. cond_Type x \<in> set (ct_dependents ct) \<and> cond_Status x \<noteq> CondTrue) cs"
    unfolding filter_filter by (rule filter_cong) (use assms(1) in auto)
  moreover have "filter (\<lambda>x. cond_Type x \<in> set (ct_dependents ct) \<and> cond_Status x \<noteq> CondTrue) (filter (\<lambda>x. cond_Type x = ct_root ct) cs) = []"
    using assms(1) by (auto simp: filter_empty_conv)
  ultimately show ?thesis using assms
    by (simp add: findUnhealthyDependents_def place_condition_def filter_empty_conv)
qed

lemma root_condition_place_root:
  "ct_root ct \<notin> set (ct_dependents ct) \<Longrightarrow> cond_Type c = ct_root ct \<Longrightarrow> root_condition ct (place_condition ct c cs) = root_condition ct cs"
  using findUnhealthy_root [of ct c cs] by (simp add: root_condition_def)

lemma condition_Set_agrees:
  assumes "ct_root ct \<notin> set (ct_dependents ct)" "cond_Type c \<noteq> ct_root ct" "root_agrees ct cs"
  shows "root_agrees ct (condition_Set ct c cs)"
proof (cases "condition_Get cs (cond_Type c) = Some c")
  case True
  with assms(3) show ?thesis by (simp add: condition_Set_def)
next
  case False
  let ?cs = "place_condition ct c cs"
  have "root_condition ct (set_plain ct (root_condition ct ?cs) ?cs) = root_condition ct ?cs"
    by (simp add: set_plain_def root_condition_place_root [OF assms(1)])
  then show ?thesis using False assms(2)
    by (simp add: root_agrees_def condition_status_at_def Get_condition_Set) (simp add: condition_Set_def Let_def)
qed

definition distinct_conditions :: "Condition list \<Rightarrow> bool" where
  "distinct_conditions cs \<longleftrightarrow> distinct (map cond_Type cs)"

lemma distinct_place: "distinct_conditions cs \<Longrightarrow> distinct_conditions (place_condition ct c cs)"
  unfolding distinct_conditions_def place_condition_def Let_def
  by (auto simp: distinct_map inj_on_def distinct_map_filter)

lemma distinct_condition_Set: "distinct_conditions cs \<Longrightarrow> distinct_conditions (condition_Set ct c cs)"
  by (simp add: condition_Set_def set_plain_def Let_def distinct_place)

lemma find_distinct: "distinct_conditions cs \<Longrightarrow> c \<in> set cs \<Longrightarrow> condition_Get cs (cond_Type c) = Some c"
  by (induction cs) (auto simp: distinct_conditions_def condition_Get_def)

text \<open>With a single dependent the root has its status.\<close>

lemma single_dependent:
  assumes "ct_dependents ct = [t]" "root_agrees ct cs" "distinct_conditions cs" "condition_Get cs t = Some c"
  shows "condition_status_at cs (ct_root ct) = cond_Status c"
proof -
  have mem: "x \<in> set cs \<Longrightarrow> cond_Type x = t \<Longrightarrow> x = c" for x using find_distinct [OF assms(3), of x] assms(4) by auto
  have c: "c \<in> set cs" "cond_Type c = t" using assms(4) by (auto simp: condition_Get_def find_Some_iff)
  have "x \<in> set (findUnhealthyDependents ct cs) \<longleftrightarrow> x = c \<and> cond_Status c \<noteq> CondTrue" for x
    using mem [of x] c by (auto simp: findUnhealthyDependents_def assms(1))
  then have "set (findUnhealthyDependents ct cs) = (if cond_Status c = CondTrue then {} else {c})" by (simp only: set_eq_iff) simp
  then have "cond_Status (root_condition ct cs) = cond_Status c"
    by (cases "cond_Status c"; cases "findUnhealthyDependents ct cs") (auto simp: root_condition_def Let_def list_ex_iff)
  with assms(2) show ?thesis by (simp add: root_agrees_def)
qed

end
