(* ===== verification/Go_Regexp.thy ===== *)
theory Go_Regexp
  imports Go_Strings
begin

text \<open>
  The regular expressions the provider matches image names with, as sequences of literals, digit runs and an optional
  letter, and \<^verbatim>\<open>ReplaceAllString\<close>. A digit run takes all the digits it finds: in every pattern of the code a literal that
  starts with another character, the optional letter or the end follows it, so no shorter run could match. \<^verbatim>\<open>$\<close> is the end of the text.
\<close>

datatype re_item =
    Lit string
  | Digits \<comment> \<open>\<^verbatim>\<open>\d+\<close>\<close>
  | DigitsN nat \<comment> \<open>\<^verbatim>\<open>\d{n}\<close>\<close>
  | OptLower \<comment> \<open>\<^verbatim>\<open>[a-z]?\<close>\<close>

text \<open>A match at the start of the text: what it covers and what is left.\<close>

fun re_match :: "re_item list \<Rightarrow> string \<Rightarrow> (string \<times> string) option" where
  "re_match [] s = Some ([], s)"
| "re_match (Lit l # ps) s = (if has_prefix s l then map_option (map_prod ((@) l) id) (re_match ps (drop (length l) s)) else None)"
| "re_match (Digits # ps) s = (if takeWhile is_digit s = [] then None
     else map_option (map_prod ((@) (takeWhile is_digit s)) id) (re_match ps (dropWhile is_digit s)))"
| "re_match (DigitsN n # ps) s = (if length s < n \<or> \<not> list_all is_digit (take n s) then None
     else map_option (map_prod ((@) (take n s)) id) (re_match ps (drop n s)))"
| "re_match (OptLower # ps) s = (if s \<noteq> [] \<and> is_lower (hd s) then map_option (map_prod ((#) (hd s)) id) (re_match ps (tl s)) else re_match ps s)"

definition re_full :: "re_item list \<Rightarrow> string \<Rightarrow> bool" where
  "re_full ps s = (case re_match ps s of Some (_, []) \<Rightarrow> True | _ \<Rightarrow> False)"

text \<open>\<^verbatim>\<open>ReplaceAllString\<close>: \<open>m\<close> gives the replacement of a match at the start and the text after it. Every match of the code is
  non-empty, which the test on the lengths states.\<close>

function re_replace_all :: "(string \<Rightarrow> (string \<times> string) option) \<Rightarrow> string \<Rightarrow> string" where
  "re_replace_all m s = (case m s of
      Some (r, rest) \<Rightarrow> if length rest < length s then r @ re_replace_all m rest else s
    | None \<Rightarrow> (case s of [] \<Rightarrow> [] | c # cs \<Rightarrow> c # re_replace_all m cs))"
  by pat_completeness auto

termination re_replace_all
  by (relation "measure (length \<circ> snd)") auto

declare re_replace_all.simps [simp del]

text \<open>\<^verbatim>\<open>strings.ReplaceAll\<close> of a non-empty string.\<close>

definition replace_str :: "string \<Rightarrow> string \<Rightarrow> string \<Rightarrow> string" where
  "replace_str old new s = re_replace_all (\<lambda>t. if old \<noteq> [] \<and> has_prefix t old then Some (new, drop (length old) t) else None) s"

subsection \<open>Matching\<close>

lemma takeWhile_digits [simp]: "list_all is_digit d \<Longrightarrow> s = [] \<or> \<not> is_digit (hd s) \<Longrightarrow> takeWhile is_digit (d @ s) = d"
  by (induction d) (cases s; auto)+

lemma dropWhile_digits [simp]: "list_all is_digit d \<Longrightarrow> s = [] \<or> \<not> is_digit (hd s) \<Longrightarrow> dropWhile is_digit (d @ s) = s"
  by (induction d) (cases s; auto)+

lemma re_match_Lit [simp]: "re_match (Lit l # ps) (l @ s) = map_option (map_prod ((@) l) id) (re_match ps s)"
  by simp

lemma re_match_Digits:
  "is_digits d \<Longrightarrow> s = [] \<or> \<not> is_digit (hd s) \<Longrightarrow>
   re_match (Digits # ps) (d @ s) = map_option (map_prod ((@) d) id) (re_match ps s)"
  by (simp add: is_digits_def)

text \<open>Inversion, one item at a time.\<close>

lemma re_match_LitE:
  assumes "re_match (Lit l # ps) s = Some (m, r)"
  obtains m' s' where "s = l @ s'" "m = l @ m'" "re_match ps s' = Some (m', r)"
  using assms by (auto simp: has_prefix_iff split: if_splits)

lemma re_match_DigitsE:
  assumes "re_match (Digits # ps) s = Some (m, r)"
  obtains d m' s' where "s = d @ s'" "m = d @ m'" "is_digits d" "s' = [] \<or> \<not> is_digit (hd s')" "re_match ps s' = Some (m', r)"
proof -
  let ?d = "takeWhile is_digit s" let ?s = "dropWhile is_digit s"
  from assms obtain m' where m: "?d \<noteq> []" "re_match ps ?s = Some (m', r)" "m = ?d @ m'"
    by (auto split: if_splits)
  have "s = ?d @ ?s" by simp
  moreover have "is_digits ?d" using m(1) by (auto simp: is_digits_def list_all_iff dest: set_takeWhileD)
  moreover have "?s = [] \<or> \<not> is_digit (hd ?s)" using hd_dropWhile [of is_digit s] by blast
  ultimately show thesis using m that by metis
qed

lemma re_match_append: "re_match ps s = Some (m, r) \<Longrightarrow> s = m @ r"
proof (induction ps s arbitrary: m r rule: re_match.induct)
  case (2 l ps s)
  then show ?case by (auto simp: has_prefix_iff split: if_splits)
next
  case (3 ps s)
  obtain d m' s' where s: "s = d @ s'" "m = d @ m'" "is_digits d" "s' = [] \<or> \<not> is_digit (hd s')" "re_match ps s' = Some (m', r)"
    using re_match_DigitsE [OF 3(2)] .
  then have "takeWhile is_digit s \<noteq> []" "dropWhile is_digit s = s'" by (auto simp: is_digits_def)
  with 3(1) [of m' r] s show ?case by simp
next
  case (4 n ps s)
  from 4(2) obtain m' where m: "\<not> (length s < n \<or> \<not> list_all is_digit (take n s))" "re_match ps (drop n s) = Some (m', r)" "m = take n s @ m'"
    by (auto split: if_splits)
  with 4(1) [of m' r] show ?case by (metis append_assoc append_take_drop_id)
next
  case (5 ps s)
  then show ?case by (cases s) (auto split: if_splits)
qed (auto split: if_splits)

text \<open>A match holds digits, lower-case letters and the characters of the literals.\<close>

fun re_chars :: "re_item list \<Rightarrow> char set" where
  "re_chars [] = {}"
| "re_chars (Lit l # ps) = set l \<union> re_chars ps"
| "re_chars (_ # ps) = re_chars ps"

lemma re_match_chars:
  "re_match ps s = Some (m, r) \<Longrightarrow> c \<in> set m \<Longrightarrow> is_digit c \<or> is_lower c \<or> c \<in> re_chars ps"
proof (induction ps s arbitrary: m r rule: re_match.induct)
  case (3 ps s)
  then show ?case by (auto split: if_splits dest: set_takeWhileD)
next
  case (4 n ps s)
  then show ?case by (auto simp: list_all_iff split: if_splits)
next
  case (5 ps s)
  then show ?case by (auto split: if_splits)
qed (auto split: if_splits)

lemma re_full_iff: "re_full ps s \<longleftrightarrow> re_match ps s = Some (s, [])"
  using re_match_append [of ps s] by (auto simp: re_full_def split: option.splits list.splits)

subsection \<open>Replacing\<close>

lemma re_replace_all_Nil [simp]: "m [] = None \<Longrightarrow> re_replace_all m [] = []"
  by (simp add: re_replace_all.simps)

lemma re_replace_all_whole: "m s = Some (r, []) \<Longrightarrow> s \<noteq> [] \<Longrightarrow> m [] = None \<Longrightarrow> re_replace_all m s = r"
  by (simp add: re_replace_all.simps [of m s])

lemma replace_str_Nil [simp]: "replace_str old new [] = []"
  by (simp add: replace_str_def re_replace_all.simps)

lemma replace_str_skip: "\<not> has_prefix (c # s) old \<Longrightarrow> replace_str old new (c # s) = c # replace_str old new s"
  by (simp add: replace_str_def re_replace_all.simps [of _ "c # s"])

lemma replace_str_hit: "old \<noteq> [] \<Longrightarrow> replace_str old new (old @ s) = new @ replace_str old new s"
  by (cases old) (simp_all add: replace_str_def re_replace_all.simps [of _ "_ # _"])

text \<open>No occurrence starts inside a part that lacks the first character of the pattern.\<close>

lemma replace_str_append: "hd old \<notin> set a \<Longrightarrow> old \<noteq> [] \<Longrightarrow> replace_str old new (a @ s) = a @ replace_str old new s"
proof (induction a)
  case (Cons c a)
  then have "\<not> has_prefix (c # a @ s) old" by (cases old) auto
  with Cons show ?case by (simp add: replace_str_skip)
qed simp

end
