(* ===== verification/Gke_Version.thy ===== *)
theory Gke_Version
  imports Go_Cache Go_Errors
begin

text \<open>
  Kubernetes and GKE versions: generic parsing and comparison (\<^verbatim>\<open>k8s.io/apimachinery/pkg/util/version\<close>, vendored), the version of a
  release channel (\<^verbatim>\<open>pkg/providers/gke/version.go\<close>) and the cached server version (\<^verbatim>\<open>pkg/providers/version/version.go\<close>). The code only
  parses generic versions, so a version is its numeric components; what follows them is dropped, GKE build numbers
  included.
\<close>

subsection \<open>Generic versions\<close>

type_synonym Version = "nat list"

text \<open>The white space of \<^verbatim>\<open>\s\<close>, which is not that of \<^verbatim>\<open>strings.TrimSpace\<close>.\<close>

definition re_space :: "char \<Rightarrow> bool" where
  "re_space c \<longleftrightarrow> c \<in> {CHR '' '', CHR 0x09, CHR 0x0A, CHR 0x0C, CHR 0x0D}"

text \<open>\<^verbatim>\<open>[0-9]+(?:\.[0-9]+)*\<close>, greedy: the numbers and the rest.\<close>

function lex_numbers :: "string \<Rightarrow> (string list \<times> string) option" where
  "lex_numbers s = (let ds = takeWhile is_digit s; r = dropWhile is_digit s in
     if ds = [] then None else (case r of [] \<Rightarrow> Some ([ds], r)
       | c # r' \<Rightarrow> if c \<noteq> CHR ''.'' then Some ([ds], r)
           else (case lex_numbers r' of None \<Rightarrow> Some ([ds], r) | Some (ns, rest) \<Rightarrow> Some (ds # ns, rest))))"
  by pat_completeness auto

termination lex_numbers
proof (relation "measure length", simp)
  fix s :: string and x xa c r'
  assume "xa = dropWhile is_digit s" "xa = c # r'"
  then have "length (c # r') \<le> length s" by (metis length_dropWhile_le)
  then show "(r', s) \<in> measure length" by simp
qed

declare lex_numbers.simps [simp del]

definition ParseUint64 :: "string \<Rightarrow> nat option" where
  "ParseUint64 s = (if is_digits s \<and> int (digits_val s) < 2 ^ 64 then Some (digits_val s) else None)"

fun parse_components :: "string list \<Rightarrow> nat list option" where
  "parse_components [] = Some []"
| "parse_components (c # cs) = (case ParseUint64 c of None \<Rightarrow> None | Some n \<Rightarrow> map_option (Cons n) (parse_components cs))"

definition ParseGeneric :: "string \<Rightarrow> go_error + Version" where
  "ParseGeneric str = (let s = dropWhile re_space str in
     case lex_numbers (if has_prefix s ''v'' then drop 1 s else s) of
       None \<Rightarrow> Inl (Errorf ''could not parse %q as version'' [str] [])
     | Some (comps, extra) \<Rightarrow> if CHR 0x0A \<in> set extra then Inl (Errorf ''could not parse %q as version'' [str] [])
         else if length comps < 2 then Inl (Errorf ''illegal version string %q'' [str] [])
         else if has_prefix (hd comps) ''0'' \<and> hd comps \<noteq> ''0'' then
           Inl (Errorf ''illegal zero-prefixed version component %q in %q'' [hd comps, str] [])
         else (case parse_components comps of
             None \<Rightarrow> Inl (Errorf ''illegal non-numeric version component in %q'' [str] [])
           | Some v \<Rightarrow> Inr v))"

definition Major :: "Version \<Rightarrow> nat" where "Major v = v ! 0"
definition Minor :: "Version \<Rightarrow> nat" where "Minor v = v ! 1"
definition Patch :: "Version \<Rightarrow> nat" where "Patch v = (if length v < 3 then 0 else v ! 2)"

definition onlyZeros :: "nat list \<Rightarrow> bool" where
  "onlyZeros xs = list_all (\<lambda>n. n = 0) xs"

fun compareInternal :: "Version \<Rightarrow> Version \<Rightarrow> int" where
  "compareInternal [] [] = 0"
| "compareInternal [] (y # ys) = (if onlyZeros (y # ys) then 0 else - 1)"
| "compareInternal (x # xs) [] = (if onlyZeros (x # xs) then 0 else 1)"
| "compareInternal (x # xs) (y # ys) = (if y < x then 1 else if y > x then - 1 else compareInternal xs ys)"

definition version_Compare :: "Version \<Rightarrow> string \<Rightarrow> go_error + int" where
  "version_Compare v other = (case ParseGeneric other of Inl err \<Rightarrow> Inl err | Inr q \<Rightarrow> Inr (compareInternal v q))"

definition version_LessThan :: "Version \<Rightarrow> Version \<Rightarrow> bool" where
  "version_LessThan v q \<longleftrightarrow> compareInternal v q = - 1"

subsection \<open>The version of a release channel\<close>

record ReleaseChannelConfig =
  rcc_Channel :: string
  rcc_DefaultVersion :: string
  rcc_ValidVersions :: "string list"

record ServerConfig =
  sc_Channels :: "ReleaseChannelConfig list"

text \<open>\<^verbatim>\<open>GetServerConfig\<close> of \<^verbatim>\<open>pkg/providers/gke/gke.go\<close>, with the one cache of the provider that it alone uses; \<open>get\<close> is the call of the Container service.\<close>

definition serverConfigCacheTTL :: duration where [go_defs]: "serverConfigCacheTTL = 30 * 60 * 1000000000"
definition serverConfigCacheKey :: string where [go_defs]: "serverConfigCacheKey = ''server-config''"

definition GetServerConfig :: "('w \<Rightarrow> (go_error + ServerConfig) \<times> 'w) \<Rightarrow> instant \<Rightarrow> ServerConfig gocache \<Rightarrow> 'w \<Rightarrow> (go_error + ServerConfig) \<times> ServerConfig gocache \<times> 'w" where
  "GetServerConfig get now c w = (case cache_get now serverConfigCacheKey c of
      Some sc \<Rightarrow> (Inr sc, c, w)
    | None \<Rightarrow> (case get w of
        (Inl err, w) \<Rightarrow> (Inl (Errorf ''fetching server config: %w'' [] [err]), c, w)
      | (Inr sc, w) \<Rightarrow> (Inr sc, cache_set now serverConfigCacheKey sc 0 c, w)))"

definition NewServerConfigCache :: "ServerConfig gocache" where "NewServerConfigCache = newCache serverConfigCacheTTL"

text \<open>A fetched configuration is served for half an hour without another call; a failure is not kept.\<close>

lemma GetServerConfig_serves:
  assumes "get w = (Inr sc, w1)" "0 < now" "t \<le> now + serverConfigCacheTTL" "GetServerConfig get now NewServerConfigCache w = (r, c, w2)"
  shows "r = Inr sc \<and> w2 = w1 \<and> GetServerConfig get' t c w' = (Inr sc, c, w')"
  using assms by (auto simp: GetServerConfig_def NewServerConfigCache_def newCache_def cache_get_def cache_set_def item_expired_def go_defs)

lemma GetServerConfig_failure:
  assumes "cache_get now serverConfigCacheKey c = None" "get w = (Inl err, w1)"
  shows "GetServerConfig get now c w = (Inl (Errorf ''fetching server config: %w'' [] [err]), c, w1)"
  using assms by (simp add: GetServerConfig_def)

definition to_upper :: "string \<Rightarrow> string" where
  "to_upper s = map (\<lambda>c. if is_lower c then char_of (char_code c - 32) else c) s"

definition findChannelConfig :: "ServerConfig \<Rightarrow> string \<Rightarrow> ReleaseChannelConfig option" where
  "findChannelConfig sc channelName = List.find (\<lambda>c. rcc_Channel c = channelName) (sc_Channels sc)"

definition extractMinorVersion :: "string \<Rightarrow> go_error + string" where
  "extractMinorVersion v = (case ParseGeneric v of Inl err \<Rightarrow> Inl (Errorf ''cannot parse version %q: %w'' [v] [err])
     | Inr p \<Rightarrow> Inr (utoa (Major p) @ ''.'' @ utoa (Minor p)))"

definition higher_version :: "string \<Rightarrow> string \<Rightarrow> bool" where
  "higher_version a b = (case ParseGeneric a of Inl _ \<Rightarrow> b < a
     | Inr va \<Rightarrow> (case version_Compare va b of Inl _ \<Rightarrow> b < a | Inr cmp \<Rightarrow> cmp > 0))"

definition highestVersionForMinor :: "string list \<Rightarrow> string \<Rightarrow> string" where
  "highestVersionForMinor versions minor = (let candidates = filter (\<lambda>v. extractMinorVersion v = Inr minor) versions in
     if candidates = [] then [] else hd (sort_slice higher_version candidates))"

definition ResolveVersionForChannel :: "ServerConfig \<Rightarrow> string \<Rightarrow> string \<Rightarrow> go_error + string" where
  "ResolveVersionForChannel sc channelName clusterVersion = (case findChannelConfig sc (to_upper channelName) of
      None \<Rightarrow> Inl (Errorf ''channel %s not found in getServerConfig response'' [to_upper channelName] [])
    | Some ch \<Rightarrow> (case extractMinorVersion clusterVersion of
        Inl err \<Rightarrow> Inl (Errorf ''parsing cluster version %q: %w'' [clusterVersion] [err])
      | Inr clusterMinor \<Rightarrow> if rcc_DefaultVersion ch \<noteq> [] \<and> extractMinorVersion (rcc_DefaultVersion ch) = Inr clusterMinor
          then Inr (rcc_DefaultVersion ch)
          else (let v = highestVersionForMinor (rcc_ValidVersions ch) clusterMinor in
            if v \<noteq> [] then Inr v
            else Inl (Errorf ''channel %s has no valid version for cluster minor %s; the requested channel may not yet support this Kubernetes minor, switch to a channel that does, or use version: latest explicitly''
              [to_upper channelName, clusterMinor] []))))"

subsection \<open>The server version\<close>

definition kubernetesVersionCacheKey :: string where [go_defs]: "kubernetesVersionCacheKey = ''kubernetesVersion''"
definition kubernetesVersionCacheTTL :: duration where [go_defs]: "kubernetesVersionCacheTTL = 300 * 10 ^ 9"
definition MinK8sVersion :: string where [go_defs]: "MinK8sVersion = ''1.28.1''"
definition MaxK8sVersion :: string where [go_defs]: "MaxK8sVersion = ''1.36.99''"

definition MustParseGeneric :: "string \<Rightarrow> Version option" where
  "MustParseGeneric s = (case ParseGeneric s of Inl _ \<Rightarrow> None | Inr v \<Rightarrow> Some v)"

text \<open>\<open>None\<close> is a panic; the error is only logged.\<close>

definition validateK8sVersion :: "string \<Rightarrow> go_error option option" where
  "validateK8sVersion v = (case (MustParseGeneric v, MustParseGeneric MinK8sVersion, MustParseGeneric MaxK8sVersion) of
      (Some k, Some lo, Some hi) \<Rightarrow> Some (if version_LessThan k lo \<or> version_LessThan hi k
        then Some (Errorf ''karpenter version is not compatible with K8s version %s'' [v] []) else None)
    | _ \<Rightarrow> None)"

text \<open>\<^verbatim>\<open>Get\<close>: \<open>serverVersion\<close> is the discovery call, \<open>changed\<close> the answer of the change monitor. \<open>None\<close> is a panic.\<close>

definition VersionGet :: "instant \<Rightarrow> ('s \<Rightarrow> (go_error + string) \<times> 's) \<Rightarrow> (string \<Rightarrow> bool) \<Rightarrow> string gocache \<Rightarrow> 's
    \<Rightarrow> (go_error + string) option \<times> string gocache \<times> 's" where
  "VersionGet now serverVersion changed c s = (case cache_get now kubernetesVersionCacheKey c of
      Some v \<Rightarrow> (Some (Inr v), c, s)
    | None \<Rightarrow> (case serverVersion s of
        (Inl err, s) \<Rightarrow> (Some (Inl err), c, s)
      | (Inr v, s) \<Rightarrow> (let c = cache_set now kubernetesVersionCacheKey v 0 c in
          if changed v \<and> validateK8sVersion v = None then (None, c, s) else (Some (Inr v), c, s))))"

subsection \<open>Comparison is a weak order\<close>

lemma compareInternal_sym: "compareInternal x y = - compareInternal y x"
  by (induction x y rule: compareInternal.induct) auto

lemma compareInternal_zeros: "onlyZeros x \<Longrightarrow> compareInternal x y \<le> 0"
  by (induction x y rule: compareInternal.induct) (auto simp: onlyZeros_def)

lemma compareInternal_le_zeros: "compareInternal x y \<le> 0 \<Longrightarrow> onlyZeros y \<Longrightarrow> onlyZeros x"
  by (induction x y rule: compareInternal.induct) (auto simp: onlyZeros_def split: if_splits)

lemma compareInternal_trans: "compareInternal x y \<le> 0 \<Longrightarrow> compareInternal y z \<le> 0 \<Longrightarrow> compareInternal x z \<le> 0"
proof (induction x z arbitrary: y rule: compareInternal.induct)
  case (3 x xs)
  then have "onlyZeros (x # xs)"
    using compareInternal_le_zeros [of y "[]"] compareInternal_le_zeros [of "x # xs" y] by (simp add: onlyZeros_def)
  then show ?case by simp
next
  case (4 x xs z zs)
  show ?case
  proof (cases y)
    case Nil
    with 4(2) have "onlyZeros (x # xs)" by (auto split: if_splits)
    then show ?thesis using compareInternal_zeros by blast
  next
    case (Cons b ys)
    with 4 show ?thesis by (auto split: if_splits)
  qed
qed auto

lemma weak_order_compareInternal: "weak_order (\<lambda>a b. compareInternal (f a) (f b) > 0)"
  unfolding weak_order_def
proof (intro conjI allI impI)
  fix x y assume "0 < compareInternal (f x) (f y)"
  then show "\<not> 0 < compareInternal (f y) (f x)" using compareInternal_sym [of "f x" "f y"] by simp
next
  fix x y z assume "\<not> 0 < compareInternal (f x) (f y)" "\<not> 0 < compareInternal (f y) (f z)"
  then show "\<not> 0 < compareInternal (f x) (f z)" using compareInternal_trans [of "f x" "f y" "f z"] by simp
qed

lemma sift_cong: "(\<And>y. y \<in> set ys \<Longrightarrow> lt x y = lt' x y) \<Longrightarrow> sift lt x ys = sift lt' x ys"
  by (induction ys) auto

lemma set_sift: "set (sift lt x ys) = insert x (set ys)"
  by (metis mset_sift set_mset_add_mset_insert set_mset_mset)

lemma sift_all_cong:
  assumes "\<And>x y. x \<in> set acc \<union> set xs \<Longrightarrow> y \<in> set acc \<union> set xs \<Longrightarrow> lt x y = lt' x y"
  shows "sift_all lt acc xs = sift_all lt' acc xs"
  using assms
proof (induction xs arbitrary: acc)
  case (Cons x xs)
  have "sift lt x acc = sift lt' x acc" using Cons.prems by (intro sift_cong) auto
  moreover have "sift_all lt (sift lt' x acc) xs = sift_all lt' (sift lt' x acc) xs"
    by (rule Cons.IH) (use Cons.prems in \<open>auto simp: set_sift\<close>)
  ultimately show ?case by simp
qed simp

lemma sort_slice_cong: "(\<And>x y. x \<in> set xs \<Longrightarrow> y \<in> set xs \<Longrightarrow> lt x y = lt' x y) \<Longrightarrow> sort_slice lt xs = sort_slice lt' xs"
  unfolding sort_slice_def using sift_all_cong [of "[]" xs lt lt'] by simp

lemma sift_all_never: "sift_all (\<lambda>_ _. False) acc xs = rev xs @ acc"
proof (induction xs arbitrary: acc)
  case (Cons x xs)
  have "sift (\<lambda>_ _. False) x acc = x # acc" by (cases acc) auto
  with Cons show ?case by simp
qed simp

lemma hd_sort_slice_least:
  assumes "weak_order lt" "x \<in> set xs"
  shows "\<not> lt x (hd (sort_slice lt xs))"
proof -
  have s: "sorted_wrt (\<lambda>x y. \<not> lt y x) (sort_slice lt xs)" by (rule sorted_sort_slice [OF assms(1)])
  have m: "x \<in> set (sort_slice lt xs)" using assms(2) by simp
  show ?thesis
  proof (cases "sort_slice lt xs")
    case Nil
    with m show ?thesis by simp
  next
    case (Cons y ys)
    with s m show ?thesis using weak_order_irrefl [OF assms(1)] by auto
  qed
qed

subsection \<open>What a channel resolves to\<close>

definition version_of :: "string \<Rightarrow> Version" where
  "version_of v = (case ParseGeneric v of Inr p \<Rightarrow> p | Inl _ \<Rightarrow> [])"

lemma extractMinorVersion_parses: "extractMinorVersion v = Inr m \<Longrightarrow> ParseGeneric v = Inr (version_of v)"
  by (auto simp: extractMinorVersion_def version_of_def split: sum.splits)

lemma higher_version_parsed:
  "ParseGeneric a = Inr (version_of a) \<Longrightarrow> ParseGeneric b = Inr (version_of b) \<Longrightarrow>
   higher_version a b \<longleftrightarrow> compareInternal (version_of a) (version_of b) > 0"
  by (simp add: higher_version_def version_Compare_def)

lemma highestVersionForMinor_cases:
  fixes vs minor
  defines "cs \<equiv> filter (\<lambda>v. extractMinorVersion v = Inr minor) vs"
  assumes "highestVersionForMinor vs minor = v" "v \<noteq> []"
  shows "v \<in> set cs \<and> (\<forall>w \<in> set cs. compareInternal (version_of w) (version_of v) \<le> 0)"
proof -
  let ?lt = "\<lambda>a b. compareInternal (version_of a) (version_of b) > 0"
  have ne: "cs \<noteq> []" and v: "v = hd (sort_slice higher_version cs)"
    using assms by (auto simp: highestVersionForMinor_def Let_def split: if_splits)
  have "sort_slice higher_version cs = sort_slice ?lt cs"
    by (rule sort_slice_cong) (auto simp: cs_def intro!: higher_version_parsed extractMinorVersion_parses)
  with v have "v = hd (sort_slice ?lt cs)" by simp
  moreover have "hd (sort_slice ?lt cs) \<in> set cs"
    using ne by (metis hd_in_set length_0_conv length_sort_slice set_sort_slice)
  ultimately show ?thesis using hd_sort_slice_least [OF weak_order_compareInternal, of _ cs version_of] by (auto simp: not_less)
qed

text \<open>C34: A release channel only resolves to one of its versions with the cluster's major and minor version: its default, or, when
  the default has another minor, a valid version that no other valid version of that minor exceeds in its numeric components.\<close>

theorem ResolveVersionForChannel_sound:
  assumes "ResolveVersionForChannel sc chan cv = Inr v"
  shows "\<exists>ch m. ch \<in> set (sc_Channels sc) \<and> rcc_Channel ch = to_upper chan
    \<and> extractMinorVersion cv = Inr m \<and> extractMinorVersion v = Inr m
    \<and> (v = rcc_DefaultVersion ch \<or> extractMinorVersion (rcc_DefaultVersion ch) \<noteq> Inr m \<and> v \<in> set (rcc_ValidVersions ch)
        \<and> (\<forall>w \<in> set (rcc_ValidVersions ch). extractMinorVersion w = Inr m \<longrightarrow> compareInternal (version_of w) (version_of v) \<le> 0))"
proof -
  obtain ch where ch: "findChannelConfig sc (to_upper chan) = Some ch"
    using assms by (auto simp: ResolveVersionForChannel_def split: option.splits)
  then have mem: "ch \<in> set (sc_Channels sc)" "rcc_Channel ch = to_upper chan"
    by (auto simp: findChannelConfig_def find_Some_iff)
  obtain m where m: "extractMinorVersion cv = Inr m"
    using assms ch by (auto simp: ResolveVersionForChannel_def split: sum.splits)
  show ?thesis
  proof (cases "rcc_DefaultVersion ch \<noteq> [] \<and> extractMinorVersion (rcc_DefaultVersion ch) = Inr m")
    case True
    then have "v = rcc_DefaultVersion ch" using assms ch m by (simp add: ResolveVersionForChannel_def)
    with True mem m show ?thesis by blast
  next
    case False
    have bad: "extractMinorVersion [] \<noteq> Inr m" by (simp add: extractMinorVersion_def ParseGeneric_def lex_numbers.simps [of "[]"])
    with False have d: "extractMinorVersion (rcc_DefaultVersion ch) \<noteq> Inr m" by auto
    from assms ch m False have "highestVersionForMinor (rcc_ValidVersions ch) m = v" "v \<noteq> []"
      by (auto simp: ResolveVersionForChannel_def Let_def split: if_splits)
    from highestVersionForMinor_cases [OF this] d mem m show ?thesis by (intro exI [of _ ch] exI [of _ m]) auto
  qed
qed

definition example_channels :: ServerConfig where
  "example_channels = \<lparr>sc_Channels = [\<lparr>rcc_Channel = ''REGULAR'', rcc_DefaultVersion = ''1.33.5-gke.100'',
     rcc_ValidVersions = [''1.34.2-gke.7'', ''1.34.10-gke.3'', ''1.33.5-gke.100'', ''bad'']\<rparr>]\<rparr>"

theorem ResolveVersionForChannel_sound_witness:
  "ResolveVersionForChannel example_channels ''regular'' ''v1.34.1'' = Inr ''1.34.10-gke.3''
   \<and> compareInternal (version_of ''1.34.2-gke.7'') (version_of ''1.34.10-gke.3'') \<le> 0"
proof -
  have r: "ResolveVersionForChannel example_channels ''regular'' ''v1.34.1'' = Inr ''1.34.10-gke.3''" by code_simp
  have d: "''1.34.10-gke.3'' \<noteq> rcc_DefaultVersion (hd (sc_Channels example_channels))" by (simp add: example_channels_def)
  have m: "extractMinorVersion ''1.34.2-gke.7'' = Inr ''1.34''" "extractMinorVersion ''1.34.10-gke.3'' = Inr ''1.34''" by code_simp+
  from ResolveVersionForChannel_sound [OF r] r d m show ?thesis by (auto simp: example_channels_def)
qed

text \<open>Among versions with the same numeric components the build number plays no part: from at most twelve valid versions of a minor
  that differ only in what follows the numbers, the first one listed is taken, although a later one may be the newer
  build.\<close>

theorem highestVersionForMinor_ignores_build:
  assumes "v # vs = filter (\<lambda>x. extractMinorVersion x = Inr minor) versions" "length (v # vs) \<le> 12"
    and "\<And>x. x \<in> set vs \<Longrightarrow> version_of x = version_of v"
  shows "highestVersionForMinor versions minor = v"
proof -
  have self: "compareInternal x x = 0" for x using compareInternal_sym [of x x] by simp
  have "\<not> higher_version a b" if "a \<in> set (v # vs)" "b \<in> set (v # vs)" for a b
  proof -
    have "set (v # vs) = {x \<in> set versions. extractMinorVersion x = Inr minor}" by (simp only: assms(1) set_filter)
    with that have "extractMinorVersion a = Inr minor" "extractMinorVersion b = Inr minor" by blast+
    then have "higher_version a b \<longleftrightarrow> compareInternal (version_of a) (version_of b) > 0"
      by (intro higher_version_parsed extractMinorVersion_parses)
    moreover have "version_of a = version_of v" "version_of b = version_of v" using that assms(3) by auto
    ultimately show ?thesis by (simp add: self)
  qed
  then have "sort_slice higher_version (v # vs) = sort_slice (\<lambda>_ _. False) (v # vs)" by (intro sort_slice_cong) auto
  also have "\<dots> = v # vs" by (simp add: sort_slice_def sift_all_never)
  finally have "sort_slice higher_version (v # vs) = v # vs" .
  then show ?thesis unfolding highestVersionForMinor_def Let_def assms(1) [symmetric] by simp
qed

theorem highestVersionForMinor_ignores_build_witness:
  "highestVersionForMinor [''1.33.1-gke.5'', ''1.34.6-gke.1000'', ''1.34.6-gke.2000''] ''1.34'' = ''1.34.6-gke.1000''"
proof (rule highestVersionForMinor_ignores_build)
  show "[''1.34.6-gke.1000'', ''1.34.6-gke.2000''] = filter (\<lambda>x. extractMinorVersion x = Inr ''1.34'')
      [''1.33.1-gke.5'', ''1.34.6-gke.1000'', ''1.34.6-gke.2000'']" by code_simp
  have "version_of ''1.34.6-gke.2000'' = version_of ''1.34.6-gke.1000''" by code_simp
  then show "\<And>x. x \<in> set [''1.34.6-gke.2000''] \<Longrightarrow> version_of x = version_of ''1.34.6-gke.1000''" by simp
qed simp

end
