(* ===== verification/Image_Family.thy ===== *)
theory Image_Family
  imports Go_Regexp Gke_Version Provider_Utils Compute_Types
begin

text \<open>
  Resolution of the image selector terms of a node class, \<^verbatim>\<open>pkg/providers/imagefamily\<close>: \<^verbatim>\<open>image_list.go\<close>, \<^verbatim>\<open>containeroptimizedos.go\<close>, \<^verbatim>\<open>ubuntu.go\<close> and
  \<^verbatim>\<open>image.go\<close>. The Compute, Container and Kubernetes calls are the record \<open>image_deps\<close> over an outside state. A scan follows page tokens
  for as long as the service gives one, so what scans returns an option: \<open>None\<close> is a scan that never ends. Logging is left out.
\<close>

subsection \<open>Images of the Compute service\<close>

record compute_image =
  cimg_Name :: string
  cimg_Status :: string
  cimg_Deprecated :: "string option" \<comment> \<open>\<^verbatim>\<open>Deprecated.State\<close>\<close>
  cimg_Architecture :: string
  cimg_CreationTimestamp :: string

text \<open>\<^verbatim>\<open>Image\<close> of \<^verbatim>\<open>types.go\<close>.\<close>

record fam_image =
  fi_SourceImage :: string
  fi_Requirements :: requirements

record 's image_deps =
  ig_now :: "'s \<Rightarrow> instant"
  ig_list :: "string \<Rightarrow> string \<Rightarrow> 's \<Rightarrow> (go_error + compute_image list \<times> string) \<times> 's" \<comment> \<open>project, page token; items and next token\<close>
  ig_get :: "string \<Rightarrow> string \<Rightarrow> 's \<Rightarrow> (go_error + compute_image) \<times> 's"
  ig_version :: "('s \<Rightarrow> (go_error + string) \<times> 's) option" \<comment> \<open>the version provider, \<open>None\<close> for nil\<close>
  ig_clusterConfig :: "'s \<Rightarrow> (go_error + cluster) \<times> 's"
  ig_serverConfig :: "'s \<Rightarrow> (go_error + ServerConfig) \<times> 's"
  ig_hash :: "ImageSelectorTerm list \<Rightarrow> go_error + nat" \<comment> \<open>\<^verbatim>\<open>hashstructure.Hash\<close> with slices as sets\<close>
  ig_text :: "go_error \<Rightarrow> string" \<comment> \<open>\<^verbatim>\<open>Error()\<close>\<close>

definition IsImageResolutionError :: "go_error \<Rightarrow> bool" where
  "IsImageResolutionError err \<longleftrightarrow> errors_as as_image_resolution err \<noteq> None"

definition IsImageUnavailableError :: "go_error \<Rightarrow> bool" where
  "IsImageUnavailableError err \<longleftrightarrow> errors_as as_image_unavailable err \<noteq> None"

definition isImageNotFound :: "go_error \<Rightarrow> bool" where
  "isImageNotFound err = (case errors_as as_googleapi err of Some (code, _, _) \<Rightarrow> code = 404 | None \<Rightarrow> False)"

definition lookupImage :: "'s image_deps \<Rightarrow> string \<Rightarrow> string \<Rightarrow> 's \<Rightarrow> (go_error + compute_image option) \<times> 's" where
  "lookupImage d projectID imageName s = (case ig_get d projectID imageName s of
      (Inl err, s) \<Rightarrow> ((if isImageNotFound err then Inr None else Inl err), s)
    | (Inr img, s) \<Rightarrow> (Inr (Some img), s))"

definition imageReady :: "compute_image \<Rightarrow> go_error option" where
  "imageReady img = (if cimg_Status img \<noteq> ''READY''
     then Some (ImageUnavailableError (''image '' @ cimg_Name img @ '' is not ready (status: '' @ cimg_Status img @ '')'')) else None)"

definition imageUsable :: "compute_image \<Rightarrow> bool" where
  "imageUsable img = (if cimg_Status img \<noteq> ''READY'' then False
     else case cimg_Deprecated img of None \<Rightarrow> True
       | Some st \<Rightarrow> if st = ''DEPRECATED'' \<or> st = ''OBSOLETE'' \<or> st = ''DELETED'' then False else True)"

text \<open>\<^verbatim>\<open>scanImages\<close>: the items of a page in order until \<open>visit\<close> stops, then the next page.\<close>

fun visit_items :: "(compute_image \<Rightarrow> 'a \<Rightarrow> 's \<Rightarrow> bool \<times> 'a \<times> 's) \<Rightarrow> compute_image list \<Rightarrow> 'a \<Rightarrow> 's \<Rightarrow> bool \<times> 'a \<times> 's" where
  "visit_items visit [] acc s = (False, acc, s)"
| "visit_items visit (img # imgs) acc s = (case visit img acc s of (stop, acc, s) \<Rightarrow>
     if stop then (True, acc, s) else visit_items visit imgs acc s)"

partial_function (option) scan_pages ::
  "'s image_deps \<Rightarrow> string \<Rightarrow> (compute_image \<Rightarrow> 'a \<Rightarrow> 's \<Rightarrow> bool \<times> 'a \<times> 's) \<Rightarrow> string \<Rightarrow> 'a \<Rightarrow> 's \<Rightarrow> (go_error option \<times> 'a \<times> 's) option" where
  "scan_pages d project visit pageToken acc s = (case ig_list d project pageToken s of
      (Inl err, s) \<Rightarrow> Some (Some err, acc, s)
    | (Inr (items, nextToken), s) \<Rightarrow> (case visit_items visit items acc s of (stop, acc, s) \<Rightarrow>
        if stop \<or> nextToken = [] then Some (None, acc, s) else scan_pages d project visit nextToken acc s))"

declare scan_pages.simps [code]

definition scanImages where
  "scanImages d project visit acc s = scan_pages d project visit [] acc s"

subsection \<open>Container-Optimized OS\<close>

definition cosImageProject :: string where [go_defs]: "cosImageProject = ''gke-node-images''"
definition broadCOSImageFilter :: string where [go_defs]: "broadCOSImageFilter = ''name=gke-*''"

datatype cosVariant = cosVariantAMD64CPU | cosVariantARM64CPU | cosVariantAMD64NVIDIA

definition cosVariantOrder :: "cosVariant list" where
  "cosVariantOrder = [cosVariantAMD64CPU, cosVariantARM64CPU, cosVariantAMD64NVIDIA]"

definition four_numbers :: "re_item list" where
  "four_numbers = [Digits, Lit ''-'', Digits, Lit ''-'', Digits, Lit ''-'', Digits]"

definition cosAMD64CPUNameRe :: "re_item list" where
  "cosAMD64CPUNameRe = [Lit ''gke-'', Digits, Lit ''-gke'', Digits, Lit ''-cos-''] @ four_numbers @ [Lit ''-c-pre'']"
definition cosARM64CPUNameRe :: "re_item list" where
  "cosARM64CPUNameRe = [Lit ''gke-'', Digits, Lit ''-gke'', Digits, Lit ''-cos-arm64-''] @ four_numbers @ [Lit ''-c-pre'']"
definition cosAMD64NVIDIANameRe :: "re_item list" where
  "cosAMD64NVIDIANameRe = [Lit ''gke-'', Digits, Lit ''-gke'', Digits, Lit ''-cos-''] @ four_numbers @ [Lit ''-c-nvda'']"
definition cosVersionRe :: "re_item list" where
  "cosVersionRe = [Digits, Lit ''.'', Digits, Lit ''.'', Digits, Lit ''.'', Digits]"

definition classifyCOSImage :: "string \<Rightarrow> cosVariant option" where
  "classifyCOSImage name = (if re_full cosAMD64CPUNameRe name then Some cosVariantAMD64CPU
     else if re_full cosARM64CPUNameRe name then Some cosVariantARM64CPU
     else if re_full cosAMD64NVIDIANameRe name then Some cosVariantAMD64NVIDIA else None)"

definition usableCOSVariant :: "compute_image \<Rightarrow> string \<Rightarrow> cosVariant option" where
  "usableCOSVariant img scope = (case classifyCOSImage (cimg_Name img) of None \<Rightarrow> None
     | Some v \<Rightarrow> if has_prefix (cimg_Name img) scope \<and> imageUsable img then Some v else None)"

fun cosVariantRequirements :: "cosVariant \<Rightarrow> requirements" where
  "cosVariantRequirements cosVariantARM64CPU = NewRequirements
     [NewRequirement LabelArchStable OpIn [OSArchARM64Requirement], NewRequirement LabelInstanceGPUCount OpDoesNotExist []]"
| "cosVariantRequirements cosVariantAMD64NVIDIA = NewRequirements
     [NewRequirement LabelArchStable OpIn [OSArchAMD64Requirement], NewRequirement LabelInstanceGPUCount OpExists []]"
| "cosVariantRequirements cosVariantAMD64CPU = NewRequirements
     [NewRequirement LabelArchStable OpIn [OSArchAMD64Requirement], NewRequirement LabelInstanceGPUCount OpDoesNotExist []]"

definition cosImageNameScope :: "string \<Rightarrow> string" where
  "cosImageNameScope flt = trim_suffix (trim_prefix flt ''name='') ''*''"

definition image_source :: "string \<Rightarrow> string \<Rightarrow> string" where
  "image_source project name = ''projects/'' @ project @ ''/global/images/'' @ name"

text \<open>The version the image filters are built from, if it is known and parses.\<close>

definition parsed_version :: "'s image_deps \<Rightarrow> 's \<Rightarrow> Version option \<times> 's" where
  "parsed_version d s = (case ig_version d of None \<Rightarrow> (None, s)
     | Some get \<Rightarrow> (case get s of (Inl err, s) \<Rightarrow> (None, s)
         | (Inr v, s) \<Rightarrow> ((case ParseGeneric v of Inl _ \<Rightarrow> None | Inr p \<Rightarrow> Some p), s)))"

definition cos_buildImageFilter :: "'s image_deps \<Rightarrow> 's \<Rightarrow> string \<times> 's" where
  "cos_buildImageFilter d s = (case parsed_version d s of
      (None, s) \<Rightarrow> (broadCOSImageFilter, s)
    | (Some p, s) \<Rightarrow> (''name=gke-'' @ utoa (Major p) @ utoa (Minor p) @ utoa (Patch p) @ ''-*'', s))"

text \<open>The visitor of the exact-build and milestone scans: the first usable amd64 CPU image.\<close>

definition first_amd64 :: "string \<Rightarrow> compute_image \<Rightarrow> compute_image option \<Rightarrow> 's \<Rightarrow> bool \<times> compute_image option \<times> 's" where
  "first_amd64 scope img best s = (if usableCOSVariant img scope = Some cosVariantAMD64CPU then (True, Some img, s) else (False, best, s))"

definition resolveExactBuildCOSImage :: "'s image_deps \<Rightarrow> string \<Rightarrow> string \<Rightarrow> 's \<Rightarrow> ((go_error + string) \<times> 's) option" where
  "resolveExactBuildCOSImage d k8sKey build s = (case scanImages d cosImageProject (first_amd64 (''gke-'' @ k8sKey @ ''-gke'' @ build @ ''-'')) None s of
      None \<Rightarrow> None
    | Some (Some err, best, s) \<Rightarrow> Some (Inl (Errorf ''listing COS images for GKE build gke%s: %w'' [build] [err]), s)
    | Some (None, None, s) \<Rightarrow> Some (Inl (ImageUnavailableError (''no usable COS image is published for GKE build gke'' @ build @ '' (k8s '' @ k8sKey
        @ '') in '' @ cosImageProject @ '' yet - the channel version may not have a published COS image'')), s)
    | Some (None, Some best, s) \<Rightarrow> Some (Inr (image_source cosImageProject (cimg_Name best)), s))"

definition resolveMilestoneBaseCOSImage :: "'s image_deps \<Rightarrow> 's \<Rightarrow> ((go_error + string) \<times> 's) option" where
  "resolveMilestoneBaseCOSImage d s = (case cos_buildImageFilter d s of (flt, s) \<Rightarrow>
     (case scanImages d cosImageProject (first_amd64 (cosImageNameScope flt)) None s of
        None \<Rightarrow> None
      | Some (Some err, best, s) \<Rightarrow> Some (Inl (Errorf ''listing COS GKE images in %s: %w'' [cosImageProject] [err]), s)
      | Some (None, None, s) \<Rightarrow> Some (Inl (ImageUnavailableError (''no usable COS amd64 image is published in '' @ cosImageProject @ '' for filter ''
          @ flt @ '' yet, so a milestone pin cannot be resolved'')), s)
      | Some (None, Some best, s) \<Rightarrow> Some (Inr (image_source cosImageProject (cimg_Name best)), s)))"

text \<open>The visitor of \<^verbatim>\<open>resolveLatestCOSImages\<close>: what is selected and the error of a lookup.\<close>

type_synonym cos_selection = "(cosVariant, compute_image) gomap \<times> go_error option"

definition latest_visit :: "'s image_deps \<Rightarrow> string \<Rightarrow> compute_image \<Rightarrow> cos_selection \<Rightarrow> 's \<Rightarrow> bool \<times> cos_selection \<times> 's" where
  "latest_visit d scope img acc s = (case acc of (selected, lookupErr) \<Rightarrow>
     (case usableCOSVariant img scope of None \<Rightarrow> (False, acc, s)
      | Some variant \<Rightarrow> if map_has selected variant then (False, acc, s)
          else (case lookupImage d cosImageProject (cimg_Name img) s of
              (Inl err, s) \<Rightarrow> (True, (selected, Some (Errorf ''validating COS image %s: %w'' [cimg_Name img] [err])), s)
            | (Inr candidate, s) \<Rightarrow> (let selected = (case candidate of None \<Rightarrow> selected
                  | Some c \<Rightarrow> if imageUsable c then map_set variant c selected else selected)
                in (length selected = length cosVariantOrder, (selected, lookupErr), s)))))"

definition selected_images :: "(cosVariant, compute_image) gomap \<Rightarrow> fam_image list" where
  "selected_images selected = List.map_filter (\<lambda>v. case map_get selected v of None \<Rightarrow> None
     | Some img \<Rightarrow> Some \<lparr>fi_SourceImage = image_source cosImageProject (cimg_Name img), fi_Requirements = cosVariantRequirements v\<rparr>) cosVariantOrder"

definition resolveLatestCOSImages :: "'s image_deps \<Rightarrow> 's \<Rightarrow> ((go_error + fam_image list) \<times> 's) option" where
  "resolveLatestCOSImages d s = (case cos_buildImageFilter d s of (flt, s) \<Rightarrow>
     (case scanImages d cosImageProject (latest_visit d (cosImageNameScope flt)) ([], None) s of
        None \<Rightarrow> None
      | Some (Some err, _, s) \<Rightarrow> Some (Inl (Errorf ''listing COS GKE images in %s: %w'' [cosImageProject] [err]), s)
      | Some (None, (_, Some lookupErr), s) \<Rightarrow> Some (Inl lookupErr, s)
      | Some (None, (selected, None), s) \<Rightarrow> if selected = []
          then Some (Inl (ImageUnavailableError (''no usable ContainerOptimizedOS image is published in '' @ cosImageProject @ '' for filter '' @ flt
            @ '': no READY, non-deprecated COS image matches the selected build yet'')), s)
          else Some (Inr (selected_images selected), s)))"

definition ParseGKEVersion :: "string \<Rightarrow> (string \<times> string) option" where
  "ParseGKEVersion v = (case cut_str ''-gke.'' v of None \<Rightarrow> None
     | Some (base, build) \<Rightarrow> Some (replace_char CHR ''.'' [] (trim_prefix base ''v''), build))"

definition renderVersion :: "string \<Rightarrow> string" where
  "renderVersion version = replace_char CHR ''.'' ''-'' (if has_prefix version ''v'' then drop 1 version else version)"

text \<open>\<^verbatim>\<open>cos-\d+-([\d-]+)-c-pre\<close>: the run of digits and dashes reaches to the \<^verbatim>\<open>c\<close>, and its last dash belongs to \<^verbatim>\<open>-c-pre\<close>.\<close>

definition pin_match :: "string \<Rightarrow> string \<Rightarrow> (string \<times> string) option" where
  "pin_match target s = (case re_match [Lit ''cos-'', Digits, Lit ''-''] s of None \<Rightarrow> None
     | Some (_, r) \<Rightarrow> (let run = takeWhile (\<lambda>c. is_digit c \<or> c = CHR ''-'') r; rest = dropWhile (\<lambda>c. is_digit c \<or> c = CHR ''-'') r in
         if length run \<ge> 2 \<and> last run = CHR ''-'' \<and> has_prefix rest ''c-pre''
         then Some (''cos-'' @ target @ ''-c-pre'', drop 5 rest) else None))"

definition arm64Re :: "re_item list \<times> re_item list" where
  "arm64Re = ([Lit ''projects/gke-node-images/global/images/gke-'', Digits, Lit ''-gke'', Digits, Lit ''-cos''],
     four_numbers @ [Lit ''-c-pre''])"

definition arm64_match :: "string \<Rightarrow> (string \<times> string) option" where
  "arm64_match s = (case re_match (fst arm64Re) s of None \<Rightarrow> None
     | Some (g1, r) \<Rightarrow> if \<not> has_prefix r ''-'' then None
         else (case re_match (snd arm64Re) (drop 1 r) of None \<Rightarrow> None
           | Some (g2, rest) \<Rightarrow> Some (g1 @ ''-arm64-'' @ g2, rest)))"

definition cos_resolveImages :: "string \<Rightarrow> fam_image list" where
  "cos_resolveImages sourceImage =
    [\<lparr>fi_SourceImage = sourceImage, fi_Requirements = cosVariantRequirements cosVariantAMD64CPU\<rparr>,
     \<lparr>fi_SourceImage = re_replace_all arm64_match sourceImage, fi_Requirements = cosVariantRequirements cosVariantARM64CPU\<rparr>,
     \<lparr>fi_SourceImage = replace_str ''-pre'' ''-nvda'' sourceImage, fi_Requirements = cosVariantRequirements cosVariantAMD64NVIDIA\<rparr>]"

definition cos_ResolveImages :: "'s image_deps \<Rightarrow> string \<Rightarrow> 's \<Rightarrow> ((go_error + fam_image list) \<times> 's) option" where
  "cos_ResolveImages d version s = (if version = ''latest'' then resolveLatestCOSImages d s
     else (case ParseGKEVersion version of
         Some (k8sKey, build) \<Rightarrow> (case resolveExactBuildCOSImage d k8sKey build s of None \<Rightarrow> None
             | Some (Inl err, s) \<Rightarrow> Some (Inl err, s)
             | Some (Inr sourceImage, s) \<Rightarrow> Some (Inr (cos_resolveImages sourceImage), s))
       | None \<Rightarrow> if \<not> re_full cosVersionRe version
           then Some (Inl (ImageResolutionError (''invalid ContainerOptimizedOS version '' @ in_quotes version @ '': must be 'latest', a GKE version (e.g. '1.34.6-gke.1068000'), or 'milestone.build.build.build' (e.g. '125.19216.104.126')'')), s)
           else (case resolveMilestoneBaseCOSImage d s of None \<Rightarrow> None
             | Some (Inl err, s) \<Rightarrow> Some (Inl err, s)
             | Some (Inr sourceImage, s) \<Rightarrow> Some (Inr (cos_resolveImages (re_replace_all (pin_match (renderVersion version)) sourceImage)), s))))"

subsection \<open>Ubuntu\<close>

definition ubuntuGKEImageProject :: string where [go_defs]: "ubuntuGKEImageProject = ''ubuntu-os-gke-cloud''"

definition ubuntuPinnedVersionRe :: "re_item list" where "ubuntuPinnedVersionRe = [Lit ''v'', DigitsN 8, OptLower]"
definition ubuntu2404AMD64Re :: "re_item list" where
  "ubuntu2404AMD64Re = [Lit ''ubuntu-gke-2404-'', Digits, Lit ''-'', Digits, Lit ''-amd64-v'', Digits, OptLower]"
definition ubuntu2404ARM64Re :: "re_item list" where
  "ubuntu2404ARM64Re = [Lit ''ubuntu-gke-2404-'', Digits, Lit ''-'', Digits, Lit ''-arm64-v'', Digits, OptLower]"
definition ubuntu2204AMD64Re :: "re_item list" where
  "ubuntu2204AMD64Re = [Lit ''ubuntu-gke-2204-'', Digits, Lit ''-'', Digits, Lit ''-v'', Digits, OptLower]"
definition ubuntu2204ARM64Re :: "re_item list" where
  "ubuntu2204ARM64Re = [Lit ''ubuntu-gke-2204-'', Digits, Lit ''-'', Digits, Lit ''-arm64-v'', Digits, OptLower]"

definition ubuntuArchitectures :: "string list" where "ubuntuArchitectures = [OSArchAMD64Requirement, OSArchARM64Requirement]"

definition imagePrefix :: "string \<Rightarrow> string" where "imagePrefix release = ''ubuntu-gke-'' @ release"

definition ubuntuImageDeprecated :: "compute_image \<Rightarrow> bool" where
  "ubuntuImageDeprecated img = (case cimg_Deprecated img of None \<Rightarrow> False
     | Some st \<Rightarrow> st = ''DEPRECATED'' \<or> st = ''OBSOLETE'' \<or> st = ''DELETED'')"

definition isUsableUbuntuImage :: "compute_image \<Rightarrow> bool" where
  "isUsableUbuntuImage img \<longleftrightarrow> cimg_Status img = ''READY'' \<and> \<not> ubuntuImageDeprecated img \<and> re_full ubuntu2404AMD64Re (cimg_Name img)"
definition isUsableUbuntuArm64Image :: "compute_image \<Rightarrow> bool" where
  "isUsableUbuntuArm64Image img \<longleftrightarrow> cimg_Status img = ''READY'' \<and> \<not> ubuntuImageDeprecated img \<and> re_full ubuntu2404ARM64Re (cimg_Name img)"
definition isUsableUbuntu2204Image :: "compute_image \<Rightarrow> bool" where
  "isUsableUbuntu2204Image img \<longleftrightarrow> cimg_Status img = ''READY'' \<and> \<not> ubuntuImageDeprecated img \<and> re_full ubuntu2204AMD64Re (cimg_Name img)"
definition isUsableUbuntu2204Arm64Image :: "compute_image \<Rightarrow> bool" where
  "isUsableUbuntu2204Arm64Image img \<longleftrightarrow> cimg_Status img = ''READY'' \<and> \<not> ubuntuImageDeprecated img \<and> re_full ubuntu2204ARM64Re (cimg_Name img)"

definition isUsableForArch :: "string \<Rightarrow> compute_image \<Rightarrow> string \<Rightarrow> bool" where
  "isUsableForArch release img arch = (if release = ''2204'' \<and> arch = OSArchARM64Requirement then isUsableUbuntu2204Arm64Image img
     else if release = ''2204'' then isUsableUbuntu2204Image img
     else if arch = OSArchARM64Requirement then isUsableUbuntuArm64Image img
     else isUsableUbuntuImage img)"

definition ubuntuRequirementsForArch :: "string \<Rightarrow> requirements" where
  "ubuntuRequirementsForArch arch = (if arch = OSArchARM64Requirement
     then NewRequirements [NewRequirement LabelArchStable OpIn [OSArchARM64Requirement], NewRequirement LabelInstanceGPUCount OpDoesNotExist []]
     else NewRequirements [NewRequirement LabelArchStable OpIn [OSArchAMD64Requirement]])"

definition ubuntu_buildImageFilter :: "'s image_deps \<Rightarrow> string \<Rightarrow> 's \<Rightarrow> string \<times> 's" where
  "ubuntu_buildImageFilter d release s = (case parsed_version d s of
      (None, s) \<Rightarrow> (''name='' @ imagePrefix release @ ''*'', s)
    | (Some p, s) \<Rightarrow> (''name='' @ imagePrefix release @ ''-'' @ utoa (Major p) @ ''-'' @ utoa (Minor p) @ ''*'', s))"

definition ubuntu_version_ok :: "string \<Rightarrow> compute_image \<Rightarrow> bool" where
  "ubuntu_version_ok version img \<longleftrightarrow> \<not> (version \<noteq> ''latest'' \<and> \<not> has_suffix (cimg_Name img) (''-'' @ version))"

definition ubuntu_visit :: "string \<Rightarrow> string \<Rightarrow> string \<Rightarrow> compute_image \<Rightarrow> (string, compute_image) gomap \<Rightarrow> 's
    \<Rightarrow> bool \<times> (string, compute_image) gomap \<times> 's" where
  "ubuntu_visit release version pre img best s = (if \<not> has_prefix (cimg_Name img) pre \<or> \<not> ubuntu_version_ok version img then (False, best, s)
     else (let best = foldl (\<lambda>b arch. if \<not> map_has b arch \<and> isUsableForArch release img arch then map_set arch img b else b) best ubuntuArchitectures
       in (length best = length ubuntuArchitectures, best, s)))"

definition listImages :: "'s image_deps \<Rightarrow> string \<Rightarrow> string \<Rightarrow> 's \<Rightarrow> ((go_error + compute_image list) \<times> 's) option" where
  "listImages d release version s = (case ubuntu_buildImageFilter d release s of (flt, s) \<Rightarrow>
     (case scanImages d ubuntuGKEImageProject (ubuntu_visit release version (trim_suffix (trim_prefix flt ''name='') ''*'')) [] s of
        None \<Rightarrow> None
      | Some (Some err, _, s) \<Rightarrow> Some (Inl (Errorf ''listing Ubuntu GKE images in %s: %w'' [ubuntuGKEImageProject] [err]), s)
      | Some (None, best, s) \<Rightarrow> Some (Inr (List.map_filter (map_get best) ubuntuArchitectures), s)))"

text \<open>The newest of the usable images for an architecture; the timestamps are compared as text.\<close>

definition selectImage :: "string \<Rightarrow> compute_image list \<Rightarrow> string \<Rightarrow> string \<Rightarrow> string option" where
  "selectImage release images arch version = map_option cimg_Name
     (min_by (\<lambda>a b. cimg_CreationTimestamp b < cimg_CreationTimestamp a)
       (filter (\<lambda>img. isUsableForArch release img arch \<and> ubuntu_version_ok version img) images))"

fun ubuntu_arches :: "string \<Rightarrow> string \<Rightarrow> compute_image list \<Rightarrow> string list \<Rightarrow> go_error + fam_image list" where
  "ubuntu_arches release version images [] = Inr []"
| "ubuntu_arches release version images (arch # arches) = (case selectImage release images arch version of
      None \<Rightarrow> Inl (ImageResolutionError (''no ubuntu-gke-'' @ release @ '' '' @ arch @ '' image found for version '' @ in_quotes version @ '' in '' @ ubuntuGKEImageProject))
    | Some name \<Rightarrow> (case ubuntu_arches release version images arches of Inl err \<Rightarrow> Inl err
        | Inr ret \<Rightarrow> Inr (\<lparr>fi_SourceImage = image_source ubuntuGKEImageProject name, fi_Requirements = ubuntuRequirementsForArch arch\<rparr> # ret)))"

definition ubuntu_ResolveImages :: "'s image_deps \<Rightarrow> string \<Rightarrow> string \<Rightarrow> 's \<Rightarrow> ((go_error + fam_image list) \<times> 's) option" where
  "ubuntu_ResolveImages d release version s = (if version \<noteq> ''latest'' \<and> \<not> re_full ubuntuPinnedVersionRe version
     then Some (Inl (ImageResolutionError (''invalid Ubuntu version '' @ in_quotes version
       @ '': must be 'latest' or 'vYYYYMMDD' with an optional release letter (e.g. 'v20260416', 'v20251218a')'')), s)
     else (case listImages d release version s of None \<Rightarrow> None
         | Some (Inl err, s) \<Rightarrow> Some (Inl err, s)
         | Some (Inr images, s) \<Rightarrow> Some (ubuntu_arches release version images ubuntuArchitectures, s)))"

subsection \<open>Scans\<close>

text \<open>A service whose answers do not depend on when it is asked: \<open>page\<close> gives the pages of a listing, \<open>look\<close> the single images.\<close>

definition fixed_catalog :: "'s image_deps \<Rightarrow> (string \<Rightarrow> string \<Rightarrow> compute_image list \<times> string) \<Rightarrow> (string \<Rightarrow> string \<Rightarrow> go_error + compute_image) \<Rightarrow> bool" where
  "fixed_catalog d page look \<longleftrightarrow> (\<forall>p t s. ig_list d p t s = (Inr (page p t), s)) \<and> (\<forall>p n s. ig_get d p n s = (look p n, s))"

text \<open>All items from a token on, if the tokens come to an end.\<close>

partial_function (option) listing :: "(string \<Rightarrow> compute_image list \<times> string) \<Rightarrow> string \<Rightarrow> compute_image list option" where
  "listing page t = (case page t of (items, nxt) \<Rightarrow> if nxt = [] then Some items
     else Option.bind (listing page nxt) (\<lambda>rest. Some (items @ rest)))"

declare listing.simps [code]

lemma visit_items_append:
  "visit_items visit (xs @ ys) acc s = (case visit_items visit xs acc s of (stop, acc, s) \<Rightarrow> if stop then (True, acc, s) else visit_items visit ys acc s)"
  by (induction xs arbitrary: acc s) (auto split: prod.splits)

lemma scan_pages_listing:
  assumes "fixed_catalog d page look" "listing (page p) t = Some imgs"
  shows "scan_pages d p visit t acc s = Some (None, snd (visit_items visit imgs acc s))"
proof -
  define P where "P pg t imgs \<longleftrightarrow> (pg = page p \<longrightarrow>
    (\<forall>acc s. scan_pages d p visit t acc s = Some (None, snd (visit_items visit imgs acc s))))" for pg t imgs
  have "P (page p) t imgs"
  proof (rule listing.raw_induct [OF _ assms(2), where P = P])
    fix rec :: "(string \<Rightarrow> compute_image list \<times> string) \<Rightarrow> string \<Rightarrow> compute_image list option" and pg t imgs
    assume IH: "\<And>pg t imgs. rec pg t = Some imgs \<Longrightarrow> P pg t imgs"
      and r: "(case pg t of (items, nxt) \<Rightarrow> if nxt = [] then Some items else Option.bind (rec pg nxt) (\<lambda>rest. Some (items @ rest))) = Some imgs"
    obtain items nxt where pt: "pg t = (items, nxt)" by (cases "pg t")
    have step: "scan_pages d p visit t acc s = (case visit_items visit items acc s of (stop, acc, s) \<Rightarrow>
        if stop \<or> nxt = [] then Some (None, acc, s) else scan_pages d p visit nxt acc s)" if "pg = page p" for acc s
      using assms(1) pt that by (subst scan_pages.simps) (simp add: fixed_catalog_def)
    show "P pg t imgs"
    proof (cases "nxt = []")
      case True
      with r pt step show ?thesis by (simp add: P_def split: prod.splits)
    next
      case False
      with r pt obtain rest where "rec pg nxt = Some rest" "imgs = items @ rest" by (auto simp: bind_eq_Some_conv)
      with IH [of pg nxt rest] step False show ?thesis by (auto simp: P_def visit_items_append split: prod.splits)
    qed
  qed
  then show ?thesis by (simp add: P_def)
qed

subsection \<open>The newest images\<close>

definition confirmed :: "(string \<Rightarrow> string \<Rightarrow> go_error + compute_image) \<Rightarrow> string \<Rightarrow> cosVariant \<Rightarrow> compute_image \<Rightarrow> compute_image option" where
  "confirmed look scope v img = (if usableCOSVariant img scope = Some v then (case look cosImageProject (cimg_Name img) of
     Inr c \<Rightarrow> if imageUsable c then Some c else None | Inl _ \<Rightarrow> None) else None)"

fun newest_usable :: "(string \<Rightarrow> string \<Rightarrow> go_error + compute_image) \<Rightarrow> string \<Rightarrow> compute_image list \<Rightarrow> cosVariant \<Rightarrow> compute_image option" where
  "newest_usable look scope [] v = None"
| "newest_usable look scope (img # imgs) v = (case confirmed look scope v img of Some c \<Rightarrow> Some c | None \<Rightarrow> newest_usable look scope imgs v)"

lemma UNIV_cosVariant: "(UNIV :: cosVariant set) = set cosVariantOrder"
  by (auto simp: cosVariantOrder_def) (metis cosVariant.exhaust)

lemma all_variants_selected:
  fixes sel :: "(cosVariant, 'v) gomap"
  assumes "wf_map sel" "length sel = length cosVariantOrder"
  shows "map_of sel v \<noteq> None"
proof -
  have "card (set (map fst sel)) = length (map fst sel)" using assms(1) unfolding wf_map_def by (rule distinct_card)
  moreover have fin: "finite (UNIV :: cosVariant set)" unfolding UNIV_cosVariant by simp
  moreover have "card (UNIV :: cosVariant set) = length cosVariantOrder"
    unfolding UNIV_cosVariant by (rule distinct_card) (simp add: cosVariantOrder_def)
  ultimately have "set (map fst sel) = UNIV" using assms(2) by (intro card_subset_eq) simp_all
  then show ?thesis by (simp add: map_of_eq_None_iff)
qed

lemma latest_visit_items:
  assumes "fixed_catalog d page look" "\<And>n err. look cosImageProject n = Inl err \<Longrightarrow> isImageNotFound err" "wf_map sel"
  shows "\<exists>stop sel'. visit_items (latest_visit d scope) imgs (sel, None) s = (stop, (sel', None), s) \<and> wf_map sel'
    \<and> (\<forall>v. map_of sel' v = (case map_of sel v of Some c \<Rightarrow> Some c | None \<Rightarrow> newest_usable look scope imgs v))"
  using assms(3)
proof (induction imgs arbitrary: sel)
  case Nil
  then show ?case by (auto split: option.splits)
next
  case (Cons img imgs)
  show ?case
  proof (cases "\<exists>v. usableCOSVariant img scope = Some v \<and> map_of sel v = None")
    case False
    then have "latest_visit d scope img (sel, None) s = (False, (sel, None), s)"
      by (auto simp: latest_visit_def map_has_def split: option.splits)
    moreover have "newest_usable look scope (img # imgs) v = newest_usable look scope imgs v" if "map_of sel v = None" for v
      using False that by (auto simp: confirmed_def split: option.splits)
    then have "(case map_of sel v of Some c \<Rightarrow> Some c | None \<Rightarrow> newest_usable look scope (img # imgs) v)
      = (case map_of sel v of Some c \<Rightarrow> Some c | None \<Rightarrow> newest_usable look scope imgs v)" for v
      by (cases "map_of sel v") simp_all
    ultimately show ?thesis using Cons.IH [OF Cons.prems] by simp
  next
    case True
    then obtain v where v: "usableCOSVariant img scope = Some v" "map_of sel v = None" by blast
    define sel1 where "sel1 = (case confirmed look scope v img of Some c \<Rightarrow> map_set v c sel | None \<Rightarrow> sel)"
    have step: "latest_visit d scope img (sel, None) s = (length sel1 = length cosVariantOrder, (sel1, None), s)"
      using v assms(1,2) by (auto simp: latest_visit_def map_has_def sel1_def confirmed_def lookupImage_def fixed_catalog_def Let_def split: sum.splits option.splits)
    have wf1: "wf_map sel1" using Cons.prems by (simp add: sel1_def split: option.splits)
    have m1: "(case map_of sel1 w of Some c \<Rightarrow> Some c | None \<Rightarrow> newest_usable look scope imgs w)
      = (case map_of sel w of Some c \<Rightarrow> Some c | None \<Rightarrow> newest_usable look scope (img # imgs) w)" for w
      using v by (auto simp: sel1_def confirmed_def split: option.splits)
    show ?thesis
    proof (cases "length sel1 = length cosVariantOrder")
      case True
      have "map_of sel1 w = (case map_of sel w of Some c \<Rightarrow> Some c | None \<Rightarrow> newest_usable look scope (img # imgs) w)" for w
        using all_variants_selected [OF wf1 True, of w] m1 [of w] by (auto split: option.splits)
      with step True wf1 have "visit_items (latest_visit d scope) (img # imgs) (sel, None) s = (True, (sel1, None), s)" by simp
      with wf1 \<open>\<And>w. map_of sel1 w = _\<close> show ?thesis by blast
    next
      case False
      with Cons.IH [OF wf1] step m1 show ?thesis by simp
    qed
  qed
qed

definition cos_image :: "cosVariant \<Rightarrow> compute_image \<Rightarrow> fam_image" where
  "cos_image v c = \<lparr>fi_SourceImage = image_source cosImageProject (cimg_Name c), fi_Requirements = cosVariantRequirements v\<rparr>"

lemma selected_images_eq: "selected_images sel = List.map_filter (\<lambda>v. map_option (cos_image v) (map_of sel v)) cosVariantOrder"
  by (simp add: selected_images_def cos_image_def List.map_filter_def split: option.splits)

text \<open>C31: Resolving the latest Container-Optimized OS images ends, when the pages of the listing do and lookups fail only with not found, and
  publishes for every variant the first image of the listing, which is the newest, that is in the cluster's version, usable, and still
  usable when looked up; without any it reports that none is available yet.\<close>

theorem resolveLatestCOSImages_newest:
  assumes "fixed_catalog d page look" "\<forall>n err. look cosImageProject n = Inl err \<longrightarrow> isImageNotFound err"
    and "cos_buildImageFilter d s = (flt, s1)" "listing (page cosImageProject) [] = Some imgs"
  shows "\<exists>r. resolveLatestCOSImages d s = Some (r, s1)
    \<and> (let newest = newest_usable look (cosImageNameScope flt) imgs in
        if \<exists>v. newest v \<noteq> None then r = Inr (List.map_filter (\<lambda>v. map_option (cos_image v) (newest v)) cosVariantOrder)
        else \<exists>msg. r = Inl (ImageUnavailableError msg))"
proof -
  let ?n = "newest_usable look (cosImageNameScope flt) imgs"
  obtain stop sel where v: "visit_items (latest_visit d (cosImageNameScope flt)) imgs ([], None) s1 = (stop, (sel, None), s1)"
    and m: "\<And>v. map_of sel v = ?n v"
    using latest_visit_items [OF assms(1), of "[]" "cosImageNameScope flt" imgs s1] assms(2) by auto
  have scan: "scanImages d cosImageProject (latest_visit d (cosImageNameScope flt)) ([], None) s1 = Some (None, (sel, None), s1)"
    by (simp add: scanImages_def scan_pages_listing [OF assms(1,4)] v)
  have "sel = [] \<longleftrightarrow> (\<forall>v. ?n v = None)" unfolding m [symmetric] by (cases sel) auto
  moreover have "selected_images sel = List.map_filter (\<lambda>v. map_option (cos_image v) (?n v)) cosVariantOrder"
    by (simp add: selected_images_eq m)
  ultimately show ?thesis using scan by (auto simp: resolveLatestCOSImages_def assms(3) Let_def)
qed

definition example_image :: "string \<Rightarrow> string \<Rightarrow> compute_image" where
  "example_image name st = \<lparr>cimg_Name = name, cimg_Status = st, cimg_Deprecated = None, cimg_Architecture = [], cimg_CreationTimestamp = []\<rparr>"

definition example_pages :: "string \<Rightarrow> string \<Rightarrow> compute_image list \<times> string" where
  "example_pages project token = (if token = [] then ([example_image ''gke-1346-gke3-cos-125-1-2-3-c-pre'' ''PENDING'',
     example_image ''gke-1346-gke2-cos-125-1-2-3-c-pre'' ''READY''], ''p2'')
     else ([example_image ''gke-1346-gke1-cos-125-1-2-2-c-pre'' ''READY'', example_image ''gke-1346-gke1-cos-arm64-125-1-2-2-c-pre'' ''READY''], []))"

text \<open>The image of the second build has gone since the listing was made.\<close>

definition example_look :: "string \<Rightarrow> string \<Rightarrow> go_error + compute_image" where
  "example_look project name = (if name = ''gke-1346-gke2-cos-125-1-2-3-c-pre'' then Inl (GoogleApiError 404 [] []) else Inr (example_image name ''READY''))"

definition example_image_deps :: "unit image_deps" where
  "example_image_deps = \<lparr>ig_now = (\<lambda>_. 1), ig_list = (\<lambda>p t s. (Inr (example_pages p t), s)), ig_get = (\<lambda>p n s. (example_look p n, s)),
     ig_version = Some (\<lambda>s. (Inr ''v1.34.6-gke.9'', s)), ig_clusterConfig = (\<lambda>s. (Inl (SentinelError []), s)),
     ig_serverConfig = (\<lambda>s. (Inl (SentinelError []), s)), ig_hash = (\<lambda>_. Inr 0), ig_text = (\<lambda>_. [])\<rparr>"

theorem resolveLatestCOSImages_newest_witness:
  "resolveLatestCOSImages example_image_deps () = Some (Inr
     [cos_image cosVariantAMD64CPU (example_image ''gke-1346-gke1-cos-125-1-2-2-c-pre'' ''READY''),
      cos_image cosVariantARM64CPU (example_image ''gke-1346-gke1-cos-arm64-125-1-2-2-c-pre'' ''READY'')], ())"
proof -
  let ?imgs = "fst (example_pages cosImageProject []) @ fst (example_pages cosImageProject ''p2'')"
  have fc: "fixed_catalog example_image_deps example_pages example_look" by (simp add: fixed_catalog_def example_image_deps_def)
  have nf: "\<forall>n err. example_look cosImageProject n = Inl err \<longrightarrow> isImageNotFound err"
    by (auto simp: example_look_def isImageNotFound_def errors_as.simps split: if_splits)
  have flt: "cos_buildImageFilter example_image_deps () = (''name=gke-1346-*'', ())" by code_simp
  have l: "listing (example_pages cosImageProject) [] = Some ?imgs"
    by (subst listing.simps, subst listing.simps) (simp add: example_pages_def)
  have n: "map (newest_usable example_look (cosImageNameScope ''name=gke-1346-*'') ?imgs) cosVariantOrder =
    [Some (example_image ''gke-1346-gke1-cos-125-1-2-2-c-pre'' ''READY''), Some (example_image ''gke-1346-gke1-cos-arm64-125-1-2-2-c-pre'' ''READY''), None]"
    by code_simp
  define nu where "nu = newest_usable example_look (cosImageNameScope ''name=gke-1346-*'') ?imgs"
  have nus: "nu cosVariantAMD64CPU = Some (example_image ''gke-1346-gke1-cos-125-1-2-2-c-pre'' ''READY'')"
    "nu cosVariantARM64CPU = Some (example_image ''gke-1346-gke1-cos-arm64-125-1-2-2-c-pre'' ''READY'')" "nu cosVariantAMD64NVIDIA = None"
    using n unfolding nu_def [symmetric] by (simp_all add: cosVariantOrder_def)
  then have "\<exists>v. nu v \<noteq> None" by blast
  with resolveLatestCOSImages_newest [OF fc nf flt l, folded nu_def] nus show ?thesis
    by (simp add: cosVariantOrder_def Let_def List.map_filter_def)
qed

subsection \<open>Sibling images of one build\<close>

text \<open>The shape of a name of the amd64 variant, and of the names derived from it.\<close>

definition number_list :: "string \<Rightarrow> bool" where
  "number_list ns \<longleftrightarrow> (\<exists>a b c e. ns = a @ ''-'' @ b @ ''-'' @ c @ ''-'' @ e \<and> is_digits a \<and> is_digits b \<and> is_digits c \<and> is_digits e)"

lemma re_match_Digits_dash:
  "is_digits x \<Longrightarrow> re_match (Digits # ps) (x @ CHR ''-'' # u) = map_option (map_prod ((@) x) id) (re_match ps (CHR ''-'' # u))"
  by (intro re_match_Digits) simp_all

lemma four_numbers_match:
  assumes "number_list ns" "s = [] \<or> \<not> is_digit (hd s)"
  shows "re_match (four_numbers @ ps) (ns @ s) = map_option (map_prod ((@) ns) id) (re_match ps s)"
proof -
  obtain a b c e where ns: "ns = a @ ''-'' @ b @ ''-'' @ c @ ''-'' @ e" "is_digits a" "is_digits b" "is_digits c" "is_digits e"
    using assms(1) by (auto simp: number_list_def)
  have dash: "re_match (Lit ''-'' # qs) (''-'' @ u) = map_option (map_prod ((@) ''-'') id) (re_match qs u)" for qs u
    by (rule re_match_Lit)
  show ?thesis
    unfolding ns(1) four_numbers_def append_Cons append_Nil append_assoc
    using re_match_Digits_dash [OF ns(2)] re_match_Digits_dash [OF ns(3)] re_match_Digits_dash [OF ns(4)] re_match_Digits [OF ns(5) assms(2)] dash
    by (simp add: option.map_comp o_def map_prod_def split_def)
qed

lemma four_numbersE:
  assumes "re_match (four_numbers @ ps) s = Some (m, r)"
  obtains ns s' m' where "s = ns @ s'" "number_list ns" "re_match ps s' = Some (m', r)"
proof -
  from assms show thesis
    unfolding four_numbers_def append_Cons append_Nil
    by (elim re_match_DigitsE re_match_LitE) (rule that, auto simp: number_list_def)
qed

definition cos_name :: "string \<Rightarrow> string \<Rightarrow> string \<Rightarrow> string \<Rightarrow> string \<Rightarrow> string" where
  "cos_name k b mid ns tail = ''gke-'' @ k @ ''-gke'' @ b @ ''-cos-'' @ mid @ ns @ tail"

lemma cos_head_match:
  assumes "is_digits k" "is_digits b"
  shows "re_match ([Lit ''gke-'', Digits, Lit ''-gke'', Digits, Lit ''-cos-''] @ ps) (''gke-'' @ k @ ''-gke'' @ b @ ''-cos-'' @ u)
    = map_option (map_prod ((@) (''gke-'' @ k @ ''-gke'' @ b @ ''-cos-'')) id) (re_match ps u)"
proof -
  from re_match_Digits_dash [OF assms(1)] re_match_Digits_dash [OF assms(2)] show ?thesis
    by (simp add: option.map_comp o_def map_prod_def split_def)
qed

lemma number_list_digit: "number_list ns \<Longrightarrow> \<exists>c cs. ns = c # cs \<and> is_digit c"
proof -
  assume "number_list ns"
  then obtain a u where "ns = a @ u" "is_digits a" by (auto simp: number_list_def)
  then show ?thesis by (cases a) (auto simp: is_digits_def)
qed

lemma cos_amd64_iff:
  "re_full cosAMD64CPUNameRe n \<longleftrightarrow> (\<exists>k b ns. is_digits k \<and> is_digits b \<and> number_list ns \<and> n = cos_name k b [] ns ''-c-pre'')"
proof
  assume "re_full cosAMD64CPUNameRe n"
  then show "\<exists>k b ns. is_digits k \<and> is_digits b \<and> number_list ns \<and> n = cos_name k b [] ns ''-c-pre''"
    unfolding re_full_iff cosAMD64CPUNameRe_def append_Cons append_Nil
    by (elim re_match_LitE re_match_DigitsE four_numbersE) (auto simp: cos_name_def)
next
  assume "\<exists>k b ns. is_digits k \<and> is_digits b \<and> number_list ns \<and> n = cos_name k b [] ns ''-c-pre''"
  then obtain k b ns where n: "is_digits k" "is_digits b" "number_list ns" "n = cos_name k b [] ns ''-c-pre''" by blast
  have "re_match (four_numbers @ [Lit ''-c-pre'']) (ns @ ''-c-pre'') = Some (ns @ ''-c-pre'', [])"
    using four_numbers_match [OF n(3), of "''-c-pre''" "[Lit ''-c-pre'']"] by simp
  with cos_head_match [OF n(1,2), of "four_numbers @ [Lit ''-c-pre'']" "ns @ ''-c-pre''"]
  show "re_full cosAMD64CPUNameRe n" by (simp add: re_full_def cosAMD64CPUNameRe_def n(4) cos_name_def)
qed

lemma classify_cos_names:
  assumes "is_digits k" "is_digits b" "number_list ns"
  shows "classifyCOSImage (cos_name k b [] ns ''-c-pre'') = Some cosVariantAMD64CPU"
    and "classifyCOSImage (cos_name k b ''arm64-'' ns ''-c-pre'') = Some cosVariantARM64CPU"
    and "classifyCOSImage (cos_name k b [] ns ''-c-nvda'') = Some cosVariantAMD64NVIDIA"
proof -
  note head = cos_head_match [OF assms(1,2)]
  have fn: "re_match (four_numbers @ [Lit l]) (ns @ CHR ''-'' # u) = map_option (map_prod ((@) ns) id) (re_match [Lit l] (CHR ''-'' # u))" for l u
    using four_numbers_match [OF assms(3), of "CHR ''-'' # u" "[Lit l]"] by simp
  show "classifyCOSImage (cos_name k b [] ns ''-c-pre'') = Some cosVariantAMD64CPU"
    using assms by (simp add: classifyCOSImage_def cos_amd64_iff) blast
  have arm: "re_match ([Lit ''gke-'', Digits, Lit ''-gke'', Digits, Lit ''-cos-arm64-''] @ ps) (''gke-'' @ k @ ''-gke'' @ b @ ''-cos-'' @ u)
    = map_option (map_prod ((@) (''gke-'' @ k @ ''-gke'' @ b @ ''-cos-'')) id) (re_match (Lit ''arm64-'' # ps) u)" for ps u
  proof -
    from re_match_Digits_dash [OF assms(1)] re_match_Digits_dash [OF assms(2)] show ?thesis
      by (simp add: option.map_comp o_def map_prod_def split_def)
  qed
  obtain c cs where c: "ns = c # cs" "is_digit c" using number_list_digit [OF assms(3)] by blast
  have a: "re_match (four_numbers @ ps) (''arm64-'' @ u) = None" for ps u
    by (simp add: four_numbers_def is_digit_def char_code_def)
  show "classifyCOSImage (cos_name k b ''arm64-'' ns ''-c-pre'') = Some cosVariantARM64CPU"
    using head [of "four_numbers @ [Lit ''-c-pre'']" "''arm64-'' @ ns @ ''-c-pre''"] a [of "[Lit ''-c-pre'']" "ns @ ''-c-pre''"]
      arm [of "four_numbers @ [Lit ''-c-pre'']" "''arm64-'' @ ns @ ''-c-pre''"] fn [of "''-c-pre''" "''c-pre''"]
    by (simp add: classifyCOSImage_def re_full_def cosAMD64CPUNameRe_def cosARM64CPUNameRe_def cos_name_def)
  have na: "c \<noteq> CHR ''a''" using c(2) by (auto simp: is_digit_def char_code_def)
  show "classifyCOSImage (cos_name k b [] ns ''-c-nvda'') = Some cosVariantAMD64NVIDIA"
    using head [of "four_numbers @ [Lit ''-c-pre'']" "ns @ ''-c-nvda''"] head [of "four_numbers @ [Lit ''-c-nvda'']" "ns @ ''-c-nvda''"]
      arm [of "four_numbers @ [Lit ''-c-pre'']" "ns @ ''-c-nvda''"] fn [of "''-c-pre''" "''c-nvda''"] fn [of "''-c-nvda''" "''c-nvda''"] na
    by (simp add: classifyCOSImage_def re_full_def cosAMD64CPUNameRe_def cosARM64CPUNameRe_def cosAMD64NVIDIANameRe_def cos_name_def c)
qed

lemma arm64_match_name:
  assumes "is_digits k" "is_digits b" "number_list ns"
  shows "arm64_match (image_source cosImageProject (cos_name k b [] ns ''-c-pre''))
    = Some (image_source cosImageProject (cos_name k b ''arm64-'' ns ''-c-pre''), [])"
proof -
  have h: "re_match (fst arm64Re) (image_source cosImageProject (cos_name k b [] ns ''-c-pre''))
    = Some (image_source cosImageProject (''gke-'' @ k @ ''-gke'' @ b @ ''-cos''), CHR ''-'' # ns @ ''-c-pre'')"
    using re_match_Digits_dash [OF assms(1)] re_match_Digits_dash [OF assms(2)]
    by (simp add: arm64Re_def image_source_def cosImageProject_def cos_name_def)
  have "re_match (snd arm64Re) (ns @ ''-c-pre'') = Some (ns @ ''-c-pre'', [])"
    using four_numbers_match [OF assms(3), of "''-c-pre''" "[Lit ''-c-pre'']"] by (simp add: arm64Re_def)
  with h show ?thesis by (simp add: arm64_match_def image_source_def cos_name_def)
qed

lemma replace_pre_digits:
  "is_digits x \<Longrightarrow> replace_str ''-pre'' new (CHR ''-'' # x @ u) = CHR ''-'' # x @ replace_str ''-pre'' new u"
proof -
  assume x: "is_digits x"
  then obtain c cs where c: "x = c # cs" "is_digit c" by (cases x) (auto simp: is_digits_def)
  then have "c \<noteq> CHR ''p''" by (auto simp: is_digit_def char_code_def)
  with c have "replace_str ''-pre'' new (CHR ''-'' # x @ u) = CHR ''-'' # replace_str ''-pre'' new (x @ u)"
    by (simp add: replace_str_skip)
  moreover have "CHR ''-'' \<notin> set x" using x by (auto simp: is_digits_def list_all_iff)
  ultimately show ?thesis by (simp add: replace_str_append)
qed

lemma replace_pre_name:
  assumes "is_digits k" "is_digits b" "number_list ns"
  shows "replace_str ''-pre'' ''-nvda'' (image_source cosImageProject (cos_name k b [] ns ''-c-pre''))
    = image_source cosImageProject (cos_name k b [] ns ''-c-nvda'')"
proof -
  obtain p q r e where ns: "ns = p @ ''-'' @ q @ ''-'' @ r @ ''-'' @ e" "is_digits p" "is_digits q" "is_digits r" "is_digits e"
    using assms(3) by (auto simp: number_list_def)
  have nb: "CHR ''-'' \<notin> set b" using assms(2) by (auto simp: is_digits_def list_all_iff)
  have last: "replace_str ''-pre'' ''-nvda'' ''-pre'' = ''-nvda''" using replace_str_hit [of "''-pre''" "''-nvda''" "[]"] by simp
  show ?thesis
    unfolding image_source_def cosImageProject_def cos_name_def ns(1)
    using replace_pre_digits [OF assms(1), of "''-nvda''"] replace_pre_digits [OF ns(2), of "''-nvda''"] replace_pre_digits [OF ns(3), of "''-nvda''"]
      replace_pre_digits [OF ns(4), of "''-nvda''"] replace_pre_digits [OF ns(5), of "''-nvda''"] nb last
    by (simp add: replace_str_skip replace_str_append)
qed

text \<open>From a usable amd64 image name the COS family derives, within the same GKE build and the same COS version, exactly the names of
  the arm64 and of the NVIDIA variant, and gives each name the requirements of the variant that the name belongs to.\<close>

theorem cos_siblings_of_build:
  assumes "classifyCOSImage n = Some cosVariantAMD64CPU"
  shows "\<exists>k b ns. n = cos_name k b [] ns ''-c-pre''
    \<and> cos_resolveImages (image_source cosImageProject n) =
        map (\<lambda>(m, v). \<lparr>fi_SourceImage = image_source cosImageProject m, fi_Requirements = cosVariantRequirements v\<rparr>)
         [(n, cosVariantAMD64CPU), (cos_name k b ''arm64-'' ns ''-c-pre'', cosVariantARM64CPU), (cos_name k b [] ns ''-c-nvda'', cosVariantAMD64NVIDIA)]
    \<and> classifyCOSImage (cos_name k b ''arm64-'' ns ''-c-pre'') = Some cosVariantARM64CPU
    \<and> classifyCOSImage (cos_name k b [] ns ''-c-nvda'') = Some cosVariantAMD64NVIDIA"
proof -
  have "re_full cosAMD64CPUNameRe n" using assms by (auto simp: classifyCOSImage_def split: if_splits)
  then obtain k b ns where n: "is_digits k" "is_digits b" "number_list ns" "n = cos_name k b [] ns ''-c-pre''"
    unfolding cos_amd64_iff by blast
  have "arm64_match [] = None" by (simp add: arm64_match_def arm64Re_def)
  then have "re_replace_all arm64_match (image_source cosImageProject n) = image_source cosImageProject (cos_name k b ''arm64-'' ns ''-c-pre'')"
    unfolding n(4) by (intro re_replace_all_whole arm64_match_name [OF n(1-3)]) (simp add: image_source_def)
  with replace_pre_name [OF n(1-3)] classify_cos_names [OF n(1-3)] n(4) show ?thesis
    by (intro exI [of _ k] exI [of _ b] exI [of _ ns]) (simp add: cos_resolveImages_def)
qed

theorem cos_siblings_of_build_witness:
  "\<exists>k b ns. map fi_SourceImage (cos_resolveImages (image_source cosImageProject ''gke-1346-gke1068000-cos-125-19216-104-126-c-pre'')) =
     [image_source cosImageProject ''gke-1346-gke1068000-cos-125-19216-104-126-c-pre'',
      image_source cosImageProject (cos_name k b ''arm64-'' ns ''-c-pre''), image_source cosImageProject (cos_name k b [] ns ''-c-nvda'')]"
proof -
  have c: "classifyCOSImage ''gke-1346-gke1068000-cos-125-19216-104-126-c-pre'' = Some cosVariantAMD64CPU" by code_simp
  from cos_siblings_of_build [OF c] obtain k b ns where
    "map fi_SourceImage (cos_resolveImages (image_source cosImageProject ''gke-1346-gke1068000-cos-125-19216-104-126-c-pre'')) =
      map (image_source cosImageProject) [''gke-1346-gke1068000-cos-125-19216-104-126-c-pre'', cos_name k b ''arm64-'' ns ''-c-pre'', cos_name k b [] ns ''-c-nvda'']"
    by (elim exE conjE) simp
  then show ?thesis unfolding list.map by (rule exI [of _ k, OF exI [of _ b, OF exI [of _ ns]]])
qed

end
