(* ===== verification/Image_Provider.thy ===== *)
theory Image_Provider
  imports Image_Family
begin

text \<open>
  The image provider of \<^verbatim>\<open>pkg/providers/imagefamily/image.go\<close>: one resolution per kind of selector term, the check that the images exist, and
  the cache of \<^verbatim>\<open>List\<close>. The two families implement the Go interface \<^verbatim>\<open>ImageFamily\<close>; its contract is the locale \<open>image_family\<close>.
\<close>

definition imageCacheTTL :: duration where [go_defs]: "imageCacheTTL = 5 * 60 * 10 ^ 9"
definition ImageChannelCluster :: string where [go_defs]: "ImageChannelCluster = ''cluster''"

text \<open>\<^verbatim>\<open>^projects/([^/]+)/global/images/(.+)$\<close> and \<^verbatim>\<open>^global/images/(.+)$\<close>; a dot does not match a line break.\<close>

definition dot_plus :: "string \<Rightarrow> bool" where "dot_plus s \<longleftrightarrow> s \<noteq> [] \<and> CHR 0x0A \<notin> set s"

definition projectPattern :: "string \<Rightarrow> (string \<times> string) option" where
  "projectPattern s = (if \<not> has_prefix s ''projects/'' then None
     else (case cut CHR ''/'' (drop 9 s) of
         (p, Some q) \<Rightarrow> if p \<noteq> [] \<and> has_prefix q ''global/images/'' \<and> dot_plus (drop 14 q) then Some (p, drop 14 q) else None
       | _ \<Rightarrow> None))"

definition globalPattern :: "string \<Rightarrow> bool" where
  "globalPattern s \<longleftrightarrow> has_prefix s ''global/images/'' \<and> dot_plus (drop 14 s)"

definition parseImageSource :: "string \<Rightarrow> go_error + string \<times> string" where
  "parseImageSource imageSource = (let s = trim_space imageSource in
     case projectPattern s of Some r \<Rightarrow> Inr r
     | None \<Rightarrow> if globalPattern s then Inl (Errorf ''project ID required for global image reference: %s'' [s] [])
         else if CHR ''/'' \<notin> set s then Inl (Errorf ''project ID required for image name: %s'' [s] [])
         else Inl (Errorf ''invalid image source format: %s'' [s] []))"

definition resolveImage :: "'s image_deps \<Rightarrow> string \<Rightarrow> 's \<Rightarrow> (go_error + compute_image option) \<times> 's" where
  "resolveImage d sourceImage s = (case parseImageSource sourceImage of Inl err \<Rightarrow> (Inl err, s)
     | Inr (projectID, imageName) \<Rightarrow> lookupImage d projectID imageName s)"

definition imageEligible :: "compute_image option \<Rightarrow> string \<Rightarrow> bool \<times> go_error option" where
  "imageEligible img family = (case img of None \<Rightarrow> (False, None)
     | Some i \<Rightarrow> if family = ImageFamilyContainerOptimizedOS then (imageUsable i, None) else (True, imageReady i))"

fun available_loop :: "'s image_deps \<Rightarrow> string \<Rightarrow> fam_image list \<Rightarrow> 's \<Rightarrow> (go_error + fam_image list) \<times> 's" where
  "available_loop d family [] s = (Inr [], s)"
| "available_loop d family (im # ims) s = (case resolveImage d (fi_SourceImage im) s of
      (Inl err, s) \<Rightarrow> (Inl err, s)
    | (Inr img, s) \<Rightarrow> (case imageEligible img family of
        (_, Some err) \<Rightarrow> (Inl err, s)
      | (eligible, None) \<Rightarrow> (case available_loop d family ims s of
          (Inl err, s) \<Rightarrow> (Inl err, s)
        | (Inr result, s) \<Rightarrow> (Inr (if eligible then im # result else result), s))))"

definition ensureImagesAvailable :: "'s image_deps \<Rightarrow> string \<Rightarrow> string \<Rightarrow> fam_image list \<Rightarrow> 's \<Rightarrow> (go_error + fam_image list) \<times> 's" where
  "ensureImagesAvailable d family version ims s = (if family = ImageFamilyContainerOptimizedOS \<and> version = ''latest'' then (Inr ims, s)
     else (case available_loop d family ims s of
         (Inl err, s) \<Rightarrow> (Inl err, s)
       | (Inr result, s) \<Rightarrow> if result \<noteq> [] then (Inr result, s)
           else if family = ImageFamilyContainerOptimizedOS then (Inl (ImageUnavailableError (utoa (length ims)
             @ '' derived COS image(s) were checked but none exist and are READY in GCP yet'')), s)
           else if ims \<noteq> [] then (Inl (ImageResolutionError (utoa (length ims)
             @ '' candidate image(s) were resolved but none exist in GCP; verify the pinned version is available'')), s)
           else (Inr [], s)))"

text \<open>The families of \<^verbatim>\<open>NewDefaultProvider\<close>, and \<^verbatim>\<open>ResolveImages\<close> of the interface.\<close>

datatype family_provider = ContainerOptimizedOS | Ubuntu string

definition getImageFamilyProvider :: "string \<Rightarrow> family_provider option" where
  "getImageFamilyProvider family = map_get [(ImageFamilyContainerOptimizedOS, ContainerOptimizedOS), (ImageFamilyUbuntu2404, Ubuntu ''2404''),
     (ImageFamilyUbuntu, Ubuntu ''2404''), (ImageFamilyUbuntu2204, Ubuntu ''2204'')] family"

fun ResolveImages :: "'s image_deps \<Rightarrow> family_provider \<Rightarrow> string \<Rightarrow> 's \<Rightarrow> ((go_error + fam_image list) \<times> 's) option" where
  "ResolveImages d ContainerOptimizedOS version s = cos_ResolveImages d version s"
| "ResolveImages d (Ubuntu release) version s = ubuntu_ResolveImages d release version s"

text \<open>The channel of a term. A nil version provider would panic in \<^verbatim>\<open>resolveVersion\<close>, which is \<open>None\<close>.\<close>

definition no_channel_error :: go_error where
  "no_channel_error = ImageResolutionError ''cluster has no enrolled release channel (UNSPECIFIED); channel: cluster requires an enrolled channel - enroll the cluster in a release channel or use version: latest explicitly''"

definition term_channel :: "'s image_deps \<Rightarrow> ImageSelectorTerm \<Rightarrow> 's \<Rightarrow> (go_error + string) \<times> 's" where
  "term_channel d term s = (if ist_Channel term \<noteq> ImageChannelCluster then (Inr (ist_Channel term), s)
     else (case ig_clusterConfig d s of
         (Inl err, s) \<Rightarrow> (Inl (Errorf ''GetClusterConfig for channel: cluster: %w'' [] [err]), s)
       | (Inr cl, s) \<Rightarrow> (case cl_ReleaseChannel cl of None \<Rightarrow> (Inl no_channel_error, s)
           | Some c \<Rightarrow> if c = [] \<or> c = ''UNSPECIFIED'' then (Inl no_channel_error, s) else (Inr c, s))))"

definition resolveVersion :: "'s image_deps \<Rightarrow> ImageSelectorTerm \<Rightarrow> 's \<Rightarrow> ((go_error + string) \<times> 's) option" where
  "resolveVersion d term s = (if ist_Version term \<noteq> [] then Some (Inr (ist_Version term), s)
     else (case term_channel d term s of (Inl err, s) \<Rightarrow> Some (Inl err, s)
        | (Inr channelName, s) \<Rightarrow> (case ig_serverConfig d s of
            (Inl err, s) \<Rightarrow> Some (Inl (Errorf ''GetServerConfig for channel resolution: %w'' [] [err]), s)
          | (Inr sc, s) \<Rightarrow> (case ig_version d of None \<Rightarrow> None
            | Some get \<Rightarrow> (case get s of
              (Inl err, s) \<Rightarrow> Some (Inl (Errorf ''getting cluster version for channel resolution: %w'' [] [err]), s)
            | (Inr clusterVersion, s) \<Rightarrow> (case ResolveVersionForChannel sc channelName clusterVersion of
                Inl err \<Rightarrow> Some (Inl (ImageResolutionError (ig_text d err)), s)
              | Inr v \<Rightarrow> Some (Inr v, s)))))))"

definition resolve_family :: "'s image_deps \<Rightarrow> string \<Rightarrow> go_error \<Rightarrow> string \<Rightarrow> 's \<Rightarrow> ((go_error + fam_image list) \<times> 's) option" where
  "resolve_family d family unsupported version s = (case getImageFamilyProvider family of
      None \<Rightarrow> Some (Inl unsupported, s)
    | Some provider \<Rightarrow> (case ResolveImages d provider version s of None \<Rightarrow> None
        | Some (Inl err, s) \<Rightarrow> Some (Inl err, s)
        | Some (Inr ims, s) \<Rightarrow> Some (ensureImagesAvailable d family version ims s)))"

definition resolveAliasTerm :: "'s image_deps \<Rightarrow> ImageSelectorTerm \<Rightarrow> 's \<Rightarrow> ((go_error + fam_image list) \<times> 's) option" where
  "resolveAliasTerm d term s = (case cut CHR ''@'' (ist_Alias term) of
      (_, None) \<Rightarrow> Some (Inl (Errorf ''malformed alias %q: expected family@version'' [ist_Alias term] []), s)
    | (family, Some version) \<Rightarrow> resolve_family d family (Errorf ''unsupported alias family %q'' [family] []) version s)"

definition resolveFamilyTerm :: "'s image_deps \<Rightarrow> ImageSelectorTerm \<Rightarrow> 's \<Rightarrow> ((go_error + fam_image list) \<times> 's) option" where
  "resolveFamilyTerm d term s = (case resolveVersion d term s of None \<Rightarrow> None
    | Some (Inl err, s) \<Rightarrow> Some (Inl err, s)
    | Some (Inr version, s) \<Rightarrow> resolve_family d (ist_Family term) (Errorf ''unsupported family %q'' [ist_Family term] []) version s)"

definition resolveIDTerm :: "'s image_deps \<Rightarrow> ImageSelectorTerm \<Rightarrow> 's \<Rightarrow> (go_error + fam_image list) \<times> 's" where
  "resolveIDTerm d term s = (case resolveImage d (ist_ID term) s of
      (Inl err, s) \<Rightarrow> (Inl (Errorf ''resolving image %q: %w'' [ist_ID term] [err]), s)
    | (Inr None, s) \<Rightarrow> (Inr [], s)
    | (Inr (Some img), s) \<Rightarrow> (case imageReady img of Some err \<Rightarrow> (Inl err, s)
        | None \<Rightarrow> if cimg_Architecture img = OSArchitectureX86 then (Inr [\<lparr>fi_SourceImage = ist_ID term, fi_Requirements = NewRequirements
              [NewRequirement LabelArchStable OpIn [OSArchAMD64Requirement]]\<rparr>], s)
            else if cimg_Architecture img = OSArchitectureARM then (Inr [\<lparr>fi_SourceImage = ist_ID term, fi_Requirements = NewRequirements
              [NewRequirement LabelArchStable OpIn [OSArchARM64Requirement]]\<rparr>], s)
            else (Inl (Errorf ''unsupported architecture %q for image %q'' [cimg_Architecture img, ist_ID term] []), s)))"

definition resolveImageFromTerm :: "'s image_deps \<Rightarrow> ImageSelectorTerm \<Rightarrow> 's \<Rightarrow> ((go_error + fam_image list) \<times> 's) option" where
  "resolveImageFromTerm d term s = (if ist_Alias term \<noteq> [] then resolveAliasTerm d term s
     else if ist_ID term \<noteq> [] then Some (resolveIDTerm d term s)
     else if ist_Family term \<noteq> [] then resolveFamilyTerm d term s
     else Some (Inl (Errorf ''ImageSelectorTerm has no selection field (alias, id, or family)'' [] []), s))"

fun resolve_terms :: "'s image_deps \<Rightarrow> ImageSelectorTerm list \<Rightarrow> 's \<Rightarrow> ((go_error + fam_image list) \<times> 's) option" where
  "resolve_terms d [] s = Some (Inr [], s)"
| "resolve_terms d (t # ts) s = (case resolveImageFromTerm d t s of None \<Rightarrow> None
     | Some (Inl err, s) \<Rightarrow> Some (Inl err, s)
     | Some (Inr imgs, s) \<Rightarrow> (case resolve_terms d ts s of None \<Rightarrow> None
         | Some (Inl err, s) \<Rightarrow> Some (Inl err, s)
         | Some (Inr result, s) \<Rightarrow> Some (Inr (imgs @ result), s)))"

definition ImageProvider_List :: "'s image_deps \<Rightarrow> GCENodeClass \<Rightarrow> fam_image list gocache \<Rightarrow> 's
    \<Rightarrow> ((go_error + fam_image list) \<times> fam_image list gocache \<times> 's) option" where
  "ImageProvider_List d nc c s = (let terms = ImageSelectorTerms (ncl_Spec nc) in case ig_hash d terms of
      Inl err \<Rightarrow> Some (Inl err, c, s)
    | Inr h \<Rightarrow> (case cache_get (ig_now d s) (utoa h) c of
        Some images \<Rightarrow> Some (Inr images, c, s)
      | None \<Rightarrow> (case resolve_terms d terms s of None \<Rightarrow> None
          | Some (Inl err, s) \<Rightarrow> Some (Inl err, c, s)
          | Some (Inr result, s) \<Rightarrow> Some (Inr result, (if result \<noteq> [] then cache_set (ig_now d s) (utoa h) result 0 c else c), s))))"

subsection \<open>Sources\<close>

lemma dropWhile_none: "(\<And>c. c \<in> set s \<Longrightarrow> \<not> P c) \<Longrightarrow> dropWhile P s = s"
  by (cases s) auto

lemma trim_space_none: "(\<And>c. c \<in> set s \<Longrightarrow> \<not> is_space c) \<Longrightarrow> trim_space s = s"
  using dropWhile_none [of s is_space] dropWhile_none [of "rev s" is_space] by (simp add: trim_space_def)

lemma parseImageSource_source:
  assumes "p \<noteq> []" "CHR ''/'' \<notin> set p" "n \<noteq> []" "\<And>c. c \<in> set p \<union> set n \<Longrightarrow> \<not> is_space c"
  shows "parseImageSource (image_source p n) = Inr (p, n)"
proof -
  have "trim_space (image_source p n) = image_source p n"
    using assms(4) by (intro trim_space_none) (auto simp: image_source_def is_space_def)
  moreover have "cut CHR ''/'' (p @ CHR ''/'' # ''global/images/'' @ n) = (p, Some (''global/images/'' @ n))"
    using assms(2) by (rule cut_append)
  moreover have "CHR 0x0A \<notin> set n" using assms(4) [of "CHR 0x0A"] by (auto simp: is_space_def)
  ultimately show ?thesis using assms(1,3)
    by (simp add: parseImageSource_def projectPattern_def dot_plus_def image_source_def)
qed

lemma classified_name:
  assumes "classifyCOSImage n = Some v"
  shows "parseImageSource (image_source cosImageProject n) = Inr (cosImageProject, n)"
proof -
  obtain ps where ps: "re_full ps n" "ps \<in> {cosAMD64CPUNameRe, cosARM64CPUNameRe, cosAMD64NVIDIANameRe}"
    using assms by (auto simp: classifyCOSImage_def split: if_splits)
  then have m: "re_match ps n = Some (n, [])" by (simp add: re_full_iff)
  have sp: "\<not> is_space c" if "c \<in> set n" for c
  proof -
    have "is_digit c \<or> is_lower c \<or> c \<in> re_chars ps" using re_match_chars [OF m that] .
    moreover have "re_chars ps \<subseteq> set ''gke-cosarm64prenvda''"
      using ps(2) by (auto simp: cosAMD64CPUNameRe_def cosARM64CPUNameRe_def cosAMD64NVIDIANameRe_def four_numbers_def)
    ultimately show ?thesis by (auto simp: is_space_def is_digit_def is_lower_def char_code_def)
  qed
  have "n \<noteq> []" using m ps(2) by (auto simp: cosAMD64CPUNameRe_def cosARM64CPUNameRe_def cosAMD64NVIDIANameRe_def)
  then show ?thesis using sp by (intro parseImageSource_source) (auto simp: cosImageProject_def is_space_def)
qed

subsection \<open>Every published image was seen ready\<close>

definition seen_ready :: "'s image_deps \<Rightarrow> string \<Rightarrow> bool" where
  "seen_ready d src \<longleftrightarrow> (\<exists>s c s'. resolveImage d src s = (Inr (Some c), s') \<and> cimg_Status c = ''READY'')"

text \<open>What the code relies on of \<^verbatim>\<open>Images.Get\<close>: it answers with the image it was asked for.\<close>

definition get_named :: "'s image_deps \<Rightarrow> bool" where
  "get_named d \<longleftrightarrow> (\<forall>p n s c s'. ig_get d p n s = (Inr c, s') \<longrightarrow> cimg_Name c = n)"

lemma usable_ready: "imageUsable c \<Longrightarrow> cimg_Status c = ''READY''"
  by (auto simp: imageUsable_def split: if_splits)

lemma available_loop_seen:
  "available_loop d family ims s = (Inr res, s') \<Longrightarrow> im \<in> set res \<Longrightarrow> seen_ready d (fi_SourceImage im)"
proof (induction ims arbitrary: s res s')
  case (Cons i ims)
  obtain img s1 where i: "resolveImage d (fi_SourceImage i) s = (Inr img, s1)"
    using Cons.prems(1) by (auto split: prod.splits sum.splits)
  obtain el where e: "imageEligible img family = (el, None)"
    using Cons.prems(1) i by (auto split: prod.splits option.splits)
  obtain res1 s2 where r: "available_loop d family ims s1 = (Inr res1, s2)" "res = (if el then i # res1 else res1)"
    using Cons.prems(1) i e by (auto split: prod.splits sum.splits)
  have "seen_ready d (fi_SourceImage i)" if el
    using i e that by (cases img) (auto simp: seen_ready_def imageEligible_def imageReady_def dest: usable_ready split: if_splits)
  with Cons.IH [OF r(1)] Cons.prems(2) r(2) show ?case by (auto split: if_splits)
qed simp

text \<open>The interface \<^verbatim>\<open>ImageFamily\<close>. A family may check its images itself for some versions; the provider checks all others.\<close>

locale image_family =
  fixes d :: "'s image_deps" and resolve :: "string \<Rightarrow> 's \<Rightarrow> ((go_error + fam_image list) \<times> 's) option" and validated :: "string \<Rightarrow> bool"
  assumes validated_seen: "get_named d \<Longrightarrow> resolve v s = Some (Inr ims, s') \<Longrightarrow> validated v \<Longrightarrow> im \<in> set ims \<Longrightarrow> seen_ready d (fi_SourceImage im)"
begin

lemma available_seen:
  assumes "get_named d" "resolve v s = Some (Inr ims, s1)" "ensureImagesAvailable d family v ims s1 = (Inr res, s2)" "im \<in> set res"
    and "family = ImageFamilyContainerOptimizedOS \<Longrightarrow> v = ''latest'' \<Longrightarrow> validated v"
  shows "seen_ready d (fi_SourceImage im)"
proof (cases "family = ImageFamilyContainerOptimizedOS \<and> v = ''latest''")
  case True
  with assms(3) have "res = ims" by (simp add: ensureImagesAvailable_def)
  with validated_seen [OF assms(1,2)] assms(4,5) True show ?thesis by blast
next
  case False
  with assms(3) obtain s where "available_loop d family ims s1 = (Inr res, s)"
    by (auto simp: ensureImagesAvailable_def split: prod.splits sum.splits if_splits)
  from available_loop_seen [OF this assms(4)] show ?thesis .
qed

end

lemma visit_items_inv:
  "(\<And>img acc s. P acc \<Longrightarrow> P (fst (snd (visit img acc s)))) \<Longrightarrow> P acc \<Longrightarrow> P (fst (snd (visit_items visit imgs acc s)))"
proof (induction imgs arbitrary: acc s)
  case (Cons img imgs)
  obtain stop acc1 s1 where v: "visit img acc s = (stop, acc1, s1)" by (metis prod_cases3)
  with Cons.prems(1) [of acc img s] Cons.prems(2) have "P acc1" by simp
  with Cons.IH [OF Cons.prems(1)] v show ?case by simp
qed simp

lemma scan_pages_inv:
  assumes "\<And>img acc s. P acc \<Longrightarrow> P (fst (snd (visit img acc s)))" "scan_pages d p visit t acc s = Some r" "P acc"
  shows "P (fst (snd r))"
proof -
  define Q where "Q d' p' visit' t' acc r \<longleftrightarrow> (visit' = visit \<longrightarrow> P acc \<longrightarrow> P (fst (snd r)))"
    for d' :: "'b image_deps" and p' t' :: string and visit' acc and r :: "go_error option \<times> 'a \<times> 'b"
  have "Q d p visit t acc r"
  proof (rule scan_pages.raw_induct [OF _ assms(2), where P = "\<lambda>d p visit t acc s r. Q d p visit t acc r"])
    fix rec d p visit' t acc s r
    assume IH: "\<And>d p visit t acc s r. rec d p visit t acc s = Some r \<Longrightarrow> Q d p visit t acc r"
      and b: "(case ig_list d p t s of (Inl err, s) \<Rightarrow> Some (Some err, acc, s) | (Inr (items, nextToken), s) \<Rightarrow>
        (case visit_items visit' items acc s of (stop, acc, s) \<Rightarrow>
          if stop \<or> nextToken = [] then Some (None, acc, s) else rec d p visit' nextToken acc s)) = Some r"
    show "Q d p visit' t acc r"
    proof (cases "fst (ig_list d p t s)")
      case (Inl err)
      with b show ?thesis by (auto simp: Q_def split: prod.splits sum.splits)
    next
      case (Inr x)
      obtain items nxt s1 where l: "ig_list d p t s = (Inr (items, nxt), s1)" using Inr by (metis prod.collapse)
      obtain stop acc1 s2 where v: "visit_items visit' items acc s1 = (stop, acc1, s2)" by (metis prod_cases3)
      have "P acc1" if "visit' = visit" "P acc" using visit_items_inv [of P visit acc items s1] assms(1) that v by simp
      with IH [of d p visit' nxt acc1 s2 r] b l v show ?thesis by (auto simp: Q_def split: if_splits)
    qed
  qed
  with assms(3) show ?thesis by (simp add: Q_def)
qed

definition selection_seen :: "'s image_deps \<Rightarrow> cos_selection \<Rightarrow> bool" where
  "selection_seen d acc \<longleftrightarrow> (\<forall>c \<in> ran (map_of (fst acc)). seen_ready d (image_source cosImageProject (cimg_Name c)))"

lemma latest_visit_seen:
  assumes "get_named d" "selection_seen d acc"
  shows "selection_seen d (fst (snd (latest_visit d scope img acc s)))"
proof -
  obtain sel lerr where acc: "acc = (sel, lerr)" by (cases acc)
  show ?thesis
  proof (cases "usableCOSVariant img scope")
    case None
    with assms(2) acc show ?thesis by (simp add: latest_visit_def)
  next
    case (Some v)
    then have cl: "classifyCOSImage (cimg_Name img) = Some v" by (auto simp: usableCOSVariant_def split: option.splits if_splits)
    obtain r s1 where r: "lookupImage d cosImageProject (cimg_Name img) s = (r, s1)" by (metis prod.exhaust)
    have ok: "seen_ready d (image_source cosImageProject (cimg_Name c))" if "r = Inr (Some c)" "imageUsable c" for c
    proof -
      have "ig_get d cosImageProject (cimg_Name img) s = (Inr c, s1)"
        using r that by (auto simp: lookupImage_def split: prod.splits sum.splits if_splits)
      then have "cimg_Name c = cimg_Name img" using assms(1) unfolding get_named_def by blast
      moreover have "resolveImage d (image_source cosImageProject (cimg_Name img)) s = (Inr (Some c), s1)"
        using classified_name [OF cl] r that by (simp add: resolveImage_def)
      ultimately show ?thesis using usable_ready [OF that(2)] unfolding seen_ready_def by auto
    qed
    show ?thesis
      using assms(2) acc Some r ok
      by (cases r) (auto simp: latest_visit_def selection_seen_def Let_def ran_def split: option.splits if_splits)
  qed
qed

lemma resolveLatest_seen:
  assumes "get_named d" "resolveLatestCOSImages d s = Some (Inr ims, s')" "im \<in> set ims"
  shows "seen_ready d (fi_SourceImage im)"
proof -
  obtain flt s1 where f: "cos_buildImageFilter d s = (flt, s1)" by (metis prod.exhaust)
  obtain sel s2 where sc: "scanImages d cosImageProject (latest_visit d (cosImageNameScope flt)) ([], None) s1 = Some (None, (sel, None), s2)"
    and ims: "ims = selected_images sel"
    using assms(2) f by (auto simp: resolveLatestCOSImages_def split: option.splits prod.splits if_splits)
  have "selection_seen d (sel, None)"
    using scan_pages_inv [of "selection_seen d", OF latest_visit_seen [OF assms(1)] sc [unfolded scanImages_def]] by (simp add: selection_seen_def)
  then show ?thesis using assms(3) unfolding ims selected_images_eq
    by (auto simp: selection_seen_def List.map_filter_def cos_image_def ran_def)
qed

interpretation cosf: image_family d "cos_ResolveImages d" "\<lambda>v. v = ''latest''" for d
  by unfold_locales (simp add: cos_ResolveImages_def resolveLatest_seen)

interpretation ubuntuf: image_family d "ubuntu_ResolveImages d release" "\<lambda>_. False" for d release
  by unfold_locales simp

lemma resolve_family_seen:
  assumes "get_named d" "resolve_family d family err v s = Some (Inr res, s')" "im \<in> set res"
  shows "seen_ready d (fi_SourceImage im)"
proof -
  obtain provider ims s1 where p: "getImageFamilyProvider family = Some provider" "ResolveImages d provider v s = Some (Inr ims, s1)"
    and e: "ensureImagesAvailable d family v ims s1 = (Inr res, s')"
    using assms(2) by (auto simp: resolve_family_def split: option.splits sum.splits)
  show ?thesis
  proof (cases provider)
    case ContainerOptimizedOS
    with p have "cos_ResolveImages d v s = Some (Inr ims, s1)" by simp
    from cosf.available_seen [OF assms(1) this e assms(3)] show ?thesis by blast
  next
    case (Ubuntu release)
    then have "ubuntu_ResolveImages d release v s = Some (Inr ims, s1)" "family \<noteq> ImageFamilyContainerOptimizedOS"
      using p by (auto simp: getImageFamilyProvider_def go_defs)
    from ubuntuf.available_seen [OF assms(1) this(1) e assms(3)] this(2) show ?thesis by blast
  qed
qed

lemma resolveImageFromTerm_seen:
  assumes "get_named d" "resolveImageFromTerm d t s = Some (Inr res, s')" "im \<in> set res"
  shows "seen_ready d (fi_SourceImage im)"
proof -
  consider (id) "resolveIDTerm d t s = (Inr res, s')" | (fam) family err v s1 where "resolve_family d family err v s1 = Some (Inr res, s')"
    using assms(2) by (auto simp: resolveImageFromTerm_def resolveAliasTerm_def resolveFamilyTerm_def split: if_splits option.splits prod.splits sum.splits)
  then show ?thesis
  proof cases
    case id
    obtain img s1 where r: "resolveImage d (ist_ID t) s = (Inr (Some img), s1)"
      using id assms(3) by (auto simp: resolveIDTerm_def split: prod.splits sum.splits option.splits)
    then have "imageReady img = None" "fi_SourceImage im = ist_ID t"
      using id assms(3) by (auto simp: resolveIDTerm_def split: option.splits if_splits)
    with r show ?thesis by (auto simp: seen_ready_def imageReady_def split: if_splits)
  next
    case fam
    from resolve_family_seen [OF assms(1) this assms(3)] show ?thesis .
  qed
qed

lemma resolve_terms_seen:
  "get_named d \<Longrightarrow> resolve_terms d ts s = Some (Inr res, s') \<Longrightarrow> im \<in> set res \<Longrightarrow> seen_ready d (fi_SourceImage im)"
proof (induction ts arbitrary: s res s')
  case (Cons t ts)
  obtain imgs s1 where t: "resolveImageFromTerm d t s = Some (Inr imgs, s1)"
    using Cons.prems(2) by (auto split: option.splits sum.splits)
  obtain rest where r: "resolve_terms d ts s1 = Some (Inr rest, s')" "res = imgs @ rest"
    using Cons.prems(2) t by (auto split: option.splits sum.splits)
  from Cons.prems(3) r(2) consider "im \<in> set imgs" | "im \<in> set rest" by auto
  then show ?case
    using resolveImageFromTerm_seen [OF Cons.prems(1) t] Cons.IH [OF Cons.prems(1) r(1)] by cases
qed simp

text \<open>The caches that calls of \<^verbatim>\<open>List\<close>, at any times and for any node classes, can leave, with the janitor in between.\<close>

inductive image_cache_reachable :: "'s image_deps \<Rightarrow> fam_image list gocache \<Rightarrow> bool" for d where
  init: "image_cache_reachable d (newCache imageCacheTTL)"
| list: "image_cache_reachable d c \<Longrightarrow> ImageProvider_List d nc c s = Some (r, c', s') \<Longrightarrow> image_cache_reachable d c'"
| janitor: "image_cache_reachable d c \<Longrightarrow> image_cache_reachable d (fst (cache_delete_expired now c))"

definition cached_seen :: "'s image_deps \<Rightarrow> fam_image list gocache \<Rightarrow> bool" where
  "cached_seen d c \<longleftrightarrow> (\<forall>(k, ims, e) \<in> set (gc_items c). ims \<noteq> [] \<and> (\<forall>im \<in> set ims. seen_ready d (fi_SourceImage im)))"

lemma cached_seen_resolve:
  assumes "get_named d" "cached_seen d c" "ig_hash d (ImageSelectorTerms (ncl_Spec nc)) = Inr h" "cache_get (ig_now d s) (utoa h) c = None"
    and "ImageProvider_List d nc c s = Some (r, c', s')"
  shows "cached_seen d c' \<and> (\<forall>ims. r = Inr ims \<longrightarrow> (\<forall>im \<in> set ims. seen_ready d (fi_SourceImage im)))"
proof -
  obtain q s1 where q: "resolve_terms d (ImageSelectorTerms (ncl_Spec nc)) s = Some (q, s1)"
    using assms(3-5) by (auto simp: ImageProvider_List_def Let_def split: option.splits)
  show ?thesis
  proof (cases q)
    case (Inl err)
    with assms q show ?thesis by (auto simp: ImageProvider_List_def Let_def)
  next
    case (Inr ims)
    with resolve_terms_seen [OF assms(1), of _ s ims] q have ok: "\<forall>im \<in> set ims. seen_ready d (fi_SourceImage im)" by blast
    from assms(3-5) q Inr have c': "r = Inr ims" "c' = (if ims \<noteq> [] then cache_set (ig_now d s1) (utoa h) ims 0 c else c)"
      by (auto simp: ImageProvider_List_def Let_def)
    have "cached_seen d (cache_set (ig_now d s1) (utoa h) ims 0 c)" if "ims \<noteq> []"
      using assms(2) ok that set_map_set_sub by (fastforce simp: cached_seen_def cache_set_def Let_def)
    with assms(2) ok c' show ?thesis by auto
  qed
qed

lemma cached_seen_List:
  assumes "get_named d" "cached_seen d c" "ImageProvider_List d nc c s = Some (r, c', s')"
  shows "cached_seen d c' \<and> (\<forall>ims. r = Inr ims \<longrightarrow> (\<forall>im \<in> set ims. seen_ready d (fi_SourceImage im)))"
proof (cases "ig_hash d (ImageSelectorTerms (ncl_Spec nc))")
  case (Inl err)
  with assms show ?thesis by (auto simp: ImageProvider_List_def)
next
  case (Inr h)
  note hash = this
  show ?thesis
  proof (cases "cache_get (ig_now d s) (utoa h) c")
    case (Some ims)
    then have "r = Inr ims" "c' = c" using assms(3) hash by (auto simp: ImageProvider_List_def)
    moreover obtain e where "(utoa h, ims, e) \<in> set (gc_items c)"
      using Some by (auto simp: cache_get_def split: option.splits if_splits dest!: map_of_SomeD)
    ultimately show ?thesis using assms(2) by (auto simp: cached_seen_def)
  next
    case None
    from cached_seen_resolve [OF assms(1,2) hash None assms(3)] show ?thesis .
  qed
qed

lemma cached_seen_reachable:
  assumes "get_named d" "image_cache_reachable d c"
  shows "cached_seen d c"
  using assms(2)
proof (induction rule: image_cache_reachable.induct)
  case init
  then show ?case by (simp add: cached_seen_def newCache_def)
next
  case (list c nc s r c' s')
  with cached_seen_List [OF assms(1)] show ?case by blast
next
  case (janitor c now)
  then show ?case by (auto simp: cached_seen_def cache_delete_expired_def)
qed

text \<open>C30: Every image that \<^verbatim>\<open>List\<close> returns, for any kind of selector term and whether resolved now or taken from the cache, was
  looked up by the provider in the project and under the name of its source, and was READY then.\<close>

theorem listed_images_seen_ready:
  assumes "get_named d" "image_cache_reachable d c" "ImageProvider_List d nc c s = Some (Inr ims, c', s')" "im \<in> set ims"
  shows "\<exists>p n s c s'. parseImageSource (fi_SourceImage im) = Inr (p, n) \<and> ig_get d p n s = (Inr c, s') \<and> cimg_Status c = ''READY''"
proof -
  have "seen_ready d (fi_SourceImage im)"
    using cached_seen_List [OF assms(1) cached_seen_reachable [OF assms(1,2)] assms(3)] assms(4) by blast
  then obtain s c s' where r: "resolveImage d (fi_SourceImage im) s = (Inr (Some c), s')" "cimg_Status c = ''READY''"
    by (auto simp: seen_ready_def)
  then obtain p n where p: "parseImageSource (fi_SourceImage im) = Inr (p, n)" by (auto simp: resolveImage_def split: sum.splits)
  with r(1) have "ig_get d p n s = (Inr c, s')" by (auto simp: resolveImage_def lookupImage_def split: sum.splits prod.splits if_splits)
  with p r(2) show ?thesis by blast
qed

definition example_image_class :: GCENodeClass where
  "example_image_class = zero_nodeClass\<lparr>ncl_Spec := zero_spec\<lparr>ImageSelectorTerms :=
     [\<lparr>ist_Alias = [], ist_ID = [], ist_Family = ''ContainerOptimizedOS'', ist_Channel = [], ist_Version = ''latest''\<rparr>]\<rparr>\<rparr>"

theorem listed_images_seen_ready_witness:
  "\<exists>(ims :: fam_image list) c' p n s s' c. ImageProvider_List example_image_deps example_image_class (newCache imageCacheTTL) () = Some (Inr ims, c', ())
     \<and> length ims = 2 \<and> parseImageSource (fi_SourceImage (hd ims)) = Inr (p, n)
     \<and> ig_get example_image_deps p n s = (Inr c, s') \<and> cimg_Status c = ''READY''"
proof -
  have g: "get_named example_image_deps"
    by (auto simp: get_named_def example_image_deps_def example_look_def example_image_def split: if_splits)
  have "(case ImageProvider_List example_image_deps example_image_class (newCache imageCacheTTL) () of Some (Inr ims, _) \<Rightarrow> length ims = 2 | _ \<Rightarrow> False)"
    by code_simp
  then obtain ims c' where l: "ImageProvider_List example_image_deps example_image_class (newCache imageCacheTTL) () = Some (Inr ims, c', ())" "length ims = 2"
    by (auto split: option.splits prod.splits sum.splits)
  then have "hd ims \<in> set ims" by (cases ims) auto
  from listed_images_seen_ready [OF g image_cache_reachable.init l(1) this] l show ?thesis by blast
qed

end
