(* ===== verification/Node_Class_Control.thy ===== *)
theory Node_Class_Control
  imports Status_Conditions Image_Provider Subnet Gke
begin

text \<open>
  The controllers of node classes, \<^verbatim>\<open>pkg/controllers/nodeclass\<close>: \<^verbatim>\<open>hash\<close> keeps the hash annotations, \<^verbatim>\<open>status\<close> the finalizer, the resolved images and the pod
  ranges, \<^verbatim>\<open>termination\<close> removes the finalizer. The image, cluster and subnet providers and the Kubernetes client are the record
  \<open>ncc_deps\<close> over an outside state; what is patched is taken to be what the server then stores. Logging is left out.
\<close>

record 's ncc_deps =
  nd_listImages :: "GCENodeClass \<Rightarrow> 's \<Rightarrow> (go_error + fam_image list) \<times> 's"
  nd_GetClusterConfig :: "'s \<Rightarrow> (go_error + cluster) \<times> 's"
  nd_GetFreeIPCounts :: "string \<Rightarrow> string \<Rightarrow> 's \<Rightarrow> ((string, int) gomap \<times> go_error option) \<times> 's"
  nd_patch :: "GCENodeClass \<Rightarrow> 's \<Rightarrow> go_error option \<times> 's"
  nd_patchStatus :: "GCENodeClass \<Rightarrow> 's \<Rightarrow> go_error option \<times> 's"
  nd_update :: "GCENodeClass \<Rightarrow> 's \<Rightarrow> go_error option \<times> 's"
  nd_listClaims :: "'s \<Rightarrow> go_error + NodeClaim list"
  nd_hash :: "GCENodeClass \<Rightarrow> string" \<comment> \<open>\<^verbatim>\<open>Hash()\<close>\<close>
  nd_text :: "go_error \<Rightarrow> string" \<comment> \<open>\<^verbatim>\<open>Error()\<close>\<close>

definition nodeClass_conditions :: condition_types where
  "nodeClass_conditions = \<lparr>ct_root = ''Ready'', ct_dependents = [ConditionTypeImagesReady]\<rparr>"

text \<open>\<^verbatim>\<open>nodeClass.StatusConditions()\<close> followed by an update of the set.\<close>

definition with_conditions :: "(Condition list \<Rightarrow> Condition list) \<Rightarrow> GCENodeClass \<Rightarrow> GCENodeClass" where
  "with_conditions f nc = nc\<lparr>ncl_Status := (ncl_Status nc)\<lparr>st_Conditions := f (conditions_For nodeClass_conditions (st_Conditions (ncl_Status nc)))\<rparr>\<rparr>"

definition with_images :: "Image list \<Rightarrow> GCENodeClass \<Rightarrow> GCENodeClass" where
  "with_images ims nc = nc\<lparr>ncl_Status := (ncl_Status nc)\<lparr>st_Images := ims\<rparr>\<rparr>"

subsection \<open>Images\<close>

text \<open>The text of a valid UTF-8 string up to \<open>n\<close> runes: a rune starts at a byte that is no continuation byte.\<close>

fun take_runes :: "nat \<Rightarrow> string \<Rightarrow> string" where
  "take_runes n [] = []"
| "take_runes n (c # s) = (if 128 \<le> char_code c \<and> char_code c < 192 then c # take_runes n s
     else (case n of 0 \<Rightarrow> [] | Suc m \<Rightarrow> c # take_runes m s))"

definition imageConditionMessage :: "'s ncc_deps \<Rightarrow> go_error \<Rightarrow> string" where
  "imageConditionMessage d err = take_runes 256 (nd_text d err)"

definition imageResolutionFailedReason :: string where [go_defs]: "imageResolutionFailedReason = ''ImageResolutionFailed''"
definition imageUnavailableReason :: string where [go_defs]: "imageUnavailableReason = ''ImageUnavailable''"
definition imageLookupFailedReason :: string where [go_defs]: "imageLookupFailedReason = ''ImageLookupFailed''"
definition imagesNotFoundReason :: string where [go_defs]: "imagesNotFoundReason = ''ImagesNotFound''"

text \<open>\<^verbatim>\<open>NodeSelectorRequirement\<close> and \<^verbatim>\<open>BoundedNodeSelectorRequirements\<close> of karpenter core.\<close>

definition NodeSelectorRequirement :: "requirement \<Rightarrow> selector_requirement" where
  "NodeSelectorRequirement r = (case req_gte r of
      Some g \<Rightarrow> \<lparr>sr_key = req_key r, sr_operator = OpGte, sr_values = [itoa g], sr_minValues = req_minValues r\<rparr>
    | None \<Rightarrow> (case req_lte r of
        Some l \<Rightarrow> \<lparr>sr_key = req_key r, sr_operator = OpLte, sr_values = [itoa l], sr_minValues = req_minValues r\<rparr>
      | None \<Rightarrow> if req_complement r then (if req_values r \<noteq> []
            then \<lparr>sr_key = req_key r, sr_operator = OpNotIn, sr_values = sort_strings (req_values r), sr_minValues = req_minValues r\<rparr>
            else \<lparr>sr_key = req_key r, sr_operator = OpExists, sr_values = [], sr_minValues = req_minValues r\<rparr>)
          else (if req_values r \<noteq> []
            then \<lparr>sr_key = req_key r, sr_operator = OpIn, sr_values = sort_strings (req_values r), sr_minValues = req_minValues r\<rparr>
            else \<lparr>sr_key = req_key r, sr_operator = OpDoesNotExist, sr_values = [], sr_minValues = req_minValues r\<rparr>)))"

definition BoundedNodeSelectorRequirements :: "requirement \<Rightarrow> selector_requirement list" where
  "BoundedNodeSelectorRequirements r =
    [\<lparr>sr_key = req_key r, sr_operator = OpGte, sr_values = [itoa (the (req_gte r))], sr_minValues = req_minValues r\<rparr>,
     \<lparr>sr_key = req_key r, sr_operator = OpLte, sr_values = [itoa (the (req_lte r))], sr_minValues = req_minValues r\<rparr>]"

definition NodeSelectorRequirements :: "requirements \<Rightarrow> selector_requirement list" where
  "NodeSelectorRequirements rs = concat (map (\<lambda>(k, r). if req_gte r \<noteq> None \<and> req_lte r \<noteq> None
     then BoundedNodeSelectorRequirements r else [NodeSelectorRequirement r]) rs)"

definition shorter_key :: "selector_requirement \<Rightarrow> selector_requirement \<Rightarrow> bool" where
  "shorter_key a b = (if length (sr_key a) \<noteq> length (sr_key b) then length (sr_key a) < length (sr_key b) else sr_key a < sr_key b)"

definition published_image :: "fam_image \<Rightarrow> Image" where
  "published_image im = \<lparr>im_SourceImage = fi_SourceImage im,
     im_Requirements = sort_slice shorter_key (map (\<lambda>item. item\<lparr>sr_minValues := None\<rparr>) (NodeSelectorRequirements (fi_Requirements im)))\<rparr>"

text \<open>The result of a reconciler: the time after which it wants to run again (0 for none), and its error.\<close>

type_synonym requeue = "duration \<times> go_error option"

definition images_failed :: "string \<Rightarrow> string \<Rightarrow> GCENodeClass \<Rightarrow> GCENodeClass" where
  "images_failed reason message = with_conditions (SetFalse nodeClass_conditions ConditionTypeImagesReady reason message)"

definition Image_Reconcile :: "'s ncc_deps \<Rightarrow> GCENodeClass \<Rightarrow> 's \<Rightarrow> requeue \<times> GCENodeClass \<times> 's" where
  "Image_Reconcile d nc s = (case nd_listImages d nc s of
      (Inl err, s) \<Rightarrow> if IsImageResolutionError err then ((60 * 10 ^ 9, None), images_failed imageResolutionFailedReason (imageConditionMessage d err) nc, s)
        else if IsImageUnavailableError err
          then ((60 * 10 ^ 9, None), images_failed imageUnavailableReason (imageConditionMessage d err) (with_images [] nc), s)
        else ((0, Some err), images_failed imageLookupFailedReason (imageConditionMessage d err) nc, s)
    | (Inr images, s) \<Rightarrow> if images = []
        then ((60 * 10 ^ 9, None), images_failed imagesNotFoundReason ''ImageSelector did not match any Images'' (with_images [] nc), s)
        else ((300 * 10 ^ 9, None), with_conditions (SetTrue nodeClass_conditions ConditionTypeImagesReady) (with_images (map published_image images) nc), s))"

subsection \<open>Pod ranges\<close>

definition subnetRangeStatusRequeue :: duration where [go_defs]: "subnetRangeStatusRequeue = 300 * 10 ^ 9"

definition SubnetRange_Reconcile :: "'s ncc_deps \<Rightarrow> GCENodeClass \<Rightarrow> 's \<Rightarrow> requeue \<times> GCENodeClass \<times> 's" where
  "SubnetRange_Reconcile d nc s = (case nd_GetClusterConfig d s of
      (Inl err, s) \<Rightarrow> ((0, Some err), nc, s)
    | (Inr cl, s) \<Rightarrow> (let
        names = (if PodSubnetRangeNames nc \<noteq> [] then PodSubnetRangeNames nc else ClusterPodRangeNames (Some cl));
        (network, target) = PrimaryNetwork (Some nc) (Some cl);
        (counts, s) = (if names \<noteq> [] \<and> target \<noteq> [] then (case nd_GetFreeIPCounts d network target s of ((counts, err), s) \<Rightarrow> (counts, s)) else ([], s));
        status = map (\<lambda>name. \<lparr>srs_Name = name, srs_TotalFreeIP = map_get counts name\<rparr>) (filter (\<lambda>name. name \<noteq> []) names)
      in ((subnetRangeStatusRequeue, None), nc\<lparr>ncl_Status := (ncl_Status nc)\<lparr>st_SubnetRanges := status\<rparr>\<rparr>, s)))"

subsection \<open>The status controller\<close>

definition ContainsFinalizer :: "GCENodeClass \<Rightarrow> string \<Rightarrow> bool" where
  "ContainsFinalizer nc f \<longleftrightarrow> f \<in> set (om_Finalizers (ncl_Meta nc))"

definition AddFinalizer :: "GCENodeClass \<Rightarrow> string \<Rightarrow> GCENodeClass" where
  "AddFinalizer nc f = (if ContainsFinalizer nc f then nc else nc\<lparr>ncl_Meta := (ncl_Meta nc)\<lparr>om_Finalizers := om_Finalizers (ncl_Meta nc) @ [f]\<rparr>\<rparr>)"

definition RemoveFinalizer :: "GCENodeClass \<Rightarrow> string \<Rightarrow> GCENodeClass" where
  "RemoveFinalizer nc f = nc\<lparr>ncl_Meta := (ncl_Meta nc)\<lparr>om_Finalizers := filter (\<lambda>x. x \<noteq> f) (om_Finalizers (ncl_Meta nc))\<rparr>\<rparr>"

text \<open>\<^verbatim>\<open>multierr.Append\<close> over the errors of the reconcilers and the patch, and \<^verbatim>\<open>result.Min\<close>.\<close>

definition combine_errors :: "go_error option list \<Rightarrow> go_error option" where
  "combine_errors es = (case List.map_filter id es of [] \<Rightarrow> None | [e] \<Rightarrow> Some e | errs \<Rightarrow> Some (JoinError errs))"

definition min_requeue :: "duration list \<Rightarrow> duration" where
  "min_requeue rs = (case filter (\<lambda>r. r \<noteq> 0) rs of [] \<Rightarrow> 0 | q # qs \<Rightarrow> foldl min q qs)"

definition status_patch :: "'s ncc_deps \<Rightarrow> GCENodeClass \<Rightarrow> requeue list \<Rightarrow> GCENodeClass \<Rightarrow> 's \<Rightarrow> requeue \<times> GCENodeClass \<times> 's" where
  "status_patch d stored results nc s = (let
      (err, s) = (if stored \<noteq> nc then nd_patchStatus d nc s else (None, s))
    in case err of
        Some e \<Rightarrow> if status_is ''Conflict'' e then ((0, Some e), nc, s)
          else (case combine_errors (map snd results @ [if status_is ''NotFound'' e then None else Some e]) of
              Some errs \<Rightarrow> ((0, Some errs), nc, s) | None \<Rightarrow> ((min_requeue (map fst results), None), nc, s))
      | None \<Rightarrow> (case combine_errors (map snd results) of
              Some errs \<Rightarrow> ((0, Some errs), nc, s) | None \<Rightarrow> ((min_requeue (map fst results), None), nc, s)))"

definition status_Reconcile :: "'s ncc_deps \<Rightarrow> GCENodeClass \<Rightarrow> 's \<Rightarrow> requeue \<times> GCENodeClass \<times> 's" where
  "status_Reconcile d nc s = (let
      (err, nc, s) = (if ContainsFinalizer nc TerminationFinalizer then (None, nc, s)
        else (case nd_patch d (AddFinalizer nc TerminationFinalizer) s of (err, s) \<Rightarrow> (err, AddFinalizer nc TerminationFinalizer, s)))
    in case err of Some e \<Rightarrow> ((0, Some e), nc, s)
      | None \<Rightarrow> (case Image_Reconcile d nc s of (r1, nc1, s) \<Rightarrow>
          (case SubnetRange_Reconcile d nc1 s of (r2, nc2, s) \<Rightarrow> status_patch d nc [r1, r2] nc2 s)))"

subsection \<open>Hash and termination\<close>

definition hash_Reconcile :: "'s ncc_deps \<Rightarrow> GCENodeClass \<Rightarrow> 's \<Rightarrow> requeue \<times> GCENodeClass \<times> 's" where
  "hash_Reconcile d nc s = (let
      copy = nc\<lparr>ncl_Meta := (ncl_Meta nc)\<lparr>om_Annotations := map_copy (om_Annotations (ncl_Meta nc))
        [(AnnotationGCENodeClassHash, nd_hash d nc), (AnnotationGCENodeClassHashVersion, GCENodeClassHashVersion)]\<rparr>\<rparr>
    in if nc = copy then ((0, None), nc, s)
       else (case nd_patch d copy s of
           (Some e, s) \<Rightarrow> ((0, if status_is ''NotFound'' e then None else Some e), nc, s)
         | (None, s) \<Rightarrow> ((0, None), copy, s)))"

definition termination_Reconcile :: "'s ncc_deps \<Rightarrow> GCENodeClass \<Rightarrow> 's \<Rightarrow> requeue \<times> GCENodeClass \<times> 's" where
  "termination_Reconcile d nc s = (if om_DeletionTimestamp (ncl_Meta nc) = None \<or> \<not> ContainsFinalizer nc TerminationFinalizer then ((0, None), nc, s)
     else (case nd_listClaims d s of
         Inl err \<Rightarrow> ((0, Some (Errorf ''listing nodeclaims that are using nodeclass, %w'' [] [err])), nc, s)
       | Inr claims \<Rightarrow> if \<exists>c \<in> set claims. map_option ref_Name (ncm_NodeClassRef c) = Some (ncl_Name nc) then ((600 * 10 ^ 9, None), nc, s)
           else (let nc' = RemoveFinalizer nc TerminationFinalizer in (case nd_update d nc' s of
               (Some err, s) \<Rightarrow> ((0, Some (Errorf ''removing finalizer, %w'' [] [err])), nc', s)
             | (None, s) \<Rightarrow> ((0, None), nc', s)))))"

subsection \<open>Conditions of a node class\<close>

definition conditions_ok :: "Condition list \<Rightarrow> bool" where
  "conditions_ok cs \<longleftrightarrow> cs = [] \<or> (distinct_conditions cs \<and> root_agrees nodeClass_conditions cs
     \<and> condition_Get cs ''Ready'' \<noteq> None \<and> condition_Get cs ConditionTypeImagesReady \<noteq> None)"

abbreviation nc_conditions :: "GCENodeClass \<Rightarrow> Condition list" where "nc_conditions nc \<equiv> st_Conditions (ncl_Status nc)"

lemma nodeClass_conditions_sel [simp]: "ct_root nodeClass_conditions = ''Ready''" "ct_dependents nodeClass_conditions = [''ImagesReady'']"
  by (simp_all add: nodeClass_conditions_def ConditionTypeImagesReady_def)

lemma conditions_For_ok: "conditions_ok cs \<Longrightarrow> conditions_ok (conditions_For nodeClass_conditions cs) \<and> conditions_For nodeClass_conditions cs \<noteq> []"
proof (cases "cs = []")
  case True
  have "conditions_ok (conditions_For nodeClass_conditions []) \<and> conditions_For nodeClass_conditions [] \<noteq> []" by code_simp
  with True show ?thesis by simp
next
  case False
  assume "conditions_ok cs"
  with False obtain a b where "condition_Get cs ''Ready'' = Some a" "condition_Get cs ''ImagesReady'' = Some b"
    by (auto simp: conditions_ok_def ConditionTypeImagesReady_def)
  then have "conditions_For nodeClass_conditions cs = cs" by (simp add: conditions_For_def)
  with False \<open>conditions_ok cs\<close> show ?thesis by simp
qed

lemma condition_Set_ok:
  assumes "conditions_ok cs" "cs \<noteq> []" "cond_Type c = ConditionTypeImagesReady"
  shows "conditions_ok (condition_Set nodeClass_conditions c cs)
    \<and> condition_status_at (condition_Set nodeClass_conditions c cs) ''Ready'' = cond_Status c"
proof -
  let ?cs = "condition_Set nodeClass_conditions c cs"
  have t: "cond_Type c = ''ImagesReady''" using assms(3) by (simp add: ConditionTypeImagesReady_def)
  have agr: "root_agrees nodeClass_conditions ?cs"
    using assms(1,2) t by (intro condition_Set_agrees) (simp_all add: conditions_ok_def)
  have dis: "distinct_conditions ?cs" using assms(1,2) by (auto simp: conditions_ok_def intro: distinct_condition_Set)
  have get: "condition_Get ?cs ''ImagesReady'' = Some c" "condition_Get ?cs ''Ready'' \<noteq> None"
    using assms(1,2) t by (auto simp: Get_condition_Set conditions_ok_def)
  have "condition_status_at ?cs (ct_root nodeClass_conditions) = cond_Status c"
    using single_dependent [OF _ agr dis get(1)] by simp
  with agr dis get show ?thesis by (simp add: conditions_ok_def ConditionTypeImagesReady_def)
qed

lemma with_conditions_sel [simp]:
  "nc_conditions (with_conditions f nc) = f (conditions_For nodeClass_conditions (nc_conditions nc))"
  "st_Images (ncl_Status (with_conditions f nc)) = st_Images (ncl_Status nc)"
  "nc_conditions (with_images ims nc) = nc_conditions nc" "st_Images (ncl_Status (with_images ims nc)) = ims"
  by (simp_all add: with_conditions_def with_images_def)

lemma images_failed_ok:
  assumes "conditions_ok (nc_conditions nc)"
  shows "conditions_ok (nc_conditions (images_failed reason msg nc)) \<and> condition_status_at (nc_conditions (images_failed reason msg nc)) ''Ready'' = CondFalse"
  using condition_Set_ok [of "conditions_For nodeClass_conditions (nc_conditions nc)"] conditions_For_ok [OF assms]
  by (simp add: images_failed_def SetFalse_def)

lemma images_ready_ok:
  assumes "conditions_ok (nc_conditions nc)"
  shows "conditions_ok (SetTrue nodeClass_conditions ConditionTypeImagesReady (conditions_For nodeClass_conditions (nc_conditions nc)))
    \<and> condition_status_at (SetTrue nodeClass_conditions ConditionTypeImagesReady (conditions_For nodeClass_conditions (nc_conditions nc))) ''Ready'' = CondTrue"
  using condition_Set_ok [of "conditions_For nodeClass_conditions (nc_conditions nc)"] conditions_For_ok [OF assms]
  by (simp add: SetTrue_def)

text \<open>C28: After the image reconciler a node class is Ready exactly when its selectors resolved to at least one image; every failure makes
  it not ready. A failure that says that the images are gone also withdraws the published ones, any other failure leaves
  them as they were, and only an unexpected error is returned for backoff.\<close>

theorem images_decide_readiness:
  assumes "conditions_ok (nc_conditions nc)" "Image_Reconcile d nc s = ((after, err), nc', s')" "nd_listImages d nc s = (r, s1)"
  shows "conditions_ok (nc_conditions nc')
    \<and> condition_status_at (nc_conditions nc') ''Ready'' = (if \<exists>ims. r = Inr ims \<and> ims \<noteq> [] then CondTrue else CondFalse)
    \<and> st_Images (ncl_Status nc') = (case r of Inr ims \<Rightarrow> map published_image ims
        | Inl e \<Rightarrow> if IsImageUnavailableError e \<and> \<not> IsImageResolutionError e then [] else st_Images (ncl_Status nc))
    \<and> err = (case r of Inl e \<Rightarrow> if IsImageUnavailableError e \<or> IsImageResolutionError e then None else Some e | Inr _ \<Rightarrow> None)"
proof (cases r)
  case (Inl e)
  have "conditions_ok (nc_conditions (with_images [] nc))" using assms(1) by simp
  note ok = images_failed_ok [OF assms(1)] images_failed_ok [OF this]
  have sel: "st_Images (ncl_Status (images_failed reason msg k)) = st_Images (ncl_Status k)" for reason msg k by (simp add: images_failed_def)
  show ?thesis using assms(2,3) Inl ok sel by (auto simp: Image_Reconcile_def split: if_splits)
next
  case (Inr ims)
  show ?thesis
  proof (cases "ims = []")
    case True
    with assms Inr images_failed_ok [of "with_images [] nc"] show ?thesis by (auto simp: Image_Reconcile_def images_failed_def)
  next
    case False
    with assms Inr images_ready_ok [OF assms(1)] show ?thesis by (auto simp: Image_Reconcile_def)
  qed
qed

text \<open>A node class keeps its termination finalizer until it is being deleted and the API lists no node claim that names it; then,
  and only then, the termination controller asks for its removal.\<close>

theorem finalizer_released_when_unused:
  assumes "ContainsFinalizer nc TerminationFinalizer" "termination_Reconcile d nc s = (r, nc', s')"
  shows "\<not> ContainsFinalizer nc' TerminationFinalizer \<longleftrightarrow> om_DeletionTimestamp (ncl_Meta nc) \<noteq> None
    \<and> (\<exists>claims. nd_listClaims d s = Inr claims \<and> (\<forall>c \<in> set claims. map_option ref_Name (ncm_NodeClassRef c) \<noteq> Some (ncl_Name nc)))"
proof (cases "nd_listClaims d s")
  case (Inl err)
  with assms show ?thesis by (auto simp: termination_Reconcile_def split: if_splits)
next
  case (Inr claims)
  have gone: "\<not> ContainsFinalizer (RemoveFinalizer nc TerminationFinalizer) TerminationFinalizer"
    by (simp add: ContainsFinalizer_def RemoveFinalizer_def)
  show ?thesis
  proof (cases "om_DeletionTimestamp (ncl_Meta nc) = None \<or> (\<exists>c \<in> set claims. map_option ref_Name (ncm_NodeClassRef c) = Some (ncl_Name nc))")
    case True
    with assms Inr have "nc' = nc" by (auto simp: termination_Reconcile_def split: if_splits)
    with True Inr assms(1) show ?thesis by auto
  next
    case False
    then have del: "\<not> (om_DeletionTimestamp (ncl_Meta nc) = None \<or> \<not> ContainsFinalizer nc TerminationFinalizer)"
      and unused: "\<not> (\<exists>c \<in> set claims. map_option ref_Name (ncm_NodeClassRef c) = Some (ncl_Name nc))"
      using assms(1) by blast+
    have "nc' = RemoveFinalizer nc TerminationFinalizer"
      using assms(2) unfolding termination_Reconcile_def Inr sum.case if_not_P [OF del] if_not_P [OF unused] Let_def
      by (auto split: prod.splits option.splits)
    with False Inr gone show ?thesis by auto
  qed
qed

subsection \<open>What is published selects as what was resolved\<close>

definition provider_requirements :: "requirements set" where
  "provider_requirements = cosVariantRequirements ` {cosVariantARM64CPU, cosVariantAMD64NVIDIA, cosVariantAMD64CPU}
     \<union> {ubuntuRequirementsForArch OSArchARM64Requirement, ubuntuRequirementsForArch OSArchAMD64Requirement,
        NewRequirements [NewRequirement LabelArchStable OpIn [OSArchARM64Requirement]]}"

lemma cos_requirements_in [simp]: "cosVariantRequirements v \<in> provider_requirements"
  by (cases v) (simp_all add: provider_requirements_def)

lemma ubuntu_requirements_in [simp]: "ubuntuRequirementsForArch arch \<in> provider_requirements"
  by (simp add: provider_requirements_def ubuntuRequirementsForArch_def)

lemma id_requirements_in [simp]:
  "NewRequirements [NewRequirement LabelArchStable OpIn [OSArchAMD64Requirement]] \<in> provider_requirements"
  "NewRequirements [NewRequirement LabelArchStable OpIn [OSArchARM64Requirement]] \<in> provider_requirements"
proof -
  have "NewRequirements [NewRequirement LabelArchStable OpIn [OSArchAMD64Requirement]] = ubuntuRequirementsForArch OSArchAMD64Requirement"
    by (simp add: ubuntuRequirementsForArch_def OSArchAMD64Requirement_def OSArchARM64Requirement_def)
  then show "NewRequirements [NewRequirement LabelArchStable OpIn [OSArchAMD64Requirement]] \<in> provider_requirements" by simp
qed (simp add: provider_requirements_def)

lemma selected_requirements: "im \<in> set (selected_images sel) \<Longrightarrow> fi_Requirements im \<in> provider_requirements"
  by (auto simp: selected_images_def List.map_filter_def split: option.splits)

lemma cos_ResolveImages_requirements:
  "cos_ResolveImages d v s = Some (Inr ims, s') \<Longrightarrow> im \<in> set ims \<Longrightarrow> fi_Requirements im \<in> provider_requirements"
  by (auto simp: cos_ResolveImages_def resolveLatestCOSImages_def cos_resolveImages_def selected_requirements
      simp del: cosVariantRequirements.simps
      split: option.splits prod.splits sum.splits if_splits)

lemma ubuntu_arches_requirements:
  "ubuntu_arches release v images arches = Inr ims \<Longrightarrow> im \<in> set ims \<Longrightarrow> fi_Requirements im \<in> provider_requirements"
  by (induction arches arbitrary: ims) (auto split: option.splits sum.splits)

lemma available_loop_sub: "available_loop d family ims s = (Inr res, s') \<Longrightarrow> set res \<subseteq> set ims"
proof (induction ims arbitrary: s res s')
  case (Cons i ims)
  then show ?case by (fastforce split: prod.splits sum.splits option.splits if_splits)
qed simp

lemma ensureImagesAvailable_sub: "ensureImagesAvailable d family v ims s = (Inr res, s') \<Longrightarrow> set res \<subseteq> set ims"
  by (auto simp: ensureImagesAvailable_def split: prod.splits sum.splits if_splits dest: available_loop_sub)

lemma resolve_family_requirements:
  assumes "resolve_family d family err v s = Some (Inr res, s')" "im \<in> set res"
  shows "fi_Requirements im \<in> provider_requirements"
proof -
  obtain provider ims s1 where p: "ResolveImages d provider v s = Some (Inr ims, s1)" and e: "ensureImagesAvailable d family v ims s1 = (Inr res, s')"
    using assms(1) by (auto simp: resolve_family_def split: option.splits sum.splits)
  have "im \<in> set ims" using ensureImagesAvailable_sub [OF e] assms(2) by blast
  with p show ?thesis
    by (cases provider) (auto simp: ubuntu_ResolveImages_def split: if_splits option.splits sum.splits
        intro: cos_ResolveImages_requirements ubuntu_arches_requirements)
qed

lemma resolve_terms_requirements:
  "resolve_terms d ts s = Some (Inr res, s') \<Longrightarrow> im \<in> set res \<Longrightarrow> fi_Requirements im \<in> provider_requirements"
proof (induction ts arbitrary: s res s')
  case (Cons t ts)
  obtain imgs s1 where t: "resolveImageFromTerm d t s = Some (Inr imgs, s1)"
    using Cons.prems(1) by (auto split: option.splits sum.splits)
  obtain rest where r: "resolve_terms d ts s1 = Some (Inr rest, s')" "res = imgs @ rest"
    using Cons.prems(1) t by (auto split: option.splits sum.splits)
  consider "resolveIDTerm d t s = (Inr imgs, s1)" | family err v s2 where "resolve_family d family err v s2 = Some (Inr imgs, s1)"
    using t by (auto simp: resolveImageFromTerm_def resolveAliasTerm_def resolveFamilyTerm_def split: if_splits option.splits prod.splits sum.splits)
  then have "fi_Requirements im \<in> provider_requirements" if "im \<in> set imgs"
    using that resolve_family_requirements by cases (auto simp: resolveIDTerm_def simp del: NewRequirement_In split: prod.splits sum.splits option.splits if_splits)
  with Cons.IH [OF r(1)] Cons.prems(2) r(2) show ?case by auto
qed simp

lemma reqs_compatible_cong: "map_of rs = map_of rs' \<Longrightarrow> reqs_compatible wk rs qs = reqs_compatible wk rs' qs"
  by (simp add: reqs_compatible_def reqs_intersects_def map_has_def map_get_def)

text \<open>The requirements survive the way through the node selector terms of the status.\<close>

definition through_status :: "requirements \<Rightarrow> requirements" where
  "through_status rs = image_reqs (published_image \<lparr>fi_SourceImage = [], fi_Requirements = rs\<rparr>)"

definition survives :: "requirements \<Rightarrow> bool" where
  "survives rs \<longleftrightarrow> distinct (map fst rs) \<and> distinct (map fst (through_status rs)) \<and> set (through_status rs) = set rs"

lemma provider_requirements_survive: "rs \<in> provider_requirements \<Longrightarrow> survives rs"
proof -
  have "survives (cosVariantRequirements cosVariantARM64CPU)" "survives (cosVariantRequirements cosVariantAMD64NVIDIA)"
    "survives (cosVariantRequirements cosVariantAMD64CPU)" "survives (ubuntuRequirementsForArch OSArchARM64Requirement)"
    "survives (ubuntuRequirementsForArch OSArchAMD64Requirement)"
    "survives (NewRequirements [NewRequirement LabelArchStable OpIn [OSArchARM64Requirement]])" by code_simp+
  then show "rs \<in> provider_requirements \<Longrightarrow> survives rs" unfolding provider_requirements_def by blast
qed

lemma published_get:
  assumes "fi_Requirements im \<in> provider_requirements"
  shows "map_of (image_reqs (published_image im)) = map_of (fi_Requirements im)"
proof -
  have "image_reqs (published_image im) = through_status (fi_Requirements im)"
    by (simp add: through_status_def image_reqs_def published_image_def)
  with provider_requirements_survive [OF assms] show ?thesis by (simp add: survives_def map_of_inject_set)
qed

lemma find_map: "List.find P (map f xs) = map_option f (List.find (\<lambda>x. P (f x)) xs)"
  by (induction xs) auto

text \<open>C29: For every instance type, the image that a launch finds among the images published in the status of the node class is the
  one that the resolved images with their requirements select: writing the requirements as sorted node selector terms
  and reading them back loses nothing.\<close>

theorem published_images_select:
  assumes "resolve_terms di terms si = Some (Inr images, si')" "images \<noteq> []"
    and "nd_listImages d nc s = (Inr images, s1)" "Image_Reconcile d nc s = (r, nc', s')"
  shows "FindImage wk (st_Images (ncl_Status nc')) reqs
    = map_option published_image (List.find (\<lambda>im. reqs_compatible wk (fi_Requirements im) reqs) images)"
proof -
  have "st_Images (ncl_Status nc') = map published_image images" using assms(2-4) by (auto simp: Image_Reconcile_def)
  moreover have "reqs_compatible wk (image_reqs (published_image im)) reqs = reqs_compatible wk (fi_Requirements im) reqs" if "im \<in> set images" for im
    by (rule reqs_compatible_cong) (rule published_get [OF resolve_terms_requirements [OF assms(1) that]])
  ultimately show ?thesis by (simp add: FindImage_def find_map) (metis (no_types, lifting) find_cong)
qed

definition example_ncc :: "unit ncc_deps" where
  "example_ncc = \<lparr>
    nd_listImages = (\<lambda>nc s. (case ImageProvider_List example_image_deps example_image_class (newCache imageCacheTTL) () of
      Some (r, _, s) \<Rightarrow> (r, s) | None \<Rightarrow> (Inr [], s))),
    nd_GetClusterConfig = (\<lambda>s. (Inr (example_cluster ''c''), s)), nd_GetFreeIPCounts = (\<lambda>_ _ s. (([], None), s)),
    nd_patch = (\<lambda>_ s. (None, s)), nd_patchStatus = (\<lambda>_ s. (None, s)), nd_update = (\<lambda>_ s. (None, s)),
    nd_listClaims = (\<lambda>_. Inr []), nd_hash = (\<lambda>_. ''1''), nd_text = (\<lambda>_. ''error'')\<rparr>"

definition example_resolved :: "fam_image list" where
  "example_resolved = (case nd_listImages example_ncc example_image_class () of (Inr ims, _) \<Rightarrow> ims | _ \<Rightarrow> [])"

theorem images_decide_readiness_witness:
  "conditions_ok (nc_conditions (fst (snd (Image_Reconcile example_ncc example_image_class ()))))
   \<and> condition_status_at (nc_conditions (fst (snd (Image_Reconcile example_ncc example_image_class ())))) ''Ready'' = CondTrue"
proof -
  obtain after err nc' where r: "Image_Reconcile example_ncc example_image_class () = ((after, err), nc', ())" by (metis prod.exhaust unit.exhaust)
  have ok: "conditions_ok (nc_conditions example_image_class)" by code_simp
  have "(case nd_listImages example_ncc example_image_class () of (Inr ims, _) \<Rightarrow> ims \<noteq> [] | _ \<Rightarrow> False)" by code_simp
  then obtain ims s1 where l: "nd_listImages example_ncc example_image_class () = (Inr ims, s1)" "ims \<noteq> []" by (auto split: prod.splits sum.splits)
  from images_decide_readiness [OF ok r l(1)] l(2) r show ?thesis by simp
qed

theorem finalizer_released_when_unused_witness:
  "\<not> ContainsFinalizer (fst (snd (termination_Reconcile example_ncc
     (AddFinalizer (example_image_class\<lparr>ncl_Meta := (ncl_Meta example_image_class)\<lparr>om_DeletionTimestamp := Some 7\<rparr>\<rparr>) TerminationFinalizer) ()))) TerminationFinalizer"
proof -
  let ?nc = "AddFinalizer (example_image_class\<lparr>ncl_Meta := (ncl_Meta example_image_class)\<lparr>om_DeletionTimestamp := Some 7\<rparr>\<rparr>) TerminationFinalizer"
  obtain r nc' s' where r: "termination_Reconcile example_ncc ?nc () = (r, nc', s')" by (metis prod_cases3)
  have f: "ContainsFinalizer ?nc TerminationFinalizer" "om_DeletionTimestamp (ncl_Meta ?nc) \<noteq> None" by code_simp+
  have "nd_listClaims example_ncc () = Inr []" by (simp add: example_ncc_def)
  with finalizer_released_when_unused [OF f(1) r] f(2) r show ?thesis by simp
qed

theorem published_images_select_witness:
  "FindImage (\<lambda>_. True) (st_Images (ncl_Status (fst (snd (Image_Reconcile example_ncc example_image_class ())))))
     (NewRequirements [NewRequirement LabelArchStable OpIn [OSArchARM64Requirement]]) = Some (published_image (last example_resolved))"
proof -
  let ?arm = "NewRequirements [NewRequirement LabelArchStable OpIn [OSArchARM64Requirement]]"
  have "(case resolve_terms example_image_deps (ImageSelectorTerms (ncl_Spec example_image_class)) () of
      Some (Inr ims, _) \<Rightarrow> ims = example_resolved | _ \<Rightarrow> False)" by code_simp
  then obtain si where t: "resolve_terms example_image_deps (ImageSelectorTerms (ncl_Spec example_image_class)) () = Some (Inr example_resolved, si)"
    by (auto split: option.splits prod.splits sum.splits)
  have ne: "example_resolved \<noteq> []" by code_simp
  obtain s1 where l: "nd_listImages example_ncc example_image_class () = (Inr example_resolved, s1)"
    using ne by (auto simp: example_resolved_def split: prod.splits sum.splits)
  obtain r nc' s' where r: "Image_Reconcile example_ncc example_image_class () = (r, nc', s')" by (metis prod_cases3)
  have "List.find (\<lambda>im. reqs_compatible (\<lambda>_. True) (fi_Requirements im) ?arm) example_resolved = Some (last example_resolved)" by code_simp
  with published_images_select [OF t ne l r, of "\<lambda>_. True" ?arm] r show ?thesis by simp
qed

end
