(* ===== verification/Csr.thy ===== *)
theory Csr
  imports Go_Errors
begin

text \<open>
  The controller that approves certificate signing requests, \<^verbatim>\<open>pkg/controllers/csr/csr.go\<close>. The Kubernetes API is the record
  \<open>csr_deps\<close> over an outside state: the list of requests, \<^verbatim>\<open>UpdateApproval\<close> and the clock. Logging is left out.
\<close>

record csr_condition =
  cc_Type :: string
  cc_Status :: string
  cc_Reason :: string
  cc_Message :: string
  cc_LastUpdateTime :: instant

record signing_request =
  csr_Name :: string
  csr_SignerName :: string
  csr_Usages :: "string list"
  csr_Username :: string
  csr_Conditions :: "csr_condition list"

record 's csr_deps =
  cd_list :: "'s \<Rightarrow> go_error + signing_request list"
  cd_updateApproval :: "signing_request \<Rightarrow> 's \<Rightarrow> go_error option \<times> 's"
  cd_now :: "'s \<Rightarrow> instant"

definition KubeletClientSignerName :: "string list" where
  "KubeletClientSignerName = [''kubernetes.io/kube-apiserver-client-kubelet'', ''kubernetes.io/kubelet-serving'']"

definition CertificateApproved :: string where [go_defs]: "CertificateApproved = ''Approved''"
definition CertificateDenied :: string where [go_defs]: "CertificateDenied = ''Denied''"

definition isApprovedOrDenied :: "signing_request \<Rightarrow> bool" where
  "isApprovedOrDenied csr \<longleftrightarrow> list_ex (\<lambda>c. cc_Type c = CertificateApproved \<or> cc_Type c = CertificateDenied) (csr_Conditions csr)"

definition bootstrap_usages :: "string list" where
  "bootstrap_usages = [''digital signature'', ''key encipherment'', ''client auth'']"

definition approved :: "instant \<Rightarrow> signing_request \<Rightarrow> signing_request" where
  "approved now csr = csr\<lparr>csr_Conditions := csr_Conditions csr @ [\<lparr>cc_Type = CertificateApproved, cc_Status = ''True'',
     cc_Reason = ''KarpenterAutoApprover'', cc_Message = ''Automatically approved by Karpenter CSR controller'', cc_LastUpdateTime = now\<rparr>]\<rparr>"

fun csr_loop :: "'s csr_deps \<Rightarrow> signing_request list \<Rightarrow> 's \<Rightarrow> 's" where
  "csr_loop d [] s = s"
| "csr_loop d (csr # csrs) s = (if isApprovedOrDenied csr then csr_loop d csrs s
     else if csr_SignerName csr \<notin> set KubeletClientSignerName then csr_loop d csrs s
     else if csr_Usages csr \<noteq> bootstrap_usages then csr_loop d csrs s
     else (case cd_updateApproval d (approved (cd_now d s) csr) s of (err, s) \<Rightarrow> csr_loop d csrs s))"

text \<open>The time after which the controller runs again, and its error.\<close>

definition csr_Reconcile :: "'s csr_deps \<Rightarrow> 's \<Rightarrow> (duration \<times> go_error option) \<times> 's" where
  "csr_Reconcile d s = (case cd_list d s of
      Inl err \<Rightarrow> ((0, Some err), s)
    | Inr csrs \<Rightarrow> ((30 * 10 ^ 9, None), csr_loop d csrs s))"

subsection \<open>Which requests are approved\<close>

text \<open>The API server as the store of the requests, with \<^verbatim>\<open>UpdateApproval\<close> replacing the request of the same name, or
  refusing it (\<open>refuse\<close>) as it does on a conflict.\<close>

definition server :: "(signing_request \<Rightarrow> bool) \<Rightarrow> instant \<Rightarrow> signing_request list csr_deps" where
  "server refuse now = \<lparr>cd_list = Inr,
     cd_updateApproval = (\<lambda>csr store. if refuse csr then (Some (StatusError ''Conflict''), store)
        else (None, map (\<lambda>x. if csr_Name x = csr_Name csr then csr else x) store)), cd_now = (\<lambda>_. now)\<rparr>"

definition kubelet_request :: "signing_request \<Rightarrow> bool" where
  "kubelet_request csr \<longleftrightarrow> csr_SignerName csr \<in> set KubeletClientSignerName \<and> csr_Usages csr = bootstrap_usages"

definition settle :: "(signing_request \<Rightarrow> bool) \<Rightarrow> instant \<Rightarrow> signing_request \<Rightarrow> signing_request" where
  "settle refuse now csr = (if \<not> isApprovedOrDenied csr \<and> kubelet_request csr \<and> \<not> refuse (approved now csr) then approved now csr else csr)"

lemma approved_done [simp]: "isApprovedOrDenied (approved now csr)" "csr_Name (approved now csr) = csr_Name csr"
  by (simp_all add: isApprovedOrDenied_def approved_def)

lemma csr_loop_server:
  "distinct (map csr_Name (front @ csrs)) \<Longrightarrow> csr_loop (server refuse now) csrs (front @ csrs) = front @ map (settle refuse now) csrs"
proof (induction csrs arbitrary: front)
  case (Cons csr csrs)
  have other: "map (\<lambda>x. if csr_Name x = csr_Name csr then y else x) xs = xs" if "csr_Name csr \<notin> csr_Name ` set xs" for y :: signing_request and xs
    using that by (induction xs) auto
  have "cd_updateApproval (server refuse now) (approved now csr) (front @ csr # csrs)
    = (if refuse (approved now csr) then Some (StatusError ''Conflict'') else None,
       if refuse (approved now csr) then front @ csr # csrs else front @ approved now csr # csrs)"
    using Cons.prems other [of front] other [of csrs] by (simp add: server_def)
  moreover have "csr_loop (server refuse now) csrs ((front @ [x]) @ csrs) = (front @ [x]) @ map (settle refuse now) csrs" if "csr_Name x = csr_Name csr" for x
    using Cons.prems that by (intro Cons.IH) auto
  moreover have "cd_now (server refuse now) st = now" for st by (simp add: server_def)
  ultimately show ?case by (auto simp: settle_def kubelet_request_def)
qed simp

text \<open>C35: One pass of the controller approves every pending request of a kubelet signer with the usages of a bootstrap certificate,
  except those whose update the API server refuses, and changes no other request; a refusal does not stop the pass. After a pass
  in which every update was accepted a further pass changes nothing.\<close>

theorem csr_approvals_exact:
  assumes "distinct (map csr_Name store)"
  shows "csr_Reconcile (server refuse now) store = ((30 * 10 ^ 9, None),
      map (\<lambda>csr. if \<not> isApprovedOrDenied csr \<and> csr_SignerName csr \<in> set KubeletClientSignerName \<and> csr_Usages csr = bootstrap_usages
        \<and> \<not> refuse (approved now csr) then approved now csr else csr) store)
    \<and> snd (csr_Reconcile (server refuse' later) (snd (csr_Reconcile (server (\<lambda>_. False) now) store)))
      = snd (csr_Reconcile (server (\<lambda>_. False) now) store)"
proof -
  have run: "csr_Reconcile (server r n) xs = ((30 * 10 ^ 9, None), map (settle r n) xs)" if "distinct (map csr_Name xs)" for r n xs
    using csr_loop_server [of "[]" xs r n] that by (simp add: csr_Reconcile_def server_def)
  have "csr_Name (settle r n x) = csr_Name x" for r n x by (simp add: settle_def)
  then have "distinct (map csr_Name (map (settle (\<lambda>_. False) now) store))" using assms by (simp add: o_def)
  note twice = run [OF this, of refuse' later]
  have "settle refuse' later (settle (\<lambda>_. False) now x) = settle (\<lambda>_. False) now x" for x
    by (auto simp: settle_def)
  then show ?thesis using twice run [OF assms] by (simp add: settle_def kubelet_request_def conj_assoc cong: if_cong)
qed

text \<open>A request for a serving certificate, whose usages have server authentication, is never approved, although the signer
  \<^verbatim>\<open>kubernetes.io/kubelet-serving\<close> is one of the signers the controller accepts.\<close>

theorem serving_requests_ignored:
  "''server auth'' \<in> set (csr_Usages csr) \<Longrightarrow> csr_loop d (csr # csrs) s = csr_loop d csrs s"
  by (auto simp: bootstrap_usages_def)

definition example_request :: "string \<Rightarrow> string list \<Rightarrow> signing_request" where
  "example_request name usages = \<lparr>csr_Name = name, csr_SignerName = ''kubernetes.io/kubelet-serving'', csr_Usages = usages, csr_Username = [], csr_Conditions = []\<rparr>"

theorem csr_approvals_exact_witness:
  "csr_Reconcile (server (\<lambda>_. False) 5) [example_request ''a'' bootstrap_usages, example_request ''b'' []]
    = ((30 * 10 ^ 9, None), [approved 5 (example_request ''a'' bootstrap_usages), example_request ''b'' []])"
  using csr_approvals_exact [of "[example_request ''a'' bootstrap_usages, example_request ''b'' []]" "\<lambda>_. False" 5]
  by (simp add: example_request_def isApprovedOrDenied_def KubeletClientSignerName_def bootstrap_usages_def)

theorem serving_requests_ignored_witness:
  "csr_loop (server (\<lambda>_. False) 5) [example_request ''a'' [''key encipherment'', ''digital signature'', ''server auth'']] [] = []"
  using serving_requests_ignored [of "example_request ''a'' [''key encipherment'', ''digital signature'', ''server auth'']" "server (\<lambda>_. False) 5" "[]" "[]"]
  by (simp add: example_request_def)

end
