(* ===== verification/Go_Float.thy ===== *)
theory Go_Float
  imports Go_Strings Complex_Main
begin

text \<open>
  \<^verbatim>\<open>float64\<close> arithmetic. A finite double is the rational number it stands for, and every operation rounds its exact result to the
  nearest number with 53 significant bits, ties to even (\<open>fl\<close>). Infinities, NaN and subnormal numbers are left out: the code multiplies
  sizes and prices by percentages and stays far from both ends of the range. Each operation rounds on its own, as Go does on amd64, where it never
  fuses a multiplication with an addition.
\<close>

function bit_length :: "int \<Rightarrow> int" where
  "bit_length n = (if n \<le> 0 then 0 else 1 + bit_length (n div 2))"
  by auto
termination by (relation "measure nat") auto

declare bit_length.simps [simp del]

definition float_exp :: "rat \<Rightarrow> int" where
  "float_exp x = (case quotient_of x of (n, d) \<Rightarrow>
     let e = bit_length n - bit_length d - 53 in if x < 2 ^ 53 * 2 powi e then e else e + 1)"

definition round_even :: "rat \<Rightarrow> int" where
  "round_even q = (let f = \<lfloor>q\<rfloor>; r = q - of_int f in
     if r < 1 / 2 then f else if r > 1 / 2 then f + 1 else if even f then f else f + 1)"

definition fl :: "rat \<Rightarrow> rat" where
  "fl x = (if x = 0 then 0 else if 0 < x then (let e = float_exp x in of_int (round_even (x / 2 powi e)) * 2 powi e)
     else (let e = float_exp (- x) in - (of_int (round_even (- x / 2 powi e)) * 2 powi e)))"

text \<open>\<^verbatim>\<open>float64(i)\<close>, \<^verbatim>\<open>a * b\<close>, \<^verbatim>\<open>a + b\<close>, \<^verbatim>\<open>int64(x)\<close>, which truncates, and \<^verbatim>\<open>math.Round\<close>, which rounds halves away from zero.\<close>

definition float_of_int :: "int \<Rightarrow> rat" where "float_of_int i = fl (of_int i)"
definition fmul :: "rat \<Rightarrow> rat \<Rightarrow> rat" where "fmul a b = fl (a * b)"
definition fadd :: "rat \<Rightarrow> rat \<Rightarrow> rat" where "fadd a b = fl (a + b)"
definition fdiv :: "rat \<Rightarrow> rat \<Rightarrow> rat" where "fdiv a b = fl (a / b)"
definition float_to_int :: "rat \<Rightarrow> int" where "float_to_int x = (if 0 \<le> x then \<lfloor>x\<rfloor> else \<lceil>x\<rceil>)"
definition math_Round :: "rat \<Rightarrow> rat" where
  "math_Round x = (if 0 \<le> x then of_int \<lfloor>x + 1 / 2\<rfloor> else of_int \<lceil>x - 1 / 2\<rceil>)"

text \<open>\<^verbatim>\<open>strconv.ParseFloat(s, 64)\<close> on decimal texts: a sign, digits with at most one point, an exponent. The spellings of infinities, NaN
  and hexadecimal numbers, which Go accepts as well, have no value here.\<close>

definition parse_exponent :: "string \<Rightarrow> int option" where
  "parse_exponent s = (case s of [] \<Rightarrow> Some 0
     | c # r \<Rightarrow> if c \<noteq> CHR ''e'' \<and> c \<noteq> CHR ''E'' then None
         else let ds = (if has_prefix r ''-'' \<or> has_prefix r ''+'' then drop 1 r else r) in
           if \<not> is_digits ds then None else Some (if has_prefix r ''-'' then - int (digits_val ds) else int (digits_val ds)))"

definition ParseFloat :: "string \<Rightarrow> rat option" where
  "ParseFloat s = (let
      r = (if has_prefix s ''-'' \<or> has_prefix s ''+'' then drop 1 s else s);
      ip = takeWhile is_digit r; r1 = dropWhile is_digit r;
      fp = (if has_prefix r1 ''.'' then takeWhile is_digit (drop 1 r1) else []);
      r2 = (if has_prefix r1 ''.'' then dropWhile is_digit (drop 1 r1) else r1)
    in if ip @ fp = [] then None else (case parse_exponent r2 of None \<Rightarrow> None
      | Some e \<Rightarrow> (let v = fl (of_nat (digits_val (ip @ fp)) * 10 powi (e - int (length fp))) in
          Some (if has_prefix s ''-'' then - v else v))))"

subsection \<open>Rounding\<close>

lemma bit_length_pos: "0 < n \<Longrightarrow> 0 < bit_length n"
proof (induction n rule: bit_length.induct)
  case (1 n)
  have "0 \<le> bit_length (n div 2)"
  proof (cases "n div 2 \<le> 0")
    case True
    then show ?thesis by (simp add: bit_length.simps [of "n div 2"])
  next
    case False
    then show ?thesis using 1 by auto
  qed
  then show ?case using 1 by (simp add: bit_length.simps [of n])
qed

lemma bit_length_bounds: "0 < n \<Longrightarrow> (2 :: rat) powi (bit_length n - 1) \<le> of_int n \<and> of_int n < (2 :: rat) powi bit_length n"
proof (induction n rule: bit_length.induct)
  case (1 n)
  show ?case
  proof (cases "n = 1")
    case True
    then show ?thesis by (simp add: bit_length.simps)
  next
    case False
    with 1 have n2: "0 < n div 2" by simp
    let ?b = "bit_length (n div 2)"
    have b: "bit_length n = 1 + ?b" using 1(2) by (simp add: bit_length.simps [of n])
    have IH: "(2 :: rat) powi (?b - 1) \<le> of_int (n div 2)" "of_int (n div 2) < (2 :: rat) powi ?b" using 1 n2 by auto
    have "0 < ?b" by (rule bit_length_pos [OF n2])
    then obtain k where k: "?b = int k" "0 < k" by (metis zero_less_imp_eq_int)
    have lo: "2 ^ (k - 1) \<le> n div 2" and hi: "n div 2 < 2 ^ k"
    proof -
      have "?b - 1 = int (k - 1)" using k by auto
      then have "(2 :: rat) powi (?b - 1) = of_int (2 ^ (k - 1))" by (simp only: power_int_of_nat of_int_power of_int_numeral)
      then have "(of_int (2 ^ (k - 1)) :: rat) \<le> of_int (n div 2)" using IH(1) by simp
      then show "2 ^ (k - 1) \<le> n div 2" by (simp only: of_int_le_iff)
      have "(of_int (n div 2) :: rat) < of_int (2 ^ k)" using IH(2) k by (simp add: power_int_def)
      then show "n div 2 < 2 ^ k" by (simp only: of_int_less_iff)
    qed
    have "2 ^ k \<le> n" using lo k(2) by (cases k) auto
    moreover have "n < 2 * 2 ^ k" using hi by linarith
    ultimately have "(of_int (2 ^ k) :: rat) \<le> of_int n" "(of_int n :: rat) < of_int (2 * 2 ^ k)" by (simp_all only: of_int_le_iff of_int_less_iff)
    then show ?thesis using b k by (simp add: power_int_def nat_add_distrib)
  qed
qed

lemma float_exp_bounds:
  assumes "0 < x"
  shows "2 ^ 52 * 2 powi float_exp x \<le> x \<and> x < 2 ^ 53 * 2 powi float_exp x"
proof -
  obtain n d where q: "quotient_of x = (n, d)" by (cases "quotient_of x")
  have d: "0 < d" and x: "x = of_int n / of_int d" using quotient_of_denom_pos [OF q] quotient_of_div [OF q] by auto
  with assms have n: "0 < n" by (simp add: zero_less_divide_iff)
  let ?a = "bit_length n" and ?b = "bit_length d"
  let ?e = "?a - ?b - 53"
  have nb: "(2 :: rat) powi (?a - 1) \<le> of_int n" "of_int n < (2 :: rat) powi ?a"
    and db: "(2 :: rat) powi (?b - 1) \<le> of_int d" "of_int d < (2 :: rat) powi ?b" using bit_length_bounds [OF n] bit_length_bounds [OF d] by auto
  have pos: "(0 :: rat) < 2 powi k" for k by simp
  have "x * 2 powi ?b > of_int n" using db(2) d n by (simp add: x field_simps)
  then have "2 powi (?a - 1) < x * 2 powi ?b" using nb(1) by linarith
  moreover have "(2 :: rat) powi (?a - 1) = 2 ^ 52 * 2 powi ?e * 2 powi ?b" by (simp add: power_int_diff power_int_add field_simps)
  ultimately have lo: "2 ^ 52 * 2 powi ?e < x" using pos [of ?b] by simp
  have "x * 2 powi (?b - 1) \<le> of_int n" using db(1) d n by (simp add: x field_simps)
  then have "x * 2 powi (?b - 1) < 2 powi ?a" using nb(2) by linarith
  moreover have "(2 :: rat) powi ?a = 2 ^ 54 * 2 powi ?e * 2 powi (?b - 1)" by (simp add: power_int_diff power_int_add field_simps)
  ultimately have hi: "x < 2 ^ 54 * 2 powi ?e" using pos [of "?b - 1"] by simp
  show ?thesis
  proof (cases "x < 2 ^ 53 * 2 powi ?e")
    case True
    with lo q show ?thesis by (simp add: float_exp_def Let_def)
  next
    case False
    then have "float_exp x = ?e + 1" using q by (simp add: float_exp_def Let_def)
    moreover have "(2 :: rat) powi (?e + 1) = 2 * 2 powi ?e" by (subst power_int_add) simp_all
    ultimately show ?thesis using False hi by (simp add: not_less)
  qed
qed

lemma round_even_error: "\<bar>of_int (round_even q) - q\<bar> \<le> 1 / 2"
  unfolding round_even_def Let_def using floor_correct [of q] by (auto simp: abs_le_iff)

lemma round_even_int [simp]: "round_even (of_int i) = i"
  by (simp add: round_even_def)

lemma round_even_mono: "q \<le> r \<Longrightarrow> round_even q \<le> round_even r"
proof -
  assume le: "q \<le> r"
  then have f: "\<lfloor>q\<rfloor> \<le> \<lfloor>r\<rfloor>" by (rule floor_mono)
  show ?thesis
  proof (cases "\<lfloor>q\<rfloor> = \<lfloor>r\<rfloor>")
    case True
    with le show ?thesis by (auto simp: round_even_def Let_def)
  next
    case False
    with f show ?thesis by (auto simp: round_even_def Let_def)
  qed
qed

lemma fl_pos: "0 < x \<Longrightarrow> fl x = of_int (round_even (x / 2 powi float_exp x)) * 2 powi float_exp x"
  by (simp add: fl_def Let_def)

lemma fl_0 [simp]: "fl 0 = 0"
  by (simp add: fl_def)

text \<open>The relative error of one operation is at most half a unit in the last place.\<close>

lemma fl_error: "0 \<le> x \<Longrightarrow> \<bar>fl x - x\<bar> \<le> x / 2 ^ 53"
proof (cases "x = 0")
  case False
  assume "0 \<le> x"
  with False have x: "0 < x" by simp
  let ?u = "2 powi float_exp x :: rat"
  have u: "0 < ?u" by simp
  have "fl x - x = (of_int (round_even (x / ?u)) - x / ?u) * ?u" using u by (simp add: fl_pos [OF x] left_diff_distrib)
  then have "\<bar>fl x - x\<bar> = \<bar>of_int (round_even (x / ?u)) - x / ?u\<bar> * ?u" using u by (simp add: abs_mult)
  also have "\<dots> \<le> 1 / 2 * ?u" using u by (intro mult_right_mono round_even_error) simp
  also have "\<dots> \<le> x / 2 ^ 53" using float_exp_bounds [OF x] by simp
  finally show ?thesis .
qed simp

lemma fl_nonneg: "0 \<le> x \<Longrightarrow> 0 \<le> fl x"
proof -
  assume "0 \<le> x"
  have "\<bar>fl x - x\<bar> \<le> x / 2 ^ 53" by (rule fl_error) fact
  moreover have "x / 2 ^ 53 \<le> x" using \<open>0 \<le> x\<close> by simp
  ultimately show ?thesis by linarith
qed

lemma powi_le: "i \<le> j \<Longrightarrow> (2 :: rat) powi i \<le> 2 powi j"
  by (intro power_int_increasing) auto

lemma powi_step: "i < j \<Longrightarrow> 2 * (2 :: rat) powi i \<le> 2 powi j"
  using powi_le [of "i + 1" j] by (simp add: power_int_add)

text \<open>Numbers with few bits are not rounded.\<close>

lemma fl_dyadic: "0 \<le> i \<Longrightarrow> i < 2 ^ 53 \<Longrightarrow> fl (of_int i / 2 ^ j) = of_int i / 2 ^ j"
proof (cases "i = 0")
  case False
  assume i: "0 \<le> i" "i < 2 ^ 53"
  let ?x = "of_int i / 2 ^ j :: rat"
  have x: "0 < ?x" using False i by simp
  let ?e = "float_exp ?x"
  have "\<not> - int j < ?e"
  proof
    assume "- int j < ?e"
    from powi_step [OF this] have "2 * inverse (2 ^ j) \<le> (2 :: rat) powi ?e" by (simp add: power_int_minus)
    then have "2 ^ 53 * inverse (2 ^ j) \<le> ?x" using float_exp_bounds [OF x] by simp
    then have "(of_int (2 ^ 53) :: rat) \<le> of_int i" by (simp add: field_simps)
    then show False using i(2) by (simp only: of_int_le_iff)
  qed
  then have "nat (- ?e) = nat (- ?e) - j + j" "?e \<le> 0" by auto
  then obtain k where k: "nat (- ?e) = k + j" by blast
  have "(2 :: rat) powi ?e = inverse (2 ^ nat (- ?e))" using \<open>?e \<le> 0\<close> by (auto simp: power_int_def power_one_over inverse_eq_divide)
  then have "?x / 2 powi ?e = of_int (i * 2 ^ k)" unfolding k by (simp add: power_add field_simps)
  then have "of_int (round_even (?x / 2 powi ?e)) = ?x / 2 powi ?e" by (simp only: round_even_int)
  then show ?thesis by (simp add: fl_pos [OF x])
qed simp

lemma fl_int: "0 \<le> i \<Longrightarrow> i < 2 ^ 53 \<Longrightarrow> fl (of_int i) = of_int i"
  using fl_dyadic [of i 0] by simp

lemma fl_range:
  assumes "0 < x"
  shows "2 ^ 52 * 2 powi float_exp x \<le> fl x \<and> fl x \<le> 2 ^ 53 * 2 powi float_exp x"
proof -
  let ?u = "2 powi float_exp x :: rat"
  have u: "0 < ?u" by simp
  have "of_int (2 ^ 52) \<le> x / ?u" "x / ?u \<le> of_int (2 ^ 53)" using float_exp_bounds [OF assms] u by (simp_all add: field_simps)
  then have "round_even (of_int (2 ^ 52)) \<le> round_even (x / ?u)" "round_even (x / ?u) \<le> round_even (of_int (2 ^ 53))"
    by (blast intro: round_even_mono)+
  then have "2 ^ 52 \<le> round_even (x / ?u)" "round_even (x / ?u) \<le> 2 ^ 53" unfolding round_even_int .
  then have "(of_int (2 ^ 52) :: rat) \<le> of_int (round_even (x / ?u))" "of_int (round_even (x / ?u)) \<le> (of_int (2 ^ 53) :: rat)"
    by (simp_all only: of_int_le_iff)
  then show ?thesis using u by (simp add: fl_pos [OF assms])
qed

lemma fl_mono: "0 \<le> x \<Longrightarrow> x \<le> y \<Longrightarrow> fl x \<le> fl y"
proof (cases "x = 0")
  case True
  assume "x \<le> y"
  with True fl_nonneg [of y] show ?thesis by simp
next
  case False
  assume "0 \<le> x" and xy: "x \<le> y"
  with False have x: "0 < x" and y: "0 < y" by auto
  have "\<not> float_exp y < float_exp x"
    using powi_step [of "float_exp y" "float_exp x"] float_exp_bounds [OF x] float_exp_bounds [OF y] xy by auto
  then consider "float_exp x = float_exp y" | "float_exp x < float_exp y" by linarith
  then show ?thesis
  proof cases
    case 1
    have "round_even (x / 2 powi float_exp x) \<le> round_even (y / 2 powi float_exp x)"
      using xy by (intro round_even_mono divide_right_mono) simp_all
    with 1 show ?thesis by (simp add: fl_pos [OF x] fl_pos [OF y])
  next
    case 2
    from powi_step [OF this] have "2 ^ 53 * 2 powi float_exp x \<le> (2 ^ 52 * 2 powi float_exp y :: rat)" by simp
    with fl_range [OF x] fl_range [OF y] show ?thesis by linarith
  qed
qed

subsection \<open>Percentages of integers\<close>

text \<open>\<^verbatim>\<open>int64(float64(n) * c)\<close> for a decimal constant \<^verbatim>\<open>c = a / b\<close>.\<close>

definition percent :: "int \<Rightarrow> int \<Rightarrow> int \<Rightarrow> int" where
  "percent a b n = float_to_int (fmul (float_of_int n) (fl (of_int a / of_int b)))"

lemma percent_floor:
  assumes "0 \<le> n" "n < 2 ^ 53" "0 \<le> a" "0 < b"
  shows "percent a b n = \<lfloor>fl (of_int n * fl (of_int a / of_int b))\<rfloor>" "0 \<le> of_int n * fl (of_int a / of_int b)"
proof -
  show "0 \<le> of_int n * fl (of_int a / of_int b)" using assms by (intro mult_nonneg_nonneg fl_nonneg) simp_all
  from fl_nonneg [OF this] show "percent a b n = \<lfloor>fl (of_int n * fl (of_int a / of_int b))\<rfloor>"
    using assms by (simp add: percent_def float_to_int_def fmul_def float_of_int_def fl_int)
qed

lemma two_roundings: "0 \<le> (x :: rat) \<Longrightarrow> (x + x / 2 ^ 53) + (x + x / 2 ^ 53) / 2 ^ 53 \<le> x + x / 2 ^ 51"
  by simp

lemma percent_upper:
  assumes "0 \<le> n" "n < 2 ^ 53" "0 \<le> a" "0 < b" "n * a < 2 ^ 51"
  shows "percent a b n \<le> n * a div b"
proof -
  let ?c = "of_int a / of_int b :: rat" and ?k = "n * a div b"
  let ?x = "of_int n * ?c"
  have c: "0 \<le> ?c" and x: "0 \<le> ?x" using assms by simp_all
  note y0 = percent_floor(2) [OF assms(1-4)]
  have c': "fl ?c \<le> ?c + ?c / 2 ^ 53" using fl_error [OF c] by linarith
  have y: "of_int n * fl ?c \<le> ?x + ?x / 2 ^ 53"
    using mult_left_mono [OF c', of "of_int n"] assms(1) by (simp add: distrib_left mult.commute mult.left_commute)
  have "fl (of_int n * fl ?c) \<le> of_int n * fl ?c + of_int n * fl ?c / 2 ^ 53" using fl_error [OF y0] by linarith
  also have "\<dots> \<le> (?x + ?x / 2 ^ 53) + (?x + ?x / 2 ^ 53) / 2 ^ 53" using y by (intro add_mono divide_right_mono) simp_all
  also have "\<dots> \<le> ?x + ?x / 2 ^ 51" by (rule two_roundings [OF x])
  also have "\<dots> < ?x + 1 / of_int b"
  proof -
    have "(of_int (n * a) :: rat) < of_int (2 ^ 51)" using assms(5) by (simp only: of_int_less_iff)
    then show ?thesis using assms(4) by (simp add: field_simps)
  qed
  also have "\<dots> \<le> of_int (?k + 1)"
  proof -
    have "(?k + 1) * b = ?k * b + b" by (simp add: distrib_right)
    then have "n * a + 1 \<le> (?k + 1) * b" using pos_mod_bound [OF assms(4), of "n * a"] div_mult_mod_eq [of "n * a" b] by linarith
    then have "(of_int (n * a + 1) :: rat) \<le> of_int ((?k + 1) * b)" by (simp only: of_int_le_iff)
    then show ?thesis using assms(4) by (simp add: field_simps)
  qed
  finally have "\<lfloor>fl (of_int n * fl ?c)\<rfloor> < ?k + 1" by (simp only: floor_less_iff)
  then show ?thesis using percent_floor(1) [OF assms(1-4)] by simp
qed

text \<open>The lower bound needs that the product does not fall below an integer it should reach. A number closely below an integer is rounded
  to it, and the constants are that close to the decimal they stand for.\<close>

lemma below_large: "(2 ^ 53 + 1 :: rat) \<le> x \<Longrightarrow> x - x / 2 ^ 54 < q \<Longrightarrow> q < 2 ^ 53 \<Longrightarrow> False"
  by simp

lemma fl_just_below:
  assumes "0 < k" "k < 2 ^ 52" "of_int k - of_int k / 2 ^ 54 < z" "z \<le> of_int k"
  shows "fl z = of_int k"
proof -
  have "of_int k / 2 ^ 54 \<le> (of_int k :: rat)" using assms(1) by simp
  with assms(3) have z: "0 < z" by linarith
  let ?e = "float_exp z" and ?K = "k * 2 ^ nat (- float_exp z)"
  have "\<not> 0 \<le> ?e"
  proof
    assume "0 \<le> ?e"
    then have "(1 :: rat) \<le> 2 powi ?e" using powi_le [of 0 ?e] by simp
    with float_exp_bounds [OF z] have "2 ^ 52 \<le> z" by simp
    moreover have "(of_int k :: rat) < of_int (2 ^ 52)" using assms(2) by (simp only: of_int_less_iff)
    ultimately show False using assms(4) by simp
  qed
  then have u: "(2 :: rat) powi ?e = inverse (2 ^ nat (- ?e))" by (auto simp: power_int_def power_one_over inverse_eq_divide)
  then have K: "of_int ?K = of_int k / (2 :: rat) powi ?e" by (simp add: divide_inverse)
  let ?q = "z / 2 powi ?e"
  have q: "?q < 2 ^ 53" "?q \<le> of_int ?K" using float_exp_bounds [OF z] assms(4) unfolding K by (simp_all add: divide_right_mono pos_divide_less_eq)
  have qK: "of_int ?K - of_int ?K / 2 ^ 54 < ?q"
    using divide_strict_right_mono [OF assms(3), of "2 powi ?e"] unfolding K by (simp add: diff_divide_distrib)
  have "?K \<le> 2 ^ 53"
  proof (rule ccontr)
    assume "\<not> ?K \<le> 2 ^ 53"
    then have "(of_int (2 ^ 53 + 1) :: rat) \<le> of_int ?K" by (simp only: of_int_le_iff)
    then have "(2 ^ 53 + 1 :: rat) \<le> of_int ?K" by simp
    from below_large [OF this qK q(1)] show False .
  qed
  then have "(of_int ?K :: rat) \<le> of_int (2 ^ 53)" by (simp only: of_int_le_iff)
  then have near: "of_int ?K - ?q < 1 / 2" using qK by (simp del: of_int_mult)
  have "round_even ?q = ?K"
  proof (cases "?q = of_int ?K")
    case False
    with q(2) near have "\<lfloor>?q\<rfloor> = ?K - 1" by (intro floor_unique) (auto simp del: of_int_mult)
    with near show ?thesis by (simp add: round_even_def Let_def del: of_int_mult)
  qed (simp only: round_even_int)
  then have "fl z = of_int ?K * 2 powi ?e" by (simp only: fl_pos [OF z])
  then show ?thesis unfolding K by simp
qed

lemma percent_lower:
  assumes "0 \<le> n" "n < 2 ^ 53" "0 \<le> a" "0 < b" "n * a < 2 ^ 51"
    and "of_int a / of_int b - of_int a / of_int b / 2 ^ 54 < fl (of_int a / of_int b)"
  shows "n * a div b \<le> percent a b n"
proof -
  let ?c = "of_int a / of_int b :: rat" and ?k = "n * a div b"
  let ?x = "of_int n * ?c" and ?z = "of_int n * fl ?c"
  have k: "0 \<le> ?k" using assms by (simp add: pos_imp_zdiv_nonneg_iff)
  have kb: "?k * b \<le> n * a" using pos_mod_sign [OF assms(4), of "n * a"] div_mult_mod_eq [of "n * a" b] by linarith
  have "?k \<le> ?k * b" using mult_left_mono [of 1 b ?k] k assms(4) by simp
  with kb assms(5) have k51: "?k < 2 ^ 51" by simp
  have "of_int ?k \<le> fl ?z"
  proof (cases "of_int ?k \<le> ?z")
    case True
    then have "fl (of_int ?k) \<le> fl ?z" using k by (intro fl_mono) simp_all
    then show ?thesis using k k51 by (simp add: fl_int)
  next
    case False
    have "?k \<noteq> 0"
    proof
      assume "?k = 0"
      then show False using False percent_floor(2) [OF assms(1-4)] by simp
    qed
    then have n: "0 < n" "0 < ?k" using k assms(1) by (auto simp: le_less)
    have z: "?x - ?x / 2 ^ 54 < ?z"
      using mult_strict_left_mono [OF assms(6), of "of_int n"] n(1) by (simp add: right_diff_distrib mult.commute mult.left_commute)
    have "n * a mod b = 0"
    proof (rule ccontr)
      assume "n * a mod b \<noteq> 0"
      then have "?k * b + 1 \<le> n * a" using pos_mod_sign [OF assms(4), of "n * a"] div_mult_mod_eq [of "n * a" b] by linarith
      then have "(of_int (?k * b + 1) :: rat) \<le> of_int (n * a)" by (simp only: of_int_le_iff)
      then have "(of_int ?k + 1 / of_int b) * of_int b \<le> ?x * of_int b" using assms(4) by (simp add: distrib_right)
      then have "of_int ?k + 1 / of_int b \<le> ?x" using assms(4) by (simp only: mult_le_cancel_right_pos of_int_0_less_iff)
      moreover have "(of_int (n * a) :: rat) < of_int (2 ^ 51)" using assms(5) by (simp only: of_int_less_iff)
      then have "?x / 2 ^ 54 < 1 / of_int b" using assms(4) by (simp add: field_simps)
      ultimately show False using z False by linarith
    qed
    then have "n * a = ?k * b" using div_mult_mod_eq [of "n * a" b] by linarith
    then have "(of_int (n * a) :: rat) = of_int (?k * b)" by (simp only:)
    then have "?x = of_int ?k" using assms(4) by (simp add: field_simps)
    then have "fl ?z = of_int ?k" using z False n(2) k51 by (intro fl_just_below) simp_all
    then show ?thesis by simp
  qed
  then show ?thesis by (simp add: percent_floor(1) [OF assms(1-4)] le_floor_iff)
qed

lemma percent_exact:
  assumes "of_int a / of_int b - of_int a / of_int b / 2 ^ 54 < fl (of_int a / of_int b)" "0 \<le> a" "0 < b" "0 \<le> n" "n * a < 2 ^ 51" "n < 2 ^ 53"
  shows "percent a b n = n * a div b"
  using percent_upper [OF assms(4,6,2,3,5)] percent_lower [OF assms(4,6,2,3,5,1)] by simp

text \<open>The value of \<open>fl\<close> from a guess: \<open>m\<close> is the significand and \<open>- k\<close> the exponent.\<close>

lemma fl_round:
  assumes "2 ^ 52 \<le> x * 2 ^ k" "x * 2 ^ k < 2 ^ 53" "round_even (x * 2 ^ k) = m"
  shows "fl x = of_int m / 2 ^ k"
proof -
  have "0 < x * 2 ^ k" using assms(1) by (rule less_le_trans [rotated]) simp
  then have x: "0 < x" by (simp add: zero_less_mult_iff)
  have u: "(2 :: rat) powi (- int k) = inverse (2 ^ k)" by (simp add: power_int_minus)
  have b: "2 ^ 52 * 2 powi (- int k) \<le> x" "x < 2 ^ 53 * 2 powi (- int k)" using assms(1,2) unfolding u by (simp_all add: field_simps)
  have "\<not> float_exp x < - int k" "\<not> - int k < float_exp x"
    using powi_step [of "float_exp x" "- int k"] powi_step [of "- int k" "float_exp x"] float_exp_bounds [OF x] b by auto
  then have e: "float_exp x = - int k" by simp
  show ?thesis using assms(3) by (simp add: fl_pos [OF x] e u divide_inverse)
qed

lemma fl_eqI: "2 ^ 52 \<le> x * 2 ^ k \<Longrightarrow> x * 2 ^ k < 2 ^ 53 \<Longrightarrow> \<bar>x * 2 ^ k - of_int m\<bar> < 1 / 2 \<Longrightarrow> fl x = of_int m / 2 ^ k"
  by (rule fl_round) (use round_even_error [of "x * 2 ^ k"] in linarith)+

lemma fl_tie:
  assumes "2 ^ 52 \<le> x * 2 ^ k" "x * 2 ^ k < 2 ^ 53" "x * 2 ^ k = of_int m - 1 / 2" "even m"
  shows "fl x = of_int m / 2 ^ k"
proof (rule fl_round [OF assms(1,2)])
  have "\<lfloor>of_int m - 1 / (2 :: rat)\<rfloor> = m - 1" by (rule floor_unique) simp_all
  with assms(4) show "round_even (x * 2 ^ k) = m" unfolding assms(3) by (simp add: round_even_def Let_def)
qed

lemma float_of_int_exact: "0 \<le> n \<Longrightarrow> n < 2 ^ 53 \<Longrightarrow> float_of_int n = of_int n"
  by (simp add: float_of_int_def fl_int)

subsection \<open>Evaluation in integers\<close>

definition shift_frac :: "int \<Rightarrow> int \<times> int \<Rightarrow> int \<times> int" where
  "shift_frac e nd = (if 0 \<le> e then (fst nd, snd nd * 2 ^ nat e) else (fst nd * 2 ^ nat (- e), snd nd))"

definition round_div :: "int \<times> int \<Rightarrow> int" where
  "round_div pq = (let f = fst pq div snd pq; r = 2 * (fst pq mod snd pq) in
     if r < snd pq then f else if r > snd pq then f + 1 else if even f then f else f + 1)"

definition float_exp_int :: "int \<times> int \<Rightarrow> int" where
  "float_exp_int nd = (let e = bit_length (fst nd) - bit_length (snd nd) - 53; pq = shift_frac e nd in
     if fst pq < 9007199254740992 * snd pq then e else e + 1)"

definition fl_frac :: "int \<times> int \<Rightarrow> rat" where
  "fl_frac nd = (let e = float_exp_int nd; m = round_div (shift_frac e nd) in
     if 0 \<le> e then of_int (m * 2 ^ nat e) else Fract m (2 ^ nat (- e)))"

lemma shift_frac:
  assumes "0 < snd nd"
  shows "of_int (fst (shift_frac e nd)) / of_int (snd (shift_frac e nd)) = of_int (fst nd) / of_int (snd nd) / (2 :: rat) powi e" "0 < snd (shift_frac e nd)"
  using assms by (auto simp: shift_frac_def power_int_def power_one_over)

lemma round_div: "0 < q \<Longrightarrow> round_div (p, q) = round_even (of_int p / of_int q)"
proof -
  assume q: "0 < q"
  have f: "\<lfloor>of_int p / of_int q :: rat\<rfloor> = p div q" by (rule floor_divide_of_int_eq)
  have "of_int p = of_int (p div q) * of_int q + (of_int (p mod q) :: rat)"
    unfolding of_int_mult [symmetric] of_int_add [symmetric] by simp
  then have r: "of_int p / of_int q - of_int (p div q) = of_int (p mod q) / (of_int q :: rat)" using q by (simp add: field_simps)
  have c: "of_int (p mod q) / of_int q < (1 / 2 :: rat) \<longleftrightarrow> 2 * (p mod q) < q" "(1 / 2 :: rat) < of_int (p mod q) / of_int q \<longleftrightarrow> q < 2 * (p mod q)"
  proof -
    have "of_int (p mod q) / of_int q < (1 / 2 :: rat) \<longleftrightarrow> of_int (2 * (p mod q)) < (of_int q :: rat)" using q by (simp add: field_simps)
    then show "of_int (p mod q) / of_int q < (1 / 2 :: rat) \<longleftrightarrow> 2 * (p mod q) < q" by (simp only: of_int_less_iff)
    have "(1 / 2 :: rat) < of_int (p mod q) / of_int q \<longleftrightarrow> (of_int q :: rat) < of_int (2 * (p mod q))" using q by (simp add: field_simps)
    then show "(1 / 2 :: rat) < of_int (p mod q) / of_int q \<longleftrightarrow> q < 2 * (p mod q)" by (simp only: of_int_less_iff)
  qed
  show "round_div (p, q) = round_even (of_int p / of_int q)" unfolding round_div_def round_even_def Let_def f r c fst_conv snd_conv ..
qed

lemma float_exp_int:
  assumes "quotient_of x = nd"
  shows "float_exp_int nd = float_exp x"
proof -
  obtain n d where nd: "nd = (n, d)" by (cases nd)
  have d: "0 < d" and x: "x = of_int n / of_int d" using quotient_of_denom_pos assms nd quotient_of_div by auto
  have "fst (shift_frac e nd) < 9007199254740992 * snd (shift_frac e nd) \<longleftrightarrow> x < 2 ^ 53 * 2 powi e" for e
  proof -
    have s: "of_int (fst (shift_frac e nd)) / of_int (snd (shift_frac e nd)) = x / 2 powi e" "0 < snd (shift_frac e nd)"
      using shift_frac [of nd e] d by (simp_all add: nd x)
    have "fst (shift_frac e nd) < 9007199254740992 * snd (shift_frac e nd) \<longleftrightarrow>
        (of_int (fst (shift_frac e nd)) :: rat) < of_int (9007199254740992 * snd (shift_frac e nd))" by (simp only: of_int_less_iff)
    also have "\<dots> \<longleftrightarrow> of_int (fst (shift_frac e nd)) / of_int (snd (shift_frac e nd)) < (9007199254740992 :: rat)"
      using s(2) by (simp add: pos_divide_less_eq)
    also have "\<dots> \<longleftrightarrow> x < 2 ^ 53 * 2 powi e" unfolding s(1) by (simp add: pos_divide_less_eq)
    finally show ?thesis .
  qed
  then show ?thesis using assms by (simp add: float_exp_int_def float_exp_def nd Let_def)
qed

lemma fl_frac: "0 < x \<Longrightarrow> fl_frac (quotient_of x) = fl x"
proof -
  assume x: "0 < x"
  obtain n d where nd: "quotient_of x = (n, d)" by (cases "quotient_of x")
  have d: "0 < d" and xd: "x = of_int n / of_int d" using quotient_of_denom_pos [OF nd] quotient_of_div [OF nd] by auto
  let ?e = "float_exp x"
  have "round_div (shift_frac ?e (n, d)) = round_even (x / 2 powi ?e)"
    using round_div [of "snd (shift_frac ?e (n, d))" "fst (shift_frac ?e (n, d))"] shift_frac [of "(n, d)" ?e] d by (simp add: xd)
  then show ?thesis using float_exp_int [OF nd]
    by (auto simp: fl_frac_def nd fl_pos [OF x] Let_def power_int_def Fract_of_int_quotient power_one_over)
qed

lemma fl_code [code]:
  "fl x = (if x = 0 then 0 else if 0 < x then fl_frac (quotient_of x) else - fl_frac (quotient_of (- x)))"
proof (cases "x < 0")
  case True
  then have "fl x = - fl (- x)" by (simp add: fl_def Let_def)
  with True fl_frac [of "- x"] show ?thesis by simp
next
  case False
  with fl_frac [of x] show ?thesis by (cases "x = 0") auto
qed

end
