(* ===== verification/Reserved.thy ===== *)
theory Reserved
  imports Go_Float Go_Strings
begin

text \<open>
  What GKE reserves of a node, \<^verbatim>\<open>pkg/utils/utils.go\<close>: CPU, memory and ephemeral storage as tiers of percentages, in floating-point arithmetic. The theorem
  says that the result is that of the tiers in integers, so no rounding error of a double is ever visible.
\<close>

text \<open>\<^verbatim>\<open>int64(math.Min(float64(n), width) * (a / b))\<close>.\<close>

definition tier :: "int \<Rightarrow> int \<Rightarrow> int \<Rightarrow> int \<Rightarrow> int" where
  "tier width a b n = float_to_int (fmul (min (float_of_int n) (of_int width)) (fl (of_int a / of_int b)))"

definition ResolveReservedMemoryMiB :: "string \<Rightarrow> int \<Rightarrow> int" where
  "ResolveReservedMemoryMiB instanceType memoryMiB = (
     if memoryMiB \<le> 1024 then 255
     else let memory = tier 4096 25 100 memoryMiB; memoryMiB = memoryMiB - 4096
     in if memoryMiB \<le> 0 then memory
     else let memory = memory + tier 4096 20 100 memoryMiB; memoryMiB = memoryMiB - 4096
     in if memoryMiB \<le> 0 then memory
     else let memory = memory + tier 8192 10 100 memoryMiB; memoryMiB = memoryMiB - 8192
     in if memoryMiB \<le> 0 then memory
     else let memory = memory + tier 114688 6 100 memoryMiB; memoryMiB = memoryMiB - 114688
     in if memoryMiB \<le> 0 then memory
     else memory + percent 2 100 memoryMiB)"

definition ResolveReservedCPUMCore :: "string \<Rightarrow> int \<Rightarrow> int" where
  "ResolveReservedCPUMCore instanceType cpuMCore = (
     if instanceType = ''e2-micro'' \<or> instanceType = ''e2-small'' \<or> instanceType = ''e2-medium'' then 1060
     else let cpu = tier 1000 6 100 cpuMCore; cpuMCore = cpuMCore - 1000
     in if cpuMCore \<le> 0 then cpu
     else let cpu = cpu + tier 1000 1 100 cpuMCore; cpuMCore = cpuMCore - 1000
     in if cpuMCore \<le> 0 then cpu
     else let cpu = cpu + tier 2000 5 1000 cpuMCore; cpuMCore = cpuMCore - 2000
     in if cpuMCore \<le> 0 then cpu
     else cpu + percent 25 10000 cpuMCore)"

definition ResolveReservedEphemeralStorage :: "int \<Rightarrow> int \<Rightarrow> int \<Rightarrow> int \<times> int" where
  "ResolveReservedEphemeralStorage bootDiskGiB totalSSDGiB localSSDCount = (
     if localSSDCount > 0 \<and> totalSSDGiB > 0
     then (percent 10 100 totalSSDGiB, if localSSDCount = 1 then 50 else if localSSDCount = 2 then 75 else 100)
     else let option1 = float_to_int (math_Round (fmul (float_of_int bootDiskGiB) (fl (50 / 100))));
              option2 = float_to_int (math_Round (fadd (fmul (float_of_int bootDiskGiB) (fl (35 / 100))) 6));
              option3 = 100
       in (percent 10 100 bootDiskGiB, min (min option1 option2) option3))"

definition ResolveReservedResource :: "string \<Rightarrow> int \<Rightarrow> int \<Rightarrow> int \<Rightarrow> int \<Rightarrow> int \<Rightarrow> int \<times> int \<times> int \<times> int \<times> int" where
  "ResolveReservedResource instanceType cpuMCore memoryMiB bootDiskGiB totalSSDGiB localSSDCount =
     (case ResolveReservedEphemeralStorage bootDiskGiB totalSSDGiB localSSDCount of (evictionThreshold, systemReservation) \<Rightarrow>
       (ResolveReservedCPUMCore instanceType cpuMCore, ResolveReservedMemoryMiB instanceType memoryMiB, 100, evictionThreshold, systemReservation))"

subsection \<open>The tiers in integers\<close>

text \<open>The first \<open>width\<close> units of what is left cost \<open>a / b\<close> each, rounded down per tier.\<close>

fun tiers :: "(int \<times> int \<times> int) list \<Rightarrow> int \<Rightarrow> int" where
  "tiers [] n = 0"
| "tiers ((width, a, b) # ts) n = (if n \<le> 0 then 0 else min n width * a div b + tiers ts (n - width))"

definition memory_tiers :: "(int \<times> int \<times> int) list" where
  "memory_tiers = [(4096, 25, 100), (4096, 20, 100), (8192, 10, 100), (114688, 6, 100), (2 ^ 40, 2, 100)]"

definition cpu_tiers :: "(int \<times> int \<times> int) list" where
  "cpu_tiers = [(1000, 6, 100), (1000, 1, 100), (2000, 5, 1000), (2 ^ 40, 25, 10000)]"

definition boot_reservation :: "int \<Rightarrow> int" where
  "boot_reservation b = min (min ((b + 1) div 2) ((35 * b + 650) div 100)) 100"

lemma fl_constants:
  "fl (25 / 100) = 1 / 4" "fl (20 / 100) = 7205759403792794 / 2 ^ 55" "fl (10 / 100) = 7205759403792794 / 2 ^ 56"
  "fl (6 / 100) = 8646911284551352 / 2 ^ 57" "fl (2 / 100) = 5764607523034235 / 2 ^ 58"
  "fl (1 / 100) = 5764607523034235 / 2 ^ 59" "fl (5 / 1000) = 5764607523034235 / 2 ^ 60" "fl (25 / 10000) = 5764607523034235 / 2 ^ 61"
  "fl (50 / 100) = 1 / 2" "fl (35 / 100) = 6305039478318694 / 2 ^ 54"
proof -
  show "fl (25 / 100) = 1 / 4" using fl_eqI [of "25 / 100" 54 "2 ^ 52"] by simp
  show "fl (20 / 100) = 7205759403792794 / 2 ^ 55" using fl_eqI [of "20 / 100" 55 7205759403792794] by simp
  show "fl (10 / 100) = 7205759403792794 / 2 ^ 56" using fl_eqI [of "10 / 100" 56 7205759403792794] by simp
  show "fl (6 / 100) = 8646911284551352 / 2 ^ 57" using fl_eqI [of "6 / 100" 57 8646911284551352] by simp
  show "fl (2 / 100) = 5764607523034235 / 2 ^ 58" using fl_eqI [of "2 / 100" 58 5764607523034235] by simp
  show "fl (1 / 100) = 5764607523034235 / 2 ^ 59" using fl_eqI [of "1 / 100" 59 5764607523034235] by simp
  show "fl (5 / 1000) = 5764607523034235 / 2 ^ 60" using fl_eqI [of "5 / 1000" 60 5764607523034235] by simp
  show "fl (25 / 10000) = 5764607523034235 / 2 ^ 61" using fl_eqI [of "25 / 10000" 61 5764607523034235] by simp
  show "fl (50 / 100) = 1 / 2" using fl_eqI [of "50 / 100" 53 "2 ^ 52"] by simp
  show "fl (35 / 100) = 6305039478318694 / 2 ^ 54" using fl_eqI [of "35 / 100" 54 6305039478318694] by simp
qed

text \<open>Every constant is close enough to its decimal for \<open>percent_exact\<close>.\<close>

lemma percent_constants:
  assumes "0 \<le> n" "n < 2 ^ 45"
  shows "percent 25 100 n = n * 25 div 100" "percent 20 100 n = n * 20 div 100" "percent 10 100 n = n * 10 div 100"
    "percent 6 100 n = n * 6 div 100" "percent 2 100 n = n * 2 div 100" "percent 1 100 n = n * 1 div 100"
    "percent 5 1000 n = n * 5 div 1000" "percent 25 10000 n = n * 25 div 10000"
proof -
  have ex: "percent a b n = n * a div b" if "fl c = e" "c - c / 2 ^ 54 < e" "of_int a / of_int b = c" "0 < b" "a \<in> {0..25}" for a b c e
  proof (rule percent_exact)
    have "n * a \<le> n * 25" using assms(1) that(5) by (intro mult_left_mono) auto
    then show "n * a < 2 ^ 51" using assms(2) by simp
  qed (use assms that in auto)
  show "percent 25 100 n = n * 25 div 100" by (rule ex [OF fl_constants(1)]) simp_all
  show "percent 20 100 n = n * 20 div 100" by (rule ex [OF fl_constants(2)]) simp_all
  show "percent 10 100 n = n * 10 div 100" by (rule ex [OF fl_constants(3)]) simp_all
  show "percent 6 100 n = n * 6 div 100" by (rule ex [OF fl_constants(4)]) simp_all
  show "percent 2 100 n = n * 2 div 100" by (rule ex [OF fl_constants(5)]) simp_all
  show "percent 1 100 n = n * 1 div 100" by (rule ex [OF fl_constants(6)]) simp_all
  show "percent 5 1000 n = n * 5 div 1000" by (rule ex [OF fl_constants(7)]) simp_all
  show "percent 25 10000 n = n * 25 div 10000" by (rule ex [OF fl_constants(8)]) simp_all
qed

lemma tier_percent: "0 \<le> n \<Longrightarrow> n < 2 ^ 53 \<Longrightarrow> 0 \<le> width \<Longrightarrow> width < 2 ^ 53 \<Longrightarrow> tier width a b n = percent a b (min n width)"
  by (auto simp: tier_def percent_def float_of_int_exact min_def)

lemma memory_exact: "1024 < m \<Longrightarrow> m < 2 ^ 40 \<Longrightarrow> ResolveReservedMemoryMiB name m = tiers memory_tiers m"
  by (simp add: ResolveReservedMemoryMiB_def memory_tiers_def Let_def tier_percent percent_constants min_def)

lemma cpu_exact: "0 \<le> c \<Longrightarrow> c < 2 ^ 40 \<Longrightarrow> name \<notin> {''e2-micro'', ''e2-small'', ''e2-medium''} \<Longrightarrow> ResolveReservedCPUMCore name c = tiers cpu_tiers c"
  by (cases "c = 0") (simp_all add: ResolveReservedCPUMCore_def cpu_tiers_def Let_def tier_percent percent_constants min_def)

lemma option1_exact: "0 \<le> b \<Longrightarrow> b < 2 ^ 40 \<Longrightarrow> float_to_int (math_Round (fmul (float_of_int b) (fl (50 / 100)))) = (b + 1) div 2"
proof -
  assume b: "0 \<le> b" "b < 2 ^ 40"
  have "fmul (float_of_int b) (fl (50 / 100)) = of_int b / 2"
    unfolding fl_constants using fl_dyadic [of b 1] b by (simp add: fmul_def float_of_int_exact)
  moreover have "\<lfloor>of_int b / 2 + 1 / (2 :: rat)\<rfloor> = (b + 1) div 2"
    using floor_divide_of_int_eq [of "b + 1" 2, where ?'a = rat] by (simp add: add_divide_distrib)
  moreover have "(0 :: rat) \<le> of_int b / 2" using b by simp
  ultimately show ?thesis by (simp only: math_Round_def float_to_int_def if_True floor_of_int) simp
qed

text \<open>Two operations keep the distance to the exact value small.\<close>

lemma option2_near:
  assumes "0 \<le> b" "b < 2 ^ 40"
  shows "\<bar>fadd (fmul (float_of_int b) (fl (35 / 100))) 6 - of_int (35 * b + 600) / 100\<bar> \<le> 1 / 1000"
proof -
  define c where "c = (35 / 100 :: rat)"
  let ?n = "of_int b :: rat"
  have n: "0 \<le> ?n" "?n < 2 ^ 40" using assms by simp_all
  let ?y = "?n * fl c"
  have "\<bar>fl c - c\<bar> \<le> c / 2 ^ 53" by (rule fl_error) (simp add: c_def)
  then have "?n * \<bar>fl c - c\<bar> \<le> ?n * (c / 2 ^ 53)" using n(1) by (rule mult_left_mono)
  moreover have "?n * \<bar>fl c - c\<bar> = \<bar>?y - ?n * c\<bar>" using n(1) by (simp add: abs_mult flip: right_diff_distrib)
  ultimately have e1: "\<bar>?y - ?n * c\<bar> \<le> ?n * (c / 2 ^ 53)" by simp
  have y: "0 \<le> ?y" using n(1) by (intro mult_nonneg_nonneg fl_nonneg) (simp_all add: c_def)
  note e2 = fl_error [OF y]
  have s: "0 \<le> fl ?y + 6" using fl_nonneg [OF y] by simp
  note e3 = fl_error [OF s]
  have "\<bar>u - (x + 6)\<bar> \<le> 1 / 1000"
    if "\<bar>y - x\<bar> \<le> x / 2 ^ 53" "\<bar>v - y\<bar> \<le> y / 2 ^ 53" "\<bar>u - (v + 6)\<bar> \<le> (v + 6) / 2 ^ 53" "0 \<le> x" "x < 2 ^ 40" for x y u v :: rat
  proof -
    have "y - x \<le> x / 2 ^ 53" "x - y \<le> x / 2 ^ 53" "v - y \<le> y / 2 ^ 53" "y - v \<le> y / 2 ^ 53" "u - (v + 6) \<le> (v + 6) / 2 ^ 53" "v + 6 - u \<le> (v + 6) / 2 ^ 53"
      using that(1-3) unfolding abs_le_iff by linarith+
    with that(4,5) have "u - (x + 6) \<le> 1 / 1000" "x + 6 - u \<le> 1 / 1000" by simp_all
    then show ?thesis unfolding abs_le_iff by linarith
  qed
  from this [of ?y "?n * c" "fl ?y" "fl (fl ?y + 6)"] e1 e2 e3 n have "\<bar>fl (fl ?y + 6) - (?n * c + 6)\<bar> \<le> 1 / 1000" by (simp add: c_def)
  moreover have "of_int (35 * b + 600) / 100 = ?n * c + 6" by (simp add: c_def)
  moreover have "float_of_int b = ?n" using assms by (intro float_of_int_exact) simp_all
  ultimately show ?thesis by (simp only: fadd_def fmul_def c_def)
qed

definition option2 :: "int \<Rightarrow> int" where
  "option2 b = float_to_int (math_Round (fadd (fmul (float_of_int b) (fl (35 / 100))) 6))"

lemma option2_cases:
  assumes "0 \<le> b" "b < 2 ^ 40"
  shows "option2 b = (35 * b + 650) div 100 \<or> (7 * b + 130) mod 20 = 0 \<and> option2 b = (35 * b + 650) div 100 - 1"
proof -
  let ?v = "fadd (fmul (float_of_int b) (fl (35 / 100))) 6"
  define N where "N = 7 * b + 130"
  have near: "of_int N / 20 - 1 / 1000 \<le> ?v + 1 / 2" "?v + 1 / 2 \<le> of_int N / 20 + 1 / 1000"
  proof -
    have "of_int (35 * b + 600) / 100 = of_int N / 20 - (1 / 2 :: rat)" by (simp add: N_def field_simps)
    with option2_near [OF assms] show "of_int N / 20 - 1 / 1000 \<le> ?v + 1 / 2" "?v + 1 / 2 \<le> of_int N / 20 + 1 / 1000"
      unfolding abs_le_iff by linarith+
  qed
  have "0 \<le> of_int N / (20 :: rat) - 1 / 1000 - 1 / 2" using assms by (simp add: N_def)
  with near(1) have "0 \<le> ?v" by linarith
  then have r: "option2 b = \<lfloor>?v + 1 / 2\<rfloor>" by (simp add: option2_def math_Round_def float_to_int_def)
  have "(5 * N) div (5 * 20) = N div 20" by (rule div_mult_mult1) simp
  then have k: "(35 * b + 650) div 100 = N div 20" by (simp add: N_def distrib_left)
  define k where "k = N div 20"
  have kN: "N = 20 * k + N mod 20" "0 \<le> N mod 20" "N mod 20 < 20" unfolding k_def by (rule mult_div_mod_eq [symmetric], simp_all)
  have "(of_int N :: rat) = of_int (20 * k + N mod 20)" by (rule arg_cong [OF kN(1)])
  then have kr: "of_int N / 20 = (of_int k :: rat) + of_int (N mod 20) / 20" unfolding of_int_add of_int_mult by simp
  show ?thesis
  proof (cases "N mod 20 = 0")
    case True
    with near kr have "of_int (k - 1) \<le> ?v + 1 / 2" "?v + 1 / 2 < of_int (k + 1)" by simp_all
    then have "k - 1 \<le> \<lfloor>?v + 1 / 2\<rfloor>" "\<lfloor>?v + 1 / 2\<rfloor> < k + 1" by (simp_all only: le_floor_iff floor_less_iff)
    then show ?thesis using r True k by (auto simp: N_def k_def)
  next
    case False
    with kN have "1 \<le> N mod 20" "N mod 20 \<le> 19" by linarith+
    then have "(1 :: rat) \<le> of_int (N mod 20)" "of_int (N mod 20) \<le> (19 :: rat)" by simp_all
    with near kr have "of_int k \<le> ?v + 1 / 2" "?v + 1 / 2 < of_int k + 1" by simp_all
    then have "\<lfloor>?v + 1 / 2\<rfloor> = k" by (rule floor_unique)
    with r k show ?thesis by (simp add: k_def)
  qed
qed

text \<open>The disk sizes in the range that matters whose reservation ends in a half.\<close>

lemma option2_ties: "b \<in> {50, 70, 90, 110, 130, 150, 170, 190, 210, 230, 250} \<Longrightarrow> option2 b = (35 * b + 650) div 100"
proof -
  have e: "option2 n = (35 * n + 650) div 100"
    if "fl (of_int n * (6305039478318694 / 2 ^ 54)) = of_int m / 2 ^ k" "fl (of_int m / 2 ^ k + 6) = of_int (35 * n + 600) / 100"
      "n \<in> {0..1000}" for n m k
  proof -
    have "fadd (fmul (float_of_int n) (fl (35 / 100))) 6 = of_int (35 * n + 600) / 100"
    proof -
      have "float_of_int n = of_int n" using that(3) by (intro float_of_int_exact) auto
      then show ?thesis by (simp only: fadd_def fmul_def fl_constants that)
    qed
    moreover have "(0 :: rat) \<le> of_int (35 * n + 600) / 100" using that(3) by simp
    moreover have "of_int (35 * n + 600) / 100 + 1 / (2 :: rat) = of_int (35 * n + 650) / of_int 100" by (simp add: field_simps)
    ultimately show ?thesis by (simp only: option2_def math_Round_def float_to_int_def if_True floor_of_int floor_divide_of_int_eq) simp
  qed
  have c50: "option2 50 = (35 * 50 + 650) div 100"
    by (rule e [OF fl_eqI [of _ 48 4925812092436480]]) (use fl_dyadic [of 47 1] in simp_all)
  have c70: "option2 70 = (35 * 70 + 650) div 100"
    by (rule e [OF fl_eqI [of _ 48 6896136929411072]]) (use fl_dyadic [of 61 1] in simp_all)
  have c90: "option2 90 = (35 * 90 + 650) div 100"
    by (rule e [OF fl_eqI [of _ 48 8866461766385663]]) (use fl_tie [of "8866461766385663 / 2 ^ 48 + 6" 47 "75 * 2 ^ 46"] in simp_all)
  have c110: "option2 110 = (35 * 110 + 650) div 100"
    by (rule e [OF fl_eqI [of _ 47 5418393301680128]]) (use fl_dyadic [of 89 1] in simp_all)
  have c130: "option2 130 = (35 * 130 + 650) div 100"
    by (rule e [OF fl_eqI [of _ 47 6403555720167424]]) (use fl_dyadic [of 103 1] in simp_all)
  have c150: "option2 150 = (35 * 150 + 650) div 100"
    by (rule e [OF fl_eqI [of _ 47 7388718138654720]]) (use fl_dyadic [of 117 1] in simp_all)
  have c170: "option2 170 = (35 * 170 + 650) div 100"
    by (rule e [OF fl_eqI [of _ 47 8373880557142015]]) (use fl_tie [of "8373880557142015 / 2 ^ 47 + 6" 46 "131 * 2 ^ 45"] in simp_all)
  have c190: "option2 190 = (35 * 190 + 650) div 100"
    by (rule e [OF fl_eqI [of _ 46 4679521487814656]]) (use fl_dyadic [of 145 1] in simp_all)
  have c210: "option2 210 = (35 * 210 + 650) div 100"
    by (rule e [OF fl_eqI [of _ 46 5172102697058304]]) (use fl_dyadic [of 159 1] in simp_all)
  have c230: "option2 230 = (35 * 230 + 650) div 100"
    by (rule e [OF fl_eqI [of _ 46 5664683906301952]]) (use fl_dyadic [of 173 1] in simp_all)
  have c250: "option2 250 = (35 * 250 + 650) div 100"
    by (rule e [OF fl_eqI [of _ 46 6157265115545600]]) (use fl_dyadic [of 187 1] in simp_all)
  show "b \<in> {50, 70, 90, 110, 130, 150, 170, 190, 210, 230, 250} \<Longrightarrow> option2 b = (35 * b + 650) div 100"
    using c50 c70 c90 c110 c130 c150 c170 c190 c210 c230 c250 by auto
qed

lemma boot_exact:
  assumes "0 \<le> b" "b < 2 ^ 40"
  shows "min (min ((b + 1) div 2) (option2 b)) 100 = boot_reservation b"
  using option2_cases [OF assms]
proof
  assume tie: "(7 * b + 130) mod 20 = 0 \<and> option2 b = (35 * b + 650) div 100 - 1"
  then obtain q where "7 * b + 130 = 20 * q" by (auto simp: mod_eq_0_iff_dvd elim!: dvdE)
  then have j: "b = 20 * (3 * q - b - 20) + 10" by presburger
  then obtain j where j: "b = 20 * j + 10" by blast
  have "j = 2 \<or> j = 3 \<or> j = 4 \<or> j = 5 \<or> j = 6 \<or> j = 7 \<or> j = 8 \<or> j = 9 \<or> j = 10 \<or> j = 11 \<or> j = 12" if "40 < b" "b < 270"
    using j that by presburger
  then consider "b \<le> 40" | "270 \<le> b" | "j = 2 \<or> j = 3 \<or> j = 4 \<or> j = 5 \<or> j = 6 \<or> j = 7 \<or> j = 8 \<or> j = 9 \<or> j = 10 \<or> j = 11 \<or> j = 12"
    by linarith
  then show ?thesis
  proof cases
    case 1
    with j assms(1) have "j = 0 \<or> j = 1" by linarith
    with j have "b = 10 \<or> b = 30" by auto
    with tie show ?thesis by (auto simp: boot_reservation_def)
  next
    case 2
    then have "(35 * 270 + 650) div 100 \<le> (35 * b + 650) div 100" "271 div 2 \<le> (b + 1) div 2" by (intro zdiv_mono1; simp)+
    with tie show ?thesis by (simp add: boot_reservation_def)
  next
    case 3
    then have "b \<in> {50, 70, 90, 110, 130, 150, 170, 190, 210, 230, 250}" using j by auto
    from option2_ties [OF this] show ?thesis by (simp add: boot_reservation_def)
  qed
qed (simp add: boot_reservation_def)

subsection \<open>What is reserved\<close>

lemma tiers_mono: "m \<le> n \<Longrightarrow> \<forall>(w, a, b) \<in> set ts. 0 \<le> w \<and> 0 \<le> a \<and> 0 < b \<Longrightarrow> tiers ts m \<le> tiers ts n"
proof (induction ts arbitrary: m n)
  case (Cons t ts)
  obtain w a b where t: "t = (w, a, b)" by (cases t)
  with Cons.prems have wab: "0 \<le> w" "0 \<le> a" "0 < b" by auto
  have pos: "0 \<le> tiers us k" if "\<forall>(w, a, b) \<in> set us. 0 \<le> w \<and> 0 \<le> a \<and> 0 < b" for us k
    using that
  proof (induction us arbitrary: k)
    case (Cons u us)
    obtain w a b where u: "u = (w, a, b)" by (cases u)
    with Cons show ?case by (auto simp: pos_imp_zdiv_nonneg_iff)
  qed simp
  have "tiers ts (m - w) \<le> tiers ts (n - w)" using Cons.prems by (intro Cons.IH) auto
  moreover have "min m w * a div b \<le> min n w * a div b" using wab Cons.prems(1) by (intro zdiv_mono1 mult_right_mono) auto
  moreover have "0 \<le> min n w * a div b" if "0 < n" using that wab by (simp add: pos_imp_zdiv_nonneg_iff)
  ultimately show ?case using pos [of ts "n - w"] Cons.prems t by (auto intro: add_mono)
qed simp



end
