(* ===== verification/Instance_Type.thy ===== *)
theory Instance_Type
  imports Reserved Api_Types Compute_Types Local_SSD Provider_Utils
begin

text \<open>
  One instance type, \<^verbatim>\<open>pkg/providers/instancetype/types.go\<close> and \<^verbatim>\<open>overhead.go\<close>: its capacity, what is reserved of it, and the labels it has. A
  \<^verbatim>\<open>computepb.MachineType\<close> has its pointers as options. Quantities are integers in the unit of their resource (milli-CPU, bytes, a count); the
  vendored parser of quantities is an argument, and so are the memory overhead of the options, the disk type table and randomness.
  A panic of the code is \<open>None\<close>.
\<close>

record MachineType =
  pb_Name :: "string option"
  pb_GuestCpus :: "int option"
  pb_MemoryMb :: "int option"
  pb_Zone :: "string option"
  pb_Architecture :: "string option"
  pb_Accelerators :: "accelerator list"
  pb_BundledLocalSsds :: "int option option" \<comment> \<open>the struct and its \<^verbatim>\<open>PartitionCount\<close>\<close>

record it_env =
  ite_VMMemoryOverheadPercent :: rat
  ite_MustParse :: "string \<Rightarrow> string \<Rightarrow> int" \<comment> \<open>resource name and text\<close>
  ite_compat :: compatibility
  ite_region :: string
  ite_rand :: "int \<Rightarrow> int"

text \<open>The getters of the protocol buffer.\<close>

definition GetName :: "MachineType \<Rightarrow> string" where "GetName mt = (case pb_Name mt of Some n \<Rightarrow> n | None \<Rightarrow> [])"
definition GetGuestCpus :: "MachineType \<Rightarrow> int" where "GetGuestCpus mt = (case pb_GuestCpus mt of Some n \<Rightarrow> n | None \<Rightarrow> 0)"
definition GetMemoryMb :: "MachineType \<Rightarrow> int" where "GetMemoryMb mt = (case pb_MemoryMb mt of Some n \<Rightarrow> n | None \<Rightarrow> 0)"
definition GetArchitecture :: "MachineType \<Rightarrow> string" where "GetArchitecture mt = (case pb_Architecture mt of Some a \<Rightarrow> a | None \<Rightarrow> [])"

definition ResourceCPU :: string where [go_defs]: "ResourceCPU = ''cpu''"
definition ResourceMemory :: string where [go_defs]: "ResourceMemory = ''memory''"
definition ResourcePods :: string where [go_defs]: "ResourcePods = ''pods''"
definition ResourceEphemeralStorage :: string where [go_defs]: "ResourceEphemeralStorage = ''ephemeral-storage''"
definition ResourceNVIDIAGPU :: string where [go_defs]: "ResourceNVIDIAGPU = ''nvidia.com/gpu''"

subsection \<open>Overhead\<close>

definition signalMemoryAvailable :: string where [go_defs]: "signalMemoryAvailable = ''memory.available''"
definition signalNodeFSAvailable :: string where [go_defs]: "signalNodeFSAvailable = ''nodefs.available''"

definition kcSystemReserved :: "it_env \<Rightarrow> resources \<Rightarrow> KubeletConfiguration option \<Rightarrow> resources" where
  "kcSystemReserved e computed kc = (case kc of None \<Rightarrow> computed
    | Some kc \<Rightarrow> foldl (\<lambda>out (k, v). case map_get out k of
          Some existing \<Rightarrow> map_set k (existing + ite_MustParse e k v) out
        | None \<Rightarrow> map_set k (ite_MustParse e k v) out) computed (kc_SystemReserved kc))"

definition mergeKubeReserved :: "it_env \<Rightarrow> resources \<Rightarrow> KubeletConfiguration option \<Rightarrow> resources" where
  "mergeKubeReserved e computed kc = (case kc of None \<Rightarrow> computed
    | Some kc \<Rightarrow> foldl (\<lambda>out (k, v). map_set k (ite_MustParse e k v) out) computed (kc_KubeReserved kc))"

definition computeEvictionSignal :: "it_env \<Rightarrow> string \<Rightarrow> int \<Rightarrow> string \<Rightarrow> int" where
  "computeEvictionSignal e name capacity signal = (if has_suffix signal ''%''
     then (case ParseFloat (trim_suffix signal ''%'') of None \<Rightarrow> 0
       | Some pct \<Rightarrow> \<lceil>fdiv (fmul (float_of_int capacity) pct) 100\<rceil>)
     else ite_MustParse e name signal)"

definition evictionThreshold :: "it_env \<Rightarrow> int \<Rightarrow> int \<Rightarrow> resources \<Rightarrow> KubeletConfiguration option \<Rightarrow> resources" where
  "evictionThreshold e memory storage computed kc = (case kc of None \<Rightarrow> computed
    | Some kc \<Rightarrow> if kc_EvictionHard kc = [] then computed
        else (let out = (case map_get (kc_EvictionHard kc) signalMemoryAvailable of
                  Some v \<Rightarrow> map_set ResourceMemory (computeEvictionSignal e ResourceMemory memory v) computed | None \<Rightarrow> computed)
          in case map_get (kc_EvictionHard kc) signalNodeFSAvailable of
                  Some v \<Rightarrow> map_set ResourceEphemeralStorage (computeEvictionSignal e ResourceEphemeralStorage storage v) out | None \<Rightarrow> out))"

definition kcMaxPods :: "int \<Rightarrow> KubeletConfiguration option \<Rightarrow> int \<Rightarrow> int" where
  "kcMaxPods nodeClassMaxPods kc cpus = (case Option.bind kc kc_PodsPerCore of
      Some ppc \<Rightarrow> if ppc > 0 \<and> ppc * cpus < nodeClassMaxPods then ppc * cpus else nodeClassMaxPods
    | None \<Rightarrow> nodeClassMaxPods)"

subsection \<open>Capacity\<close>

definition staticKubeProxyCPUMilliCore :: int where "staticKubeProxyCPUMilliCore = 100"

definition gpuCount :: "MachineType \<Rightarrow> int" where
  "gpuCount mt = foldl (\<lambda>n a. n + acc_Count a) 0 (pb_Accelerators mt)"

definition extractGPUName :: "MachineType \<Rightarrow> string" where
  "extractGPUName mt = (case pb_Accelerators mt of a # _ \<Rightarrow> acc_Type a | [] \<Rightarrow> [])"

definition gpuClientsPerGPU :: "GCENodeClass \<Rightarrow> int" where
  "gpuClientsPerGPU nc = (case GPUSharing (ncl_Spec nc) of None \<Rightarrow> 1
     | Some g \<Rightarrow> if gs_MaxSharedClientsPerGPU g < 1 then 1 else gs_MaxSharedClientsPerGPU g)"

definition visibleCPUs :: "MachineType \<Rightarrow> GCENodeClass \<Rightarrow> int" where
  "visibleCPUs mt nc = (let cpus = GetGuestCpus mt in case AdvancedFeatures (ncl_Spec nc) of None \<Rightarrow> cpus
     | Some amf \<Rightarrow> if amf_ThreadsPerCore amf = Some 1 \<and> cpus \<ge> 2 then cpus div 2 else cpus)"

definition memory :: "it_env \<Rightarrow> MachineType \<Rightarrow> int" where
  "memory e mt = (let totalQuantity = GetMemoryMb mt * 1024 * 1024 in
     totalQuantity - float_to_int (fmul (float_of_int totalQuantity) (ite_VMMemoryOverheadPercent e)))"

definition calculateDiskConfigGiB :: "GCENodeClass \<Rightarrow> MachineType \<Rightarrow> int \<Rightarrow> int \<times> int" where
  "calculateDiskConfigGiB nc mt ssdCount =
     (case List.find (\<lambda>disk. d_Boot disk \<and> d_SizeGiB disk > 0) (Disks (ncl_Spec nc)) of Some disk \<Rightarrow> d_SizeGiB disk | None \<Rightarrow> 100,
      TotalGiB (GetName mt) ssdCount)"

definition computeCapacity :: "it_env \<Rightarrow> MachineType \<Rightarrow> GCENodeClass \<Rightarrow> int \<Rightarrow> resources" where
  "computeCapacity e mt nc totalStorageBytes = [(ResourceCPU, 1000 * visibleCPUs mt nc), (ResourceMemory, memory e mt),
     (ResourcePods, kcMaxPods (GetMaxPods nc) (KubeletConfig (ncl_Spec nc)) (visibleCPUs mt nc)),
     (ResourceEphemeralStorage, totalStorageBytes), (ResourceNVIDIAGPU, gpuCount mt * gpuClientsPerGPU nc)]"

definition NewStaticInstanceType :: "it_env \<Rightarrow> MachineType \<Rightarrow> GCENodeClass \<Rightarrow> int \<Rightarrow> instance_type" where
  "NewStaticInstanceType e mt nc ssdCount = (let
      (bootDiskGiB, totalSSDGiB) = calculateDiskConfigGiB nc mt ssdCount;
      (ssdGiB, ssds) = (if LocalSsdMode (ncl_Spec nc) \<noteq> LocalSSDModeEphemeral then (0, 0) else (totalSSDGiB, ssdCount));
      totalStorageBytes = (if ssdGiB = 0 then bootDiskGiB else ssdGiB) * 1024 * 1024 * 1024;
      (reservedCPU, reservedMemory, evictionMemory, ephemeralEviction, ephemeralSystem) =
        ResolveReservedResource (GetName mt) (visibleCPUs mt nc * 1000) (GetMemoryMb mt) bootDiskGiB ssdGiB ssds;
      kc = KubeletConfig (ncl_Spec nc);
      computedKubeReserved = [(ResourceCPU, reservedCPU), (ResourceMemory, reservedMemory * 1024 * 1024),
        (ResourceEphemeralStorage, ephemeralSystem * 1024 * 1024 * 1024)];
      computedSystemReserved = [(ResourceCPU, staticKubeProxyCPUMilliCore)];
      computedEviction = [(ResourceMemory, evictionMemory * 1024 * 1024), (ResourceEphemeralStorage, ephemeralEviction * 1024 * 1024 * 1024)]
    in \<lparr>it_name = GetName mt, it_requirements = NewRequirements [], it_offerings = [],
        it_capacity = computeCapacity e mt nc totalStorageBytes,
        it_kubeReserved = mergeKubeReserved e computedKubeReserved kc,
        it_systemReserved = kcSystemReserved e computedSystemReserved kc,
        it_evictionThreshold = evictionThreshold e (memory e mt) totalStorageBytes computedEviction kc\<rparr>)"

subsection \<open>Labels\<close>

definition localSSDCountRequirement :: "int \<Rightarrow> requirement" where
  "localSSDCountRequirement ssdCount = NewRequirement LabelInstanceLocalSsdCount OpIn [itoa ssdCount]"

text \<open>\<^verbatim>\<open>string(prefix[len(prefix)-offset])\<close>, with the panic on an empty prefix.\<close>

definition extractGeneration :: "string \<Rightarrow> string option" where
  "extractGeneration pre = (if pre = [] then None else Some [pre ! (length pre - (if length pre = 3 then 2 else 1))])"

definition machineTypeArch :: "MachineType \<Rightarrow> string" where
  "machineTypeArch mt = (if GetArchitecture mt = ''ARM64'' then ''arm64'' else if GetArchitecture mt = ''X86_64'' then ''amd64'' else ''amd64'')"

text \<open>\<^verbatim>\<open>requirements.Get(key).Insert(value)\<close>: a requirement that is missing would be made and dropped again.\<close>

definition req_insert :: "string \<Rightarrow> string \<Rightarrow> requirements \<Rightarrow> requirements" where
  "req_insert key v rs = (case map_get rs key of None \<Rightarrow> rs
     | Some r \<Rightarrow> map_set key (r\<lparr>req_values := if v \<in> set (req_values r) then req_values r else req_values r @ [v]\<rparr>) rs)"

definition offering_values :: "it_env \<Rightarrow> string \<Rightarrow> offering list \<Rightarrow> string list" where
  "offering_values e key os = map (\<lambda>f. req_any (ite_rand e) (reqs_get (of_requirements f) key)) (offerings_available os)"

definition base_requirements :: "it_env \<Rightarrow> MachineType \<Rightarrow> offering list \<Rightarrow> int \<Rightarrow> requirements" where
  "base_requirements e mt offerings ssdCount = foldl reqs_add (NewRequirements
     ([NewRequirement LabelInstanceTypeStable OpIn [GetName mt], NewRequirement LabelArchStable OpDoesNotExist [],
       NewRequirement LabelOSStable OpIn [''linux''],
       NewRequirement LabelTopologyZone OpIn (offering_values e LabelTopologyZone offerings),
       NewRequirement LabelTopologyRegion OpIn [ite_region e], NewRequirement LabelWindowsBuild OpDoesNotExist [],
       NewRequirement CapacityTypeLabelKey OpIn (offering_values e CapacityTypeLabelKey offerings),
       NewRequirement LabelInstanceCPU OpIn [itoa (GetGuestCpus mt)], NewRequirement LabelInstanceMemory OpIn [itoa (GetMemoryMb mt)],
       NewRequirement LabelInstanceBareMetal OpIn [if IsBareMetalInstanceType (GetName mt) then ''true'' else ''false'']]
      @ map (\<lambda>l. NewRequirement l OpDoesNotExist []) [LabelInstanceFamily, LabelInstanceShape, LabelInstanceGeneration, LabelInstanceSize,
       LabelInstanceGPUName, LabelInstanceGPUManufacturer, LabelInstanceGPUCount, LabelInstanceGPUMemory, LabelGKEAccelerator,
       LabelGKEGPUSharingStrategy, LabelGKEMaxSharedClientsPerGPU]))
     (localSSDCountRequirement ssdCount # map (\<lambda>l. NewRequirement l OpDoesNotExist []) (AllLabels (ite_compat e)))"

definition disk_requirements :: "it_env \<Rightarrow> MachineType \<Rightarrow> requirements \<Rightarrow> requirements" where
  "disk_requirements e mt rs = (case LabelsForInstanceType (ite_compat e) (GetName mt) of None \<Rightarrow> rs
     | Some ls \<Rightarrow> foldl (\<lambda>rs (label, _). req_insert label ''true'' rs) rs ls)"

definition zone_id_requirements :: "it_env \<Rightarrow> offering list \<Rightarrow> requirements \<Rightarrow> requirements" where
  "zone_id_requirements e offerings rs = (let zoneIDs = filter (\<lambda>z. z \<noteq> []) (offering_values e LabelTopologyZoneID offerings) in
     if zoneIDs \<noteq> [] then reqs_add rs (NewRequirement LabelTopologyZoneID OpIn zoneIDs) else rs)"

definition gpu_requirements :: "MachineType \<Rightarrow> GPUSharingConfig option \<Rightarrow> requirements \<Rightarrow> requirements" where
  "gpu_requirements mt gpuSharing rs = (if pb_Accelerators mt = [] then rs
     else let rs = req_insert LabelInstanceGPUName (extractGPUName mt) rs;
              rs = req_insert LabelInstanceGPUCount (itoa (gpuCount mt)) rs;
              rs = req_insert LabelGKEAccelerator (extractGPUName mt) rs
       in case gpuSharing of None \<Rightarrow> rs
         | Some g \<Rightarrow> req_insert LabelGKEMaxSharedClientsPerGPU (itoa (gs_MaxSharedClientsPerGPU g))
             (req_insert LabelGKEGPUSharingStrategy (GKEValue (gs_Strategy g)) rs))"

definition name_requirements :: "MachineType \<Rightarrow> requirements \<Rightarrow> requirements option" where
  "name_requirements mt rs = (let parts = split_on CHR ''-'' (GetName mt) in
     if length parts < 2 then Some rs
     else (case extractGeneration (parts ! 0) of None \<Rightarrow> None
       | Some generation \<Rightarrow> (let
           rs = req_insert LabelInstanceSize (parts ! (length parts - (if length parts > 3 then 2 else 1))) rs;
           rs = req_insert LabelInstanceGeneration generation rs;
           rs = req_insert LabelInstanceFamily (parts ! 0) rs;
           rs = req_insert LabelInstanceShape (parts ! 1) rs
         in Some (req_insert LabelArchStable (machineTypeArch mt) rs))))"

definition computeRequirements :: "it_env \<Rightarrow> MachineType \<Rightarrow> offering list \<Rightarrow> int \<Rightarrow> GPUSharingConfig option \<Rightarrow> requirements option" where
  "computeRequirements e mt offerings ssdCount gpuSharing = name_requirements mt (gpu_requirements mt gpuSharing
     (zone_id_requirements e offerings (disk_requirements e mt (base_requirements e mt offerings ssdCount))))"

text \<open>\<^verbatim>\<open>NewInstanceType\<close>, given offerings that are not nil.\<close>

definition NewInstanceType :: "it_env \<Rightarrow> MachineType \<Rightarrow> GCENodeClass \<Rightarrow> offering list \<Rightarrow> int \<Rightarrow> instance_type option" where
  "NewInstanceType e mt nc offerings ssdCount =
     map_option (\<lambda>rs. (NewStaticInstanceType e mt nc ssdCount)\<lparr>it_requirements := rs, it_offerings := offerings\<rparr>)
       (computeRequirements e mt offerings ssdCount (GPUSharing (ncl_Spec nc)))"

end
