(* ===== verification/Pricing.thy ===== *)
theory Pricing
  imports Go_Float Go_Errors
begin

text \<open>
  Prices, \<^verbatim>\<open>pkg/providers/pricing\<close>, and their refresh, \<^verbatim>\<open>pkg/controllers/providers/pricing\<close>. The embedded price list and the web server are
  arguments; what \<^verbatim>\<open>csv.Reader\<close> reads from a response is the list of its records and errors. Prices are doubles.
\<close>

type_synonym pricesStorage = "(string, rat) gomap"

record Prices =
  OnDemand :: pricesStorage
  Spot :: pricesStorage

subsection \<open>The price list\<close>

type_synonym csv_reads = "(go_error + string list) list"

definition find_column :: "string \<Rightarrow> string list \<Rightarrow> nat option" where
  "find_column name header = fold (\<lambda>(i, h) c. if to_lower h = name then Some i else c) (List.enumerate 0 header) None"

definition findColumns :: "string list \<Rightarrow> go_error + nat \<times> nat \<times> nat \<times> nat" where
  "findColumns header = (case (find_column ''name'' header, find_column ''region'' header, find_column ''hour'' header, find_column ''hourspot'' header) of
      (Some n, Some r, Some h, Some sp) \<Rightarrow> Inr (n, r, h, sp)
    | _ \<Rightarrow> Inl (Errorf ''CSV missing required columns (name/region/hour/hourSpot); got: %v'' header []))"

definition region_prices :: "(string, Prices) gomap \<Rightarrow> string \<Rightarrow> Prices" where
  "region_prices m region = (case map_get m region of Some p \<Rightarrow> p | None \<Rightarrow> \<lparr>OnDemand = [], Spot = []\<rparr>)"

definition add_row :: "nat \<times> nat \<times> nat \<times> nat \<Rightarrow> string list \<Rightarrow> (string, Prices) gomap \<Rightarrow> (string, Prices) gomap" where
  "add_row cols rec result = (case cols of (nameCol, regionCol, onDemandCol, spotCol) \<Rightarrow>
     if length rec \<le> max (max nameCol regionCol) (max onDemandCol spotCol) then result
     else (case ParseFloat (rec ! onDemandCol) of None \<Rightarrow> result
       | Some onDemand \<Rightarrow> if onDemand = 0 then result
           else (let p = region_prices result (rec ! regionCol);
                     p = p\<lparr>OnDemand := map_set (rec ! nameCol) onDemand (OnDemand p)\<rparr>;
                     p = (case ParseFloat (rec ! spotCol) of
                         Some spot \<Rightarrow> if spot > 0 then p\<lparr>Spot := map_set (rec ! nameCol) spot (Spot p)\<rparr> else p
                       | None \<Rightarrow> p)
             in map_set (rec ! regionCol) p result)))"

fun readRows :: "nat \<times> nat \<times> nat \<times> nat \<Rightarrow> csv_reads \<Rightarrow> (string, Prices) gomap \<Rightarrow> go_error + (string, Prices) gomap" where
  "readRows cols [] result = Inr result"
| "readRows cols (Inl err # rs) result = Inl (Errorf ''reading CSV row: %w'' [] [err])"
| "readRows cols (Inr rec # rs) result = readRows cols rs (add_row cols rec result)"

definition parseCSV :: "csv_reads \<Rightarrow> go_error + (string, Prices) gomap" where
  "parseCSV rs = (case rs of
      [] \<Rightarrow> Inl (Errorf ''reading CSV header: %w'' [] [SentinelError ''EOF''])
    | Inl err # _ \<Rightarrow> Inl (Errorf ''reading CSV header: %w'' [] [err])
    | Inr header # rs \<Rightarrow> (case findColumns header of Inl err \<Rightarrow> Inl err | Inr cols \<Rightarrow> readRows cols rs []))"

text \<open>The web server: an error, or a status code with the records of the body.\<close>

type_synonym 's price_server = "'s \<Rightarrow> (go_error + int \<times> csv_reads) \<times> 's"

definition fetchAll :: "'s price_server \<Rightarrow> 's \<Rightarrow> (go_error + (string, Prices) gomap) \<times> 's" where
  "fetchAll srv s = (case srv s of
      (Inl err, s) \<Rightarrow> (Inl (Errorf ''fetching Cyclenerd CSV: %w'' [] [err]), s)
    | (Inr (status, body), s) \<Rightarrow> (if status \<noteq> 200 then Inl (Errorf ''cyclenerd CSV: HTTP %d'' [itoa status] []) else parseCSV body, s))"

definition FetchRegionPrices :: "'s price_server \<Rightarrow> string \<Rightarrow> 's \<Rightarrow> (go_error + Prices) \<times> 's" where
  "FetchRegionPrices srv region s = (case fetchAll srv s of
      (Inl err, s) \<Rightarrow> (Inl err, s) | (Inr m, s) \<Rightarrow> (Inr (region_prices m region), s))"

subsection \<open>The provider\<close>

record pricing_state =
  pr_region :: string
  pr_onDemandPrices :: pricesStorage
  pr_spotPrices :: pricesStorage

definition SpotFallbackRatio :: rat where "SpotFallbackRatio = fl (4 / 10)"

definition pricing_Reset :: "go_error + (string, Prices) gomap \<Rightarrow> pricing_state \<Rightarrow> go_error option \<times> pricing_state" where
  "pricing_Reset initial p = (case initial of
      Inl err \<Rightarrow> (Some (Errorf ''parsing initial-prices.json: %w'' [] [err]), p)
    | Inr data \<Rightarrow> if \<not> map_has data (pr_region p) \<or> OnDemand (region_prices data (pr_region p)) = []
        then (Some (Errorf ''no initial prices found for region %s'' [pr_region p] []), p)
        else (None, p\<lparr>pr_onDemandPrices := OnDemand (region_prices data (pr_region p)), pr_spotPrices := []\<rparr>))"

definition NewPricingProvider :: "go_error + (string, Prices) gomap \<Rightarrow> string \<Rightarrow> go_error + pricing_state" where
  "NewPricingProvider initial region = (case pricing_Reset initial \<lparr>pr_region = region, pr_onDemandPrices = [], pr_spotPrices = []\<rparr> of
      (Some err, p) \<Rightarrow> Inl err | (None, p) \<Rightarrow> Inr p)"

definition pricing_LivenessProbe :: "pricing_state \<Rightarrow> go_error option" where
  "pricing_LivenessProbe p = (if pr_onDemandPrices p = [] then Some (Errorf ''pricing provider has no on-demand prices loaded'' [] []) else None)"

definition pricing_InstanceTypes :: "pricing_state \<Rightarrow> string list" where
  "pricing_InstanceTypes p = map fst (pr_onDemandPrices p)"

definition OnDemandPrice :: "pricing_state \<Rightarrow> string \<Rightarrow> rat option" where
  "OnDemandPrice p instanceType = map_get (pr_onDemandPrices p) instanceType"

definition SpotPrice :: "pricing_state \<Rightarrow> string \<Rightarrow> string \<Rightarrow> rat option" where
  "SpotPrice p instanceType zone = (case map_get (pr_spotPrices p) instanceType of
      Some price \<Rightarrow> Some price
    | None \<Rightarrow> map_option (\<lambda>od. fmul od SpotFallbackRatio) (map_get (pr_onDemandPrices p) instanceType))"

definition UpdatePrices :: "'s price_server option \<Rightarrow> pricing_state \<Rightarrow> 's \<Rightarrow> go_error option \<times> pricing_state \<times> 's" where
  "UpdatePrices client p s = (case client of None \<Rightarrow> (Some (Errorf ''client is nil: cannot update prices'' [] []), p, s)
    | Some srv \<Rightarrow> (case FetchRegionPrices srv (pr_region p) s of
        (Inl err, s) \<Rightarrow> (Some (Errorf ''fetching prices for %s: %w'' [pr_region p] [err]), p, s)
      | (Inr prices, s) \<Rightarrow> if OnDemand prices = [] then (Some (Errorf ''no prices retrieved for region %s'' [pr_region p] []), p, s)
          else (None, p\<lparr>pr_onDemandPrices := OnDemand prices, pr_spotPrices := Spot prices\<rparr>, s)))"

definition priceRefreshInterval :: duration where "priceRefreshInterval = 12 * 3600 * 10 ^ 9"

definition pricing_Reconcile :: "'s price_server option \<Rightarrow> pricing_state \<Rightarrow> 's \<Rightarrow> (duration \<times> go_error option) \<times> pricing_state \<times> 's" where
  "pricing_Reconcile client p s = (case UpdatePrices client p s of
      (Some err, p, s) \<Rightarrow> ((0, Some (Errorf ''updating pricing, %w'' [] [err])), p, s)
    | (None, p, s) \<Rightarrow> ((priceRefreshInterval, None), p, s))"

subsection \<open>Prices are always there\<close>

definition prices_match :: "Prices \<Rightarrow> bool" where
  "prices_match p \<longleftrightarrow> dom (map_of (Spot p)) \<subseteq> dom (map_of (OnDemand p))"

lemma add_row_match:
  assumes "\<forall>p \<in> ran (map_of m). prices_match p"
  shows "\<forall>p \<in> ran (map_of (add_row cols rec m)). prices_match p"
proof -
  obtain n r h sp where c: "cols = (n, r, h, sp)" by (cases cols)
  let ?p = "region_prices m (rec ! r)"
  have "prices_match ?p" using assms by (auto simp: region_prices_def prices_match_def ran_def map_get_def split: option.splits)
  then have "prices_match (?p\<lparr>OnDemand := map_set k x (OnDemand ?p)\<rparr>)"
    "prices_match (?p\<lparr>OnDemand := map_set k x (OnDemand ?p), Spot := map_set k y (Spot ?p)\<rparr>)" for k x y
    by (auto simp: prices_match_def map_set_def update_conv')
  then show ?thesis using assms
    by (auto simp: add_row_def c Let_def map_set_def update_conv' ran_def split: option.splits if_splits)
qed

lemma readRows_match:
  "readRows cols rs m = Inr m' \<Longrightarrow> \<forall>p \<in> ran (map_of m). prices_match p \<Longrightarrow> \<forall>p \<in> ran (map_of m'). prices_match p"
proof (induction cols rs m rule: readRows.induct)
  case (3 cols rec rs result)
  then show ?case using add_row_match [of result cols rec] by simp
qed auto

lemma FetchRegionPrices_match:
  assumes "FetchRegionPrices srv region s = (Inr p, s')"
  shows "prices_match p"
proof -
  obtain rs m where m: "parseCSV rs = Inr m" "p = region_prices m region"
    using assms by (auto simp: FetchRegionPrices_def fetchAll_def split: prod.splits sum.splits if_splits)
  then obtain cols rs' where "readRows cols rs' [] = Inr m"
    by (auto simp: parseCSV_def split: list.splits sum.splits)
  from readRows_match [OF this] have "\<forall>p \<in> ran (map_of m). prices_match p" by simp
  then show ?thesis by (auto simp: m(2) region_prices_def prices_match_def ran_def map_get_def split: option.splits)
qed

inductive pricing_reachable :: "go_error + (string, Prices) gomap \<Rightarrow> 's price_server option \<Rightarrow> pricing_state \<Rightarrow> bool" for initial client where
  created: "NewPricingProvider initial region = Inr p \<Longrightarrow> pricing_reachable initial client p"
| updated: "pricing_reachable initial client p \<Longrightarrow> UpdatePrices client p s = (r, p', s') \<Longrightarrow> pricing_reachable initial client p'"
| reset: "pricing_reachable initial client p \<Longrightarrow> pricing_Reset initial p = (r, p') \<Longrightarrow> pricing_reachable initial client p'"

definition pricing_ok :: "pricing_state \<Rightarrow> bool" where
  "pricing_ok p \<longleftrightarrow> pr_onDemandPrices p \<noteq> [] \<and> dom (map_of (pr_spotPrices p)) \<subseteq> dom (map_of (pr_onDemandPrices p))"

lemma Reset_ok: "pricing_Reset initial p = (r, p') \<Longrightarrow> r = None \<or> pricing_ok p \<Longrightarrow> pricing_ok p'"
  by (auto simp: pricing_Reset_def pricing_ok_def split: sum.splits if_splits)

lemma UpdatePrices_ok:
  assumes "UpdatePrices client p s = (r, p', s')" "pricing_ok p"
  shows "pricing_ok p' \<and> (r \<noteq> None \<longrightarrow> p' = p)"
proof -
  show ?thesis
  proof (cases client)
    case None
    with assms show ?thesis by (simp add: UpdatePrices_def)
  next
    case (Some srv)
    obtain q s1 where f: "FetchRegionPrices srv (pr_region p) s = (q, s1)" by (metis prod.exhaust)
    show ?thesis
    proof (cases q)
      case (Inl err)
      with assms Some f show ?thesis by (simp add: UpdatePrices_def)
    next
      case (Inr prices)
      with FetchRegionPrices_match f have "prices_match prices" by metis
      with assms Some f Inr show ?thesis by (cases "OnDemand prices = []") (simp_all add: UpdatePrices_def pricing_ok_def prices_match_def, clarify, simp)
    qed
  qed
qed

lemma pricing_reachable_ok: "pricing_reachable initial client p \<Longrightarrow> pricing_ok p"
proof (induction rule: pricing_reachable.induct)
  case (created region p)
  then show ?case by (auto simp: NewPricingProvider_def split: prod.splits option.splits dest: Reset_ok)
next
  case (updated p s r p' s')
  then show ?case using UpdatePrices_ok [OF updated.hyps(2) updated.IH] by simp
next
  case (reset p r p')
  then show ?case using Reset_ok [OF reset.hyps(2)] by simp
qed

text \<open>C39: From its creation on, whatever updates succeed or fail, the provider has on-demand prices, so that its liveness probe passes, and it has a
  spot price for exactly the instance types it has an on-demand price of. A failed refresh keeps the prices.\<close>

theorem prices_always_there:
  assumes "pricing_reachable initial client p" "pricing_Reconcile client p s = ((after, err), p', s')"
  shows "pricing_LivenessProbe p = None \<and> (SpotPrice p t zone \<noteq> None \<longleftrightarrow> OnDemandPrice p t \<noteq> None)
    \<and> (err \<noteq> None \<longrightarrow> p' = p) \<and> pricing_LivenessProbe p' = None"
proof -
  have ok: "pricing_ok p" by (rule pricing_reachable_ok [OF assms(1)])
  have up: "pricing_ok p' \<and> (err \<noteq> None \<longrightarrow> p' = p)"
    using assms(2) UpdatePrices_ok [of client p s _ p' s', OF _ ok]
    by (auto simp: pricing_Reconcile_def split: prod.splits option.splits)
  have "SpotPrice p t zone \<noteq> None \<longleftrightarrow> OnDemandPrice p t \<noteq> None"
    using ok by (auto simp: SpotPrice_def OnDemandPrice_def pricing_ok_def dom_def map_get_def split: option.splits)
  with ok up show ?thesis by (simp add: pricing_LivenessProbe_def pricing_ok_def)
qed

theorem prices_always_there_witness:
  "\<exists>p. NewPricingProvider (Inr [(''r'', \<lparr>OnDemand = [(''e2-small'', 1)], Spot = []\<rparr>)]) ''r'' = Inr p \<and> pricing_LivenessProbe p = None
     \<and> SpotPrice p ''e2-small'' ''r-a'' \<noteq> None
     \<and> fst (snd (pricing_Reconcile (Some (\<lambda>s :: unit. (Inr (503, []), s))) p ())) = p"
proof -
  let ?i = "Inr [(''r'', \<lparr>OnDemand = [(''e2-small'', 1)], Spot = []\<rparr>)]"
  let ?p = "\<lparr>pr_region = ''r'', pr_onDemandPrices = [(''e2-small'', 1)], pr_spotPrices = []\<rparr>"
  let ?c = "Some (\<lambda>s :: unit. (Inr (503, []), s))"
  have n: "NewPricingProvider ?i ''r'' = Inr ?p"
    by (simp add: NewPricingProvider_def pricing_Reset_def region_prices_def map_has_def map_get_def)
  obtain after err p' s' where r: "pricing_Reconcile ?c ?p () = ((after, err), p', s')" by (metis prod.exhaust)
  have e: "snd (fst (pricing_Reconcile ?c ?p ())) \<noteq> None"
    by (simp add: pricing_Reconcile_def UpdatePrices_def FetchRegionPrices_def fetchAll_def)
  have od: "OnDemandPrice ?p ''e2-small'' \<noteq> None" by (simp add: OnDemandPrice_def map_get_def)
  from prices_always_there [OF pricing_reachable.created [OF n, of ?c] r, of "''e2-small''" "''r-a''"] od n e r show ?thesis
    by (intro exI [of _ ?p]) simp
qed

end
