(* ===== verification/Instance_Catalog.thy ===== *)
theory Instance_Catalog
  imports Instance_Type Pricing Custom_Machine_Types Unavailable_Offerings
begin

text \<open>
  The instance type provider, \<^verbatim>\<open>pkg/providers/instancetype/instancetype.go\<close>, and the controller that refreshes it, \<^verbatim>\<open>pkg/controllers/providers/instancetype\<close>: the catalog of
  machine types, the shapes cached per node class, and the offerings that every \<^verbatim>\<open>List\<close> computes anew. The mutexes make each operation atomic.
  The cloud, the cluster zones, prices and unavailable offerings are read from an outside state; \<^verbatim>\<open>hashstructure\<close> is an argument.
\<close>

record ZoneData =
  zd_ID :: string
  zd_Available :: bool
  zd_SpotAvailable :: bool

record customMachineTypePrice =
  cp_onDemand :: rat
  cp_spot :: rat

record staticInstanceType =
  sit_machineType :: MachineType
  sit_instanceType :: instance_type
  sit_ssdCount :: int
  sit_gpuSharing :: "GPUSharingConfig option"

record itp_state =
  itp_byName :: "(string, MachineType) gomap"
  itp_offerings :: "(string, string list) gomap"
  itp_seqNum :: "64 word"
  itp_monitor :: "nat gocache" \<comment> \<open>\<^verbatim>\<open>pretty.ChangeMonitor\<close>: the last hash seen\<close>
  itp_customPrices :: "(string, customMachineTypePrice) gomap"
  itp_static :: "staticInstanceType list gocache"

record 's itp_deps =
  id_env :: it_env
  id_ResolveClusterZones :: "'s \<Rightarrow> (go_error + string list) \<times> 's"
  id_pricing :: "'s \<Rightarrow> pricing_state"
  id_unavailable :: "'s \<Rightarrow> uo_state"
  id_now :: "'s \<Rightarrow> instant"
  id_pages :: "'s \<Rightarrow> (MachineType list list \<times> go_error option) \<times> 's" \<comment> \<open>what the iterator yields before its error or its end\<close>
  id_registrations :: "'s \<Rightarrow> go_error + GCECustomMachineType list"
  id_hashKubelet :: "KubeletConfiguration option \<Rightarrow> nat"
  id_hashDisks :: "Disk list \<Rightarrow> nat"
  id_hashGPUSharing :: "GPUSharingConfig option \<Rightarrow> nat"
  id_hashTypes :: "(string, MachineType) gomap \<Rightarrow> nat"

definition StaticInstanceTypesCacheTTL :: duration where "StaticInstanceTypesCacheTTL = 30 * 3600 * 10 ^ 9"

definition NewCatalog :: itp_state where
  "NewCatalog = \<lparr>itp_byName = [], itp_offerings = [], itp_seqNum = 0, itp_monitor = newCache (24 * 3600 * 10 ^ 9),
     itp_customPrices = [], itp_static = newCache StaticInstanceTypesCacheTTL\<rparr>"

definition GetMachineType :: "itp_state \<Rightarrow> string \<Rightarrow> MachineType option" where
  "GetMachineType st name = map_get (itp_byName st) name"

subsection \<open>Shapes\<close>

definition ssdCountVariants :: "MachineType \<Rightarrow> int list" where
  "ssdCountVariants mt = (let name = GetName mt in
     if FamilySupportsConfigurableLocalSSDs name then 0 # AllowedLocalSSDCounts name (GetGuestCpus mt)
     else (case pb_BundledLocalSsds mt of
         Some pc \<Rightarrow> (case pc of Some n \<Rightarrow> if n > 0 then [n] else [] | None \<Rightarrow> [])
       | None \<Rightarrow> [0]))"

definition static_types :: "it_env \<Rightarrow> (string, MachineType) gomap \<Rightarrow> GCENodeClass \<Rightarrow> staticInstanceType list" where
  "static_types e byName nc = concat (map (\<lambda>name. case map_get byName name of None \<Rightarrow> []
     | Some mt \<Rightarrow> if GetName mt = [] \<or> pb_MemoryMb mt = None \<or> pb_GuestCpus mt = None then []
         else map (\<lambda>ssdCount. \<lparr>sit_machineType = mt, sit_instanceType = NewStaticInstanceType e mt nc ssdCount, sit_ssdCount = ssdCount,
           sit_gpuSharing = GPUSharing (ncl_Spec nc)\<rparr>) (ssdCountVariants mt)) (sort_strings (map fst byName)))"

definition threads_per_core :: "GCENodeClass \<Rightarrow> int" where
  "threads_per_core nc = (case Option.bind (AdvancedFeatures (ncl_Spec nc)) amf_ThreadsPerCore of Some n \<Rightarrow> n | None \<Rightarrow> 0)"

definition static_key :: "'s itp_deps \<Rightarrow> itp_state \<Rightarrow> GCENodeClass \<Rightarrow> string" where
  "static_key d st nc = (let spec = ncl_Spec nc in
     utoa (unat (itp_seqNum st)) @ ''-'' @ utoa (id_hashKubelet d (KubeletConfig spec)) @ ''-'' @ utoa (id_hashDisks d (Disks spec)) @ ''-''
     @ LocalSsdMode spec @ ''-'' @ utoa (id_hashGPUSharing d (GPUSharing spec)) @ ''-'' @ itoa (threads_per_core nc))"

definition getStaticInstanceTypes :: "'s itp_deps \<Rightarrow> GCENodeClass \<Rightarrow> itp_state \<Rightarrow> 's \<Rightarrow> staticInstanceType list \<times> itp_state" where
  "getStaticInstanceTypes d nc st s = (let key = static_key d st nc in case cache_get (id_now d s) key (itp_static st) of
      Some its \<Rightarrow> (its, st)
    | None \<Rightarrow> (let its = static_types (id_env d) (itp_byName st) nc in
        (its, st\<lparr>itp_static := cache_set (id_now d s) key its 0 (itp_static st)\<rparr>)))"

subsection \<open>Offerings\<close>

definition buildZoneData :: "itp_state \<Rightarrow> string \<Rightarrow> string list \<Rightarrow> ZoneData list" where
  "buildZoneData st instanceType zones = map (\<lambda>z. \<lparr>zd_ID = z,
     zd_Available = (case map_get (itp_offerings st) instanceType of Some ofs \<Rightarrow> z \<in> set ofs | None \<Rightarrow> False), zd_SpotAvailable = True\<rparr>) zones"

definition createOffering :: "string \<Rightarrow> string \<Rightarrow> rat \<Rightarrow> bool \<Rightarrow> offering" where
  "createOffering zone capacityType price available = \<lparr>of_requirements = NewRequirements
      [NewRequirement CapacityTypeLabelKey OpIn [capacityType], NewRequirement LabelTopologyZone OpIn [zone],
       NewRequirement LabelTopologyZoneID OpIn [zone]], of_price = price, of_available = available\<rparr>"

definition offering_prices :: "'s itp_deps \<Rightarrow> itp_state \<Rightarrow> string \<Rightarrow> string \<Rightarrow> 's \<Rightarrow> rat option \<times> rat option" where
  "offering_prices d st instanceType zone s = (case map_get (itp_customPrices st) instanceType of
      Some custom \<Rightarrow> (Some (cp_onDemand custom), Some (cp_spot custom))
    | None \<Rightarrow> (OnDemandPrice (id_pricing d s) instanceType, SpotPrice (id_pricing d s) instanceType zone))"

definition zone_offerings :: "'s itp_deps \<Rightarrow> itp_state \<Rightarrow> string \<Rightarrow> 's \<Rightarrow> ZoneData \<Rightarrow> offering list" where
  "zone_offerings d st instanceType s zone = (if \<not> zd_Available zone then []
     else (case offering_prices d st instanceType (zd_ID zone) s of (odPrice, spotPrice) \<Rightarrow>
       (case odPrice of None \<Rightarrow> [] | Some price \<Rightarrow> [createOffering (zd_ID zone) CapacityTypeOnDemand price
          (\<not> IsUnavailable (id_now d s) instanceType (zd_ID zone) CapacityTypeOnDemand (id_unavailable d s) \<and> zd_Available zone)])
       @ (case spotPrice of None \<Rightarrow> [] | Some price \<Rightarrow> if zd_SpotAvailable zone then [createOffering (zd_ID zone) CapacityTypeSpot price
          (\<not> IsUnavailable (id_now d s) instanceType (zd_ID zone) CapacityTypeSpot (id_unavailable d s) \<and> zd_Available zone)] else [])))"

definition createOfferings :: "'s itp_deps \<Rightarrow> itp_state \<Rightarrow> MachineType \<Rightarrow> ZoneData list \<Rightarrow> 's \<Rightarrow> offering list" where
  "createOfferings d st mt zones s = concat (map (zone_offerings d st (GetName mt) s) zones)"

text \<open>\<open>None\<close> is the panic of \<^verbatim>\<open>computeRequirements\<close>.\<close>

fun injectOfferings :: "'s itp_deps \<Rightarrow> itp_state \<Rightarrow> string list \<Rightarrow> 's \<Rightarrow> staticInstanceType list \<Rightarrow> instance_type list option" where
  "injectOfferings d st zones s [] = Some []"
| "injectOfferings d st zones s (cached # rest) = (let
      zoneData = buildZoneData st (it_name (sit_instanceType cached)) zones;
      offerings = createOfferings d st (sit_machineType cached) zoneData s
    in if offerings = [] then injectOfferings d st zones s rest
       else (case computeRequirements (id_env d) (sit_machineType cached) offerings (sit_ssdCount cached) (sit_gpuSharing cached) of None \<Rightarrow> None
         | Some rs \<Rightarrow> map_option ((#) ((sit_instanceType cached)\<lparr>it_offerings := offerings, it_requirements := rs\<rparr>)) (injectOfferings d st zones s rest)))"

definition validateState :: "itp_state \<Rightarrow> go_error option" where
  "validateState st = (if itp_byName st = [] then Some (Errorf ''no instance types found'' [] []) else None)"

definition catalog_List :: "'s itp_deps \<Rightarrow> GCENodeClass \<Rightarrow> itp_state \<Rightarrow> 's \<Rightarrow> ((go_error + instance_type list) \<times> itp_state \<times> 's) option" where
  "catalog_List d nc st s = (case validateState st of Some err \<Rightarrow> Some (Inl err, st, s)
    | None \<Rightarrow> (case id_ResolveClusterZones d s of
        (Inl err, s) \<Rightarrow> Some (Inl err, st, s)
      | (Inr zones, s) \<Rightarrow> (case getStaticInstanceTypes d nc st s of (its, st) \<Rightarrow>
          map_option (\<lambda>r. (Inr r, st, s)) (injectOfferings d st zones s its))))"

subsection \<open>Refreshing the catalog\<close>

definition getInstanceTypes :: "'s itp_deps \<Rightarrow> 's \<Rightarrow> (go_error + MachineType list) \<times> 's" where
  "getInstanceTypes d s = (case id_pages d s of
      ((pages, Some err), s) \<Rightarrow> (Inl err, s) | ((pages, None), s) \<Rightarrow> (Inr (concat pages), s))"

definition outranksCustomMachineType :: "GCECustomMachineType \<Rightarrow> GCECustomMachineType \<Rightarrow> bool" where
  "outranksCustomMachineType a b = (let ta = om_CreationTimestamp (cmt_Meta a); tb = om_CreationTimestamp (cmt_Meta b) in
     if ta \<noteq> tb then ta < tb else cmt_Name a < cmt_Name b)"

definition add_winner :: "(string, GCECustomMachineType) gomap \<Rightarrow> GCECustomMachineType \<Rightarrow> (string, GCECustomMachineType) gomap" where
  "add_winner winners obj = (if \<not> cmt_ready obj then winners
     else (case map_get winners (cmt_MachineType obj) of
         Some existing \<Rightarrow> map_set (cmt_MachineType obj) (if outranksCustomMachineType obj existing then obj else existing) winners
       | None \<Rightarrow> map_set (cmt_MachineType obj) obj winners))"

definition custom_entry :: "string \<times> GCECustomMachineType \<Rightarrow> (MachineType list \<times> (string \<times> customMachineTypePrice)) option" where
  "custom_entry w = (case w of (machineType, obj) \<Rightarrow>
     (case (ParseFloat (cmt_OnDemand obj), ParseFloat (cmt_Spot obj)) of
        (Some od, Some spot) \<Rightarrow> Some (map (\<lambda>zone. \<lparr>pb_Name = Some machineType, pb_GuestCpus = Some (cmt_GuestCpus obj),
            pb_MemoryMb = Some (cmt_MemoryMb obj), pb_Zone = Some zone, pb_Architecture = None, pb_Accelerators = [], pb_BundledLocalSsds = None\<rparr>) (cmt_Zones obj),
          (machineType, \<lparr>cp_onDemand = od, cp_spot = spot\<rparr>))
      | _ \<Rightarrow> None))"

definition listCustomMachineTypes :: "'s itp_deps \<Rightarrow> 's \<Rightarrow> go_error + MachineType list \<times> (string, customMachineTypePrice) gomap" where
  "listCustomMachineTypes d s = (case id_registrations d s of
      Inl err \<Rightarrow> Inl (Errorf ''listing GCECustomMachineTypes: %w'' [] [err])
    | Inr items \<Rightarrow> (let entries = List.map_filter custom_entry (foldl add_winner [] items) in
        Inr (concat (map fst entries), map snd entries)))"

definition indexInstanceTypesByName :: "MachineType list \<Rightarrow> (string, MachineType) gomap" where
  "indexInstanceTypesByName types = foldl (\<lambda>m mt. if GetName mt \<noteq> [] then map_set (GetName mt) mt m else m) [] types"

definition HasChanged :: "'s itp_deps \<Rightarrow> (string, MachineType) gomap \<Rightarrow> 's \<Rightarrow> nat gocache \<Rightarrow> bool \<times> nat gocache" where
  "HasChanged d v s c = (if cache_get (id_now d s) ''instance-types'' c = Some (id_hashTypes d v) then (False, c)
     else (True, cache_set (id_now d s) ''instance-types'' (id_hashTypes d v) 0 c))"

definition UpdateInstanceTypes :: "'s itp_deps \<Rightarrow> itp_state \<Rightarrow> 's \<Rightarrow> go_error option \<times> itp_state \<times> 's" where
  "UpdateInstanceTypes d st s = (case getInstanceTypes d s of
      (Inl err, s) \<Rightarrow> (Some (Errorf ''getting instance types: %w'' [] [err]), st, s)
    | (Inr types, s) \<Rightarrow> (case listCustomMachineTypes d s of
        Inl err \<Rightarrow> (Some (Errorf ''getting custom machine types: %w'' [] [err]), st, s)
      | Inr (customTypes, customPrices) \<Rightarrow> (let
          byName = indexInstanceTypesByName (types @ customTypes);
          (changed, monitor) = HasChanged d byName s (itp_monitor st);
          st = st\<lparr>itp_monitor := monitor\<rparr>;
          st = (if changed then st\<lparr>itp_seqNum := itp_seqNum st + 1, itp_static := cache_flush (itp_static st)\<rparr> else st)
        in (None, st\<lparr>itp_byName := byName, itp_customPrices := customPrices\<rparr>, s))))"

text \<open>The zones of each machine type; \<open>None\<close> is the panic on an entry without a name or a zone.\<close>

fun offered_zones :: "MachineType list \<Rightarrow> (string, string list) gomap \<Rightarrow> (string, string list) gomap option" where
  "offered_zones [] m = Some m"
| "offered_zones (mt # mts) m = (case (pb_Name mt, pb_Zone mt) of
      (Some name, Some zone) \<Rightarrow> (let ofs = (case map_get m name of Some z \<Rightarrow> z | None \<Rightarrow> []); z = last_segment CHR ''/'' zone in
        offered_zones mts (map_set name (if z \<in> set ofs then ofs else ofs @ [z]) m))
    | _ \<Rightarrow> None)"

definition UpdateInstanceTypeOfferings :: "'s itp_deps \<Rightarrow> itp_state \<Rightarrow> 's \<Rightarrow> (go_error option \<times> itp_state \<times> 's) option" where
  "UpdateInstanceTypeOfferings d st s = (case getInstanceTypes d s of
      (Inl err, s) \<Rightarrow> Some (Some (Errorf ''getting instance type offerings: %w'' [] [err]), st, s)
    | (Inr types, s) \<Rightarrow> (case listCustomMachineTypes d s of
        Inl err \<Rightarrow> Some (Some (Errorf ''getting custom machine type offerings: %w'' [] [err]), st, s)
      | Inr (customTypes, _) \<Rightarrow> map_option (\<lambda>m. (None, st\<lparr>itp_offerings := m\<rparr>, s)) (offered_zones (types @ customTypes) [])))"

text \<open>The refresh controller runs both updates in parallel; their lock puts one before the other.\<close>

definition catalog_result :: "go_error option \<Rightarrow> go_error option \<Rightarrow> duration \<times> go_error option" where
  "catalog_result e1 e2 = (case List.map_filter id [e1, e2] of [] \<Rightarrow> (12 * 3600 * 10 ^ 9, None)
     | [e] \<Rightarrow> (0, Some (Errorf ''updating instancetype, %w'' [] [e])) | es \<Rightarrow> (0, Some (Errorf ''updating instancetype, %w'' [] [JoinError es])))"

definition catalog_Reconcile :: "'s itp_deps \<Rightarrow> bool \<Rightarrow> itp_state \<Rightarrow> 's \<Rightarrow> ((duration \<times> go_error option) \<times> itp_state \<times> 's) option" where
  "catalog_Reconcile d typesFirst st s = (if typesFirst
     then (case UpdateInstanceTypes d st s of (e1, st, s) \<Rightarrow>
       map_option (\<lambda>(e2, st, s). (catalog_result e1 e2, st, s)) (UpdateInstanceTypeOfferings d st s))
     else (case UpdateInstanceTypeOfferings d st s of None \<Rightarrow> None
       | Some (e2, st, s) \<Rightarrow> (case UpdateInstanceTypes d st s of (e1, st, s) \<Rightarrow> Some (catalog_result e1 e2, st, s))))"

subsection \<open>The cached shapes are those of the node class\<close>

text \<open>What a shape depends on of a node class, as far as the key of the cache sees it. The enumeration of \<^verbatim>\<open>LocalSsdMode\<close> is validated by the API
  server; the hash of the disks does not see their order.\<close>

definition kubelet_shape :: "GCENodeClass \<Rightarrow> KubeletConfiguration option" where
  "kubelet_shape nc = map_option (\<lambda>kc. kc\<lparr>kc_ClusterDNS := []\<rparr>) (KubeletConfig (ncl_Spec nc))"

definition admissible :: "GCENodeClass \<Rightarrow> bool" where
  "admissible nc \<longleftrightarrow> LocalSsdMode (ncl_Spec nc) \<in> {[], LocalSSDModeRawBlock, LocalSSDModeEphemeral}
     \<and> (\<forall>a \<in> set (Disks (ncl_Spec nc)). \<forall>b \<in> set (Disks (ncl_Spec nc)). d_Boot a \<and> d_Boot b \<and> d_SizeGiB a > 0 \<and> d_SizeGiB b > 0 \<longrightarrow> d_SizeGiB a = d_SizeGiB b)"

definition hashes_separate :: "'s itp_deps \<Rightarrow> GCENodeClass set \<Rightarrow> (string, MachineType) gomap set \<Rightarrow> bool" where
  "hashes_separate d ncs cats \<longleftrightarrow> (\<forall>a \<in> ncs. \<forall>b \<in> ncs.
       (id_hashKubelet d (KubeletConfig (ncl_Spec a)) = id_hashKubelet d (KubeletConfig (ncl_Spec b)) \<longrightarrow> kubelet_shape a = kubelet_shape b)
     \<and> (id_hashDisks d (Disks (ncl_Spec a)) = id_hashDisks d (Disks (ncl_Spec b)) \<longrightarrow> set (Disks (ncl_Spec a)) = set (Disks (ncl_Spec b)))
     \<and> (id_hashGPUSharing d (GPUSharing (ncl_Spec a)) = id_hashGPUSharing d (GPUSharing (ncl_Spec b)) \<longrightarrow> GPUSharing (ncl_Spec a) = GPUSharing (ncl_Spec b)))
     \<and> (\<forall>m \<in> cats. \<forall>m' \<in> cats. id_hashTypes d m = id_hashTypes d m' \<longrightarrow> m = m')"

lemma dash_split:
  assumes "CHR ''-'' \<notin> set a" "CHR ''-'' \<notin> set b" "a @ CHR ''-'' # x = b @ CHR ''-'' # y"
  shows "a = b \<and> x = y"
proof -
  have "cut CHR ''-'' (a @ CHR ''-'' # x) = cut CHR ''-'' (b @ CHR ''-'' # y)" by (rule arg_cong [OF assms(3)])
  then show ?thesis by (simp only: cut_append [OF assms(1)] cut_append [OF assms(2)] prod.inject option.inject)
qed

lemma utoa_no_dash: "CHR ''-'' \<notin> set (utoa n)"
  using utoa_char by fastforce

lemma static_key_eq:
  assumes "static_key d st a = static_key d st b" "admissible a" "admissible b"
  shows "id_hashKubelet d (KubeletConfig (ncl_Spec a)) = id_hashKubelet d (KubeletConfig (ncl_Spec b))
    \<and> id_hashDisks d (Disks (ncl_Spec a)) = id_hashDisks d (Disks (ncl_Spec b)) \<and> LocalSsdMode (ncl_Spec a) = LocalSsdMode (ncl_Spec b)
    \<and> id_hashGPUSharing d (GPUSharing (ncl_Spec a)) = id_hashGPUSharing d (GPUSharing (ncl_Spec b)) \<and> threads_per_core a = threads_per_core b"
proof -
  have m: "CHR ''-'' \<notin> set (LocalSsdMode (ncl_Spec a))" "CHR ''-'' \<notin> set (LocalSsdMode (ncl_Spec b))"
    using assms(2,3) by (auto simp: admissible_def LocalSSDModeRawBlock_def LocalSSDModeEphemeral_def)
  note e0 = assms(1) [unfolded static_key_def Let_def append_Cons append_Nil]
  note nn = dash_split [OF utoa_no_dash utoa_no_dash]
  note e1 = nn [OF e0] note e2 = nn [OF conjunct2 [OF e1]] note e3 = nn [OF conjunct2 [OF e2]]
  note e4 = dash_split [OF m conjunct2 [OF e3]] note e5 = nn [OF conjunct2 [OF e4]]
  show ?thesis
    by (intro conjI utoa_inj [OF conjunct1 [OF e2]] utoa_inj [OF conjunct1 [OF e3]] conjunct1 [OF e4] utoa_inj [OF conjunct1 [OF e5]]
        iffD1 [OF itoa_inj conjunct2 [OF e5]])
qed

lemma boot_disk_eq:
  assumes "admissible a" "set (Disks (ncl_Spec a)) = set (Disks (ncl_Spec b))"
  shows "fst (calculateDiskConfigGiB a mt n) = fst (calculateDiskConfigGiB b mt n)"
proof -
  let ?P = "\<lambda>disk. d_Boot disk \<and> d_SizeGiB disk > 0"
  have none: "List.find ?P (Disks (ncl_Spec a)) = None \<longleftrightarrow> List.find ?P (Disks (ncl_Spec b)) = None" using assms(2) by (simp add: find_None_iff)
  show ?thesis
  proof (cases "List.find ?P (Disks (ncl_Spec a))")
    case None
    with none show ?thesis by (simp add: calculateDiskConfigGiB_def)
  next
    case (Some x)
    with none obtain y where y: "List.find ?P (Disks (ncl_Spec b)) = Some y" by auto
    have "x \<in> set (Disks (ncl_Spec a)) \<and> ?P x" "y \<in> set (Disks (ncl_Spec a)) \<and> ?P y"
      using Some y assms(2) by (auto simp: find_Some_iff)
    then have "d_SizeGiB x = d_SizeGiB y" using assms(1) unfolding admissible_def by blast
    with Some y show ?thesis by (simp add: calculateDiskConfigGiB_def)
  qed
qed

lemma visibleCPUs_eq: "threads_per_core a = threads_per_core b \<Longrightarrow> visibleCPUs mt a = visibleCPUs mt b"
proof -
  have "visibleCPUs mt nc = (if threads_per_core nc = 1 \<and> GetGuestCpus mt \<ge> 2 then GetGuestCpus mt div 2 else GetGuestCpus mt)" for nc
    by (auto simp: visibleCPUs_def threads_per_core_def Let_def split: option.splits)
  then show "threads_per_core a = threads_per_core b \<Longrightarrow> visibleCPUs mt a = visibleCPUs mt b" by simp
qed

lemma kubelet_eq:
  assumes "kubelet_shape a = kubelet_shape b"
  shows "mergeKubeReserved e c (KubeletConfig (ncl_Spec a)) = mergeKubeReserved e c (KubeletConfig (ncl_Spec b))"
    "kcSystemReserved e c (KubeletConfig (ncl_Spec a)) = kcSystemReserved e c (KubeletConfig (ncl_Spec b))"
    "evictionThreshold e m t c (KubeletConfig (ncl_Spec a)) = evictionThreshold e m t c (KubeletConfig (ncl_Spec b))"
    "kcMaxPods (GetMaxPods a) (KubeletConfig (ncl_Spec a)) n = kcMaxPods (GetMaxPods b) (KubeletConfig (ncl_Spec b)) n"
proof -
  have f: "mergeKubeReserved e c kc = mergeKubeReserved e c (map_option (\<lambda>kc. kc\<lparr>kc_ClusterDNS := []\<rparr>) kc)"
    "kcSystemReserved e c kc = kcSystemReserved e c (map_option (\<lambda>kc. kc\<lparr>kc_ClusterDNS := []\<rparr>) kc)"
    "evictionThreshold e m t c kc = evictionThreshold e m t c (map_option (\<lambda>kc. kc\<lparr>kc_ClusterDNS := []\<rparr>) kc)" for kc
    by (cases kc; simp add: mergeKubeReserved_def kcSystemReserved_def evictionThreshold_def)+
  have g: "kcMaxPods (GetMaxPods x) (KubeletConfig (ncl_Spec x)) n = (case kubelet_shape x of None \<Rightarrow> KubeletMaxPods
      | Some kc \<Rightarrow> kcMaxPods (case kc_MaxPods kc of None \<Rightarrow> KubeletMaxPods | Some k \<Rightarrow> k) (Some kc) n)" for x
    by (cases "KubeletConfig (ncl_Spec x)") (simp_all add: kubelet_shape_def GetMaxPods_def kcMaxPods_def)
  show "mergeKubeReserved e c (KubeletConfig (ncl_Spec a)) = mergeKubeReserved e c (KubeletConfig (ncl_Spec b))"
    "kcSystemReserved e c (KubeletConfig (ncl_Spec a)) = kcSystemReserved e c (KubeletConfig (ncl_Spec b))"
    "evictionThreshold e m t c (KubeletConfig (ncl_Spec a)) = evictionThreshold e m t c (KubeletConfig (ncl_Spec b))"
    using assms f [of "KubeletConfig (ncl_Spec a)"] f [of "KubeletConfig (ncl_Spec b)"] by (simp_all add: kubelet_shape_def)
  show "kcMaxPods (GetMaxPods a) (KubeletConfig (ncl_Spec a)) n = kcMaxPods (GetMaxPods b) (KubeletConfig (ncl_Spec b)) n"
    unfolding g using assms by simp
qed

lemma static_types_eq:
  assumes "static_key d st a = static_key d st b" "admissible a" "admissible b" "hashes_separate d ncs cats" "a \<in> ncs" "b \<in> ncs"
  shows "static_types e m a = static_types e m b"
proof -
  note k = static_key_eq [OF assms(1-3)]
  have h: "kubelet_shape a = kubelet_shape b" "set (Disks (ncl_Spec a)) = set (Disks (ncl_Spec b))" "GPUSharing (ncl_Spec a) = GPUSharing (ncl_Spec b)"
    using k assms(4-6) unfolding hashes_separate_def by blast+
  have disk: "calculateDiskConfigGiB a mt n = calculateDiskConfigGiB b mt n" for mt n
    using boot_disk_eq [OF assms(2) h(2)] by (simp add: prod_eq_iff) (simp add: calculateDiskConfigGiB_def)
  have cpu: "visibleCPUs mt a = visibleCPUs mt b" for mt using k visibleCPUs_eq by blast
  have gpu: "gpuClientsPerGPU a = gpuClientsPerGPU b" using h(3) by (simp add: gpuClientsPerGPU_def)
  have mode: "LocalSsdMode (ncl_Spec a) = LocalSsdMode (ncl_Spec b)" using k by blast
  have "NewStaticInstanceType e mt a n = NewStaticInstanceType e mt b n" for mt n
    unfolding NewStaticInstanceType_def computeCapacity_def Let_def disk cpu gpu mode kubelet_eq [OF h(1)] ..
  then show ?thesis unfolding static_types_def h(3) by (simp only:)
qed

text \<open>The states that the operations can reach with node classes from \<open>ncs\<close> and catalogs from \<open>cats\<close>, at any times; the janitors of both caches
  may run in between.\<close>

inductive catalog_run :: "'s itp_deps \<Rightarrow> GCENodeClass set \<Rightarrow> (string, MachineType) gomap set \<Rightarrow> itp_state \<Rightarrow> bool" for d ncs cats where
  start: "catalog_run d ncs cats NewCatalog"
| list: "catalog_run d ncs cats st \<Longrightarrow> nc \<in> ncs \<Longrightarrow> catalog_List d nc st s = Some (r, st', s') \<Longrightarrow> catalog_run d ncs cats st'"
| types: "catalog_run d ncs cats st \<Longrightarrow> UpdateInstanceTypes d st s = (r, st', s') \<Longrightarrow> itp_byName st' \<in> cats \<Longrightarrow> catalog_run d ncs cats st'"
| offers: "catalog_run d ncs cats st \<Longrightarrow> UpdateInstanceTypeOfferings d st s = Some (r, st', s') \<Longrightarrow> catalog_run d ncs cats st'"
| janitor: "catalog_run d ncs cats st \<Longrightarrow> catalog_run d ncs cats
    (st\<lparr>itp_static := fst (cache_delete_expired now (itp_static st)), itp_monitor := fst (cache_delete_expired now' (itp_monitor st))\<rparr>)"

definition shapes_current :: "'s itp_deps \<Rightarrow> GCENodeClass set \<Rightarrow> itp_state \<Rightarrow> bool" where
  "shapes_current d ncs st \<longleftrightarrow> (\<forall>(k, its, e) \<in> set (gc_items (itp_static st)).
     \<exists>nc \<in> ncs. k = static_key d st nc \<and> its = static_types (id_env d) (itp_byName st) nc)"

definition monitor_current :: "'s itp_deps \<Rightarrow> (string, MachineType) gomap set \<Rightarrow> itp_state \<Rightarrow> bool" where
  "monitor_current d cats st \<longleftrightarrow> gc_items (itp_monitor st) = []
     \<or> (\<exists>e. gc_items (itp_monitor st) = [(''instance-types'', id_hashTypes d (itp_byName st), e)]) \<and> itp_byName st \<in> cats"

definition catalog_inv :: "'s itp_deps \<Rightarrow> GCENodeClass set \<Rightarrow> (string, MachineType) gomap set \<Rightarrow> itp_state \<Rightarrow> bool" where
  "catalog_inv d ncs cats st \<longleftrightarrow> shapes_current d ncs st \<and> monitor_current d cats st"

lemma static_key_sel: "itp_seqNum st = itp_seqNum st' \<Longrightarrow> static_key d st nc = static_key d st' nc"
  by (simp add: static_key_def)

lemma getStatic_inv:
  assumes "shapes_current d ncs st" "nc \<in> ncs" "getStaticInstanceTypes d nc st s = (its, st')"
  shows "shapes_current d ncs st' \<and> itp_monitor st' = itp_monitor st \<and> itp_byName st' = itp_byName st
    \<and> itp_offerings st' = itp_offerings st \<and> itp_customPrices st' = itp_customPrices st"
proof (cases "cache_get (id_now d s) (static_key d st nc) (itp_static st)")
  case None
  define its' where "its' = static_types (id_env d) (itp_byName st) nc"
  with None assms(3) have st': "st' = st\<lparr>itp_static := cache_set (id_now d s) (static_key d st nc) its' 0 (itp_static st)\<rparr>"
    by (auto simp: getStaticInstanceTypes_def Let_def)
  obtain e where i: "gc_items (itp_static st') = map_set (static_key d st nc) (its', e) (gc_items (itp_static st))"
    by (simp add: st' cache_set_def Let_def)
  have k: "static_key d st' x = static_key d st x" for x by (rule static_key_sel) (simp add: st')
  have "set (gc_items (itp_static st')) \<subseteq> insert (static_key d st nc, its', e) (set (gc_items (itp_static st)))"
    unfolding i by (rule set_map_set_sub)
  then show ?thesis using assms(1,2) unfolding shapes_current_def k by (fastforce simp: st' its'_def)
next
  case (Some x)
  with assms show ?thesis by (simp add: getStaticInstanceTypes_def Let_def)
qed

lemma getStatic_value:
  assumes "shapes_current d ncs st" "nc \<in> ncs" "\<forall>nc \<in> ncs. admissible nc" "hashes_separate d ncs cats"
  shows "fst (getStaticInstanceTypes d nc st s) = static_types (id_env d) (itp_byName st) nc"
proof (cases "cache_get (id_now d s) (static_key d st nc) (itp_static st)")
  case (Some its)
  then obtain e where "(static_key d st nc, its, e) \<in> set (gc_items (itp_static st))"
    by (auto simp: cache_get_def map_get_def split: option.splits if_splits dest!: map_of_SomeD)
  with assms(1) obtain b where b: "b \<in> ncs" "static_key d st nc = static_key d st b" "its = static_types (id_env d) (itp_byName st) b"
    unfolding shapes_current_def by fastforce
  have "static_types (id_env d) (itp_byName st) nc = static_types (id_env d) (itp_byName st) b"
    using static_types_eq [OF b(2) _ _ assms(4,2) b(1)] assms(2,3) b(1) by blast
  with Some b(3) show ?thesis by (simp add: getStaticInstanceTypes_def Let_def)
qed (simp add: getStaticInstanceTypes_def Let_def)

lemma catalog_List_state:
  assumes "catalog_List d nc st s = Some (r, st', s')"
  shows "st' = st \<or> (\<exists>s1. st' = snd (getStaticInstanceTypes d nc st s1))"
  using assms by (auto simp: catalog_List_def split: option.splits prod.splits sum.splits) (metis snd_conv)+

lemma UpdateInstanceTypes_inv:
  assumes "catalog_inv d ncs cats st" "UpdateInstanceTypes d st s = (r, st', s')" "itp_byName st' \<in> cats" "hashes_separate d ncs cats"
  shows "catalog_inv d ncs cats st'"
proof (cases "r = None")
  case False
  with assms(1,2) show ?thesis by (auto simp: UpdateInstanceTypes_def Let_def split: prod.splits sum.splits)
next
  case True
  then obtain byName prices s1 ch mon where h: "HasChanged d byName s1 (itp_monitor st) = (ch, mon)"
    and st': "st' = (if ch then st\<lparr>itp_monitor := mon, itp_seqNum := itp_seqNum st + 1, itp_static := cache_flush (itp_static st)\<rparr>
      else st\<lparr>itp_monitor := mon\<rparr>)\<lparr>itp_byName := byName, itp_customPrices := prices\<rparr>"
    using assms(2) by (fastforce simp: UpdateInstanceTypes_def Let_def split: prod.splits sum.splits)
  have by': "itp_byName st' = byName" by (simp add: st')
  show ?thesis
  proof (cases ch)
    case True
    then obtain e where "gc_items mon = map_set ''instance-types'' (id_hashTypes d byName, e) (gc_items (itp_monitor st))"
      using h by (auto simp: HasChanged_def cache_set_def Let_def split: if_splits)
    then have "monitor_current d cats st'"
      using assms(1,3) True by (auto simp: catalog_inv_def monitor_current_def st' map_set_def)
    then show ?thesis using True by (simp add: catalog_inv_def shapes_current_def st' cache_flush_def)
  next
    case False
    then have g: "cache_get (id_now d s1) ''instance-types'' (itp_monitor st) = Some (id_hashTypes d byName)" "mon = itp_monitor st"
      using h by (auto simp: HasChanged_def split: if_splits)
    then have "id_hashTypes d (itp_byName st) = id_hashTypes d byName" "itp_byName st \<in> cats"
      using assms(1) by (auto simp: catalog_inv_def monitor_current_def cache_get_def map_get_def split: option.splits if_splits)
    then have eq: "byName = itp_byName st" using assms(3,4) unfolding by' hashes_separate_def by metis
    have k: "static_key d st' nc = static_key d st nc" for nc by (rule static_key_sel) (use False in \<open>simp add: st'\<close>)
    show ?thesis using assms(1) unfolding catalog_inv_def shapes_current_def monitor_current_def k by (simp add: st' False g(2) eq)
  qed
qed

lemma catalog_run_inv:
  assumes "catalog_run d ncs cats st" "hashes_separate d ncs cats"
  shows "catalog_inv d ncs cats st"
  using assms(1)
proof (induction rule: catalog_run.induct)
  case start
  then show ?case by (simp add: catalog_inv_def shapes_current_def monitor_current_def NewCatalog_def newCache_def)
next
  case (list st nc s r st' s')
  from catalog_List_state [OF list.hyps(3)] show ?case
  proof
    assume "\<exists>s1. st' = snd (getStaticInstanceTypes d nc st s1)"
    then obtain s1 its where g: "getStaticInstanceTypes d nc st s1 = (its, st')" by (metis prod.collapse)
    from getStatic_inv [OF _ list.hyps(2) this] list.IH show ?thesis by (simp add: catalog_inv_def monitor_current_def)
  qed (use list.IH in simp)
next
  case (types st s r st' s')
  with UpdateInstanceTypes_inv [OF types.IH types.hyps(2,3) assms(2)] show ?case by simp
next
  case (offers st s r st' s')
  then obtain m where "st' = st \<or> st' = st\<lparr>itp_offerings := m\<rparr>"
    by (auto simp: UpdateInstanceTypeOfferings_def split: prod.splits sum.splits)
  then show ?case using offers.IH by (auto simp: catalog_inv_def shapes_current_def monitor_current_def static_key_def)
next
  case (janitor st now' now)
  let ?st = "st\<lparr>itp_static := fst (cache_delete_expired now (itp_static st)), itp_monitor := fst (cache_delete_expired now' (itp_monitor st))\<rparr>"
  have k: "static_key d ?st nc = static_key d st nc" for nc by (rule static_key_sel) simp
  have "shapes_current d ncs ?st" using janitor.IH unfolding catalog_inv_def shapes_current_def k
    by (fastforce simp: cache_delete_expired_def)
  moreover have "monitor_current d cats ?st" using janitor.IH unfolding catalog_inv_def monitor_current_def
    by (auto simp: cache_delete_expired_def)
  ultimately show ?case by (simp add: catalog_inv_def)
qed

lemma injectOfferings_cong:
  assumes "itp_offerings st = itp_offerings st'" "itp_customPrices st = itp_customPrices st'"
  shows "injectOfferings d st zones s its = injectOfferings d st' zones s its"
proof -
  have "zone_offerings d st = zone_offerings d st'"
    by (intro ext) (simp add: zone_offerings_def offering_prices_def assms(2))
  then have "createOfferings d st = createOfferings d st'" "buildZoneData st = buildZoneData st'"
    by (intro ext; simp add: createOfferings_def buildZoneData_def assms(1))+
  then show ?thesis by (induction its) (simp_all only: injectOfferings.simps)
qed


subsection \<open>What is offered\<close>

lemma createOffering_sel [simp]:
  "offering_Zone rnd (createOffering z ct p a) = z" "offering_CapacityType rnd (createOffering z ct p a) = ct"
  "of_available (createOffering z ct p a) = a" "of_price (createOffering z ct p a) = p"
proof -
  have n: "normalize_key CapacityTypeLabelKey = CapacityTypeLabelKey" "normalize_key LabelTopologyZone = LabelTopologyZone"
    "normalize_key LabelTopologyZoneID = LabelTopologyZoneID" by code_simp+
  have k: "LabelTopologyZone \<noteq> CapacityTypeLabelKey" "LabelTopologyZoneID \<noteq> CapacityTypeLabelKey" "LabelTopologyZoneID \<noteq> LabelTopologyZone" by code_simp+
  have "of_requirements (createOffering z ct p a) = [(CapacityTypeLabelKey, req_plain CapacityTypeLabelKey False [ct] None),
      (LabelTopologyZone, req_plain LabelTopologyZone False [z] None), (LabelTopologyZoneID, req_plain LabelTopologyZoneID False [z] None)]"
    using k k [symmetric] by (simp add: createOffering_def NewRequirements_def reqs_add_def n map_set_def Let_def)
  then show "offering_Zone rnd (createOffering z ct p a) = z" "offering_CapacityType rnd (createOffering z ct p a) = ct"
    using k by (simp_all add: offering_Zone_def offering_CapacityType_def reqs_get_def req_operator_In)
qed (simp_all add: createOffering_def)

lemma zone_offerings_keys:
  "map (\<lambda>f. (offering_Zone rnd f, offering_CapacityType rnd f)) (zone_offerings d st name s z) \<in>
     {[], [(zd_ID z, CapacityTypeOnDemand)], [(zd_ID z, CapacityTypeSpot)], [(zd_ID z, CapacityTypeOnDemand), (zd_ID z, CapacityTypeSpot)]}"
  by (auto simp: zone_offerings_def split: prod.splits option.splits)

lemma offerings_exclusive:
  assumes "distinct (map zd_ID zones)"
  shows "distinct (map (\<lambda>f. (offering_Zone rnd f, offering_CapacityType rnd f)) (concat (map (zone_offerings d st name s) zones)))"
  using assms
proof (induction zones)
  case (Cons z zones)
  let ?k = "\<lambda>f. (offering_Zone rnd f, offering_CapacityType rnd f)"
  have ne: "CapacityTypeOnDemand \<noteq> CapacityTypeSpot" by (simp add: CapacityTypeOnDemand_def CapacityTypeSpot_def)
  have d: "distinct (map ?k (zone_offerings d st name s z))" using zone_offerings_keys [of rnd d st name s z] ne by auto
  have f: "fst x = zd_ID y" if "x \<in> set (map ?k (zone_offerings d st name s y))" for x y
    using zone_offerings_keys [of rnd d st name s y] that by auto
  have "set (map ?k (zone_offerings d st name s z)) \<inter> set (map ?k (concat (map (zone_offerings d st name s) zones))) = {}"
  proof (rule ccontr)
    assume "\<not> ?thesis"
    then obtain x y where "x \<in> set (map ?k (zone_offerings d st name s z))" "y \<in> set zones" "x \<in> set (map ?k (zone_offerings d st name s y))" by auto
    with f have "zd_ID z = zd_ID y" by metis
    with Cons.prems \<open>y \<in> set zones\<close> show False by auto
  qed
  with d Cons show ?case by auto
qed simp

lemma injectOfferings_mem:
  "injectOfferings d st zones s its = Some r \<Longrightarrow> it \<in> set r \<Longrightarrow> \<exists>c \<in> set its. it_name it = it_name (sit_instanceType c)
     \<and> it_offerings it = createOfferings d st (sit_machineType c) (buildZoneData st (it_name (sit_instanceType c)) zones) s \<and> it_offerings it \<noteq> []"
proof (induction its arbitrary: r)
  case (Cons c its)
  let ?o = "createOfferings d st (sit_machineType c) (buildZoneData st (it_name (sit_instanceType c)) zones) s"
  show ?case
  proof (cases "?o = []")
    case True
    with Cons show ?thesis by (auto simp: Let_def)
  next
    case False
    then obtain rs r' where r: "injectOfferings d st zones s its = Some r'" "r = (sit_instanceType c)\<lparr>it_offerings := ?o, it_requirements := rs\<rparr> # r'"
      using Cons.prems(1) by (auto simp: Let_def split: option.splits)
    then consider "it = (sit_instanceType c)\<lparr>it_offerings := ?o, it_requirements := rs\<rparr>" | "it \<in> set r'" using Cons.prems(2) by auto
    then show ?thesis using False Cons.IH [OF r(1)] by cases auto
  qed
qed simp

lemma static_types_name: "c \<in> set (static_types e m nc) \<Longrightarrow> it_name (sit_instanceType c) = GetName (sit_machineType c)"
  by (auto simp: static_types_def NewStaticInstanceType_def Let_def split: option.splits if_splits prod.splits)

lemma mem_zone_offerings:
  "f \<in> set (zone_offerings d st n s \<lparr>zd_ID = z, zd_Available = True, zd_SpotAvailable = True\<rparr>) \<longleftrightarrow>
      (\<exists>ct p. f = createOffering z ct p (\<not> IsUnavailable (id_now d s) n z ct (id_unavailable d s))
        \<and> (ct = CapacityTypeOnDemand \<and> fst (offering_prices d st n z s) = Some p \<or> ct = CapacityTypeSpot \<and> snd (offering_prices d st n z s) = Some p))"
  by (cases "offering_prices d st n z s") (auto simp: zone_offerings_def split: option.splits)

lemma zones_offered_mem:
  "f \<in> set (concat (map (zone_offerings d st n s) (buildZoneData st n zones))) \<longleftrightarrow>
    (\<exists>z \<in> set zones. (\<exists>ofs. map_of (itp_offerings st) n = Some ofs \<and> z \<in> set ofs)
      \<and> f \<in> set (zone_offerings d st n s \<lparr>zd_ID = z, zd_Available = True, zd_SpotAvailable = True\<rparr>))"
proof -
  let ?zo = "\<lambda>z b. zone_offerings d st n s \<lparr>zd_ID = z, zd_Available = b, zd_SpotAvailable = True\<rparr>"
  let ?in = "\<lambda>z. \<exists>ofs. map_of (itp_offerings st) n = Some ofs \<and> z \<in> set ofs"
  have "map (zone_offerings d st n s) (buildZoneData st n zones) = map (\<lambda>z. ?zo z (?in z)) zones"
    unfolding buildZoneData_def map_map o_def by (cases "map_of (itp_offerings st) n") simp_all
  moreover have no: "?zo z False = []" for z by (simp add: zone_offerings_def)
  have yes: "f \<in> set (?zo z b) \<longleftrightarrow> b \<and> f \<in> set (?zo z True)" for z b by (cases b) (simp_all add: no)
  have "(\<exists>z \<in> set zones. f \<in> set (?zo z (?in z))) \<longleftrightarrow> (\<exists>z \<in> set zones. ?in z \<and> f \<in> set (?zo z True))"
    by (rule bex_cong [OF refl]) (rule yes)
  ultimately show ?thesis by (simp only: set_concat set_map UN_iff bex_simps image_iff)
qed

lemma listed_offerings_set:
  assumes "catalog_run d ncs cats st" "hashes_separate d ncs cats" "\<forall>nc \<in> ncs. admissible nc" "nc \<in> ncs"
    and "catalog_List d nc st s = Some (Inr its, st', s')" "id_ResolveClusterZones d s = (Inr zones, s1)" "distinct zones" "it \<in> set its"
  shows "it_offerings it \<noteq> []
    \<and> distinct (map (\<lambda>f. (offering_Zone rnd f, offering_CapacityType rnd f)) (it_offerings it))
    \<and> set (it_offerings it) = {createOffering z ct p (\<not> IsUnavailable (id_now d s1) (it_name it) z ct (id_unavailable d s1)) | z ct p.
        z \<in> set zones \<and> (\<exists>ofs. map_of (itp_offerings st) (it_name it) = Some ofs \<and> z \<in> set ofs)
        \<and> (ct = CapacityTypeOnDemand \<and> fst (offering_prices d st (it_name it) z s1) = Some p
           \<or> ct = CapacityTypeSpot \<and> snd (offering_prices d st (it_name it) z s1) = Some p)}"
proof -
  have inv: "shapes_current d ncs st" using catalog_run_inv [OF assms(1,2)] by (simp add: catalog_inv_def)
  obtain cs x' where g: "getStaticInstanceTypes d nc st s1 = (cs, x')" by fastforce
  have cs: "cs = static_types (id_env d) (itp_byName st) nc" using getStatic_value [OF inv assms(4,3,2), of s1] g by simp
  note sel = getStatic_inv [OF inv assms(4) g]
  have i: "injectOfferings d x' zones s1 cs = Some its"
    using assms(5,6) g by (auto simp: catalog_List_def validateState_def split: option.splits if_splits)
  have "injectOfferings d st zones s1 cs = injectOfferings d x' zones s1 cs" by (rule injectOfferings_cong) (use sel in simp_all)
  with i have "injectOfferings d st zones s1 cs = Some its" by simp
  from injectOfferings_mem [OF this assms(8)] obtain c where c: "c \<in> set cs" "it_name it = it_name (sit_instanceType c)" "it_offerings it \<noteq> []"
    "it_offerings it = createOfferings d st (sit_machineType c) (buildZoneData st (it_name (sit_instanceType c)) zones) s1" by blast
  let ?zd = "buildZoneData st (it_name it) zones"
  have o: "it_offerings it = concat (map (zone_offerings d st (it_name it) s1) ?zd)"
    using c(2,4) static_types_name c(1) by (simp add: cs createOfferings_def)
  have "map zd_ID ?zd = zones" by (simp add: buildZoneData_def o_def)
  then have ex: "distinct (map (\<lambda>f. (offering_Zone rnd f, offering_CapacityType rnd f)) (it_offerings it))"
    unfolding o using assms(7) by (intro offerings_exclusive) simp
  let ?D = "{createOffering z ct p (\<not> IsUnavailable (id_now d s1) (it_name it) z ct (id_unavailable d s1)) | z ct p.
        z \<in> set zones \<and> (\<exists>ofs. map_of (itp_offerings st) (it_name it) = Some ofs \<and> z \<in> set ofs)
        \<and> (ct = CapacityTypeOnDemand \<and> fst (offering_prices d st (it_name it) z s1) = Some p
           \<or> ct = CapacityTypeSpot \<and> snd (offering_prices d st (it_name it) z s1) = Some p)}"
  have "set (it_offerings it) = ?D"
  proof (rule set_eqI)
    fix f
    show "f \<in> set (it_offerings it) \<longleftrightarrow> f \<in> ?D" unfolding o zones_offered_mem mem_zone_offerings mem_Collect_eq by blast
  qed
  with c(3) ex show ?thesis by (intro conjI)
qed


subsection \<open>Registered machine types\<close>

lemma outranks_same: "outranksCustomMachineType = outranks"
  by (intro ext) (simp add: outranksCustomMachineType_def outranks_def)

definition best_of :: "GCECustomMachineType list \<Rightarrow> string \<Rightarrow> GCECustomMachineType \<Rightarrow> bool" where
  "best_of items m w \<longleftrightarrow> w \<in> set items \<and> cmt_ready w \<and> cmt_MachineType w = m
     \<and> (\<forall>obj \<in> set items. cmt_ready obj \<and> cmt_MachineType obj = m \<longrightarrow> \<not> outranks obj w)"

lemma add_winner_get:
  "map_of (add_winner W x) m = (if cmt_ready x \<and> cmt_MachineType x = m
     then Some (case map_of W m of Some e \<Rightarrow> if outranks x e then x else e | None \<Rightarrow> x) else map_of W m)"
  by (auto simp: add_winner_def outranks_same split: option.splits)

lemma winners_best:
  "case map_of (foldl add_winner [] items) m of Some w \<Rightarrow> best_of items m w
     | None \<Rightarrow> \<forall>obj \<in> set items. \<not> (cmt_ready obj \<and> cmt_MachineType obj = m)"
proof (induction items rule: rev_induct)
  case (snoc x items)
  have irr: "\<not> outranks a a" for a by (simp add: outranks_def)
  have step: "foldl add_winner [] (items @ [x]) = add_winner (foldl add_winner [] items) x" by simp
  show ?case
  proof (cases "map_of (foldl add_winner [] items) m")
    case None
    with snoc show ?thesis unfolding step add_winner_get using irr by (auto simp: best_of_def)
  next
    case (Some e)
    with snoc have e: "best_of items m e" by simp
    have "best_of (items @ [x]) m (if outranks x e then x else e)" if "cmt_ready x" "cmt_MachineType x = m"
      using e that irr outranks_trans by (auto simp: best_of_def)
    moreover have "best_of (items @ [x]) m e" if "\<not> (cmt_ready x \<and> cmt_MachineType x = m)" using e that by (auto simp: best_of_def)
    ultimately show ?thesis unfolding step add_winner_get using Some by auto
  qed
qed simp

text \<open>The price of a registered custom machine type is that of the one registration that the controller of these registrations keeps when several are ready: the catalog applies the
  same tie-break, in whatever order the registrations are listed.\<close>

theorem custom_price_of_kept_registration:
  assumes "id_registrations d s = Inr items" "listCustomMachineTypes d s = Inr (types, prices)" "map_of prices m = Some p"
  shows "\<exists>obj \<in> set items. cmt_ready obj \<and> cmt_MachineType obj = m \<and> \<not> isSupersededDuplicate (filter cmt_ready items) obj
    \<and> ParseFloat (cmt_OnDemand obj) = Some (cp_onDemand p) \<and> ParseFloat (cmt_Spot obj) = Some (cp_spot p)"
proof -
  let ?W = "foldl add_winner [] items"
  have wf: "distinct (map fst ?W)"
  proof (induction items rule: rev_induct)
    case (snoc x items)
    have "distinct (map fst (add_winner W x))" if "distinct (map fst W)" for W
      using that by (auto simp: add_winner_def map_set_def distinct_update split: option.splits)
    with snoc show ?case by simp
  qed simp
  obtain entry where e: "entry \<in> set (List.map_filter custom_entry ?W)" "snd entry = (m, p)"
    using assms map_of_SomeD [OF assms(3)] by (auto simp: listCustomMachineTypes_def Let_def)
  then obtain w where w: "(m, w) \<in> set ?W" "ParseFloat (cmt_OnDemand w) = Some (cp_onDemand p)" "ParseFloat (cmt_Spot w) = Some (cp_spot p)"
    by (auto simp: List.map_filter_def custom_entry_def split: option.splits)
  have "best_of items m w" using winners_best [of items m] map_of_is_SomeI [OF wf w(1)] by simp
  then show ?thesis using w(2,3) by (auto simp: best_of_def isSupersededDuplicate_def list_ex_iff)
qed

definition example_mt :: "string \<Rightarrow> string \<Rightarrow> MachineType" where
  "example_mt name zone = \<lparr>pb_Name = Some name, pb_GuestCpus = Some 4, pb_MemoryMb = Some 16384, pb_Zone = Some (''zones/'' @ zone), pb_Architecture = Some ''X86_64'',
     pb_Accelerators = [], pb_BundledLocalSsds = None\<rparr>"

definition example_itp :: "unit itp_deps" where
  "example_itp = \<lparr>id_env = \<lparr>ite_VMMemoryOverheadPercent = 0, ite_MustParse = (\<lambda>_ _. 0), ite_compat = [], ite_region = ''r'', ite_rand = (\<lambda>_. 0)\<rparr>,
     id_ResolveClusterZones = (\<lambda>s. (Inr [''r-a'', ''r-b''], s)),
     id_pricing = (\<lambda>_. \<lparr>pr_region = ''r'', pr_onDemandPrices = [(''e2-standard-4'', 1)], pr_spotPrices = [(''e2-standard-4'', 1 / 2)]\<rparr>),
     id_unavailable = (\<lambda>_. NewUnavailableOfferings), id_now = (\<lambda>_. 1),
     id_pages = (\<lambda>s. (([[example_mt ''e2-standard-4'' ''r-a'']], None), s)), id_registrations = (\<lambda>_. Inr []),
     id_hashKubelet = (\<lambda>_. 0), id_hashDisks = (\<lambda>_. 0), id_hashGPUSharing = (\<lambda>_. 0), id_hashTypes = (\<lambda>_. 0)\<rparr>"

definition example_catalog :: itp_state where
  "example_catalog = (case UpdateInstanceTypeOfferings example_itp (fst (snd (UpdateInstanceTypes example_itp NewCatalog ()))) () of
     Some (_, st, _) \<Rightarrow> st | None \<Rightarrow> NewCatalog)"

lemma example_catalog_run:
  "catalog_run example_itp {zero_nodeClass} {[(''e2-standard-4'', example_mt ''e2-standard-4'' ''r-a'')]} example_catalog"
  "hashes_separate example_itp {zero_nodeClass} {[(''e2-standard-4'', example_mt ''e2-standard-4'' ''r-a'')]}" "\<forall>nc \<in> {zero_nodeClass}. admissible nc"
proof -
  let ?cats = "{[(''e2-standard-4'', example_mt ''e2-standard-4'' ''r-a'')]}"
  let ?st = "fst (snd (UpdateInstanceTypes example_itp NewCatalog ()))"
  obtain r s' where u: "UpdateInstanceTypes example_itp NewCatalog () = (r, ?st, s')" by (metis prod.collapse)
  have "itp_byName ?st = [(''e2-standard-4'', example_mt ''e2-standard-4'' ''r-a'')]" by code_simp
  then have 1: "catalog_run example_itp {zero_nodeClass} ?cats ?st" using catalog_run.types [OF catalog_run.start u, of ?cats] by simp
  have "(case UpdateInstanceTypeOfferings example_itp ?st () of Some _ \<Rightarrow> True | None \<Rightarrow> False)" by code_simp
  then obtain r' s2 where "UpdateInstanceTypeOfferings example_itp ?st () = Some (r', example_catalog, s2)"
    by (auto simp: example_catalog_def split: option.splits)
  with 1 show "catalog_run example_itp {zero_nodeClass} ?cats example_catalog" by (rule catalog_run.offers)
  show "hashes_separate example_itp {zero_nodeClass} ?cats" by (simp add: hashes_separate_def)
  show "\<forall>nc \<in> {zero_nodeClass}. admissible nc" by (simp add: admissible_def zero_nodeClass_def zero_spec_def)
qed


lemma computeRequirements_Some:
  "extractGeneration (split_on CHR ''-'' (GetName mt) ! 0) \<noteq> None \<Longrightarrow> \<exists>rs. computeRequirements e mt os n g = Some rs"
  by (auto simp: computeRequirements_def name_requirements_def Let_def)

lemma example_listed:
  "\<exists>it st' s'. catalog_List example_itp zero_nodeClass example_catalog () = Some (Inr [it], st', s')"
proof -
  let ?mt = "example_mt ''e2-standard-4'' ''r-a''"
  let ?c = "\<lparr>sit_machineType = ?mt, sit_instanceType = NewStaticInstanceType (id_env example_itp) ?mt zero_nodeClass 0, sit_ssdCount = 0, sit_gpuSharing = None\<rparr>"
  have st: "itp_byName example_catalog = [(''e2-standard-4'', ?mt)]" "gc_items (itp_static example_catalog) = []"
    "map_of (itp_offerings example_catalog) ''e2-standard-4'' = Some [''r-a'']" "itp_customPrices example_catalog = []" by code_simp+
  have v: "ssdCountVariants ?mt = [0]" "GetName ?mt = ''e2-standard-4''" by code_simp+
  have "static_types (id_env example_itp) (itp_byName example_catalog) zero_nodeClass = [?c]"
    by (simp add: static_types_def st v sort_strings_def sort_slice_def) (simp add: example_mt_def zero_nodeClass_def zero_spec_def)
  then obtain x' where g: "getStaticInstanceTypes example_itp zero_nodeClass example_catalog () = ([?c], x')"
    by (simp add: getStaticInstanceTypes_def Let_def cache_get_def st)
  have x': "itp_offerings x' = itp_offerings example_catalog" "itp_customPrices x' = itp_customPrices example_catalog"
    using g by (auto simp: getStaticInstanceTypes_def Let_def split: option.splits)
  have n: "it_name (sit_instanceType ?c) = ''e2-standard-4''"
    using static_types_name [of ?c "id_env example_itp" "itp_byName example_catalog" zero_nodeClass] v
      \<open>static_types (id_env example_itp) (itp_byName example_catalog) zero_nodeClass = [?c]\<close> by simp
  let ?o = "createOfferings example_itp x' ?mt (buildZoneData x' ''e2-standard-4'' [''r-a'', ''r-b'']) ()"
  have o: "?o \<noteq> []"
    by (simp add: createOfferings_def buildZoneData_def zone_offerings_def offering_prices_def x' st v)
      (simp add: example_itp_def OnDemandPrice_def)
  obtain rs where "computeRequirements (id_env example_itp) ?mt ?o 0 None = Some rs"
    using computeRequirements_Some [of ?mt] by (fastforce simp: v extractGeneration_def)
  then obtain it where i: "injectOfferings example_itp x' [''r-a'', ''r-b''] () [?c] = Some [it]"
    using o n by (simp add: Let_def)
  have z: "id_ResolveClusterZones example_itp () = (Inr [''r-a'', ''r-b''], ())" by (simp add: example_itp_def)
  have "catalog_List example_itp zero_nodeClass example_catalog () = Some (Inr [it], x', ())"
    unfolding catalog_List_def validateState_def z by (simp del: injectOfferings.simps add: st g i)
  then show ?thesis by blast
qed


definition example_registrations :: "GCECustomMachineType list" where
  "example_registrations = map (\<lambda>(n, t, price). \<lparr>cmt_Meta = zero_meta\<lparr>om_Name := n, om_CreationTimestamp := t\<rparr>, cmt_MachineType = ''n2-custom-8-24576'', cmt_OnDemand = price,
      cmt_Spot = ''1'', cmt_GuestCpus = 8, cmt_MemoryMb = 24576, cmt_Zones = [''r-a''],
      cmt_Conditions = [\<lparr>cond_Type = ''Ready'', cond_Status = CondTrue, cond_Reason = [], cond_Message = []\<rparr>]\<rparr>) [(''b'', 5, ''3''), (''a'', 4, ''2'')]"

theorem custom_price_of_kept_registration_witness:
  "\<exists>obj \<in> set example_registrations. \<not> isSupersededDuplicate (filter cmt_ready example_registrations) obj
     \<and> ParseFloat (cmt_OnDemand obj) = Some 2"
proof -
  let ?d = "example_itp\<lparr>id_registrations := \<lambda>_. Inr example_registrations\<rparr>"
  have "fl 2 = 2" "fl 1 = 1" using fl_int [of 2] fl_int [of 1] by simp_all
  moreover have "digits_val ''2'' = 2" "digits_val ''1'' = 1" by code_simp+
  ultimately have p: "ParseFloat ''2'' = Some 2" "ParseFloat ''1'' = Some 1"
    by (simp_all add: ParseFloat_def parse_exponent_def has_prefix_def is_digit_def char_code_def)
  have w: "foldl add_winner [] example_registrations = [(''n2-custom-8-24576'', example_registrations ! 1)]" by code_simp
  obtain mts where "custom_entry (''n2-custom-8-24576'', example_registrations ! 1) = Some (mts, ''n2-custom-8-24576'', \<lparr>cp_onDemand = 2, cp_spot = 1\<rparr>)"
    by (simp add: custom_entry_def example_registrations_def p)
  then obtain types prices where l: "listCustomMachineTypes ?d () = Inr (types, prices)" and "prices = [(''n2-custom-8-24576'', \<lparr>cp_onDemand = 2, cp_spot = 1\<rparr>)]"
    by (simp add: listCustomMachineTypes_def w List.map_filter_def)
  then have "map_of prices ''n2-custom-8-24576'' = Some \<lparr>cp_onDemand = 2, cp_spot = 1\<rparr>" by simp
  from custom_price_of_kept_registration [OF _ l this, of example_registrations] show ?thesis by auto
qed

end
