(* ===== verification/Go_Time.thy ===== *)
theory Go_Time
  imports Go_Strings
begin

text \<open>
  \<^verbatim>\<open>time.Parse(time.RFC3339, s)\<close>. An instant counts nanoseconds from the zero time of Go, the start of the year 1 in UTC. The parser follows the
  general one of package \<^verbatim>\<open>time\<close> for the layout \<^verbatim>\<open>2006-01-02T15:04:05Z07:00\<close>, which also takes an hour of one digit and, after the seconds, a fraction that
  the layout does not mention; the fast path for well-formed input gives the same values. \<open>None\<close> is an error.
\<close>

definition is_leap :: "int \<Rightarrow> bool" where
  "is_leap y \<longleftrightarrow> y mod 4 = 0 \<and> (y mod 100 \<noteq> 0 \<or> y mod 400 = 0)"

definition days_in :: "int \<Rightarrow> nat \<Rightarrow> int" where
  "days_in y m = (if m = 2 then (if is_leap y then 29 else 28) else if m \<in> {4, 6, 9, 11} then 30 else 31)"

text \<open>Days from the start of the year 1 to the start of a year, and to a day of it.\<close>

definition days_before_year :: "int \<Rightarrow> int" where
  "days_before_year y = 365 * (y - 1) + (y - 1) div 4 - (y - 1) div 100 + (y - 1) div 400"

definition days_of_date :: "int \<Rightarrow> nat \<Rightarrow> nat \<Rightarrow> int" where
  "days_of_date y m d = days_before_year y + sum_list (map (days_in y) [1..<m]) + int d - 1"

definition date_time :: "int \<Rightarrow> nat \<Rightarrow> nat \<Rightarrow> nat \<Rightarrow> nat \<Rightarrow> nat \<Rightarrow> int \<Rightarrow> int \<Rightarrow> int" where
  "date_time y mo d h mi s ns offset =
     ((((days_of_date y mo d * 24 + int h) * 60 + int mi) * 60 + int s) - offset) * 10 ^ 9 + ns"

subsection \<open>Parsing\<close>

definition getnum :: "bool \<Rightarrow> string \<Rightarrow> (nat \<times> string) option" where
  "getnum fixed s = (case s of [] \<Rightarrow> None
     | c # t \<Rightarrow> if \<not> is_digit c then None
         else (case t of c' # u \<Rightarrow> if is_digit c' then Some (10 * digit_val c + digit_val c', u) else if fixed then None else Some (digit_val c, t)
           | [] \<Rightarrow> if fixed then None else Some (digit_val c, [])))"

definition skip_lit :: "char \<Rightarrow> string \<Rightarrow> string option" where
  "skip_lit c s = (case s of c' # t \<Rightarrow> if c' = c then Some t else None | [] \<Rightarrow> None)"

definition parse_year :: "string \<Rightarrow> (int \<times> string) option" where
  "parse_year s = (if 4 \<le> length s \<and> list_all is_digit (take 4 s) then Some (int (digits_val (take 4 s)), drop 4 s) else None)"

text \<open>A fraction of a second: a period or comma followed by digits, of which nine count.\<close>

definition parse_fraction :: "string \<Rightarrow> int \<times> string" where
  "parse_fraction s = (case s of c # t \<Rightarrow>
       (let ds = takeWhile is_digit t in if c \<in> {CHR ''.'', CHR '',''} \<and> ds \<noteq> []
          then (foldl (\<lambda>n c. 10 * n + int (digit_val c)) 0 (take 9 ds) * 10 ^ (9 - length (take 9 ds)), dropWhile is_digit t) else (0, s))
     | [] \<Rightarrow> (0, []))"

definition parse_zone :: "string \<Rightarrow> (int \<times> string) option" where
  "parse_zone s = (if has_prefix s ''Z'' then Some (0, drop 1 s)
     else if length s < 6 \<or> s ! 3 \<noteq> CHR '':'' then None
     else (case (getnum True (take 2 (drop 1 s)), getnum True (take 2 (drop 4 s))) of
         (Some (h, _), Some (m, _)) \<Rightarrow>
           if h > 24 \<or> m > 60 then None
           else if s ! 0 = CHR ''+'' then Some (int ((h * 60 + m) * 60), drop 6 s)
           else if s ! 0 = CHR ''-'' then Some (- int ((h * 60 + m) * 60), drop 6 s) else None
       | _ \<Rightarrow> None))"

definition parse_RFC3339 :: "string \<Rightarrow> int option" where
  "parse_RFC3339 s0 = Option.bind (parse_year s0) (\<lambda>(y, s). Option.bind (skip_lit CHR ''-'' s) (\<lambda>s.
     Option.bind (getnum True s) (\<lambda>(mo, s). if mo < 1 \<or> 12 < mo then None else Option.bind (skip_lit CHR ''-'' s) (\<lambda>s.
     Option.bind (getnum True s) (\<lambda>(d, s). Option.bind (skip_lit CHR ''T'' s) (\<lambda>s.
     Option.bind (getnum False s) (\<lambda>(h, s). if 24 \<le> h then None else Option.bind (skip_lit CHR '':'' s) (\<lambda>s.
     Option.bind (getnum True s) (\<lambda>(mi, s). if 60 \<le> mi then None else Option.bind (skip_lit CHR '':'' s) (\<lambda>s.
     Option.bind (getnum True s) (\<lambda>(sec, s). if 60 \<le> sec then None else (case parse_fraction s of (ns, s) \<Rightarrow>
     Option.bind (parse_zone s) (\<lambda>(offset, s). if s \<noteq> [] then None
       else if d < 1 \<or> days_in y mo < int d then None else Some (date_time y mo d h mi sec ns offset))))))))))))))"

subsection \<open>The calendar\<close>

lemma days_before_year_step: "days_before_year (y + 1) = days_before_year y + (if is_leap y then 366 else 365)"
proof -
  have d: "y div k = (y - 1) div k + (if k dvd y then 1 else 0)" if "0 < k" for k :: int
  proof (cases "k dvd y")
    case True
    then obtain q where q: "y = k * q" by blast
    have "(k * q - 1) div k = q - 1"
      using that int_div_pos_eq [of "k * q - 1" k "q - 1" "k - 1"] by (simp add: algebra_simps)
    with q that True show ?thesis by simp
  next
    case False
    let ?q = "y div k" and ?r = "y mod k"
    have "0 < ?r" "?r < k" using False that pos_mod_sign [of k y] pos_mod_bound [of k y] by (auto simp: dvd_eq_mod_eq_0 order_less_le)
    moreover have "y - 1 = k * ?q + (?r - 1)" by (simp add: algebra_simps minus_mod_eq_mult_div [symmetric])
    ultimately have "(y - 1) div k = ?q" using int_div_pos_eq [of "y - 1" k ?q "?r - 1"] by linarith
    with False show ?thesis by simp
  qed
  have "4 dvd y \<or> \<not> 100 dvd y" "100 dvd y \<or> \<not> 400 dvd y"
    using dvd_trans [of 4 100 y] dvd_trans [of 100 400 y] by auto
  then show ?thesis using d [of 4] d [of 100] d [of 400]
    by (auto simp: days_before_year_def is_leap_def dvd_eq_mod_eq_0 [symmetric])
qed

text \<open>The last day of a year is followed by the first day of the next.\<close>

lemma days_of_year: "sum_list (map (days_in y) [1..<13]) = (if is_leap y then 366 else 365)"
  by (simp add: days_in_def upt_rec)

lemma new_year: "days_of_date (y + 1) 1 1 = days_of_date y 12 31 + 1"
  using days_of_year [of y] by (simp add: days_of_date_def days_before_year_step days_in_def upt_rec)


end
