(* ===== verification/Nodepool_Template.thy ===== *)
theory Nodepool_Template
  imports Instance_Metadata Go_Errors Go_Url Go_Time
begin

text \<open>
  The bootstrap source pool, \<^verbatim>\<open>pkg/providers/nodepooltemplate\<close> and its controller: which node pool of the cluster new nodes take their bootstrap
  configuration from, the instance template that pool is running, and the fallback pool that is created when there is none. The Container and
  Compute services are the record \<open>npt_deps\<close> over an outside state; the state of the provider is \<open>npt_state\<close>, whose mutex makes each access one step.
\<close>

subsection \<open>Node pools and templates\<close>

text \<open>Fields of \<^verbatim>\<open>container.NodePool\<close>, \<^verbatim>\<open>container.NodeConfig\<close> and \<^verbatim>\<open>container.Cluster\<close> that this package reads or sets.\<close>

record kubelet_settings =
  nkc_InsecureKubeletReadonlyPortEnabled :: bool
  nkc_ForceSendFields :: "string list"

record node_config =
  nco_ImageType :: string
  nco_ServiceAccount :: string
  nco_EnableSecureBoot :: bool
  nco_EnableIntegrityMonitoring :: bool
  nco_KubeletConfig :: "kubelet_settings option"
  nco_Metadata :: labels
  nco_WorkloadMetadataMode :: "string option"

record node_pool =
  np_Name :: string
  np_Status :: string
  np_InstanceGroupUrls :: "string list"
  np_AutoscalingEnabled :: bool
  np_InitialNodeCount :: int
  np_Config :: "node_config option"
  np_EnablePrivateNodes :: "bool option" \<comment> \<open>\<^verbatim>\<open>NetworkConfig.EnablePrivateNodes\<close>, \<open>None\<close> for a nil \<^verbatim>\<open>NetworkConfig\<close>\<close>

record policy_cluster =
  pc_DefaultEnablePrivateNodes :: "bool option" \<comment> \<open>of \<^verbatim>\<open>NetworkConfig\<close>\<close>
  pc_EnablePrivateNodes :: "bool option" \<comment> \<open>of \<^verbatim>\<open>PrivateClusterConfig\<close>\<close>
  pc_WorkloadPool :: "string option" \<comment> \<open>of \<^verbatim>\<open>WorkloadIdentityConfig\<close>\<close>

record template_properties =
  tp_Labels :: "labels option"
  tp_Metadata :: "compute_metadata option"

record instance_template =
  tm_Name :: string
  tm_CreationTimestamp :: string
  tm_Properties :: "template_properties option"

record group_manager =
  gm_Versions :: "string option list" \<comment> \<open>\<^verbatim>\<open>InstanceTemplate\<close> of each version, \<open>None\<close> for a nil version\<close>
  gm_InstanceTemplate :: string

record 's npt_deps =
  nd_getPool :: "string \<Rightarrow> 's \<Rightarrow> (go_error + node_pool) \<times> 's"
  nd_listPools :: "string \<Rightarrow> 's \<Rightarrow> (go_error + node_pool list) \<times> 's"
  nd_createPool :: "string \<Rightarrow> node_pool \<Rightarrow> 's \<Rightarrow> go_error option \<times> 's"
  nd_getCluster :: "string \<Rightarrow> 's \<Rightarrow> (go_error + policy_cluster) \<times> 's"
  nd_getManager :: "string \<Rightarrow> string \<Rightarrow> string \<Rightarrow> 's \<Rightarrow> (go_error + group_manager) \<times> 's"
  nd_getRegionTemplate :: "string \<Rightarrow> string \<Rightarrow> string \<Rightarrow> 's \<Rightarrow> (go_error + instance_template) \<times> 's"
  nd_getTemplate :: "string \<Rightarrow> string \<Rightarrow> 's \<Rightarrow> (go_error + instance_template) \<times> 's"
  nd_listTemplates :: "string \<Rightarrow> string \<Rightarrow> 's \<Rightarrow> (instance_template option list list \<times> go_error option) \<times> 's" \<comment> \<open>the pages, and the error that ended them\<close>
  nd_authority_ok :: "string \<Rightarrow> bool"

record ClusterInfo =
  cin_ProjectID :: string
  cin_ClusterLocation :: string
  cin_NodeLocation :: string
  cin_Region :: string
  cin_Name :: string

record npt_state =
  npt_sourcePoolName :: string
  npt_lastTemplateName :: string
  npt_ClusterInfo :: ClusterInfo
  npt_defaultServiceAccount :: string
  npt_preferredPoolName :: string

definition KarpenterFallbackNodePoolTemplate :: string where [go_defs]: "KarpenterFallbackNodePoolTemplate = ''karpenter-fallback''"
definition KarpenterFallbackNodePoolTemplateImageType :: string where [go_defs]: "KarpenterFallbackNodePoolTemplateImageType = ''COS_CONTAINERD''"
definition clusterNameMetadataKey :: string where [go_defs]: "clusterNameMetadataKey = ''cluster-name''"
definition nodePoolNameLabelKey :: string where [go_defs]: "nodePoolNameLabelKey = ''goog-k8s-node-pool-name''"

definition NewNodepoolTemplateProvider :: "string \<Rightarrow> string \<Rightarrow> string \<Rightarrow> string \<Rightarrow> string \<Rightarrow> string \<Rightarrow> string \<Rightarrow> npt_state" where
  "NewNodepoolTemplateProvider clusterName region projectID serviceAccount clusterLocation nodeLocation preferredPoolName =
     \<lparr>npt_sourcePoolName = [], npt_lastTemplateName = [],
      npt_ClusterInfo = \<lparr>cin_ProjectID = projectID, cin_ClusterLocation = clusterLocation, cin_NodeLocation = nodeLocation, cin_Region = region, cin_Name = clusterName\<rparr>,
      npt_defaultServiceAccount = serviceAccount, npt_preferredPoolName = preferredPoolName\<rparr>"

definition cluster_path :: "ClusterInfo \<Rightarrow> string" where
  "cluster_path i = ''projects/'' @ cin_ProjectID i @ ''/locations/'' @ cin_NodeLocation i @ ''/clusters/'' @ cin_Name i"

definition pool_path :: "ClusterInfo \<Rightarrow> string \<Rightarrow> string" where
  "pool_path i nodePoolName = cluster_path i @ ''/nodePools/'' @ nodePoolName"

subsection \<open>Selecting the source pool\<close>

definition isPoolEligible :: "string \<Rightarrow> bool" where
  "isPoolEligible status \<longleftrightarrow> status = ''RUNNING'' \<or> status = ''RUNNING_WITH_ERROR''"

definition getNodePool :: "'s npt_deps \<Rightarrow> npt_state \<Rightarrow> string \<Rightarrow> 's \<Rightarrow> (go_error + node_pool) \<times> 's" where
  "getNodePool d p nodePoolName s = nd_getPool d (pool_path (npt_ClusterInfo p) nodePoolName) s"

definition validatePreferredPool :: "'s npt_deps \<Rightarrow> npt_state \<Rightarrow> 's \<Rightarrow> (go_error + string) \<times> 's" where
  "validatePreferredPool d p s = (case getNodePool d p (npt_preferredPoolName p) s of
      (Inl err, s) \<Rightarrow> (Inl (Errorf ''preferred pool %q not found: %w'' [npt_preferredPoolName p] [err]), s)
    | (Inr pool, s) \<Rightarrow> if \<not> isPoolEligible (np_Status pool)
        then (Inl (Errorf ''preferred pool %q has status %q (must be RUNNING or RUNNING_WITH_ERROR)'' [npt_preferredPoolName p, np_Status pool] []), s)
        else (Inr (npt_preferredPoolName p), s))"

fun firstEligibleNamedPool :: "node_pool list \<Rightarrow> string \<Rightarrow> string" where
  "firstEligibleNamedPool [] name = []"
| "firstEligibleNamedPool (pool # pools) name = (if np_Name pool = name \<and> isPoolEligible (np_Status pool) then name else firstEligibleNamedPool pools name)"

definition pool_before :: "string \<Rightarrow> string \<Rightarrow> bool" where
  "pool_before a b = (if a = KarpenterFallbackNodePoolTemplate then False else if b = KarpenterFallbackNodePoolTemplate then True else a < b)"

definition eligiblePoolsSorted :: "node_pool list \<Rightarrow> string \<Rightarrow> string list" where
  "eligiblePoolsSorted pools excludeName =
     sort_slice pool_before (map np_Name (filter (\<lambda>pool. isPoolEligible (np_Status pool) \<and> np_Name pool \<noteq> excludeName) pools))"

definition selectFromClusterPools :: "'s npt_deps \<Rightarrow> npt_state \<Rightarrow> 's \<Rightarrow> (go_error + string) \<times> 's" where
  "selectFromClusterPools d p s = (case nd_listPools d (cluster_path (npt_ClusterInfo p)) s of
      (Inl err, s) \<Rightarrow> (Inl (Errorf ''listing node pools: %w'' [] [err]), s)
    | (Inr pools, s) \<Rightarrow> (let name = firstEligibleNamedPool pools ''default-pool'' in
        if name \<noteq> [] then (Inr name, s)
        else (case eligiblePoolsSorted pools ''default-pool'' of
            c # _ \<Rightarrow> (Inr c, s)
          | [] \<Rightarrow> (Inl (Errorf ''no eligible node pool found in cluster %s/%s (pools must be RUNNING or RUNNING_WITH_ERROR)''
              [cin_NodeLocation (npt_ClusterInfo p), cin_Name (npt_ClusterInfo p)] []), s))))"

definition discoverSourcePool :: "'s npt_deps \<Rightarrow> npt_state \<Rightarrow> 's \<Rightarrow> (go_error + string) \<times> 's" where
  "discoverSourcePool d p s = (if npt_preferredPoolName p \<noteq> [] then validatePreferredPool d p s else selectFromClusterPools d p s)"

definition npt_Sync :: "'s npt_deps \<Rightarrow> npt_state \<Rightarrow> 's \<Rightarrow> go_error option \<times> npt_state \<times> 's" where
  "npt_Sync d p s = (case discoverSourcePool d p s of
      (Inl err, s) \<Rightarrow> (Some err, p, s)
    | (Inr selected, s) \<Rightarrow> (None, p\<lparr>npt_sourcePoolName := selected\<rparr>, s))"

definition getSourcePoolName :: "npt_state \<Rightarrow> go_error + string" where
  "getSourcePoolName p = (if npt_sourcePoolName p = [] then Inl (Errorf ''bootstrap source pool not yet discovered'' [] []) else Inr (npt_sourcePoolName p))"

subsection \<open>The fallback pool\<close>

definition clusterHasPrivateNodes :: "policy_cluster option \<Rightarrow> bool" where
  "clusterHasPrivateNodes c = (case c of None \<Rightarrow> False
     | Some cl \<Rightarrow> pc_DefaultEnablePrivateNodes cl = Some True \<or> pc_EnablePrivateNodes cl = Some True)"

definition clusterWorkloadPool :: "policy_cluster option \<Rightarrow> string" where
  "clusterWorkloadPool c = (case c of None \<Rightarrow> [] | Some cl \<Rightarrow> (case pc_WorkloadPool cl of None \<Rightarrow> [] | Some w \<Rightarrow> w))"

definition buildFallbackNodePool :: "policy_cluster option \<Rightarrow> string \<Rightarrow> string \<Rightarrow> node_pool" where
  "buildFallbackNodePool c poolName serviceAccount = \<lparr>np_Name = poolName, np_Status = [], np_InstanceGroupUrls = [], np_AutoscalingEnabled = False, np_InitialNodeCount = 0,
     np_Config = Some \<lparr>nco_ImageType = KarpenterFallbackNodePoolTemplateImageType, nco_ServiceAccount = serviceAccount,
       nco_EnableSecureBoot = True, nco_EnableIntegrityMonitoring = True,
       nco_KubeletConfig = Some \<lparr>nkc_InsecureKubeletReadonlyPortEnabled = False, nkc_ForceSendFields = []\<rparr>,
       nco_Metadata = [(''block-project-ssh-keys'', ''true'')],
       nco_WorkloadMetadataMode = (if clusterWorkloadPool c \<noteq> [] then Some ''GKE_METADATA'' else None)\<rparr>,
     np_EnablePrivateNodes = (if clusterHasPrivateNodes c then Some True else None)\<rparr>"

definition fetchClusterConfig :: "'s npt_deps \<Rightarrow> npt_state \<Rightarrow> 's \<Rightarrow> (go_error + policy_cluster) \<times> 's" where
  "fetchClusterConfig d p s = nd_getCluster d (cluster_path (npt_ClusterInfo p)) s"

definition ensureKarpenterNodePoolTemplate :: "'s npt_deps \<Rightarrow> npt_state \<Rightarrow> string \<Rightarrow> 's \<Rightarrow> go_error option \<times> 's" where
  "ensureKarpenterNodePoolTemplate d p serviceAccount s = (let i = npt_ClusterInfo p; name = KarpenterFallbackNodePoolTemplate in
     if cin_Name i = [] then (Some (Errorf ''clusterName is required but was empty'' [] []), s)
     else (case nd_getPool d (pool_path i name) s of
         (Inr _, s) \<Rightarrow> (None, s)
       | (Inl err, s) \<Rightarrow> if (case errors_as as_googleapi err of Some (code, _, _) \<Rightarrow> code \<noteq> 404 | None \<Rightarrow> False) then (Some err, s)
           else (case fetchClusterConfig d p s of (c, s) \<Rightarrow>
             (case nd_createPool d (cluster_path i) (buildFallbackNodePool (case c of Inr cl \<Rightarrow> Some cl | Inl _ \<Rightarrow> None) name serviceAccount) s of
                 (None, s) \<Rightarrow> (None, s)
               | (Some err, s) \<Rightarrow> if (case errors_as as_googleapi err of Some (code, _, _) \<Rightarrow> code = 409 | None \<Rightarrow> False) then (None, s)
                   else (Some (Errorf ''creating fallback pool (serviceAccount=%s): %w'' [serviceAccount] [err]), s)))))"

definition EnsureFallbackPool :: "'s npt_deps \<Rightarrow> npt_state \<Rightarrow> 's \<Rightarrow> go_error option \<times> 's" where
  "EnsureFallbackPool d p s = ensureKarpenterNodePoolTemplate d p (npt_defaultServiceAccount p) s"

text \<open>The controller: when it runs again, and its error.\<close>

definition npt_Reconcile :: "'s npt_deps \<Rightarrow> npt_state \<Rightarrow> 's \<Rightarrow> (duration \<times> go_error option) \<times> npt_state \<times> 's" where
  "npt_Reconcile d p s = (case npt_Sync d p s of
      (Some err, p, s) \<Rightarrow> (case EnsureFallbackPool d p s of
          (Some createErr, s) \<Rightarrow> ((0, Some (Errorf ''creating fallback pool: %w'' [] [createErr])), p, s)
        | (None, s) \<Rightarrow> ((15 * 10 ^ 9, None), p, s))
    | (None, p, s) \<Rightarrow> ((12 * 60 * 10 ^ 9, None), p, s))"

subsection \<open>The template of the source pool\<close>

datatype computeScope = scopeGlobal | scopeRegion | scopeZone

record computeResourceRef =
  crr_project :: string
  crr_scope :: computeScope
  crr_location :: string
  crr_name :: string

fun index_of :: "'a \<Rightarrow> 'a list \<Rightarrow> nat option" where
  "index_of x [] = None"
| "index_of x (y # ys) = (if x = y then Some 0 else map_option Suc (index_of x ys))"

definition parseComputeResourceURL :: "(string \<Rightarrow> bool) \<Rightarrow> string \<Rightarrow> string \<Rightarrow> go_error + computeResourceRef" where
  "parseComputeResourceURL authority_ok rawURL collection = (case url_Parse authority_ok rawURL of
      None \<Rightarrow> Inl (Errorf ''parsing compute URL %q: %w'' [rawURL] [Errorf ''parse %q'' [rawURL] []])
    | Some parsed \<Rightarrow> (let segments = split_on CHR ''/'' (trim_slashes (url_Path parsed)) in
        case index_of collection segments of
          None \<Rightarrow> Inl (Errorf ''compute URL %q does not name a %s'' [rawURL, collection] [])
        | Some i \<Rightarrow> if i = length segments - 1 then Inl (Errorf ''compute URL %q does not name a %s'' [rawURL, collection] [])
            else (let name = segments ! (i + 1) in
              if i \<ge> 3 \<and> segments ! (i - 1) = ''global'' \<and> segments ! (i - 3) = ''projects''
              then Inr \<lparr>crr_project = segments ! (i - 2), crr_scope = scopeGlobal, crr_location = [], crr_name = name\<rparr>
              else if i \<ge> 4 \<and> segments ! (i - 4) = ''projects'' \<and> (segments ! (i - 2) = ''zones'' \<or> segments ! (i - 2) = ''regions'')
              then Inr \<lparr>crr_project = segments ! (i - 3), crr_scope = (if segments ! (i - 2) = ''zones'' then scopeZone else scopeRegion),
                crr_location = segments ! (i - 1), crr_name = name\<rparr>
              else Inl (Errorf ''compute URL %q is not a recognized %s self-link'' [rawURL, collection] []))))"

definition templateCreatedAt :: "instance_template \<Rightarrow> instant" where
  "templateCreatedAt template = (case parse_RFC3339 (tm_CreationTimestamp template) of Some t \<Rightarrow> t | None \<Rightarrow> 0)"

definition newerTemplate :: "instance_template option \<Rightarrow> instance_template option \<Rightarrow> instance_template option" where
  "newerTemplate a b = (case a of None \<Rightarrow> b | Some x \<Rightarrow> (case b of None \<Rightarrow> a
     | Some y \<Rightarrow> if templateCreatedAt x < templateCreatedAt y then b else a))"

definition hasMetadataValue :: "compute_metadata option \<Rightarrow> string \<Rightarrow> string \<Rightarrow> bool" where
  "hasMetadataValue meta key v = (case meta of None \<Rightarrow> False | Some items \<Rightarrow> Some (key, Some v) \<in> set items)"

definition namesCluster :: "compute_metadata option \<Rightarrow> string \<Rightarrow> bool" where
  "namesCluster meta clusterName = hasMetadataValue meta clusterNameMetadataKey clusterName"

definition templateBelongsToPool :: "npt_state \<Rightarrow> instance_template option \<Rightarrow> string \<Rightarrow> bool" where
  "templateBelongsToPool p template poolName = (case template of None \<Rightarrow> False
     | Some t \<Rightarrow> (case tm_Properties t of None \<Rightarrow> False
       | Some props \<Rightarrow> (case tp_Labels props of None \<Rightarrow> False
         | Some ls \<Rightarrow> if tp_Metadata props = None then False
             else if \<not> namesCluster (tp_Metadata props) (cin_Name (npt_ClusterInfo p)) then False
             else map_str ls nodePoolNameLabelKey = poolName)))"

text \<open>The templates an instance group manager names.\<close>

definition manager_templates :: "group_manager \<Rightarrow> string list" where
  "manager_templates m = (let versions = filter (\<lambda>u. u \<noteq> []) (List.map_filter (\<lambda>v. v) (gm_Versions m)) in
     if versions = [] \<and> gm_InstanceTemplate m \<noteq> [] then [gm_InstanceTemplate m] else versions)"

definition instanceGroupTemplateURLs :: "'s npt_deps \<Rightarrow> string \<Rightarrow> 's \<Rightarrow> (go_error + string list) \<times> 's" where
  "instanceGroupTemplateURLs d instanceGroupURL s = (case parseComputeResourceURL (nd_authority_ok d) instanceGroupURL ''instanceGroupManagers'' of
      Inl err \<Rightarrow> (Inl err, s)
    | Inr ref \<Rightarrow> if crr_scope ref \<noteq> scopeZone then (Inl (Errorf ''instance group %q is not zonal'' [instanceGroupURL] []), s)
        else (case nd_getManager d (crr_project ref) (crr_location ref) (crr_name ref) s of
            (Inl err, s) \<Rightarrow> (Inl (Errorf ''getting instance group manager %q: %w'' [instanceGroupURL] [err]), s)
          | (Inr manager, s) \<Rightarrow> if manager_templates manager = []
              then (Inl (Errorf ''instance group manager %q names no instance template'' [instanceGroupURL] []), s)
              else (Inr (manager_templates manager), s)))"

definition getInstanceTemplateByURL :: "'s npt_deps \<Rightarrow> string \<Rightarrow> 's \<Rightarrow> (go_error + instance_template) \<times> 's" where
  "getInstanceTemplateByURL d templateURL s = (case parseComputeResourceURL (nd_authority_ok d) templateURL ''instanceTemplates'' of
      Inl err \<Rightarrow> (Inl err, s)
    | Inr ref \<Rightarrow> (case crr_scope ref of
        scopeRegion \<Rightarrow> nd_getRegionTemplate d (crr_project ref) (crr_location ref) (crr_name ref) s
      | scopeGlobal \<Rightarrow> nd_getTemplate d (crr_project ref) (crr_name ref) s
      | scopeZone \<Rightarrow> (Inl (Errorf ''instance template %q is neither regional nor global'' [templateURL] []), s)))"

text \<open>The two loops of \<^verbatim>\<open>resolveTemplateFromNodePool\<close>.\<close>

fun collect_urls :: "'s npt_deps \<Rightarrow> string list \<Rightarrow> string list \<Rightarrow> 's \<Rightarrow> (go_error + string list) \<times> 's" where
  "collect_urls d [] templateURLs s = (Inr templateURLs, s)"
| "collect_urls d (u # us) templateURLs s = (case instanceGroupTemplateURLs d u s of
      (Inl err, s) \<Rightarrow> (Inl err, s)
    | (Inr urls, s) \<Rightarrow> collect_urls d us (foldl (\<lambda>acc t. if t \<in> set acc then acc else acc @ [t]) templateURLs urls) s)"

fun newest_template :: "'s npt_deps \<Rightarrow> string \<Rightarrow> string list \<Rightarrow> instance_template option \<Rightarrow> 's \<Rightarrow> (go_error + instance_template option) \<times> 's" where
  "newest_template d poolName [] newest s = (Inr newest, s)"
| "newest_template d poolName (u # us) newest s = (case getInstanceTemplateByURL d u s of
      (Inl err, s) \<Rightarrow> (Inl (Errorf ''fetching instance template for node pool %q: %w'' [poolName] [err]), s)
    | (Inr template, s) \<Rightarrow> newest_template d poolName us (newerTemplate newest (Some template)) s)"

definition resolveTemplateFromNodePool :: "'s npt_deps \<Rightarrow> npt_state \<Rightarrow> string \<Rightarrow> 's \<Rightarrow> (go_error + instance_template) \<times> 's" where
  "resolveTemplateFromNodePool d p poolName s = (case getNodePool d p poolName s of
      (Inl err, s) \<Rightarrow> (Inl (Errorf ''getting node pool %q: %w'' [poolName] [err]), s)
    | (Inr nodePool, s) \<Rightarrow> if np_InstanceGroupUrls nodePool = [] then (Inl (Errorf ''node pool %q has no instance groups'' [poolName] []), s)
        else (case collect_urls d (np_InstanceGroupUrls nodePool) [] s of
            (Inl err, s) \<Rightarrow> (Inl err, s)
          | (Inr urls, s) \<Rightarrow> if urls = [] then (Inl (Errorf ''no instance template named by the instance groups of node pool %q'' [poolName] []), s)
              else (case newest_template d poolName urls None s of
                  (Inl err, s) \<Rightarrow> (Inl err, s)
                | (Inr None, s) \<Rightarrow> (Inl (Errorf ''no instance template resolved for node pool %q'' [poolName] []), s)
                | (Inr (Some t), s) \<Rightarrow> (Inr t, s))))"

definition scan_template :: "npt_state \<Rightarrow> string \<Rightarrow> instance_template option \<Rightarrow> instance_template option \<Rightarrow> instance_template option" where
  "scan_template p poolName newest template = (if templateBelongsToPool p template poolName then newerTemplate newest template else newest)"

definition resolveTemplateByLabelScan :: "'s npt_deps \<Rightarrow> npt_state \<Rightarrow> string \<Rightarrow> 's \<Rightarrow> (go_error + instance_template) \<times> 's" where
  "resolveTemplateByLabelScan d p poolName s = (case nd_listTemplates d (cin_ProjectID (npt_ClusterInfo p)) (cin_Region (npt_ClusterInfo p)) s of ((pages, err), s) \<Rightarrow>
     (case err of Some e \<Rightarrow> (Inl (Errorf ''cannot list all instance templates for node pool name %q: %w'' [poolName] [e]), s)
      | None \<Rightarrow> (case foldl (scan_template p poolName) None (concat pages) of
          None \<Rightarrow> (Inl (Errorf ''no instance template found with label %s=%s'' [nodePoolNameLabelKey, poolName] []), s)
        | Some t \<Rightarrow> (Inr t, s))))"

definition GetSourceTemplateMetadata :: "'s npt_deps \<Rightarrow> npt_state \<Rightarrow> 's \<Rightarrow> (go_error + compute_metadata option) \<times> npt_state \<times> 's" where
  "GetSourceTemplateMetadata d p s = (case getSourcePoolName p of
      Inl err \<Rightarrow> (Inl (Errorf ''getting source pool name: %w'' [] [err]), p, s)
    | Inr pool \<Rightarrow> (case (case resolveTemplateFromNodePool d p pool s of
          (Inl err, s) \<Rightarrow> resolveTemplateByLabelScan d p pool s | (Inr t, s) \<Rightarrow> (Inr t, s)) of
        (Inl err, s) \<Rightarrow> (Inl err, p, s)
      | (Inr template, s) \<Rightarrow> (case Option.bind (tm_Properties template) tp_Metadata of
          None \<Rightarrow> (Inl (Errorf ''instance template %q for node pool %q has no metadata'' [tm_Name template, pool] []), p, s)
        | Some m \<Rightarrow> (Inr (Some m), p\<lparr>npt_lastTemplateName := tm_Name template\<rparr>, s))))"

subsection \<open>Which pool is the source\<close>

definition eligible_names :: "node_pool list \<Rightarrow> string set" where
  "eligible_names pools = np_Name ` {pool \<in> set pools. isPoolEligible (np_Status pool)}"

lemma finite_eligible_names [simp]: "finite (eligible_names pools)"
  by (simp add: eligible_names_def)

lemma eligible_names_Cons [simp]: "eligible_names [] = {}"
  "eligible_names (pool # pools) = (if isPoolEligible (np_Status pool) then insert (np_Name pool) (eligible_names pools) else eligible_names pools)"
  by (auto simp: eligible_names_def)

lemma weak_order_pool_before: "weak_order pool_before"
  by (auto simp: weak_order_def pool_before_def split: if_splits)

lemma firstEligible_iff: "name \<noteq> [] \<Longrightarrow> firstEligibleNamedPool pools name = (if name \<in> eligible_names pools then name else [])"
  by (induction pools) (auto simp: eligible_names_def)

lemma set_eligiblePoolsSorted: "set (eligiblePoolsSorted pools x) = eligible_names pools - {x}"
  by (auto simp: eligiblePoolsSorted_def eligible_names_def)

lemma hd_eligiblePoolsSorted:
  assumes "eligiblePoolsSorted pools x = c # cs"
  shows "c = (if eligible_names pools - {x, KarpenterFallbackNodePoolTemplate} = {} then KarpenterFallbackNodePoolTemplate
    else Min (eligible_names pools - {x, KarpenterFallbackNodePoolTemplate}))"
proof -
  let ?E = "eligible_names pools - {x}" and ?F = "KarpenterFallbackNodePoolTemplate"
  have set: "insert c (set cs) = ?E" using set_eligiblePoolsSorted [of pools x] assms by simp
  have least: "\<not> pool_before n c" if "n \<in> ?E" for n
  proof -
    have "sorted_wrt (\<lambda>a b. \<not> pool_before b a) (c # cs)"
      using sorted_sort_slice [OF weak_order_pool_before] assms unfolding eligiblePoolsSorted_def by metis
    then show ?thesis using that set weak_order_irrefl [OF weak_order_pool_before, of c] by auto
  qed
  show ?thesis
  proof (cases "?E - {?F} = {}")
    case True
    then have "c = ?F" using set by auto
    with True show ?thesis by (auto simp: Diff_insert2 [symmetric] insert_commute)
  next
    case False
    then obtain n where n: "n \<in> ?E" "n \<noteq> ?F" by auto
    then have "c \<noteq> ?F" using least [of n] by (auto simp: pool_before_def)
    moreover have "c \<le> n" if "n \<in> ?E - {?F}" for n
      using least [of n] that \<open>c \<noteq> ?F\<close> by (simp add: pool_before_def)
    ultimately have "Min (?E - {?F}) = c" using set by (intro Min_eqI) auto
    with False show ?thesis by (simp add: Diff_insert2 [symmetric] insert_commute)
  qed
qed

lemma selectFromClusterPools_exact:
  assumes "nd_listPools d (cluster_path (npt_ClusterInfo p)) s = (Inr pools, s')"
  shows "\<exists>r. selectFromClusterPools d p s = (r, s') \<and> (let E = eligible_names pools; F = KarpenterFallbackNodePoolTemplate in
    if ''default-pool'' \<in> E then r = Inr ''default-pool''
    else if E - {F} \<noteq> {} then r = Inr (Min (E - {F}))
    else if F \<in> E then r = Inr F
    else (\<exists>e. r = Inl e))"
proof (cases "''default-pool'' \<in> eligible_names pools")
  case True
  then show ?thesis using assms by (simp add: selectFromClusterPools_def firstEligible_iff)
next
  case False
  let ?E = "eligible_names pools" and ?F = "KarpenterFallbackNodePoolTemplate"
  have E: "?E - {''default-pool'', ?F} = ?E - {?F}" using False by auto
  show ?thesis
  proof (cases "eligiblePoolsSorted pools ''default-pool''")
    case Nil
    then have "?E = {}" using set_eligiblePoolsSorted [of pools "''default-pool''"] False by auto
    with Nil False assms show ?thesis by (simp add: selectFromClusterPools_def firstEligible_iff)
  next
    case (Cons c cs)
    have "c \<in> ?E" using set_eligiblePoolsSorted [of pools "''default-pool''"] Cons by auto
    moreover note hd_eligiblePoolsSorted [OF Cons, unfolded E]
    ultimately show ?thesis using Cons False assms by (auto simp: selectFromClusterPools_def firstEligible_iff Let_def)
  qed
qed

subsection \<open>A cluster without a source pool gets one\<close>

text \<open>The Container service as the list of the node pools of one cluster: a created pool starts provisioning, a second one of the same name is a conflict.\<close>

definition pool_server :: "ClusterInfo \<Rightarrow> (go_error + policy_cluster) \<Rightarrow> node_pool list npt_deps" where
  "pool_server i conf = \<lparr>
     nd_getPool = (\<lambda>link pools. (case List.find (\<lambda>pool. pool_path i (np_Name pool) = link) pools of
        Some pool \<Rightarrow> Inr pool | None \<Rightarrow> Inl (GoogleApiError 404 ''not found'' []), pools)),
     nd_listPools = (\<lambda>link pools. (if link = cluster_path i then Inr pools else Inl (GoogleApiError 404 ''not found'' []), pools)),
     nd_createPool = (\<lambda>link pool pools. if np_Name pool \<in> set (map np_Name pools) then (Some (GoogleApiError 409 ''already exists'' []), pools)
        else (None, pools @ [pool\<lparr>np_Status := ''PROVISIONING''\<rparr>])),
     nd_getCluster = (\<lambda>_ pools. (conf, pools)),
     nd_getManager = (\<lambda>_ _ _ pools. (Inl (GoogleApiError 404 [] []), pools)), nd_getRegionTemplate = (\<lambda>_ _ _ pools. (Inl (GoogleApiError 404 [] []), pools)),
     nd_getTemplate = (\<lambda>_ _ pools. (Inl (GoogleApiError 404 [] []), pools)), nd_listTemplates = (\<lambda>_ _ pools. (([], None), pools)), nd_authority_ok = (\<lambda>_. True)\<rparr>"

lemma pool_path_inj [simp]: "pool_path i a = pool_path i b \<longleftrightarrow> a = b"
  by (simp add: pool_path_def)

lemma errors_as_api [simp]: "errors_as as_googleapi (GoogleApiError c m items) = Some (c, m, items)"
  by (simp add: errors_as.simps(1))

lemma Sync_server:
  assumes "npt_ClusterInfo p = i" "npt_preferredPoolName p = []"
  shows "if eligible_names pools = {} then \<exists>e. npt_Sync (pool_server i conf) p pools = (Some e, p, pools)
    else \<exists>n \<in> eligible_names pools. npt_Sync (pool_server i conf) p pools = (None, p\<lparr>npt_sourcePoolName := n\<rparr>, pools)"
proof -
  let ?E = "eligible_names pools" and ?F = "KarpenterFallbackNodePoolTemplate"
  have "nd_listPools (pool_server i conf) (cluster_path (npt_ClusterInfo p)) pools = (Inr pools, pools)"
    using assms(1) by (simp add: pool_server_def)
  from selectFromClusterPools_exact [OF this] obtain r where r: "selectFromClusterPools (pool_server i conf) p pools = (r, pools)"
    and s: "if ''default-pool'' \<in> ?E then r = Inr ''default-pool'' else if ?E - {?F} \<noteq> {} then r = Inr (Min (?E - {?F}))
      else if ?F \<in> ?E then r = Inr ?F else (\<exists>e. r = Inl e)" by (auto simp: Let_def)
  have "Min (?E - {?F}) \<in> ?E" if "?E - {?F} \<noteq> {}" using Min_in [OF _ that] by auto
  with s have "if ?E = {} then \<exists>e. r = Inl e else \<exists>n \<in> ?E. r = Inr n" by (auto split: if_splits)
  with r assms(2) show ?thesis by (auto simp: npt_Sync_def discoverSourcePool_def split: if_splits)
qed

lemma find_pool_name:
  "(case List.find (\<lambda>pool. np_Name pool = n) pools of Some pool \<Rightarrow> n \<in> set (map np_Name pools) | None \<Rightarrow> n \<notin> set (map np_Name pools))"
  by (induction pools) (auto split: option.splits)

lemma EnsureFallbackPool_server:
  assumes "npt_ClusterInfo p = i" "cin_Name i \<noteq> []"
  shows "\<exists>pool. np_Name pool = KarpenterFallbackNodePoolTemplate \<and> EnsureFallbackPool (pool_server i conf) p pools =
    (None, if KarpenterFallbackNodePoolTemplate \<in> set (map np_Name pools) then pools else pools @ [pool])"
proof -
  let ?F = KarpenterFallbackNodePoolTemplate
  let ?pool = "(buildFallbackNodePool (case conf of Inr cl \<Rightarrow> Some cl | Inl _ \<Rightarrow> None) ?F (npt_defaultServiceAccount p))\<lparr>np_Status := ''PROVISIONING''\<rparr>"
  have "np_Name ?pool = ?F" by (simp add: buildFallbackNodePool_def)
  moreover have "EnsureFallbackPool (pool_server i conf) p pools = (None, if ?F \<in> set (map np_Name pools) then pools else pools @ [?pool])"
    using assms find_pool_name [of ?F pools]
    by (auto simp: EnsureFallbackPool_def ensureKarpenterNodePoolTemplate_def fetchClusterConfig_def pool_server_def Let_def buildFallbackNodePool_def
        split: option.splits)
  ultimately show ?thesis by blast
qed


definition example_npt :: npt_state where
  "example_npt = NewNodepoolTemplateProvider ''c'' ''r'' ''proj'' [] ''r'' ''r'' []"

definition example_fallback :: node_pool where
  "example_fallback = (buildFallbackNodePool None KarpenterFallbackNodePoolTemplate [])\<lparr>np_Status := ''RUNNING''\<rparr>"


subsection \<open>Which template is used\<close>

definition read_only :: "'s npt_deps \<Rightarrow> bool" where
  "read_only d \<longleftrightarrow> (\<forall>l s. snd (nd_getPool d l s) = s) \<and> (\<forall>a b c s. snd (nd_getManager d a b c s) = s) \<and> (\<forall>a b c s. snd (nd_getRegionTemplate d a b c s) = s)
     \<and> (\<forall>a b s. snd (nd_getTemplate d a b s) = s) \<and> (\<forall>a b s. snd (nd_listTemplates d a b s) = s)"

definition newest_among :: "instance_template set \<Rightarrow> instance_template \<Rightarrow> bool" where
  "newest_among T t \<longleftrightarrow> t \<in> T \<and> (\<forall>t' \<in> T. templateCreatedAt t' \<le> templateCreatedAt t)"

text \<open>The instance groups of a pool, the templates they name, and whether all of it can be read.\<close>

definition pool_groups :: "'s npt_deps \<Rightarrow> npt_state \<Rightarrow> string \<Rightarrow> 's \<Rightarrow> string list" where
  "pool_groups d p pool s = (case fst (getNodePool d p pool s) of Inr np \<Rightarrow> np_InstanceGroupUrls np | Inl _ \<Rightarrow> [])"

definition named_urls :: "'s npt_deps \<Rightarrow> string list \<Rightarrow> 's \<Rightarrow> string set" where
  "named_urls d gs s = {u. \<exists>g \<in> set gs. \<exists>urls. fst (instanceGroupTemplateURLs d g s) = Inr urls \<and> u \<in> set urls}"

definition fetched :: "'s npt_deps \<Rightarrow> string set \<Rightarrow> 's \<Rightarrow> instance_template set" where
  "fetched d us s = {t. \<exists>u \<in> us. fst (getInstanceTemplateByURL d u s) = Inr t}"

definition groups_ok :: "'s npt_deps \<Rightarrow> string set \<Rightarrow> 's \<Rightarrow> bool" where
  "groups_ok d gs s \<longleftrightarrow> (\<forall>g \<in> gs. \<not> isl (fst (instanceGroupTemplateURLs d g s)))"

definition templates_ok :: "'s npt_deps \<Rightarrow> string set \<Rightarrow> 's \<Rightarrow> bool" where
  "templates_ok d us s \<longleftrightarrow> (\<forall>u \<in> us. \<not> isl (fst (getInstanceTemplateByURL d u s)))"

lemma all_ok_insert [simp]:
  "groups_ok d {} s" "groups_ok d (insert g gs) s \<longleftrightarrow> \<not> isl (fst (instanceGroupTemplateURLs d g s)) \<and> groups_ok d gs s"
  "templates_ok d {} s" "templates_ok d (insert u us) s \<longleftrightarrow> \<not> isl (fst (getInstanceTemplateByURL d u s)) \<and> templates_ok d us s"
  by (auto simp: groups_ok_def templates_ok_def)

definition readable_pool :: "'s npt_deps \<Rightarrow> npt_state \<Rightarrow> string \<Rightarrow> 's \<Rightarrow> bool" where
  "readable_pool d p pool s \<longleftrightarrow> pool_groups d p pool s \<noteq> [] \<and> groups_ok d (set (pool_groups d p pool s)) s
     \<and> templates_ok d (named_urls d (pool_groups d p pool s) s) s"

lemma read_only_state:
  assumes "read_only d"
  shows "snd (getNodePool d p n s) = s" "snd (instanceGroupTemplateURLs d g s) = s" "snd (getInstanceTemplateByURL d u s) = s"
  using assms unfolding read_only_def
  by (auto simp: getNodePool_def instanceGroupTemplateURLs_def getInstanceTemplateByURL_def split: sum.splits prod.splits computeScope.splits) (metis snd_conv)+

definition newest_opt :: "instance_template set \<Rightarrow> instance_template option \<Rightarrow> bool" where
  "newest_opt T x \<longleftrightarrow> (case x of None \<Rightarrow> T = {} | Some t \<Rightarrow> newest_among T t)"

lemma newest_opt_newer: "newest_opt T x \<Longrightarrow> newest_opt (insert t T) (newerTemplate x (Some t))"
  by (auto simp: newest_opt_def newest_among_def newerTemplate_def split: option.splits)

lemma set_add_all: "set (foldl (\<lambda>acc t. if t \<in> set acc then acc else acc @ [t]) acc ts) = set acc \<union> set ts"
  by (induction ts arbitrary: acc) auto

lemma collect_urls_total:
  assumes "read_only d"
  shows "\<exists>r. collect_urls d gs acc s = (r, s) \<and> (if groups_ok d (set gs) s
    then \<exists>urls. r = Inr urls \<and> set urls = set acc \<union> named_urls d gs s else isl r)"
proof (induction gs arbitrary: acc)
  case (Cons g gs)
  obtain r where r: "instanceGroupTemplateURLs d g s = (r, s)" using read_only_state(2) [OF assms, of g s] by (metis prod.collapse)
  show ?case
  proof (cases r)
    case (Inr urls)
    have "named_urls d (g # gs) s = set urls \<union> named_urls d gs s" using r Inr by (auto simp: named_urls_def)
    moreover obtain q where "collect_urls d gs (foldl (\<lambda>acc t. if t \<in> set acc then acc else acc @ [t]) acc urls) s = (q, s)"
      "if groups_ok d (set gs) s then \<exists>us. q = Inr us \<and> set us = set acc \<union> set urls \<union> named_urls d gs s else isl q"
      using Cons.IH [of "foldl (\<lambda>acc t. if t \<in> set acc then acc else acc @ [t]) acc urls"] unfolding set_add_all by blast
    ultimately show ?thesis using r Inr by (cases "groups_ok d (set gs) s") (simp_all add: Un_assoc)
  qed (use r in simp)
qed (simp add: named_urls_def)

lemma newest_template_total:
  assumes "read_only d" "newest_opt T x"
  shows "\<exists>r. newest_template d pool us x s = (r, s) \<and> (if templates_ok d (set us) s
    then \<exists>y. r = Inr y \<and> newest_opt (T \<union> fetched d (set us) s) y else isl r)"
  using assms(2)
proof (induction us arbitrary: x T)
  case (Cons u us)
  obtain r where r: "getInstanceTemplateByURL d u s = (r, s)" using read_only_state(3) [OF assms(1), of u s] by (metis prod.collapse)
  show ?case
  proof (cases r)
    case (Inr t)
    have "T \<union> fetched d (set (u # us)) s = insert t T \<union> fetched d (set us) s" using r Inr by (auto simp: fetched_def)
    with Cons.IH [OF newest_opt_newer [OF Cons.prems, of t]] r Inr show ?thesis
      by (cases "templates_ok d (set us) s") simp_all
  qed (use r in simp)
qed (simp add: fetched_def)

lemma instanceGroupTemplateURLs_nonempty: "fst (instanceGroupTemplateURLs d g s) = Inr us \<Longrightarrow> us \<noteq> []"
  by (auto simp: instanceGroupTemplateURLs_def split: sum.splits prod.splits if_splits)

lemma named_urls_nonempty: "groups_ok d (set gs) s \<Longrightarrow> gs \<noteq> [] \<Longrightarrow> named_urls d gs s \<noteq> {}"
proof -
  assume "groups_ok d (set gs) s" "gs \<noteq> []"
  then have "\<not> isl (fst (instanceGroupTemplateURLs d (hd gs) s))" by (simp add: groups_ok_def)
  then obtain us where "fst (instanceGroupTemplateURLs d (hd gs) s) = Inr us" by (cases "fst (instanceGroupTemplateURLs d (hd gs) s)") auto
  with instanceGroupTemplateURLs_nonempty [OF this] \<open>gs \<noteq> []\<close> have "hd us \<in> named_urls d gs s"
    unfolding named_urls_def by (blast intro: hd_in_set)
  then show ?thesis by auto
qed

lemma fetched_nonempty: "templates_ok d us s \<Longrightarrow> us \<noteq> {} \<Longrightarrow> fetched d us s \<noteq> {}"
  unfolding templates_ok_def fetched_def by (auto simp: isl_def, metis sum.exhaust)

lemma resolveTemplateFromNodePool_total:
  assumes "read_only d"
  shows "\<exists>r. resolveTemplateFromNodePool d p pool s = (r, s) \<and> (if readable_pool d p pool s
    then \<exists>t. r = Inr t \<and> newest_among (fetched d (named_urls d (pool_groups d p pool s) s) s) t else isl r)"
proof -
  obtain r where r: "getNodePool d p pool s = (r, s)" using read_only_state(1) [OF assms, of p pool s] by (metis prod.collapse)
  show ?thesis
  proof (cases r)
    case (Inl e)
    then show ?thesis using r by (simp add: resolveTemplateFromNodePool_def readable_pool_def pool_groups_def)
  next
    case (Inr np)
    let ?gs = "np_InstanceGroupUrls np"
    have gs: "pool_groups d p pool s = ?gs" using r Inr by (simp add: pool_groups_def)
    obtain c where c: "collect_urls d ?gs [] s = (c, s)" "if groups_ok d (set ?gs) s
      then \<exists>urls. c = Inr urls \<and> set urls = named_urls d ?gs s else isl c" using collect_urls_total [OF assms, of ?gs "[]" s] unfolding list.set(1) Un_empty_left by blast
    show ?thesis
    proof (cases "?gs \<noteq> [] \<and> groups_ok d (set ?gs) s")
      case False
      then show ?thesis using r Inr c by (auto simp: resolveTemplateFromNodePool_def readable_pool_def gs split: sum.splits)
    next
      case True
      then obtain urls where u: "c = Inr urls" "set urls = named_urls d ?gs s" using c by auto
      obtain n where n: "newest_template d pool urls None s = (n, s)" "if templates_ok d (set urls) s
        then \<exists>y. n = Inr y \<and> newest_opt (fetched d (set urls) s) y else isl n"
        using newest_template_total [OF assms, of "{}" None pool urls s] unfolding Un_empty_left newest_opt_def [of "{}" None] option.case by blast
      have ne: "urls \<noteq> []" using named_urls_nonempty [of d ?gs s] True u(2) by auto
      have res: "resolveTemplateFromNodePool d p pool s = (case n of Inl err \<Rightarrow> (Inl err, s)
          | Inr None \<Rightarrow> (Inl (Errorf ''no instance template resolved for node pool %q'' [pool] []), s) | Inr (Some t) \<Rightarrow> (Inr t, s))"
        using True r Inr c(1) u(1) n(1) ne by (simp add: resolveTemplateFromNodePool_def split: sum.splits option.splits)
      show ?thesis
      proof (cases "templates_ok d (set urls) s")
        case False
        then show ?thesis using n(2) res u(2) by (auto simp: readable_pool_def gs split: sum.splits)
      next
        case ok: True
        then obtain y where y: "n = Inr y" "newest_opt (fetched d (set urls) s) y" using n(2) by auto
        have "fetched d (set urls) s \<noteq> {}" using fetched_nonempty [OF ok] ne by simp
        then obtain t where "y = Some t" "newest_among (fetched d (set urls) s) t" using y(2) by (cases y) (auto simp: newest_opt_def)
        then show ?thesis using True ok res y(1) u(2) by (auto simp: readable_pool_def gs)
      qed
    qed
  qed
qed

lemma label_scan_newest:
  "newest_opt T x \<Longrightarrow> newest_opt (T \<union> {t. Some t \<in> set ts \<and> templateBelongsToPool p (Some t) pool}) (foldl (scan_template p pool) x ts)"
proof (induction ts arbitrary: x T)
  case (Cons y ts)
  show ?case
  proof (cases "templateBelongsToPool p y pool")
    case True
    then obtain t where t: "y = Some t" by (cases y) (auto simp: templateBelongsToPool_def)
    have "T \<union> {t. Some t \<in> set (y # ts) \<and> templateBelongsToPool p (Some t) pool}
      = insert t T \<union> {t. Some t \<in> set ts \<and> templateBelongsToPool p (Some t) pool}" using t True by auto
    with Cons.IH [OF newest_opt_newer [OF Cons.prems, of t]] True t show ?thesis by (simp add: scan_template_def)
  next
    case False
    have "{t. Some t \<in> set (y # ts) \<and> templateBelongsToPool p (Some t) pool} = {t. Some t \<in> set ts \<and> templateBelongsToPool p (Some t) pool}"
      using False by auto
    with Cons.IH [OF Cons.prems] False show ?thesis by (simp add: scan_template_def)
  qed
qed simp

text \<open>What the caller gets for a template.\<close>

definition template_result :: "npt_state \<Rightarrow> string \<Rightarrow> instance_template \<Rightarrow> (go_error + compute_metadata option) \<times> npt_state" where
  "template_result p pool t = (case Option.bind (tm_Properties t) tp_Metadata of
      None \<Rightarrow> (Inl (Errorf ''instance template %q for node pool %q has no metadata'' [tm_Name t, pool] []), p)
    | Some m \<Rightarrow> (Inr (Some m), p\<lparr>npt_lastTemplateName := tm_Name t\<rparr>))"

text \<open>C14: A node boots from the newest template that the source pool is running. When the pool, all its instance groups and all the templates they name
  can be read, the metadata is that of the most recently created of them, by the instant its timestamp denotes; a single one that cannot be read discards the rest, and
  the template is then the most recently created one labelled with the pool and the cluster.\<close>

theorem source_template_newest:
  assumes "read_only d" "getSourcePoolName p = Inr pool" "GetSourceTemplateMetadata d p s = (r, p', s')"
    and "nd_listTemplates d (cin_ProjectID (npt_ClusterInfo p)) (cin_Region (npt_ClusterInfo p)) s = ((pages, err), s)"
  shows "s' = s \<and> (if readable_pool d p pool s
      then \<exists>t. newest_among (fetched d (named_urls d (pool_groups d p pool s) s) s) t \<and> (r, p') = template_result p pool t
      else let T = {t. Some t \<in> set (concat pages) \<and> templateBelongsToPool p (Some t) pool} in
        if err = None \<and> T \<noteq> {} then \<exists>t. newest_among T t \<and> (r, p') = template_result p pool t
        else (\<exists>e. r = Inl e) \<and> p' = p)"
proof -
  obtain w where w: "resolveTemplateFromNodePool d p pool s = (w, s)" and walk: "if readable_pool d p pool s
    then \<exists>t. w = Inr t \<and> newest_among (fetched d (named_urls d (pool_groups d p pool s) s) s) t else isl w"
    using resolveTemplateFromNodePool_total [OF assms(1), of p pool s] by blast
  have res: "GetSourceTemplateMetadata d p s = (case (case w of Inl e \<Rightarrow> resolveTemplateByLabelScan d p pool s | Inr t \<Rightarrow> (Inr t, s)) of
      (Inl e, s) \<Rightarrow> (Inl e, p, s) | (Inr t, s) \<Rightarrow> (fst (template_result p pool t), snd (template_result p pool t), s))"
    by (auto simp: GetSourceTemplateMetadata_def assms(2) w template_result_def split: sum.splits option.splits prod.splits)
  show ?thesis
  proof (cases "readable_pool d p pool s")
    case True
    with walk res assms(3) show ?thesis by auto
  next
    case False
    let ?T = "{t. Some t \<in> set (concat pages) \<and> templateBelongsToPool p (Some t) pool}"
    obtain e where "w = Inl e" using False walk by (cases w) auto
    moreover have "newest_opt ?T (foldl (scan_template p pool) None (concat pages))"
      using label_scan_newest [of "{}" None "concat pages" p pool] by (simp add: newest_opt_def)
    ultimately show ?thesis using False res assms(3,4)
      by (cases "foldl (scan_template p pool) None (concat pages)"; cases err)
        (auto simp: resolveTemplateByLabelScan_def newest_opt_def newest_among_def Let_def split: if_splits)
  qed
qed

definition example_template :: "string \<Rightarrow> string \<Rightarrow> instance_template" where
  "example_template name created = \<lparr>tm_Name = name, tm_CreationTimestamp = created,
     tm_Properties = Some \<lparr>tp_Labels = None, tp_Metadata = Some [Some (''cluster-name'', Some name)]\<rparr>\<rparr>"

definition example_template_deps :: "unit npt_deps" where
  "example_template_deps = \<lparr>
     nd_getPool = (\<lambda>_ s. (Inr (example_fallback\<lparr>np_InstanceGroupUrls :=
        [''https://www.googleapis.com/compute/v1/projects/proj/zones/r-a/instanceGroupManagers/a'', ''https://www.googleapis.com/compute/v1/projects/proj/zones/r-b/instanceGroupManagers/b'']\<rparr>), s)),
     nd_listPools = (\<lambda>_ s. (Inl (ContextError []), s)), nd_createPool = (\<lambda>_ _ s. (None, s)), nd_getCluster = (\<lambda>_ s. (Inl (ContextError []), s)),
     nd_getManager = (\<lambda>_ _ name s. (Inr \<lparr>gm_Versions = [], gm_InstanceTemplate = ''https://www.googleapis.com/compute/v1/projects/proj/regions/r/instanceTemplates/'' @ name\<rparr>, s)),
     nd_getRegionTemplate = (\<lambda>_ _ name s. (Inr (example_template name (if name = ''a'' then ''2025-10-31T11:09:17.350-07:00'' else ''2025-10-31T17:30:00Z'')), s)),
     nd_getTemplate = (\<lambda>_ _ s. (Inl (ContextError []), s)), nd_listTemplates = (\<lambda>_ _ s. (([], None), s)), nd_authority_ok = (\<lambda>_. True)\<rparr>"

lemma example_groups:
  "pool_groups example_template_deps p n () =
     [''https://www.googleapis.com/compute/v1/projects/proj/zones/r-a/instanceGroupManagers/a'', ''https://www.googleapis.com/compute/v1/projects/proj/zones/r-b/instanceGroupManagers/b'']"
  by (simp add: pool_groups_def getNodePool_def example_template_deps_def)

lemma example_group_urls:
  "fst (instanceGroupTemplateURLs example_template_deps ''https://www.googleapis.com/compute/v1/projects/proj/zones/r-a/instanceGroupManagers/a'' ())
     = Inr [''https://www.googleapis.com/compute/v1/projects/proj/regions/r/instanceTemplates/a'']"
  "fst (instanceGroupTemplateURLs example_template_deps ''https://www.googleapis.com/compute/v1/projects/proj/zones/r-b/instanceGroupManagers/b'' ())
     = Inr [''https://www.googleapis.com/compute/v1/projects/proj/regions/r/instanceTemplates/b'']"
  by code_simp+

lemma example_fetched:
  "fst (getInstanceTemplateByURL example_template_deps ''https://www.googleapis.com/compute/v1/projects/proj/regions/r/instanceTemplates/a'' ())
     = Inr (example_template ''a'' ''2025-10-31T11:09:17.350-07:00'')"
  "fst (getInstanceTemplateByURL example_template_deps ''https://www.googleapis.com/compute/v1/projects/proj/regions/r/instanceTemplates/b'' ())
     = Inr (example_template ''b'' ''2025-10-31T17:30:00Z'')"
  by code_simp+

theorem source_template_newest_witness:
  "fst (GetSourceTemplateMetadata example_template_deps (example_npt\<lparr>npt_sourcePoolName := ''pool''\<rparr>) ()) = Inr (Some [Some (''cluster-name'', Some ''a'')])"
proof -
  let ?d = example_template_deps and ?p = "example_npt\<lparr>npt_sourcePoolName := ''pool''\<rparr>"
  let ?a = "example_template ''a'' ''2025-10-31T11:09:17.350-07:00''" and ?b = "example_template ''b'' ''2025-10-31T17:30:00Z''"
  have u: "named_urls ?d (pool_groups ?d ?p ''pool'' ()) () =
    {''https://www.googleapis.com/compute/v1/projects/proj/regions/r/instanceTemplates/a'', ''https://www.googleapis.com/compute/v1/projects/proj/regions/r/instanceTemplates/b''}"
    unfolding example_groups named_urls_def by (simp add: example_group_urls, blast)
  have T: "fetched ?d (named_urls ?d (pool_groups ?d ?p ''pool'' ()) ()) () = {?a, ?b}" unfolding u fetched_def by (simp add: example_fetched, blast)
  have "readable_pool ?d ?p ''pool'' ()" unfolding readable_pool_def u by (simp add: example_groups example_group_urls example_fetched)
  moreover have "read_only ?d" by (simp add: read_only_def example_template_deps_def)
  moreover have "getSourcePoolName ?p = Inr ''pool''" by (simp add: getSourcePoolName_def)
  moreover have "nd_listTemplates ?d (cin_ProjectID (npt_ClusterInfo ?p)) (cin_Region (npt_ClusterInfo ?p)) () = (([], None), ())" by (simp add: example_template_deps_def)
  moreover obtain r p' s' where r: "GetSourceTemplateMetadata ?d ?p () = (r, p', s')" by (metis prod.exhaust)
  ultimately obtain t where t: "newest_among {?a, ?b} t" "(r, p') = template_result ?p ''pool'' t"
    using source_template_newest [of ?d ?p "''pool''" "()" r p' s' "[]" None] T by auto
  have "templateCreatedAt ?b < templateCreatedAt ?a" by code_simp
  then have "t = ?a" using t(1) by (auto simp: newest_among_def)
  with t(2) r show ?thesis by (simp add: template_result_def example_template_def)
qed

subsection \<open>Self-links\<close>

definition self_link :: "computeResourceRef \<Rightarrow> string \<Rightarrow> string" where
  "self_link ref collection = ''https://www.googleapis.com/'' @ join ''/'' ([''compute'', ''v1'', ''projects'', crr_project ref]
     @ (case crr_scope ref of scopeGlobal \<Rightarrow> [''global''] | scopeRegion \<Rightarrow> [''regions'', crr_location ref] | scopeZone \<Rightarrow> [''zones'', crr_location ref])
     @ [collection, crr_name ref])"

text \<open>The link of a global, regional or zonal resource is taken apart into what it was made of, for all names of Google Cloud.\<close>

theorem parseComputeResourceURL_link:
  assumes "plain_segment (crr_project ref)" "plain_segment (crr_name ref)" "plain_segment collection" "authority_ok ''www.googleapis.com''"
    and "crr_scope ref = scopeGlobal \<longleftrightarrow> crr_location ref = []" "crr_scope ref = scopeGlobal \<or> plain_segment (crr_location ref)"
    and "collection \<notin> {''compute'', ''v1'', ''projects'', ''global'', ''regions'', ''zones'', crr_project ref, crr_location ref}" "crr_location ref \<noteq> ''global''"
  shows "parseComputeResourceURL authority_ok (self_link ref collection) collection = Inr ref"
proof -
  define ws where "ws = [''compute'', ''v1'', ''projects'', crr_project ref]
     @ (case crr_scope ref of scopeGlobal \<Rightarrow> [''global''] | scopeRegion \<Rightarrow> [''regions'', crr_location ref] | scopeZone \<Rightarrow> [''zones'', crr_location ref])
     @ [collection, crr_name ref]"
  have lits: "plain_segment ''projects''" "plain_segment ''regions''" "plain_segment ''zones''" "plain_segment ''global''" "plain_segment ''compute''" "plain_segment ''v1''"
    by code_simp+
  have ws: "ws \<noteq> []" "\<And>w. w \<in> set ws \<Longrightarrow> plain_segment w" using assms lits by (auto simp: ws_def split: computeScope.splits)
  have "list_all (\<lambda>c. plain_char c \<or> c = CHR ''.'') ''www.googleapis.com''" by code_simp
  moreover have link: "self_link ref collection = ''https://'' @ ''www.googleapis.com'' @ ''/'' @ join ''/'' ws" by (simp add: self_link_def ws_def del: join.simps)
  ultimately have "url_Parse authority_ok (self_link ref collection) = Some \<lparr>url_Scheme = ''https'', url_Path = ''/'' @ join ''/'' ws, url_RawQuery = []\<rparr>"
    unfolding link using url_Parse_absolute [of authority_ok "''www.googleapis.com''" ws, OF assms(4) _ ws(2)] by blast
  moreover have "split_on CHR ''/'' (trim_slashes (join ''/'' ws)) = ws" using trim_slashes_join [OF ws] split_join_plain [OF ws] by simp
  ultimately have p: "parseComputeResourceURL authority_ok (self_link ref collection) collection = (case index_of collection ws of
      None \<Rightarrow> Inl (Errorf ''compute URL %q does not name a %s'' [self_link ref collection, collection] [])
    | Some i \<Rightarrow> if i = length ws - 1 then Inl (Errorf ''compute URL %q does not name a %s'' [self_link ref collection, collection] [])
        else (let name = ws ! (i + 1) in
              if i \<ge> 3 \<and> ws ! (i - 1) = ''global'' \<and> ws ! (i - 3) = ''projects''
              then Inr \<lparr>crr_project = ws ! (i - 2), crr_scope = scopeGlobal, crr_location = [], crr_name = name\<rparr>
              else if i \<ge> 4 \<and> ws ! (i - 4) = ''projects'' \<and> (ws ! (i - 2) = ''zones'' \<or> ws ! (i - 2) = ''regions'')
              then Inr \<lparr>crr_project = ws ! (i - 3), crr_scope = (if ws ! (i - 2) = ''zones'' then scopeZone else scopeRegion),
                crr_location = ws ! (i - 1), crr_name = name\<rparr>
              else Inl (Errorf ''compute URL %q is not a recognized %s self-link'' [self_link ref collection, collection] [])))"
    by (simp add: parseComputeResourceURL_def Let_def)
  show ?thesis using assms(5-8) unfolding p by (cases ref, cases "crr_scope ref") (simp_all add: ws_def)
qed

theorem parseComputeResourceURL_link_witness:
  "parseComputeResourceURL (\<lambda>_. True) ''https://www.googleapis.com/compute/v1/projects/proj/zones/us-east1-b/instanceGroupManagers/gke-pool''
     ''instanceGroupManagers'' = Inr \<lparr>crr_project = ''proj'', crr_scope = scopeZone, crr_location = ''us-east1-b'', crr_name = ''gke-pool''\<rparr>"
proof -
  have "plain_segment ''proj''" "plain_segment ''gke-pool''" "plain_segment ''instanceGroupManagers''" "plain_segment ''us-east1-b''" by code_simp+
  then show ?thesis using parseComputeResourceURL_link [of "\<lparr>crr_project = ''proj'', crr_scope = scopeZone, crr_location = ''us-east1-b'', crr_name = ''gke-pool''\<rparr>" "''instanceGroupManagers''" "\<lambda>_. True"]
    by (simp add: self_link_def)
qed

subsection \<open>What the request for the fallback pool carries\<close>

text \<open>A boolean field as the Go client encodes it: false is left out unless the field is listed in \<^verbatim>\<open>ForceSendFields\<close>.\<close>

definition sent_bool :: "string \<Rightarrow> bool \<Rightarrow> string list \<Rightarrow> bool option" where
  "sent_bool field v force = (if v \<or> field \<in> set force then Some v else None)"

lemma fallback_port_not_sent:
  assumes "np_Config (buildFallbackNodePool c name sa) = Some conf" "nco_KubeletConfig conf = Some k"
  shows "sent_bool ''InsecureKubeletReadonlyPortEnabled'' (nkc_InsecureKubeletReadonlyPortEnabled k) (nkc_ForceSendFields k) = None"
  using assms by (auto simp: buildFallbackNodePool_def sent_bool_def)

end
