(* ===== verification/Go_Sha256.thy ===== *)
theory Go_Sha256
  imports Go_Strings "HOL-Library.Word"
begin

text \<open>
  \<^verbatim>\<open>sha256.Sum256\<close> of the standard library on 32-bit words, and \<^verbatim>\<open>Hash\<close> of \<^verbatim>\<open>pkg/utils/utils.go\<close>, which writes the digest in hexadecimal. A string is its bytes.
\<close>

unbundle bit_operations_syntax

type_synonym w32 = "32 word"
type_synonym sha_state = "w32 \<times> w32 \<times> w32 \<times> w32 \<times> w32 \<times> w32 \<times> w32 \<times> w32"

subsection \<open>The compression function\<close>

text \<open>The constants are the first 32 bits of the fractional parts of the cube roots of the first 64 primes, and the initial state those of the square roots of the first eight. A root
  is found bit by bit, from the bit \<open>b\<close> on.\<close>

fun iroot :: "nat \<Rightarrow> nat \<Rightarrow> int \<Rightarrow> int \<Rightarrow> int \<Rightarrow> int" where
  "iroot k 0 b x r = r"
| "iroot k (Suc i) b x r = iroot k i (b div 2) x (if (r + b) ^ k \<le> x then r + b else r)"

definition root_bits :: "nat \<Rightarrow> int \<Rightarrow> w32" where
  "root_bits k p = word_of_int (iroot k 35 (2 ^ 34) (p * (2 ^ 32) ^ k) 0)"

definition sha_primes :: "int list" where
  "sha_primes = [2, 3, 5, 7, 11, 13, 17, 19, 23, 29, 31, 37, 41, 43, 47, 53, 59, 61, 67, 71, 73, 79, 83, 89, 97, 101, 103, 107, 109, 113, 127, 131,
     137, 139, 149, 151, 157, 163, 167, 173, 179, 181, 191, 193, 197, 199, 211, 223, 227, 229, 233, 239, 241, 251, 257, 263, 269, 271, 277, 281, 283, 293, 307, 311]"

definition sha_K :: "w32 list" where "sha_K = map (root_bits 3) sha_primes"

definition sha_init :: sha_state where
  "sha_init = (root_bits 2 2, root_bits 2 3, root_bits 2 5, root_bits 2 7, root_bits 2 11, root_bits 2 13, root_bits 2 17, root_bits 2 19)"

definition rotr :: "nat \<Rightarrow> w32 \<Rightarrow> w32" where "rotr n x = drop_bit n x OR push_bit (32 - n) x"

definition sigma0 :: "w32 \<Rightarrow> w32" where "sigma0 x = rotr 7 x XOR rotr 18 x XOR drop_bit 3 x"
definition sigma1 :: "w32 \<Rightarrow> w32" where "sigma1 x = rotr 17 x XOR rotr 19 x XOR drop_bit 10 x"

text \<open>The message schedule: sixteen words of the block and \<open>n\<close> more.\<close>

fun schedule :: "nat \<Rightarrow> w32 list \<Rightarrow> w32 list" where
  "schedule 0 ws = ws"
| "schedule (Suc n) ws = (let t = length ws in schedule n (ws @ [sigma1 (ws ! (t - 2)) + ws ! (t - 7) + sigma0 (ws ! (t - 15)) + ws ! (t - 16)]))"

definition sha_round :: "sha_state \<Rightarrow> w32 \<times> w32 \<Rightarrow> sha_state" where
  "sha_round st kw = (case (st, kw) of ((a, b, c, d, e, f, g, h), (k, w)) \<Rightarrow>
     let t1 = h + (rotr 6 e XOR rotr 11 e XOR rotr 25 e) + ((e AND f) XOR (NOT e AND g)) + k + w;
         t2 = (rotr 2 a XOR rotr 13 a XOR rotr 22 a) + ((a AND b) XOR (a AND c) XOR (b AND c))
     in (t1 + t2, a, b, c, d + t1, e, f, g))"

definition sha_block :: "sha_state \<Rightarrow> w32 list \<Rightarrow> sha_state" where
  "sha_block st ws = (case (st, foldl sha_round st (zip sha_K (schedule 48 ws))) of
     ((a, b, c, d, e, f, g, h), (a', b', c', d', e', f', g', h')) \<Rightarrow> (a + a', b + b', c + c', d + d', e + e', f + f', g + g', h + h'))"

subsection \<open>Padding\<close>

text \<open>\<open>n\<close> bytes of a number, the most significant first.\<close>

fun big_endian :: "nat \<Rightarrow> nat \<Rightarrow> nat list" where
  "big_endian 0 x = []"
| "big_endian (Suc n) x = big_endian n (x div 256) @ [x mod 256]"

definition sha_pad :: "nat list \<Rightarrow> nat list" where
  "sha_pad bs = bs @ [128] @ replicate ((119 - length bs mod 64) mod 64) 0 @ big_endian 8 (8 * length bs)"

fun sha_words :: "nat list \<Rightarrow> w32 list" where
  "sha_words (a # b # c # d # bs) = (push_bit 24 (of_nat a) OR push_bit 16 (of_nat b) OR push_bit 8 (of_nat c) OR of_nat d) # sha_words bs"
| "sha_words bs = []"

function sha_blocks :: "w32 list \<Rightarrow> sha_state \<Rightarrow> sha_state" where
  "sha_blocks ws st = (if ws = [] then st else sha_blocks (drop 16 ws) (sha_block st (take 16 ws)))"
  by pat_completeness auto
termination by (relation "measure (length \<circ> fst)") auto

declare sha_blocks.simps [simp del]

definition Sum256 :: "string \<Rightarrow> sha_state" where
  "Sum256 str = sha_blocks (sha_words (sha_pad (map char_code str))) sha_init"

subsection \<open>Hexadecimal\<close>

text \<open>The four bytes of a word, the most significant first, with two digits each.\<close>

definition word_bytes :: "w32 \<Rightarrow> nat list" where
  "word_bytes x = map (\<lambda>n. unat (drop_bit n x AND 255)) [24, 16, 8, 0]"

definition hex_char :: "nat \<Rightarrow> char" where "hex_char n = ''0123456789abcdef'' ! (n mod 16)"

definition hex_byte :: "nat \<Rightarrow> string" where "hex_byte b = [hex_char (b div 16), hex_char b]"

definition sha_bytes :: "sha_state \<Rightarrow> nat list" where
  "sha_bytes st = (case st of (a, b, c, d, e, f, g, h) \<Rightarrow> concat (map word_bytes [a, b, c, d, e, f, g, h]))"

definition HashString :: "string \<Rightarrow> string" where
  "HashString str = concat (map hex_byte (sha_bytes (Sum256 str)))"

subsection \<open>Digests\<close>

definition is_digest :: "string \<Rightarrow> bool" where
  "is_digest s \<longleftrightarrow> length s = 64 \<and> list_all (\<lambda>c. c \<in> set ''0123456789abcdef'') s"

lemma hex_char_in: "hex_char n \<in> set ''0123456789abcdef''"
  unfolding hex_char_def by (rule nth_mem) simp

lemma hex_bytes_in: "list_all (\<lambda>c. c \<in> set ''0123456789abcdef'') (concat (map hex_byte bs))"
  by (induction bs) (simp_all add: hex_byte_def hex_char_in [simplified])

lemma length_hex_bytes: "length (concat (map hex_byte bs)) = 2 * length bs"
  by (induction bs) (simp_all add: hex_byte_def)

lemma HashString_is_digest: "is_digest (HashString s)"
  by (cases "Sum256 s") (simp add: is_digest_def HashString_def hex_bytes_in [simplified] length_hex_bytes sha_bytes_def word_bytes_def split: prod.split)

text \<open>A padded message is a whole number of blocks, so that every block has its sixteen words.\<close>

lemma length_big_endian [simp]: "length (big_endian n x) = n"
  by (induction n arbitrary: x) auto

lemma length_sha_pad: "length (sha_pad bs) mod 64 = 0"
proof -
  define q r where "q = length bs div 64" and "r = length bs mod 64"
  have l: "length bs = 64 * q + r" and r: "r < 64" by (simp_all add: q_def r_def)
  have "(119 - r) mod 64 = (if r \<le> 55 then 55 - r else 119 - r)"
    using r mod_add_self2 [of "55 - r" 64] by (cases "r \<le> 55") (simp_all add: add.commute)
  then have "length bs + 1 + ((119 - r) mod 64 + 8) = 64 * (if r \<le> 55 then q + 1 else q + 2)" using l r by simp
  then have "length (sha_pad bs) = 64 * (if r \<le> 55 then q + 1 else q + 2)" by (simp add: sha_pad_def r_def)
  then show ?thesis by simp
qed

text \<open>The root is exact: the greatest integer whose power does not exceed the scaled prime.\<close>

lemma iroot_correct:
  assumes "0 < k" "0 \<le> r" "r ^ k \<le> x" "x < (r + 2 ^ i) ^ k"
  shows "iroot k i (2 ^ i div 2) x r ^ k \<le> x \<and> x < (iroot k i (2 ^ i div 2) x r + 1) ^ k"
  using assms
proof (induction i arbitrary: r)
  case (Suc i)
  let ?r = "if (r + 2 ^ i) ^ k \<le> x then r + 2 ^ i else r"
  have e: "r + 2 ^ Suc i = r + 2 ^ i + 2 ^ i" by simp
  have "x < (?r + 2 ^ i) ^ k" using Suc.prems(4) by (cases "(r + 2 ^ i) ^ k \<le> x") (simp_all only: e if_True if_False not_le [symmetric] not_False_eq_True)
  moreover have "0 \<le> ?r" using Suc.prems(2) by simp
  moreover have "?r ^ k \<le> x" using Suc.prems(3) by (cases "(r + 2 ^ i) ^ k \<le> x") (simp_all only: if_True if_False)
  moreover have "iroot k (Suc i) (2 ^ Suc i div 2) x r = iroot k i (2 ^ i div 2) x ?r" by simp
  ultimately show ?case using Suc.IH [of ?r] Suc.prems(1) by metis
qed simp

lemma root_bits_exact:
  assumes "0 < k" "0 \<le> p" "p < 8 ^ k"
  shows "\<exists>s. root_bits k p = word_of_int s \<and> s ^ k \<le> p * (2 ^ 32) ^ k \<and> p * (2 ^ 32) ^ k < (s + 1) ^ k"
proof -
  have "(2 ^ 35 :: int) ^ k = 8 ^ k * (2 ^ 32) ^ k" by (simp add: power_mult_distrib [symmetric])
  then have "p * (2 ^ 32) ^ k < (0 + 2 ^ 35) ^ k" using assms(3) by simp
  moreover have "(0 :: int) ^ k \<le> p * (2 ^ 32) ^ k" using assms(1,2) by (simp add: power_0_left)
  ultimately show ?thesis using iroot_correct [OF assms(1), of 0 "p * (2 ^ 32) ^ k" 35] by (auto simp: root_bits_def)
qed

text \<open>The first example of the standard.\<close>

lemma HashString_abc: "HashString ''abc'' = ''ba7816bf8f01cfea414140de5dae2223b00361a396177a9cb410ff61f20015ad''"
  by code_simp

end
