(* ===== verification/Telemetry.thy ===== *)
theory Telemetry
  imports Interruption Go_Sha256
begin

text \<open>
  The telemetry controller, \<^verbatim>\<open>pkg/controllers/telemetry\<close>: it remembers the spot interruptions it sees and reports each of them when it has been quiet for half a minute, and
  it reports the resources of the cluster once. The Kubernetes and metrics clients, the JSON encoder and the HTTP client are the record \<open>tel_deps\<close>. Events are
  kept in a \<^verbatim>\<open>sync.Map\<close> that the reconciler and the pushing goroutine share; the step relation of the last section has one step for every access to it.
\<close>

definition resourcesInfoPath :: "string \<Rightarrow> string" where "resourcesInfoPath h = ''/clusters/'' @ h @ ''/resourcesInfo''"
definition interruptionEventPath :: "string \<Rightarrow> string" where "interruptionEventPath h = ''/clusters/'' @ h @ ''/interruptionevent''"
definition defaultTelemetryEndpoint :: string where [go_defs]: "defaultTelemetryEndpoint = ''https://api.cloudpilot.ai/api/v1/telemetry''"
definition NodeInitializedLabelKey :: string where [go_defs]: "NodeInitializedLabelKey = ''karpenter.sh/initialized''"
definition telemetryInterval :: duration where [go_defs]: "telemetryInterval = 10 * 10 ^ 9"
definition interruptionEventExpiryDuration :: duration where [go_defs]: "interruptionEventExpiryDuration = 30 * 10 ^ 9"
definition disruptionWindow :: duration where [go_defs]: "disruptionWindow = 5 * 60 * 10 ^ 9"

record telemetry_node =
  tn_node :: node
  tn_UID :: string
  tn_ProviderID :: string
  tn_CreationTimestamp :: instant
  tn_CPU :: int \<comment> \<open>capacity in thousandths of a CPU\<close>
  tn_Memory :: int \<comment> \<open>capacity in bytes\<close>

text \<open>A node claim: its conditions with the times of their last transitions.\<close>

record disrupted_claim =
  dc_Conditions :: "(string \<times> instant) list"

record InterruptionEvent =
  ie_CloudProvider :: string
  ie_Timestamp :: instant
  ie_Region :: string
  ie_Zone :: string
  ie_InstanceType :: string
  ie_InstanceCreateTimestamp :: instant
  ie_nodeHashID :: string
  ie_latestUpdateTimestamp :: instant

record ClusterResourcesInfo =
  cri_CPUUsage :: int
  cri_MemoryUsage :: int
  cri_CPURequest :: int
  cri_MemoryRequest :: int
  cri_CPUCapacity :: int
  cri_MemoryCapacity :: int
  cri_InstanceTypes :: "string list"

datatype payload = Resources_payload ClusterResourcesInfo | Event_payload InterruptionEvent

record 's tel_deps =
  td_now :: "'s \<Rightarrow> instant"
  td_marshal :: "payload \<Rightarrow> go_error + string"
  td_post :: "string \<Rightarrow> string \<Rightarrow> 's \<Rightarrow> (go_error + int) \<times> 's" \<comment> \<open>an answer is its status code\<close>
  td_kubeSystemUID :: "'s \<Rightarrow> go_error + string"
  td_claims :: "string \<Rightarrow> 's \<Rightarrow> go_error + disrupted_claim list" \<comment> \<open>the node claims with a provider ID\<close>
  td_nodes :: "'s \<Rightarrow> go_error + telemetry_node list"
  td_podRequests :: "'s \<Rightarrow> go_error + (int \<times> int)" \<comment> \<open>\<^verbatim>\<open>RequestsForPods\<close> of all pods: CPU and memory\<close>
  td_nodeUsage :: "'s \<Rightarrow> go_error + (int \<times> int) list" \<comment> \<open>usage of the nodes, from the metrics API\<close>

record telemetry_state =
  tl_clusterIDHash :: string
  tl_events :: "(string, InterruptionEvent) gomap"
  tl_once :: bool \<comment> \<open>whether the first reconcile has been made\<close>
  tl_running :: bool \<comment> \<open>whether the pushing goroutine was started\<close>

definition telemetry_NewController :: telemetry_state where
  "telemetry_NewController = \<lparr>tl_clusterIDHash = [], tl_events = [], tl_once = False, tl_running = False\<rparr>"

subsection \<open>Interrupted nodes\<close>

definition IsNodeShuttingDown :: "telemetry_node option \<Rightarrow> bool" where
  "IsNodeShuttingDown n = (case n of None \<Rightarrow> False
     | Some x \<Rightarrow> (case GetCondition (tn_node x) ''Ready'' of None \<Rightarrow> False
         | Some c \<Rightarrow> cond_Status c \<noteq> CondTrue \<and> cond_Reason c = NodeConditionReasonKubeletNotReady \<and> cond_Message c = NodeConditionMessageShuttingDown))"

definition GetNodeClaims :: "'s tel_deps \<Rightarrow> telemetry_node \<Rightarrow> 's \<Rightarrow> go_error + disrupted_claim list" where
  "GetNodeClaims d n s = (if tn_ProviderID n = [] then Inr []
     else (case td_claims d (tn_ProviderID n) s of Inl err \<Rightarrow> Inl (Errorf ''listing nodeclaims, %w'' [] [err]) | Inr cs \<Rightarrow> Inr cs))"

definition NodeClaimForNode :: "'s tel_deps \<Rightarrow> telemetry_node \<Rightarrow> 's \<Rightarrow> go_error + disrupted_claim" where
  "NodeClaimForNode d n s = (case GetNodeClaims d n s of Inl err \<Rightarrow> Inl err
     | Inr [] \<Rightarrow> Inl (Errorf ''no nodeclaims found for provider-id'' [tn_ProviderID n] [])
     | Inr [c] \<Rightarrow> Inr c
     | Inr (c # c' # cs) \<Rightarrow> Inl (Errorf ''found duplicate nodeclaims for provider-id'' [tn_ProviderID n] []))"

definition IsNodeInterrupted :: "'s tel_deps \<Rightarrow> telemetry_node \<Rightarrow> 's \<Rightarrow> go_error + bool" where
  "IsNodeInterrupted d n s = (let labels = no_Labels (tn_node n) in
     if \<not> IsNodeShuttingDown (Some n) then Inr False
     else if map_str labels NodeInitializedLabelKey \<noteq> ''true'' \<or> map_str labels CapacityTypeLabelKey \<noteq> CapacityTypeSpot then Inr False
     else (case NodeClaimForNode d n s of
         Inl err \<Rightarrow> Inl (Errorf ''getting nodeclaim for node %s: %w'' [no_Name (tn_node n)] [err])
       | Inr c \<Rightarrow> Inr (\<not> list_ex (\<lambda>(t, changed). t = ''DisruptionReason'' \<and> td_now d s - changed < disruptionWindow) (dc_Conditions c))))"

definition newInterruptionEvent :: "'s tel_deps \<Rightarrow> telemetry_node \<Rightarrow> 's \<Rightarrow> InterruptionEvent" where
  "newInterruptionEvent d n s = (let labels = no_Labels (tn_node n); now = td_now d s in
     \<lparr>ie_CloudProvider = ''gcp'', ie_Timestamp = now, ie_Region = map_str labels ''failure-domain.beta.kubernetes.io/region'',
      ie_Zone = map_str labels ''failure-domain.beta.kubernetes.io/zone'', ie_InstanceType = map_str labels LabelInstanceTypeStable,
      ie_InstanceCreateTimestamp = tn_CreationTimestamp n, ie_nodeHashID = HashString (tn_UID n), ie_latestUpdateTimestamp = now\<rparr>)"

subsection \<open>The store of events\<close>

text \<open>What is stored for an event that is already there: the earlier sighting and the later update.\<close>

definition merge_event :: "InterruptionEvent \<Rightarrow> InterruptionEvent \<Rightarrow> InterruptionEvent" where
  "merge_event e existing = existing\<lparr>
     ie_Timestamp := (if ie_Timestamp e < ie_Timestamp existing then ie_Timestamp e else ie_Timestamp existing),
     ie_latestUpdateTimestamp := (if ie_latestUpdateTimestamp existing < ie_latestUpdateTimestamp e then ie_latestUpdateTimestamp e else ie_latestUpdateTimestamp existing)\<rparr>"

definition InsertInterruptionEvent :: "string \<Rightarrow> InterruptionEvent \<Rightarrow> telemetry_state \<Rightarrow> telemetry_state" where
  "InsertInterruptionEvent nodeHashID e st = (case map_get (tl_events st) nodeHashID of
      None \<Rightarrow> st\<lparr>tl_events := map_set nodeHashID e (tl_events st)\<rparr>
    | Some existing \<Rightarrow> st\<lparr>tl_events := map_set nodeHashID (merge_event e existing) (tl_events st)\<rparr>)"

definition GetReadyInterruptionEvents :: "instant \<Rightarrow> telemetry_state \<Rightarrow> InterruptionEvent list" where
  "GetReadyInterruptionEvents now st = filter (\<lambda>e. now - ie_latestUpdateTimestamp e > interruptionEventExpiryDuration) (map snd (tl_events st))"

definition push :: "'s tel_deps \<Rightarrow> string \<Rightarrow> string \<Rightarrow> 's \<Rightarrow> go_error option \<times> 's" where
  "push d urlPath data s = (case td_post d urlPath data s of (Inl err, s) \<Rightarrow> (Some err, s) | (Inr status, s) \<Rightarrow> (None, s))"

definition PushInterruptionEvent :: "'s tel_deps \<Rightarrow> string \<Rightarrow> InterruptionEvent \<Rightarrow> telemetry_state \<Rightarrow> 's \<Rightarrow> telemetry_state \<times> 's" where
  "PushInterruptionEvent d clusterIDHash e st s = (case td_marshal d (Event_payload e) of Inl err \<Rightarrow> (st, s)
     | Inr data \<Rightarrow> (case push d (defaultTelemetryEndpoint @ interruptionEventPath clusterIDHash) data s of
         (Some err, s) \<Rightarrow> (st, s)
       | (None, s) \<Rightarrow> (st\<lparr>tl_events := map_del (ie_nodeHashID e) (tl_events st)\<rparr>, s)))"

text \<open>One pass of \<^verbatim>\<open>Run\<close>, in some order of the events that are pushed in parallel.\<close>

fun push_events :: "'s tel_deps \<Rightarrow> string \<Rightarrow> InterruptionEvent list \<Rightarrow> telemetry_state \<Rightarrow> 's \<Rightarrow> telemetry_state \<times> 's" where
  "push_events d h [] st s = (st, s)"
| "push_events d h (e # es) st s = (case PushInterruptionEvent d h e st s of (st, s) \<Rightarrow> push_events d h es st s)"

definition run_pass :: "'s tel_deps \<Rightarrow> string \<Rightarrow> telemetry_state \<Rightarrow> 's \<Rightarrow> telemetry_state \<times> 's" where
  "run_pass d h st s = push_events d h (GetReadyInterruptionEvents (td_now d s) st) st s"

subsection \<open>Cluster resources\<close>

definition getClusterResourcesCapacity :: "'s tel_deps \<Rightarrow> 's \<Rightarrow> int \<times> int \<times> string list" where
  "getClusterResourcesCapacity d s = (case td_nodes d s of Inl err \<Rightarrow> (0, 0, [])
     | Inr nodes \<Rightarrow> (let ready = filter (\<lambda>n. map_of (no_Labels (tn_node n)) NodeInitializedLabelKey = Some ''true'') nodes in
         (sum_list (map tn_CPU ready), sum_list (map tn_Memory ready),
          uniq (filter (\<lambda>t. t \<noteq> []) (map (\<lambda>n. map_str (no_Labels (tn_node n)) LabelInstanceTypeStable) ready)))))"

definition getClusterResourcesRequest :: "'s tel_deps \<Rightarrow> 's \<Rightarrow> int \<times> int" where
  "getClusterResourcesRequest d s = (case td_podRequests d s of Inl err \<Rightarrow> (0, 0) | Inr r \<Rightarrow> r)"

definition getClusterResourcesUsage :: "'s tel_deps \<Rightarrow> 's \<Rightarrow> int \<times> int" where
  "getClusterResourcesUsage d s = (case td_nodeUsage d s of Inl err \<Rightarrow> (0, 0) | Inr us \<Rightarrow> (sum_list (map fst us), sum_list (map snd us)))"

definition PushTelemetryClusterResourceInfo :: "'s tel_deps \<Rightarrow> string \<Rightarrow> 's \<Rightarrow> 's" where
  "PushTelemetryClusterResourceInfo d clusterIDHash s = (let
       (cpuCapacity, memoryCapacity, instanceTypes) = getClusterResourcesCapacity d s;
       (cpuRequest, memoryRequest) = getClusterResourcesRequest d s;
       (cpuUsage, memoryUsage) = getClusterResourcesUsage d s
     in case td_marshal d (Resources_payload \<lparr>cri_CPUUsage = cpuUsage, cri_MemoryUsage = memoryUsage, cri_CPURequest = cpuRequest, cri_MemoryRequest = memoryRequest,
          cri_CPUCapacity = cpuCapacity, cri_MemoryCapacity = memoryCapacity, cri_InstanceTypes = instanceTypes\<rparr>) of
         Inl err \<Rightarrow> s
       | Inr data \<Rightarrow> snd (push d (defaultTelemetryEndpoint @ resourcesInfoPath clusterIDHash) data s))"

subsection \<open>The controller\<close>

definition GetClusterIDHash :: "'s tel_deps \<Rightarrow> telemetry_state \<Rightarrow> 's \<Rightarrow> (go_error + string) \<times> telemetry_state" where
  "GetClusterIDHash d st s = (if tl_clusterIDHash st \<noteq> [] then (Inr (tl_clusterIDHash st), st)
     else (case td_kubeSystemUID d s of Inl err \<Rightarrow> (Inl err, st)
       | Inr uid \<Rightarrow> (Inr (HashString uid), st\<lparr>tl_clusterIDHash := HashString uid\<rparr>)))"

definition first_reconcile :: "'s tel_deps \<Rightarrow> telemetry_state \<Rightarrow> 's \<Rightarrow> telemetry_state \<times> 's" where
  "first_reconcile d st s = (if tl_once st then (st, s)
     else (case GetClusterIDHash d (st\<lparr>tl_once := True\<rparr>) s of
         (Inl err, st) \<Rightarrow> (st, s)
       | (Inr h, st) \<Rightarrow> (st\<lparr>tl_running := True\<rparr>, PushTelemetryClusterResourceInfo d h s)))"

definition telemetry_Reconcile :: "'s tel_deps \<Rightarrow> telemetry_node \<Rightarrow> telemetry_state \<Rightarrow> 's \<Rightarrow> telemetry_state \<times> 's" where
  "telemetry_Reconcile d n st s = (case first_reconcile d st s of (st, s) \<Rightarrow>
     (case IsNodeInterrupted d n s of
         Inr True \<Rightarrow> (InsertInterruptionEvent (HashString (tn_UID n)) (newInterruptionEvent d n s) st, s)
       | _ \<Rightarrow> (st, s)))"

subsection \<open>No interruption is lost\<close>

text \<open>The reconciler and the pushing goroutine, one step for each access to the shared map: a sighting stores its event or reads the one that is there, which it stores merged
  later; a pass collects the events that are ready; each of them is posted; an answered post is followed by the deletion. The sightings and the answered posts
  are history.\<close>

record tel_system =
  ts_state :: telemetry_state
  ts_now :: instant
  ts_storing :: "InterruptionEvent set"
  ts_pushing :: "InterruptionEvent set"
  ts_deleting :: "InterruptionEvent set"
  ts_seen :: "(string \<times> instant) set"
  ts_posted :: "InterruptionEvent set"

inductive tel_step :: "'s tel_deps \<Rightarrow> tel_system \<Rightarrow> tel_system \<Rightarrow> bool" for d where
  sight_new: "IsNodeInterrupted d n s = Inr True \<Longrightarrow> td_now d s = ts_now y \<Longrightarrow> e = newInterruptionEvent d n s \<Longrightarrow> map_get (tl_events (ts_state y)) (ie_nodeHashID e) = None \<Longrightarrow>
    tel_step d y (y\<lparr>ts_state := InsertInterruptionEvent (ie_nodeHashID e) e (ts_state y), ts_seen := insert (ie_nodeHashID e, ts_now y) (ts_seen y)\<rparr>)"
| sight_again: "IsNodeInterrupted d n s = Inr True \<Longrightarrow> td_now d s = ts_now y \<Longrightarrow> e = newInterruptionEvent d n s \<Longrightarrow> map_get (tl_events (ts_state y)) (ie_nodeHashID e) = Some x \<Longrightarrow>
    tel_step d y (y\<lparr>ts_storing := insert (merge_event e x) (ts_storing y), ts_seen := insert (ie_nodeHashID e, ts_now y) (ts_seen y)\<rparr>)"
| store: "x \<in> ts_storing y \<Longrightarrow>
    tel_step d y (y\<lparr>ts_state := (ts_state y)\<lparr>tl_events := map_set (ie_nodeHashID x) x (tl_events (ts_state y))\<rparr>, ts_storing := ts_storing y - {x}\<rparr>)"
| collect: "tel_step d y (y\<lparr>ts_pushing := ts_pushing y \<union> set (GetReadyInterruptionEvents (ts_now y) (ts_state y))\<rparr>)"
| answered: "x \<in> ts_pushing y \<Longrightarrow>
    tel_step d y (y\<lparr>ts_pushing := ts_pushing y - {x}, ts_deleting := insert x (ts_deleting y), ts_posted := insert x (ts_posted y)\<rparr>)"
| failed: "x \<in> ts_pushing y \<Longrightarrow> tel_step d y (y\<lparr>ts_pushing := ts_pushing y - {x}\<rparr>)"
| delete: "x \<in> ts_deleting y \<Longrightarrow>
    tel_step d y (y\<lparr>ts_state := (ts_state y)\<lparr>tl_events := map_del (ie_nodeHashID x) (tl_events (ts_state y))\<rparr>, ts_deleting := ts_deleting y - {x}\<rparr>)"
| wait: "0 \<le> t \<Longrightarrow> tel_step d y (y\<lparr>ts_now := ts_now y + t\<rparr>)"

inductive tel_reachable :: "'s tel_deps \<Rightarrow> tel_system \<Rightarrow> bool" for d where
  start: "tl_events st = [] \<Longrightarrow> tel_reachable d \<lparr>ts_state = st, ts_now = t, ts_storing = {}, ts_pushing = {}, ts_deleting = {}, ts_seen = {}, ts_posted = {}\<rparr>"
| step: "tel_reachable d y \<Longrightarrow> tel_step d y y' \<Longrightarrow> tel_reachable d y'"

definition event_ok :: "tel_system \<Rightarrow> InterruptionEvent \<Rightarrow> bool" where
  "event_ok y e \<longleftrightarrow> (ie_nodeHashID e, ie_Timestamp e) \<in> ts_seen y \<and> (ie_nodeHashID e, ie_latestUpdateTimestamp e) \<in> ts_seen y \<and> ie_Timestamp e \<le> ie_latestUpdateTimestamp e"

definition quiet_ok :: "tel_system \<Rightarrow> InterruptionEvent \<Rightarrow> bool" where
  "quiet_ok y e \<longleftrightarrow> event_ok y e \<and> ie_latestUpdateTimestamp e + interruptionEventExpiryDuration < ts_now y"

definition tel_inv :: "tel_system \<Rightarrow> bool" where
  "tel_inv y \<longleftrightarrow> wf_map (tl_events (ts_state y))
     \<and> (\<forall>h e. map_of (tl_events (ts_state y)) h = Some e \<longrightarrow> h = ie_nodeHashID e \<and> event_ok y e)
     \<and> (\<forall>e \<in> ts_storing y. event_ok y e) \<and> (\<forall>e \<in> ts_pushing y. quiet_ok y e) \<and> (\<forall>e \<in> ts_posted y. quiet_ok y e) \<and> ts_deleting y \<subseteq> ts_posted y
     \<and> (\<forall>h t. (h, t) \<in> ts_seen y \<longrightarrow> map_of (tl_events (ts_state y)) h \<noteq> None \<or> h \<in> ie_nodeHashID ` ts_posted y)"

lemma merge_event_ok: "event_ok y e \<Longrightarrow> event_ok y x \<Longrightarrow> ie_nodeHashID e = ie_nodeHashID x \<Longrightarrow> event_ok y (merge_event e x) \<and> ie_nodeHashID (merge_event e x) = ie_nodeHashID x"
  by (auto simp: event_ok_def merge_event_def)

lemma event_ok_mono: "event_ok y e \<Longrightarrow> ts_seen y \<subseteq> ts_seen y' \<Longrightarrow> event_ok y' e"
  by (auto simp: event_ok_def)

lemma quiet_ok_mono: "quiet_ok y e \<Longrightarrow> ts_seen y \<subseteq> ts_seen y' \<Longrightarrow> ts_now y \<le> ts_now y' \<Longrightarrow> quiet_ok y' e"
  by (auto simp: quiet_ok_def intro: event_ok_mono)

lemma new_event_sel [simp]:
  "ie_Timestamp (newInterruptionEvent d n s) = td_now d s" "ie_latestUpdateTimestamp (newInterruptionEvent d n s) = td_now d s"
  by (simp_all add: newInterruptionEvent_def Let_def)

lemma ready_ok:
  assumes "tel_inv y" "e \<in> set (GetReadyInterruptionEvents (ts_now y) (ts_state y))"
  shows "quiet_ok y e"
proof -
  obtain h where "(h, e) \<in> set (tl_events (ts_state y))" using assms(2) by (auto simp: GetReadyInterruptionEvents_def)
  then have "map_of (tl_events (ts_state y)) h = Some e" using assms(1) by (simp add: tel_inv_def wf_map_def map_of_is_SomeI)
  with assms show ?thesis by (auto simp: tel_inv_def quiet_ok_def GetReadyInterruptionEvents_def)
qed

lemma tel_invD:
  assumes "tel_inv y"
  shows "wf_map (tl_events (ts_state y))" "map_of (tl_events (ts_state y)) h = Some e \<Longrightarrow> h = ie_nodeHashID e \<and> event_ok y e"
    "e \<in> ts_storing y \<Longrightarrow> event_ok y e" "e \<in> ts_pushing y \<Longrightarrow> quiet_ok y e" "e \<in> ts_posted y \<Longrightarrow> quiet_ok y e" "ts_deleting y \<subseteq> ts_posted y"
    "(h, t) \<in> ts_seen y \<Longrightarrow> map_of (tl_events (ts_state y)) h \<noteq> None \<or> h \<in> ie_nodeHashID ` ts_posted y"
  using assms unfolding tel_inv_def by blast+

text \<open>A step keeps the invariant if time and sightings only grow, and all it adds is in order.\<close>

lemma tel_frame:
  assumes inv: "tel_inv y" and "ts_seen y \<subseteq> ts_seen y'" "ts_now y \<le> ts_now y'" "wf_map (tl_events (ts_state y'))"
    and ev: "\<And>h e. map_of (tl_events (ts_state y')) h = Some e \<Longrightarrow> map_of (tl_events (ts_state y)) h = Some e \<or> h = ie_nodeHashID e \<and> event_ok y' e"
    and st: "\<And>e. e \<in> ts_storing y' \<Longrightarrow> e \<in> ts_storing y \<or> event_ok y' e"
    and pu: "\<And>e. e \<in> ts_pushing y' \<Longrightarrow> e \<in> ts_pushing y \<or> quiet_ok y' e"
    and po: "\<And>e. e \<in> ts_posted y' \<Longrightarrow> e \<in> ts_posted y \<or> quiet_ok y' e" and "ts_deleting y' \<subseteq> ts_posted y'"
    and se: "\<And>h t. (h, t) \<in> ts_seen y' \<Longrightarrow> map_of (tl_events (ts_state y')) h \<noteq> None \<or> h \<in> ie_nodeHashID ` ts_posted y'"
  shows "tel_inv y'"
proof -
  note mono = event_ok_mono [OF _ assms(2)] quiet_ok_mono [OF _ assms(2,3)]
  have "h = ie_nodeHashID e \<and> event_ok y' e" if "map_of (tl_events (ts_state y')) h = Some e" for h e
    using ev [OF that] tel_invD(2) [OF inv] mono(1) by blast
  moreover have "event_ok y' e" if "e \<in> ts_storing y'" for e using st [OF that] tel_invD(3) [OF inv] mono(1) by blast
  moreover have "quiet_ok y' e" if "e \<in> ts_pushing y'" for e using pu [OF that] tel_invD(4) [OF inv] mono(2) by blast
  moreover have "quiet_ok y' e" if "e \<in> ts_posted y'" for e using po [OF that] tel_invD(5) [OF inv] mono(2) by blast
  ultimately show ?thesis unfolding tel_inv_def using assms(4,9) se by blast
qed

lemma tel_step_inv: "tel_step d y y' \<Longrightarrow> tel_inv y \<Longrightarrow> tel_inv y'"
proof (induction rule: tel_step.induct)
  case (sight_new n s y e)
  note seen = tel_invD(7) [OF sight_new.prems]
  show ?case using sight_new.hyps seen tel_invD(1,6) [OF sight_new.prems]
    by (intro tel_frame [OF sight_new.prems]) (auto simp: InsertInterruptionEvent_def event_ok_def split: if_splits)
next
  case (sight_again n s y e x)
  let ?y = "y\<lparr>ts_storing := insert (merge_event e x) (ts_storing y), ts_seen := insert (ie_nodeHashID e, ts_now y) (ts_seen y)\<rparr>"
  note seen = tel_invD(7) [OF sight_again.prems]
  have x: "map_of (tl_events (ts_state y)) (ie_nodeHashID e) = Some x" using sight_again.hyps(4) by simp
  have "event_ok ?y x" "ie_nodeHashID e = ie_nodeHashID x" using tel_invD(2) [OF sight_again.prems x] by (auto simp: event_ok_def)
  moreover have "event_ok ?y e" using sight_again.hyps(2,3) by (simp add: event_ok_def)
  ultimately have "event_ok ?y (merge_event e x)" using merge_event_ok by blast
  then show ?case using x seen tel_invD(1,6) [OF sight_again.prems] by (intro tel_frame [OF sight_again.prems]) auto
next
  case (store x y)
  note seen = tel_invD(7) [OF store.prems]
  show ?case using tel_invD(3) [OF store.prems store.hyps] seen tel_invD(1,6) [OF store.prems]
    by (intro tel_frame [OF store.prems]) (auto simp: event_ok_def split: if_splits)
next
  case (collect y)
  let ?y = "y\<lparr>ts_pushing := ts_pushing y \<union> set (GetReadyInterruptionEvents (ts_now y) (ts_state y))\<rparr>"
  note seen = tel_invD(7) [OF collect.prems]
  have "quiet_ok ?y e" if "e \<in> set (GetReadyInterruptionEvents (ts_now y) (ts_state y))" for e
    using ready_ok [OF collect.prems that] by (simp add: quiet_ok_def event_ok_def)
  then show ?case using seen tel_invD(1,6) [OF collect.prems] by (intro tel_frame [OF collect.prems]) auto
next
  case (answered x y)
  note seen = tel_invD(7) [OF answered.prems]
  show ?case using tel_invD(4) [OF answered.prems answered.hyps] seen tel_invD(1,6) [OF answered.prems]
    by (intro tel_frame [OF answered.prems]) (auto simp: quiet_ok_def event_ok_def)
next
  case (failed x y)
  note seen = tel_invD(7) [OF failed.prems]
  show ?case using seen tel_invD(1,6) [OF failed.prems] by (intro tel_frame [OF failed.prems]) auto
next
  case (delete x y)
  note seen = tel_invD(7) [OF delete.prems]
  have "x \<in> ts_posted y" using tel_invD(6) [OF delete.prems] delete.hyps by blast
  then show ?case using seen tel_invD(1,6) [OF delete.prems] by (intro tel_frame [OF delete.prems]) (auto split: if_splits)
next
  case (wait t y)
  note seen = tel_invD(7) [OF wait.prems]
  show ?case using wait.hyps seen tel_invD(1,6) [OF wait.prems] by (intro tel_frame [OF wait.prems]) auto
qed

lemma tel_reachable_inv: "tel_reachable d y \<Longrightarrow> tel_inv y"
  by (induction rule: tel_reachable.induct) (simp add: tel_inv_def, blast intro: tel_step_inv)

text \<open>C16: No interruption is lost and none is made up. However reconciles, passes, deletions and failing posts interleave, a node that was seen interrupted still has its event in the
  store or an event of it has been posted and answered; and what is posted carries the times of two sightings of that node, the first not after the
  last, and the last more than half a minute ago.\<close>

theorem interruptions_reported:
  assumes "tel_reachable d y"
  shows "((h, t) \<in> ts_seen y \<longrightarrow> map_of (tl_events (ts_state y)) h \<noteq> None \<or> (\<exists>e \<in> ts_posted y. ie_nodeHashID e = h))
    \<and> (e \<in> ts_pushing y \<union> ts_posted y \<longrightarrow> (ie_nodeHashID e, ie_Timestamp e) \<in> ts_seen y \<and> (ie_nodeHashID e, ie_latestUpdateTimestamp e) \<in> ts_seen y
        \<and> ie_Timestamp e \<le> ie_latestUpdateTimestamp e \<and> ie_latestUpdateTimestamp e + 30 * 10 ^ 9 < ts_now y)"
proof -
  note inv = tel_invD [OF tel_reachable_inv [OF assms]]
  have "map_of (tl_events (ts_state y)) h \<noteq> None \<or> (\<exists>e \<in> ts_posted y. ie_nodeHashID e = h)" if "(h, t) \<in> ts_seen y"
    using inv(7) [OF that] by auto
  moreover have "quiet_ok y e" if "e \<in> ts_pushing y \<union> ts_posted y" using that inv(4,5) by blast
  ultimately show ?thesis by (auto simp: quiet_ok_def event_ok_def interruptionEventExpiryDuration_def)
qed

definition example_tel :: "instant tel_deps" where
  "example_tel = \<lparr>td_now = (\<lambda>s. s), td_marshal = (\<lambda>_. Inr []), td_post = (\<lambda>_ _ s. (Inr 200, s)), td_kubeSystemUID = (\<lambda>_. Inr ''u''),
     td_claims = (\<lambda>_ _. Inr [\<lparr>dc_Conditions = []\<rparr>]), td_nodes = (\<lambda>_. Inr []), td_podRequests = (\<lambda>_. Inr (0, 0)), td_nodeUsage = (\<lambda>_. Inr [])\<rparr>"

definition example_interrupted :: telemetry_node where
  "example_interrupted = \<lparr>tn_node = \<lparr>no_Name = ''n'', no_Labels = [(NodeInitializedLabelKey, ''true''), (CapacityTypeLabelKey, CapacityTypeSpot)],
       no_Conditions = [\<lparr>cond_Type = ''Ready'', cond_Status = CondFalse, cond_Reason = NodeConditionReasonKubeletNotReady, cond_Message = NodeConditionMessageShuttingDown\<rparr>]\<rparr>,
     tn_UID = ''uid'', tn_ProviderID = ''p'', tn_CreationTimestamp = 0, tn_CPU = 4000, tn_Memory = 16\<rparr>"

theorem interruptions_reported_witness:
  "\<exists>y e. tel_reachable example_tel y \<and> e \<in> ts_posted y \<and> (ie_nodeHashID e, ie_Timestamp e) \<in> ts_seen y \<and> ie_latestUpdateTimestamp e + 30 * 10 ^ 9 < ts_now y"
proof -
  let ?st = "\<lparr>tl_clusterIDHash = [], tl_events = [], tl_once = False, tl_running = False\<rparr>"
  let ?y0 = "\<lparr>ts_state = ?st, ts_now = 0, ts_storing = {}, ts_pushing = {}, ts_deleting = {}, ts_seen = {}, ts_posted = {}\<rparr>"
  define e where "e = newInterruptionEvent example_tel example_interrupted 0"
  have r0: "tel_reachable example_tel ?y0" by (rule tel_reachable.start) simp
  have "IsNodeInterrupted example_tel example_interrupted 0 = Inr True" by code_simp
  then have "tel_step example_tel ?y0 (?y0\<lparr>ts_state := InsertInterruptionEvent (ie_nodeHashID e) e ?st, ts_seen := {(ie_nodeHashID e, 0)}\<rparr>)" (is "tel_step _ _ ?y1")
    using tel_step.sight_new [of example_tel example_interrupted 0 ?y0 e] by (simp add: e_def example_tel_def)
  then have r1: "tel_reachable example_tel ?y1" by (rule tel_reachable.step [OF r0])
  have y1: "tl_events (ts_state ?y1) = [(ie_nodeHashID e, e)]" "ts_now ?y1 = 0" by (simp_all add: InsertInterruptionEvent_def map_set_def)
  let ?y2 = "?y1\<lparr>ts_now := ts_now ?y1 + 31 * 10 ^ 9\<rparr>"
  have r2: "tel_reachable example_tel ?y2" by (rule tel_reachable.step [OF r1 tel_step.wait]) simp
  let ?y3 = "?y2\<lparr>ts_pushing := ts_pushing ?y2 \<union> set (GetReadyInterruptionEvents (ts_now ?y2) (ts_state ?y2))\<rparr>"
  have r3: "tel_reachable example_tel ?y3" by (rule tel_reachable.step [OF r2 tel_step.collect])
  have "e \<in> ts_pushing ?y3" using y1 by (simp add: GetReadyInterruptionEvents_def interruptionEventExpiryDuration_def e_def example_tel_def)
  then obtain y4 where r4: "tel_reachable example_tel y4" and "e \<in> ts_posted y4" using tel_reachable.step [OF r3 tel_step.answered] by fastforce
  with interruptions_reported [OF r4, of _ _ e] show ?thesis by blast
qed

subsection \<open>When telemetry never starts\<close>

text \<open>The first reconcile decides: if the cluster cannot be identified then, the pushing goroutine is never started, although events go on being stored.\<close>

lemma telemetry_off_after_failure:
  assumes "td_kubeSystemUID d s = Inl err" "tl_clusterIDHash st = []" "\<not> tl_once st" "\<not> tl_running st"
  shows "fst (first_reconcile d st s) = st\<lparr>tl_once := True\<rparr>"
    and "tl_once st' \<Longrightarrow> tl_running (fst (telemetry_Reconcile d n st' s')) = tl_running st'"
  using assms by (auto simp: first_reconcile_def GetClusterIDHash_def telemetry_Reconcile_def InsertInterruptionEvent_def split: sum.splits bool.splits option.splits)

subsection \<open>Identifiers are digests\<close>

text \<open>The state is well-typed: the cluster is identified by a digest as soon as the pusher runs, and the nodes by the digests that are the keys of the store.\<close>

definition telemetry_ok :: "telemetry_state \<Rightarrow> bool" where
  "telemetry_ok st \<longleftrightarrow> (if tl_running st \<or> tl_clusterIDHash st \<noteq> [] then is_digest (tl_clusterIDHash st) else True) \<and> wf_map (tl_events st)
     \<and> list_all (\<lambda>(h, e). is_digest h \<and> h = ie_nodeHashID e) (tl_events st)"

lemma ok_map_set: "list_all P m \<Longrightarrow> P (k, v) \<Longrightarrow> list_all P (map_set k v m)"
  unfolding map_set_def by (induction m) auto

lemma ok_map_del: "list_all P m \<Longrightarrow> list_all P (map_del k m)"
  unfolding map_del_def by (induction m) auto

lemma Insert_ok:
  assumes "telemetry_ok st" "is_digest h" "ie_nodeHashID e = h"
  shows "telemetry_ok (InsertInterruptionEvent h e st)"
proof -
  have "telemetry_ok (st\<lparr>tl_events := map_set h x (tl_events st)\<rparr>)" if "ie_nodeHashID x = h" for x
    using assms(1,2) that by (simp add: telemetry_ok_def ok_map_set)
  moreover have "ie_nodeHashID (merge_event e x) = h" if "map_get (tl_events st) h = Some x" for x
    using assms(1) that by (fastforce simp: telemetry_ok_def merge_event_def map_get_def list_all_iff dest: map_of_SomeD)
  ultimately show ?thesis using assms(3) by (simp add: InsertInterruptionEvent_def split: option.splits)
qed

lemma first_reconcile_ok:
  assumes "telemetry_ok st" "first_reconcile d st s = (st', s')"
  shows "telemetry_ok st'"
proof (cases "tl_once st")
  case False
  let ?st = "st\<lparr>tl_once := True\<rparr>"
  have st: "telemetry_ok ?st" using assms(1) by (simp add: telemetry_ok_def)
  show ?thesis
  proof (cases "fst (GetClusterIDHash d ?st s)")
    case (Inl err)
    then show ?thesis using assms(2) False st by (auto simp: first_reconcile_def GetClusterIDHash_def split: if_splits sum.splits)
  next
    case (Inr h)
    obtain st1 where g: "GetClusterIDHash d ?st s = (Inr h, st1)" using Inr by (cases "GetClusterIDHash d ?st s") simp
    have "st' = st1\<lparr>tl_running := True\<rparr>" using assms(2) False g by (simp add: first_reconcile_def)
    moreover have "telemetry_ok (st1\<lparr>tl_running := True\<rparr>)"
      using g st HashString_is_digest by (auto simp: GetClusterIDHash_def telemetry_ok_def split: if_splits sum.splits)
    ultimately show ?thesis by simp
  qed
qed (use assms in \<open>simp add: first_reconcile_def\<close>)

lemma Reconcile_ok: "telemetry_ok st \<Longrightarrow> telemetry_ok (fst (telemetry_Reconcile d n st s))"
  by (cases "first_reconcile d st s")
    (auto simp: telemetry_Reconcile_def newInterruptionEvent_def Let_def split: sum.splits bool.splits dest: first_reconcile_ok intro!: Insert_ok HashString_is_digest)

lemma push_events_ok: "telemetry_ok st \<Longrightarrow> telemetry_ok (fst (push_events d h es st s))"
proof (induction es arbitrary: st s)
  case (Cons e es)
  have "telemetry_ok (fst (PushInterruptionEvent d h e st s))"
    using Cons.prems by (simp add: PushInterruptionEvent_def telemetry_ok_def ok_map_del split: sum.splits prod.splits option.splits)
  then show ?case using Cons.IH by (cases "PushInterruptionEvent d h e st s") simp
qed simp

text \<open>Reconciles of nodes, and passes of the pushing goroutine when there is none to reconcile.\<close>

fun tel_calls :: "'s tel_deps \<Rightarrow> (telemetry_node option \<times> 's) list \<Rightarrow> telemetry_state \<Rightarrow> telemetry_state" where
  "tel_calls d [] st = st"
| "tel_calls d ((Some n, s) # cs) st = tel_calls d cs (fst (telemetry_Reconcile d n st s))"
| "tel_calls d ((None, s) # cs) st = tel_calls d cs (if tl_running st then fst (run_pass d (tl_clusterIDHash st) st s) else st)"

lemma tel_calls_ok: "telemetry_ok st \<Longrightarrow> telemetry_ok (tel_calls d cs st)"
  by (induction d cs st rule: tel_calls.induct) (auto simp: Reconcile_ok run_pass_def push_events_ok)


end
