(* ===== verification/Go_Flag.thy ===== *)
theory Go_Flag
  imports Go_Float Go_Errors
begin

text \<open>
  The command line and the environment: \<^verbatim>\<open>strconv.ParseBool\<close>, \<^verbatim>\<open>time.ParseDuration\<close> with the arithmetic of its 64-bit integers, \<^verbatim>\<open>Duration.String\<close>, and
  \<^verbatim>\<open>FlagSet.Parse\<close> of the package \<^verbatim>\<open>flag\<close>. A flag is a function that sets its value in a record \<open>'o\<close> or reports an error.
\<close>

definition ParseBool :: "string \<Rightarrow> bool option" where
  "ParseBool s = (if s \<in> {''1'', ''t'', ''T'', ''true'', ''TRUE'', ''True''} then Some True
     else if s \<in> {''0'', ''f'', ''F'', ''false'', ''FALSE'', ''False''} then Some False else None)"

subsection \<open>Durations\<close>

definition duration_unit :: "string \<Rightarrow> int option" where
  "duration_unit u = (if u = ''ns'' then Some 1
     else if u = ''us'' \<or> u = [CHR 0xC2, CHR 0xB5, CHR ''s''] \<or> u = [CHR 0xCE, CHR 0xBC, CHR ''s''] then Some 1000
     else if u = ''ms'' then Some 1000000 else if u = ''s'' then Some 1000000000
     else if u = ''m'' then Some 60000000000 else if u = ''h'' then Some 3600000000000 else None)"

text \<open>\<^verbatim>\<open>leadingInt\<close>, which fails on overflow, and \<^verbatim>\<open>leadingFraction\<close>, which drops the digits that do not fit.\<close>

fun leadingInt :: "int \<Rightarrow> string \<Rightarrow> (int \<times> string) option" where
  "leadingInt x [] = Some (x, [])"
| "leadingInt x (c # s) = (if \<not> is_digit c then Some (x, c # s)
     else if x > 2 ^ 63 div 10 then None
     else (let y = x * 10 + int (digit_val c) in if y > 2 ^ 63 then None else leadingInt y s))"

fun leadingFraction :: "bool \<Rightarrow> int \<Rightarrow> rat \<Rightarrow> string \<Rightarrow> int \<times> rat \<times> string" where
  "leadingFraction overflow x scale [] = (x, scale, [])"
| "leadingFraction overflow x scale (c # s) = (if \<not> is_digit c then (x, scale, c # s)
     else if overflow \<or> x > (2 ^ 63 - 1) div 10 then leadingFraction True x scale s
     else (let y = x * 10 + int (digit_val c) in if y > 2 ^ 63 then leadingFraction True x scale s else leadingFraction False y (fmul scale 10) s))"

text \<open>One number with its unit: its length in nanoseconds and what follows it.\<close>

definition duration_item :: "string \<Rightarrow> (int \<times> string) option" where
  "duration_item s = (case leadingInt 0 s of None \<Rightarrow> None | Some (v, r) \<Rightarrow>
     (let pre = length r \<noteq> length s;
          (f, scale, r') = (if has_prefix r ''.'' then leadingFraction False 0 1 (drop 1 r) else (0, 1, r));
          post = has_prefix r ''.'' \<and> length r' \<noteq> length (drop 1 r);
          u = takeWhile (\<lambda>c. \<not> (c = CHR ''.'' \<or> is_digit c)) r'
      in if \<not> pre \<and> \<not> post then None
         else (case duration_unit u of None \<Rightarrow> None
           | Some unit \<Rightarrow> if v > 2 ^ 63 div unit then None
               else (let v = v * unit + (if f > 0 then float_to_int (fmul (float_of_int f) (fdiv (float_of_int unit) scale)) else 0) in
                 if v > 2 ^ 63 then None else Some (v, drop (length u) r')))))"

text \<open>The loop; an item consumes its unit, so the text gets shorter, which the test states.\<close>

function duration_items :: "int \<Rightarrow> string \<Rightarrow> int option" where
  "duration_items d s = (if s = [] then Some d else (case duration_item s of None \<Rightarrow> None
     | Some (v, r) \<Rightarrow> if d + v > 2 ^ 63 then None else if length r < length s then duration_items (d + v) r else None))"
  by auto

termination duration_items
  by (relation "measure (length \<circ> snd)") auto

declare duration_items.simps [simp del]

definition ParseDuration :: "string \<Rightarrow> duration option" where
  "ParseDuration s = (let neg = has_prefix s ''-''; s = (if neg \<or> has_prefix s ''+'' then drop 1 s else s) in
     if s = ''0'' then Some 0 else if s = [] then None
     else (case duration_items 0 s of None \<Rightarrow> None
       | Some d \<Rightarrow> if neg then Some (- d) else if d > 2 ^ 63 - 1 then None else Some d))"

text \<open>\<^verbatim>\<open>fmtFrac\<close>: the digits after the point, without trailing zeros.\<close>

definition fmtFrac :: "nat \<Rightarrow> int \<Rightarrow> string" where
  "fmtFrac prec v = (let f = utoa (nat (v mod 10 ^ prec)) in
     if v mod 10 ^ prec = 0 then [] else ''.'' @ rev (dropWhile (\<lambda>c. c = CHR ''0'') (rev (replicate (prec - length f) CHR ''0'' @ f))))"

definition Duration_String :: "duration \<Rightarrow> string" where
  "Duration_String d = (let u = \<bar>d\<bar>; sec = u div 10 ^ 9 in
     if u = 0 then ''0s''
     else (if d < 0 then ''-'' else [])
       @ (if u < 1000 then itoa u @ ''ns''
          else if u < 10 ^ 6 then itoa (u div 1000) @ fmtFrac 3 u @ [CHR 0xC2, CHR 0xB5, CHR ''s'']
          else if u < 10 ^ 9 then itoa (u div 10 ^ 6) @ fmtFrac 6 u @ ''ms''
          else (if sec div 3600 > 0 then itoa (sec div 3600) @ ''h'' else []) @ (if sec div 60 > 0 then itoa (sec div 60 mod 60) @ ''m'' else [])
            @ itoa (sec mod 60) @ fmtFrac 9 u @ ''s''))"

subsection \<open>Flags\<close>

type_synonym 'o flag_def = "bool \<times> (string \<Rightarrow> 'o \<Rightarrow> (go_error + 'o))" \<comment> \<open>whether it is a boolean flag, and \<^verbatim>\<open>Value.Set\<close>\<close>

datatype 'o flag_result = Flags_parsed 'o | Flags_help 'o | Flags_failed go_error 'o

text \<open>A name with the value after the first equals sign, which cannot be its first character.\<close>

definition flag_parts :: "string \<Rightarrow> string \<times> string option" where
  "flag_parts s = (case s of [] \<Rightarrow> ([], None) | c # r \<Rightarrow> (case cut CHR ''='' r of (a, v) \<Rightarrow> (c # a, v)))"

fun flag_parse :: "(string \<Rightarrow> 'o flag_def option) \<Rightarrow> string list \<Rightarrow> 'o \<Rightarrow> 'o flag_result" where
  "flag_parse formal [] x = Flags_parsed x"
| "flag_parse formal (s # args) x =
     (if length s < 2 \<or> hd s \<noteq> CHR ''-'' then Flags_parsed x
      else if s = ''--'' then Flags_parsed x
      else let name = (if has_prefix s ''--'' then drop 2 s else drop 1 s) in
        if hd name = CHR ''-'' \<or> hd name = CHR ''='' then Flags_failed (Errorf ''bad flag syntax: %s'' [s] []) x
        else (case flag_parts name of (name, v) \<Rightarrow> (case formal name of
            None \<Rightarrow> if name = ''help'' \<or> name = ''h'' then Flags_help x else Flags_failed (Errorf ''flag provided but not defined: -%s'' [name] []) x
          | Some (isBool, setv) \<Rightarrow>
              if isBool then (case setv (case v of Some w \<Rightarrow> w | None \<Rightarrow> ''true'') x of
                  Inl err \<Rightarrow> Flags_failed (case v of Some w \<Rightarrow> Errorf ''invalid boolean value %q for -%s: %v'' [w, name] [err]
                    | None \<Rightarrow> Errorf ''invalid boolean flag %s: %v'' [name] [err]) x
                | Inr x \<Rightarrow> flag_parse formal args x)
              else (case v of
                  Some w \<Rightarrow> (case setv w x of Inl err \<Rightarrow> Flags_failed (Errorf ''invalid value %q for flag -%s: %v'' [w, name] [err]) x
                    | Inr x \<Rightarrow> flag_parse formal args x)
                | None \<Rightarrow> (case args of [] \<Rightarrow> Flags_failed (Errorf ''flag needs an argument: -%s'' [name] []) x
                    | w # args \<Rightarrow> (case setv w x of Inl err \<Rightarrow> Flags_failed (Errorf ''invalid value %q for flag -%s: %v'' [w, name] [err]) x
                        | Inr x \<Rightarrow> flag_parse formal args x))))))"

text \<open>An argument \<^verbatim>\<open>--name=value\<close>.\<close>

definition flag_arg :: "string \<times> string \<Rightarrow> string" where
  "flag_arg kv = ''--'' @ fst kv @ ''='' @ snd kv"

definition flag_name :: "string \<Rightarrow> bool" where
  "flag_name n \<longleftrightarrow> n \<noteq> [] \<and> hd n \<noteq> CHR ''-'' \<and> CHR ''='' \<notin> set n"

lemma flag_parse_arg:
  assumes "flag_name n" "formal n = Some (b, setv)" "setv v x = Inr x'"
  shows "flag_parse formal (flag_arg (n, v) # args) x = flag_parse formal args x'"
proof -
  obtain c r where n: "n = c # r" "c \<noteq> CHR ''-''" "c \<noteq> CHR ''=''" "CHR ''='' \<notin> set r" using assms(1) by (cases n) (auto simp: flag_name_def)
  then have "flag_parts (n @ ''='' @ v) = (n, Some v)" by (simp add: flag_parts_def)
  with n assms(2,3) show ?thesis by (cases b) (simp_all add: flag_arg_def)
qed

lemma duration_item_shorter: "duration_item s = Some (v, r) \<Longrightarrow> length r < length s"
proof -
  assume a: "duration_item s = Some (v, r)"
  have i: "leadingInt x t = Some (y, q) \<Longrightarrow> length q \<le> length t" for x t y q
    by (induction x t rule: leadingInt.induct) (auto simp: Let_def split: if_splits)
  have f: "leadingFraction b x sc t = (y, sc', q) \<Longrightarrow> length q \<le> length t" for b x sc t y sc' q
    by (induction b x sc t rule: leadingFraction.induct) (auto simp: Let_def split: if_splits)
  have u: "duration_unit w = Some n \<Longrightarrow> w \<noteq> []" for w n by (auto simp: duration_unit_def split: if_splits)
  show ?thesis using a
    by (auto simp: duration_item_def Let_def split: option.splits prod.splits if_splits dest!: i f u)
qed

end
