(* ===== verification/Operator_Options.thy ===== *)
theory Operator_Options
  imports Go_Flag Go_Regexp Nodepool_Template Instance_Catalog Node_Bootstrap Gke Unavailable_Offerings
begin

text \<open>
  The options of the controller, \<^verbatim>\<open>pkg/operator/options\<close>, and what is built from them, \<^verbatim>\<open>pkg/operator\<close> and \<^verbatim>\<open>pkg/controllers/controllers.go\<close>. The flags
  that karpenter core adds to the same flag set are an argument, as are the environment and the clients.
\<close>

subsection \<open>Flags and environment\<close>

definition projectIDEnvVarName :: string where [go_defs]: "projectIDEnvVarName = ''PROJECT_ID''"
definition projectIDFlagName :: string where [go_defs]: "projectIDFlagName = ''project-id''"
definition clusterLocationEnvVarName :: string where [go_defs]: "clusterLocationEnvVarName = ''CLUSTER_LOCATION''"
definition clusterLocationFlagName :: string where [go_defs]: "clusterLocationFlagName = ''cluster-location''"
definition nodeLocationEnvVarName :: string where [go_defs]: "nodeLocationEnvVarName = ''NODE_LOCATION''"
definition nodeLocationFlagName :: string where [go_defs]: "nodeLocationFlagName = ''node-location''"
definition gkeClusterNameEnvVarName :: string where [go_defs]: "gkeClusterNameEnvVarName = ''CLUSTER_NAME''"
definition gkeClusterFlagName :: string where [go_defs]: "gkeClusterFlagName = ''cluster-name''"
definition vmMemoryOverheadPercentEnvVarName :: string where [go_defs]: "vmMemoryOverheadPercentEnvVarName = ''VM_MEMORY_OVERHEAD_PERCENT''"
definition vmMemoryOverheadPercentFlagName :: string where [go_defs]: "vmMemoryOverheadPercentFlagName = ''vm-memory-overhead-percent''"
definition gkeEnableInterruption :: string where [go_defs]: "gkeEnableInterruption = ''INTERRUPTION''"
definition GCPAuth :: string where [go_defs]: "GCPAuth = ''GOOGLE_APPLICATION_CREDENTIALS''"
definition nodePoolServiceAccountEnvVarName :: string where [go_defs]: "nodePoolServiceAccountEnvVarName = ''DEFAULT_NODEPOOL_SERVICE_ACCOUNT''"
definition nodePoolServiceAccountFlagName :: string where [go_defs]: "nodePoolServiceAccountFlagName = ''default-nodepool-service-account''"
definition defaultNodePoolTemplateNameEnvVarName :: string where [go_defs]: "defaultNodePoolTemplateNameEnvVarName = ''DEFAULT_NODEPOOL_TEMPLATE_NAME''"
definition defaultNodePoolTemplateNameFlagName :: string where [go_defs]: "defaultNodePoolTemplateNameFlagName = ''default-nodepool-template-name''"
definition quotaExceededTTLEnvVarName :: string where [go_defs]: "quotaExceededTTLEnvVarName = ''QUOTA_EXCEEDED_TTL''"
definition quotaExceededTTLFlagName :: string where [go_defs]: "quotaExceededTTLFlagName = ''quota-exceeded-ttl''"
definition telemetryEnvVarName :: string where [go_defs]: "telemetryEnvVarName = ''TELEMETRY''"
definition telemetryFlagName :: string where [go_defs]: "telemetryFlagName = ''telemetry''"

record Options =
  op_ProjectID :: string
  op_ClusterLocation :: string
  op_NodeLocation :: string
  op_ClusterName :: string
  op_VMMemoryOverheadPercent :: rat
  op_GCPAuth :: string
  op_NodePoolServiceAccount :: string
  op_DefaultNodePoolTemplateName :: string
  op_Interruption :: bool
  op_QuotaExceededTTL :: duration
  op_Telemetry :: bool

type_synonym environment = "string \<Rightarrow> string option"

text \<open>\<^verbatim>\<open>env.WithDefaultString\<close>, \<^verbatim>\<open>env.WithDefaultBool\<close>, \<^verbatim>\<open>env.WithDefaultDuration\<close> and \<^verbatim>\<open>utils.WithDefaultFloat64\<close>: a value that cannot be read counts as the default.\<close>

definition WithDefaultString :: "environment \<Rightarrow> string \<Rightarrow> string \<Rightarrow> string" where
  "WithDefaultString env key def = (case env key of None \<Rightarrow> def | Some val \<Rightarrow> val)"

definition WithDefaultBool :: "environment \<Rightarrow> string \<Rightarrow> bool \<Rightarrow> bool" where
  "WithDefaultBool env key def = (case env key of None \<Rightarrow> def | Some val \<Rightarrow> (case ParseBool val of None \<Rightarrow> def | Some b \<Rightarrow> b))"

definition WithDefaultDuration :: "environment \<Rightarrow> string \<Rightarrow> duration \<Rightarrow> duration" where
  "WithDefaultDuration env key def = (case env key of None \<Rightarrow> def | Some val \<Rightarrow> (case ParseDuration val of None \<Rightarrow> def | Some d \<Rightarrow> d))"

definition WithDefaultFloat64 :: "environment \<Rightarrow> string \<Rightarrow> rat \<Rightarrow> rat" where
  "WithDefaultFloat64 env key def = (case env key of None \<Rightarrow> def | Some val \<Rightarrow> (case ParseFloat val of None \<Rightarrow> def | Some f \<Rightarrow> f))"

text \<open>\<^verbatim>\<open>AddFlags\<close> puts the defaults into the options and the flags into the set: \<open>options_init\<close> and \<open>options_flag\<close>.\<close>

definition options_init :: "environment \<Rightarrow> Options" where
  "options_init env = \<lparr>
     op_ProjectID = WithDefaultString env projectIDEnvVarName [],
     op_ClusterLocation = WithDefaultString env clusterLocationEnvVarName [],
     op_NodeLocation = WithDefaultString env nodeLocationEnvVarName [],
     op_ClusterName = WithDefaultString env gkeClusterNameEnvVarName [],
     op_VMMemoryOverheadPercent = WithDefaultFloat64 env vmMemoryOverheadPercentEnvVarName (fl (7 / 100)),
     op_GCPAuth = WithDefaultString env GCPAuth [],
     op_NodePoolServiceAccount = WithDefaultString env nodePoolServiceAccountEnvVarName [],
     op_DefaultNodePoolTemplateName = WithDefaultString env defaultNodePoolTemplateNameEnvVarName [],
     op_Interruption = WithDefaultBool env gkeEnableInterruption True,
     op_QuotaExceededTTL = WithDefaultDuration env quotaExceededTTLEnvVarName DefaultQuotaExceededTTL,
     op_Telemetry = WithDefaultBool env telemetryEnvVarName False\<rparr>"

definition string_flag :: "(string \<Rightarrow> Options \<Rightarrow> Options) \<Rightarrow> Options flag_def" where
  "string_flag upd = (False, \<lambda>v x. Inr (upd v x))"

definition parsed_flag :: "bool \<Rightarrow> (string \<Rightarrow> 'a option) \<Rightarrow> ('a \<Rightarrow> Options \<Rightarrow> Options) \<Rightarrow> Options flag_def" where
  "parsed_flag isBool p upd = (isBool, \<lambda>v x. case p v of None \<Rightarrow> Inl (SentinelError ''parse error'') | Some y \<Rightarrow> Inr (upd y x))"

definition options_flag :: "string \<Rightarrow> Options flag_def option" where
  "options_flag n =
     (if n = projectIDFlagName then Some (string_flag (\<lambda>v. op_ProjectID_update (\<lambda>_. v)))
      else if n = clusterLocationFlagName then Some (string_flag (\<lambda>v. op_ClusterLocation_update (\<lambda>_. v)))
      else if n = nodeLocationFlagName then Some (string_flag (\<lambda>v. op_NodeLocation_update (\<lambda>_. v)))
      else if n = gkeClusterFlagName then Some (string_flag (\<lambda>v. op_ClusterName_update (\<lambda>_. v)))
      else if n = vmMemoryOverheadPercentFlagName then Some (parsed_flag False ParseFloat (\<lambda>v. op_VMMemoryOverheadPercent_update (\<lambda>_. v)))
      else if n = GCPAuth then Some (string_flag (\<lambda>v. op_GCPAuth_update (\<lambda>_. v)))
      else if n = nodePoolServiceAccountFlagName then Some (string_flag (\<lambda>v. op_NodePoolServiceAccount_update (\<lambda>_. v)))
      else if n = defaultNodePoolTemplateNameFlagName then Some (string_flag (\<lambda>v. op_DefaultNodePoolTemplateName_update (\<lambda>_. v)))
      else if n = gkeEnableInterruption then Some (parsed_flag True ParseBool (\<lambda>v. op_Interruption_update (\<lambda>_. v)))
      else if n = quotaExceededTTLFlagName then Some (parsed_flag False ParseDuration (\<lambda>v. op_QuotaExceededTTL_update (\<lambda>_. v)))
      else if n = telemetryFlagName then Some (parsed_flag True ParseBool (\<lambda>v. op_Telemetry_update (\<lambda>_. v)))
      else None)"

subsection \<open>Validation\<close>

definition validateQuotaExceededTTL :: "Options \<Rightarrow> go_error option" where
  "validateQuotaExceededTTL x = (if op_QuotaExceededTTL x < 0
     then Some (Errorf ''%s must not be negative, got %s'' [quotaExceededTTLFlagName, Duration_String (op_QuotaExceededTTL x)] []) else None)"

definition validateRequiredFields :: "Options \<Rightarrow> go_error option" where
  "validateRequiredFields x =
     (if op_ProjectID x = [] then Some (Errorf ''missing required flag %s or env var %s'' [projectIDFlagName, projectIDEnvVarName] [])
      else if op_ClusterName x = [] then Some (Errorf ''missing required flag %s or env var %s'' [gkeClusterFlagName, gkeClusterNameEnvVarName] [])
      else if op_ClusterLocation x = [] then Some (Errorf ''missing required flag %s or env var %s'' [clusterLocationFlagName, clusterLocationEnvVarName] [])
      else None)"

definition Options_Validate :: "Options \<Rightarrow> go_error option" where
  "Options_Validate x = (case (validateRequiredFields x, validateQuotaExceededTTL x) of
      (None, e) \<Rightarrow> e | (e, None) \<Rightarrow> e | (Some e, Some e') \<Rightarrow> Some (Errorf ''%v; %v'' [] [e, e']))"

text \<open>\<^verbatim>\<open>Parse\<close> on the set of its own flags and those of core, given by \<open>core\<close>, which do not touch these options. Asking for help ends the program.\<close>

datatype options_result = Options_parsed Options | Options_exit int | Options_failed go_error

definition Options_Parse :: "(string \<Rightarrow> Options flag_def option) \<Rightarrow> string list \<Rightarrow> Options \<Rightarrow> options_result" where
  "Options_Parse core args x = (case flag_parse (\<lambda>n. case options_flag n of Some f \<Rightarrow> Some f | None \<Rightarrow> core n) args x of
      Flags_help _ \<Rightarrow> Options_exit 0
    | Flags_failed err _ \<Rightarrow> Options_failed (Errorf ''parsing flags, %w'' [] [err])
    | Flags_parsed x \<Rightarrow> (let x = (if op_NodeLocation x = [] then x\<lparr>op_NodeLocation := op_ClusterLocation x\<rparr> else x) in
        (case Options_Validate x of Some err \<Rightarrow> Options_failed (Errorf ''validating options, %w'' [] [err]) | None \<Rightarrow> Options_parsed x)))"

subsection \<open>The operator\<close>

text \<open>\<^verbatim>\<open>^[a-z]+-[a-z]+\d-[a-z]{1}$\<close>\<close>

definition is_zone_name :: "string \<Rightarrow> bool" where
  "is_zone_name s = (let a = takeWhile is_lower s; r = dropWhile is_lower s; b = takeWhile is_lower (drop 1 r); r' = dropWhile is_lower (drop 1 r) in
     a \<noteq> [] \<and> has_prefix r ''-'' \<and> b \<noteq> [] \<and> length r' = 3 \<and> is_digit (r' ! 0) \<and> r' ! 1 = CHR ''-'' \<and> is_lower (r' ! 2))"

definition determineRegion :: "string \<Rightarrow> string" where
  "determineRegion location = (if is_zone_name location then (let parts = split_on CHR ''-'' location in parts ! 0 @ ''-'' @ parts ! 1) else location)"

record 's operator_deps =
  od_computeService :: "go_error option" \<comment> \<open>why a client cannot be made\<close>
  od_containerService :: "go_error option"
  od_subnetClient :: "go_error option"
  od_getProject :: "string \<Rightarrow> 's \<Rightarrow> (go_error + string) \<times> 's" \<comment> \<open>the default service account of a project\<close>
  od_initialPrices :: "go_error + (string, Prices) gomap"

definition getComputeDefaultServiceAccount :: "'s operator_deps \<Rightarrow> string \<Rightarrow> string \<Rightarrow> 's \<Rightarrow> (go_error + string) \<times> 's" where
  "getComputeDefaultServiceAccount d projectID configuredAccount s = (if configuredAccount \<noteq> [] then (Inr [], s) else od_getProject d projectID s)"

record Credential =
  cr_ProjectID :: string
  cr_Region :: string
  cr_NodeLocation :: string

record Operator =
  or_unavailable :: uo_state
  or_template :: npt_state
  or_pricing :: pricing_state
  or_instanceTypes :: itp_state
  or_instance :: build_env
  or_gke :: gke_state
  or_subnetRegion :: string
  or_auth :: Credential

text \<open>The instance provider keeps what it is given beside what does not depend on the options, which \<open>base\<close> has.\<close>

definition NewProvider :: "build_env \<Rightarrow> string \<Rightarrow> string \<Rightarrow> string \<Rightarrow> string \<Rightarrow> string \<Rightarrow> string \<Rightarrow> build_env" where
  "NewProvider base clusterName clusterLocation region projectID defaultServiceAccount computeDefaultSA =
     base\<lparr>be_clusterName := clusterName, be_clusterLocation := clusterLocation, be_region := region, be_projectID := projectID,
       be_defaultServiceAccount := defaultServiceAccount, be_computeDefaultSA := computeDefaultSA\<rparr>"

text \<open>An error ends the program with the code 1.\<close>

definition NewOperator :: "'s operator_deps \<Rightarrow> build_env \<Rightarrow> Options \<Rightarrow> 's \<Rightarrow> (int + Operator) \<times> 's" where
  "NewOperator d base x s = (let region = determineRegion (op_ClusterLocation x) in
     if od_computeService d \<noteq> None \<or> od_containerService d \<noteq> None then (Inl 1, s)
     else let template = NewNodepoolTemplateProvider (op_ClusterName x) region (op_ProjectID x) (op_NodePoolServiceAccount x) (op_ClusterLocation x) (op_NodeLocation x)
          (op_DefaultNodePoolTemplateName x) in
       (case NewPricingProvider (od_initialPrices d) region of
           Inl err \<Rightarrow> (Inl 1, s)
         | Inr pricing \<Rightarrow> (case getComputeDefaultServiceAccount d (op_ProjectID x) (op_NodePoolServiceAccount x) s of
             (Inl err, s) \<Rightarrow> (Inl 1, s)
           | (Inr computeDefaultSA, s) \<Rightarrow> if od_subnetClient d \<noteq> None then (Inl 1, s)
               else (Inr \<lparr>or_unavailable = NewUnavailableOfferings, or_template = template, or_pricing = pricing, or_instanceTypes = NewCatalog,
                   or_instance = NewProvider base (op_ClusterName x) (op_ClusterLocation x) region (op_ProjectID x) (op_NodePoolServiceAccount x) computeDefaultSA,
                   or_gke = NewGkeProvider, or_subnetRegion = region,
                   or_auth = \<lparr>cr_ProjectID = op_ProjectID x, cr_Region = region, cr_NodeLocation = op_NodeLocation x\<rparr>\<rparr>, s))))"

datatype controller_kind = Nodeclass_status | Nodepool_template | Nodeclass_termination | Nodeclass_hash | Instancetype_refresh | Csr_approval | Pricing_refresh
  | Nodeclaim_gc | Custom_machine_type | Interruption_handling | Telemetry_reports

definition NewController :: "Options \<Rightarrow> controller_kind list" where
  "NewController x = [Nodeclass_status, Nodepool_template, Nodeclass_termination, Nodeclass_hash, Instancetype_refresh, Csr_approval, Pricing_refresh, Nodeclaim_gc,
       Custom_machine_type]
     @ (if op_Interruption x then [Interruption_handling] else []) @ (if op_Telemetry x then [Telemetry_reports] else [])"

subsection \<open>Where an option comes from\<close>

text \<open>The flag given last, then the environment, then the default.\<close>

definition pick :: "(string \<Rightarrow> 'a option) \<Rightarrow> (string \<times> string) list \<Rightarrow> string \<Rightarrow> environment \<Rightarrow> string \<Rightarrow> 'a \<Rightarrow> 'a" where
  "pick p kvs flag env var def = (case map_of (rev kvs) flag of
      Some v \<Rightarrow> the (p v)
    | None \<Rightarrow> (case env var of Some v \<Rightarrow> (case p v of Some y \<Rightarrow> y | None \<Rightarrow> def) | None \<Rightarrow> def))"

definition picked :: "(string \<times> string) list \<Rightarrow> environment \<Rightarrow> Options" where
  "picked kvs env = \<lparr>
     op_ProjectID = pick Some kvs projectIDFlagName env projectIDEnvVarName [],
     op_ClusterLocation = pick Some kvs clusterLocationFlagName env clusterLocationEnvVarName [],
     op_NodeLocation = pick Some kvs nodeLocationFlagName env nodeLocationEnvVarName [],
     op_ClusterName = pick Some kvs gkeClusterFlagName env gkeClusterNameEnvVarName [],
     op_VMMemoryOverheadPercent = pick ParseFloat kvs vmMemoryOverheadPercentFlagName env vmMemoryOverheadPercentEnvVarName (fl (7 / 100)),
     op_GCPAuth = pick Some kvs GCPAuth env GCPAuth [],
     op_NodePoolServiceAccount = pick Some kvs nodePoolServiceAccountFlagName env nodePoolServiceAccountEnvVarName [],
     op_DefaultNodePoolTemplateName = pick Some kvs defaultNodePoolTemplateNameFlagName env defaultNodePoolTemplateNameEnvVarName [],
     op_Interruption = pick ParseBool kvs gkeEnableInterruption env gkeEnableInterruption True,
     op_QuotaExceededTTL = pick ParseDuration kvs quotaExceededTTLFlagName env quotaExceededTTLEnvVarName (30 * 60 * 10 ^ 9),
     op_Telemetry = pick ParseBool kvs telemetryFlagName env telemetryEnvVarName False\<rparr>"

definition string_flags :: "string list" where
  "string_flags = [projectIDFlagName, clusterLocationFlagName, nodeLocationFlagName, gkeClusterFlagName, GCPAuth, nodePoolServiceAccountFlagName, defaultNodePoolTemplateNameFlagName]"

definition valid_setting :: "string \<times> string \<Rightarrow> bool" where
  "valid_setting kv = (case kv of (n, v) \<Rightarrow> n \<in> set string_flags \<or> n = vmMemoryOverheadPercentFlagName \<and> ParseFloat v \<noteq> None
     \<or> n \<in> {gkeEnableInterruption, telemetryFlagName} \<and> ParseBool v \<noteq> None \<or> n = quotaExceededTTLFlagName \<and> ParseDuration v \<noteq> None)"

lemma pick_Nil:
  "pick Some [] flag env var def = WithDefaultString env var def" "pick ParseBool [] flag env var b = WithDefaultBool env var b"
  "pick ParseDuration [] flag env var t = WithDefaultDuration env var t" "pick ParseFloat [] flag env var q = WithDefaultFloat64 env var q"
  by (simp_all add: pick_def WithDefaultString_def WithDefaultBool_def WithDefaultDuration_def WithDefaultFloat64_def split: option.splits)

lemma picked_Nil: "picked [] env = options_init env"
  by (simp add: picked_def options_init_def pick_Nil DefaultQuotaExceededTTL_def second_def)

lemma pick_snoc: "pick p (kvs @ [(n, v)]) flag env var def = (if n = flag then the (p v) else pick p kvs flag env var def)"
  by (simp add: pick_def)

lemma set_flag:
  assumes "valid_setting (n, v)"
  shows "flag_name n \<and> (\<exists>f. options_flag n = Some f \<and> snd f v (picked kvs env) = Inr (picked (kvs @ [(n, v)]) env))"
proof -
  note defs = options_flag_def string_flag_def parsed_flag_def picked_def pick_snoc projectIDFlagName_def clusterLocationFlagName_def nodeLocationFlagName_def gkeClusterFlagName_def
    vmMemoryOverheadPercentFlagName_def GCPAuth_def nodePoolServiceAccountFlagName_def defaultNodePoolTemplateNameFlagName_def gkeEnableInterruption_def
    quotaExceededTTLFlagName_def telemetryFlagName_def flag_name_def
  consider "n \<in> set string_flags" | y where "n = vmMemoryOverheadPercentFlagName" "ParseFloat v = Some y"
    | y where "n \<in> {gkeEnableInterruption, telemetryFlagName}" "ParseBool v = Some y" | y where "n = quotaExceededTTLFlagName" "ParseDuration v = Some y"
    using assms by (auto simp: valid_setting_def)
  then show ?thesis
  proof cases
    case 1
    then show ?thesis unfolding string_flags_def set_simps by (elim insertE emptyE; simp add: defs)
  next
    case 2
    then show ?thesis by (simp add: defs)
  next
    case 3
    then show ?thesis unfolding insert_iff empty_iff by (elim disjE; simp add: defs)
  next
    case 4
    then show ?thesis by (simp add: defs)
  qed
qed

lemma flags_picked:
  assumes "list_all valid_setting kvs'"
  shows "flag_parse (\<lambda>n. case options_flag n of Some f \<Rightarrow> Some f | None \<Rightarrow> core n) (map flag_arg kvs') (picked kvs env) = Flags_parsed (picked (kvs @ kvs') env)"
  using assms
proof (induction kvs' arbitrary: kvs)
  case (Cons kv kvs')
  obtain n v where kv: "kv = (n, v)" by (cases kv)
  have "valid_setting (n, v)" using Cons.prems kv by simp
  from set_flag [OF this, of kvs env] obtain b setv where f: "flag_name n" "options_flag n = Some (b, setv)" "setv v (picked kvs env) = Inr (picked (kvs @ [(n, v)]) env)" by auto
  have "flag_parse (\<lambda>n. case options_flag n of Some f \<Rightarrow> Some f | None \<Rightarrow> core n) (flag_arg (n, v) # map flag_arg kvs') (picked kvs env)
      = flag_parse (\<lambda>n. case options_flag n of Some f \<Rightarrow> Some f | None \<Rightarrow> core n) (map flag_arg kvs') (picked (kvs @ [(n, v)]) env)"
    by (rule flag_parse_arg [where setv = setv and b = b]) (simp_all add: f)
  with Cons.IH [of "kvs @ [(n, v)]"] Cons.prems kv show ?case by simp
qed simp

text \<open>An option is what the last flag for it says, otherwise what the environment says if that can be read, otherwise its default; the location of the nodes is that of the cluster
  unless it is given. The options are accepted exactly if project, cluster and location are there and the time that exceeded quota is remembered is not negative.\<close>

theorem Options_Parse_exact:
  assumes "list_all valid_setting kvs"
  shows "let x = picked kvs env; x = (if op_NodeLocation x = [] then x\<lparr>op_NodeLocation := op_ClusterLocation x\<rparr> else x) in
    (if op_ProjectID x \<noteq> [] \<and> op_ClusterName x \<noteq> [] \<and> op_ClusterLocation x \<noteq> [] \<and> 0 \<le> op_QuotaExceededTTL x
     then Options_Parse core (map flag_arg kvs) (options_init env) = Options_parsed x
     else \<exists>err. Options_Parse core (map flag_arg kvs) (options_init env) = Options_failed err)"
proof -
  define y where "y = (if op_NodeLocation (picked kvs env) = [] then (picked kvs env)\<lparr>op_NodeLocation := op_ClusterLocation (picked kvs env)\<rparr> else picked kvs env)"
  have "flag_parse (\<lambda>n. case options_flag n of Some f \<Rightarrow> Some f | None \<Rightarrow> core n) (map flag_arg kvs) (options_init env) = Flags_parsed (picked kvs env)"
    using flags_picked [OF assms, of core "[]" env] by (simp add: picked_Nil)
  then have "Options_Parse core (map flag_arg kvs) (options_init env)
      = (case Options_Validate y of Some err \<Rightarrow> Options_failed (Errorf ''validating options, %w'' [] [err]) | None \<Rightarrow> Options_parsed y)"
    unfolding Options_Parse_def y_def Let_def by (simp only: flag_result.case)
  moreover have "Options_Validate y = None \<longleftrightarrow> op_ProjectID y \<noteq> [] \<and> op_ClusterName y \<noteq> [] \<and> op_ClusterLocation y \<noteq> [] \<and> 0 \<le> op_QuotaExceededTTL y"
    by (auto simp: Options_Validate_def validateRequiredFields_def validateQuotaExceededTTL_def)
  ultimately show ?thesis unfolding Let_def y_def [symmetric] by (cases "Options_Validate y") auto
qed

definition example_settings :: "(string \<times> string) list" where
  "example_settings = [(''project-id'', ''p''), (''cluster-name'', ''c''), (''cluster-location'', ''us-central1-a''), (''quota-exceeded-ttl'', ''1m''), (''telemetry'', ''true'')]"

theorem Options_Parse_exact_witness:
  "\<exists>x. Options_Parse (\<lambda>_. None) (map flag_arg example_settings) (options_init (\<lambda>v. if v = ''TELEMETRY'' then Some ''0'' else None)) = Options_parsed x
    \<and> op_NodeLocation x = ''us-central1-a'' \<and> op_QuotaExceededTTL x = 60 * 10 ^ 9 \<and> op_Telemetry x \<and> op_Interruption x"
proof -
  have v: "list_all valid_setting example_settings" by code_simp
  let ?env = "\<lambda>v. if v = ''TELEMETRY'' then Some ''0'' else None"
  have d: "ParseDuration ''1m'' = Some (60 * 10 ^ 9)" "ParseBool ''true'' = Some True" by code_simp+
  note fs = projectIDFlagName_def clusterLocationFlagName_def nodeLocationFlagName_def gkeClusterFlagName_def gkeEnableInterruption_def quotaExceededTTLFlagName_def
    telemetryFlagName_def nodeLocationEnvVarName_def
  have p: "op_ProjectID (picked example_settings ?env) = ''p''" "op_ClusterName (picked example_settings ?env) = ''c''"
    "op_ClusterLocation (picked example_settings ?env) = ''us-central1-a''" "op_NodeLocation (picked example_settings ?env) = []"
    "op_QuotaExceededTTL (picked example_settings ?env) = 60 * 10 ^ 9" "op_Telemetry (picked example_settings ?env)" "op_Interruption (picked example_settings ?env)"
    by (simp_all add: picked_def pick_def example_settings_def fs d)
  show ?thesis using Options_Parse_exact [OF v, of ?env "\<lambda>_. None"] p by (auto simp: Let_def)
qed

subsection \<open>Region and wiring\<close>

definition lower_word :: "string \<Rightarrow> bool" where
  "lower_word w \<longleftrightarrow> w \<noteq> [] \<and> list_all is_lower w"

lemma lower_not [simp]: "\<not> is_lower CHR ''-''" "is_digit c \<Longrightarrow> \<not> is_lower c"
  by (code_simp, auto simp: is_digit_def is_lower_def)

lemma span_lower: "list_all is_lower a \<Longrightarrow> \<not> is_lower c \<Longrightarrow> takeWhile is_lower (a @ c # r) = a \<and> dropWhile is_lower (a @ c # r) = c # r"
  by (induction a) auto

lemma zone_name_shape:
  "is_zone_name s \<longleftrightarrow> (\<exists>a b d c. lower_word a \<and> lower_word b \<and> is_digit d \<and> is_lower c \<and> s = a @ ''-'' @ b @ [d, CHR ''-'', c])"
proof
  assume z: "is_zone_name s"
  define a r b r' where "a = takeWhile is_lower s" and "r = dropWhile is_lower s" and "b = takeWhile is_lower (drop 1 r)" and "r' = dropWhile is_lower (drop 1 r)"
  have h: "a \<noteq> []" "has_prefix r ''-''" "b \<noteq> []" "length r' = 3" "is_digit (r' ! 0)" "r' ! 1 = CHR ''-''" "is_lower (r' ! 2)"
    using z unfolding is_zone_name_def Let_def a_def r_def b_def r'_def by blast+
  have r: "r = CHR ''-'' # drop 1 r" using h(2) by (cases r) (auto simp: has_prefix_iff)
  have r': "r' = [r' ! 0, CHR ''-'', r' ! 2]" using h(4,6) by (auto simp: numeral_eq_Suc length_Suc_conv)
  have "s = a @ r" "drop 1 r = b @ r'" by (simp_all add: a_def r_def b_def r'_def)
  then have "s = a @ ''-'' @ b @ [r' ! 0, CHR ''-'', r' ! 2]" using r r' by (metis append.assoc append_Cons append_Nil)
  moreover have "list_all is_lower a" "list_all is_lower b" unfolding a_def b_def list_all_iff by (auto dest: set_takeWhileD)
  ultimately show "\<exists>a b d c. lower_word a \<and> lower_word b \<and> is_digit d \<and> is_lower c \<and> s = a @ ''-'' @ b @ [d, CHR ''-'', c]"
    using h unfolding lower_word_def by blast
next
  assume "\<exists>a b d c. lower_word a \<and> lower_word b \<and> is_digit d \<and> is_lower c \<and> s = a @ ''-'' @ b @ [d, CHR ''-'', c]"
  then obtain a b d c where h: "lower_word a" "lower_word b" "is_digit d" "is_lower c" "s = a @ CHR ''-'' # (b @ d # [CHR ''-'', c])" by auto
  have sa: "takeWhile is_lower s = a \<and> dropWhile is_lower s = CHR ''-'' # (b @ d # [CHR ''-'', c])"
    unfolding h(5) by (rule span_lower) (use h(1) in \<open>simp_all add: lower_word_def\<close>)
  have sb: "takeWhile is_lower (b @ d # [CHR ''-'', c]) = b \<and> dropWhile is_lower (b @ d # [CHR ''-'', c]) = d # [CHR ''-'', c]"
    by (rule span_lower) (use h(2,3) in \<open>simp_all add: lower_word_def\<close>)
  show "is_zone_name s" using h(1-4) sb unfolding is_zone_name_def Let_def sa [THEN conjunct1] sa [THEN conjunct2] by (simp add: lower_word_def)
qed

text \<open>C37: A zone is taken to its region, and everything else is taken for a region. A zone is two words of small letters, the second followed by one digit, and a letter; so the zone of a
  region with two digits is taken for a region.\<close>

theorem determineRegion_exact:
  "determineRegion s = (if \<exists>a b d c. lower_word a \<and> lower_word b \<and> is_digit d \<and> is_lower c \<and> s = a @ ''-'' @ b @ [d, CHR ''-'', c] then take (length s - 2) s else s)"
proof (cases "is_zone_name s")
  case True
  then obtain a b d c where h: "lower_word a" "lower_word b" "is_digit d" "is_lower c" "s = a @ ''-'' @ b @ [d, CHR ''-'', c]" unfolding zone_name_shape by blast
  have dash: "CHR ''-'' \<notin> set w" if "list_all is_lower w" for w using that by (auto simp: list_all_iff)
  have "d \<noteq> CHR ''-''" using h(3) by auto
  then have "CHR ''-'' \<notin> set (b @ [d])" using dash [of b] h(2) by (auto simp: lower_word_def)
  then have "split_on CHR ''-'' ((b @ [d]) @ CHR ''-'' # [c]) = (b @ [d]) # split_on CHR ''-'' [c]" by (rule split_on_append)
  moreover have "split_on CHR ''-'' (a @ CHR ''-'' # ((b @ [d]) @ CHR ''-'' # [c])) = a # split_on CHR ''-'' ((b @ [d]) @ CHR ''-'' # [c])"
    using dash [of a] h(1) by (intro split_on_append) (simp add: lower_word_def)
  ultimately have "split_on CHR ''-'' s = a # (b @ [d]) # split_on CHR ''-'' [c]" by (simp add: h(5))
  then have "determineRegion s = a @ ''-'' @ b @ [d]" using True by (simp add: determineRegion_def)
  moreover have "take (length s - 2) s = a @ ''-'' @ b @ [d]" by (simp add: h(5))
  ultimately show ?thesis using True by (simp add: zone_name_shape)
next
  case False
  then show ?thesis by (auto simp: determineRegion_def zone_name_shape)
qed

lemma two_digit_region: "determineRegion ''europe-west12-b'' = ''europe-west12-b''"
  by code_simp

text \<open>Every provider works on the same project, cluster and region, which has prices.\<close>

lemma operator_consistent:
  assumes "NewOperator d base x s = (Inr w, s')"
  shows "be_region (or_instance w) = determineRegion (op_ClusterLocation x) \<and> pr_region (or_pricing w) = be_region (or_instance w)
    \<and> cin_Region (npt_ClusterInfo (or_template w)) = be_region (or_instance w) \<and> cr_Region (or_auth w) = be_region (or_instance w) \<and> or_subnetRegion w = be_region (or_instance w)
    \<and> be_projectID (or_instance w) = op_ProjectID x \<and> cin_ProjectID (npt_ClusterInfo (or_template w)) = op_ProjectID x \<and> pr_onDemandPrices (or_pricing w) \<noteq> []"
  using assms
  by (auto simp: NewOperator_def Let_def NewProvider_def NewNodepoolTemplateProvider_def NewPricingProvider_def pricing_Reset_def
      split: if_splits sum.splits prod.splits option.splits)

text \<open>Reports are sent only if that was asked for.\<close>

lemma telemetry_opt_in: "env telemetryEnvVarName = None \<Longrightarrow> map_of (rev kvs) telemetryFlagName = None \<Longrightarrow> Telemetry_reports \<notin> set (NewController (picked kvs env))"
  by (simp add: NewController_def picked_def pick_def)

end
