(* ===== verification/Price_Compare.thy ===== *)
theory Price_Compare
  imports Pricing
begin

text \<open>
  The price validation tool, \<^verbatim>\<open>hack/price_validate\<close>: prices of references, their cache on disk, and the comparison of computed prices with them
  (\<^verbatim>\<open>prices.go\<close>, \<^verbatim>\<open>cyclenerd.go\<close>, \<^verbatim>\<open>compare.go\<close>, \<^verbatim>\<open>main.go\<close>). Files, the clock, the web and the environment are arguments. What is printed is the list of
  its lines; progress messages are left out. Paths are joined without the cleaning of \<^verbatim>\<open>filepath.Join\<close>, which names the same file.
\<close>

type_synonym RegionEntry = Prices
type_synonym RegionPrices = "(string, RegionEntry) gomap"
type_synonym RegionAvailability = "(string, (string, bool) gomap) gomap"

subsection \<open>Cached prices\<close>

record priceFile =
  pf_SavedAt :: "instant option"
  pf_Prices :: RegionPrices

record 's validate_deps =
  vd_now :: "'s \<Rightarrow> instant"
  vd_readFile :: "string \<Rightarrow> 's \<Rightarrow> go_error + priceFile" \<comment> \<open>\<^verbatim>\<open>readPriceFile\<close>: opening and decoding\<close>
  vd_writeFile :: "string \<Rightarrow> priceFile \<Rightarrow> 's \<Rightarrow> go_error option \<times> 's"
  vd_getCSV :: "'s price_server"
  vd_getenv :: "string \<Rightarrow> string"
  vd_credentialsProject :: "go_error + string"
  vd_listRegions :: "string \<Rightarrow> 's \<Rightarrow> (go_error + string) list \<times> 's" \<comment> \<open>what the iterator returns until it is done\<close>

definition writePriceFile :: "'s validate_deps \<Rightarrow> string \<Rightarrow> RegionPrices \<Rightarrow> instant option \<Rightarrow> 's \<Rightarrow> go_error option \<times> 's" where
  "writePriceFile d path prices savedAt s = vd_writeFile d path \<lparr>pf_SavedAt = savedAt, pf_Prices = prices\<rparr> s"

definition loadOrFetch ::
  "'s validate_deps \<Rightarrow> string \<Rightarrow> bool \<Rightarrow> duration \<Rightarrow> ('s \<Rightarrow> (go_error + RegionPrices) \<times> 's) \<Rightarrow> 's \<Rightarrow> (go_error + RegionPrices) \<times> 's" where
  "loadOrFetch d path noCache ttl fetch s =
     (case (if noCache then None else (case vd_readFile d path s of
          Inr pf \<Rightarrow> (case pf_SavedAt pf of Some t \<Rightarrow> if vd_now d s - t < ttl then Some (pf_Prices pf) else None | None \<Rightarrow> None)
        | Inl _ \<Rightarrow> None)) of
        Some prices \<Rightarrow> (Inr prices, s)
      | None \<Rightarrow> (case fetch s of
            (Inl err, s) \<Rightarrow> (Inl err, s)
          | (Inr prices, s) \<Rightarrow> (case writePriceFile d path prices (Some (vd_now d s)) s of
                (Some err, s) \<Rightarrow> (Inl (Errorf ''saving %s: %w'' [last_segment CHR ''/'' path] [err]), s)
              | (None, s) \<Rightarrow> (Inr prices, s))))"

subsection \<open>Reference prices of gcloud-compute.com\<close>

text \<open>Entries of the references that are not machine types.\<close>

definition isNonMachineTypeEntry :: "string \<Rightarrow> bool" where
  "isNonMachineTypeEntry name \<longleftrightarrow> contains_str name ''-node-'' \<or> has_prefix name ''NVIDIA '' \<or> has_prefix name ''Custom ''
     \<or> contains_str name '' Skylake'' \<or> contains_str name '' Platform''"

fun csv_col :: "string list \<Rightarrow> string \<Rightarrow> nat option" where
  "csv_col [] name = None"
| "csv_col (h # hs) name = (if equal_fold h name then Some 0 else map_option Suc (csv_col hs name))"

definition cyclenerd_row :: "nat \<times> nat \<times> nat \<times> nat \<Rightarrow> string list \<Rightarrow> RegionPrices \<Rightarrow> RegionPrices" where
  "cyclenerd_row cols rec result = (case cols of (nameCol, regionCol, onDemandCol, spotCol) \<Rightarrow>
     if length rec \<le> max (max nameCol regionCol) (max onDemandCol spotCol) then result
     else (case ParseFloat (rec ! onDemandCol) of None \<Rightarrow> result
       | Some onDemand \<Rightarrow> if onDemand = 0 then result
           else (let region = rec ! regionCol; machine = rec ! nameCol in
             if isNonMachineTypeEntry machine then result
             else (let e = region_prices result region;
                       e = e\<lparr>OnDemand := map_set machine onDemand (OnDemand e)\<rparr>;
                       e = (case ParseFloat (rec ! spotCol) of
                           Some spotPrice \<Rightarrow> if spotPrice > 0 then e\<lparr>Spot := map_set machine spotPrice (Spot e)\<rparr> else e
                         | None \<Rightarrow> e)
               in map_set region e result))))"

fun cyclenerd_rows :: "nat \<times> nat \<times> nat \<times> nat \<Rightarrow> csv_reads \<Rightarrow> RegionPrices \<Rightarrow> go_error + RegionPrices" where
  "cyclenerd_rows cols [] result = Inr result"
| "cyclenerd_rows cols (Inl err # rs) result = Inl (Errorf ''reading CSV: %w'' [] [err])"
| "cyclenerd_rows cols (Inr rec # rs) result = cyclenerd_rows cols rs (cyclenerd_row cols rec result)"

definition parseCyclenerdCSV :: "csv_reads \<Rightarrow> go_error + RegionPrices" where
  "parseCyclenerdCSV rs = (case rs of
      [] \<Rightarrow> Inl (Errorf ''reading CSV header: %w'' [] [SentinelError ''EOF''])
    | Inl err # _ \<Rightarrow> Inl (Errorf ''reading CSV header: %w'' [] [err])
    | Inr header # rs \<Rightarrow> (case (csv_col header ''name'', csv_col header ''region'', csv_col header ''hour'', csv_col header ''hourSpot'') of
        (Some n, Some r, Some h, Some sp) \<Rightarrow> cyclenerd_rows (n, r, h, sp) rs []
      | _ \<Rightarrow> Inl (Errorf ''CSV missing required columns (name/region/hour/hourSpot); got: %v'' header [])))"

definition fetchCyclenerdPrices :: "'s validate_deps \<Rightarrow> 's \<Rightarrow> (go_error + RegionPrices) \<times> 's" where
  "fetchCyclenerdPrices d s = (case vd_getCSV d s of
      (Inl err, s) \<Rightarrow> (Inl err, s)
    | (Inr (status, body), s) \<Rightarrow> (if status \<noteq> 200 then Inl (Errorf ''HTTP %d fetching Cyclenerd CSV'' [itoa status] []) else parseCyclenerdCSV body, s))"

definition getCyclenerdPrices :: "'s validate_deps \<Rightarrow> string \<Rightarrow> bool \<Rightarrow> duration \<Rightarrow> 's \<Rightarrow> (go_error + RegionPrices) \<times> 's" where
  "getCyclenerdPrices d workDir noCache cacheTTL s = loadOrFetch d (workDir @ ''/cyclenerd.json'') noCache cacheTTL (fetchCyclenerdPrices d) s"

subsection \<open>Comparison\<close>

datatype ResultKind = ResultOK | ResultMismatch | ResultMissing | ResultExtra | ResultExtraNew | ResultUnavail | ResultBlacklist

datatype priceKind = priceKindOnDemand | priceKindSpot

record result =
  re_kind :: ResultKind
  re_priceType :: priceKind
  re_region :: string
  re_machineType :: string
  re_computed :: rat
  re_refs :: "rat list"
  re_deviation :: rat

definition price_at :: "(string, rat) gomap \<Rightarrow> string \<Rightarrow> rat" where
  "price_at m k = (case map_get m k of Some p \<Rightarrow> p | None \<Rightarrow> 0)"

definition classifyMissing :: "string \<Rightarrow> string \<Rightarrow> RegionAvailability \<Rightarrow> ResultKind" where
  "classifyMissing machine region availability = (case map_get availability region of
      Some av \<Rightarrow> if map_get av machine \<noteq> Some True then ResultUnavail else ResultMissing
    | None \<Rightarrow> ResultMissing)"

definition fsub :: "rat \<Rightarrow> rat \<Rightarrow> rat" where "fsub a b = fl (a - b)"

definition percentDiff :: "rat \<Rightarrow> rat \<Rightarrow> rat" where
  "percentDiff computed ref = (if ref = 0 then (if computed = 0 then 0 else 1) else fdiv (fsub computed ref) ref)"

fun authoritativeDeviation :: "rat \<Rightarrow> rat list \<Rightarrow> rat" where
  "authoritativeDeviation computed [] = 0"
| "authoritativeDeviation computed (ref # refs) = (if ref = 0 then authoritativeDeviation computed refs else percentDiff computed ref)"

text \<open>The result for a price that is missing, and for one that is compared.\<close>

definition missing_result :: "priceKind \<Rightarrow> RegionAvailability \<Rightarrow> string \<Rightarrow> string \<Rightarrow> rat list \<Rightarrow> result" where
  "missing_result t availability region machine refs = \<lparr>re_kind = classifyMissing machine region availability, re_priceType = t, re_region = region,
     re_machineType = machine, re_computed = 0, re_refs = refs, re_deviation = 0\<rparr>"

definition compared_result :: "priceKind \<Rightarrow> rat \<Rightarrow> string \<Rightarrow> string \<Rightarrow> rat \<Rightarrow> rat list \<Rightarrow> result" where
  "compared_result t tolerance region machine computed refs = (let dev = authoritativeDeviation computed refs in
     \<lparr>re_kind = (if \<bar>dev\<bar> > tolerance then ResultMismatch else ResultOK), re_priceType = t, re_region = region,
       re_machineType = machine, re_computed = computed, re_refs = refs, re_deviation = dev\<rparr>)"

text \<open>The two loops over the machines of a region: those of the references, then those that are only computed.\<close>

definition machine_results :: "RegionEntry \<Rightarrow> RegionEntry list \<Rightarrow> RegionAvailability \<Rightarrow> string \<Rightarrow> rat \<Rightarrow> string \<Rightarrow> result list" where
  "machine_results computedEntry refEntries availability region tolerance machine =
     (let refPrices = map (\<lambda>e. price_at (OnDemand e) machine) refEntries in
      case map_get (OnDemand computedEntry) machine of
        None \<Rightarrow> [missing_result priceKindOnDemand availability region machine refPrices]
      | Some computedOD \<Rightarrow> compared_result priceKindOnDemand tolerance region machine computedOD refPrices
          # (let spotRefs = map (\<lambda>e. price_at (Spot e) machine) refEntries in
             if list_ex (\<lambda>p. p > 0) spotRefs then
               (let computedSpot = price_at (Spot computedEntry) machine in
                if computedSpot = 0 then [missing_result priceKindSpot availability region machine spotRefs]
                else [compared_result priceKindSpot tolerance region machine computedSpot spotRefs])
             else []))"

definition extra_results :: "RegionEntry \<Rightarrow> string list \<Rightarrow> string \<Rightarrow> (string \<Rightarrow> bool) \<Rightarrow> result list" where
  "extra_results computedEntry allRefNames region isKnownExtra =
     map (\<lambda>(machine, odPrice). \<lparr>re_kind = (if isKnownExtra machine then ResultExtra else ResultExtraNew), re_priceType = priceKindOnDemand,
         re_region = region, re_machineType = machine, re_computed = odPrice, re_refs = [], re_deviation = 0\<rparr>)
       (filter (\<lambda>(machine, _). machine \<notin> set allRefNames) (OnDemand computedEntry))"

definition region_results :: "RegionPrices \<Rightarrow> RegionPrices list \<Rightarrow> RegionAvailability \<Rightarrow> (string \<Rightarrow> bool) \<Rightarrow> rat \<Rightarrow> string \<Rightarrow> result list" where
  "region_results computedPrices refs availability isKnownExtra tolerance region =
     (let computedEntry = region_prices computedPrices region;
          refEntries = map (\<lambda>ref. region_prices ref region) refs;
          allRefNames = uniq (concat (map (\<lambda>e. map fst (OnDemand e)) refEntries))
      in concat (map (machine_results computedEntry refEntries availability region tolerance) (sort_strings allRefNames))
         @ extra_results computedEntry allRefNames region isKnownExtra)"

definition buildResults ::
  "RegionPrices \<Rightarrow> RegionPrices list \<Rightarrow> RegionAvailability \<Rightarrow> string list \<Rightarrow> (string \<Rightarrow> bool) \<Rightarrow> rat \<Rightarrow> result list" where
  "buildResults computedPrices refs availability regions isKnownExtra tolerance =
     concat (map (region_results computedPrices refs availability isKnownExtra tolerance) regions)"

subsection \<open>The report\<close>

text \<open>\<^verbatim>\<open>%.<prec>f\<close> and \<^verbatim>\<open>%-<width>s\<close>: correct rounding of the value, ties to even; padding by the number of characters.\<close>

definition fmt_fixed :: "nat \<Rightarrow> rat \<Rightarrow> string" where
  "fmt_fixed prec x = (let n = nat (round_even (\<bar>x\<bar> * 10 ^ prec)); f = utoa (n mod 10 ^ prec) in
     (if x < 0 then ''-'' else []) @ utoa (n div 10 ^ prec)
       @ (if prec = 0 then [] else ''.'' @ replicate (prec - length f) CHR ''0'' @ f))"

definition rune_count :: "string \<Rightarrow> nat" where
  "rune_count s = length (filter (\<lambda>c. \<not> (128 \<le> char_code c \<and> char_code c < 192)) s)"

definition pad_right :: "nat \<Rightarrow> string \<Rightarrow> string" where
  "pad_right n s = s @ replicate (n - rune_count s) CHR '' ''"

fun kind_name :: "ResultKind \<Rightarrow> string" where
  "kind_name ResultOK = ''OK''" | "kind_name ResultMismatch = ''MISMATCH''" | "kind_name ResultMissing = ''MISSING''" | "kind_name ResultExtra = ''EXTRA''"
| "kind_name ResultExtraNew = ''EXTRA_NEW''" | "kind_name ResultUnavail = ''UNAVAIL''" | "kind_name ResultBlacklist = ''BLACKLIST''"

fun priceKind_name :: "priceKind \<Rightarrow> string" where
  "priceKind_name priceKindOnDemand = ''OnDemand''" | "priceKind_name priceKindSpot = ''Spot''"

definition fmtRef :: "rat \<Rightarrow> rat \<Rightarrow> rat \<Rightarrow> string" where
  "fmtRef computed ref tolerance =
     (if ref = 0 then ''n/a'' else if computed = 0 then fmt_fixed 6 ref
      else (let dev = percentDiff computed ref; p = fmul dev 100 in
        if \<bar>dev\<bar> \<le> tolerance then fmt_fixed 6 ref @ ''(ok)''
        else fmt_fixed 6 ref @ ''('' @ (if p < 0 then [] else ''+'') @ fmt_fixed 1 p @ ''%)''))"

definition printResult :: "result \<Rightarrow> (nat \<Rightarrow> string) \<Rightarrow> rat \<Rightarrow> string" where
  "printResult r labelFor tolerance =
     pad_right 9 (kind_name (re_kind r)) @ '' '' @ pad_right 40 (re_machineType r) @ '' '' @ pad_right 28 (re_region r) @ '' '' @ pad_right 8 (priceKind_name (re_priceType r))
       @ '' computed='' @ pad_right 12 (if re_computed r \<noteq> 0 then fmt_fixed 6 (re_computed r) else ''n/a'') @ '' ''
       @ join ''  '' (map (\<lambda>(i, ref). labelFor i @ ''='' @ fmtRef (re_computed r) ref tolerance) (List.enumerate 0 (re_refs r)))"

definition result_before :: "result \<Rightarrow> result \<Rightarrow> bool" where
  "result_before a b = (if re_region a \<noteq> re_region b then re_region a < re_region b
     else if re_machineType a \<noteq> re_machineType b then re_machineType a < re_machineType b
     else priceKind_name (re_priceType a) < priceKind_name (re_priceType b))"

definition ref_label :: "string list \<Rightarrow> nat \<Rightarrow> string" where
  "ref_label refLabels i = (if i < length refLabels then refLabels ! i else ''ref'' @ utoa i)"

definition shown :: "ResultKind \<Rightarrow> bool" where
  "shown k \<longleftrightarrow> k \<in> {ResultMismatch, ResultMissing, ResultExtraNew}"

definition count_kind :: "ResultKind \<Rightarrow> result list \<Rightarrow> nat" where
  "count_kind k results = length (filter (\<lambda>r. re_kind r = k) results)"

text \<open>The printed lines with the exit code; the blank line before the summary is a line of its own.\<close>

definition printReport :: "result list \<Rightarrow> string list \<Rightarrow> nat \<Rightarrow> rat \<Rightarrow> string list \<times> int" where
  "printReport results refLabels nRegions tolerance =
     (let results = sort_slice result_before results;
          checked = length (filter (\<lambda>r. re_priceType r = priceKindOnDemand \<and> (re_kind r = ResultOK \<or> re_kind r = ResultMismatch)) results)
      in (map (\<lambda>r. printResult r (ref_label refLabels) tolerance) (filter (\<lambda>r. shown (re_kind r)) results)
          @ [[], ''Summary over '' @ utoa nRegions @ '' region(s): checked='' @ utoa checked @ ''  mismatches='' @ utoa (count_kind ResultMismatch results)
              @ ''  missing='' @ utoa (count_kind ResultMissing results) @ ''  extra='' @ utoa (count_kind ResultExtra results)
              @ ''  extra_new='' @ utoa (count_kind ResultExtraNew results) @ ''  unavail='' @ utoa (count_kind ResultUnavail results)
              @ ''  blacklisted='' @ utoa (count_kind ResultBlacklist results) @ ''  tolerance='' @ fmt_fixed 0 (fmul tolerance 100) @ ''%''], 0))"

subsection \<open>The program\<close>

definition resolveProject :: "'s validate_deps \<Rightarrow> string \<Rightarrow> go_error + string" where
  "resolveProject d flagValue =
     (if flagValue \<noteq> [] then Inr flagValue
      else (case filter (\<lambda>v. v \<noteq> []) (map (vd_getenv d) [''GOOGLE_CLOUD_PROJECT'', ''GCLOUD_PROJECT'']) of
          v # _ \<Rightarrow> Inr v
        | [] \<Rightarrow> (case vd_credentialsProject d of
            Inr p \<Rightarrow> if p \<noteq> [] then Inr p
              else Inl (Errorf ''GCP project not found; set --project, $GOOGLE_CLOUD_PROJECT, or run: gcloud auth application-default login'' [] [])
          | Inl _ \<Rightarrow> Inl (Errorf ''GCP project not found; set --project, $GOOGLE_CLOUD_PROJECT, or run: gcloud auth application-default login'' [] []))))"

fun collect_regions :: "(go_error + string) list \<Rightarrow> string list \<Rightarrow> go_error + string list" where
  "collect_regions [] regions = Inr (sort_strings regions)"
| "collect_regions (Inl err # rs) regions = Inl (Errorf ''listing regions: %w'' [] [err])"
| "collect_regions (Inr region # rs) regions = collect_regions rs (regions @ [region])"

definition getGCPRegions :: "'s validate_deps \<Rightarrow> string \<Rightarrow> 's \<Rightarrow> (go_error + string list) \<times> 's" where
  "getGCPRegions d project s = (case vd_listRegions d project s of (rs, s) \<Rightarrow> (collect_regions rs [], s))"

definition FetchAllPrices :: "'s price_server \<Rightarrow> 's \<Rightarrow> (go_error + RegionPrices) \<times> 's" where
  "FetchAllPrices srv s = fetchAll srv s"

definition fetchInstancePrices :: "'s validate_deps \<Rightarrow> string list \<Rightarrow> 's \<Rightarrow> (go_error + RegionPrices) \<times> 's" where
  "fetchInstancePrices d regions s = (case FetchAllPrices (vd_getCSV d) s of
      (Inl err, s) \<Rightarrow> (Inl (Errorf ''fetching prices: %w'' [] [err]), s)
    | (Inr all, s) \<Rightarrow> (Inr (fold (\<lambda>region computed. case map_get all region of Some prices \<Rightarrow> map_set region prices computed | None \<Rightarrow> computed) regions []), s))"

subsection \<open>Every price is compared once\<close>

lemma filter_concat_key:
  assumes "distinct xs" "\<And>x y. x \<in> set xs \<Longrightarrow> y \<in> set (f x) \<Longrightarrow> key y = x"
  shows "filter (\<lambda>y. key y = k \<and> P y) (concat (map f xs)) = (if k \<in> set xs then filter P (f k) else [])"
  using assms
proof (induction xs)
  case (Cons x xs)
  have "filter (\<lambda>y. key y = k \<and> P y) (f x) = (if k = x then filter P (f x) else [])"
    using Cons.prems(2) [of x] by (auto intro: filter_cong simp: filter_empty_conv)
  with Cons show ?case by auto
qed simp

definition wf_prices :: "RegionPrices \<Rightarrow> bool" where
  "wf_prices m \<longleftrightarrow> (\<forall>region. wf_map (OnDemand (region_prices m region)))"

definition listed :: "RegionPrices list \<Rightarrow> string \<Rightarrow> string \<Rightarrow> bool" where
  "listed refs region machine \<longleftrightarrow> (\<exists>ref \<in> set refs. map_of (OnDemand (region_prices ref region)) machine \<noteq> None)"

definition kinds_for :: "result list \<Rightarrow> string \<Rightarrow> string \<Rightarrow> priceKind \<Rightarrow> ResultKind list" where
  "kinds_for results region machine t = map re_kind (filter (\<lambda>r. re_region r = region \<and> re_machineType r = machine \<and> re_priceType r = t) results)"

definition ref_names :: "RegionPrices list \<Rightarrow> string \<Rightarrow> string list" where
  "ref_names refs region = uniq (concat (map (\<lambda>e. map fst (OnDemand e)) (map (\<lambda>ref. region_prices ref region) refs)))"

lemma set_ref_names: "machine \<in> set (ref_names refs region) \<longleftrightarrow> listed refs region machine"
  by (auto simp: ref_names_def listed_def map_of_eq_None_iff)

lemma machine_results_key: "r \<in> set (machine_results c es av region tol machine) \<Longrightarrow> re_machineType r = machine \<and> re_region r = region"
  by (auto simp: machine_results_def missing_result_def compared_result_def Let_def split: option.splits if_splits)

lemma extra_results_key:
  "r \<in> set (extra_results c names region known) \<Longrightarrow> re_region r = region \<and> re_machineType r \<notin> set names \<and> re_priceType r = priceKindOnDemand"
  by (auto simp: extra_results_def)

lemma region_results_key: "r \<in> set (region_results c refs av known tol region) \<Longrightarrow> re_region r = region"
  by (auto simp: region_results_def Let_def dest: machine_results_key extra_results_key)

lemma filter_wf_map: "wf_map m \<Longrightarrow> filter (\<lambda>(k, _). k = a) m = (case map_of m a of None \<Rightarrow> [] | Some v \<Rightarrow> [(a, v)])"
proof (induction m)
  case (Cons x m)
  obtain k v where x: "x = (k, v)" by (cases x)
  have "filter (\<lambda>(k, _). k = a) m = []" if "k = a" using Cons.prems that x by (force simp: wf_map_def filter_empty_conv)
  with Cons x show ?case by (auto simp: wf_map_def)
qed simp

lemma kinds_extra:
  assumes "wf_map (OnDemand c)"
  shows "map re_kind (filter (\<lambda>r. re_machineType r = machine \<and> re_priceType r = t) (extra_results c names region known)) =
    (if machine \<notin> set names \<and> map_of (OnDemand c) machine \<noteq> None \<and> t = priceKindOnDemand then [if known machine then ResultExtra else ResultExtraNew] else [])"
proof -
  have "filter (\<lambda>x. (case x of (m, _) \<Rightarrow> m \<notin> set names) \<and> fst x = machine \<and> t = priceKindOnDemand) (OnDemand c)
      = (if machine \<notin> set names \<and> t = priceKindOnDemand then filter (\<lambda>(k, _). k = machine) (OnDemand c) else [])"
    by (auto intro: filter_cong simp: filter_empty_conv)
  then have "filter (\<lambda>x. (case x of (m, _) \<Rightarrow> m \<notin> set names) \<and> fst x = machine \<and> t = priceKindOnDemand) (OnDemand c)
      = (if machine \<notin> set names \<and> t = priceKindOnDemand then (case map_of (OnDemand c) machine of None \<Rightarrow> [] | Some v \<Rightarrow> [(machine, v)]) else [])"
    using filter_wf_map [OF assms] by simp
  then show ?thesis
    by (auto simp: extra_results_def filter_map comp_def case_prod_beta conj_commute eq_commute [of priceKindOnDemand] split: option.splits)
qed

text \<open>The verdict on a price that the references list.\<close>

definition verdict :: "RegionAvailability \<Rightarrow> rat \<Rightarrow> string \<Rightarrow> string \<Rightarrow> rat option \<Rightarrow> rat list \<Rightarrow> ResultKind" where
  "verdict av tol region machine computed refs = (case computed of
      None \<Rightarrow> if \<exists>m. map_of av region = Some m \<and> map_of m machine \<noteq> Some True then ResultUnavail else ResultMissing
    | Some c \<Rightarrow> (case find (\<lambda>p. p \<noteq> 0) refs of None \<Rightarrow> if tol < 0 then ResultMismatch else ResultOK
        | Some p \<Rightarrow> if \<bar>percentDiff c p\<bar> \<le> tol then ResultOK else ResultMismatch))"

lemma authoritativeDeviation_find: "authoritativeDeviation c refs = (case find (\<lambda>p. p \<noteq> 0) refs of None \<Rightarrow> 0 | Some p \<Rightarrow> percentDiff c p)"
  by (induction refs) auto

lemma kind_missing: "re_kind (missing_result t av region machine refs) = verdict av tol region machine None refs"
  by (auto simp: missing_result_def classifyMissing_def verdict_def split: option.splits)

lemma kind_compared: "re_kind (compared_result t tol region machine c refs) = verdict av tol region machine (Some c) refs"
  by (auto simp: compared_result_def Let_def verdict_def authoritativeDeviation_find split: option.splits)

lemma kinds_machine:
  "map re_kind (filter (\<lambda>r. re_priceType r = t) (machine_results c es av region tol machine)) =
    (case t of
       priceKindOnDemand \<Rightarrow> [verdict av tol region machine (map_of (OnDemand c) machine) (map (\<lambda>e. price_at (OnDemand e) machine) es)]
     | priceKindSpot \<Rightarrow> if map_of (OnDemand c) machine \<noteq> None \<and> (\<exists>e \<in> set es. price_at (Spot e) machine > 0)
         then [verdict av tol region machine (if price_at (Spot c) machine = 0 then None else Some (price_at (Spot c) machine)) (map (\<lambda>e. price_at (Spot e) machine) es)] else [])"
proof -
  have t: "re_priceType (missing_result t' av region machine refs) = t'" "re_priceType (compared_result t' tol region machine x refs) = t'" for t' refs x
    by (simp_all add: missing_result_def compared_result_def Let_def)
  show ?thesis
    by (cases t; cases "map_of (OnDemand c) machine")
      (simp_all add: machine_results_def t Let_def kind_missing [of _ _ _ _ _ tol] kind_compared [of _ _ _ _ _ _ av] list_ex_iff)
qed

lemma region_results_names:
  "region_results computed refs av known tol region =
     concat (map (machine_results (region_prices computed region) (map (\<lambda>ref. region_prices ref region) refs) av region tol) (sort_strings (ref_names refs region)))
     @ extra_results (region_prices computed region) (ref_names refs region) region known"
  by (simp only: region_results_def Let_def ref_names_def)

lemma kinds_region:
  assumes "wf_map (OnDemand (region_prices computed region))"
  shows "map re_kind (filter (\<lambda>r. re_machineType r = machine \<and> re_priceType r = t) (region_results computed refs av known tol region)) =
    (if listed refs region machine
     then map re_kind (filter (\<lambda>r. re_priceType r = t) (machine_results (region_prices computed region) (map (\<lambda>ref. region_prices ref region) refs) av region tol machine))
     else if map_of (OnDemand (region_prices computed region)) machine \<noteq> None \<and> t = priceKindOnDemand then [if known machine then ResultExtra else ResultExtraNew] else [])"
proof -
  let ?c = "region_prices computed region" and ?es = "map (\<lambda>ref. region_prices ref region) refs"
  have "distinct (sort_strings (ref_names refs region))" by (simp add: sort_strings_def ref_names_def)
  then have "filter (\<lambda>r. re_machineType r = machine \<and> re_priceType r = t)
      (concat (map (machine_results ?c ?es av region tol) (sort_strings (ref_names refs region)))) =
    (if listed refs region machine then filter (\<lambda>r. re_priceType r = t) (machine_results ?c ?es av region tol machine) else [])"
    by (subst filter_concat_key) (auto simp: set_ref_names dest: machine_results_key)
  with kinds_extra [OF assms, of machine t "ref_names refs region" region known] show ?thesis
    by (simp add: region_results_names set_ref_names)
qed

text \<open>The comparison misses nothing and reports nothing twice. For every region asked for and every machine type, there is one on-demand result if a reference or the
  computed prices have the machine type, and none otherwise: its kind follows the first reference that has a price, or the availability when nothing was computed, or says
  that no reference lists it. There is one spot result exactly if the machine type is listed and computed and a reference has a spot price.\<close>

theorem buildResults_exact:
  assumes "distinct regions" "wf_prices computed"
  shows "kinds_for (buildResults computed refs av regions known tol) region machine t =
    (let c = region_prices computed region; es = map (\<lambda>ref. region_prices ref region) refs; od = map_of (OnDemand c) machine in
     if region \<notin> set regions then []
     else if \<not> listed refs region machine then (if od \<noteq> None \<and> t = priceKindOnDemand then [if known machine then ResultExtra else ResultExtraNew] else [])
     else (case t of
         priceKindOnDemand \<Rightarrow> [verdict av tol region machine od (map (\<lambda>e. price_at (OnDemand e) machine) es)]
       | priceKindSpot \<Rightarrow> if od \<noteq> None \<and> (\<exists>e \<in> set es. price_at (Spot e) machine > 0)
           then [verdict av tol region machine (if price_at (Spot c) machine = 0 then None else Some (price_at (Spot c) machine)) (map (\<lambda>e. price_at (Spot e) machine) es)]
           else []))"
proof -
  have "wf_map (OnDemand (region_prices computed region))" using assms(2) by (simp add: wf_prices_def)
  note k = kinds_region [OF this] kinds_machine
  have "filter (\<lambda>r. re_region r = region \<and> re_machineType r = machine \<and> re_priceType r = t) (buildResults computed refs av regions known tol) =
    (if region \<in> set regions then filter (\<lambda>r. re_machineType r = machine \<and> re_priceType r = t) (region_results computed refs av known tol region) else [])"
    unfolding buildResults_def by (rule filter_concat_key [OF assms(1)]) (auto dest: region_results_key)
  then show ?thesis by (simp add: kinds_for_def k Let_def split: priceKind.splits del: filter.simps)
qed

definition example_prices :: RegionPrices where
  "example_prices = [(''r'', \<lparr>OnDemand = [(''a'', 1), (''b'', 2)], Spot = []\<rparr>)]"

theorem buildResults_exact_witness:
  "kinds_for (buildResults example_prices [[(''r'', \<lparr>OnDemand = [(''a'', 1)], Spot = [(''a'', 1 / 2)]\<rparr>)]] [] [''r''] (\<lambda>_. False) (1 / 128)) ''r'' ''a'' priceKindSpot = [ResultMissing]"
proof -
  have w: "wf_prices example_prices" by (simp add: wf_prices_def example_prices_def region_prices_def wf_map_def)
  show ?thesis
    by (subst buildResults_exact [OF _ w])
      (simp_all add: Let_def listed_def region_prices_def example_prices_def price_at_def verdict_def)
qed

subsection \<open>What a verdict means\<close>

lemma fl_minus: "fl (- x) = - fl x"
  by (simp add: fl_def Let_def)

lemma fl_relative: "\<bar>fl x\<bar> \<le> \<bar>x\<bar> * (1 + 1 / 2 ^ 53)" "\<bar>x\<bar> * (1 - 1 / 2 ^ 53) \<le> \<bar>fl x\<bar>"
proof -
  have "\<bar>fl x - x\<bar> \<le> \<bar>x\<bar> / 2 ^ 53"
    using fl_error [of x] fl_error [of "- x"] by (cases "0 \<le> x") (auto simp: fl_minus)
  then show "\<bar>fl x\<bar> \<le> \<bar>x\<bar> * (1 + 1 / 2 ^ 53)" "\<bar>x\<bar> * (1 - 1 / 2 ^ 53) \<le> \<bar>fl x\<bar>"
    by (auto simp: algebra_simps abs_if split: if_splits)
qed

lemma percentDiff_bounds:
  assumes "0 < ref"
  shows "\<bar>percentDiff c ref\<bar> * ref \<le> \<bar>c - ref\<bar> * (1 + 1 / 2 ^ 53)\<^sup>2" "\<bar>c - ref\<bar> * (1 - 1 / 2 ^ 53)\<^sup>2 \<le> \<bar>percentDiff c ref\<bar> * ref"
proof -
  let ?d = "fl (c - ref)" and ?q = "fl (fl (c - ref) / ref)"
  have q: "percentDiff c ref = ?q" using assms by (simp add: percentDiff_def fdiv_def fsub_def)
  have "\<bar>?q\<bar> * ref \<le> \<bar>?d / ref\<bar> * (1 + 1 / 2 ^ 53) * ref" using fl_relative(1) [of "?d / ref"] assms by (intro mult_right_mono) auto
  also have "\<dots> = \<bar>?d\<bar> * (1 + 1 / 2 ^ 53)" using assms by (simp add: abs_div)
  also have "\<dots> \<le> \<bar>c - ref\<bar> * (1 + 1 / 2 ^ 53) * (1 + 1 / 2 ^ 53)" using fl_relative(1) [of "c - ref"] by (rule mult_right_mono) simp
  finally show "\<bar>percentDiff c ref\<bar> * ref \<le> \<bar>c - ref\<bar> * (1 + 1 / 2 ^ 53)\<^sup>2" by (simp only: q power2_eq_square mult.assoc)
  have "\<bar>c - ref\<bar> * (1 - 1 / 2 ^ 53) * (1 - 1 / 2 ^ 53) \<le> \<bar>?d\<bar> * (1 - 1 / 2 ^ 53)" using fl_relative(2) [of "c - ref"] by (rule mult_right_mono) simp
  also have "\<dots> = \<bar>?d / ref\<bar> * (1 - 1 / 2 ^ 53) * ref" using assms by (simp add: abs_div)
  also have "\<dots> \<le> \<bar>?q\<bar> * ref" using fl_relative(2) [of "?d / ref"] assms by (intro mult_right_mono) auto
  finally show "\<bar>c - ref\<bar> * (1 - 1 / 2 ^ 53)\<^sup>2 \<le> \<bar>percentDiff c ref\<bar> * ref" by (simp only: q power2_eq_square mult.assoc)
qed

lemma percentDiff_close:
  assumes "0 < ref" "0 \<le> tol"
  shows "\<bar>percentDiff c ref\<bar> \<le> tol \<Longrightarrow> \<bar>c - ref\<bar> \<le> tol * ref * (1 + 1 / 2 ^ 51)"
    and "tol < \<bar>percentDiff c ref\<bar> \<Longrightarrow> tol * ref * (1 - 1 / 2 ^ 51) < \<bar>c - ref\<bar>"
proof -
  let ?x = "\<bar>c - ref\<bar>" and ?t = "tol * ref"
  have t: "0 \<le> ?t" using assms by simp
  show "?x \<le> ?t * (1 + 1 / 2 ^ 51)" if "\<bar>percentDiff c ref\<bar> \<le> tol"
  proof -
    have "\<bar>percentDiff c ref\<bar> * ref \<le> ?t" using that assms by (intro mult_right_mono) auto
    with percentDiff_bounds(2) [OF assms(1), of c] have "?x * (1 - 1 / 2 ^ 53)\<^sup>2 \<le> ?t" by linarith
    also have "\<dots> \<le> ?t * ((1 + 1 / 2 ^ 51) * (1 - 1 / 2 ^ 53)\<^sup>2)" using t by (simp add: mult_le_cancel_left1 field_simps power2_eq_square)
    finally have "?x * (1 - 1 / 2 ^ 53)\<^sup>2 \<le> ?t * (1 + 1 / 2 ^ 51) * (1 - 1 / 2 ^ 53)\<^sup>2" by (simp only: mult.assoc)
    then show ?thesis by (rule mult_right_le_imp_le) simp
  qed
  show "?t * (1 - 1 / 2 ^ 51) < ?x" if "tol < \<bar>percentDiff c ref\<bar>"
  proof -
    have "?t * (1 - 1 / 2 ^ 51) * (1 + 1 / 2 ^ 53)\<^sup>2 \<le> ?t * 1"
      unfolding mult.assoc [of ?t] by (rule mult_left_mono [OF _ t]) (simp add: power2_eq_square field_simps)
    also have "\<dots> < \<bar>percentDiff c ref\<bar> * ref" using that assms by simp
    also have "\<dots> \<le> ?x * (1 + 1 / 2 ^ 53)\<^sup>2" by (rule percentDiff_bounds(1) [OF assms(1)])
    finally show ?thesis by (rule mult_right_less_imp_less) simp
  qed
qed

lemma buildResults_cases:
  assumes "r \<in> set (buildResults computed refs av regions known tol)"
  obtains t region machine ps where "r = missing_result t av region machine ps"
  | t region machine c ps where "r = compared_result t tol region machine c ps"
  | "re_refs r = []"
proof -
  obtain region where "r \<in> set (region_results computed refs av known tol region)" using assms by (auto simp: buildResults_def)
  then consider machine where "r \<in> set (machine_results (region_prices computed region) (map (\<lambda>ref. region_prices ref region) refs) av region tol machine)"
    | "r \<in> set (extra_results (region_prices computed region) (ref_names refs region) region known)"
    by (auto simp: region_results_names)
  then show ?thesis
  proof cases
    case 1
    then show ?thesis by (auto simp: machine_results_def Let_def split: option.splits if_splits intro: that(1,2))
  next
    case 2
    then show ?thesis by (auto simp: extra_results_def intro: that(3))
  qed
qed

text \<open>The verdict holds of the prices, not only of their doubles. A price reported as OK differs from the first reference that has one by at most the tolerance, and one reported as a mismatch by
  more than the tolerance, up to a relative error of 1 in 2 ^ 51 that the two roundings of the deviation leave.\<close>

theorem verdict_exact:
  assumes "r \<in> set (buildResults computed refs av regions known tol)" "0 \<le> tol" "find (\<lambda>p. p \<noteq> 0) (re_refs r) = Some p" "0 < p"
  shows "(re_kind r = ResultOK \<longrightarrow> \<bar>re_computed r - p\<bar> \<le> tol * p * (1 + 1 / 2 ^ 51))
    \<and> (re_kind r = ResultMismatch \<longrightarrow> tol * p * (1 - 1 / 2 ^ 51) < \<bar>re_computed r - p\<bar>)"
  using assms(1)
proof (cases rule: buildResults_cases)
  case (1 t region machine ps)
  then show ?thesis by (auto simp: missing_result_def classifyMissing_def split: option.splits)
next
  case (2 t region machine c ps)
  then have "re_computed r = c" "re_refs r = ps" "re_kind r = (if \<bar>authoritativeDeviation c ps\<bar> > tol then ResultMismatch else ResultOK)"
    by (simp_all add: compared_result_def Let_def)
  with assms(3) percentDiff_close [OF assms(4,2), of c] show ?thesis by (auto simp: authoritativeDeviation_find)
next
  case 3
  with assms(3) show ?thesis by simp
qed

theorem verdict_exact_witness:
  "\<exists>r. r \<in> set (buildResults example_prices [example_prices] [] [''r''] (\<lambda>_. False) (1 / 128)) \<and> re_kind r = ResultOK \<and> re_machineType r = ''b'' \<and> \<bar>re_computed r - 2\<bar> \<le> 1 / 128 * 2 * (1 + 1 / 2 ^ 51)"
proof -
  define r where "r = compared_result priceKindOnDemand (1 / 128) ''r'' ''b'' 2 [2]"
  have m: "machine_results (region_prices example_prices ''r'') [region_prices example_prices ''r''] [] ''r'' (1 / 128) ''b'' = [r]"
    by (simp add: machine_results_def example_prices_def region_prices_def price_at_def r_def)
  have n: "set (ref_names [example_prices] ''r'') = {''a'', ''b''}" by (simp add: ref_names_def example_prices_def region_prices_def)
  have "r \<in> set (buildResults example_prices [example_prices] [] [''r''] (\<lambda>_. False) (1 / 128))"
    using m n by (simp add: buildResults_def region_results_names)
  moreover have "re_kind r = ResultOK" "re_machineType r = ''b''" "re_computed r = 2" "re_refs r = [2]"
    by (simp_all add: r_def compared_result_def percentDiff_def fdiv_def fsub_def)
  ultimately show ?thesis using verdict_exact [of r example_prices "[example_prices]" "[]" "[''r'']" "\<lambda>_. False" "1 / 128" 2] by (intro exI [of _ r]) simp
qed

subsection \<open>Reference and computed prices read the same list\<close>

lemma csv_col_Some: "csv_col hs name = Some i \<Longrightarrow> i < length hs \<and> to_lower (hs ! i) = to_lower name"
  by (induction hs arbitrary: i) (auto simp: equal_fold_def split: if_splits)

lemma csv_col_None: "csv_col hs name = None \<longleftrightarrow> to_lower name \<notin> set (map to_lower hs)"
  by (induction hs) (auto simp: equal_fold_def)

lemma find_column_absent:
  "l \<notin> set (map to_lower hs) \<Longrightarrow> fold (\<lambda>(i, h) c. if to_lower h = l then Some i else c) (List.enumerate n hs) c0 = c0"
  by (induction hs arbitrary: n) auto

lemma find_column_first:
  assumes "distinct (map to_lower hs)"
  shows "fold (\<lambda>(i, h) c. if to_lower h = to_lower name then Some i else c) (List.enumerate n hs) None = map_option (\<lambda>i. n + i) (csv_col hs name)"
  using assms
proof (induction hs arbitrary: n)
  case (Cons h hs)
  show ?case
  proof (cases "to_lower h = to_lower name")
    case True
    with Cons.prems have "to_lower name \<notin> set (map to_lower hs)" by auto
    with True show ?thesis by (simp add: equal_fold_def find_column_absent)
  next
    case False
    with Cons.IH [of "Suc n"] Cons.prems show ?thesis by (simp add: equal_fold_def option.map_comp comp_def)
  qed
qed simp

lemma find_column_csv: "distinct (map to_lower hs) \<Longrightarrow> find_column (to_lower name) hs = csv_col hs name"
  using find_column_first [of hs name 0] by (simp add: find_column_def option.map_ident)

text \<open>One list has the machine types of the other, and nothing else.\<close>

definition machine_types_of :: "RegionPrices \<Rightarrow> RegionPrices \<Rightarrow> bool" where
  "machine_types_of all m \<longleftrightarrow> (\<forall>region k.
     map_of (OnDemand (region_prices m region)) k = (if isNonMachineTypeEntry k then None else map_of (OnDemand (region_prices all region)) k)
     \<and> map_of (Spot (region_prices m region)) k = (if isNonMachineTypeEntry k then None else map_of (Spot (region_prices all region)) k))"

lemma region_prices_set: "region_prices (map_set r p m) r' = (if r' = r then p else region_prices m r')"
  by (simp add: region_prices_def)

lemma cyclenerd_row_same: "machine_types_of all m \<Longrightarrow> machine_types_of (add_row cols rec all) (cyclenerd_row cols rec m)"
  by (cases cols)
    (auto simp: add_row_def cyclenerd_row_def Let_def machine_types_of_def region_prices_set split: option.splits)

lemma cyclenerd_rows_same:
  "machine_types_of all m \<Longrightarrow> (case (readRows cols rs all, cyclenerd_rows cols rs m) of
      (Inr a, Inr b) \<Rightarrow> machine_types_of a b | (Inl _, Inl _) \<Rightarrow> True | _ \<Rightarrow> False)"
  by (induction cols rs all arbitrary: m rule: readRows.induct) (simp_all add: cyclenerd_row_same)

text \<open>The reader of reference prices and the reader of the computed prices agree: on the same records, with column names that differ in more than
  case, they fail together, and otherwise the reference has exactly the prices of the list that belong to machine types.\<close>

theorem cyclenerd_same_prices:
  assumes "distinct (map to_lower header)"
  shows "case (parseCSV (Inr header # rs), parseCyclenerdCSV (Inr header # rs)) of
      (Inr a, Inr b) \<Rightarrow> machine_types_of a b | (Inl _, Inl _) \<Rightarrow> True | _ \<Rightarrow> False"
proof -
  have "to_lower ''name'' = ''name''" "to_lower ''region'' = ''region''" "to_lower ''hour'' = ''hour''" "to_lower ''hourSpot'' = ''hourspot''" by code_simp+
  then have c: "find_column ''name'' header = csv_col header ''name''" "find_column ''region'' header = csv_col header ''region''"
    "find_column ''hour'' header = csv_col header ''hour''" "find_column ''hourspot'' header = csv_col header ''hourSpot''"
    using find_column_csv [OF assms] by metis+
  have "machine_types_of [] []" by (simp add: machine_types_of_def region_prices_def)
  note r = cyclenerd_rows_same [OF this]
  show ?thesis
    by (cases "csv_col header ''name''"; cases "csv_col header ''region''"; cases "csv_col header ''hour''"; cases "csv_col header ''hourSpot''")
      (simp_all add: parseCSV_def parseCyclenerdCSV_def findColumns_def c r [simplified])
qed

theorem cyclenerd_same_prices_witness:
  "\<exists>a b. parseCSV [Inr [''name'', ''region'', ''hour'', ''hourSpot''], Inr [''n2-node-80'', ''r'', ''2'', ''1'']] = Inr a
    \<and> parseCyclenerdCSV [Inr [''name'', ''region'', ''hour'', ''hourSpot''], Inr [''n2-node-80'', ''r'', ''2'', ''1'']] = Inr b \<and> machine_types_of a b \<and> a \<noteq> b"
proof -
  let ?rs = "[Inr [''name'', ''region'', ''hour'', ''hourSpot''], Inr [''n2-node-80'', ''r'', ''2'', ''1'']]"
  have d: "distinct (map to_lower [''name'', ''region'', ''hour'', ''hourSpot''])" by code_simp
  have a: "parseCSV ?rs = Inr [(''r'', \<lparr>OnDemand = [(''n2-node-80'', 2)], Spot = [(''n2-node-80'', 1)]\<rparr>)]" by code_simp
  have b: "parseCyclenerdCSV ?rs = Inr []" by code_simp
  show ?thesis using cyclenerd_same_prices [OF d, of "[Inr [''n2-node-80'', ''r'', ''2'', ''1'']]"] a b by auto
qed

subsection \<open>The cache\<close>

text \<open>Files that can be read back as they were written.\<close>

definition reads_back :: "'s validate_deps \<Rightarrow> bool" where
  "reads_back d \<longleftrightarrow> (\<forall>path f s s'. vd_writeFile d path f s = (None, s') \<longrightarrow> vd_readFile d path s' = Inr f \<and> vd_now d s \<le> vd_now d s')"

text \<open>After a successful load, another one that comes within the time to live gives the same prices without fetching, unless it is told not to.\<close>

lemma loadOrFetch_again:
  assumes "reads_back d" "loadOrFetch d path True ttl fetch s = (Inr prices, s')" "fetch s = (Inr fetched, s1)"
    "vd_now d s' - vd_now d s1 < ttl"
  shows "prices = fetched \<and> loadOrFetch d path False ttl fetch' s' = (Inr prices, s')"
  using assms by (auto simp: loadOrFetch_def writePriceFile_def reads_back_def split: option.splits prod.splits sum.splits)

end
