(* ===== verification/Price_Page.thy ===== *)
theory Price_Page
  imports Price_Compare Go_Regexp
begin

text \<open>
  The pricing pages of Google Cloud as a reference of the price validation tool (\<^verbatim>\<open>hack/price_validate/gcpweb.go\<close>), and the tool as a whole (\<^verbatim>\<open>main.go\<close>). The
  web and the JSON decoder are arguments; a decoded value is a tree. The four regular expressions are written out as scanners.
\<close>

subsection \<open>Trees\<close>

datatype json = JNull | JBool bool | JNumber rat | JString string | JArray "json list" | JObject "(string \<times> json) list"

fun asArray :: "json \<Rightarrow> json list" where
  "asArray (JArray xs) = xs"
| "asArray _ = []"

fun asString :: "json \<Rightarrow> string" where
  "asString (JString s) = s"
| "asString _ = []"

definition node_at :: "json \<Rightarrow> nat \<Rightarrow> json" where
  "node_at n i = (if i < length (asArray n) then asArray n ! i else JNull)"

definition idxBlockHeaders :: nat where [go_defs]: "idxBlockHeaders = 0"
definition idxBlockDataRows :: nat where [go_defs]: "idxBlockDataRows = 1"
definition idxBlockRegionName :: nat where [go_defs]: "idxBlockRegionName = 2"
definition idxCellContentWrapper :: nat where [go_defs]: "idxCellContentWrapper = 3"
definition idxCellInnerWrapper :: nat where [go_defs]: "idxCellInnerWrapper = 1"
definition idxCellText :: nat where [go_defs]: "idxCellText = 1"
definition maxSearchDepth :: nat where [go_defs]: "maxSearchDepth = 18"

definition regionLabel :: "json \<Rightarrow> string" where "regionLabel n = asString (node_at n idxBlockRegionName)"
definition headerSection :: "json \<Rightarrow> json" where "headerSection n = node_at n idxBlockHeaders"
definition dataRows :: "json \<Rightarrow> json" where "dataRows n = node_at n idxBlockDataRows"
definition cellText :: "json \<Rightarrow> string" where
  "cellText n = asString (node_at (node_at (node_at n idxCellContentWrapper) idxCellInnerWrapper) idxCellText)"

subsection \<open>Regular expressions\<close>

definition is_word :: "char \<Rightarrow> bool" where
  "is_word c \<longleftrightarrow> is_lower c \<or> is_upper c \<or> is_digit c \<or> c = CHR ''_''"

definition word_or_dash :: "char \<Rightarrow> bool" where
  "word_or_dash c \<longleftrightarrow> is_word c \<or> c = CHR ''-''"

definition html_space :: "char \<Rightarrow> bool" where
  "html_space c \<longleftrightarrow> c \<in> {CHR 0x09, CHR 0x0A, CHR 0x0C, CHR 0x0D, CHR '' ''}"

text \<open>\<^verbatim>\<open>.+\([\w]+-[\w\d-]+\)$\<close>, read from the end: the closing parenthesis, the longest run of word characters and dashes, which the opening parenthesis must
  precede since it is neither, and one more character.\<close>

definition gcpRegionBlockRe :: "string \<Rightarrow> bool" where
  "gcpRegionBlockRe s = (case rev s of [] \<Rightarrow> False
    | c # r \<Rightarrow> c = CHR '')'' \<and> (let code = rev (takeWhile word_or_dash r); w = takeWhile is_word code; v = dropWhile is_word code in
        (case dropWhile word_or_dash r of
            p # q # _ \<Rightarrow> p = CHR ''('' \<and> q \<noteq> CHR 0x0A \<and> w \<noteq> [] \<and> (case v of [] \<Rightarrow> False | d # v \<Rightarrow> d = CHR ''-'' \<and> v \<noteq> [])
          | _ \<Rightarrow> False)))"

text \<open>\<^verbatim>\<open>\(([\w][\w\d-]+)\)\<close>: the group of the first match.\<close>

definition code_at :: "string \<Rightarrow> string option" where
  "code_at s = (case s of [] \<Rightarrow> None | c # r \<Rightarrow> (let code = takeWhile word_or_dash r in
     if c = CHR ''('' \<and> 2 \<le> length code \<and> is_word (hd code) \<and> has_prefix (dropWhile word_or_dash r) '')'' then Some code else None))"

fun gcpRegionCodeRe :: "string \<Rightarrow> string option" where
  "gcpRegionCodeRe [] = None"
| "gcpRegionCodeRe (c # s) = (case code_at (c # s) of Some code \<Rightarrow> Some code | None \<Rightarrow> gcpRegionCodeRe s)"

text \<open>\<^verbatim>\<open>\$([\d.]+)\s*/\s*1 hour\<close>: the group of the first match.\<close>

definition digit_or_dot :: "char \<Rightarrow> bool" where
  "digit_or_dot c \<longleftrightarrow> is_digit c \<or> c = CHR ''.''"

definition price_match :: "string \<Rightarrow> string option" where
  "price_match s = (case s of [] \<Rightarrow> None | c # r \<Rightarrow> (let d = takeWhile digit_or_dot r; r1 = dropWhile html_space (dropWhile digit_or_dot r) in
     if c = CHR ''$'' \<and> d \<noteq> [] \<and> has_prefix r1 ''/'' \<and> has_prefix (dropWhile html_space (drop 1 r1)) ''1 hour'' then Some d else None))"

fun gcpHourlyPriceRe :: "string \<Rightarrow> string option" where
  "gcpHourlyPriceRe [] = None"
| "gcpHourlyPriceRe (c # s) = (case price_match (c # s) of Some d \<Rightarrow> Some d | None \<Rightarrow> gcpHourlyPriceRe s)"

text \<open>\<^verbatim>\<open><[^>]+>\<close>: what follows a match at the start.\<close>

definition gcpHTMLTagRe :: "string \<Rightarrow> string option" where
  "gcpHTMLTagRe s = (case s of [] \<Rightarrow> None | c # r \<Rightarrow>
     if c = CHR ''<'' \<and> takeWhile (\<lambda>x. x \<noteq> CHR ''>'') r \<noteq> [] \<and> dropWhile (\<lambda>x. x \<noteq> CHR ''>'') r \<noteq> []
     then Some (drop 1 (dropWhile (\<lambda>x. x \<noteq> CHR ''>'') r)) else None)"

definition stripHTML :: "string \<Rightarrow> string" where
  "stripHTML s = trim_space (re_replace_all (\<lambda>t. map_option (Pair []) (gcpHTMLTagRe t)) s)"

subsection \<open>Finding the tables\<close>

lemma size_asArray: "c \<in> set (asArray n) \<Longrightarrow> size c < size n"
proof (cases n)
  case (JArray xs)
  assume "c \<in> set (asArray n)"
  with JArray show ?thesis by (induction xs arbitrary: n) auto
qed auto

function nodeContainsText :: "json \<Rightarrow> string list \<Rightarrow> bool" where
  "nodeContainsText n subs = (if asString n \<noteq> [] then list_ex (contains_str (asString n)) subs else list_ex (\<lambda>c. nodeContainsText c subs) (asArray n))"
  by auto

termination nodeContainsText
  by (relation "measure (\<lambda>(n, _). size n)") (auto simp: size_asArray)

declare nodeContainsText.simps [simp del]

definition hasPricingRows :: "json list \<Rightarrow> bool" where
  "hasPricingRows rows = list_ex (\<lambda>rowWrap. let e = node_at rowWrap 0 in
     list_ex (\<lambda>col. nodeContainsText (node_at e col) [''/ 1 hour'', ''/ 1 month'']) [2..<min (length (asArray e)) 10]) (take 20 rows)"

definition isRegionBlock :: "json \<Rightarrow> bool" where
  "isRegionBlock n \<longleftrightarrow> 3 \<le> length (asArray n) \<and> gcpRegionBlockRe (regionLabel n) \<and> asArray (dataRows n) \<noteq> [] \<and> hasPricingRows (asArray (dataRows n))"

function walkForBlocks :: "json \<Rightarrow> nat \<Rightarrow> json list" where
  "walkForBlocks n depth = (if depth > maxSearchDepth then [] else if asArray n = [] then [] else if isRegionBlock n then [n]
     else concat (map (\<lambda>child. walkForBlocks child (depth + 1)) (asArray n)))"
  by auto

termination walkForBlocks
  by (relation "measure (\<lambda>(_, depth). maxSearchDepth + 1 - depth)") auto

declare walkForBlocks.simps [simp del]

subsection \<open>Reading a table\<close>

definition extractRegionCode :: "json \<Rightarrow> string" where
  "extractRegionCode block = (case gcpRegionCodeRe (regionLabel block) of None \<Rightarrow> [] | Some code \<Rightarrow> code)"

fun price_column :: "string list \<Rightarrow> json list \<Rightarrow> nat option" where
  "price_column keywords [] = None"
| "price_column keywords (col # cols) = (if list_ex (contains_str (to_lower (stripHTML (cellText col)))) keywords then Some 0
     else map_option Suc (price_column keywords cols))"

definition findPriceColumn :: "json \<Rightarrow> string list \<Rightarrow> nat option" where
  "findPriceColumn block keywords = price_column keywords (asArray (node_at (node_at (headerSection block) 0) 0))"

definition read_row :: "nat \<Rightarrow> json \<Rightarrow> (string \<times> rat) option" where
  "read_row priceCol rowWrap = (let e = node_at rowWrap 0 in
     if length (asArray e) \<le> priceCol then None
     else let nameRaw = cellText (node_at e 0) in
       if contains_str nameRaw ''<b>'' then None
       else let name = stripHTML nameRaw in
         if name = [] \<or> isNonMachineTypeEntry name then None
         else (case gcpHourlyPriceRe (cellText (node_at e priceCol)) of None \<Rightarrow> None
           | Some d \<Rightarrow> (case ParseFloat d of None \<Rightarrow> None | Some val \<Rightarrow> if val = 0 then None else Some (name, val))))"

fun read_rows :: "nat \<Rightarrow> bool \<Rightarrow> json list \<Rightarrow> RegionEntry \<Rightarrow> RegionEntry" where
  "read_rows priceCol isSpot [] out = out"
| "read_rows priceCol isSpot (r # rows) out = read_rows priceCol isSpot rows (case read_row priceCol r of None \<Rightarrow> out
     | Some (name, val) \<Rightarrow> if isSpot then out\<lparr>Spot := map_set name val (Spot out)\<rparr> else out\<lparr>OnDemand := map_set name val (OnDemand out)\<rparr>)"

definition parseDataRows :: "json \<Rightarrow> nat \<Rightarrow> bool \<Rightarrow> RegionEntry" where
  "parseDataRows block priceCol isSpot = read_rows priceCol isSpot (asArray (dataRows block)) \<lparr>OnDemand = [], Spot = []\<rparr>"

definition merge_entry :: "string \<Rightarrow> RegionEntry \<Rightarrow> RegionPrices \<Rightarrow> RegionPrices" where
  "merge_entry region parsed result = (let e = region_prices result region in
     map_set region (e\<lparr>OnDemand := map_copy (OnDemand e) (OnDemand parsed), Spot := map_copy (Spot e) (Spot parsed)\<rparr>) result)"

fun parse_blocks :: "string list \<Rightarrow> bool \<Rightarrow> json list \<Rightarrow> RegionPrices \<Rightarrow> RegionPrices" where
  "parse_blocks keywords isSpot [] result = result"
| "parse_blocks keywords isSpot (block # blocks) result = parse_blocks keywords isSpot blocks
     (let region = extractRegionCode block in
      if region = [] then result
      else (case findPriceColumn block keywords of None \<Rightarrow> result
        | Some priceCol \<Rightarrow> merge_entry region (parseDataRows block priceCol isSpot) result))"

definition parsePricingTables :: "json list \<Rightarrow> bool \<Rightarrow> RegionPrices" where
  "parsePricingTables blocks isSpot =
     parse_blocks (if isSpot then [''spot pricing'', ''spot''] else [''default'', ''price (usd)'', ''on-demand'']) isSpot blocks []"

subsection \<open>Fetching the pages\<close>

record 's page_deps =
  pg_get :: "string \<Rightarrow> 's \<Rightarrow> (go_error + int \<times> (go_error + string)) \<times> 's" \<comment> \<open>status, and the body or the error of reading it\<close>
  pg_decode :: "string \<Rightarrow> go_error + json" \<comment> \<open>the first JSON value of a text\<close>

definition maxBodyBytes :: nat where "maxBodyBytes = 50 * 2 ^ 20"

definition httpGet :: "'s page_deps \<Rightarrow> string \<Rightarrow> 's \<Rightarrow> (go_error + string) \<times> 's" where
  "httpGet g url s = (case pg_get g url s of
      (Inl err, s) \<Rightarrow> (Inl err, s)
    | (Inr (status, body), s) \<Rightarrow> if status \<noteq> 200 then (Inl (Errorf ''HTTP %d from %s'' [itoa status, url] []), s)
        else (case body of Inl err \<Rightarrow> (Inl err, s) | Inr b \<Rightarrow> (Inr (take maxBodyBytes b), s)))"

definition extractInitDataJSON :: "'s page_deps \<Rightarrow> string \<Rightarrow> go_error + json" where
  "extractInitDataJSON g html = (case cut_str ''AF_initDataCallback({'' html of
      None \<Rightarrow> Inl (Errorf ''AF_initDataCallback not found in page HTML'' [] [])
    | Some (_, rest) \<Rightarrow> (case cut_str '', data:'' rest of
        None \<Rightarrow> Inl (Errorf ''data key not found inside AF_initDataCallback'' [] [])
      | Some (_, rest) \<Rightarrow> if \<not> has_prefix rest ''['' then Inl (Errorf ''expected JSON array after data key, got %q'' [take 1 rest] [])
          else (case pg_decode g rest of Inl err \<Rightarrow> Inl (Errorf ''decoding JSON: %w'' [] [err]) | Inr data \<Rightarrow> Inr data)))"

definition fetchGCPWebPage :: "'s page_deps \<Rightarrow> string \<Rightarrow> bool \<Rightarrow> 's \<Rightarrow> (go_error + RegionPrices) \<times> 's" where
  "fetchGCPWebPage g url isSpot s = (case httpGet g url s of
      (Inl err, s) \<Rightarrow> (Inl err, s)
    | (Inr html, s) \<Rightarrow> (case extractInitDataJSON g html of
        Inl err \<Rightarrow> (Inl (Errorf ''extracting embedded JSON: %w'' [] [err]), s)
      | Inr tree \<Rightarrow> (Inr (parsePricingTables (walkForBlocks tree 0) isSpot), s)))"

definition gcpWebPages :: "(string \<times> bool) list" where
  "gcpWebPages = [(''https://cloud.google.com/products/compute/pricing/general-purpose'', False),
     (''https://cloud.google.com/products/compute/pricing/compute-optimized'', False),
     (''https://cloud.google.com/products/compute/pricing/memory-optimized'', False),
     (''https://cloud.google.com/products/compute/pricing/storage-optimized'', False),
     (''https://cloud.google.com/products/compute/pricing/accelerator-optimized'', False),
     (''https://cloud.google.com/spot-vms/pricing'', True)]"

text \<open>The pages are fetched in parallel, here one after the other, and all of them before the first result is looked at.\<close>

fun fetch_pages :: "'s page_deps \<Rightarrow> (string \<times> bool) list \<Rightarrow> 's \<Rightarrow> (string \<times> (go_error + RegionPrices)) list \<times> 's" where
  "fetch_pages g [] s = ([], s)"
| "fetch_pages g ((url, spot) # pages) s = (case fetchGCPWebPage g url spot s of (res, s) \<Rightarrow>
     (case fetch_pages g pages s of (results, s) \<Rightarrow> ((url, res) # results, s)))"

fun merge_pages :: "(string \<times> (go_error + RegionPrices)) list \<Rightarrow> RegionPrices \<Rightarrow> go_error + RegionPrices" where
  "merge_pages [] out = Inr out"
| "merge_pages ((url, Inl err) # results) out = Inl (Errorf ''%s: %w'' [url] [err])"
| "merge_pages ((url, Inr prices) # results) out = merge_pages results (fold (\<lambda>(region, e). merge_entry region e) prices out)"

definition fetchGCPWebPrices :: "'s page_deps \<Rightarrow> 's \<Rightarrow> (go_error + RegionPrices) \<times> 's" where
  "fetchGCPWebPrices g s = (case fetch_pages g gcpWebPages s of (results, s) \<Rightarrow> (merge_pages results [], s))"

definition getGCPWebPrices :: "'s validate_deps \<Rightarrow> 's page_deps \<Rightarrow> string \<Rightarrow> bool \<Rightarrow> duration \<Rightarrow> 's \<Rightarrow> (go_error + RegionPrices) \<times> 's" where
  "getGCPWebPrices d g workDir noCache cacheTTL s = loadOrFetch d (workDir @ ''/gcpweb.json'') noCache cacheTTL (fetchGCPWebPrices g) s"

subsection \<open>The program\<close>

record validate_flags =
  vf_region :: string
  vf_tolerance :: rat
  vf_noCache :: bool
  vf_workDir :: string
  vf_cacheTTL :: duration
  vf_project :: string

definition knownExtras :: "(string, bool) gomap" where "knownExtras = []"

definition chosen_regions :: "'s validate_deps \<Rightarrow> validate_flags \<Rightarrow> 's \<Rightarrow> (go_error + string list) \<times> 's" where
  "chosen_regions d f s =
     (if vf_region f = ''all'' then (case resolveProject d (vf_project f) of
          Inl err \<Rightarrow> (Inl (Errorf ''  resolving GCP project: %v'' [] [err]), s)
        | Inr project \<Rightarrow> (case getGCPRegions d project s of
            (Inl err, s) \<Rightarrow> (Inl (Errorf ''  fetching GCP regions: %v'' [] [err]), s) | (Inr regions, s) \<Rightarrow> (Inr regions, s)))
      else (Inr [vf_region f], s))"

text \<open>\<^verbatim>\<open>main\<close> after the working directory is there: a fatal message, or the report with the exit code. The two references are fetched in parallel, here one after the other.\<close>

definition validate_main :: "'s validate_deps \<Rightarrow> 's page_deps \<Rightarrow> validate_flags \<Rightarrow> 's \<Rightarrow> (go_error + string list \<times> int) \<times> 's" where
  "validate_main d g f s =
     (case getCyclenerdPrices d (vf_workDir f) (vf_noCache f) (vf_cacheTTL f) s of (cyc, s) \<Rightarrow>
      (case getGCPWebPrices d g (vf_workDir f) (vf_noCache f) (vf_cacheTTL f) s of (web, s) \<Rightarrow>
       (case cyc of Inl err \<Rightarrow> (Inl (Errorf ''  cyclenerd prices: %v'' [] [err]), s)
        | Inr cyclenerdPrices \<Rightarrow> (case web of Inl err \<Rightarrow> (Inl (Errorf ''  gcp web prices: %v'' [] [err]), s)
        | Inr gcpWebPrices \<Rightarrow> (case chosen_regions d f s of (Inl err, s) \<Rightarrow> (Inl err, s)
        | (Inr regions, s) \<Rightarrow> (case fetchInstancePrices d regions s of (Inl err, s) \<Rightarrow> (Inl (Errorf ''  computed prices: %v'' [] [err]), s)
        | (Inr computedPrices, s) \<Rightarrow> if computedPrices = [] then (Inl (Errorf ''  computed prices: no data'' [] []), s)
            else (case writePriceFile d (vf_workDir f @ ''/computed.json'') computedPrices None s of
                (Some err, s) \<Rightarrow> (Inl (Errorf ''  writing %s: %v'' [vf_workDir f @ ''/computed.json''] [err]), s)
              | (None, s) \<Rightarrow> (Inr (printReport
                  (buildResults computedPrices [gcpWebPrices, cyclenerdPrices] [] regions (\<lambda>m. map_get knownExtras m = Some True) (vf_tolerance f))
                  [''gcp_web'', ''cyclenerd''] (length regions) (vf_tolerance f)), s))))))))"

subsection \<open>The search finds the tables\<close>

fun follow :: "json \<Rightarrow> nat list \<Rightarrow> json option" where
  "follow n [] = Some n"
| "follow n (i # path) = (if i < length (asArray n) then follow (asArray n ! i) path else None)"

definition outermost_block :: "json \<Rightarrow> nat list \<Rightarrow> json \<Rightarrow> bool" where
  "outermost_block tree path b \<longleftrightarrow> follow tree path = Some b \<and> isRegionBlock b
     \<and> (\<forall>k < length path. \<forall>n. follow tree (take k path) = Some n \<longrightarrow> \<not> isRegionBlock n)"

lemma outermost_Nil [simp]: "outermost_block tree [] b \<longleftrightarrow> b = tree \<and> isRegionBlock tree"
  by (auto simp: outermost_block_def)

lemma outermost_Cons:
  "outermost_block tree (i # path) b \<longleftrightarrow> \<not> isRegionBlock tree \<and> i < length (asArray tree) \<and> outermost_block (asArray tree ! i) path b"
  unfolding outermost_block_def by (auto simp: less_Suc_eq_0_disj split: if_splits)

lemma isRegionBlock_array: "isRegionBlock n \<Longrightarrow> asArray n \<noteq> []"
  by (auto simp: isRegionBlock_def)

lemma outermost_stop: "outermost_block n path b \<Longrightarrow> asArray n = [] \<or> isRegionBlock n \<Longrightarrow> path = [] \<and> b = n \<and> isRegionBlock n"
  by (cases path) (auto simp: outermost_Cons)

lemma walk_paths:
  "b \<in> set (walkForBlocks n depth) \<longleftrightarrow> (\<exists>path. depth + length path \<le> maxSearchDepth \<and> outermost_block n path b)"
proof (induction n depth rule: walkForBlocks.induct)
  case (1 n depth)
  show ?case
  proof (cases "maxSearchDepth < depth \<or> asArray n = [] \<or> isRegionBlock n")
    case True
    then show ?thesis
      by (subst walkForBlocks.simps) (auto dest: isRegionBlock_array outermost_stop intro: exI [of _ "[]"])
  next
    case False
    with 1 have IH: "b \<in> set (walkForBlocks c (depth + 1)) \<longleftrightarrow> (\<exists>path. depth + 1 + length path \<le> maxSearchDepth \<and> outermost_block c path b)" if "c \<in> set (asArray n)" for c
      using that by simp
    have "b \<in> set (walkForBlocks n depth) \<longleftrightarrow> (\<exists>i < length (asArray n). b \<in> set (walkForBlocks (asArray n ! i) (depth + 1)))"
      using False by (subst walkForBlocks.simps) (auto simp: in_set_conv_nth [of _ "asArray n"] intro!: bexI [OF _ nth_mem])
    also have "\<dots> \<longleftrightarrow> (\<exists>i < length (asArray n). \<exists>path. depth + 1 + length path \<le> maxSearchDepth \<and> outermost_block (asArray n ! i) path b)"
      using IH nth_mem by blast
    also have "\<dots> \<longleftrightarrow> (\<exists>path. depth + length path \<le> maxSearchDepth \<and> outermost_block n path b)" (is "?l \<longleftrightarrow> ?r")
    proof
      assume ?l
      then obtain i path where "i < length (asArray n)" "depth + 1 + length path \<le> maxSearchDepth" "outermost_block (asArray n ! i) path b" by blast
      with False show ?r by (intro exI [of _ "i # path"]) (simp add: outermost_Cons)
    next
      assume ?r
      then obtain path where "depth + length path \<le> maxSearchDepth" "outermost_block n path b" by blast
      with False show ?l by (cases path) (auto simp: outermost_Cons)
    qed
    finally show ?thesis .
  qed
qed

text \<open>The search finds the pricing tables wherever they are: the nodes it returns are exactly those at most 18 levels down that look like a table and are not inside another one.\<close>

theorem walkForBlocks_exact:
  "set (walkForBlocks n 0) = {b. \<exists>path. length path \<le> 18 \<and> outermost_block n path b}"
  by (auto simp: walk_paths maxSearchDepth_def)

subsection \<open>Reading a page back\<close>

text \<open>A table as the pages have it, per the description at the top of \<^verbatim>\<open>gcpweb.go\<close>: the labels of its columns up to that of the price, and a row for each machine type with the
  texts of the cells between the name and the price.\<close>

record price_table =
  pt_city :: string
  pt_code :: string
  pt_before :: "string list"
  pt_header :: string
  pt_after :: "string list"
  pt_rows :: "(string \<times> string list \<times> string) list"

definition cell :: "string \<Rightarrow> json" where
  "cell t = JArray [JNull, JNull, JNull, JArray [JNull, JArray [JNull, JString t]]]"

definition row_json :: "string \<times> string list \<times> string \<Rightarrow> json" where
  "row_json r = (case r of (name, mids, d) \<Rightarrow> JArray [JArray (map cell (name # mids @ [''$'' @ d @ '' / 1 hour'']))])"

definition table_json :: "price_table \<Rightarrow> json" where
  "table_json tb = JArray [JArray [JArray [JArray (map cell (pt_before tb @ [pt_header tb] @ pt_after tb))]], JArray (map row_json (pt_rows tb)),
     JString (pt_city tb @ '' ('' @ pt_code tb @ '')'')]"

definition plain_text :: "string \<Rightarrow> bool" where
  "plain_text t \<longleftrightarrow> CHR ''<'' \<notin> set t \<and> t \<noteq> [] \<and> \<not> is_space (hd t) \<and> \<not> is_space (last t)"

definition region_like :: "string \<Rightarrow> bool" where
  "region_like code \<longleftrightarrow> list_all word_or_dash code \<and> takeWhile is_word code \<noteq> [] \<and> 2 \<le> length (dropWhile is_word code)"

definition page_keywords :: "bool \<Rightarrow> string list" where
  "page_keywords isSpot = (if isSpot then [''spot pricing'', ''spot''] else [''default'', ''price (usd)'', ''on-demand''])"

definition names_price :: "bool \<Rightarrow> string \<Rightarrow> bool" where
  "names_price isSpot h = list_ex (contains_str (to_lower h)) (page_keywords isSpot)"

definition good_row :: "nat \<Rightarrow> string \<times> string list \<times> string \<Rightarrow> bool" where
  "good_row col r = (case r of (name, mids, d) \<Rightarrow> plain_text name \<and> \<not> isNonMachineTypeEntry name \<and> Suc (length mids) = col
     \<and> d \<noteq> [] \<and> list_all digit_or_dot d \<and> (case ParseFloat d of None \<Rightarrow> False | Some v \<Rightarrow> v \<noteq> 0))"

definition good_table :: "bool \<Rightarrow> price_table \<Rightarrow> bool" where
  "good_table isSpot tb \<longleftrightarrow> CHR ''('' \<notin> set (pt_city tb) \<and> region_like (pt_code tb)
     \<and> list_all (\<lambda>h. plain_text h \<and> \<not> names_price isSpot h) (pt_before tb) \<and> plain_text (pt_header tb) \<and> names_price isSpot (pt_header tb)
     \<and> length (pt_before tb) \<in> {2..<10} \<and> pt_rows tb \<noteq> [] \<and> list_all (good_row (length (pt_before tb))) (pt_rows tb)"

definition row_price :: "string \<times> string list \<times> string \<Rightarrow> string \<times> rat" where
  "row_price r = (case r of (name, mids, d) \<Rightarrow> (name, the (ParseFloat d)))"

lemma cellText_cell [simp]: "cellText (cell t) = t"
  by (simp add: cellText_def cell_def node_at_def idxCellContentWrapper_def idxCellInnerWrapper_def idxCellText_def)

lemma strip_no_tag: "CHR ''<'' \<notin> set s \<Longrightarrow> re_replace_all (\<lambda>t. map_option (Pair []) (gcpHTMLTagRe t)) s = s"
proof (induction s)
  case (Cons c s)
  then have "gcpHTMLTagRe (c # s) = None" by (auto simp: gcpHTMLTagRe_def)
  with Cons show ?case by (subst re_replace_all.simps) simp
qed (simp add: gcpHTMLTagRe_def)

lemma stripHTML_plain: "plain_text t \<Longrightarrow> stripHTML t = t"
  by (simp add: stripHTML_def plain_text_def strip_no_tag trim_space_same)

lemma takeWhile_all: "list_all P a \<Longrightarrow> \<not> P c \<Longrightarrow> takeWhile P (a @ c # b) = a"
  by (induction a) auto

lemma dropWhile_all: "list_all P a \<Longrightarrow> \<not> P c \<Longrightarrow> dropWhile P (a @ c # b) = c # b"
  by (induction a) auto

lemma not_word [simp]: "\<not> word_or_dash CHR ''(''" "\<not> word_or_dash CHR '')''" "\<not> is_word CHR ''-''"
  by code_simp+

lemma dropWhile_word: "region_like code \<Longrightarrow> \<exists>v. dropWhile is_word code = CHR ''-'' # v \<and> v \<noteq> []"
proof -
  assume r: "region_like code"
  then obtain d v where dv: "dropWhile is_word code = d # v" "v \<noteq> []"
    by (cases "dropWhile is_word code"; cases "tl (dropWhile is_word code)") (auto simp: region_like_def)
  then have "\<not> is_word d" "d \<in> set (dropWhile is_word code)" using dropWhile_eq_Cons_conv [of is_word code d v] by auto
  then have "\<not> is_word d" "d \<in> set code" using set_dropWhileD [of d is_word code] by blast+
  then have "d = CHR ''-''" using r by (auto simp: region_like_def list_all_iff word_or_dash_def)
  with dv show ?thesis by blast
qed

lemma region_label_block:
  assumes "region_like code"
  shows "gcpRegionBlockRe (city @ '' ('' @ code @ '')'')"
proof -
  have a: "list_all word_or_dash (rev code)" using assms by (simp add: region_like_def list_all_iff)
  have r: "rev (city @ '' ('' @ code @ '')'') = CHR '')'' # rev code @ CHR ''('' # CHR '' '' # rev city" by simp
  obtain v where "dropWhile is_word code = CHR ''-'' # v" "v \<noteq> []" using dropWhile_word [OF assms] by blast
  then show ?thesis
    using assms unfolding gcpRegionBlockRe_def r by (simp add: takeWhile_all [OF a] dropWhile_all [OF a] region_like_def)
qed

lemma region_label_code:
  assumes "CHR ''('' \<notin> set city" "region_like code"
  shows "gcpRegionCodeRe (city @ '' ('' @ code @ '')'') = Some code"
  using assms(1)
proof (induction city)
  case Nil
  have a: "list_all word_or_dash code" using assms(2) by (simp add: region_like_def)
  have "2 \<le> length code \<and> is_word (hd code)"
    using assms(2) length_dropWhile_le [of is_word "tl code"] unfolding region_like_def by (cases code) (auto split: if_splits)
  then have "code_at (CHR ''('' # code @ '')'') = Some code" by (simp add: code_at_def Let_def takeWhile_all [OF a] dropWhile_all [OF a])
  moreover have "code_at (CHR '' '' # r) = None" for r by (simp add: code_at_def Let_def)
  ultimately show ?case by simp
next
  case (Cons c city)
  then have "code_at (c # city @ '' ('' @ code @ '')'') = None" by (auto simp: code_at_def Let_def)
  with Cons show ?case by simp
qed

lemma price_text: "d \<noteq> [] \<Longrightarrow> list_all digit_or_dot d \<Longrightarrow> gcpHourlyPriceRe (''$'' @ d @ '' / 1 hour'') = Some d"
proof -
  assume d: "d \<noteq> []" "list_all digit_or_dot d"
  have n: "\<not> digit_or_dot CHR '' ''" by code_simp
  have "dropWhile html_space '' / 1 hour'' = ''/ 1 hour''" "dropWhile html_space '' 1 hour'' = ''1 hour''" by code_simp+
  then show ?thesis using d takeWhile_all [OF d(2) n] dropWhile_all [OF d(2) n] by (simp add: price_match_def Let_def)
qed

lemma price_column_skip:
  "list_all (\<lambda>h. plain_text h \<and> \<not> list_ex (contains_str (to_lower h)) kws) hs \<Longrightarrow> plain_text h \<Longrightarrow> list_ex (contains_str (to_lower h)) kws
    \<Longrightarrow> price_column kws (map cell (hs @ [h] @ after)) = Some (length hs)"
  by (induction hs) (auto simp: stripHTML_plain)

lemma table_column: "good_table isSpot tb \<Longrightarrow> findPriceColumn (table_json tb) (page_keywords isSpot) = Some (length (pt_before tb))"
  using price_column_skip [of "page_keywords isSpot" "pt_before tb" "pt_header tb" "pt_after tb"]
  by (simp add: good_table_def findPriceColumn_def headerSection_def table_json_def node_at_def idxBlockHeaders_def names_price_def)

lemma no_bold: "plain_text name \<Longrightarrow> \<not> contains_str name ''<b>''"
  by (auto simp: plain_text_def contains_str_iff)

lemma row_read:
  assumes "good_row col r"
  shows "read_row col (row_json r) = Some (row_price r)"
proof -
  obtain name mids d where r: "r = (name, mids, d)" by (cases r)
  then have g: "plain_text name" "\<not> isNonMachineTypeEntry name" "col = Suc (length mids)" "d \<noteq> []" "list_all digit_or_dot d"
    using assms by (auto simp: good_row_def)
  obtain v where v: "ParseFloat d = Some v" "v \<noteq> 0" using assms r by (auto simp: good_row_def split: option.splits)
  let ?e = "JArray (map cell (name # mids @ [''$'' @ d @ '' / 1 hour'']))"
  have e: "node_at (row_json r) 0 = ?e" by (simp add: row_json_def r node_at_def)
  have c: "cellText (node_at ?e 0) = name" "cellText (node_at ?e col) = ''$'' @ d @ '' / 1 hour''" "\<not> length (asArray ?e) \<le> col"
    by (simp_all add: node_at_def g(3) nth_append)
  have "name \<noteq> []" using g(1) by (simp add: plain_text_def)
  then show ?thesis
    unfolding read_row_def e Let_def c price_text [OF g(4,5)] by (simp add: c g no_bold stripHTML_plain v row_price_def r)
qed

lemma row_pricing: "good_row col r \<Longrightarrow> 2 \<le> col \<Longrightarrow> col < 10 \<Longrightarrow> hasPricingRows (row_json r # rows)"
proof -
  assume g: "good_row col r" "2 \<le> col" "col < 10"
  obtain name mids d where r: "r = (name, mids, d)" by (cases r)
  then have m: "col = Suc (length mids)" using g by (simp add: good_row_def)
  let ?e = "JArray (map cell (name # mids @ [''$'' @ d @ '' / 1 hour'']))"
  have e: "node_at (row_json r) 0 = ?e" by (simp add: row_json_def r node_at_def)
  have "contains_str (''$'' @ d @ '' / 1 hour'') ''/ 1 hour''" unfolding contains_str_iff by (intro exI [of _ "''$'' @ d @ '' ''"] exI [of _ "[]"]) simp
  then have "nodeContainsText (cell (''$'' @ d @ '' / 1 hour'')) [''/ 1 hour'', ''/ 1 month'']" by (simp add: cell_def nodeContainsText.simps)
  moreover have "node_at ?e col = cell (''$'' @ d @ '' / 1 hour'')" by (simp add: node_at_def m nth_append)
  moreover have "col \<in> set [2..<min (length (asArray ?e)) 10]" using g m by simp
  ultimately have "list_ex (\<lambda>col. nodeContainsText (node_at ?e col) [''/ 1 hour'', ''/ 1 month'']) [2..<min (length (asArray ?e)) 10]"
    unfolding list_ex_iff by (intro bexI [of _ col]) (simp_all only:)
  then show ?thesis by (simp add: hasPricingRows_def e Let_def del: map_append list.map)
qed

lemma table_is_block: "good_table isSpot tb \<Longrightarrow> isRegionBlock (table_json tb)"
proof -
  assume g: "good_table isSpot tb"
  then obtain r rows where r: "pt_rows tb = r # rows" "good_row (length (pt_before tb)) r" by (cases "pt_rows tb") (auto simp: good_table_def)
  have "gcpRegionBlockRe (regionLabel (table_json tb))"
    using g region_label_block by (simp add: good_table_def regionLabel_def table_json_def node_at_def idxBlockRegionName_def)
  moreover have "hasPricingRows (map row_json (pt_rows tb))" using row_pricing [OF r(2)] g by (simp add: r good_table_def)
  ultimately show ?thesis by (simp add: isRegionBlock_def dataRows_def table_json_def node_at_def idxBlockDataRows_def r)
qed

lemma table_code: "good_table isSpot tb \<Longrightarrow> extractRegionCode (table_json tb) = pt_code tb"
  using region_label_code by (simp add: good_table_def extractRegionCode_def regionLabel_def table_json_def node_at_def idxBlockRegionName_def)

lemma walk_tables:
  assumes "list_all (good_table isSpot) tables"
  shows "walkForBlocks (JArray (map table_json tables)) 0 = map table_json tables"
proof -
  have one: "walkForBlocks (table_json tb) 1 = [table_json tb]" if "tb \<in> set tables" for tb
    using assms that table_is_block [of isSpot tb] isRegionBlock_array by (subst walkForBlocks.simps) (auto simp: list_all_iff maxSearchDepth_def)
  have "asString (node_at (JArray (map table_json tables)) i) = []" for i by (simp add: node_at_def table_json_def)
  then have "\<not> isRegionBlock (JArray (map table_json tables))" by (simp add: isRegionBlock_def regionLabel_def gcpRegionBlockRe_def)
  then show ?thesis using one by (subst walkForBlocks.simps) (auto simp: maxSearchDepth_def comp_def cong: map_cong)
qed

definition page_price :: "bool \<Rightarrow> RegionEntry \<Rightarrow> (string, rat) gomap" where
  "page_price isSpot e = (if isSpot then Spot e else OnDemand e)"

lemma read_rows_map:
  "list_all (good_row col) rows \<Longrightarrow> wf_map (page_price isSpot out) \<Longrightarrow>
    map_of (page_price isSpot (read_rows col isSpot (map row_json rows) out)) = map_of (page_price isSpot out) ++ map_of (rev (map row_price rows))
    \<and> wf_map (page_price isSpot (read_rows col isSpot (map row_json rows) out))"
proof (induction rows arbitrary: out)
  case (Cons r rows)
  obtain name v where r: "row_price r = (name, v)" by (cases "row_price r")
  define out' where "out' = (if isSpot then out\<lparr>Spot := map_set name v (Spot out)\<rparr> else out\<lparr>OnDemand := map_set name v (OnDemand out)\<rparr>)"
  have o: "map_of (page_price isSpot out') = (map_of (page_price isSpot out))(name \<mapsto> v)" "wf_map (page_price isSpot out')"
    using Cons.prems(2) by (auto simp: out'_def page_price_def)
  have "read_rows col isSpot (map row_json (r # rows)) out = read_rows col isSpot (map row_json rows) out'"
    using Cons.prems(1) by (simp add: row_read r out'_def)
  moreover have "(map_of (page_price isSpot out))(name \<mapsto> v) ++ map_of (rev (map row_price rows)) =
      map_of (page_price isSpot out) ++ map_of (rev (map row_price (r # rows)))"
    by (rule ext) (simp add: r map_add_def split: option.split)
  moreover have "list_all (good_row col) rows" using Cons.prems(1) by simp
  ultimately show ?case using Cons.IH [of out'] o(2) unfolding o(1) by (simp only:)
qed simp

lemma table_prices:
  assumes "good_table isSpot tb"
  shows "map_of (page_price isSpot (parseDataRows (table_json tb) (length (pt_before tb)) isSpot)) = map_of (rev (map row_price (pt_rows tb)))"
    "wf_map (page_price isSpot (parseDataRows (table_json tb) (length (pt_before tb)) isSpot))"
  using assms read_rows_map [of "length (pt_before tb)" "pt_rows tb" isSpot "\<lparr>OnDemand = [], Spot = []\<rparr>"]
  by (simp_all add: good_table_def parseDataRows_def dataRows_def table_json_def node_at_def idxBlockDataRows_def page_price_def)

lemma merge_prices:
  assumes "wf_map (page_price isSpot parsed)"
  shows "map_of (page_price isSpot (region_prices (merge_entry region parsed result) r)) =
    (if r = region then map_of (page_price isSpot (region_prices result r)) ++ map_of (page_price isSpot parsed) else map_of (page_price isSpot (region_prices result r)))"
  using assms by (cases isSpot) (simp_all add: merge_entry_def Let_def region_prices_set page_price_def map_of_map_copy)

lemma parse_tables:
  "list_all (good_table isSpot) tables \<Longrightarrow>
    map_of (page_price isSpot (region_prices (parse_blocks (page_keywords isSpot) isSpot (map table_json tables) result) region)) =
    map_of (page_price isSpot (region_prices result region)) ++ map_of (rev (concat (map (\<lambda>tb. map row_price (pt_rows tb)) (filter (\<lambda>tb. pt_code tb = region) tables))))"
proof (induction tables arbitrary: result)
  case (Cons tb tables)
  then have g: "good_table isSpot tb" "list_all (good_table isSpot) tables" by simp_all
  then have "pt_code tb \<noteq> []" by (auto simp: good_table_def region_like_def)
  then have "parse_blocks (page_keywords isSpot) isSpot (map table_json (tb # tables)) result =
    parse_blocks (page_keywords isSpot) isSpot (map table_json tables)
      (merge_entry (pt_code tb) (parseDataRows (table_json tb) (length (pt_before tb)) isSpot) result)"
    by (simp add: table_code [OF g(1)] table_column [OF g(1)] Let_def)
  with Cons.IH [OF g(2)] show ?case
    by (simp add: merge_prices [OF table_prices(2) [OF g(1)]] table_prices(1) [OF g(1)])
qed simp

text \<open>A pricing page is read back as the prices it shows. From a page of tables as the source describes them, for any regions, column labels and machine types, the price
  of a machine type in a region is that of the last row that names it in a table of that region, and there is none if no row does.\<close>

theorem page_read_back:
  assumes "list_all (good_table isSpot) tables"
  shows "map_of (page_price isSpot (region_prices (parsePricingTables (walkForBlocks (JArray (map table_json tables)) 0) isSpot) region)) machine =
    map_of (rev (concat (map (\<lambda>tb. map row_price (pt_rows tb)) (filter (\<lambda>tb. pt_code tb = region) tables)))) machine"
  using parse_tables [OF assms, of "[]" region]
  by (simp add: walk_tables [OF assms] parsePricingTables_def page_keywords_def [symmetric] page_price_def region_prices_def map_add_def
      split: option.splits)

definition example_table :: price_table where
  "example_table = \<lparr>pt_city = ''Iowa'', pt_code = ''us-central1'', pt_before = [''Machine type'', ''vCPUs''], pt_header = ''Default* (USD)'', pt_after = [''1 year''],
     pt_rows = [(''n2-standard-2'', [''2''], ''0.5''), (''n2-standard-4'', [''4''], ''1.25'')]\<rparr>"

theorem page_read_back_witness:
  "map_of (OnDemand (region_prices (parsePricingTables (walkForBlocks (JArray (map table_json [example_table])) 0) False) ''us-central1'')) ''n2-standard-4'' = Some (5 / 4)"
proof -
  have g: "list_all (good_table False) [example_table]" by code_simp
  have "map_of (rev (concat (map (\<lambda>tb. map row_price (pt_rows tb)) (filter (\<lambda>tb. pt_code tb = ''us-central1'') [example_table])))) ''n2-standard-4'' = Some (5 / 4)" by code_simp
  with page_read_back [OF g, of "''us-central1''" "''n2-standard-4''"] show ?thesis by (simp add: page_price_def)
qed

end
