(* ===== verification/E2e_Lease.thy ===== *)
theory E2e_Lease
  imports Go_Errors
begin

text \<open>
  The lock of the end-to-end tests, \<^verbatim>\<open>hack/e2e-runner/lock.go\<close>: one Kubernetes Lease that a runner acquires, renews every minute and releases. Each
  operation reads the lease and then writes it back; what it decides in between is \<open>acquired\<close>, \<open>renewed\<close> and \<open>released\<close>, which the operations compose with the
  client calls and which the step relation of the last section interleaves with other runners.
\<close>

record lease =
  le_Name :: string
  le_ResourceVersion :: string
  le_Annotations :: labels
  le_HolderIdentity :: "string option"
  le_LeaseDurationSeconds :: "int option"
  le_AcquireTime :: "instant option"
  le_RenewTime :: "instant option"

definition leaseName :: string where [go_defs]: "leaseName = ''karpenter-e2e-tests''"
definition leaseTokenKey :: string where [go_defs]: "leaseTokenKey = ''karpenter.k8s.gcp/runner-token''"
definition leaseDuration :: int where [go_defs]: "leaseDuration = 600"
definition renewInterval :: duration where [go_defs]: "renewInterval = 60 * 10 ^ 9"

record e2eLease =
  el_holder :: string
  el_token :: string

record 's leaseClient =
  lc_Get :: "'s \<Rightarrow> (go_error + lease) \<times> 's"
  lc_Create :: "lease \<Rightarrow> 's \<Rightarrow> go_error option \<times> 's"
  lc_Update :: "lease \<Rightarrow> 's \<Rightarrow> go_error option \<times> 's"
  lc_now :: "'s \<Rightarrow> instant \<times> 's" \<comment> \<open>\<^verbatim>\<open>time.Now\<close>\<close>
  lc_nonce :: "'s \<Rightarrow> (go_error + string) \<times> 's" \<comment> \<open>sixteen random bytes, printed in hexadecimal\<close>

definition activeLease :: "lease \<Rightarrow> instant \<Rightarrow> bool" where
  "activeLease l now = (case le_HolderIdentity l of None \<Rightarrow> False
     | Some h \<Rightarrow> if h = [] then False
         else (case le_LeaseDurationSeconds l of None \<Rightarrow> True
           | Some n \<Rightarrow> if n \<le> 0 then True
               else (case (case le_RenewTime l of None \<Rightarrow> le_AcquireTime l | Some t \<Rightarrow> Some t) of
                   None \<Rightarrow> True | Some t \<Rightarrow> now < t + n * 10 ^ 9)))"

definition owned :: "e2eLease \<Rightarrow> lease \<Rightarrow> bool" where
  "owned lock l \<longleftrightarrow> le_HolderIdentity l = Some (el_holder lock) \<and> map_str (le_Annotations l) leaseTokenKey = el_token lock"

text \<open>What \<^verbatim>\<open>acquireLease\<close> writes after it has read \<open>current\<close>, found it free at \<open>t1\<close> and read the clock again at \<open>t2\<close>.\<close>

definition acquired :: "e2eLease \<Rightarrow> lease \<Rightarrow> instant \<Rightarrow> lease" where
  "acquired lock current t2 = current\<lparr>le_HolderIdentity := Some (el_holder lock), le_LeaseDurationSeconds := Some leaseDuration,
     le_AcquireTime := Some t2, le_RenewTime := Some t2, le_Annotations := map_set leaseTokenKey (el_token lock) (le_Annotations current)\<rparr>"

definition renewed :: "lease \<Rightarrow> instant \<Rightarrow> lease" where
  "renewed l now = l\<lparr>le_RenewTime := Some now\<rparr>"

definition released :: "lease \<Rightarrow> lease" where
  "released l = l\<lparr>le_HolderIdentity := None, le_RenewTime := None, le_Annotations := map_del leaseTokenKey (le_Annotations l)\<rparr>"

definition new_lease :: lease where
  "new_lease = \<lparr>le_Name = leaseName, le_ResourceVersion = [], le_Annotations = [], le_HolderIdentity = None, le_LeaseDurationSeconds = None,
     le_AcquireTime = None, le_RenewTime = None\<rparr>"

definition write_lease :: "'s leaseClient \<Rightarrow> lease \<Rightarrow> 's \<Rightarrow> go_error option \<times> 's" where
  "write_lease c l s = (if le_ResourceVersion l = [] then lc_Create c l s else lc_Update c l s)"

definition acquireLease :: "'s leaseClient \<Rightarrow> string \<Rightarrow> 's \<Rightarrow> (go_error + e2eLease) \<times> 's" where
  "acquireLease c holder s = (if holder = [] then (Inl (Errorf ''lock ID must not be empty'' [] []), s)
     else (case lc_nonce c s of (Inl err, s) \<Rightarrow> (Inl err, s)
       | (Inr token, s) \<Rightarrow> (let lock = \<lparr>el_holder = holder, el_token = token\<rparr> in
           case lc_Get c s of (got, s) \<Rightarrow>
           (case (case got of Inr l \<Rightarrow> (case lc_now c s of (t1, s) \<Rightarrow>
                    if activeLease l t1 then (Inl (Errorf ''e2e tests locked by %q'' [the (le_HolderIdentity l)] []), s) else (Inr l, s))
                | Inl err \<Rightarrow> if status_is ''NotFound'' err then (Inr new_lease, s) else (Inl err, s)) of
               (Inl err, s) \<Rightarrow> (Inl err, s)
             | (Inr current, s) \<Rightarrow> (case lc_now c s of (t2, s) \<Rightarrow>
                 (case write_lease c (acquired lock current t2) s of
                     (Some err, s) \<Rightarrow> (Inl (Errorf ''acquiring e2e lease: %w'' [] [err]), s)
                   | (None, s) \<Rightarrow> (Inr lock, s)))))))"

definition renew :: "'s leaseClient \<Rightarrow> e2eLease \<Rightarrow> 's \<Rightarrow> go_error option \<times> 's" where
  "renew c lock s = (case lc_Get c s of (Inl err, s) \<Rightarrow> (Some err, s)
     | (Inr l, s) \<Rightarrow> if \<not> owned lock l then (Some (Errorf ''e2e lease ownership lost'' [] []), s)
         else (case lc_now c s of (now, s) \<Rightarrow> lc_Update c (renewed l now) s))"

definition release :: "'s leaseClient \<Rightarrow> e2eLease \<Rightarrow> 's \<Rightarrow> go_error option \<times> 's" where
  "release c lock s = (case lc_Get c s of (Inl err, s) \<Rightarrow> (Some err, s)
     | (Inr l, s) \<Rightarrow> if \<not> owned lock l then (Some (Errorf ''e2e lease ownership lost'' [] []), s)
         else lc_Update c (released l) s)"

text \<open>The renewals of \<^verbatim>\<open>maintain\<close> for so many ticks; a failing one cancels the run with its error as the cause and is the last.\<close>

fun maintain :: "'s leaseClient \<Rightarrow> e2eLease \<Rightarrow> nat \<Rightarrow> 's \<Rightarrow> go_error option \<times> 's" where
  "maintain c lock 0 s = (None, s)"
| "maintain c lock (Suc n) s = (case renew c lock s of
      (Some err, s) \<Rightarrow> (Some (Errorf ''renewing e2e lease: %w'' [] [err]), s)
    | (None, s) \<Rightarrow> maintain c lock n s)"

definition join_errors :: "go_error option list \<Rightarrow> go_error option" where
  "join_errors es = (case List.map_filter (\<lambda>e. e) es of [] \<Rightarrow> None | es' \<Rightarrow> Some (JoinError es'))"

text \<open>\<open>ticks\<close> is the number of ticks that pass while \<open>run\<close> is going on, and \<open>run\<close> is given the cause it was cancelled with, if any.\<close>

definition withLease :: "'s leaseClient \<Rightarrow> string \<Rightarrow> nat \<Rightarrow> (go_error option \<Rightarrow> 's \<Rightarrow> go_error option \<times> 's) \<Rightarrow> 's \<Rightarrow> go_error option \<times> 's" where
  "withLease c holder ticks run s = (case acquireLease c holder s of
      (Inl err, s) \<Rightarrow> (Some err, s)
    | (Inr lock, s) \<Rightarrow> (case maintain c lock ticks s of (cause, s) \<Rightarrow>
        (case run cause s of (result, s) \<Rightarrow>
          (case release c lock s of (relErr, s) \<Rightarrow>
            (join_errors [if cause = None then result else join_errors [result, cause], relErr], s)))))"

subsection \<open>Runners and the API server\<close>

text \<open>The API server keeps one lease. A write names the version that was read; it succeeds if that is still the version stored, and a creation if there is none. Times
  are stored in microseconds.\<close>

record lease_server =
  sv_lease :: "lease option"
  sv_version :: nat

definition micro :: "instant option \<Rightarrow> instant option" where
  "micro t = map_option (\<lambda>x. x - x mod 1000) t"

definition accepts :: "lease_server \<Rightarrow> lease \<Rightarrow> bool" where
  "accepts sv l = (case sv_lease sv of None \<Rightarrow> le_ResourceVersion l = [] | Some cur \<Rightarrow> le_ResourceVersion l = le_ResourceVersion cur)"

definition stored :: "lease_server \<Rightarrow> lease \<Rightarrow> lease_server" where
  "stored sv l = \<lparr>sv_lease = Some (l\<lparr>le_ResourceVersion := utoa (Suc (sv_version sv)), le_AcquireTime := micro (le_AcquireTime l), le_RenewTime := micro (le_RenewTime l)\<rparr>),
     sv_version = Suc (sv_version sv)\<rparr>"

text \<open>A runner: its lock, the time of its last confirmed renewal while it holds the lease, and what it is about to write. The times are those the server stores.\<close>

datatype job = Idle | Read_for_acquire "lease option" instant | Read_for_renewal lease | Acquire_write lease | Renewal_write lease | Read_for_release lease | Release_write lease

record runner =
  ru_lock :: "e2eLease option"
  ru_held :: "instant option"
  ru_job :: job

record system =
  sy_server :: lease_server
  sy_now :: instant
  sy_runner :: "nat \<Rightarrow> runner"
  sy_tokens :: "string set" \<comment> \<open>history: the tokens drawn so far\<close>

definition with_runner :: "nat \<Rightarrow> runner \<Rightarrow> system \<Rightarrow> system" where
  "with_runner i r y = y\<lparr>sy_runner := (sy_runner y)(i := r)\<rparr>"

inductive runner_step :: "nat \<Rightarrow> system \<Rightarrow> system \<Rightarrow> bool" for i where
  acquire_read: "ru_job (sy_runner y i) = Idle \<Longrightarrow> ru_held (sy_runner y i) = None \<Longrightarrow> holder \<noteq> [] \<Longrightarrow> token \<notin> sy_tokens y \<Longrightarrow> token \<noteq> [] \<Longrightarrow>
    runner_step i y (with_runner i \<lparr>ru_lock = Some \<lparr>el_holder = holder, el_token = token\<rparr>, ru_held = None,
      ru_job = Read_for_acquire (sv_lease (sy_server y)) (sy_now y)\<rparr> (y\<lparr>sy_tokens := insert token (sy_tokens y)\<rparr>))"
| acquire_busy: "ru_job (sy_runner y i) = Read_for_acquire (Some l) t0 \<Longrightarrow> t0 \<le> t1 \<Longrightarrow> t1 \<le> sy_now y \<Longrightarrow> activeLease l t1 \<Longrightarrow>
    runner_step i y (with_runner i ((sy_runner y i)\<lparr>ru_job := Idle\<rparr>) y)"
| acquire_decide: "ru_job (sy_runner y i) = Read_for_acquire got t0 \<Longrightarrow> t0 \<le> t1 \<Longrightarrow> t1 \<le> t2 \<Longrightarrow> t2 \<le> sy_now y \<Longrightarrow>
    (case got of None \<Rightarrow> current = new_lease | Some l \<Rightarrow> \<not> activeLease l t1 \<and> current = l) \<Longrightarrow> ru_lock (sy_runner y i) = Some lock \<Longrightarrow>
    runner_step i y (with_runner i ((sy_runner y i)\<lparr>ru_job := Acquire_write (acquired lock current t2)\<rparr>) y)"
| acquire_done: "ru_job (sy_runner y i) = Acquire_write l \<Longrightarrow> accepts (sy_server y) l \<Longrightarrow>
    runner_step i y (with_runner i ((sy_runner y i)\<lparr>ru_job := Idle, ru_held := micro (le_RenewTime l)\<rparr>) (y\<lparr>sy_server := stored (sy_server y) l\<rparr>))"
| renewal_read: "ru_job (sy_runner y i) = Idle \<Longrightarrow> ru_held (sy_runner y i) \<noteq> None \<Longrightarrow> sv_lease (sy_server y) = Some l \<Longrightarrow> ru_lock (sy_runner y i) = Some lock \<Longrightarrow> owned lock l \<Longrightarrow>
    runner_step i y (with_runner i ((sy_runner y i)\<lparr>ru_job := Read_for_renewal l\<rparr>) y)"
| renewal_decide: "ru_job (sy_runner y i) = Read_for_renewal l \<Longrightarrow>
    runner_step i y (with_runner i ((sy_runner y i)\<lparr>ru_job := Renewal_write (renewed l (sy_now y))\<rparr>) y)"
| renewal_done: "ru_job (sy_runner y i) = Renewal_write l \<Longrightarrow> accepts (sy_server y) l \<Longrightarrow>
    runner_step i y (with_runner i ((sy_runner y i)\<lparr>ru_job := Idle, ru_held := micro (le_RenewTime l)\<rparr>) (y\<lparr>sy_server := stored (sy_server y) l\<rparr>))"
| release_read: "ru_job (sy_runner y i) = Idle \<Longrightarrow> sv_lease (sy_server y) = Some l \<Longrightarrow> ru_lock (sy_runner y i) = Some lock \<Longrightarrow> owned lock l \<Longrightarrow>
    runner_step i y (with_runner i ((sy_runner y i)\<lparr>ru_job := Read_for_release l, ru_held := None\<rparr>) y)"
| release_decide: "ru_job (sy_runner y i) = Read_for_release l \<Longrightarrow> runner_step i y (with_runner i ((sy_runner y i)\<lparr>ru_job := Release_write (released l)\<rparr>) y)"
| release_done: "ru_job (sy_runner y i) = Release_write l \<Longrightarrow> accepts (sy_server y) l \<Longrightarrow>
    runner_step i y (with_runner i ((sy_runner y i)\<lparr>ru_job := Idle, ru_held := None\<rparr>) (y\<lparr>sy_server := stored (sy_server y) l\<rparr>))"
| give_up: "runner_step i y (with_runner i ((sy_runner y i)\<lparr>ru_job := Idle, ru_held := None\<rparr>) y)"
| answer_lost: "ru_job (sy_runner y i) \<in> {Acquire_write l, Renewal_write l, Release_write l} \<Longrightarrow> accepts (sy_server y) l \<Longrightarrow>
    runner_step i y (with_runner i ((sy_runner y i)\<lparr>ru_job := Idle, ru_held := None\<rparr>) (y\<lparr>sy_server := stored (sy_server y) l\<rparr>))"

inductive lease_reachable :: "system \<Rightarrow> bool" where
  start: "lease_reachable \<lparr>sy_server = \<lparr>sv_lease = None, sv_version = 0\<rparr>, sy_now = 0, sy_runner = (\<lambda>_. \<lparr>ru_lock = None, ru_held = None, ru_job = Idle\<rparr>), sy_tokens = {}\<rparr>"
| step: "lease_reachable y \<Longrightarrow> runner_step i y y' \<Longrightarrow> lease_reachable y'"
| tick: "lease_reachable y \<Longrightarrow> 0 \<le> t \<Longrightarrow> lease_reachable (y\<lparr>sy_now := sy_now y + t\<rparr>)"


subsection \<open>Mutual exclusion\<close>

definition lease_span :: duration where "lease_span = 600 * 10 ^ 9"

text \<open>A copy of the lease that a runner has read is of some version so far, and of the current one only if it is what is stored.\<close>

definition copy_ok :: "lease_server \<Rightarrow> lease \<Rightarrow> bool" where
  "copy_ok sv c \<longleftrightarrow> (\<exists>k \<le> sv_version sv. le_ResourceVersion c = utoa k) \<and> (le_ResourceVersion c = utoa (sv_version sv) \<longrightarrow> sv_lease sv = Some c)"

definition free_at :: "lease_server \<Rightarrow> instant \<Rightarrow> lease \<Rightarrow> bool" where
  "free_at sv now c \<longleftrightarrow> c = new_lease \<or> copy_ok sv c \<and> (\<exists>t \<le> now. \<not> activeLease c t)"

fun job_ok :: "lease_server \<Rightarrow> instant \<Rightarrow> e2eLease option \<Rightarrow> job \<Rightarrow> bool" where
  "job_ok sv now lock Idle \<longleftrightarrow> True"
| "job_ok sv now lock (Read_for_acquire got t0) \<longleftrightarrow> (case got of None \<Rightarrow> True | Some c \<Rightarrow> copy_ok sv c)"
| "job_ok sv now lock (Acquire_write l) \<longleftrightarrow> (\<exists>k c t. lock = Some k \<and> l = acquired k c t \<and> free_at sv now c)"
| "job_ok sv now lock (Read_for_renewal c) \<longleftrightarrow> (\<exists>k. lock = Some k \<and> copy_ok sv c \<and> owned k c)"
| "job_ok sv now lock (Renewal_write l) \<longleftrightarrow> (\<exists>k c t. lock = Some k \<and> l = renewed c t \<and> copy_ok sv c \<and> owned k c)"
| "job_ok sv now lock (Read_for_release c) \<longleftrightarrow> (\<exists>k. lock = Some k \<and> copy_ok sv c \<and> owned k c)"
| "job_ok sv now lock (Release_write l) \<longleftrightarrow> (\<exists>k c. lock = Some k \<and> l = released c \<and> copy_ok sv c \<and> owned k c)"

text \<open>A runner that holds the lease is named in the stored one with the time of its renewal, or its time is over.\<close>

definition held_ok :: "lease_server \<Rightarrow> instant \<Rightarrow> runner \<Rightarrow> bool" where
  "held_ok sv now r \<longleftrightarrow> (\<forall>t. ru_held r = Some t \<longrightarrow> t + lease_span \<le> now
     \<or> (\<exists>k l. ru_lock r = Some k \<and> sv_lease sv = Some l \<and> owned k l \<and> le_RenewTime l = Some t))"

definition lease_store_ok :: "lease_server \<Rightarrow> bool" where
  "lease_store_ok sv \<longleftrightarrow> (\<forall>l. sv_lease sv = Some l \<longrightarrow> le_ResourceVersion l = utoa (sv_version sv) \<and>
     (\<forall>h. le_HolderIdentity l = Some h \<longrightarrow> h \<noteq> [] \<and> le_LeaseDurationSeconds l = Some leaseDuration \<and> le_RenewTime l \<noteq> None))"

definition runner_ok :: "lease_server \<Rightarrow> instant \<Rightarrow> runner \<Rightarrow> bool" where
  "runner_ok sv now r \<longleftrightarrow> job_ok sv now (ru_lock r) (ru_job r) \<and> held_ok sv now r \<and> (\<forall>k. ru_lock r = Some k \<longrightarrow> el_holder k \<noteq> [])"

definition tokens_ok :: "system \<Rightarrow> bool" where
  "tokens_ok y \<longleftrightarrow> (\<forall>i k. ru_lock (sy_runner y i) = Some k \<longrightarrow> el_token k \<in> sy_tokens y)
     \<and> (\<forall>i j k k'. ru_lock (sy_runner y i) = Some k \<longrightarrow> ru_lock (sy_runner y j) = Some k' \<longrightarrow> el_token k = el_token k' \<longrightarrow> i = j)"

definition lease_inv :: "system \<Rightarrow> bool" where
  "lease_inv y \<longleftrightarrow> lease_store_ok (sy_server y) \<and> tokens_ok y \<and> (\<forall>i. runner_ok (sy_server y) (sy_now y) (sy_runner y i))"

lemma with_runner_sel [simp]:
  "sy_server (with_runner i r y) = sy_server y" "sy_now (with_runner i r y) = sy_now y" "sy_tokens (with_runner i r y) = sy_tokens y"
  "sy_runner (with_runner i r y) j = (if j = i then r else sy_runner y j)"
  by (simp_all add: with_runner_def)

lemma stored_sel [simp]:
  "sv_version (stored sv l) = Suc (sv_version sv)"
  "sv_lease (stored sv l) = Some (l\<lparr>le_ResourceVersion := utoa (Suc (sv_version sv)), le_AcquireTime := micro (le_AcquireTime l), le_RenewTime := micro (le_RenewTime l)\<rparr>)"
  by (simp_all add: stored_def)

lemma write_sel [simp]:
  "le_ResourceVersion (acquired k c t) = le_ResourceVersion c" "le_HolderIdentity (acquired k c t) = Some (el_holder k)" "le_RenewTime (acquired k c t) = Some t"
  "le_LeaseDurationSeconds (acquired k c t) = Some leaseDuration" "map_str (le_Annotations (acquired k c t)) leaseTokenKey = el_token k"
  "le_ResourceVersion (renewed c t) = le_ResourceVersion c" "le_HolderIdentity (renewed c t) = le_HolderIdentity c" "le_RenewTime (renewed c t) = Some t"
  "le_LeaseDurationSeconds (renewed c t) = le_LeaseDurationSeconds c" "le_Annotations (renewed c t) = le_Annotations c"
  "le_ResourceVersion (released c) = le_ResourceVersion c" "le_HolderIdentity (released c) = None" "le_ResourceVersion new_lease = []"
  by (simp_all add: acquired_def renewed_def released_def new_lease_def)

lemma copy_ok_stored: "copy_ok sv c \<Longrightarrow> copy_ok (stored sv l) c"
proof -
  assume "copy_ok sv c"
  then obtain k where k: "k \<le> sv_version sv" "le_ResourceVersion c = utoa k" by (auto simp: copy_ok_def)
  then have "le_ResourceVersion c \<noteq> utoa (Suc (sv_version sv))" using utoa_inj [of k "Suc (sv_version sv)"] by auto
  with k show ?thesis by (auto simp: copy_ok_def intro: le_SucI)
qed

lemma copy_current: "lease_store_ok sv \<Longrightarrow> copy_ok sv c \<Longrightarrow> le_ResourceVersion w = le_ResourceVersion c \<Longrightarrow> accepts sv w \<Longrightarrow> sv_lease sv = Some c"
  using utoa_not_Nil [THEN not_sym] by (auto simp: lease_store_ok_def copy_ok_def accepts_def split: option.splits)

lemma copy_of_store: "lease_store_ok sv \<Longrightarrow> sv_lease sv = Some c \<Longrightarrow> copy_ok sv c"
  by (auto simp: lease_store_ok_def copy_ok_def)

lemma free_at_stored: "free_at sv now c \<Longrightarrow> free_at (stored sv l) now c"
  by (auto simp: free_at_def intro: copy_ok_stored)

lemma free_at_later: "free_at sv now c \<Longrightarrow> now \<le> now' \<Longrightarrow> free_at sv now' c"
  by (auto simp: free_at_def intro: order_trans)

lemma job_ok_stored: "job_ok sv now k j \<Longrightarrow> job_ok (stored sv l) now k j"
  by (cases j) (auto intro: copy_ok_stored free_at_stored split: option.splits)

lemma job_ok_later: "job_ok sv now k j \<Longrightarrow> now \<le> now' \<Longrightarrow> job_ok sv now' k j"
  by (cases j) (auto split: option.splits, blast intro: free_at_later)

lemma held_ok_later: "held_ok sv now r \<Longrightarrow> now \<le> now' \<Longrightarrow> held_ok sv now' r"
  by (fastforce simp: held_ok_def)

text \<open>A stored lease stays active until its time is over.\<close>

lemma active_span:
  assumes "lease_store_ok sv" "sv_lease sv = Some l" "le_HolderIdentity l = Some h" "le_RenewTime l = Some t"
  shows "activeLease l now \<longleftrightarrow> now < t + lease_span"
  using assms by (auto simp: lease_store_ok_def activeLease_def lease_span_def leaseDuration_def)

lemma runner_ok_stored:
  assumes "lease_store_ok sv" "runner_ok sv now r"
    and "\<And>k c. ru_lock r = Some k \<Longrightarrow> sv_lease sv = Some c \<Longrightarrow> owned k c \<Longrightarrow> \<not> activeLease c now"
  shows "runner_ok (stored sv l) now r"
proof -
  have "t + lease_span \<le> now" if h: "ru_held r = Some t" for t
  proof (cases "t + lease_span \<le> now")
    case False
    then obtain k c where k: "ru_lock r = Some k" "sv_lease sv = Some c" "owned k c" "le_RenewTime c = Some t"
      using assms(2) h unfolding runner_ok_def held_ok_def by blast
    then have "\<not> activeLease c now" using assms(3) by blast
    moreover have "le_HolderIdentity c = Some (el_holder k)" using k(3) by (simp add: owned_def)
    ultimately show ?thesis using active_span [OF assms(1) k(2) _ k(4)] by auto
  qed simp
  then show ?thesis using assms(2) by (auto simp: runner_ok_def held_ok_def intro: job_ok_stored)
qed

lemma owned_tokens: "owned k l \<Longrightarrow> owned k' l \<Longrightarrow> el_token k = el_token k'"
  by (simp add: owned_def)

lemma owned_stored [simp]:
  "owned k (l\<lparr>le_ResourceVersion := v, le_AcquireTime := a, le_RenewTime := b\<rparr>) = owned k l"
  by (simp add: owned_def)

text \<open>What a write replaces: a lease that was free at some earlier moment, or one of the writer's own.\<close>

lemma write_replaces:
  assumes "lease_store_ok sv" "runner_ok sv now r" "ru_job r \<in> {Acquire_write l, Renewal_write l, Release_write l}" "accepts sv l" "sv_lease sv = Some c"
  shows "\<exists>k. ru_lock r = Some k \<and> (owned k c \<or> (\<exists>t \<le> now. \<not> activeLease c t))"
proof -
  have new: "le_ResourceVersion c \<noteq> []" using assms(1,5) by (auto simp: lease_store_ok_def)
  have cur: "c' = c" if "copy_ok sv c'" "le_ResourceVersion l = le_ResourceVersion c'" for c'
    using copy_current [OF assms(1) that assms(4)] assms(5) by simp
  from assms(3) consider "ru_job r = Acquire_write l" | "ru_job r = Renewal_write l" | "ru_job r = Release_write l" by auto
  then show ?thesis
  proof cases
    case 1
    then obtain k c' t where "ru_lock r = Some k" "l = acquired k c' t" "free_at sv now c'" using assms(2) by (auto simp: runner_ok_def)
    moreover from this have "c' \<noteq> new_lease" using assms(4,5) new by (auto simp: accepts_def)
    ultimately show ?thesis using cur [of c'] by (auto simp: free_at_def)
  next
    case 2
    then show ?thesis using assms(2) cur by (auto simp: runner_ok_def)
  next
    case 3
    then show ?thesis using assms(2) cur by (auto simp: runner_ok_def)
  qed
qed

lemma later_inactive: "lease_store_ok sv \<Longrightarrow> sv_lease sv = Some c \<Longrightarrow> \<not> activeLease c t \<Longrightarrow> t \<le> now \<Longrightarrow> \<not> activeLease c now"
  by (auto simp: activeLease_def split: option.splits if_splits)

lemma stored_store_ok:
  assumes "lease_store_ok sv" "runner_ok sv now r" "ru_job r \<in> {Acquire_write l, Renewal_write l, Release_write l}" "accepts sv l"
  shows "lease_store_ok (stored sv l)"
proof -
  from assms(3) consider "ru_job r = Acquire_write l" | "ru_job r = Renewal_write l" | "ru_job r = Release_write l" by auto
  then show ?thesis
  proof cases
    case 1
    then show ?thesis using assms(2) by (auto simp: lease_store_ok_def runner_ok_def micro_def)
  next
    case 2
    then obtain k c t where w: "l = renewed c t" "copy_ok sv c" using assms(2) by (auto simp: runner_ok_def)
    with copy_current [OF assms(1) w(2) _ assms(4)] have "sv_lease sv = Some c" by simp
    with w(1) assms(1) show ?thesis by (auto simp: lease_store_ok_def micro_def)
  next
    case 3
    then show ?thesis using assms(2) by (auto simp: lease_store_ok_def runner_ok_def)
  qed
qed

lemma tokens_ok_cong: "tokens_ok y \<Longrightarrow> (\<And>j. ru_lock (sy_runner y' j) = ru_lock (sy_runner y j)) \<Longrightarrow> sy_tokens y' = sy_tokens y \<Longrightarrow> tokens_ok y'"
  unfolding tokens_ok_def by simp

text \<open>An accepted write keeps the invariant, whether or not the writer learns of it.\<close>

lemma write_inv:
  assumes "lease_inv y" "ru_job (sy_runner y i) \<in> {Acquire_write l, Renewal_write l, Release_write l}" "accepts (sy_server y) l"
    and "h = None \<or> h = micro (le_RenewTime l) \<and> ru_job (sy_runner y i) \<noteq> Release_write l"
  shows "lease_inv (with_runner i ((sy_runner y i)\<lparr>ru_job := Idle, ru_held := h\<rparr>) (y\<lparr>sy_server := stored (sy_server y) l\<rparr>))"
proof -
  let ?sv = "sy_server y" and ?r = "sy_runner y i"
  have s: "lease_store_ok ?sv" and tk: "tokens_ok y" and r: "\<And>j. runner_ok ?sv (sy_now y) (sy_runner y j)" using assms(1) by (auto simp: lease_inv_def)
  have others: "runner_ok (stored ?sv l) (sy_now y) (sy_runner y j)" if "j \<noteq> i" for j
  proof (rule runner_ok_stored [OF s r])
    fix k c assume k: "ru_lock (sy_runner y j) = Some k" "sv_lease ?sv = Some c" "owned k c"
    obtain k' where k': "ru_lock ?r = Some k'" "owned k' c \<or> (\<exists>t \<le> sy_now y. \<not> activeLease c t)"
      using write_replaces [OF s r assms(2,3) k(2)] by blast
    have "\<not> owned k' c" using tk k(1,3) k'(1) that owned_tokens unfolding tokens_ok_def by blast
    with k'(2) show "\<not> activeLease c (sy_now y)" using later_inactive [OF s k(2)] by blast
  qed
  have own: "\<exists>k. ru_lock ?r = Some k \<and> owned k l" if "ru_job ?r \<noteq> Release_write l"
    using assms(2) that r [of i] by (auto simp: runner_ok_def owned_def)
  have "runner_ok (stored ?sv l) (sy_now y) (?r\<lparr>ru_job := Idle, ru_held := h\<rparr>)"
    using r [of i] own assms(4) by (auto simp: runner_ok_def held_ok_def)
  moreover have "tokens_ok (with_runner i (?r\<lparr>ru_job := Idle, ru_held := h\<rparr>) (y\<lparr>sy_server := stored ?sv l\<rparr>))"
    by (rule tokens_ok_cong [OF tk]) simp_all
  ultimately show ?thesis using others stored_store_ok [OF s r assms(2,3)] by (simp add: lease_inv_def)
qed

lemma quiet_inv:
  assumes "lease_inv y" "ru_lock r = ru_lock (sy_runner y i)" "job_ok (sy_server y) (sy_now y) (ru_lock r) (ru_job r)"
    and "ru_held r = None \<or> ru_held r = ru_held (sy_runner y i)"
  shows "lease_inv (with_runner i r y)"
proof -
  have "runner_ok (sy_server y) (sy_now y) (sy_runner y i)" using assms(1) by (simp add: lease_inv_def)
  then have "runner_ok (sy_server y) (sy_now y) r" using assms(2-4) unfolding runner_ok_def held_ok_def by auto
  moreover have "tokens_ok y" using assms(1) by (simp add: lease_inv_def)
  then have "tokens_ok (with_runner i r y)" by (rule tokens_ok_cong) (simp_all add: assms(2))
  ultimately show ?thesis using assms(1) by (simp add: lease_inv_def)
qed

lemma acquire_inv:
  assumes "lease_inv y" "holder \<noteq> []" "token \<notin> sy_tokens y"
  shows "lease_inv (with_runner i \<lparr>ru_lock = Some \<lparr>el_holder = holder, el_token = token\<rparr>, ru_held = None,
      ru_job = Read_for_acquire (sv_lease (sy_server y)) (sy_now y)\<rparr> (y\<lparr>sy_tokens := insert token (sy_tokens y)\<rparr>))" (is "lease_inv (with_runner i ?r ?y)")
proof -
  have s: "lease_store_ok (sy_server y)" and tk: "tokens_ok y" using assms(1) by (auto simp: lease_inv_def)
  have "runner_ok (sy_server y) (sy_now y) ?r"
    using assms(2) copy_of_store [OF s] by (auto simp: runner_ok_def held_ok_def split: option.splits)
  moreover have "tokens_ok (with_runner i ?r ?y)" using tk assms(3) unfolding tokens_ok_def by (auto split: if_splits)
  ultimately show ?thesis using assms(1) by (simp add: lease_inv_def)
qed

lemma inv_job: "lease_inv y \<Longrightarrow> job_ok (sy_server y) (sy_now y) (ru_lock (sy_runner y i)) (ru_job (sy_runner y i))"
  by (simp add: lease_inv_def runner_ok_def)

lemma runner_step_inv: "runner_step i y y' \<Longrightarrow> lease_inv y \<Longrightarrow> lease_inv y'"
proof (induction rule: runner_step.induct)
  case (acquire_read y holder token)
  then show ?case by (intro acquire_inv)
next
  case (acquire_busy y l t0 t1)
  then show ?case by (intro quiet_inv) simp_all
next
  case (acquire_decide y got t0 t1 t2 current lock)
  have "free_at (sy_server y) (sy_now y) current"
    using acquire_decide.hyps inv_job [OF acquire_decide.prems, of i] by (cases got) (auto simp: free_at_def)
  then show ?case using acquire_decide by (intro quiet_inv) (auto simp del: write_sel)
next
  case (acquire_done y l)
  then show ?case by (intro write_inv) simp_all
next
  case (renewal_read y l lock)
  then show ?case by (intro quiet_inv) (auto simp: lease_inv_def intro: copy_of_store)
next
  case (renewal_decide y l)
  with inv_job [OF renewal_decide.prems, of i] show ?case by (intro quiet_inv) auto
next
  case (renewal_done y l)
  then show ?case by (intro write_inv) simp_all
next
  case (release_read y l lock)
  then show ?case by (intro quiet_inv) (auto simp: lease_inv_def intro: copy_of_store)
next
  case (release_decide y l)
  with inv_job [OF release_decide.prems, of i] show ?case by (intro quiet_inv) auto
next
  case (release_done y l)
  then show ?case by (intro write_inv) simp_all
next
  case (give_up y)
  then show ?case by (intro quiet_inv) simp_all
next
  case (answer_lost y l)
  then show ?case by (intro write_inv) auto
qed

lemma lease_reachable_inv: "lease_reachable y \<Longrightarrow> lease_inv y"
proof (induction rule: lease_reachable.induct)
  case start
  then show ?case by (simp add: lease_inv_def lease_store_ok_def tokens_ok_def runner_ok_def held_ok_def)
next
  case (step y i y')
  then show ?case using runner_step_inv by blast
next
  case (tick y t)
  have "tokens_ok (y\<lparr>sy_now := sy_now y + t\<rparr>)" by (rule tokens_ok_cong [of y]) (use tick.IH in \<open>simp_all add: lease_inv_def\<close>)
  then show ?case using tick by (auto simp: lease_inv_def runner_ok_def intro: job_ok_later held_ok_later)
qed

text \<open>C15: The lock excludes. However the reads and writes of the runners interleave, whichever of them fail or are not answered, two runners whose last renewal is less than ten minutes old never hold the
  lease at once; and while the stored lease is active, no step of a runner it does not name changes it, so that a late renewal or release cannot take the lease from its new holder.\<close>

theorem lease_excludes:
  assumes "lease_reachable y"
  shows "(ru_held (sy_runner y i) = Some t \<and> sy_now y < t + 600 * 10 ^ 9 \<and> ru_held (sy_runner y j) = Some t' \<and> sy_now y < t' + 600 * 10 ^ 9 \<longrightarrow> i = j)
    \<and> (sv_lease (sy_server y) = Some l \<and> activeLease l (sy_now y) \<and> runner_step i y y' \<and> (\<forall>k. ru_lock (sy_runner y i) = Some k \<longrightarrow> \<not> owned k l)
      \<longrightarrow> sv_lease (sy_server y') = Some l)"
proof (intro conjI impI)
  have inv: "lease_inv y" using assms by (rule lease_reachable_inv)
  assume h: "ru_held (sy_runner y i) = Some t \<and> sy_now y < t + 600 * 10 ^ 9 \<and> ru_held (sy_runner y j) = Some t' \<and> sy_now y < t' + 600 * 10 ^ 9"
  have own: "\<exists>k l. ru_lock (sy_runner y n) = Some k \<and> sv_lease (sy_server y) = Some l \<and> owned k l"
    if "ru_held (sy_runner y n) = Some u" "sy_now y < u + 600 * 10 ^ 9" for n u
  proof -
    have "held_ok (sy_server y) (sy_now y) (sy_runner y n)" using inv by (simp add: lease_inv_def runner_ok_def)
    then have "u + lease_span \<le> sy_now y \<or> (\<exists>k l. ru_lock (sy_runner y n) = Some k \<and> sv_lease (sy_server y) = Some l \<and> owned k l \<and> le_RenewTime l = Some u)"
      using that(1) unfolding held_ok_def by blast
    moreover have "\<not> u + lease_span \<le> sy_now y" using that(2) by (simp add: lease_span_def)
    ultimately show ?thesis by blast
  qed
  obtain k l where k: "ru_lock (sy_runner y i) = Some k" "sv_lease (sy_server y) = Some l" "owned k l" using own h by blast
  obtain k' l' where k': "ru_lock (sy_runner y j) = Some k'" "sv_lease (sy_server y) = Some l'" "owned k' l'" using own h by blast
  have "l' = l" using k(2) k'(2) by simp
  then have "el_token k = el_token k'" using owned_tokens [OF k(3)] k'(3) by simp
  moreover have "tokens_ok y" using inv by (simp add: lease_inv_def)
  ultimately show "i = j" using k(1) k'(1) unfolding tokens_ok_def by blast
next
  have inv: "lease_inv y" using assms by (rule lease_reachable_inv)
  then have s: "lease_store_ok (sy_server y)" and r: "runner_ok (sy_server y) (sy_now y) (sy_runner y i)" by (simp_all add: lease_inv_def)
  assume a: "sv_lease (sy_server y) = Some l \<and> activeLease l (sy_now y) \<and> runner_step i y y' \<and> (\<forall>k. ru_lock (sy_runner y i) = Some k \<longrightarrow> \<not> owned k l)"
  then have l: "sv_lease (sy_server y) = Some l" by blast
  have no: False if "ru_job (sy_runner y i) \<in> {Acquire_write w, Renewal_write w, Release_write w}" "accepts (sy_server y) w" for w
    using write_replaces [OF s r that l] later_inactive [OF s l] a by blast
  from a have "runner_step i y y'" by blast
  then show "sv_lease (sy_server y') = Some l" using no l by cases (simp_all, blast+)
qed

definition example_lock :: e2eLease where "example_lock = \<lparr>el_holder = ''me'', el_token = ''0a''\<rparr>"

definition example_lease_system :: system where
  "example_lease_system = \<lparr>sy_server = stored \<lparr>sv_lease = None, sv_version = 0\<rparr> (acquired example_lock new_lease 0), sy_now = 0,
     sy_runner = (\<lambda>_. \<lparr>ru_lock = None, ru_held = None, ru_job = Idle\<rparr>)(0 := \<lparr>ru_lock = Some example_lock, ru_held = Some 0, ru_job = Idle\<rparr>), sy_tokens = {''0a''}\<rparr>"

lemma example_lease_system_reachable: "lease_reachable example_lease_system"
proof -
  let ?y0 = "\<lparr>sy_server = \<lparr>sv_lease = None, sv_version = 0\<rparr>, sy_now = 0, sy_runner = (\<lambda>_. \<lparr>ru_lock = None, ru_held = None, ru_job = Idle\<rparr>), sy_tokens = {}\<rparr>"
  let ?y1 = "with_runner 0 \<lparr>ru_lock = Some example_lock, ru_held = None, ru_job = Read_for_acquire None 0\<rparr> (?y0\<lparr>sy_tokens := {''0a''}\<rparr>)"
  let ?w = "acquired example_lock new_lease 0"
  let ?y2 = "with_runner 0 ((sy_runner ?y1 0)\<lparr>ru_job := Acquire_write ?w\<rparr>) ?y1"
  have "runner_step 0 ?y0 ?y1" using runner_step.acquire_read [of ?y0 0 "''me''" "''0a''"] by (simp add: example_lock_def)
  moreover have "runner_step 0 ?y1 ?y2" by (rule runner_step.acquire_decide [of _ _ None 0 0 0]) simp_all
  moreover have "runner_step 0 ?y2 example_lease_system"
    using runner_step.acquire_done [of ?y2 0 ?w] by (simp add: accepts_def micro_def example_lease_system_def with_runner_def)
  ultimately show ?thesis using lease_reachable.start lease_reachable.step by blast
qed

theorem lease_excludes_witness:
  "\<exists>l y'. sv_lease (sy_server example_lease_system) = Some l \<and> activeLease l 0 \<and> runner_step 1 example_lease_system y' \<and> sv_lease (sy_server y') = Some l"
proof -
  obtain l where l: "sv_lease (sy_server example_lease_system) = Some l" "activeLease l 0"
    by (simp add: example_lease_system_def activeLease_def example_lock_def micro_def leaseDuration_def)
  moreover obtain y' where y': "runner_step 1 example_lease_system y'" using runner_step.give_up by blast
  moreover have "sy_now example_lease_system = 0" "ru_lock (sy_runner example_lease_system 1) = None" by (simp_all add: example_lease_system_def)
  ultimately show ?thesis using lease_excludes [OF example_lease_system_reachable, of 1 _ 1 _ l y'] by auto
qed

subsection \<open>One runner\<close>

definition server_client :: "instant \<Rightarrow> string \<Rightarrow> lease_server leaseClient" where
  "server_client now token = \<lparr>lc_Get = (\<lambda>sv. (case sv_lease sv of None \<Rightarrow> Inl (StatusError ''NotFound'') | Some l \<Rightarrow> Inr l, sv)),
     lc_Create = (\<lambda>l sv. if accepts sv l then (None, stored sv l) else (Some (StatusError ''AlreadyExists''), sv)),
     lc_Update = (\<lambda>l sv. if accepts sv l then (None, stored sv l) else (Some (StatusError ''Conflict''), sv)),
     lc_now = (\<lambda>sv. (now, sv)), lc_nonce = (\<lambda>sv. (Inr token, sv))\<rparr>"

lemma acquire_free:
  assumes "holder \<noteq> []" "\<And>l. sv_lease sv = Some l \<Longrightarrow> \<not> activeLease l now"
  shows "\<exists>sv' l. acquireLease (server_client now token) holder sv = (Inr \<lparr>el_holder = holder, el_token = token\<rparr>, sv')
    \<and> sv_lease sv' = Some l \<and> owned \<lparr>el_holder = holder, el_token = token\<rparr> l"
proof -
  have nf: "status_is ''NotFound'' (StatusError ''NotFound'')" by (simp add: status_is_def errors_as.simps(1))
  show ?thesis
  proof (cases "sv_lease sv")
    case None
    then show ?thesis using assms(1) nf
      by (simp add: acquireLease_def server_client_def Let_def write_lease_def accepts_def) (simp add: owned_def)
  next
    case (Some l)
    then show ?thesis using assms
      by (simp add: acquireLease_def server_client_def Let_def write_lease_def accepts_def) (simp add: owned_def)
  qed
qed

lemma maintain_owned:
  assumes "sv_lease sv = Some l" "owned lock l"
  shows "\<exists>sv' l'. maintain (server_client now token) lock n sv = (None, sv') \<and> sv_lease sv' = Some l' \<and> owned lock l'"
  using assms
proof (induction n arbitrary: sv l)
  case (Suc n)
  have "renew (server_client now token) lock sv = (None, stored sv (renewed l now))"
    using Suc.prems by (simp add: renew_def server_client_def accepts_def)
  moreover have "owned lock (renewed l now)" using Suc.prems(2) by (simp add: owned_def)
  ultimately show ?case using Suc.IH [of "stored sv (renewed l now)"] by simp
qed simp

text \<open>A runner that finds the lease free gets it, keeps it through any number of renewals, and leaves it free, with the result of its run as its own; one that finds it
  active fails without touching it.\<close>

theorem withLease_sequential:
  assumes "holder \<noteq> []" "\<And>s. run None s = (result, s)"
  shows "if (\<exists>l. sv_lease sv = Some l \<and> activeLease l now)
    then \<exists>e. withLease (server_client now token) holder ticks run sv = (Some e, sv)
    else \<exists>sv' l. withLease (server_client now token) holder ticks run sv = (join_errors [result, None], sv') \<and> sv_lease sv' = Some l \<and> \<not> activeLease l later"
proof (cases "\<exists>l. sv_lease sv = Some l \<and> activeLease l now")
  case True
  then show ?thesis using assms(1) by (auto simp: withLease_def acquireLease_def server_client_def Let_def)
next
  case False
  let ?lock = "\<lparr>el_holder = holder, el_token = token\<rparr>" and ?c = "server_client now token"
  obtain sv1 l1 where a: "acquireLease ?c holder sv = (Inr ?lock, sv1)" "sv_lease sv1 = Some l1" "owned ?lock l1"
    using acquire_free [OF assms(1), of sv now token] False by blast
  obtain sv2 l2 where m: "maintain ?c ?lock ticks sv1 = (None, sv2)" "sv_lease sv2 = Some l2" "owned ?lock l2"
    using maintain_owned [OF a(2,3)] by blast
  have "release ?c ?lock sv2 = (None, stored sv2 (released l2))" using m(2,3) by (simp add: release_def server_client_def accepts_def)
  moreover have "\<not> activeLease (the (sv_lease (stored sv2 (released l2)))) later" by (simp add: activeLease_def)
  ultimately show ?thesis unfolding if_not_P [OF False] using a(1) m(1) assms(2) by (simp add: withLease_def)
qed

theorem withLease_sequential_witness:
  "\<exists>sv' l. withLease (server_client 5 ''0a'') ''me'' 3 (\<lambda>_ s. (None, s)) \<lparr>sv_lease = None, sv_version = 0\<rparr> = (None, sv') \<and> sv_lease sv' = Some l \<and> \<not> activeLease l 6"
  using withLease_sequential [of "''me''" "\<lambda>_ s. (None, s)" None "\<lparr>sv_lease = None, sv_version = 0\<rparr>" 5 "''0a''" 3 6]
  by (simp add: join_errors_def List.map_filter_def)

end
