(* ===== verification/E2e_Report.thy ===== *)
theory E2e_Report
  imports Go_Flag
begin

text \<open>
  The report of an end-to-end test run, \<^verbatim>\<open>hack/e2e-runner/report.go\<close>: the suites with their specs and the resources of the controller. The fields of the reports that ginkgo writes are
  records; parsing of quantities and rendering of the template are arguments.
\<close>

subsection \<open>What ginkgo reports\<close>

datatype SpecState = SpecStateInvalid | SpecStatePending | SpecStateSkipped | SpecStatePassed | SpecStateFailed | SpecStateAborted | SpecStatePanicked
  | SpecStateInterrupted | SpecStateTimedout

definition failure_state :: "SpecState \<Rightarrow> bool" where
  "failure_state st \<longleftrightarrow> st \<in> {SpecStateFailed, SpecStateTimedout, SpecStateAborted, SpecStatePanicked, SpecStateInterrupted}"

text \<open>A zero time is 0.\<close>

record spec_report =
  sp_isIt :: bool \<comment> \<open>\<^verbatim>\<open>LeafNodeType == NodeTypeIt\<close>\<close>
  sp_ContainerHierarchyTexts :: "string list"
  sp_LeafNodeText :: string
  sp_ContainerHierarchyLabels :: "string list list"
  sp_LeafNodeLabels :: "string list"
  sp_State :: SpecState
  sp_StartTime :: instant
  sp_EndTime :: instant
  sp_RunTime :: duration
  sp_CapturedGinkgoWriterOutput :: string

record suite_report =
  su_SuitePath :: string
  su_SuiteSucceeded :: bool
  su_SpecialSuiteFailureReasons :: "string list"
  su_RunTime :: duration
  su_SpecReports :: "spec_report list"

definition FullText :: "spec_report \<Rightarrow> string" where
  "FullText sp = join '' '' (filter (\<lambda>t. t \<noteq> []) (sp_ContainerHierarchyTexts sp @ (if sp_LeafNodeText sp \<noteq> [] then [sp_LeafNodeText sp] else [])))"

definition spec_Labels :: "spec_report \<Rightarrow> string list" where
  "spec_Labels sp = uniq (concat (sp_ContainerHierarchyLabels sp) @ sp_LeafNodeLabels sp)"

subsection \<open>Suites\<close>

record specResult =
  sr_Name :: string
  sr_Result :: string
  sr_Duration :: string

record suiteResult =
  sui_Name :: string
  sui_Result :: string
  sui_Duration :: string
  sui_Passed :: nat
  sui_Failed :: nat
  sui_Skipped :: nat
  sui_Pending :: nat
  sui_Specs :: "specResult list"

definition pass_mark :: string where "pass_mark = [CHR 0xE2, CHR 0x9C, CHR 0x85] @ '' pass''"
definition fail_mark :: string where "fail_mark = [CHR 0xE2, CHR 0x9D, CHR 0x8C] @ '' fail''"
definition skipped_mark :: string where "skipped_mark = [CHR 0xE2, CHR 0x8F, CHR 0xAD] @ '' skipped''"
definition pending_mark :: string where "pending_mark = [CHR 0xE2, CHR 0x8F, CHR 0xAD] @ '' pending''"
definition em_dash :: string where "em_dash = [CHR 0xE2, CHR 0x80, CHR 0x94]"

text \<open>\<^verbatim>\<open>d.Round(time.Second).String()\<close>: halves are rounded away from zero.\<close>

definition round_second :: "duration \<Rightarrow> duration" where
  "round_second d = sgn d * ((\<bar>d\<bar> + 500000000) div 1000000000 * 1000000000)"

definition seconds_text :: "duration \<Rightarrow> string" where
  "seconds_text d = Duration_String (round_second d)"

text \<open>The variables of the loops of \<^verbatim>\<open>renderReport\<close>.\<close>

record report_acc =
  ra_suites :: "suiteResult list"
  ra_indices :: "(string, nat) gomap"
  ra_durations :: "(string, duration) gomap"
  ra_bounds :: "(string, instant \<times> instant) gomap"

definition suite_name :: "string \<Rightarrow> spec_report \<Rightarrow> string" where
  "suite_name fallback sp = (case filter (\<lambda>l. has_prefix l ''suite:'') (spec_Labels sp) of l # _ \<Rightarrow> drop 6 l | [] \<Rightarrow> fallback)"

definition empty_suite :: "string \<Rightarrow> string \<Rightarrow> string \<Rightarrow> suiteResult" where
  "empty_suite name res dur = \<lparr>sui_Name = name, sui_Result = res, sui_Duration = dur, sui_Passed = 0, sui_Failed = 0, sui_Skipped = 0, sui_Pending = 0, sui_Specs = []\<rparr>"

text \<open>The index of the suite with that name, which is added if it is not there.\<close>

definition suite_at :: "string \<Rightarrow> suiteResult \<Rightarrow> report_acc \<Rightarrow> nat \<times> report_acc" where
  "suite_at name fresh acc = (case map_get (ra_indices acc) name of
      Some i \<Rightarrow> (i, acc)
    | None \<Rightarrow> (length (ra_suites acc), acc\<lparr>ra_indices := map_set name (length (ra_suites acc)) (ra_indices acc), ra_suites := ra_suites acc @ [fresh]\<rparr>))"

text \<open>The switch over the state: the mark of the row and the counters of the suite; \<open>None\<close> leaves the spec out.\<close>

definition count_state :: "SpecState \<Rightarrow> suiteResult \<Rightarrow> (string \<times> suiteResult) option" where
  "count_state st s = (if st = SpecStatePassed then Some (pass_mark, s\<lparr>sui_Passed := sui_Passed s + 1\<rparr>)
     else if failure_state st then Some (fail_mark, s\<lparr>sui_Failed := sui_Failed s + 1, sui_Result := fail_mark\<rparr>)
     else if st = SpecStateSkipped then Some (skipped_mark, s\<lparr>sui_Skipped := sui_Skipped s + 1\<rparr>)
     else if st = SpecStatePending then Some (pending_mark, s\<lparr>sui_Pending := sui_Pending s + 1\<rparr>)
     else None)"

text \<open>How long a suite took: the whole run for the suite of the report itself, otherwise from the first start to the last end, or the sum when times are missing.\<close>

definition time_suite :: "suite_report \<Rightarrow> string \<Rightarrow> string \<Rightarrow> spec_report \<Rightarrow> report_acc \<Rightarrow> string option \<times> report_acc" where
  "time_suite rep fallback name sp acc =
     (if name = fallback then (Some (seconds_text (su_RunTime rep)), acc)
      else let span = (case map_get (ra_bounds acc) name of Some b \<Rightarrow> b | None \<Rightarrow> (0, 0)) in
        if sp_StartTime sp \<noteq> 0 \<and> sp_EndTime sp \<noteq> 0 then
          (let a = (if fst span = 0 \<or> sp_StartTime sp < fst span then sp_StartTime sp else fst span);
               b = (if sp_EndTime sp > snd span then sp_EndTime sp else snd span)
           in (Some (seconds_text (b - a)), acc\<lparr>ra_bounds := map_set name (a, b) (ra_bounds acc)\<rparr>))
        else if fst span = 0 then
          (let d = (case map_get (ra_durations acc) name of Some d \<Rightarrow> d | None \<Rightarrow> 0) + sp_RunTime sp
           in (Some (seconds_text d), acc\<lparr>ra_durations := map_set name d (ra_durations acc)\<rparr>))
        else (None, acc))"

definition add_spec :: "suite_report \<Rightarrow> string \<Rightarrow> spec_report \<Rightarrow> report_acc \<Rightarrow> report_acc" where
  "add_spec rep fallback sp acc = (if \<not> sp_isIt sp then acc
     else (case suite_at (suite_name fallback sp) (empty_suite (suite_name fallback sp) pass_mark []) acc of (i, acc) \<Rightarrow>
       (case count_state (sp_State sp) (ra_suites acc ! i) of
           None \<Rightarrow> acc
         | Some (mark, s) \<Rightarrow> (case time_suite rep fallback (suite_name fallback sp) sp acc of (dur, acc) \<Rightarrow>
             (let row = \<lparr>sr_Name = FullText sp, sr_Result = mark, sr_Duration = seconds_text (sp_RunTime sp)\<rparr>;
                  s = s\<lparr>sui_Specs := sui_Specs s @ [row]\<rparr>;
                  s = (case dur of Some t \<Rightarrow> s\<lparr>sui_Duration := t\<rparr> | None \<Rightarrow> s)
              in acc\<lparr>ra_suites := (ra_suites acc)[i := s]\<rparr>)))))"

text \<open>The specs of a report that failed; a report that did not succeed without one gets a row of its own.\<close>

definition failedSpecs :: "suite_report \<Rightarrow> nat" where
  "failedSpecs rep = length (filter (\<lambda>sp. sp_isIt sp \<and> failure_state (sp_State sp)) (su_SpecReports rep))"

definition add_failure :: "suite_report \<Rightarrow> string \<Rightarrow> report_acc \<Rightarrow> report_acc" where
  "add_failure rep fallback acc =
     (if \<not> su_SuiteSucceeded rep \<and> failedSpecs rep = 0 then
        (case suite_at fallback (empty_suite fallback [] (seconds_text (su_RunTime rep))) acc of (i, acc) \<Rightarrow>
          (let reasons = join ''; '' (su_SpecialSuiteFailureReasons rep); reason = (if reasons = [] then ''unknown failure'' else reasons); s = ra_suites acc ! i in
           acc\<lparr>ra_suites := (ra_suites acc)[i := s\<lparr>sui_Result := fail_mark,
             sui_Specs := sui_Specs s @ [\<lparr>sr_Name = ''Suite failed to run: '' @ reason, sr_Result = fail_mark, sr_Duration = em_dash\<rparr>], sui_Failed := sui_Failed s + 1\<rparr>]\<rparr>))
      else acc)"

definition add_report :: "suite_report \<Rightarrow> report_acc \<Rightarrow> report_acc" where
  "add_report rep acc = (let fallback = last_segment CHR ''/'' (su_SuitePath rep) in
     add_failure rep fallback (fold (add_spec rep fallback) (su_SpecReports rep) acc))"

definition no_suites :: report_acc where "no_suites = \<lparr>ra_suites = [], ra_indices = [], ra_durations = [], ra_bounds = []\<rparr>"

definition report_suites :: "suite_report list \<Rightarrow> suiteResult list" where
  "report_suites reports = sort_slice (\<lambda>a b. sui_Name a < sui_Name b) (ra_suites (fold add_report reports no_suites))"

subsection \<open>Resources of the controller\<close>

text \<open>The pieces of the regular expression of \<^verbatim>\<open>resourceLine\<close>. A run \<^verbatim>\<open>[^;]+\<close> ends where the semicolon is that must follow it.\<close>

definition lit :: "string \<Rightarrow> string \<Rightarrow> string option" where
  "lit l s = (if has_prefix s l then Some (drop (length l) s) else None)"

definition some_run :: "(char \<Rightarrow> bool) \<Rightarrow> string \<Rightarrow> (string \<times> string) option" where
  "some_run P s = (if takeWhile P s = [] then None else Some (takeWhile P s, dropWhile P s))"

definition resource_usage :: "string \<Rightarrow> ((string \<times> string) option \<times> string) option" where
  "resource_usage s = (case (do {
        s \<leftarrow> lit ''latest cpu='' s; (_, s) \<leftarrow> some_run is_digit s; s \<leftarrow> lit ''m memory='' s; (_, s) \<leftarrow> some_run (\<lambda>c. c \<noteq> CHR '';'') s;
        s \<leftarrow> lit ''; peak cpu='' s; (cpu, s) \<leftarrow> some_run is_digit s; s \<leftarrow> lit ''m memory='' s; (memory, s) \<leftarrow> some_run (\<lambda>c. c \<noteq> CHR '';'') s;
        s \<leftarrow> lit ''; samples='' s; (_, s) \<leftarrow> some_run is_digit s; Some (Some (cpu, memory), s)
      }) of Some r \<Rightarrow> Some r | None \<Rightarrow> map_option (Pair None) (lit ''no usage samples available'' s))"

definition resourceLine :: "string \<Rightarrow> ((string \<times> string) \<times> (string \<times> string) option \<times> string) option" where
  "resourceLine s = do {
     s \<leftarrow> lit ''[resources] karpenter controller: requests cpu='' s; (cpu, s) \<leftarrow> some_run is_digit s; s \<leftarrow> lit ''m memory='' s;
     (memory, s) \<leftarrow> some_run (\<lambda>c. c \<noteq> CHR '';'') s; s \<leftarrow> lit ''; '' s; (usage, s) \<leftarrow> resource_usage s; Some ((cpu, memory), usage, s) }"

text \<open>\<^verbatim>\<open>FindAllStringSubmatch\<close>; a match is never empty, which the test on the lengths states.\<close>

function resource_lines :: "string \<Rightarrow> ((string \<times> string) \<times> (string \<times> string) option) list" where
  "resource_lines s = (case s of [] \<Rightarrow> [] | _ # r \<Rightarrow>
     (case resourceLine s of
         Some (req, usage, rest) \<Rightarrow> if length rest < length s then (req, usage) # resource_lines rest else []
       | None \<Rightarrow> resource_lines r))"
  by pat_completeness auto

termination resource_lines
  by (relation "measure length") auto

declare resource_lines.simps [simp del]

record usage_acc =
  ua_request :: "(string \<times> string) option"
  ua_peakCPU :: "(int \<times> string) option"
  ua_peakMemory :: "(int \<times> string) option"

definition add_usage :: "(string \<Rightarrow> int option) \<Rightarrow> (string \<times> string) \<times> (string \<times> string) option \<Rightarrow> usage_acc \<Rightarrow> usage_acc" where
  "add_usage parseQuantity m acc = (case m of ((rc, rm), usage) \<Rightarrow>
     let acc = (if ua_request acc = None then acc\<lparr>ua_request := Some (rc @ ''m'', rm)\<rparr> else acc) in
     (case usage of None \<Rightarrow> acc
      | Some (pc, pm) \<Rightarrow> (case parse_int 64 pc of None \<Rightarrow> acc
        | Some cpu \<Rightarrow> (case parseQuantity (trim_suffix pm ''B'') of None \<Rightarrow> acc
          | Some memory \<Rightarrow> (let acc = (case ua_peakCPU acc of Some (mx, _) \<Rightarrow> if cpu > mx then acc\<lparr>ua_peakCPU := Some (cpu, pc @ ''m'')\<rparr> else acc
                    | None \<Rightarrow> acc\<lparr>ua_peakCPU := Some (cpu, pc @ ''m'')\<rparr>) in
              (case ua_peakMemory acc of Some (mx, _) \<Rightarrow> if memory > mx then acc\<lparr>ua_peakMemory := Some (memory, pm)\<rparr> else acc
               | None \<Rightarrow> acc\<lparr>ua_peakMemory := Some (memory, pm)\<rparr>))))))"

definition controllerResources :: "(string \<Rightarrow> int option) \<Rightarrow> suite_report list \<Rightarrow> string" where
  "controllerResources parseQuantity reports =
     (let acc = fold (add_usage parseQuantity) (concat (map (\<lambda>sp. resource_lines (sp_CapturedGinkgoWriterOutput sp)) (concat (map su_SpecReports reports))))
          \<lparr>ua_request = None, ua_peakCPU = None, ua_peakMemory = None\<rparr>
      in (case ua_request acc of None \<Rightarrow> ''resource samples unavailable''
        | Some (rc, rm) \<Rightarrow> (case (ua_peakCPU acc, ua_peakMemory acc) of
            (Some (_, pc), Some (_, pm)) \<Rightarrow> ''requests cpu='' @ rc @ '' memory='' @ rm @ ''; peak cpu='' @ pc @ '' memory='' @ pm
          | _ \<Rightarrow> ''requests cpu='' @ rc @ '' memory='' @ rm @ ''; usage samples unavailable'')))"

record reportMetadata =
  rm_Commit :: string
  rm_ControllerCommit :: string
  rm_Duration :: string
  rm_LogsUnavailable :: bool

text \<open>\<open>render\<close> executes the template on the suites, the metadata and the resources.\<close>

definition renderReport ::
  "(suiteResult list \<Rightarrow> reportMetadata \<Rightarrow> string \<Rightarrow> go_error + string) \<Rightarrow> (string \<Rightarrow> int option) \<Rightarrow> suite_report list \<Rightarrow> reportMetadata \<Rightarrow> go_error + string" where
  "renderReport render parseQuantity reports metadata =
     (if reports = [] then Inl (Errorf ''Ginkgo produced no suite results'' [] [])
      else render (report_suites reports) metadata (controllerResources parseQuantity reports))"

subsection \<open>Nothing is left out of the report\<close>

definition suite_ok :: "suiteResult \<Rightarrow> bool" where
  "suite_ok s \<longleftrightarrow> sui_Result s = (if sui_Failed s > 0 then fail_mark else pass_mark)
     \<and> length (sui_Specs s) = sui_Passed s + sui_Failed s + sui_Skipped s + sui_Pending s
     \<and> sui_Failed s = length (filter (\<lambda>r. sr_Result r = fail_mark) (sui_Specs s))"

definition index_ok :: "report_acc \<Rightarrow> bool" where
  "index_ok acc \<longleftrightarrow> (\<forall>name i. map_of (ra_indices acc) name = Some i \<longleftrightarrow> i < length (ra_suites acc) \<and> sui_Name (ra_suites acc ! i) = name)"

lemma marks [simp]: "pass_mark \<noteq> fail_mark" "skipped_mark \<noteq> fail_mark" "pending_mark \<noteq> fail_mark"
  by (simp_all add: pass_mark_def fail_mark_def skipped_mark_def pending_mark_def)

lemma index_ok_distinct: "index_ok acc \<Longrightarrow> distinct (map sui_Name (ra_suites acc))"
  unfolding distinct_conv_nth index_ok_def by (auto, metis option.inject)

lemma index_ok_update:
  assumes "index_ok acc" "ra_indices acc' = ra_indices acc" "ra_suites acc' = (ra_suites acc)[i := s]" "sui_Name s = sui_Name (ra_suites acc ! i)"
  shows "index_ok acc'"
proof -
  have n: "sui_Name (ra_suites acc' ! j) = sui_Name (ra_suites acc ! j)" if "j < length (ra_suites acc)" for j
    using assms(3,4) that by (cases "j = i") simp_all
  have l: "length (ra_suites acc') = length (ra_suites acc)" using assms(3) by simp
  show ?thesis unfolding index_ok_def
  proof (intro allI)
    fix name j
    have "map_of (ra_indices acc) name = Some j \<longleftrightarrow> j < length (ra_suites acc) \<and> sui_Name (ra_suites acc ! j) = name"
      using assms(1) by (simp only: index_ok_def)
    then show "map_of (ra_indices acc') name = Some j \<longleftrightarrow> j < length (ra_suites acc') \<and> sui_Name (ra_suites acc' ! j) = name"
      using n [of j] l assms(2) by auto
  qed
qed

lemma suite_at_ok:
  assumes "index_ok acc" "suite_at name fresh acc = (i, acc')" "sui_Name fresh = name"
  shows "index_ok acc' \<and> i < length (ra_suites acc') \<and> sui_Name (ra_suites acc' ! i) = name
    \<and> (ra_suites acc' = ra_suites acc \<or> ra_suites acc' = ra_suites acc @ [fresh] \<and> i = length (ra_suites acc))"
proof (cases "map_of (ra_indices acc) name")
  case None
  then have a: "acc' = acc\<lparr>ra_indices := map_set name (length (ra_suites acc)) (ra_indices acc), ra_suites := ra_suites acc @ [fresh]\<rparr>" "i = length (ra_suites acc)"
    using assms(2) by (auto simp: suite_at_def)
  have none: "j < length (ra_suites acc) \<Longrightarrow> sui_Name (ra_suites acc ! j) \<noteq> name" for j
    using assms(1) None unfolding index_ok_def by (metis option.distinct(1))
  have "index_ok acc'" unfolding index_ok_def
  proof (intro allI)
    fix name' j
    have "map_of (ra_indices acc) name' = Some j \<longleftrightarrow> j < length (ra_suites acc) \<and> sui_Name (ra_suites acc ! j) = name'"
      using assms(1) by (simp only: index_ok_def)
    then show "map_of (ra_indices acc') name' = Some j \<longleftrightarrow> j < length (ra_suites acc') \<and> sui_Name (ra_suites acc' ! j) = name'"
      using none [of j] assms(3) by (cases "name' = name"; cases "j = length (ra_suites acc)") (auto simp: a nth_append)
  qed
  then show ?thesis by (simp add: a assms(3))
next
  case (Some j)
  then show ?thesis using assms(1,2) by (auto simp: suite_at_def index_ok_def)
qed

text \<open>A step adds \<open>p\<close>, \<open>f\<close>, \<open>k\<close> and \<open>q\<close> passed, failed, skipped and pending specs.\<close>

definition adds :: "report_acc \<Rightarrow> report_acc \<Rightarrow> nat \<Rightarrow> nat \<Rightarrow> nat \<Rightarrow> nat \<Rightarrow> bool" where
  "adds acc acc' p f k q \<longleftrightarrow> index_ok acc' \<and> list_all suite_ok (ra_suites acc')
     \<and> sum_list (map sui_Passed (ra_suites acc')) = sum_list (map sui_Passed (ra_suites acc)) + p
     \<and> sum_list (map sui_Failed (ra_suites acc')) = sum_list (map sui_Failed (ra_suites acc)) + f
     \<and> sum_list (map sui_Skipped (ra_suites acc')) = sum_list (map sui_Skipped (ra_suites acc)) + k
     \<and> sum_list (map sui_Pending (ra_suites acc')) = sum_list (map sui_Pending (ra_suites acc)) + q"

lemma sum_update: "i < length xs \<Longrightarrow> sum_list (map f (xs[i := s])) + f (xs ! i) = sum_list (map f xs) + (f s :: nat)"
proof -
  assume i: "i < length xs"
  then have "sum_list (map f (xs[i := s])) = sum_list (map f xs) + f s - f (xs ! i)" by (simp add: map_update sum_list_update)
  moreover have "f (xs ! i) \<le> sum_list (map f xs)" using elem_le_sum_list [of i "map f xs"] i by simp
  ultimately show ?thesis by simp
qed

lemma list_all_update: "list_all P xs \<Longrightarrow> P s \<Longrightarrow> list_all P (xs[i := s])"
  by (auto simp: list_all_iff dest!: set_update_subset_insert [THEN subsetD])

text \<open>What a replaced suite adds is what it has more than the one before.\<close>

lemma adds_update:
  assumes "index_ok acc" "i < length (ra_suites acc)" "ra_indices acc' = ra_indices acc" "ra_suites acc' = (ra_suites acc)[i := s]"
    "sui_Name s = sui_Name (ra_suites acc ! i)" "list_all suite_ok ((ra_suites acc)[i := s])"
    "sui_Passed s = sui_Passed (ra_suites acc ! i) + p" "sui_Failed s = sui_Failed (ra_suites acc ! i) + f"
    "sui_Skipped s = sui_Skipped (ra_suites acc ! i) + k" "sui_Pending s = sui_Pending (ra_suites acc ! i) + q"
  shows "adds acc acc' p f k q"
  using index_ok_update [OF assms(1,3,4,5)] assms(6-10)
    sum_update [OF assms(2), of sui_Passed s] sum_update [OF assms(2), of sui_Failed s] sum_update [OF assms(2), of sui_Skipped s] sum_update [OF assms(2), of sui_Pending s]
  by (simp add: adds_def assms(4))

lemma adds_trans: "adds acc acc1 p f k q \<Longrightarrow> adds acc1 acc2 p' f' k' q' \<Longrightarrow> adds acc acc2 (p + p') (f + f') (k + k') (q + q')"
  by (simp add: adds_def)

lemma adds_eq: "adds acc a p f k q \<Longrightarrow> a = a' \<Longrightarrow> p = p' \<Longrightarrow> f = f' \<Longrightarrow> k = k' \<Longrightarrow> q = q' \<Longrightarrow> adds acc a' p' f' k' q'"
  by simp

lemma adds_refl: "index_ok acc \<Longrightarrow> list_all suite_ok (ra_suites acc) \<Longrightarrow> adds acc acc 0 0 0 0"
  by (simp add: adds_def)

lemma time_suite_frame: "time_suite rep fb name sp acc = (dur, acc') \<Longrightarrow> ra_suites acc' = ra_suites acc \<and> ra_indices acc' = ra_indices acc"
  by (auto simp: time_suite_def Let_def split: if_splits)

lemma count_state_ok:
  assumes "count_state st s = Some (mark, s')" "suite_ok s"
  shows "sui_Name s' = sui_Name s \<and> sui_Specs s' = sui_Specs s \<and> suite_ok (s'\<lparr>sui_Specs := sui_Specs s' @ [\<lparr>sr_Name = n, sr_Result = mark, sr_Duration = t\<rparr>]\<rparr>)
    \<and> sui_Passed s' = sui_Passed s + of_bool (st = SpecStatePassed) \<and> sui_Failed s' = sui_Failed s + of_bool (failure_state st)
    \<and> sui_Skipped s' = sui_Skipped s + of_bool (st = SpecStateSkipped) \<and> sui_Pending s' = sui_Pending s + of_bool (st = SpecStatePending)"
proof -
  have ok: "sui_Result s = (if sui_Failed s > 0 then fail_mark else pass_mark)" "length (sui_Specs s) = sui_Passed s + sui_Failed s + sui_Skipped s + sui_Pending s"
    "sui_Failed s = length (filter (\<lambda>r. sr_Result r = fail_mark) (sui_Specs s))"
    using assms(2) by (simp_all only: suite_ok_def)
  show ?thesis using assms(1) ok unfolding suite_ok_def
    by (cases st) (simp_all only: count_state_def failure_state_def, auto)
qed

lemma count_state_None: "count_state st s = None \<longleftrightarrow> st = SpecStateInvalid"
  by (cases st) (simp_all add: count_state_def failure_state_def)

lemma empty_suite_ok: "suite_ok (empty_suite name pass_mark dur)" "sui_Name (empty_suite name res dur) = name"
  by (simp_all add: suite_ok_def empty_suite_def)

lemma suite_at_adds:
  assumes "index_ok acc" "list_all suite_ok (ra_suites acc)" "suite_at name (empty_suite name res dur) acc = (i, acc')" "suite_ok (empty_suite name res dur)"
  shows "adds acc acc' 0 0 0 0"
proof -
  have z: "sui_Passed (empty_suite name res dur) = 0" "sui_Failed (empty_suite name res dur) = 0" "sui_Skipped (empty_suite name res dur) = 0"
    "sui_Pending (empty_suite name res dur) = 0" by (simp_all add: empty_suite_def)
  have ix: "index_ok acc'" and "ra_suites acc' = ra_suites acc \<or> ra_suites acc' = ra_suites acc @ [empty_suite name res dur]"
    using suite_at_ok [OF assms(1,3) empty_suite_ok(2)] by blast+
  then consider "ra_suites acc' = ra_suites acc" | "ra_suites acc' = ra_suites acc @ [empty_suite name res dur]" by blast
  then show ?thesis using ix z assms(2,4) by cases (simp_all add: adds_def)
qed

lemma add_spec_adds:
  assumes "index_ok acc" "list_all suite_ok (ra_suites acc)"
  shows "adds acc (add_spec rep fb sp acc) (of_bool (sp_isIt sp \<and> sp_State sp = SpecStatePassed)) (of_bool (sp_isIt sp \<and> failure_state (sp_State sp)))
    (of_bool (sp_isIt sp \<and> sp_State sp = SpecStateSkipped)) (of_bool (sp_isIt sp \<and> sp_State sp = SpecStatePending))"
proof (cases "sp_isIt sp")
  case False
  then show ?thesis using adds_refl [OF assms] by (simp add: add_spec_def)
next
  case True
  let ?name = "suite_name fb sp"
  obtain i acc1 where at: "suite_at ?name (empty_suite ?name pass_mark []) acc = (i, acc1)" by fastforce
  note a1 = suite_at_ok [OF assms(1) at empty_suite_ok(2)] and add1 = suite_at_adds [OF assms at empty_suite_ok(1)]
  then have ok1: "index_ok acc1" "list_all suite_ok (ra_suites acc1)" "i < length (ra_suites acc1)" by (auto simp: adds_def)
  show ?thesis
  proof (cases "count_state (sp_State sp) (ra_suites acc1 ! i)")
    case None
    then have "add_spec rep fb sp acc = acc1" using True at by (simp add: add_spec_def)
    moreover have "sp_State sp = SpecStateInvalid" using None by (simp add: count_state_None)
    ultimately show ?thesis using add1 True by (simp add: failure_state_def)
  next
    case (Some r)
    obtain mark s where r: "r = (mark, s)" by (cases r)
    obtain dur acc2 where t: "time_suite rep fb ?name sp acc1 = (dur, acc2)" by fastforce
    let ?row = "\<lparr>sr_Name = FullText sp, sr_Result = mark, sr_Duration = seconds_text (sp_RunTime sp)\<rparr>"
    define s2 where "s2 = (case dur of Some t \<Rightarrow> s\<lparr>sui_Specs := sui_Specs s @ [?row]\<rparr>\<lparr>sui_Duration := t\<rparr> | None \<Rightarrow> s\<lparr>sui_Specs := sui_Specs s @ [?row]\<rparr>)"
    have res: "add_spec rep fb sp acc = acc2\<lparr>ra_suites := (ra_suites acc2)[i := s2]\<rparr>"
      using True at Some r t by (simp add: add_spec_def s2_def Let_def split: option.splits)
    have "suite_ok (ra_suites acc1 ! i)" using ok1 by (simp add: list_all_length)
    note c = count_state_ok [OF Some [unfolded r] this, of "FullText sp" "seconds_text (sp_RunTime sp)"]
    have s2: "sui_Name s2 = sui_Name s" "sui_Passed s2 = sui_Passed s" "sui_Failed s2 = sui_Failed s" "sui_Skipped s2 = sui_Skipped s" "sui_Pending s2 = sui_Pending s"
      by (simp_all add: s2_def split: option.splits)
    have "suite_ok (s\<lparr>sui_Specs := sui_Specs s @ [?row]\<rparr>)" using c by (elim conjE)
    moreover have "suite_ok (y\<lparr>sui_Duration := t\<rparr>) = suite_ok y" for y t by (simp add: suite_ok_def)
    ultimately have "suite_ok s2" unfolding s2_def by (cases dur) (simp_all only: option.case)
    then have "list_all suite_ok ((ra_suites acc1)[i := s2])" using ok1(2) by (rule list_all_update [rotated])
    then have "adds acc1 (add_spec rep fb sp acc) (of_bool (sp_State sp = SpecStatePassed)) (of_bool (failure_state (sp_State sp)))
        (of_bool (sp_State sp = SpecStateSkipped)) (of_bool (sp_State sp = SpecStatePending))"
      using adds_update [OF ok1(1,3), of "add_spec rep fb sp acc" s2] c s2 time_suite_frame [OF t] by (simp add: res)
    from adds_trans [OF add1 this] True show ?thesis by simp
  qed
qed

lemma add_failure_adds:
  assumes "index_ok acc" "list_all suite_ok (ra_suites acc)"
  shows "adds acc (add_failure rep fb acc) 0 (of_bool (\<not> su_SuiteSucceeded rep \<and> failedSpecs rep = 0)) 0 0"
proof (cases "\<not> su_SuiteSucceeded rep \<and> failedSpecs rep = 0")
  case False
  then show ?thesis using adds_refl [OF assms] by (auto simp: add_failure_def)
next
  case True
  let ?fresh = "empty_suite fb [] (seconds_text (su_RunTime rep))"
  obtain i acc1 where at: "suite_at fb ?fresh acc = (i, acc1)" by fastforce
  have ix: "index_ok acc1" "i < length (ra_suites acc1)"
    and "ra_suites acc1 = ra_suites acc \<or> ra_suites acc1 = ra_suites acc @ [?fresh] \<and> i = length (ra_suites acc)"
    using suite_at_ok [OF assms(1) at empty_suite_ok(2)] by blast+
  then consider (old) "ra_suites acc1 = ra_suites acc" "suite_ok (ra_suites acc1 ! i)" | (new) "ra_suites acc1 = ra_suites acc @ [?fresh]" "ra_suites acc1 ! i = ?fresh" "i = length (ra_suites acc)"
    using assms(2) by (auto simp: list_all_length)
  note a1 = this
  let ?s = "ra_suites acc1 ! i" and ?row = "\<lambda>t. \<lparr>sr_Name = t, sr_Result = fail_mark, sr_Duration = em_dash\<rparr>"
  obtain t where res: "add_failure rep fb acc = acc1\<lparr>ra_suites := (ra_suites acc1)[i := ?s\<lparr>sui_Result := fail_mark, sui_Specs := sui_Specs ?s @ [?row t], sui_Failed := sui_Failed ?s + 1\<rparr>]\<rparr>"
    using True at by (simp add: add_failure_def Let_def)
  let ?s2 = "?s\<lparr>sui_Result := fail_mark, sui_Specs := sui_Specs ?s @ [?row t], sui_Failed := sui_Failed ?s + 1\<rparr>"
  have counts: "length (sui_Specs ?s) = sui_Passed ?s + sui_Failed ?s + sui_Skipped ?s + sui_Pending ?s" "sui_Failed ?s = length (filter (\<lambda>r. sr_Result r = fail_mark) (sui_Specs ?s))"
    using a1 by (cases; simp add: suite_ok_def empty_suite_def)+
  then have ok2: "suite_ok ?s2" unfolding suite_ok_def by simp
  have "list_all suite_ok ((ra_suites acc1)[i := ?s2])"
    using a1
  proof cases
    case old
    then show ?thesis using assms(2) ok2 by (simp add: list_all_update)
  next
    case new
    then have "(ra_suites acc1)[i := ?s2] = ra_suites acc @ [?s2]" by simp
    then show ?thesis using assms(2) ok2 by simp
  qed
  then have "adds acc1 (add_failure rep fb acc) 0 1 0 0"
    using adds_update [of acc1 i "add_failure rep fb acc" ?s2 0 1 0 0] ix by (simp add: res)
  moreover have "sum_list (map g (ra_suites acc1)) = sum_list (map g (ra_suites acc))" if "g ?fresh = 0" for g :: "suiteResult \<Rightarrow> nat"
    using a1 that by cases simp_all
  ultimately show ?thesis using True by (simp add: adds_def empty_suite_def)
qed

lemma fold_specs_adds:
  "index_ok acc \<Longrightarrow> list_all suite_ok (ra_suites acc) \<Longrightarrow>
    adds acc (fold (add_spec rep fb) sps acc) (length (filter (\<lambda>sp. sp_isIt sp \<and> sp_State sp = SpecStatePassed) sps)) (length (filter (\<lambda>sp. sp_isIt sp \<and> failure_state (sp_State sp)) sps))
      (length (filter (\<lambda>sp. sp_isIt sp \<and> sp_State sp = SpecStateSkipped) sps)) (length (filter (\<lambda>sp. sp_isIt sp \<and> sp_State sp = SpecStatePending) sps))"
proof (induction sps arbitrary: acc)
  case (Cons sp sps)
  note a = add_spec_adds [OF Cons.prems, of rep fb sp]
  then have "index_ok (add_spec rep fb sp acc)" "list_all suite_ok (ra_suites (add_spec rep fb sp acc))" by (simp_all add: adds_def)
  from adds_trans [OF a Cons.IH [OF this]] show ?case
    by (rule adds_eq) simp_all
qed (simp add: adds_refl)

definition its :: "suite_report list \<Rightarrow> spec_report list" where
  "its reports = filter sp_isIt (concat (map su_SpecReports reports))"

definition unexplained :: "suite_report \<Rightarrow> bool" where
  "unexplained rep \<longleftrightarrow> \<not> su_SuiteSucceeded rep \<and> failedSpecs rep = 0"

lemma fold_reports_adds:
  "index_ok acc \<Longrightarrow> list_all suite_ok (ra_suites acc) \<Longrightarrow>
    adds acc (fold add_report reports acc) (length (filter (\<lambda>sp. sp_State sp = SpecStatePassed) (its reports)))
      (length (filter (\<lambda>sp. failure_state (sp_State sp)) (its reports)) + length (filter unexplained reports))
      (length (filter (\<lambda>sp. sp_State sp = SpecStateSkipped) (its reports))) (length (filter (\<lambda>sp. sp_State sp = SpecStatePending) (its reports)))"
proof (induction reports arbitrary: acc)
  case (Cons rep reports)
  let ?fb = "last_segment CHR ''/'' (su_SuitePath rep)"
  let ?a1 = "fold (add_spec rep ?fb) (su_SpecReports rep) acc"
  note a = fold_specs_adds [OF Cons.prems, of rep ?fb "su_SpecReports rep"]
  then have "index_ok ?a1" "list_all suite_ok (ra_suites ?a1)" by (simp_all add: adds_def)
  note b = add_failure_adds [OF this, of rep ?fb]
  have r: "add_report rep acc = add_failure rep ?fb ?a1" by (simp add: add_report_def Let_def)
  from b have "index_ok (add_report rep acc)" "list_all suite_ok (ra_suites (add_report rep acc))" by (simp_all add: adds_def r)
  from adds_trans [OF adds_trans [OF a b] Cons.IH [OF this, unfolded r]] show ?case
    by (rule adds_eq) (simp_all add: r its_def unexplained_def conj_commute)
qed (simp add: adds_refl its_def)

lemma sum_sort_slice: "sum_list (map g (sort_slice lt xs)) = sum_list (map (g :: 'a \<Rightarrow> nat) xs)"
  using mset_sort_slice [of lt xs] by (metis mset_map sum_mset_sum_list)

text \<open>The report accounts for every test. The suites are in order and there is one for each name; a suite is marked as failed exactly if a row of it is; every passed,
  failed, skipped or pending test of the run is counted in one suite, and so is every suite that failed without a failing test.\<close>

theorem report_complete:
  "let suites = report_suites reports in
    sorted (map sui_Name suites) \<and> distinct (map sui_Name suites) \<and> list_all suite_ok suites
    \<and> sum_list (map sui_Passed suites) = length (filter (\<lambda>sp. sp_State sp = SpecStatePassed) (its reports))
    \<and> sum_list (map sui_Failed suites) = length (filter (\<lambda>sp. failure_state (sp_State sp)) (its reports)) + length (filter unexplained reports)
    \<and> sum_list (map sui_Skipped suites) = length (filter (\<lambda>sp. sp_State sp = SpecStateSkipped) (its reports))
    \<and> sum_list (map sui_Pending suites) = length (filter (\<lambda>sp. sp_State sp = SpecStatePending) (its reports))"
proof -
  have "index_ok no_suites" "list_all suite_ok (ra_suites no_suites)" by (simp_all add: index_ok_def no_suites_def)
  note a = fold_reports_adds [OF this, of reports, unfolded adds_def]
  have "sorted (map sui_Name (report_suites reports))"
    unfolding report_suites_def sorted_map using sorted_sort_slice [OF weak_order_key [of sui_Name]] by (simp add: not_less)
  moreover have "distinct (map sui_Name (report_suites reports))"
    using index_ok_distinct a mset_sort_slice unfolding report_suites_def by (metis mset_eq_imp_distinct_iff mset_map)
  moreover have "list_all suite_ok (report_suites reports)" using a by (simp add: report_suites_def list_all_iff)
  ultimately show ?thesis using a by (simp add: Let_def report_suites_def sum_sort_slice no_suites_def)
qed

end
