(* ===== verification/E2e_Runner.thy ===== *)
theory E2e_Runner
  imports E2e_Lease E2e_Report
begin

text \<open>
  The end-to-end test runner, \<^verbatim>\<open>hack/e2e-runner\<close>: which tests run, that the deployed controller is the one under test, and the run under the lease with its report
  (\<^verbatim>\<open>main.go\<close>, \<^verbatim>\<open>runtime.go\<close>, \<^verbatim>\<open>writeReport\<close>). Commands, files, the environment and the clock are arguments; messages to the terminal are left out.
\<close>

subsection \<open>Selecting tests\<close>

definition presets :: "(string, string) gomap" where
  "presets = [(''standard'', ''!suite:gpu && !suite:local-ssd-extended''), (''gpu'', ''suite:gpu''), (''all'', []), (''provisioning'', ''suite:provisioning'')]"

fun feature_filters :: "string list \<Rightarrow> string \<Rightarrow> string list \<Rightarrow> string list \<Rightarrow> string list \<Rightarrow> go_error + string list" where
  "feature_filters features selection [] filters seen = Inr filters"
| "feature_filters features selection (part # parts) filters seen = (let name = trim_space part in
     if name \<notin> set features then Inl (Errorf ''unknown e2e feature %q in selection %q (use a preset or feature directory names)'' [name, selection] [])
     else if name \<in> set seen then feature_filters features selection parts filters seen
     else feature_filters features selection parts (filters @ [''suite:'' @ name]) (name # seen))"

text \<open>\<open>readDir\<close> lists the directory of the suites: names, and whether they are directories.\<close>

definition selectFilter :: "(go_error + (string \<times> bool) list) \<Rightarrow> string \<Rightarrow> go_error + string" where
  "selectFilter readDir selection0 = (let selection = trim_space selection0 in
     if selection = [] then Inl (Errorf ''e2e selection must not be empty'' [] [])
     else (case map_get presets selection of Some f \<Rightarrow> Inr f
       | None \<Rightarrow> (case readDir of Inl err \<Rightarrow> Inl err
         | Inr entries \<Rightarrow> (case feature_filters (map fst (filter snd entries)) selection (split_on CHR '','' selection) [] [] of
             Inl err \<Rightarrow> Inl err | Inr filters \<Rightarrow> Inr (join '' || '' filters)))))"

subsection \<open>The controller under test\<close>

record 's runner_deps =
  rd_getenv :: "string \<Rightarrow> string"
  rd_output :: "string list \<Rightarrow> 's \<Rightarrow> (go_error + string) \<times> 's" \<comment> \<open>the standard output of a command\<close>
  rd_readSuites :: "go_error + (string \<times> bool) list"
  rd_username :: "go_error + string"
  rd_hostname :: "go_error + string"
  rd_pid :: int
  rd_now :: "'s \<Rightarrow> instant"
  rd_formatTime :: "instant \<Rightarrow> string"
  rd_mkdirAll :: "string \<Rightarrow> 's \<Rightarrow> go_error option \<times> 's"
  rd_create :: "string \<Rightarrow> 's \<Rightarrow> go_error option \<times> 's"
  rd_runInto :: "string list \<Rightarrow> string \<Rightarrow> 's \<Rightarrow> go_error option \<times> 's" \<comment> \<open>run a command with its output to an open file\<close>
  rd_close :: "string \<Rightarrow> 's \<Rightarrow> go_error option \<times> 's"
  rd_size :: "string \<Rightarrow> 's \<Rightarrow> go_error + int"
  rd_remove :: "string \<Rightarrow> 's \<Rightarrow> go_error option \<times> 's" \<comment> \<open>no error for a file that is not there\<close>
  rd_removeAll :: "string \<Rightarrow> 's \<Rightarrow> 's"
  rd_mkdirTemp :: "'s \<Rightarrow> (go_error + string) \<times> 's"
  rd_runTests :: "string list \<Rightarrow> 's \<Rightarrow> go_error option \<times> 's" \<comment> \<open>\<^verbatim>\<open>runIsolated\<close>\<close>
  rd_readReports :: "string \<Rightarrow> 's \<Rightarrow> go_error + (go_error + suite_report list)" \<comment> \<open>reading the file, and decoding it\<close>
  rd_writeFile :: "string \<Rightarrow> string \<Rightarrow> 's \<Rightarrow> go_error option \<times> 's"
  rd_render :: "suiteResult list \<Rightarrow> reportMetadata \<Rightarrow> string \<Rightarrow> go_error + string"
  rd_parseQuantity :: "string \<Rightarrow> int option"

definition resolveLockID :: "'s runner_deps \<Rightarrow> string \<Rightarrow> go_error + string" where
  "resolveLockID d override = (if override \<noteq> [] then Inr override
     else (case rd_username d of Inl err \<Rightarrow> Inl (Errorf ''reading current user: %w'' [] [err])
       | Inr user \<Rightarrow> (case rd_hostname d of Inl err \<Rightarrow> Inl (Errorf ''reading hostname: %w'' [] [err])
         | Inr hostname \<Rightarrow> Inr (user @ ''@'' @ hostname @ '':pid-'' @ itoa (rd_pid d)))))"

definition controllerTarget :: "'s runner_deps \<Rightarrow> string \<times> string" where
  "controllerTarget d = (let namespace = rd_getenv d ''KARPENTER_NAMESPACE''; deployment = rd_getenv d ''KARPENTER_DEPLOYMENT'' in
     (if namespace = [] then ''karpenter-system'' else namespace, if deployment = [] then ''karpenter'' else deployment))"

text \<open>\<^verbatim>\<open>"commit":"([0-9a-f]+)(-dirty)?"\<close>: the groups of the first match.\<close>

definition is_hex :: "char \<Rightarrow> bool" where
  "is_hex c \<longleftrightarrow> is_digit c \<or> c \<in> set ''abcdef''"

definition commit_at :: "string \<Rightarrow> (string \<times> string) option" where
  "commit_at s = do { s \<leftarrow> lit (in_quotes ''commit'' @ '':'' @ [CHR 0x22]) s; (h, s) \<leftarrow> some_run is_hex s;
     (case lit (''-dirty'' @ [CHR 0x22]) s of Some _ \<Rightarrow> Some (h, ''-dirty'') | None \<Rightarrow> map_option (\<lambda>_. (h, [])) (lit [CHR 0x22] s)) }"

fun find_commit :: "string \<Rightarrow> (string \<times> string) option" where
  "find_commit [] = None"
| "find_commit (c # s) = (case commit_at (c # s) of Some r \<Rightarrow> Some r | None \<Rightarrow> find_commit s)"

definition check_context :: "'s runner_deps \<Rightarrow> 's \<Rightarrow> go_error option \<times> 's" where
  "check_context d s = (let project = rd_getenv d ''PROJECT_ID''; location = rd_getenv d ''CLUSTER_LOCATION''; cluster = rd_getenv d ''CLUSTER_NAME'' in
     if project \<noteq> [] \<and> location \<noteq> [] \<and> cluster \<noteq> [] then
       (case rd_output d [''kubectl'', ''config'', ''current-context''] s of
           (Inl err, s) \<Rightarrow> (Some (Errorf ''checking cluster context: %w'' [] [err]), s)
         | (Inr current, s) \<Rightarrow> (let expected = ''gke_'' @ project @ ''_'' @ location @ ''_'' @ cluster in
             (if trim_space current \<noteq> expected then Some (Errorf ''cluster context %q does not match %q'' [trim_space current, expected] []) else None, s)))
     else (None, s))"

definition image_tag :: "string \<Rightarrow> string" where
  "image_tag img = last_segment CHR '':'' (fst (cut CHR ''@'' (trim_space img)))"

definition check_image :: "string \<Rightarrow> string \<Rightarrow> string \<Rightarrow> string \<Rightarrow> go_error option" where
  "check_image img releaseVersion base commit =
     (if releaseVersion \<noteq> [] then
        (if image_tag img \<noteq> ''v'' @ trim_prefix releaseVersion ''v''
         then Some (Errorf ''deployed controller image %q does not match requested release %s'' [trim_space img, releaseVersion] []) else None)
      else if image_tag img \<noteq> ''e2e-'' @ base then Some (Errorf ''deployed controller image %q does not match test commit %s'' [trim_space img, commit] [])
      else None)"

definition check_binary :: "string \<Rightarrow> string \<Rightarrow> string \<Rightarrow> string \<Rightarrow> go_error + string \<times> string" where
  "check_binary logs releaseVersion base commit = (case find_commit logs of
      None \<Rightarrow> Inl (Errorf ''controller binary commit not found in logs'' [] [])
    | Some (h, dirty) \<Rightarrow> if releaseVersion = [] \<and> \<not> has_prefix base h \<and> \<not> has_prefix h base
        then Inl (Errorf ''controller binary commit in logs does not match test commit %s'' [commit] []) else Inr (commit, h @ dirty))"

definition verifyControllerCommit :: "'s runner_deps \<Rightarrow> string \<Rightarrow> 's \<Rightarrow> (go_error + string \<times> string) \<times> 's" where
  "verifyControllerCommit d releaseVersion s =
     (case rd_output d [''git'', ''rev-parse'', ''--short'', ''HEAD''] s of
        (Inl err, s) \<Rightarrow> (Inl (Errorf ''reading test commit: %w'' [] [err]), s)
      | (Inr sha, s) \<Rightarrow> (case rd_output d [''git'', ''status'', ''--porcelain''] s of
        (Inl err, s) \<Rightarrow> (Inl (Errorf ''checking test source: %w'' [] [err]), s)
      | (Inr status, s) \<Rightarrow> (let commit = trim_space sha @ (if status \<noteq> [] then ''-dirty'' else []); base = trim_suffix commit ''-dirty'' in
          (case check_context d s of (Some err, s) \<Rightarrow> (Inl err, s)
           | (None, s) \<Rightarrow> (case controllerTarget d of (namespace, deployment) \<Rightarrow>
             (case rd_output d [''kubectl'', ''-n'', namespace, ''get'', ''deployment'', deployment, ''-o'', ''jsonpath={.spec.template.spec.containers[0].image}''] s of
                (Inl err, s) \<Rightarrow> (Inl (Errorf ''checking deployed controller image: %w'' [] [err]), s)
              | (Inr img, s) \<Rightarrow> (case check_image img releaseVersion base commit of Some err \<Rightarrow> (Inl err, s)
                | None \<Rightarrow> (case rd_output d [''kubectl'', ''-n'', namespace, ''logs'', ''deployment/'' @ deployment, ''--tail=50''] s of
                    (Inl err, s) \<Rightarrow> (Inl (Errorf ''checking controller binary commit: %w'' [] [err]), s)
                  | (Inr logs, s) \<Rightarrow> (check_binary logs releaseVersion base commit, s)))))))))"

definition path_dir :: "string \<Rightarrow> string" where
  "path_dir p = (let d = take (length p - length (last_segment CHR ''/'' p)) p in if d = [] then ''.'' else if d = ''/'' then d else butlast d)"

definition dumpControllerLogs :: "'s runner_deps \<Rightarrow> string \<Rightarrow> instant \<Rightarrow> 's \<Rightarrow> go_error option \<times> 's" where
  "dumpControllerLogs d path since s = (case rd_mkdirAll d (path_dir path) s of (Some err, s) \<Rightarrow> (Some err, s)
     | (None, s) \<Rightarrow> (case rd_create d path s of (Some err, s) \<Rightarrow> (Some err, s)
       | (None, s) \<Rightarrow> (case controllerTarget d of (namespace, deployment) \<Rightarrow>
           (case rd_runInto d [''kubectl'', ''-n'', namespace, ''logs'', ''deployment/'' @ deployment, ''--all-pods=true'', ''--all-containers=true'', ''--timestamps=true'',
               ''--since-time='' @ rd_formatTime d since] path s of (runErr, s) \<Rightarrow>
           (case rd_close d path s of (closeErr, s) \<Rightarrow>
             (case join_errors [runErr, closeErr] of Some err \<Rightarrow> (Some err, snd (rd_remove d path s))
              | None \<Rightarrow> (case rd_size d path s of Inl err \<Rightarrow> (Some err, s)
                 | Inr n \<Rightarrow> if n = 0 then (Some (Errorf ''no controller logs during test run'' [] []), snd (rd_remove d path s)) else (None, s))))))))"

definition writeReport :: "'s runner_deps \<Rightarrow> string \<Rightarrow> string \<Rightarrow> reportMetadata \<Rightarrow> 's \<Rightarrow> go_error option \<times> 's" where
  "writeReport d jsonPath path metadata s = (case rd_readReports d jsonPath s of
      Inl err \<Rightarrow> (Some (Errorf ''reading Ginkgo JSON report: %w'' [] [err]), s)
    | Inr (Inl err) \<Rightarrow> (Some (Errorf ''decoding Ginkgo JSON report: %w'' [] [err]), s)
    | Inr (Inr reports) \<Rightarrow> (case renderReport (rd_render d) (rd_parseQuantity d) reports metadata of Inl err \<Rightarrow> (Some err, s)
        | Inr output \<Rightarrow> (case rd_mkdirAll d (path_dir path) s of (Some err, s) \<Rightarrow> (Some err, s) | (None, s) \<Rightarrow> rd_writeFile d path output s)))"

subsection \<open>The run\<close>

record runner_flags =
  rf_selection :: string
  rf_preset :: "string option" \<comment> \<open>if given\<close>
  rf_selectionChanged :: bool
  rf_reportPath :: string
  rf_lockID :: string
  rf_releaseVersion :: string

definition ext_of :: "string \<Rightarrow> string" where
  "ext_of p = (let b = last_segment CHR ''/'' p in if CHR ''.'' \<in> set b then ''.'' @ last_segment CHR ''.'' b else [])"

text \<open>The function that runs under the lease; a run that is cancelled is one whose commands fail.\<close>

definition run_tests :: "'s runner_deps \<Rightarrow> string list \<Rightarrow> string \<Rightarrow> runner_flags \<Rightarrow> 's \<Rightarrow> go_error option \<times> 's" where
  "run_tests d ginkgoArgs flt f s =
     (let args = [''run'', ''github.com/onsi/ginkgo/v2/ginkgo''] @ ginkgoArgs @ (if flt \<noteq> [] then [''--label-filter='' @ flt] else []); path = rf_reportPath f in
      if path = [] then rd_runTests d (args @ [''./test/suites/'']) s
      else (case rd_remove d path s of (Some err, s) \<Rightarrow> (Some err, s)
        | (None, s) \<Rightarrow> (case verifyControllerCommit d (rf_releaseVersion f) s of (Inl err, s) \<Rightarrow> (Some err, s)
          | (Inr (commit, controllerCommit), s) \<Rightarrow> (case rd_mkdirTemp d s of (Inl err, s) \<Rightarrow> (Some err, s)
            | (Inr dir, s) \<Rightarrow> (let start = rd_now d s in
                (case rd_runTests d (args @ [''--output-dir='' @ dir, ''--json-report=results.json'', ''./test/suites/'']) s of (runErr, s) \<Rightarrow>
                  (let took = seconds_text (rd_now d s - start) in
                   (case dumpControllerLogs d (trim_suffix path (ext_of path) @ ''.karpenter.log'') start s of (logErr, s) \<Rightarrow>
                     (case writeReport d (dir @ ''/results.json'') path
                        \<lparr>rm_Commit = commit, rm_ControllerCommit = controllerCommit, rm_Duration = took, rm_LogsUnavailable = (logErr \<noteq> None)\<rparr> s of (repErr, s) \<Rightarrow>
                       (join_errors [runErr, repErr], rd_removeAll d dir s)))))))))) "

definition RunE :: "'s runner_deps \<Rightarrow> (go_error + 's leaseClient) \<Rightarrow> nat \<Rightarrow> string list \<Rightarrow> runner_flags \<Rightarrow> 's \<Rightarrow> go_error option \<times> 's" where
  "RunE d client ticks ginkgoArgs f s =
     (case (case rf_preset f of None \<Rightarrow> Inr (rf_selection f)
         | Some p \<Rightarrow> if rf_selectionChanged f then Inl (Errorf ''--selection and --preset cannot be used together'' [] []) else Inr p) of
        Inl err \<Rightarrow> (Some err, s)
      | Inr selection \<Rightarrow> (case selectFilter (rd_readSuites d) selection of Inl err \<Rightarrow> (Some err, s)
        | Inr flt \<Rightarrow> (case resolveLockID d (rf_lockID f) of Inl err \<Rightarrow> (Some err, s)
          | Inr holder \<Rightarrow> (case client of Inl err \<Rightarrow> (Some err, s)
            | Inr c \<Rightarrow> withLease c holder ticks (\<lambda>_. run_tests d ginkgoArgs flt f) s))))"

subsection \<open>What is selected, and against what\<close>

definition feature_name :: "string \<Rightarrow> bool" where
  "feature_name n \<longleftrightarrow> n \<noteq> [] \<and> CHR '','' \<notin> set n \<and> \<not> is_space (hd n) \<and> \<not> is_space (last n)"

lemma join_trim:
  assumes "ns \<noteq> []" "list_all feature_name ns"
  shows "trim_space (join '','' ns) = join '','' ns \<and> join '','' ns \<noteq> []"
proof -
  have j: "join '','' (m # ms) \<noteq> []" if "feature_name m" for m ms using that by (cases ms) (auto simp: feature_name_def)
  have h: "join '','' ns \<noteq> [] \<and> hd (join '','' ns) = hd (hd ns)" using assms
    by (cases ns; cases "tl ns") (auto simp: feature_name_def)
  have l: "last (join '','' ns) = last (last ns)" using assms
  proof (induction ns)
    case (Cons n ns)
    show ?case
    proof (cases ns)
      case (Cons m ms)
      then have "join '','' ns \<noteq> []" using j [of m ms] Cons.prems(2) by simp
      with Cons Cons.IH Cons.prems show ?thesis by (simp add: last_append)
    qed simp
  qed simp
  have "hd ns \<in> set ns" "last ns \<in> set ns" using assms(1) by simp_all
  then have "\<not> is_space (hd (hd ns))" "\<not> is_space (last (last ns))" using assms(2) unfolding list_all_iff feature_name_def by blast+
  then show ?thesis using h l trim_space_same [of "join '','' ns"] by simp
qed

lemma feature_filters_exact:
  "list_all feature_name ns \<Longrightarrow> feature_filters features sel ns fs seen =
    (if set ns \<subseteq> set features then Inr (fs @ map ((@) ''suite:'') (uniq_acc seen ns))
     else Inl (Errorf ''unknown e2e feature %q in selection %q (use a preset or feature directory names)'' [hd (filter (\<lambda>n. n \<notin> set features) ns), sel] []))"
  by (induction ns arbitrary: fs seen) (auto simp: Let_def feature_name_def trim_space_same)

text \<open>A selection runs what it names: for features given by name, in any order and with repetitions, the filter asks for each of them once, in the order they are first named; a name that is
  no feature is an error, and so is an empty selection.\<close>

theorem selectFilter_exact:
  assumes "ns \<noteq> []" "list_all feature_name ns" "map_of presets (join '','' ns) = None"
  shows "selectFilter (Inr entries) (join '','' ns) = (if set ns \<subseteq> {n. (n, True) \<in> set entries} then Inr (join '' || '' (map ((@) ''suite:'') (uniq ns)))
    else Inl (Errorf ''unknown e2e feature %q in selection %q (use a preset or feature directory names)''
      [hd (filter (\<lambda>n. (n, True) \<notin> set entries) ns), join '','' ns] []))"
proof -
  have e: "set (map fst (filter snd entries)) = {n. (n, True) \<in> set entries}" by force
  have "split_on CHR '','' (join '','' ns) = ns" using assms(1,2) by (intro split_on_join) (auto simp: list_all_iff feature_name_def)
  then show ?thesis using join_trim [OF assms(1,2)] assms(3) feature_filters_exact [OF assms(2), of "map fst (filter snd entries)" "join '','' ns" "[]" "[]", unfolded e]
    by (simp add: selectFilter_def Let_def uniq_def)
qed

theorem selectFilter_exact_witness:
  "selectFilter (Inr [(''gpu'', True), (''storage'', True), (''x.go'', False)]) ''storage,gpu,storage'' = Inr ''suite:storage || suite:gpu''"
proof -
  have a: "list_all feature_name [''storage'', ''gpu'', ''storage'']" "map_of presets (join '','' [''storage'', ''gpu'', ''storage'']) = None" by code_simp+
  have j: "join '','' [''storage'', ''gpu'', ''storage''] = ''storage,gpu,storage''"
    "join '' || '' (map ((@) ''suite:'') (uniq [''storage'', ''gpu'', ''storage''])) = ''suite:storage || suite:gpu''" by code_simp+
  have "selectFilter (Inr [(''gpu'', True), (''storage'', True), (''x.go'', False)]) (join '','' [''storage'', ''gpu'', ''storage''])
      = Inr (join '' || '' (map ((@) ''suite:'') (uniq [''storage'', ''gpu'', ''storage''])))"
    by (subst selectFilter_exact [OF _ a]) auto
  then show ?thesis by (simp only: j)
qed

text \<open>A report is written only of a run against the image built from the commit under test, or the release that was asked for.\<close>

lemma verified_image:
  assumes "verifyControllerCommit d rel s = (Inr (commit, cc), s')"
  shows "\<exists>namespace deployment img s1 s2. controllerTarget d = (namespace, deployment)
    \<and> rd_output d [''kubectl'', ''-n'', namespace, ''get'', ''deployment'', deployment, ''-o'', ''jsonpath={.spec.template.spec.containers[0].image}''] s1 = (Inr img, s2)
    \<and> image_tag img = (if rel = [] then ''e2e-'' @ trim_suffix commit ''-dirty'' else ''v'' @ trim_prefix rel ''v'')"
proof -
  obtain sha s1 status s2 where "rd_output d [''git'', ''rev-parse'', ''--short'', ''HEAD''] s = (Inr sha, s1)" "rd_output d [''git'', ''status'', ''--porcelain''] s1 = (Inr status, s2)"
    using assms by (auto simp: verifyControllerCommit_def split: prod.splits sum.splits)
  moreover obtain namespace deployment where "controllerTarget d = (namespace, deployment)" by fastforce
  moreover obtain c s3 where "check_context d s2 = (c, s3)" by fastforce
  ultimately show ?thesis using assms
    by (auto simp: verifyControllerCommit_def check_image_def check_binary_def Let_def split: prod.splits sum.splits option.splits if_splits)
qed

end
