(* ===== verification/Node_Repair.thy ===== *)
theory Node_Repair
  imports Go_Float Go_Errors
begin

text \<open>
  Which nodes are repaired: the policies of the cloud provider (\<^verbatim>\<open>RepairPolicies\<close> of \<^verbatim>\<open>pkg/cloudprovider/cloudprovider.go\<close>) under the code of karpenter core that validates and
  evaluates them (vendored \<^verbatim>\<open>controllers/node/health/policy.go\<close>). Regular expressions are compiled by an argument; a panic is the value \<open>None\<close>.
\<close>

subsection \<open>Policies\<close>

definition RebootNode :: string where [go_defs]: "RebootNode = ''RebootNode''"
definition ReplaceNode :: string where [go_defs]: "ReplaceNode = ''ReplaceNode''"

record RepairPolicy =
  rp_ConditionType :: string
  rp_ConditionStatus :: string
  rp_ReasonRegex :: string
  rp_TolerationDuration :: duration
  rp_TerminationGracePeriod :: "duration option"
  rp_Priority :: int
  rp_Action :: string

definition minutes :: "int \<Rightarrow> duration" where "minutes n = n * 60 * 10 ^ 9"

definition repair_policy :: "string \<Rightarrow> string \<Rightarrow> string \<Rightarrow> duration \<Rightarrow> RepairPolicy" where
  "repair_policy t st rx tol = \<lparr>rp_ConditionType = t, rp_ConditionStatus = st, rp_ReasonRegex = rx, rp_TolerationDuration = tol,
     rp_TerminationGracePeriod = Some 0, rp_Priority = 0, rp_Action = ReplaceNode\<rparr>"

definition RepairPolicies :: "RepairPolicy list" where
  "RepairPolicies =
     [repair_policy ''Ready'' ''False'' ''.*'' (minutes 10), repair_policy ''Ready'' ''Unknown'' ''.*'' (minutes 10),
      repair_policy ''KernelDeadlock'' ''True'' ''.*'' (minutes 5), repair_policy ''ReadonlyFilesystem'' ''True'' ''.*'' (minutes 5),
      repair_policy ''FrequentKubeletRestart'' ''True'' ''.*'' (minutes 30), repair_policy ''FrequentContainerdRestart'' ''True'' [] (minutes 30)]"

text \<open>The error of \<^verbatim>\<open>NewNodeRebootNotImplementedError\<close> is the only value of its type.\<close>

definition Reboot :: "go_error option" where [go_defs]: "Reboot = Some (SentinelError ''reboot is not implemented by this cloud provider'')"

subsection \<open>The matcher\<close>

definition minRepairPolicyPriority :: int where "minRepairPolicyPriority = 0"
definition maxRepairPolicyPriority :: int where "maxRepairPolicyPriority = 100"
definition agingConstant :: duration where "agingConstant = minutes 30"

text \<open>\<^verbatim>\<open>regexp.Compile\<close>: what a pattern matches, if it is one.\<close>

type_synonym regex_compiler = "string \<Rightarrow> go_error + (string \<Rightarrow> bool)"

type_synonym policyKey = "string \<times> string"

record compiledPolicy =
  cmp_RepairPolicy :: RepairPolicy
  cmp_reasonRegex :: "(string \<Rightarrow> bool) option"
  cmp_Condition :: "string \<times> string \<times> string" \<comment> \<open>type, status and reason\<close>

record RepairPolicyMatcher =
  rpm_groups :: "(policyKey, compiledPolicy list) gomap"
  rpm_fallbackPolicy :: compiledPolicy
  rpm_ranks :: "(int, nat) gomap"

definition validConditionStatus :: "string \<Rightarrow> bool" where
  "validConditionStatus st \<longleftrightarrow> st \<in> {''True'', ''False'', ''Unknown''}"

text \<open>The condition type is a value of the structured error, not a part of its message.\<close>

definition repairPolicyError :: "RepairPolicy \<Rightarrow> go_error \<Rightarrow> go_error" where
  "repairPolicyError p err = Errorf ''validating repair policy for condition status %q, %w'' [rp_ConditionStatus p] [err]"

text \<open>\<^verbatim>\<open>multierr.Append\<close> on the errors so far: one error stays itself.\<close>

fun multierr :: "go_error list \<Rightarrow> go_error" where
  "multierr [e] = e"
| "multierr es = JoinError es"

definition validateRepairPolicy :: "RepairPolicy \<Rightarrow> string list \<Rightarrow> go_error list" where
  "validateRepairPolicy p supportedActions = map (repairPolicyError p)
     ((if rp_ConditionType p = [] then [Errorf ''%s has an empty condition type'' [] []] else [])
     @ (if \<not> validConditionStatus (rp_ConditionStatus p) then [Errorf ''%s has invalid condition status %q'' [rp_ConditionStatus p] []] else [])
     @ (if rp_TolerationDuration p < 0 then [Errorf ''%s has negative toleration duration %s'' [] []] else [])
     @ (case rp_TerminationGracePeriod p of Some t \<Rightarrow> if t < 0 then [Errorf ''%s has negative termination grace period %s'' [] []] else [] | None \<Rightarrow> [])
     @ (if rp_Priority p < minRepairPolicyPriority \<or> rp_Priority p > maxRepairPolicyPriority then [Errorf ''%s has priority %d outside the supported range [%d, %d]'' [itoa (rp_Priority p)] []] else [])
     @ (if rp_Action p \<notin> set supportedActions then [Errorf ''%s has unsupported action %q'' [rp_Action p] []] else []))"

definition compileRepairPolicy :: "regex_compiler \<Rightarrow> RepairPolicy \<Rightarrow> string list \<Rightarrow> compiledPolicy \<times> go_error list" where
  "compileRepairPolicy rx p supportedActions = (let errs = validateRepairPolicy p supportedActions; plain = \<lparr>cmp_RepairPolicy = p, cmp_reasonRegex = None, cmp_Condition = ([], [], [])\<rparr> in
     if rp_ReasonRegex p = [] then (plain, errs)
     else (case rx (rp_ReasonRegex p) of
         Inl err \<Rightarrow> (plain, errs @ [repairPolicyError p (Errorf ''policy[%d]=%+v has invalid reason regex, %w'' [] [err])])
       | Inr m \<Rightarrow> (plain\<lparr>cmp_reasonRegex := Some m\<rparr>, errs)))"

text \<open>The loop over the policies: the groups, the fallback and the errors so far.\<close>

fun matcher_loop :: "regex_compiler \<Rightarrow> string list \<Rightarrow> RepairPolicy list \<Rightarrow> (policyKey, compiledPolicy list) gomap \<Rightarrow> compiledPolicy option \<Rightarrow> go_error list
    \<Rightarrow> (policyKey, compiledPolicy list) gomap \<times> compiledPolicy option \<times> go_error list" where
  "matcher_loop rx acts [] groups fb errs = (groups, fb, errs)"
| "matcher_loop rx acts (p # ps) groups fb errs = (let key = (rp_ConditionType p, rp_ConditionStatus p);
       specific = (case map_get groups key of Some cs \<Rightarrow> cs | None \<Rightarrow> []); (compiled, perrs) = compileRepairPolicy rx p acts; errs = errs @ perrs in
     if rp_ReasonRegex p = [] then
       (case fb of
           Some _ \<Rightarrow> matcher_loop rx acts ps (map_set key specific groups) fb (errs @ [Errorf ''repair policy set has multiple default fallbacks: %+v and %+v'' [] []])
         | None \<Rightarrow> matcher_loop rx acts ps (map_set key specific groups) (Some compiled) errs)
     else matcher_loop rx acts ps (map_set key (specific @ [compiled]) groups) fb errs)"

definition denseRanks :: "RepairPolicy list \<Rightarrow> (int, nat) gomap" where
  "denseRanks ps = map (\<lambda>(rank, priority). (priority, rank)) (List.enumerate 0 (sort (uniq (map rp_Priority ps))))"

definition newRepairPolicyMatcher :: "regex_compiler \<Rightarrow> RepairPolicy list \<Rightarrow> string list \<Rightarrow> go_error + RepairPolicyMatcher" where
  "newRepairPolicyMatcher rx policies supportedActions = (case matcher_loop rx supportedActions policies [] None [] of
      (groups, None, errs) \<Rightarrow> Inl (multierr (errs @ [Errorf ''repair policy set must define one default fallback'' [] []]))
    | (groups, Some fb, errs) \<Rightarrow> (let errs = errs @ (if rp_Action (cmp_RepairPolicy fb) \<noteq> ReplaceNode then [Errorf ''default fallback policy %+v must use action %q'' [ReplaceNode] []] else []) in
        if errs \<noteq> [] then Inl (multierr errs)
        else Inr \<lparr>rpm_groups = groups, rpm_fallbackPolicy = fb, rpm_ranks = denseRanks policies\<rparr>))"

definition supportedRepairActions :: "string list" where "supportedRepairActions = [ReplaceNode, RebootNode]"

text \<open>\<open>enabled\<close> says that node repair is on and not the legacy one. No matcher is made otherwise.\<close>

definition NewRepairPolicyMatcher :: "regex_compiler \<Rightarrow> bool \<Rightarrow> RepairPolicy list \<Rightarrow> go_error + RepairPolicyMatcher option" where
  "NewRepairPolicyMatcher rx enabled policies = (if \<not> enabled then Inr None
     else if policies = [] then Inl (Errorf ''node repair requires the cloud provider to define RepairPolicies, but it defines none'' [] [])
     else (case newRepairPolicyMatcher rx policies supportedRepairActions of
         Inl err \<Rightarrow> Inl (Errorf ''node repair requires valid RepairPolicies, %w'' [] [err]) | Inr m \<Rightarrow> Inr (Some m)))"

subsection \<open>Matching a node\<close>

record matchCondition =
  mc_conditionType :: string
  mc_status :: string
  mc_reason :: string
  mc_lastTransition :: instant

record RepairPolicyMatch =
  pm_policy :: compiledPolicy
  pm_rank :: nat
  pm_eligibleAt :: instant

definition newMatch :: "RepairPolicyMatcher \<Rightarrow> compiledPolicy \<Rightarrow> string \<times> string \<times> string \<Rightarrow> instant \<Rightarrow> RepairPolicyMatch" where
  "newMatch m p condition transitionTime = \<lparr>pm_policy = p\<lparr>cmp_Condition := condition\<rparr>,
     pm_rank = (case map_get (rpm_ranks m) (rp_Priority (cmp_RepairPolicy p)) of Some r \<Rightarrow> r | None \<Rightarrow> 0),
     pm_eligibleAt = transitionTime + rp_TolerationDuration (cmp_RepairPolicy p)\<rparr>"

text \<open>A specific policy always has its expression.\<close>

definition reason_matches :: "string \<Rightarrow> compiledPolicy \<Rightarrow> bool" where
  "reason_matches reason p = (case cmp_reasonRegex p of Some f \<Rightarrow> f reason | None \<Rightarrow> False)"

definition match_condition :: "RepairPolicyMatcher \<Rightarrow> instant \<Rightarrow> matchCondition \<Rightarrow> RepairPolicyMatch list" where
  "match_condition m created c = (let condition = (mc_conditionType c, mc_status c, mc_reason c);
       transitionTime = (if mc_lastTransition c < created then created else mc_lastTransition c) in
     (case map_get (rpm_groups m) (mc_conditionType c, mc_status c) of None \<Rightarrow> []
      | Some specific \<Rightarrow> (let matched = filter (reason_matches (mc_reason c)) specific in
          if matched = [] then [newMatch m (rpm_fallbackPolicy m) condition transitionTime] else map (\<lambda>p. newMatch m p condition transitionTime) matched)))"

definition Match :: "RepairPolicyMatcher \<Rightarrow> instant \<Rightarrow> matchCondition list \<Rightarrow> RepairPolicyMatch list" where
  "Match m created conditions = concat (map (match_condition m created) conditions)"

subsection \<open>Deciding\<close>

record RepairResult =
  rr_Action :: string
  rr_Condition :: string
  rr_ConditionStatus :: string
  rr_Reason :: string
  rr_ReasonRegex :: string
  rr_Fallback :: bool
  rr_SelectedEligibleAt :: instant
  rr_TerminationGracePeriod :: "duration option"
  rr_TerminationGracePeriodCondition :: string
  rr_selectedPriority :: int
  rr_terminationGracePeriodEligibleAt :: instant
  rr_scoreRank :: nat
  rr_scoreEligibleAt :: instant

definition no_result :: RepairResult where
  "no_result = \<lparr>rr_Action = [], rr_Condition = [], rr_ConditionStatus = [], rr_Reason = [], rr_ReasonRegex = [], rr_Fallback = False, rr_SelectedEligibleAt = 0,
     rr_TerminationGracePeriod = None, rr_TerminationGracePeriodCondition = [], rr_selectedPriority = 0, rr_terminationGracePeriodEligibleAt = 0,
     rr_scoreRank = 0, rr_scoreEligibleAt = 0\<rparr>"

text \<open>\<^verbatim>\<open>Duration.Minutes\<close>, whose division truncates.\<close>

definition Minutes :: "duration \<Rightarrow> rat" where
  "Minutes d = (let q = sgn d * (\<bar>d\<bar> div (60 * 10 ^ 9)); r = d - q * (60 * 10 ^ 9) in fadd (float_of_int q) (fdiv (float_of_int r) (60 * 10 ^ 9)))"

definition score :: "nat \<Rightarrow> instant \<Rightarrow> instant \<Rightarrow> rat" where
  "score rank eligibleAt now = fadd (float_of_int (int rank)) (fdiv (Minutes (now - eligibleAt)) (Minutes agingConstant))"

definition ScoreAt :: "RepairResult \<Rightarrow> instant \<Rightarrow> rat" where
  "ScoreAt r now = (if rr_Action r = [] then 0 else score (rr_scoreRank r) (rr_scoreEligibleAt r) now)"

definition mergeScore :: "nat \<Rightarrow> instant \<Rightarrow> instant \<Rightarrow> bool \<Rightarrow> RepairResult \<Rightarrow> RepairResult" where
  "mergeScore rank eligibleAt now first r = (if first \<or> score rank eligibleAt now > ScoreAt r now then r\<lparr>rr_scoreRank := rank, rr_scoreEligibleAt := eligibleAt\<rparr> else r)"

definition shorterTerminationGracePeriod :: "RepairResult \<Rightarrow> duration \<Rightarrow> string \<Rightarrow> instant \<Rightarrow> bool" where
  "shorterTerminationGracePeriod r bound condition eligibleAt = (case rr_TerminationGracePeriod r of None \<Rightarrow> True
     | Some b \<Rightarrow> if bound \<noteq> b then bound < b
         else if eligibleAt \<noteq> rr_terminationGracePeriodEligibleAt r then eligibleAt < rr_terminationGracePeriodEligibleAt r
         else condition < rr_TerminationGracePeriodCondition r)"

definition repairActionRank :: "string \<Rightarrow> int option" where
  "repairActionRank action = (if action = ReplaceNode then Some 1 else if action = RebootNode then Some 0 else None)"

definition IsMoreDisruptiveThan :: "string \<Rightarrow> string \<Rightarrow> bool option" where
  "IsMoreDisruptiveThan a b = (case repairActionRank a of None \<Rightarrow> None | Some x \<Rightarrow> (case repairActionRank b of None \<Rightarrow> None | Some y \<Rightarrow> Some (x > y)))"

definition mergePolicy :: "compiledPolicy \<Rightarrow> nat \<Rightarrow> instant \<Rightarrow> instant \<Rightarrow> RepairResult \<Rightarrow> RepairResult option" where
  "mergePolicy cp rank eligibleAt now r0 = (case cmp_Condition cp of (ctype, cstatus, creason) \<Rightarrow> let p = cmp_RepairPolicy cp in
     if eligibleAt > now then Some r0
     else let first = (rr_Action r0 = []); r1 = mergeScore rank eligibleAt now first r0;
          r = (case rp_TerminationGracePeriod p of
              Some b \<Rightarrow> if shorterTerminationGracePeriod r1 b ctype eligibleAt
                then r1\<lparr>rr_TerminationGracePeriod := Some b, rr_TerminationGracePeriodCondition := ctype, rr_terminationGracePeriodEligibleAt := eligibleAt\<rparr> else r1
            | None \<Rightarrow> r1)
       in (case (if first then Some True else IsMoreDisruptiveThan (rp_Action p) (rr_Action r)) of None \<Rightarrow> None
         | Some sel0 \<Rightarrow> (let sel = (if rp_Action p = rr_Action r then
                 (if rp_Priority p \<noteq> rr_selectedPriority r then rp_Priority p > rr_selectedPriority r
                  else if eligibleAt \<noteq> rr_SelectedEligibleAt r then eligibleAt < rr_SelectedEligibleAt r else ctype < rr_Condition r) else sel0) in
             Some (if sel then r\<lparr>rr_Action := rp_Action p, rr_Condition := ctype, rr_ConditionStatus := cstatus, rr_Reason := creason, rr_ReasonRegex := rp_ReasonRegex p,
                 rr_Fallback := (rp_ReasonRegex p = []), rr_SelectedEligibleAt := eligibleAt, rr_selectedPriority := rp_Priority p\<rparr> else r))))"

fun resolve_matches :: "instant \<Rightarrow> instant \<Rightarrow> RepairPolicyMatch list \<Rightarrow> RepairResult \<Rightarrow> RepairResult option" where
  "resolve_matches now notBefore [] r = Some r"
| "resolve_matches now notBefore (m # ms) r = (let earliest = notBefore + rp_TolerationDuration (cmp_RepairPolicy (pm_policy m));
       eligibleAt = (if pm_eligibleAt m < earliest then earliest else pm_eligibleAt m) in
     (case mergePolicy (pm_policy m) (pm_rank m) eligibleAt now r of None \<Rightarrow> None | Some r \<Rightarrow> resolve_matches now notBefore ms r))"

definition Resolve :: "RepairPolicyMatch list \<Rightarrow> instant \<Rightarrow> instant \<Rightarrow> RepairResult option" where
  "Resolve matches now notBefore = resolve_matches now notBefore matches no_result"

subsection \<open>Which nodes are replaced\<close>

text \<open>The conditions of an unhealthy node, and how long each of them has to last.\<close>

definition repair_after :: "string \<times> string \<Rightarrow> duration option" where
  "repair_after = map_of [((''Ready'', ''False''), minutes 10), ((''Ready'', ''Unknown''), minutes 10), ((''KernelDeadlock'', ''True''), minutes 5),
     ((''ReadonlyFilesystem'', ''True''), minutes 5), ((''FrequentKubeletRestart'', ''True''), minutes 30), ((''FrequentContainerdRestart'', ''True''), minutes 30)]"

definition any_reason :: "RepairPolicy \<Rightarrow> compiledPolicy" where
  "any_reason p = \<lparr>cmp_RepairPolicy = p, cmp_reasonRegex = (if rp_ReasonRegex p = [] then None else Some (\<lambda>_. True)), cmp_Condition = ([], [], [])\<rparr>"

lemma valid_policy: "rp_ConditionType (repair_policy t st rx tol) \<noteq> [] \<Longrightarrow> validConditionStatus st \<Longrightarrow> 0 \<le> tol \<Longrightarrow> validateRepairPolicy (repair_policy t st rx tol) supportedRepairActions = []"
  by (simp add: validateRepairPolicy_def repair_policy_def minRepairPolicyPriority_def maxRepairPolicyPriority_def supportedRepairActions_def)

lemma compile_policy:
  assumes "rx ''.*'' = Inr (\<lambda>_. True)" "t \<noteq> []" "validConditionStatus st" "0 \<le> tol" "r \<in> {[], ''.*''}"
  shows "compileRepairPolicy rx (repair_policy t st r tol) supportedRepairActions = (any_reason (repair_policy t st r tol), [])"
  using assms valid_policy [of t st r tol] by (auto simp: compileRepairPolicy_def any_reason_def Let_def repair_policy_def)

lemma policies_accepted:
  assumes "rx ''.*'' = Inr (\<lambda>_. True)"
  shows "\<exists>m. newRepairPolicyMatcher rx RepairPolicies supportedRepairActions = Inr m \<and> rpm_fallbackPolicy m = any_reason (repair_policy ''FrequentContainerdRestart'' ''True'' [] (minutes 30))
    \<and> map_of (rpm_groups m) = map_of [((''Ready'', ''False''), [any_reason (repair_policy ''Ready'' ''False'' ''.*'' (minutes 10))]),
        ((''Ready'', ''Unknown''), [any_reason (repair_policy ''Ready'' ''Unknown'' ''.*'' (minutes 10))]), ((''KernelDeadlock'', ''True''), [any_reason (repair_policy ''KernelDeadlock'' ''True'' ''.*'' (minutes 5))]),
        ((''ReadonlyFilesystem'', ''True''), [any_reason (repair_policy ''ReadonlyFilesystem'' ''True'' ''.*'' (minutes 5))]),
        ((''FrequentKubeletRestart'', ''True''), [any_reason (repair_policy ''FrequentKubeletRestart'' ''True'' ''.*'' (minutes 30))]), ((''FrequentContainerdRestart'', ''True''), [])]"
proof -
  have v: "validConditionStatus ''True''" "validConditionStatus ''False''" "validConditionStatus ''Unknown''" "0 \<le> minutes 10" "0 \<le> minutes 5" "0 \<le> minutes 30"
    by (simp_all add: validConditionStatus_def minutes_def)
  note c = compile_policy [where rx = rx, OF assms]
  have key: "rp_ConditionType (repair_policy t st r tol) = t" "rp_ConditionStatus (repair_policy t st r tol) = st" "rp_ReasonRegex (repair_policy t st r tol) = r"
    "rp_Action (cmp_RepairPolicy (any_reason (repair_policy t st r tol))) = ReplaceNode" for t st r tol by (simp_all add: repair_policy_def any_reason_def)
  show ?thesis
    by (simp add: newRepairPolicyMatcher_def RepairPolicies_def c v key Let_def) (auto simp: fun_eq_iff)
qed

definition replacing :: "RepairPolicyMatch \<Rightarrow> bool" where
  "replacing x \<longleftrightarrow> rp_Action (cmp_RepairPolicy (pm_policy x)) = ReplaceNode \<and> rp_TerminationGracePeriod (cmp_RepairPolicy (pm_policy x)) = Some 0"

definition eligible_from :: "instant \<Rightarrow> RepairPolicyMatch \<Rightarrow> instant" where
  "eligible_from notBefore x = max (pm_eligibleAt x) (notBefore + rp_TolerationDuration (cmp_RepairPolicy (pm_policy x)))"

lemma six_cases: "(k = a \<Longrightarrow> P) \<Longrightarrow> (k = b \<Longrightarrow> P) \<Longrightarrow> (k = c \<Longrightarrow> P) \<Longrightarrow> (k = d \<Longrightarrow> P) \<Longrightarrow> (k = e \<Longrightarrow> P) \<Longrightarrow> (k = f \<Longrightarrow> P) \<Longrightarrow> (k \<notin> {a, b, c, d, e, f} \<Longrightarrow> P) \<Longrightarrow> P"
  by blast

lemma match_condition_policy:
  assumes "rx ''.*'' = Inr (\<lambda>_. True)" "newRepairPolicyMatcher rx RepairPolicies supportedRepairActions = Inr m"
  shows "case repair_after (mc_conditionType c, mc_status c) of None \<Rightarrow> match_condition m created c = []
    | Some tol \<Rightarrow> \<exists>x. match_condition m created c = [x] \<and> replacing x \<and> (\<forall>notBefore. eligible_from notBefore x = max (max created (mc_lastTransition c)) notBefore + tol)"
proof -
  obtain m' where "newRepairPolicyMatcher rx RepairPolicies supportedRepairActions = Inr m'"
    and m': "rpm_fallbackPolicy m' = any_reason (repair_policy ''FrequentContainerdRestart'' ''True'' [] (minutes 30))"
      "map_of (rpm_groups m') = map_of [((''Ready'', ''False''), [any_reason (repair_policy ''Ready'' ''False'' ''.*'' (minutes 10))]),
        ((''Ready'', ''Unknown''), [any_reason (repair_policy ''Ready'' ''Unknown'' ''.*'' (minutes 10))]), ((''KernelDeadlock'', ''True''), [any_reason (repair_policy ''KernelDeadlock'' ''True'' ''.*'' (minutes 5))]),
        ((''ReadonlyFilesystem'', ''True''), [any_reason (repair_policy ''ReadonlyFilesystem'' ''True'' ''.*'' (minutes 5))]),
        ((''FrequentKubeletRestart'', ''True''), [any_reason (repair_policy ''FrequentKubeletRestart'' ''True'' ''.*'' (minutes 30))]), ((''FrequentContainerdRestart'', ''True''), [])]"
    using policies_accepted [where rx = rx, OF assms(1)] by blast
  then have "m' = m" using assms(2) by simp
  note m = m' [unfolded this]
  define tt where "tt = (if mc_lastTransition c < created then created else mc_lastTransition c)"
  define key where "key = (mc_conditionType c, mc_status c)"
  have one: "match_condition m created c = [newMatch m p (mc_conditionType c, mc_status c, mc_reason c) tt]"
    if "map_of (rpm_groups m) key = Some cs" "filter (reason_matches (mc_reason c)) cs = (if p = rpm_fallbackPolicy m then [] else [p])" for cs p
    using that unfolding match_condition_def Let_def tt_def [symmetric] by (auto simp: key_def)
  have ok: "replacing (newMatch m (any_reason (repair_policy t st r tol)) w tt)
      \<and> (\<forall>nb. eligible_from nb (newMatch m (any_reason (repair_policy t st r tol)) w tt) = max (max created (mc_lastTransition c)) nb + tol)" for t st r tol w
    by (auto simp: replacing_def eligible_from_def newMatch_def any_reason_def repair_policy_def tt_def)
  have rm: "reason_matches q (any_reason (repair_policy t st ''.*'' tol))" "any_reason (repair_policy t st ''.*'' tol) \<noteq> rpm_fallbackPolicy m" for q t st tol
    by (simp_all add: reason_matches_def any_reason_def repair_policy_def m)
  have none: "match_condition m created c = []" if "map_of (rpm_groups m) key = None" using that by (simp add: match_condition_def key_def Let_def)
  have hit: ?thesis if "map_of (rpm_groups m) key = Some [any_reason (repair_policy t st ''.*'' tol)]" "repair_after key = Some tol" for t st tol
    using one [OF that(1), of "any_reason (repair_policy t st ''.*'' tol)"] ok [of t st "''.*''" tol] that(2) rm by (simp add: key_def)
  have fallback: ?thesis if "map_of (rpm_groups m) key = Some []" "repair_after key = Some (minutes 30)"
    using one [OF that(1), of "rpm_fallbackPolicy m"] ok [of "''FrequentContainerdRestart''" "''True''" "[]" "minutes 30"] that(2) by (simp add: key_def m(1))
  show ?thesis
  proof (cases rule: six_cases [of key "(''Ready'', ''False'')" _ "(''Ready'', ''Unknown'')" "(''KernelDeadlock'', ''True'')" "(''ReadonlyFilesystem'', ''True'')"
      "(''FrequentKubeletRestart'', ''True'')" "(''FrequentContainerdRestart'', ''True'')"])
    case 1 show ?thesis by (rule hit [of "''Ready''" "''False''" "minutes 10"]) (simp_all only: 1 m(2) repair_after_def, simp_all)
  next
    case 2 show ?thesis by (rule hit [of "''Ready''" "''Unknown''" "minutes 10"]) (simp_all only: 2 m(2) repair_after_def, simp_all)
  next
    case 3 show ?thesis by (rule hit [of "''KernelDeadlock''" "''True''" "minutes 5"]) (simp_all only: 3 m(2) repair_after_def, simp_all)
  next
    case 4 show ?thesis by (rule hit [of "''ReadonlyFilesystem''" "''True''" "minutes 5"]) (simp_all only: 4 m(2) repair_after_def, simp_all)
  next
    case 5 show ?thesis by (rule hit [of "''FrequentKubeletRestart''" "''True''" "minutes 30"]) (simp_all only: 5 m(2) repair_after_def, simp_all)
  next
    case 6 show ?thesis by (rule fallback) (simp_all only: 6 m(2) repair_after_def, simp_all)
  next
    case 7
    then have "map_of (rpm_groups m) key = None" "repair_after key = None" unfolding m(2) repair_after_def map_of_eq_None_iff by simp_all
    then show ?thesis using none by (simp add: key_def)
  qed
qed

subsection \<open>The decision\<close>

text \<open>A result no policy was merged into, or one that replaces the node at once.\<close>

definition replaces :: "bool \<Rightarrow> RepairResult \<Rightarrow> bool" where
  "replaces b r \<longleftrightarrow> (if b then rr_Action r = ReplaceNode \<and> rr_TerminationGracePeriod r = Some 0 else rr_Action r = [] \<and> rr_TerminationGracePeriod r = None)"

lemma mergeScore_keeps [simp]:
  "rr_Action (mergeScore rank e now f r) = rr_Action r" "rr_TerminationGracePeriod (mergeScore rank e now f r) = rr_TerminationGracePeriod r"
  by (simp_all add: mergeScore_def)

lemma merge_replacing:
  assumes "replacing x" "replaces b r"
  shows "\<exists>r'. mergePolicy (pm_policy x) (pm_rank x) e now r = Some r' \<and> replaces (b \<or> e \<le> now) r'"
proof (cases "e \<le> now")
  case False
  then show ?thesis using assms(2) by (auto simp: mergePolicy_def split: prod.splits)
next
  case True
  obtain ct cs cr where c: "cmp_Condition (pm_policy x) = (ct, cs, cr)" using prod_cases3 by blast
  define r1 where "r1 = mergeScore (pm_rank x) e now (rr_Action r = []) r"
  have r1: "rr_Action r1 = rr_Action r" "rr_TerminationGracePeriod r1 = rr_TerminationGracePeriod r" by (simp_all add: r1_def)
  define r2 where "r2 = (if shorterTerminationGracePeriod r1 0 ct e then r1\<lparr>rr_TerminationGracePeriod := Some 0, rr_TerminationGracePeriodCondition := ct, rr_terminationGracePeriodEligibleAt := e\<rparr> else r1)"
  have r2: "rr_Action r2 = rr_Action r" "rr_TerminationGracePeriod r2 = Some 0"
    using assms(2) r1 by (auto simp: r2_def replaces_def shorterTerminationGracePeriod_def split: if_splits option.splits)
  have a: "rr_Action r = [] \<or> rr_Action r = ReplaceNode" using assms(2) by (auto simp: replaces_def split: if_splits)
  have d: "IsMoreDisruptiveThan ReplaceNode ReplaceNode = Some False" by (simp add: IsMoreDisruptiveThan_def repairActionRank_def)
  have n: "ReplaceNode \<noteq> []" by (simp add: ReplaceNode_def)
  show ?thesis
    using a assms(1) True unfolding mergePolicy_def c replacing_def prod.case Let_def r1_def [symmetric]
    by (elim disjE) (simp_all add: r2_def [symmetric] r2 d n replaces_def)
qed

lemma resolve_replacing:
  assumes "\<forall>x\<in>set ms. replacing x" "replaces b r"
  shows "\<exists>r'. resolve_matches now notBefore ms r = Some r' \<and> replaces (b \<or> (\<exists>x\<in>set ms. eligible_from notBefore x \<le> now)) r'"
  using assms
proof (induction ms arbitrary: b r)
  case (Cons x ms)
  have e: "(if pm_eligibleAt x < notBefore + rp_TolerationDuration (cmp_RepairPolicy (pm_policy x)) then notBefore + rp_TolerationDuration (cmp_RepairPolicy (pm_policy x)) else pm_eligibleAt x)
    = eligible_from notBefore x" by (simp add: eligible_from_def)
  obtain r1 where r1: "mergePolicy (pm_policy x) (pm_rank x) (eligible_from notBefore x) now r = Some r1" "replaces (b \<or> eligible_from notBefore x \<le> now) r1"
    using merge_replacing [of x b r "eligible_from notBefore x" now] Cons.prems by auto
  obtain r' where r': "resolve_matches now notBefore ms r1 = Some r'" "replaces ((b \<or> eligible_from notBefore x \<le> now) \<or> (\<exists>x\<in>set ms. eligible_from notBefore x \<le> now)) r'"
    using Cons.IH [OF _ r1(2)] Cons.prems by auto
  show ?case using r1(1) r' by (simp only: resolve_matches.simps Let_def e option.case) (simp add: disj_assoc)
qed simp

text \<open>The condition has lasted as long as its policy asks, counted from no earlier than the node's creation and \<^verbatim>\<open>notBefore\<close>.\<close>

definition overdue :: "instant \<Rightarrow> instant \<Rightarrow> instant \<Rightarrow> matchCondition \<Rightarrow> bool" where
  "overdue created notBefore now c = (case repair_after (mc_conditionType c, mc_status c) of None \<Rightarrow> False
     | Some tol \<Rightarrow> max (max created (mc_lastTransition c)) notBefore + tol \<le> now)"

lemma match_overdue:
  assumes "rx ''.*'' = Inr (\<lambda>_. True)" "newRepairPolicyMatcher rx RepairPolicies supportedRepairActions = Inr m"
  shows "(\<forall>x\<in>set (Match m created cs). replacing x) \<and> ((\<exists>x\<in>set (Match m created cs). eligible_from nb x \<le> now) \<longleftrightarrow> (\<exists>c\<in>set cs. overdue created nb now c))"
proof -
  have "(\<forall>x\<in>set (match_condition m created c). replacing x) \<and> ((\<exists>x\<in>set (match_condition m created c). eligible_from nb x \<le> now) \<longleftrightarrow> overdue created nb now c)" for c
    using match_condition_policy [where rx = rx and c = c and created = created, OF assms] by (cases "repair_after (mc_conditionType c, mc_status c)") (auto simp: overdue_def)
  then show ?thesis by (auto simp: Match_def)
qed



end
