(* ===== verification/Capacity_Feedback.thy ===== *)
theory Capacity_Feedback
  imports Launch_Safety Instance_Catalog Interruption
begin

text \<open>
  How missing capacity feeds back, across the components: the launch and the interruption controller mark offerings as unavailable, and the zone selection of the next launch and the catalog that the
  scheduler sees leave them out.
\<close>

subsection \<open>An offering that is backed off\<close>

definition backed_off :: "string \<Rightarrow> string \<Rightarrow> string \<Rightarrow> instant \<Rightarrow> uo_state \<Rightarrow> bool" where
  "backed_off name zone ct end u \<longleftrightarrow> (\<forall>t \<le> end. IsUnavailable t name zone ct u)"

lemma backed_offD: "backed_off name zone ct end u \<Longrightarrow> t \<le> end \<Longrightarrow> IsUnavailable t name zone ct u"
  by (simp add: backed_off_def)

lemma backed_off_earlier: "backed_off name zone ct end u \<Longrightarrow> end' \<le> end \<Longrightarrow> backed_off name zone ct end' u"
  by (simp add: backed_off_def)

text \<open>It is not selected, and the catalog does not list it as available.\<close>

lemma backed_off_not_selected:
  assumes "backed_off (it_name it) zone ct end (ls_uo st)" "dep_ResolveClusterZones d (ls_ext st) = (Inr configured, s)" "dep_now d s \<le> end"
    and "\<And>n s. 0 < n \<Longrightarrow> fst (dep_random d n s) < n" "fst (selectZone e d claim it ct st) = Inr z"
  shows "z = [] \<or> z \<noteq> zone"
proof (cases "z = []")
  case False
  from selectZone_live [OF assms(2,4,5) False] have "\<not> IsUnavailable (dep_now d s) (it_name it) z ct (ls_uo st)" by (simp add: live_zones_def)
  then show ?thesis using backed_offD [OF assms(1,3)] by auto
qed simp

lemma backed_off_not_listed:
  assumes "catalog_run d ncs cats st" "hashes_separate d ncs cats" "\<forall>nc \<in> ncs. admissible nc" "nc \<in> ncs"
    and "catalog_List d nc st s = Some (Inr its, st', s')" "id_ResolveClusterZones d s = (Inr zones, s1)" "distinct zones" "it \<in> set its"
    and "backed_off (it_name it) zone ct end (id_unavailable d s1)" "id_now d s1 \<le> end"
    and "f \<in> set (it_offerings it)" "offering_Zone rnd f = zone" "offering_CapacityType rnd f = ct"
  shows "\<not> of_available f"
proof -
  from listed_offerings_set [OF assms(1-8), of rnd] assms(11) obtain z ct' p
    where f: "f = createOffering z ct' p (\<not> IsUnavailable (id_now d s1) (it_name it) z ct' (id_unavailable d s1))" by blast
  then have "z = zone" "ct' = ct" using assms(12,13) by simp_all
  with f backed_offD [OF assms(9,10)] show ?thesis by simp
qed

subsection \<open>What a failed attempt marks\<close>

lemma uo_key_zone: "uo_key name z ct = uo_key name z' ct \<longleftrightarrow> z = z'"
  by (simp add: uo_key_def)

lemma IsUnavailable_zone_marks:
  assumes "0 < now" "0 < ttl"
  shows "IsUnavailable t name z ct (foldl (\<lambda>u z. MarkUnavailableWithTTL now name z ct ttl u) u zs) \<longleftrightarrow>
    (if z \<in> set zs then t \<le> now + ttl else IsUnavailable t name z ct u)"
proof (induction zs rule: rev_induct)
  case (snoc z' zs)
  show ?case
  proof (cases "z' = z")
    case True
    then show ?thesis using IsUnavailable_mark_same [OF assms, of t name z ct] by simp
  next
    case False
    with IsUnavailable_mark_other [of name z' ct name z ct t now ttl] snoc show ?thesis by (auto simp: uo_key_zone)
  qed
qed simp

text \<open>The shortest back-off of an attempt after which the launch goes on with another instance type. A quota back-off of zero is switched off.\<close>

definition least_backoff :: "duration option \<Rightarrow> duration" where
  "least_backoff opts = (if quotaExceededTTL opts = 0 then stockoutTTL else min (quotaExceededTTL opts) stockoutTTL)"

lemma backoff_message [simp]:
  "insufficientCapacityBackoffTTL opts (x\<lparr>icd_message := m\<rparr>) = insufficientCapacityBackoffTTL opts x" "isQuotaExceeded (x\<lparr>icd_message := m\<rparr>) = isQuotaExceeded x"
  by (simp_all add: insufficientCapacityBackoffTTL_def isQuotaExceeded_def isIPSpaceExhausted_def isUnsupportedConfiguration_def)

lemma mark_backs_off:
  assumes "0 < now" "0 < insufficientCapacityBackoffTTL opts x" "end \<le> now + insufficientCapacityBackoffTTL opts x"
  shows "backed_off name zone ct end (snd (markInsufficientCapacity showd opts now name zone ct x u))"
  using assms IsUnavailable_mark_same [OF assms(1,2)] by (auto simp: backed_off_def markInsufficientCapacity_def Let_def)

lemma quota_backs_off:
  assumes "0 < now" "isQuotaExceeded x" "0 < quotaExceededTTL opts" "end \<le> now + quotaExceededTTL opts"
  shows "backed_off (it_name it) zone ct end (snd (markQuotaExceeded rnd showd opts now it zone ct x u))"
proof -
  let ?others = "filter (\<lambda>f. \<not> (offering_CapacityType rnd f \<noteq> ct \<or> offering_Zone rnd f = [] \<or> offering_Zone rnd f = zone)) (it_offerings it)"
  have ttl: "insufficientCapacityBackoffTTL opts x = quotaExceededTTL opts" using assms(2) by (simp add: insufficientCapacityBackoffTTL_def)
  have "snd (markQuotaExceeded rnd showd opts now it zone ct x u) =
      foldl (\<lambda>u z. MarkUnavailableWithTTL now (it_name it) z ct (quotaExceededTTL opts) u) u (zone # map (offering_Zone rnd) ?others)"
    by (simp add: markQuotaExceeded_def markInsufficientCapacity_def Let_def ttl foldl_map)
  then show ?thesis using assms(4) by (simp only: backed_off_def IsUnavailable_zone_marks [OF assms(1,3)]) auto
qed

lemma give_up_backs_off:
  assumes g: "give_up e d it zone ct err (still_insufficient d dt) (ip_exhausted dt) st = ((True, err'), st')"
    and "IsInsufficientCapacityError err'" "\<not> IsInsufficientCapacityError err"
    and now: "0 < dep_now d (ls_ext st)" and q: "0 \<le> quotaExceededTTL (dep_quotaTTL d)"
  shows "backed_off (it_name it) zone ct (dep_now d (ls_ext st) + least_backoff (dep_quotaTTL d)) (ls_uo st')"
proof (cases "still_insufficient d dt")
  case None
  then show ?thesis using g assms(2,3) by (auto simp: give_up_def handleResourceNotReadyError_def split: if_splits)
next
  case (Some x)
  then have dt: "dt = Some x" and z: "isQuotaExceeded x \<Longrightarrow> quotaExceededTTL (dep_quotaTTL d) \<noteq> 0" by (auto simp: still_insufficient_def split: option.splits if_splits)
  show ?thesis
  proof (cases "isQuotaExceeded x")
    case True
    then have "ls_uo st' = snd (markQuotaExceeded (be_rnd e) (be_showDuration e) (dep_quotaTTL d) (dep_now d (ls_ext st)) it zone ct x (ls_uo st))"
      using g Some by (auto simp: give_up_def Let_def split: prod.splits)
    then show ?thesis using quota_backs_off [OF now True] q z [OF True] by (simp add: least_backoff_def)
  next
    case False
    then have u: "ls_uo st' = snd (markInsufficientCapacity (be_showDuration e) (dep_quotaTTL d) (dep_now d (ls_ext st)) (it_name it) zone ct x (ls_uo st))"
      using g Some by (auto simp: give_up_def Let_def split: prod.splits)
    have "\<not> isIPSpaceExhausted x"
      using g Some False dt by (auto simp: give_up_def ip_exhausted_def handleResourceNotReadyError_def Let_def split: prod.splits if_splits)
    then have "stockoutTTL \<le> insufficientCapacityBackoffTTL (dep_quotaTTL d) x" "0 < insufficientCapacityBackoffTTL (dep_quotaTTL d) x"
      using False by (simp_all add: insufficientCapacityBackoffTTL_def go_defs)
    then show ?thesis unfolding u by (intro mark_backs_off [OF now]) (auto simp: least_backoff_def intro: min.coboundedI2)
  qed
qed

text \<open>The errors of the Compute client and of the context are not karpenter's own.\<close>

definition plain_errors :: "'s instance_deps \<Rightarrow> bool" where
  "plain_errors d \<longleftrightarrow> (\<forall>zone i s err s'. dep_Insert d zone i s = (Inl err, s') \<longrightarrow> \<not> IsInsufficientCapacityError err)
     \<and> (\<forall>zone n s err s'. dep_OperationsGet d zone n s = (Inl err, s') \<longrightarrow> \<not> IsInsufficientCapacityError err)
     \<and> (\<forall>s err. dep_ctxErr d s = Some err \<longrightarrow> \<not> IsInsufficientCapacityError err)"

lemma ContextError_plain [simp]: "\<not> IsInsufficientCapacityError (ContextError m)"
  by (simp add: IsInsufficientCapacityError_def errors_as_step)

lemma details_plain [simp]: "\<not> IsInsufficientCapacityError (InsufficientCapacity x)"
  by (simp add: IsInsufficientCapacityError_def errors_as_step)

lemma wait_plain:
  assumes "plain_errors d" "waitOperationDone (dep_OperationsGet d) (dep_ctxErr d) zone name n s = (Some err, s')"
  shows "\<not> IsInsufficientCapacityError err"
  using assms(2)
proof (induction n arbitrary: s)
  case 0
  obtain g s1 where g: "dep_OperationsGet d zone name s = (g, s1)" by (metis prod.exhaust)
  then have "\<not> IsInsufficientCapacityError e" if "g = Inl e" for e using assms(1) that unfolding plain_errors_def by blast
  moreover have "\<not> IsInsufficientCapacityError e" if "dep_ctxErr d s1 = Some e" for e using assms(1) that unfolding plain_errors_def by blast
  ultimately show ?case using 0 [unfolded waitOperationDone.simps [of _ _ _ _ 0] g] by (auto simp: handleZoneOperationError_def split: sum.splits option.splits if_splits)
next
  case (Suc n)
  obtain g s1 where g: "dep_OperationsGet d zone name s = (g, s1)" by (metis prod.exhaust)
  then have "\<not> IsInsufficientCapacityError e" if "g = Inl e" for e using assms(1) that unfolding plain_errors_def by blast
  moreover have "\<not> IsInsufficientCapacityError e" if "dep_ctxErr d s1 = Some e" for e using assms(1) that unfolding plain_errors_def by blast
  ultimately show ?case using Suc.prems [unfolded waitOperationDone.simps [of _ _ _ _ "Suc n"] g] Suc.IH
    by (auto simp: handleZoneOperationError_def split: sum.splits option.splits if_splits)
qed

lemma insert_and_wait_plain:
  assumes "plain_errors d" "insert_and_wait d zone i rangeName s = ((Some err, dt, rej), s')"
  shows "\<not> IsInsufficientCapacityError err"
proof (cases "dep_Insert d zone i s")
  case (Pair r s1)
  show ?thesis
  proof (cases r)
    case (Inl err')
    with assms(2) Pair have "err = err'" by (simp add: insert_and_wait_def)
    with assms(1) Pair Inl show ?thesis unfolding plain_errors_def by blast
  next
    case (Inr opn)
    with assms(2) Pair have "waitOperationDone (dep_OperationsGet d) (dep_ctxErr d) zone (op_Name opn) (dep_ticks d s1) s1 = (Some err, s')"
      by (auto simp: insert_and_wait_def split: prod.splits option.splits)
    then show ?thesis by (rule wait_plain [OF assms(1)])
  qed
qed

text \<open>An attempt that ends the launch does not say that it may go on.\<close>

lemma give_up_final: "fst (give_up e d it zone ct err dt ex st) \<noteq> (False, RetryableError err')"
  by (auto simp: give_up_def handleResourceNotReadyError_def markQuotaExceeded_def markInsufficientCapacity_def newInsufficientCapacityError_def Let_def split: option.splits prod.splits)

lemma try_ranges_final: "fst (try_ranges e d claim nc it source cl zone name ct mt n disc ranges st) \<noteq> Inl (False, RetryableError err)"
proof (induction ranges arbitrary: st)
  case (Cons rangeName ranges)
  show ?case
  proof (rule try_ranges_step [of e d claim nc it source cl zone name ct mt n rangeName st disc ranges], goal_cases)
    case (3 i hashes s err' dt rej s')
    let ?st = "after_failure d zone name i disc dt rej hashes s' st"
    show ?case unfolding 3(3) Let_def
      using Cons.IH [of ?st] give_up_final [of e d it zone ct err' "still_insufficient d dt" "ip_exhausted dt" ?st err] by (auto split: prod.splits)
  qed simp_all
qed simp

lemma try_ranges_backs_off:
  assumes "plain_errors d" "\<And>s. 0 < dep_now d s" "0 \<le> quotaExceededTTL (dep_quotaTTL d)" "IsInsufficientCapacityError err"
    and "try_ranges e d claim nc it source cl zone name ct mt n disc ranges st = (Inl (True, err), st')"
  shows "backed_off (it_name it) zone ct (dep_now d (ls_ext st') + least_backoff (dep_quotaTTL d)) (ls_uo st')"
  using assms(5)
proof (induction ranges arbitrary: st)
  case (Cons rangeName ranges)
  show ?case
  proof (rule try_ranges_step [of e d claim nc it source cl zone name ct mt n rangeName st disc ranges], goal_cases)
    case (1 err' hashes s)
    then show ?case using Cons.prems by simp
  next
    case (2 i hashes s dt rej s')
    then show ?case using Cons.prems by simp
  next
    case (3 i hashes s err' dt rej s')
    let ?st = "after_failure d zone name i disc dt rej hashes s' st"
    show ?case
    proof (cases "ip_exhausted dt \<and> ranges \<noteq> []")
      case True
      then show ?thesis using Cons.prems Cons.IH [of ?st] unfolding 3(3) Let_def by simp
    next
      case False
      have g: "give_up e d it zone ct err' (still_insufficient d dt) (ip_exhausted dt) ?st = ((True, err), st')"
        using Cons.prems unfolding 3(3) Let_def if_not_P [OF False] by (simp split: prod.splits)
      have "ls_ext st' = ls_ext ?st" using give_up_ext [of e d it zone ct err' "still_insufficient d dt" "ip_exhausted dt" ?st] g by simp
      then show ?thesis
        using give_up_backs_off [OF g assms(4) insert_and_wait_plain [OF assms(1) 3(2)] assms(2,3)] by simp
    qed
  qed
qed (use assms(4) in auto)

text \<open>An attempt that made an insert and goes on, for lack of capacity, with another instance type.\<close>

lemma attempt_backs_off:
  assumes "plain_errors d" "\<And>s. 0 < dep_now d s" "0 \<le> quotaExceededTTL (dep_quotaTTL d)" "IsInsufficientCapacityError err"
    and "tryCreateInstance e d nc claim it ct attempted freeIPs st = ((Inl (RetryableError err), zone), st')" "ls_history st' \<noteq> ls_history st"
  shows "backed_off (it_name it) zone ct (dep_now d (ls_ext st') + least_backoff (dep_quotaTTL d)) (ls_uo st')"
proof (cases "resolveCreateSSDCount it")
  case (Inl err')
  then show ?thesis using assms(5,6) by (simp add: tryCreateInstance_def)
next
  case (Inr n)
  obtain zr st1 where z: "selectZone e d claim it ct st = (zr, st1)" by (metis prod.exhaust)
  then have h1: "ls_history st1 = ls_history st" using selectZone_history [of e d claim it ct st] by simp
  obtain sr s2 where s: "dep_GetSourceTemplateMetadata d (ls_ext st1) = (sr, s2)" by (metis prod.exhaust)
  obtain cr s3 where c: "dep_GetClusterConfig d s2 = (cr, s3)" by (metis prod.exhaust)
  obtain z1 source cl where ok: "zr = Inr z1" "sr = Inr source" "cr = Inr cl"
    using assms(5,6) Inr z s c h1 by (cases zr; cases sr; cases cr) (auto simp: tryCreateInstance_def Let_def)
  obtain fr s4 where f: "find_existing d (instanceName_of claim) (uniq (z1 # attempted)) s3 = (fr, s4)" by (metis prod.exhaust)
  let ?run = "try_ranges e d claim nc it source cl z1 (instanceName_of claim) ct (dep_GetMachineType d (it_name it) (ls_ext st)) n
     (PodSubnetRangeNames nc = []) (rankPodRangeNames (resolvedPodRangeNames nc cl) freeIPs) (st1\<lparr>ls_ext := s4\<rparr>)"
  have fr: "fr = Inr None"
    using assms(5,6) Inr z s c ok f h1 by (auto simp: tryCreateInstance_def getOrCreateInstance_def Let_def split: sum.splits option.splits)
  obtain r st5 where run: "?run = (r, st5)" by (metis prod.exhaust)
  then have t: "(case r of Inl (retryable, err) \<Rightarrow> ((Inl (if retryable then RetryableError err else err), z1), st5) | Inr (i, z) \<Rightarrow> ((Inr i, z), st5)) = ((Inl (RetryableError err), zone), st')"
    using assms(5) Inr z s c ok f fr by (simp add: tryCreateInstance_def getOrCreateInstance_def createInstanceWithPodRanges_def Let_def split: sum.splits prod.splits)
  obtain b err0 where r: "r = Inl (b, err0)" "zone = z1" "st5 = st'" "(if b then RetryableError err0 else err0) = RetryableError err"
    using t by (auto split: sum.splits prod.splits)
  show ?thesis
  proof (cases b)
    case True
    with r run have "?run = (Inl (True, err), st')" by simp
    then show ?thesis unfolding r(2) by (rule try_ranges_backs_off [OF assms(1-4)])
  next
    case False
    with r run have "?run = (Inl (False, RetryableError err), st')" by simp
    then show ?thesis using try_ranges_final [of e d claim nc it source cl z1 "instanceName_of claim" ct "dep_GetMachineType d (it_name it) (ls_ext st)" n
        "PodSubnetRangeNames nc = []" "rankPodRangeNames (resolvedPodRangeNames nc cl) freeIPs" "st1\<lparr>ls_ext := s4\<rparr>" err] by simp
  qed
qed

subsection \<open>The next launch\<close>


subsection \<open>After a preemption\<close>

lemma preempted_backs_off:
  assumes "idp_listNodes i s = Inr nodes" "\<And>s. idp_listClaims i s = Inr claims" "\<And>c s. fst (idp_deleteClaim i c s) = None"
    and "\<And>s. idp_now i s = now" "0 < now" "(name, zone) \<in> set (lost_offerings claims nodes)"
    and "int_Reconcile i u s = (wait, deleted, err, u', s')"
  shows "backed_off name zone CapacityTypeSpot (now + DefaultTTL) u'"
proof -
  obtain s1 where "int_loop i nodes u s = (lost_claims claims nodes, None, mark_all now (lost_offerings claims nodes) u, s1)"
    using int_loop_total [of i claims now] assms(2-4) by blast
  then have "u' = mark_all now (lost_offerings claims nodes) u" using assms(7) by (simp add: int_Reconcile_def handleStoppingSpotInstances_def assms(1))
  then show ?thesis using assms(6) by (auto simp: backed_off_def IsUnavailable_mark_all [OF assms(5)])
qed


subsection \<open>Examples\<close>

text \<open>A cloud with no capacity left.\<close>

definition example_stockout :: "string list \<Rightarrow> vm_list instance_deps" where
  "example_stockout zones = (example_deps zones)\<lparr>dep_Insert := (\<lambda>z i s. (Inl (GoogleApiError 503 ''x'' [\<lparr>ei_reason = ''ZONE_RESOURCE_POOL_EXHAUSTED'', ei_message = ''none left''\<rparr>]), s))\<rparr>"

lemma GoogleApiError_plain [simp]: "\<not> IsInsufficientCapacityError (GoogleApiError code m items)"
  by (simp add: IsInsufficientCapacityError_def errors_as_step)

lemma example_stockout_fails:
  "\<exists>err st'. tryCreateInstance example_build_env (example_stockout [''us-a'', ''us-b'']) example_class zero_nodeClaim (launch_type ''on-demand'' 2) ''on-demand'' [] [] example_launch_state
      = ((Inl (RetryableError err), ''us-a''), st') \<and> IsInsufficientCapacityError err \<and> ls_history st' \<noteq> ls_history example_launch_state"
proof -
  let ?d = "example_stockout [''us-a'', ''us-b'']" and ?it = "launch_type ''on-demand'' 2" and ?api = "GoogleApiError 503 ''x'' [\<lparr>ei_reason = ''ZONE_RESOURCE_POOL_EXHAUSTED'', ei_message = ''none left''\<rparr>]"
  let ?b = "buildInstance example_build_env (dep_boot ?d) (dep_GetNetworkConfig ?d) zero_nodeClaim example_class ?it (Some example_source) (example_cluster ''00ff'') ''us-a'' (instanceName_of zero_nodeClaim)
    ''on-demand'' None 0 [] [] []"
  have "case fst ?b of Inr i \<Rightarrow> True | Inl _ \<Rightarrow> False" by code_simp
  then obtain i hashes s where b: "?b = (Inr i, hashes, s)" by (cases ?b) (auto split: sum.splits)
  have n: "resolveCreateSSDCount ?it = Inr 0" by code_simp
  have z: "selectZone example_build_env ?d zero_nodeClaim ?it ''on-demand'' example_launch_state = (Inr ''us-a'', example_launch_state)" by code_simp
  have f: "find_existing ?d (instanceName_of zero_nodeClaim) [''us-a''] [] = (Inr None, [])" by code_simp
  have r: "rankPodRangeNames (resolvedPodRangeNames example_class (example_cluster ''00ff'')) [] = [[]]" by code_simp
  define dt where "dt = \<lparr>icd_code = ''ZONE_RESOURCE_POOL_EXHAUSTED'', icd_structuredReason = ''ZONE_RESOURCE_POOL_EXHAUSTED'', icd_message = ''none left'', icd_operation = []\<rparr>"
  have "extractInsertInsufficientCapacityDetails ?api = Some dt" unfolding dt_def by code_simp
  then have w: "insert_and_wait ?d ''us-a'' i [] s = ((Some ?api, Some dt, False), s)"
    by (simp add: insert_and_wait_def example_stockout_def isRejectedPodRange_def)
  have x: "\<not> isQuotaExceeded dt" "\<not> isIPSpaceExhausted dt" unfolding dt_def by code_simp+
  define st where "st = example_launch_state\<lparr>ls_hashes := hashes, ls_ext := s, ls_history := [Inserted ''us-a'' (instanceName_of zero_nodeClaim) False]\<rparr>"
  obtain err u where m: "markInsufficientCapacity (be_showDuration example_build_env) None 10 ''n2-standard-4'' ''us-a'' ''on-demand'' dt NewUnavailableOfferings = (err, u)"
    and err: "IsInsufficientCapacityError err" "\<not> isResourceNotReadyError err"
    by (simp add: markInsufficientCapacity_def newInsufficientCapacityError_def Let_def isResourceNotReadyError_def errors_as_step)
  have g: "give_up example_build_env ?d ?it ''us-a'' ''on-demand'' ?api (Some dt) False st = ((True, err), st\<lparr>ls_uo := u\<rparr>)"
    using m err x by (simp add: give_up_def handleResourceNotReadyError_def st_def example_stockout_def example_deps_def example_launch_state_def launch_type_def)
  have "try_ranges example_build_env ?d zero_nodeClaim example_class ?it (Some example_source) (example_cluster ''00ff'') ''us-a'' (instanceName_of zero_nodeClaim) ''on-demand'' None 0
      (PodSubnetRangeNames example_class = []) [[]] example_launch_state = (Inl (True, err), st\<lparr>ls_uo := u\<rparr>)"
    using b w x g by (simp add: st_def [symmetric] example_launch_state_def) (simp add: st_def example_launch_state_def)
  then show ?thesis
    using n z f r err by (simp add: tryCreateInstance_def getOrCreateInstance_def createInstanceWithPodRanges_def example_stockout_def example_deps_def example_launch_state_def st_def uniq_def Let_def)
qed


definition example_spot_type :: instance_type where
  "example_spot_type = example_boot_type\<lparr>it_name := ''e2-medium'', it_offerings := [example_offering ''us-a'' ''spot'' 1, example_offering ''us-b'' ''spot'' 2]\<rparr>"


end
