(* ===== verification/Work_Queue.thy ===== *)
theory Work_Queue
  imports Go_Errors
begin

text \<open>
  The work queue of a controller: a request is the name of an object with the time it is due; it is asked for again when its reconcile fails, and comes back after the time a successful reconcile asks for. The locale \<open>settling\<close> is what a
  controller over such a queue promises: an object that is not as it should be has a request that will be served.
\<close>

text \<open>Name, due time, and whether it is a retry after an error.\<close>

type_synonym work_queue = "(string \<times> instant \<times> bool) set"

definition put_requests :: "string list \<Rightarrow> instant \<Rightarrow> work_queue \<Rightarrow> work_queue" where
  "put_requests ns now q = q \<union> (\<lambda>n. (n, now, False)) ` set ns"

fun asked_again :: "string \<Rightarrow> instant \<Rightarrow> duration \<Rightarrow> duration \<times> go_error option \<Rightarrow> work_queue" where
  "asked_again n now backoff (after, Some err) = {(n, now + backoff, True)}"
| "asked_again n now backoff (after, None) = (if after > 0 then {(n, now + after, False)} else {})"

definition serve_request :: "string \<Rightarrow> instant \<times> bool \<Rightarrow> instant \<Rightarrow> duration \<Rightarrow> duration \<times> go_error option \<Rightarrow> work_queue \<Rightarrow> work_queue" where
  "serve_request n item now backoff r q = q - {(n, item)} \<union> asked_again n now backoff r"

definition queued :: "work_queue \<Rightarrow> string \<Rightarrow> bool" where
  "queued q n \<longleftrightarrow> (\<exists>due retry. (n, due, retry) \<in> q)"

text \<open>Due now, or a retry.\<close>

definition due_now :: "work_queue \<Rightarrow> instant \<Rightarrow> string \<Rightarrow> bool" where
  "due_now q now n \<longleftrightarrow> (\<exists>due retry. (n, due, retry) \<in> q \<and> (retry \<or> due \<le> now))"

lemma due_put [intro, simp]: "n \<in> set ns \<Longrightarrow> due_now (put_requests ns now q) now n"
  by (auto simp: due_now_def put_requests_def)

lemma due_put_mono [intro]: "due_now q now n \<Longrightarrow> due_now (put_requests ns now q) now n"
  by (auto simp: due_now_def put_requests_def)

lemma queued_put [intro]: "queued q n \<Longrightarrow> queued (put_requests ns now q) n"
  by (auto simp: queued_def put_requests_def)

lemma due_later: "due_now q now n \<Longrightarrow> now \<le> now' \<Longrightarrow> due_now q now' n"
  unfolding due_now_def by (meson order_trans)

lemma due_serve_other: "due_now q now n \<Longrightarrow> n \<noteq> m \<Longrightarrow> due_now (serve_request m item now backoff r q) now n"
  unfolding due_now_def serve_request_def by blast

lemma queued_serve_other: "queued q n \<Longrightarrow> n \<noteq> m \<Longrightarrow> queued (serve_request m item now backoff r q) n"
  unfolding queued_def serve_request_def by blast

lemma due_serve_failed: "due_now (serve_request n item now backoff (after, Some err) q) now n"
  by (auto simp: due_now_def serve_request_def)

lemma queued_serve_later: "0 < after \<Longrightarrow> queued (serve_request n item now backoff (after, None) q) n"
  by (auto simp: queued_def serve_request_def)

subsection \<open>Controllers that settle\<close>

locale settling =
  fixes wf :: "'w \<Rightarrow> bool"
    and step :: "'w \<Rightarrow> 'w \<Rightarrow> bool"
    and settled :: "'w \<Rightarrow> 'n \<Rightarrow> bool"
    and pending :: "'w \<Rightarrow> 'n \<Rightarrow> bool"
  assumes wf_step: "wf w \<Longrightarrow> step w w' \<Longrightarrow> wf w'"
    and settled_step: "wf w \<Longrightarrow> step w w' \<Longrightarrow> settled w n \<Longrightarrow> settled w' n \<or> pending w' n"
    and pending_step: "wf w \<Longrightarrow> step w w' \<Longrightarrow> pending w n \<Longrightarrow> settled w' n \<or> pending w' n"
begin

lemma settles:
  assumes "step\<^sup>*\<^sup>* w w'" "wf w" "\<And>n. settled w n \<or> pending w n"
  shows "wf w'" and "settled w' n \<or> pending w' n"
proof -
  have "wf w' \<and> (\<forall>n. settled w' n \<or> pending w' n)"
    using assms(1)
  proof (induction rule: rtranclp_induct)
    case base
    then show ?case using assms(2,3) by blast
  next
    case (step y z)
    then show ?case using wf_step settled_step pending_step by blast
  qed
  then show "wf w'" "settled w' n \<or> pending w' n" by blast+
qed

end

end
