(* ===== verification/Node_Class_Watch.thy ===== *)
theory Node_Class_Watch
  imports Node_Class_Control Work_Queue
begin

text \<open>
  The termination controller as it runs (\<^verbatim>\<open>Register\<close> of \<^verbatim>\<open>pkg/controllers/nodeclass/termination\<close>): which events of node claims ask for a reconcile, and the controller at work between the changes of node classes and claims.
  Node classes are stored under their names; the node class reference of a claim is immutable.
\<close>

subsection \<open>The watch\<close>

datatype claim_event = ClaimCreated NodeClaim | ClaimUpdated NodeClaim NodeClaim | ClaimDeleted NodeClaim

fun deletion_predicate :: "claim_event \<Rightarrow> bool" where
  "deletion_predicate (ClaimCreated c) = False"
| "deletion_predicate (ClaimUpdated c c') = False"
| "deletion_predicate (ClaimDeleted c) = True"

definition claim_requests :: "NodeClaim \<Rightarrow> string list" where
  "claim_requests c = (case ncm_NodeClassRef c of None \<Rightarrow> [] | Some r \<Rightarrow> [ref_Name r])"

text \<open>An update would ask for what the old and the new object ask for.\<close>

definition watch_requests :: "claim_event \<Rightarrow> string list" where
  "watch_requests ev = (if \<not> deletion_predicate ev then []
     else (case ev of ClaimCreated c \<Rightarrow> claim_requests c | ClaimUpdated c c' \<Rightarrow> claim_requests c @ claim_requests c' | ClaimDeleted c \<Rightarrow> claim_requests c))"

subsection \<open>The controller at work\<close>

record term_world =
  tw_now :: instant
  tw_classes :: "string \<Rightarrow> GCENodeClass option"
  tw_claims :: "NodeClaim list"
  tw_queue :: work_queue

definition tw_put :: "string list \<Rightarrow> term_world \<Rightarrow> term_world" where
  "tw_put ns w = w\<lparr>tw_queue := put_requests ns (tw_now w) (tw_queue w)\<rparr>"

text \<open>A reconcile serves its request. A change of the class that was written is an event of the class, which asks for a reconcile.\<close>

definition after_reconcile :: "string \<Rightarrow> instant \<times> bool \<Rightarrow> GCENodeClass \<Rightarrow> duration \<Rightarrow> requeue \<Rightarrow> GCENodeClass \<Rightarrow> term_world \<Rightarrow> term_world" where
  "after_reconcile n item nc backoff r nc' w = (let w = w\<lparr>tw_queue := serve_request n item (tw_now w) backoff r (tw_queue w)\<rparr> in
     if snd r = None \<and> nc' \<noteq> nc then tw_put [n] (w\<lparr>tw_classes := (tw_classes w)(n \<mapsto> nc')\<rparr>) else w)"

inductive term_step :: "'s ncc_deps \<Rightarrow> term_world \<Rightarrow> term_world \<Rightarrow> bool" for d where
  wait: "0 \<le> t \<Longrightarrow> term_step d w (w\<lparr>tw_now := tw_now w + t\<rparr>)"
| class_changed: "(\<forall>nc. x = Some nc \<longrightarrow> ncl_Name nc = n) \<Longrightarrow> term_step d w (tw_put [n] (w\<lparr>tw_classes := (tw_classes w)(n := x)\<rparr>))"
| claim_created: "term_step d w (tw_put (watch_requests (ClaimCreated c)) (w\<lparr>tw_claims := c # tw_claims w\<rparr>))"
| claim_updated: "c \<in> set (tw_claims w) \<Longrightarrow> ncm_NodeClassRef c' = ncm_NodeClassRef c \<Longrightarrow>
    term_step d w (tw_put (watch_requests (ClaimUpdated c c')) (w\<lparr>tw_claims := c' # remove1 c (tw_claims w)\<rparr>))"
| claim_deleted: "c \<in> set (tw_claims w) \<Longrightarrow> term_step d w (tw_put (watch_requests (ClaimDeleted c)) (w\<lparr>tw_claims := remove1 c (tw_claims w)\<rparr>))"
| class_gone: "(n, due, retry) \<in> tw_queue w \<Longrightarrow> due \<le> tw_now w \<Longrightarrow> tw_classes w n = None \<Longrightarrow>
    term_step d w (w\<lparr>tw_queue := serve_request n (due, retry) (tw_now w) 0 (0, None) (tw_queue w)\<rparr>)"
| reconcile: "(n, due, retry) \<in> tw_queue w \<Longrightarrow> due \<le> tw_now w \<Longrightarrow> tw_classes w n = Some nc \<Longrightarrow>
    nd_listClaims d s = Inr (tw_claims w) \<or> (\<exists>e. nd_listClaims d s = Inl e) \<Longrightarrow> termination_Reconcile d nc s = (r, nc', s') \<Longrightarrow> 0 \<le> backoff \<Longrightarrow>
    term_step d w (after_reconcile n (due, retry) nc backoff r nc' w)"

subsection \<open>No request is lost\<close>

definition in_use :: "NodeClaim list \<Rightarrow> string \<Rightarrow> bool" where
  "in_use claims n \<longleftrightarrow> (\<exists>c \<in> set claims. map_option ref_Name (ncm_NodeClassRef c) = Some n)"

definition terminating :: "GCENodeClass \<Rightarrow> bool" where
  "terminating nc \<longleftrightarrow> om_DeletionTimestamp (ncl_Meta nc) \<noteq> None \<and> ContainsFinalizer nc TerminationFinalizer"

definition classes_named :: "term_world \<Rightarrow> bool" where
  "classes_named w \<longleftrightarrow> (\<forall>n nc. tw_classes w n = Some nc \<longrightarrow> ncl_Name nc = n)"

text \<open>A terminating class may wait while a claim uses it.\<close>

definition class_settled :: "term_world \<Rightarrow> string \<Rightarrow> bool" where
  "class_settled w n \<longleftrightarrow> (\<forall>nc. tw_classes w n = Some nc \<and> terminating nc \<longrightarrow> in_use (tw_claims w) n \<and> queued (tw_queue w) n)"

definition class_due :: "term_world \<Rightarrow> string \<Rightarrow> bool" where
  "class_due w n \<longleftrightarrow> due_now (tw_queue w) (tw_now w) n"

lemma tw_put_sel [simp]:
  "tw_now (tw_put ns w) = tw_now w" "tw_classes (tw_put ns w) = tw_classes w" "tw_claims (tw_put ns w) = tw_claims w"
  "tw_queue (tw_put ns w) = put_requests ns (tw_now w) (tw_queue w)"
  by (simp_all add: tw_put_def)

lemma in_use_deleted:
  assumes "in_use claims n" "\<not> in_use (remove1 c claims) n"
  shows "n \<in> set (watch_requests (ClaimDeleted c))"
proof -
  obtain x where x: "x \<in> set claims" "map_option ref_Name (ncm_NodeClassRef x) = Some n" using assms(1) by (auto simp: in_use_def)
  then have "x = c" using assms(2) by (metis in_set_remove1 in_use_def)
  then show ?thesis using x(2) by (auto simp: watch_requests_def claim_requests_def)
qed

lemma in_use_updated:
  assumes "in_use claims n" "ncm_NodeClassRef c' = ncm_NodeClassRef c"
  shows "in_use (c' # remove1 c claims) n"
  using assms in_set_remove1 unfolding in_use_def by (metis list.set_intros(1) list.set_intros(2))

lemma reconcile_result:
  assumes "termination_Reconcile d nc s = (r, nc', s')" "nd_listClaims d s = Inr claims \<or> (\<exists>e. nd_listClaims d s = Inl e)" "terminating nc" "ncl_Name nc = n"
  obtains (failed) after err where "r = (after, Some err)"
  | (used) "r = (600 * 10 ^ 9, None)" "nc' = nc" "in_use claims n"
  | (released) "r = (0, None)" "nc' = RemoveFinalizer nc TerminationFinalizer"
  using assms unfolding termination_Reconcile_def terminating_def in_use_def by (auto simp: Let_def split: sum.splits if_splits prod.splits option.splits)

lemma RemoveFinalizer_sel [simp]: "ncl_Name (RemoveFinalizer nc f) = ncl_Name nc" "\<not> terminating (RemoveFinalizer nc TerminationFinalizer)"
  by (simp_all add: RemoveFinalizer_def terminating_def ContainsFinalizer_def)

lemma termination_Reconcile_name: "termination_Reconcile d nc s = (r, nc', s') \<Longrightarrow> ncl_Name nc' = ncl_Name nc"
  by (auto simp: termination_Reconcile_def Let_def split: sum.splits if_splits prod.splits option.splits)

lemma after_reconcile_sel [simp]:
  "tw_now (after_reconcile n item nc backoff r nc' w) = tw_now w" "tw_claims (after_reconcile n item nc backoff r nc' w) = tw_claims w"
  "tw_classes (after_reconcile n item nc backoff r nc' w) = (if snd r = None \<and> nc' \<noteq> nc then (tw_classes w)(n \<mapsto> nc') else tw_classes w)"
  "tw_queue (after_reconcile n item nc backoff r nc' w) = (if snd r = None \<and> nc' \<noteq> nc then put_requests [n] (tw_now w) else id) (serve_request n item (tw_now w) backoff r (tw_queue w))"
  by (simp_all add: after_reconcile_def Let_def)

text \<open>A reconcile settles its class, or is asked for again.\<close>

lemma term_reconcile_settles:
  assumes "tw_classes w n = Some nc" "ncl_Name nc = n" "termination_Reconcile d nc s = (r, nc', s')"
    and "nd_listClaims d s = Inr (tw_claims w) \<or> (\<exists>e. nd_listClaims d s = Inl e)"
  shows "class_settled (after_reconcile n item nc backoff r nc' w) n \<or> class_due (after_reconcile n item nc backoff r nc' w) n"
proof (cases "terminating nc")
  case False
  then have "nc' = nc" using assms(3) by (auto simp: termination_Reconcile_def terminating_def)
  with assms(1) False show ?thesis by (simp add: class_settled_def)
next
  case True
  from assms(3,4) True assms(2) show ?thesis
  proof (cases rule: reconcile_result)
    case (failed after err)
    then show ?thesis by (simp add: class_due_def due_serve_failed)
  next
    case used
    then show ?thesis by (simp add: class_settled_def queued_serve_later)
  next
    case released
    then have "nc' \<noteq> nc" using True RemoveFinalizer_sel(2) by metis
    then show ?thesis using released by (simp add: class_due_def)
  qed
qed

lemma step_settled:
  assumes "term_step d w w'" "classes_named w" "class_settled w n"
  shows "class_settled w' n \<or> class_due w' n"
  using assms
proof (cases rule: term_step.cases)
  case (class_changed x m)
  with assms(3) show ?thesis by (cases "n = m") (auto simp: class_settled_def class_due_def)
next
  case (claim_deleted c)
  with assms(3) show ?thesis using in_use_deleted [of "tw_claims w" n c] by (auto simp: class_settled_def class_due_def)
next
  case (claim_updated c c')
  with assms(3) show ?thesis using in_use_updated [of "tw_claims w" n c' c] by (auto simp: class_settled_def)
next
  case (class_gone m due retry)
  with assms(3) show ?thesis by (cases "n = m") (auto simp: class_settled_def queued_serve_other)
next
  case (reconcile m due retry nc s r nc' s' backoff)
  show ?thesis
  proof (cases "n = m")
    case True
    with reconcile term_reconcile_settles [of w m nc d s r nc' s'] assms(2) show ?thesis by (auto simp: classes_named_def)
  next
    case False
    with reconcile assms(3) show ?thesis by (auto simp: class_settled_def queued_serve_other split: if_splits)
  qed
qed (auto simp: class_settled_def in_use_def)

lemma step_due:
  assumes "term_step d w w'" "classes_named w" "class_due w n"
  shows "class_settled w' n \<or> class_due w' n"
  using assms
proof (cases rule: term_step.cases)
  case (wait t)
  with assms(3) show ?thesis by (auto simp: class_due_def intro: due_later)
next
  case (class_gone m due retry)
  with assms(3) show ?thesis by (cases "n = m") (auto simp: class_settled_def class_due_def due_serve_other)
next
  case (reconcile m due retry nc s r nc' s' backoff)
  show ?thesis
  proof (cases "n = m")
    case True
    with reconcile term_reconcile_settles [of w m nc d s r nc' s'] assms(2) show ?thesis by (auto simp: classes_named_def)
  next
    case False
    with reconcile assms(3) show ?thesis by (auto simp: class_due_def due_serve_other split: if_splits)
  qed
qed (auto simp: class_due_def)

lemma step_named: "term_step d w w' \<Longrightarrow> classes_named w \<Longrightarrow> classes_named w'"
  by (induction rule: term_step.induct) (auto simp: classes_named_def dest: termination_Reconcile_name split: if_splits)

interpretation term_loop: settling classes_named "term_step d" class_settled class_due for d
  using step_named step_settled step_due by unfold_locales blast+

text \<open>C11: A node class never stays behind. However changes of node classes and claims, reconciles and failures interleave, a class that is being deleted, has the termination finalizer and is used by no claim has a request in the queue, due at
  once unless it is a retry after an error; and when the API answers, serving it, once it is due, releases the class.\<close>

theorem unused_class_released:
  assumes "(term_step d)\<^sup>*\<^sup>* start w" "tw_classes start = (\<lambda>_. None)"
    and "tw_classes w n = Some nc" "om_DeletionTimestamp (ncl_Meta nc) \<noteq> None" "ContainsFinalizer nc TerminationFinalizer" "\<not> in_use (tw_claims w) n"
    and "nd_listClaims d s = Inr (tw_claims w)" "fst (nd_update d (RemoveFinalizer nc TerminationFinalizer) s) = None"
  shows "\<exists>due retry. (n, due, retry) \<in> tw_queue w \<and> (retry \<or> due \<le> tw_now w)
    \<and> (\<exists>w'. term_step d (w\<lparr>tw_now := max (tw_now w) due\<rparr>) w' \<and> tw_classes w' n = Some (RemoveFinalizer nc TerminationFinalizer)
          \<and> \<not> ContainsFinalizer (RemoveFinalizer nc TerminationFinalizer) TerminationFinalizer)"
proof -
  have "classes_named start" "class_settled start m" for m by (simp_all add: assms(2) classes_named_def class_settled_def)
  note inv = term_loop.settles [OF assms(1) this(1), OF disjI1, OF this(2)]
  have name: "ncl_Name nc = n" using inv(1) assms(3) by (simp add: classes_named_def)
  have t: "terminating nc" using assms(4,5) by (simp add: terminating_def)
  have "class_due w n" using inv(2) [of n] assms(3,6) t by (auto simp: class_settled_def)
  then obtain due retry where q: "(n, due, retry) \<in> tw_queue w" "retry \<or> due \<le> tw_now w" unfolding class_due_def due_now_def by blast
  let ?w = "w\<lparr>tw_now := max (tw_now w) due\<rparr>" and ?nc = "RemoveFinalizer nc TerminationFinalizer"
  obtain s' where u: "nd_update d ?nc s = (None, s')" using assms(8) by (metis prod.collapse)
  have r: "termination_Reconcile d nc s = ((0, None), ?nc, s')"
    using assms(4-7) u name by (auto simp: termination_Reconcile_def in_use_def)
  have "term_step d ?w (after_reconcile n (due, retry) nc 0 (0, None) ?nc ?w)"
    using q(1) assms(3,7) by (intro term_step.reconcile [OF _ _ _ _ r]) auto
  moreover have "tw_classes (after_reconcile n (due, retry) nc 0 (0, None) ?nc ?w) n = Some ?nc"
    using t RemoveFinalizer_sel(2) assms(3) by (cases "?nc = nc") auto
  moreover have "\<not> ContainsFinalizer ?nc TerminationFinalizer" by (simp add: ContainsFinalizer_def RemoveFinalizer_def)
  ultimately show ?thesis using q by blast
qed

definition example_term_world :: term_world where
  "example_term_world = \<lparr>tw_now = 0, tw_classes = (\<lambda>_. None), tw_claims = [], tw_queue = {}\<rparr>"

definition example_terminating :: GCENodeClass where
  "example_terminating = AddFinalizer (zero_nodeClass\<lparr>ncl_Meta := zero_meta\<lparr>om_Name := ''c'', om_DeletionTimestamp := Some 7\<rparr>\<rparr>) TerminationFinalizer"

theorem unused_class_released_witness:
  "\<exists>w due retry w'. (term_step example_ncc)\<^sup>*\<^sup>* example_term_world w \<and> (''c'', due, retry) \<in> tw_queue w \<and> term_step example_ncc (w\<lparr>tw_now := max (tw_now w) due\<rparr>) w'
     \<and> tw_classes w' ''c'' = Some (RemoveFinalizer example_terminating TerminationFinalizer)"
proof -
  let ?w = "tw_put [''c''] (example_term_world\<lparr>tw_classes := (tw_classes example_term_world)(''c'' \<mapsto> example_terminating)\<rparr>)"
  have n: "ncl_Name example_terminating = ''c''" and f: "ContainsFinalizer example_terminating TerminationFinalizer" "om_DeletionTimestamp (ncl_Meta example_terminating) \<noteq> None" by code_simp+
  have "term_step example_ncc example_term_world ?w" using n by (intro term_step.class_changed) simp
  then have r: "(term_step example_ncc)\<^sup>*\<^sup>* example_term_world ?w" by blast
  have e: "tw_classes example_term_world = (\<lambda>_. None)" by (simp add: example_term_world_def)
  have c: "nd_listClaims example_ncc () = Inr (tw_claims ?w)" "fst (nd_update example_ncc (RemoveFinalizer example_terminating TerminationFinalizer) ()) = None" "\<not> in_use (tw_claims ?w) ''c''"
    by (simp_all add: example_ncc_def example_term_world_def in_use_def)
  have "tw_classes ?w ''c'' = Some example_terminating" by simp
  from unused_class_released [OF r e this f(2,1) c(3,1,2)] r show ?thesis by blast
qed

end
