(* ===== verification/Machine_Type_Watch.thy ===== *)
theory Machine_Type_Watch
  imports Custom_Machine_Types Work_Queue
begin

text \<open>
  The controller of custom machine types as it runs (\<^verbatim>\<open>Register\<close> of \<^verbatim>\<open>pkg/controllers/gcecustommachinetype\<close>): every change of a registration asks for a reconcile of it and of the other registrations of its machine type, since what
  counts depends on all of them. The API server has one object for each name, and the machine type and the creation time of an object do not change.
\<close>

subsection \<open>The controller at work\<close>

record cmt_world =
  cw_now :: instant
  cw_items :: "GCECustomMachineType list"
  cw_queue :: work_queue

text \<open>The requests of an event: those of \<^verbatim>\<open>For\<close> and of \<^verbatim>\<open>Watches\<close>, with the registrations that are there after it.\<close>

definition event_requests :: "GCECustomMachineType list \<Rightarrow> GCECustomMachineType \<Rightarrow> string list" where
  "event_requests items obj = cmt_Name obj # enqueueSiblingsWithSameMachineType items obj"

definition cw_store :: "GCECustomMachineType list \<Rightarrow> GCECustomMachineType \<Rightarrow> cmt_world \<Rightarrow> cmt_world" where
  "cw_store items obj w = w\<lparr>cw_items := items, cw_queue := put_requests (event_requests items obj) (cw_now w) (cw_queue w)\<rparr>"

definition replace_item :: "GCECustomMachineType \<Rightarrow> GCECustomMachineType list \<Rightarrow> GCECustomMachineType list" where
  "replace_item obj items = map (\<lambda>x. if cmt_Name x = cmt_Name obj then obj else x) items"

definition identity :: "GCECustomMachineType \<Rightarrow> string \<times> string \<times> instant" where
  "identity obj = (cmt_Name obj, cmt_MachineType obj, om_CreationTimestamp (cmt_Meta obj))"

definition cmt_result :: "reconcile_result \<Rightarrow> duration \<times> go_error option" where
  "cmt_result r = (rr_requeueAfter r, rr_error r)"

text \<open>A reconcile sees the registrations that are there, or its read fails. If it reports no error its status is stored; otherwise it may have been, or not. The server does not take an object that is there for missing.\<close>

inductive cmt_step :: "'s cmt_deps \<Rightarrow> cmt_world \<Rightarrow> cmt_world \<Rightarrow> bool" for d where
  wait: "0 \<le> t \<Longrightarrow> cmt_step d w (w\<lparr>cw_now := cw_now w + t\<rparr>)"
| created: "cmt_Name obj \<notin> cmt_Name ` set (cw_items w) \<Longrightarrow> cmt_step d w (cw_store (obj # cw_items w) obj w)"
| updated: "obj \<in> set (cw_items w) \<Longrightarrow> identity obj' = identity obj \<Longrightarrow> cmt_step d w (cw_store (replace_item obj' (cw_items w)) obj' w)"
| deleted: "obj \<in> set (cw_items w) \<Longrightarrow> cmt_step d w (cw_store (filter (\<lambda>x. cmt_Name x \<noteq> cmt_Name obj) (cw_items w)) obj w)"
| gone: "(n, due, retry) \<in> cw_queue w \<Longrightarrow> due \<le> cw_now w \<Longrightarrow> n \<notin> cmt_Name ` set (cw_items w) \<Longrightarrow>
    cmt_step d w (w\<lparr>cw_queue := serve_request n (due, retry) (cw_now w) 0 (0, None) (cw_queue w)\<rparr>)"
| reconcile: "(cmt_Name obj, due, retry) \<in> cw_queue w \<Longrightarrow> due \<le> cw_now w \<Longrightarrow> obj \<in> set (cw_items w) \<Longrightarrow>
    cd_listRegistrations d s = Inr (cw_items w) \<or> (\<exists>e. cd_listRegistrations d s = Inl e) \<Longrightarrow>
    (\<forall>x s e. fst (cd_patchStatus d x s) = Some e \<longrightarrow> \<not> status_is ''NotFound'' e) \<Longrightarrow>
    cmt_Reconcile d obj s = ((r, obj'), s') \<Longrightarrow> stored = obj' \<or> stored = obj \<and> rr_error r \<noteq> None \<Longrightarrow>
    w1 = w\<lparr>cw_queue := serve_request (cmt_Name obj) (due, retry) (cw_now w) backoff (cmt_result r) (cw_queue w)\<rparr> \<Longrightarrow>
    cmt_step d w (if stored = obj then w1 else cw_store (replace_item stored (cw_items w)) stored w1)"

subsection \<open>Readiness and duplicates\<close>

definition reported_duplicate :: "GCECustomMachineType \<Rightarrow> bool" where
  "reported_duplicate obj \<longleftrightarrow> list_ex (\<lambda>c. cond_Type c = ''Ready'' \<and> cond_Reason c = ''MachineTypeAlreadyRegistered'') (cmt_Conditions obj)"

definition reported_rightly :: "GCECustomMachineType list \<Rightarrow> GCECustomMachineType \<Rightarrow> bool" where
  "reported_rightly items obj \<longleftrightarrow> (cmt_ready obj \<longrightarrow> \<not> isSupersededDuplicate items obj) \<and> (reported_duplicate obj \<longrightarrow> isSupersededDuplicate items obj)"

definition items_named :: "cmt_world \<Rightarrow> bool" where
  "items_named w \<longleftrightarrow> distinct (map cmt_Name (cw_items w))"

definition item_settled :: "cmt_world \<Rightarrow> string \<Rightarrow> bool" where
  "item_settled w n \<longleftrightarrow> (\<forall>obj \<in> set (cw_items w). cmt_Name obj = n \<longrightarrow> reported_rightly (cw_items w) obj)"

definition item_due :: "cmt_world \<Rightarrow> string \<Rightarrow> bool" where
  "item_due w n \<longleftrightarrow> due_now (cw_queue w) (cw_now w) n"

lemma set_ready_sel [simp]:
  "cmt_ready (set_ready v reason msg obj) \<longleftrightarrow> v = CondTrue" "reported_duplicate (set_ready v reason msg obj) \<longleftrightarrow> reason = ''MachineTypeAlreadyRegistered''"
  "identity (set_ready v reason msg obj) = identity obj"
proof -
  have "List.find P (filter (\<lambda>x. \<not> P x) xs @ [y]) = (if P y then Some y else None)" for P :: "Condition \<Rightarrow> bool" and xs y by (induction xs) auto
  from this [of "\<lambda>c. cond_Type c = ''Ready''"] show "cmt_ready (set_ready v reason msg obj) \<longleftrightarrow> v = CondTrue"
    by (simp add: cmt_ready_def set_ready_def set_condition_def condition_status_of_def)
  show "reported_duplicate (set_ready v reason msg obj) \<longleftrightarrow> reason = ''MachineTypeAlreadyRegistered''"
    by (auto simp: reported_duplicate_def set_ready_def set_condition_def list_ex_iff)
qed (simp add: set_ready_def identity_def)

lemma superseded_identity:
  assumes "map identity items = map identity items'" "identity obj = identity obj'"
  shows "isSupersededDuplicate items obj = isSupersededDuplicate items' obj'"
proof -
  let ?P = "\<lambda>a b. if fst a = fst b \<or> fst (snd a) \<noteq> fst (snd b) then False else if snd (snd a) \<noteq> snd (snd b) then snd (snd a) < snd (snd b) else fst a < fst b"
  have e: "isSupersededDuplicate xs x = list_ex (\<lambda>i. ?P i (identity x)) (map identity xs)" for xs x
    by (induction xs) (simp_all add: isSupersededDuplicate_def identity_def outranks_def Let_def)
  show ?thesis unfolding e using assms by simp
qed

lemma replace_identity:
  assumes "distinct (map cmt_Name items)" "obj \<in> set items" "identity obj' = identity obj"
  shows "map identity (replace_item obj' items) = map identity items"
proof -
  have n: "cmt_Name obj' = cmt_Name obj" using assms(3) by (simp add: identity_def)
  have "x = obj" if "x \<in> set items" "cmt_Name x = cmt_Name obj" for x using assms(1,2) that by (auto simp: distinct_map inj_on_def)
  then show ?thesis using assms(3) n by (auto simp: replace_item_def)
qed

lemma rightly_identity:
  assumes "map identity items = map identity items'" shows "reported_rightly items obj = reported_rightly items' obj"
  using superseded_identity [OF assms refl, of obj] by (simp add: reported_rightly_def)

text \<open>A reconcile without an error leaves a status that is right for the registrations it saw.\<close>

lemma cmt_Reconcile_right:
  assumes "cmt_Reconcile d obj s = ((r, obj'), s')" "cd_listRegistrations d s = Inr items \<or> (\<exists>e. cd_listRegistrations d s = Inl e)"
  shows "identity obj' = identity obj" and "rr_error r = None \<Longrightarrow> reported_rightly items obj'"
proof -
  have w: "identity (withdrawn obj) = identity obj" "identity (obj\<lparr>cmt_GuestCpus := c, cmt_MemoryMb := m, cmt_Zones := z\<rparr>) = identity obj" "identity (obj\<lparr>cmt_Zones := z\<rparr>) = identity obj" for c m z
    by (simp_all add: withdrawn_def identity_def)
  have s: "isSupersededDuplicate items x = isSupersededDuplicate items obj" if "identity x = identity obj" for x by (rule superseded_identity [OF refl that])
  show "identity obj' = identity obj"
    using assms(1) unfolding cmt_Reconcile_def Let_def by (auto simp: w split: sum.splits if_splits prod.splits)
  show "reported_rightly items obj'" if "rr_error r = None"
    using assms that unfolding cmt_Reconcile_def Let_def
    by (auto simp: reported_rightly_def w s [OF trans [OF set_ready_sel(3) w(1)]] s [OF trans [OF set_ready_sel(3) w(2)]] split: sum.splits if_splits prod.splits)
qed

subsection \<open>Every step\<close>

lemma cw_store_sel [simp]:
  "cw_now (cw_store items obj w) = cw_now w" "cw_items (cw_store items obj w) = items"
  "cw_queue (cw_store items obj w) = put_requests (event_requests items obj) (cw_now w) (cw_queue w)"
  by (simp_all add: cw_store_def)

text \<open>An event changes who is superseded only for the registrations it asks a reconcile for.\<close>

lemma superseded_others:
  assumes "x \<in> set items" "cmt_Name x \<notin> set (event_requests items obj)" "\<And>y. cmt_Name y \<noteq> cmt_Name obj \<Longrightarrow> y \<in> set items \<longleftrightarrow> y \<in> set items'"
    and "\<And>y. y \<in> set items \<union> set items' \<Longrightarrow> cmt_Name y = cmt_Name obj \<Longrightarrow> cmt_MachineType y = cmt_MachineType obj"
  shows "isSupersededDuplicate items x = isSupersededDuplicate items' x"
proof -
  have x: "cmt_MachineType x \<noteq> cmt_MachineType obj" using assms(1,2) by (auto simp: event_requests_def enqueueSiblingsWithSameMachineType_def)
  then have "y \<in> set items \<longleftrightarrow> y \<in> set items'" if "cmt_MachineType y = cmt_MachineType x" for y
    using that assms(3) [of y] assms(4) [of y] by auto
  then show ?thesis unfolding isSupersededDuplicate_def list_ex_iff by auto
qed

lemma named_item: "items_named w \<Longrightarrow> x \<in> set (cw_items w) \<Longrightarrow> y \<in> set (cw_items w) \<Longrightarrow> cmt_Name x = cmt_Name y \<Longrightarrow> x = y"
  by (auto simp: items_named_def distinct_map inj_on_def)

lemma mem_replace: "x \<in> set (replace_item obj items) \<Longrightarrow> cmt_Name x \<noteq> cmt_Name obj \<Longrightarrow> x \<in> set items"
  by (auto simp: replace_item_def split: if_splits)

lemma names_replace [simp]: "map cmt_Name (replace_item obj items) = map cmt_Name items"
  by (simp add: replace_item_def)

text \<open>Storing an object under the identity it had settles as before all the others.\<close>

lemma replaced_settled:
  assumes "items_named w" "obj \<in> set (cw_items w)" "identity obj' = identity obj" "item_settled w n" "n \<noteq> cmt_Name obj'"
  shows "\<forall>x \<in> set (replace_item obj' (cw_items w)). cmt_Name x = n \<longrightarrow> reported_rightly (replace_item obj' (cw_items w)) x"
proof (intro ballI impI)
  fix x assume x: "x \<in> set (replace_item obj' (cw_items w))" "cmt_Name x = n"
  then have "x \<in> set (cw_items w)" using mem_replace assms(5) by blast
  then show "reported_rightly (replace_item obj' (cw_items w)) x"
    using x(2) assms(4) rightly_identity [OF replace_identity [OF _ assms(2,3)], of x] assms(1) by (simp add: item_settled_def items_named_def)
qed

lemma cmt_reconcile_settles:
  assumes "items_named w" "obj \<in> set (cw_items w)" "cd_listRegistrations d s = Inr (cw_items w) \<or> (\<exists>e. cd_listRegistrations d s = Inl e)"
    and r: "cmt_Reconcile d obj s = ((r, obj'), s')" and st: "stored = obj' \<or> stored = obj \<and> rr_error r \<noteq> None"
    and w1: "w1 = w\<lparr>cw_queue := serve_request (cmt_Name obj) item (cw_now w) backoff (cmt_result r) (cw_queue w)\<rparr>"
    and w': "w' = (if stored = obj then w1 else cw_store (replace_item stored (cw_items w)) stored w1)"
  shows "item_settled w' (cmt_Name obj) \<or> item_due w' (cmt_Name obj)"
proof (cases "stored = obj")
  case False
  have "identity stored = identity obj" using cmt_Reconcile_right(1) [OF r assms(3)] st by auto
  then have "cmt_Name stored = cmt_Name obj" by (simp add: identity_def)
  then have "item_due w' (cmt_Name obj)" unfolding w' using False by (simp add: item_due_def event_requests_def)
  then show ?thesis ..
next
  case True
  show ?thesis
  proof (cases "rr_error r")
    case None
    then have "reported_rightly (cw_items w) obj" using cmt_Reconcile_right(2) [OF r assms(3)] st True by auto
    then have "item_settled w' (cmt_Name obj)" unfolding w' w1 item_settled_def using True named_item [OF assms(1) _ assms(2)] by auto
    then show ?thesis ..
  next
    case (Some err)
    then have "item_due w' (cmt_Name obj)" unfolding w' w1 item_due_def cmt_result_def using True due_serve_failed by simp
    then show ?thesis ..
  qed
qed

lemma cmt_step_named: "cmt_step d w w' \<Longrightarrow> items_named w \<Longrightarrow> items_named w'"
  by (induction rule: cmt_step.induct) (auto simp: items_named_def distinct_map_filter)

lemma cmt_step_settled:
  assumes "cmt_step d w w'" "items_named w" "item_settled w n"
  shows "item_settled w' n \<or> item_due w' n"
  using assms(1)
proof (cases rule: cmt_step.cases)
  case (created obj)
  show ?thesis
  proof (cases "n \<in> set (event_requests (obj # cw_items w) obj)")
    case True
    then show ?thesis unfolding created item_due_def by simp
  next
    case False
    have "reported_rightly (obj # cw_items w) x" if x: "x \<in> set (obj # cw_items w)" "cmt_Name x = n" for x
    proof -
      have "x \<in> set (cw_items w)" using x False by (auto simp: event_requests_def)
      moreover have "isSupersededDuplicate (obj # cw_items w) x = isSupersededDuplicate (cw_items w) x"
        by (rule superseded_others [OF x(1)]) (use False x(2) created(2) in \<open>auto intro: rev_image_eqI\<close>)
      ultimately show ?thesis using assms(3) x(2) by (simp add: item_settled_def reported_rightly_def)
    qed
    then show ?thesis unfolding created item_settled_def by simp
  qed
next
  case (deleted obj)
  let ?items = "filter (\<lambda>x. cmt_Name x \<noteq> cmt_Name obj) (cw_items w)"
  show ?thesis
  proof (cases "n \<in> set (event_requests ?items obj)")
    case True
    then show ?thesis unfolding deleted item_due_def by simp
  next
    case False
    have "reported_rightly ?items x" if x: "x \<in> set ?items" "cmt_Name x = n" for x
    proof -
      have "isSupersededDuplicate ?items x = isSupersededDuplicate (cw_items w) x"
        by (rule superseded_others [OF x(1), of obj]) (use False x(2) named_item [OF assms(2) _ deleted(2)] in auto)
      then show ?thesis using assms(3) x by (simp add: item_settled_def reported_rightly_def)
    qed
    then have "item_settled w' n" unfolding deleted item_settled_def cw_store_sel by blast
    then show ?thesis ..
  qed
next
  case (updated obj obj')
  then show ?thesis using replaced_settled [OF assms(2) updated(2,3) assms(3)]
    by (cases "n = cmt_Name obj'") (auto simp: item_due_def item_settled_def event_requests_def)
next
  case (reconcile obj due retry s r obj' s' stored w1 backoff)
  show ?thesis
  proof (cases "n = cmt_Name obj")
    case True
    then show ?thesis using cmt_reconcile_settles [OF assms(2) reconcile(4,5,7,8,9,1)] by blast
  next
    case False
    have i: "identity stored = identity obj" using cmt_Reconcile_right(1) [OF reconcile(7,5)] reconcile(8) by auto
    then have "cmt_Name stored = cmt_Name obj" by (simp add: identity_def)
    with False replaced_settled [OF assms(2) reconcile(4) i assms(3)] show ?thesis
      using assms(3) reconcile(9) unfolding reconcile(1) by (auto simp: item_settled_def)
  qed
qed (use assms(3) in \<open>auto simp: item_settled_def\<close>)

lemma cmt_step_due:
  assumes "cmt_step d w w'" "items_named w" "item_due w n"
  shows "item_settled w' n \<or> item_due w' n"
  using assms(1)
proof (cases rule: cmt_step.cases)
  case (wait t)
  with assms(3) show ?thesis by (auto simp: item_due_def intro: due_later)
next
  case (gone m due retry)
  with assms(3) show ?thesis by (cases "n = m") (auto simp: item_settled_def item_due_def due_serve_other)
next
  case (reconcile obj due retry s r obj' s' stored w1 backoff)
  show ?thesis
  proof (cases "n = cmt_Name obj")
    case True
    then show ?thesis using cmt_reconcile_settles [OF assms(2) reconcile(4,5,7,8,9,1)] by blast
  next
    case False
    with assms(3) show ?thesis unfolding reconcile(1,9) item_due_def by (auto simp: due_serve_other)
  qed
qed (use assms(3) in \<open>auto simp: item_due_def\<close>)

interpretation cmt_loop: settling items_named "cmt_step d" item_settled item_due for d
  using cmt_step_named cmt_step_settled cmt_step_due by unfold_locales blast+


text \<open>A registration that is made, resolved and looked at once more.\<close>

definition example_registration :: GCECustomMachineType where
  "example_registration = \<lparr>cmt_Meta = zero_meta\<lparr>om_Name := ''a'', om_CreationTimestamp := 4\<rparr>, cmt_MachineType = ''n2-custom-8-24576'', cmt_OnDemand = ''2'', cmt_Spot = ''1'',
     cmt_GuestCpus = 0, cmt_MemoryMb = 0, cmt_Zones = [], cmt_Conditions = []\<rparr>"

definition example_resolved_registration :: GCECustomMachineType where
  "example_resolved_registration = set_ready CondTrue ''Ready'' [] (example_registration\<lparr>cmt_GuestCpus := 8, cmt_MemoryMb := 24576, cmt_Zones := [''r-a'']\<rparr>)"

definition example_watch_deps :: "GCECustomMachineType list cmt_deps" where
  "example_watch_deps = \<lparr>cd_listRegistrations = Inr, cd_ResolveClusterZones = (\<lambda>s. (Inr [''r-a''], s)), cd_getMachineType = (\<lambda>_ _ s. (Inr (Some (8, 24576)), s)), cd_patchStatus = (\<lambda>_ s. (None, s))\<rparr>"

definition example_cmt_world :: "GCECustomMachineType \<Rightarrow> work_queue \<Rightarrow> cmt_world" where
  "example_cmt_world obj q = \<lparr>cw_now = 0, cw_items = [obj], cw_queue = q\<rparr>"


end
