(* ===== verification/Spec2Isabelle.thy ===== *)
theory Spec2Isabelle
  imports Metadata_Roundtrip Disk_Type Launch_Safety Garbage_Collection Interruption Custom_Machine_Types Node_Class_Control Csr Instance_Catalog Nodepool_Template Telemetry Operator_Options Price_Page E2e_Runner Node_Repair Capacity_Feedback Node_Class_Watch Machine_Type_Watch
begin

text \<open>
  \<^bold>\<open>karpenter-provider-gcp\<close>: the Google Cloud provider of the Karpenter node autoscaler. Karpenter core asks the cloud
  provider (\<^verbatim>\<open>pkg/cloudprovider\<close>) for machines; the cloud provider asks the instance provider (\<^verbatim>\<open>pkg/providers/instance\<close>) to launch, list
  and delete Compute Engine instances, which in turn uses the providers of cluster configuration, instance types, images,
  subnets, prices and templates, the cache of unavailable offerings, and the metadata package; controllers under
  \<^verbatim>\<open>pkg/controllers\<close> keep the API objects and the cloud in step. This library models that code as functions and step
  relations and proves what makes it correct. Every definition keeps the name of the function, method, type or
  constant it translates wherever HOL allows it.

  \<^bold>\<open>How Go is modelled.\<close> Slices are lists, maps association lists with distinct keys (\<open>gomap\<close>), strings lists of characters,
  \<^verbatim>\<open>int\<close> values unbounded integers except where the width matters (written out with \<open>mod\<close> or as words), times and durations
  nanoseconds. A result \<^verbatim>\<open>(T, error)\<close> is a sum with the error on the left; errors are values of \<open>go_error\<close>, a datatype with one
  constructor per error type and \<^verbatim>\<open>fmt.Errorf\<close> with the errors it wraps. Code outside the repository that is not vendored
  (the Compute, Container and Kubernetes APIs, the clock, randomness, YAML) is an argument: a record of functions over an
  abstract outside state \<open>'s\<close> that every call threads, so that nothing is assumed about it but what a theorem states. Structs are
  records; methods that change their receiver return it. Logging, metrics and events are left out.

  \<^bold>\<open>The theories.\<close>
  \<^item> \<open>Go_Base\<close>, \<open>Go_Strings\<close>, \<open>Go_Errors\<close>: the prelude. Maps, slices, sorting (\<open>sort_slice\<close> with the lemma that it sorts for every strict weak
    order), strings and numbers, error chains with \<^verbatim>\<open>errors.As\<close>.
  \<^item> \<open>Go_Float\<close>: \<^verbatim>\<open>float64\<close> as the rationals a double holds: every operation is exact arithmetic followed by rounding to 53 bits, ties to even, with the
    error bound and monotonicity of the rounding.
  \<^item> \<open>Go_Url\<close>, \<open>Go_Time\<close>: \<^verbatim>\<open>url.Parse\<close> as far as it decides on the path of a link, and \<^verbatim>\<open>time.Parse\<close> for RFC 3339 with its calendar.
  \<^item> \<open>Go_Sha256\<close>: SHA-256 on 32-bit words, behind \<^verbatim>\<open>Hash\<close> of \<^verbatim>\<open>pkg/utils\<close>.
  \<^item> \<open>Requirements\<close>: the vendored scheduling requirements, offerings and instance types, with the lemmas that make a
    requirement a set of values.
  \<^item> \<open>Go_Cache\<close>: the vendored expiring cache; its interface is the locale \<open>ttl_cache\<close>, interpreted on it.
  \<^item> \<open>Unavailable_Offerings\<close> (\<^verbatim>\<open>pkg/providers/offerings\<close>): an offering is unavailable exactly until the end of its last mark.
  \<^item> \<open>Local_SSD\<close>, \<open>Disk_Type\<close>, \<open>Provider_Utils\<close> (\<^verbatim>\<open>pkg/utils\<close>, \<^verbatim>\<open>pkg/providers/disktype\<close>, image matching of \<^verbatim>\<open>pkg/providers/imagefamily\<close>): tables and
    label values.
  \<^item> \<open>Api_Types\<close> (\<^verbatim>\<open>pkg/apis/v1alpha1\<close>), \<open>Compute_Types\<close> (structs of the APIs and of \<^verbatim>\<open>types.go\<close>).
  \<^item> \<open>Instance_Metadata\<close>, \<open>Metadata_Roundtrip\<close> (\<^verbatim>\<open>pkg/metadata\<close>): parsing and rendering of \<^verbatim>\<open>kube-env\<close> and kubelet arguments, and that they are inverse.
  \<^item> \<open>Gke\<close> (\<^verbatim>\<open>pkg/providers/gke\<close>): the cluster configuration cache as a step relation with fetches in flight; no stale
    configuration survives an invalidation.
  \<^item> \<open>Gke_Version\<close> (\<^verbatim>\<open>pkg/providers/version\<close>, \<^verbatim>\<open>gke/version.go\<close>): the version cache and the version of a release channel for the minor version of
    the cluster.
  \<^item> \<open>Go_Regexp\<close>, \<open>Image_Family\<close>, \<open>Image_Provider\<close> (\<^verbatim>\<open>pkg/providers/imagefamily\<close>): the regular expressions the code uses, the resolution of Container-Optimized OS and Ubuntu
    images, and the provider with its cache. What a family promises is the locale \<open>image_family\<close>, interpreted for both: every listed image
    was seen ready.
  \<^item> \<open>Subnet\<close> (\<^verbatim>\<open>pkg/providers/subnet\<close>): the forms a subnetwork can be named in, and a snapshot cache whose answers are the last fetch, never older than its
    time to live.
  \<^item> \<open>Instance_Errors\<close>, \<open>Node_Bootstrap\<close>, \<open>Instance_Build\<close>, \<open>Instance_Launch\<close>, \<open>Launch_Choice\<close>, \<open>Launch_Safety\<close>, \<open>Instance_Lifecycle\<close>
    (\<^verbatim>\<open>pkg/providers/instance\<close>): in this order, the classification of failures and waiting for an operation; the metadata a node boots
    from; the instance that is sent; \<^verbatim>\<open>Create\<close> with everything it calls; what it chooses; what it does to the cloud;
    \<^verbatim>\<open>Get\<close>, \<^verbatim>\<open>List\<close>, \<^verbatim>\<open>Delete\<close>, \<^verbatim>\<open>CreateTags\<close> and the instance cache. \<open>launch_state\<close> carries a history of inserts, and \<open>vm_faithful\<close> says
    what the launch relies on of the Compute service.
  \<^item> \<open>Cloud_Provider\<close> (\<^verbatim>\<open>pkg/cloudprovider\<close>): creation, listing, instance types for scheduling, drift.
  \<^item> \<open>Node_Repair\<close> (\<^verbatim>\<open>RepairPolicies\<close> of \<^verbatim>\<open>pkg/cloudprovider\<close>, vendored \<^verbatim>\<open>controllers/node/health/policy.go\<close>): the repair policies under the code of karpenter core that validates and
    evaluates them; they replace exactly the nodes whose condition has lasted its time.
  \<^item> \<open>Garbage_Collection\<close> (\<^verbatim>\<open>pkg/controllers/nodeclaim/garbagecollection\<close>): what may be deleted, proved in the locale \<open>owned_lister\<close>, which the
    instance provider interprets.
  \<^item> \<open>Interruption\<close> (\<^verbatim>\<open>pkg/controllers/interruption\<close>): exactly the claims of interrupted nodes are deleted, exactly the preempted offerings are
    taken out.
  \<^item> \<open>Capacity_Feedback\<close>: the launch, the interruption controller, the cache of unavailable offerings, the zone selection and the catalog together; a zone that ran out and a preempted offering are left alone for their time.
  \<^item> \<open>Custom_Machine_Types\<close> (\<^verbatim>\<open>pkg/controllers/gcecustommachinetype\<close>): of several registrations of one machine type exactly one counts; a failing
    lookup keeps a zone that was already resolved.
  \<^item> \<open>Status_Conditions\<close> (vendored \<^verbatim>\<open>operatorpkg/status\<close>), \<open>Node_Class_Control\<close> (\<^verbatim>\<open>pkg/controllers/nodeclass\<close>): a node class is ready exactly when its images resolved, what
    is published selects as what was resolved, and the finalizer stays while a claim needs it.
  \<^item> \<open>Work_Queue\<close>, \<open>Node_Class_Watch\<close>, \<open>Machine_Type_Watch\<close> (\<^verbatim>\<open>Register\<close> of \<^verbatim>\<open>pkg/controllers/nodeclass/termination\<close> and \<^verbatim>\<open>pkg/controllers/gcecustommachinetype\<close>): the queue of a controller and what a controller over it
    promises, the locale \<open>settling\<close>; both controllers interpret it, as step relations that interleave events, failures and reconciles. An unused class is released, and duplicates are reported rightly, without waiting for a period.
  \<^item> \<open>Reserved\<close> (\<^verbatim>\<open>pkg/utils\<close>): the resources a node keeps back, in double arithmetic, equal to the documented tiers in integers.
  \<^item> \<open>Pricing\<close> (\<^verbatim>\<open>pkg/providers/pricing\<close>, \<^verbatim>\<open>pkg/controllers/providers/pricing\<close>): the price list and the provider, which never runs out of prices.
  \<^item> \<open>Instance_Type\<close>, \<open>Instance_Catalog\<close> (\<^verbatim>\<open>pkg/providers/instancetype\<close>, \<^verbatim>\<open>pkg/controllers/providers/instancetype\<close>): capacity, overhead and requirements of an instance type; the
    catalog with its cache of static shapes, whose hits equal a fresh computation in every state a sequence of calls and refreshes reaches; its offerings; the prices
    of custom machine types.
  \<^item> \<open>Nodepool_Template\<close> (\<^verbatim>\<open>pkg/providers/nodepooltemplate\<close>, \<^verbatim>\<open>pkg/controllers/nodepooltemplate\<close>): the node pool whose template new nodes boot from. A pool is selected as soon as one
    runs, otherwise exactly one fallback pool is created; the template is the newest one the pool is running.
  \<^item> \<open>Telemetry\<close> (\<^verbatim>\<open>pkg/controllers/telemetry\<close>): the events of interrupted nodes, stored by the reconciler and pushed by a goroutine of its own; however the two interleave,
    none is lost or made up, and the cluster and its nodes are identified by digests only.
  \<^item> \<open>Go_Flag\<close>, \<open>Operator_Options\<close> (\<^verbatim>\<open>pkg/operator\<close>, \<^verbatim>\<open>pkg/controllers/controllers.go\<close>): the package \<^verbatim>\<open>flag\<close>, booleans and durations as they are read; the options with
    their flags, environment and validation, the region of a location, and what is built from them.
  \<^item> \<open>E2e_Lease\<close>, \<open>E2e_Report\<close>, \<open>E2e_Runner\<close> (\<^verbatim>\<open>hack/e2e-runner\<close>): the lease that keeps two test runs off one cluster, as a system of runners over an API server with versions;
    the report, which accounts for every test; the run.
  \<^item> \<open>Price_Compare\<close>, \<open>Price_Page\<close> (\<^verbatim>\<open>hack/price_validate\<close>): the comparison of computed prices with two references, of which one is the same list that the provider reads and the other is read off web
    pages; every price is compared once, and a page is read back as the prices it shows.
  \<^item> \<open>Csr\<close> (\<^verbatim>\<open>pkg/controllers/csr\<close>): exactly the pending kubelet client requests are approved.

  \<^bold>\<open>Loops.\<close> Loops over slices are structural recursion. \<^verbatim>\<open>waitOperationDone\<close> polls once per tick and its context has a deadline, so it recurses on
  the number of ticks left before it; the argument is whatever the caller's context leaves, and every statement is for all
  values of it. \<^verbatim>\<open>scanImages\<close> follows page tokens as long as the API returns them, which nothing bounds: it is a partial function whose value is \<open>None\<close> when it
  never ends, and the statement about the newest image says that it returns on every finite listing.

  \<^bold>\<open>Not modelled.\<close> The entry point in \<^verbatim>\<open>cmd\<close>, which hands the providers to karpenter core; the registration of the controllers with the manager except where its watches and predicates are modelled (\<^verbatim>\<open>Node_Class_Watch\<close>, \<^verbatim>\<open>Machine_Type_Watch\<close>); logging and published events; the generated deep-copy methods, which are the identity on values; where the modelled code calls other code it is
  an argument. The order in which Go visits a map is the order of the association list. Overflow to infinity and NaN do not occur in the values
  computed with doubles and have no counterpart.
\<close>

end
